(* ===== verification/Js_Prelude.thy ===== *)
theory Js_Prelude
  imports Main "HOL-Library.Char_ord" "HOL-Library.List_Lexorder" "HOL-Library.Sublist"
begin

text \<open>
  The part of the JavaScript language and standard library that the console code uses:
  strings and their methods, property bags, and the result and effect types in which a
  \<open>throw\<close> is a value. Strings are sequences of UTF-16 code units; the model covers the
  code units below 256 (\<^typ>\<open>char\<close>), which include every character the Kubernetes
  names, labels, addresses and quantities of this program are made of. The em dash and the
  quotation marks of some fixed messages are outside that range; they are spelled in ASCII.
\<close>

named_theorems js_simps \<open>equations of the string and object operations, for evaluation\<close>
named_theorems act_simps \<open>equations of the effectful combinators\<close>

section \<open>Strings\<close>

text \<open>The stand-in for U+2014.\<close>

definition em_dash :: string where "em_dash = ''--''"

text \<open>White space for \<open>String.prototype.trim\<close> and \<open>\\s\<close>, within the code units below 256.\<close>

definition js_space :: "char \<Rightarrow> bool" where
  "js_space c \<longleftrightarrow>
     c = CHR 0x09 \<or> c = CHR 0x0A \<or> c = CHR 0x0B \<or> c = CHR 0x0C \<or> c = CHR 0x0D \<or>
     c = CHR 0x20 \<or> c = CHR 0xA0"

definition js_trim_start :: "string \<Rightarrow> string" where
  "js_trim_start s = dropWhile js_space s"

definition js_trim_end :: "string \<Rightarrow> string" where
  "js_trim_end s = rev (dropWhile js_space (rev s))"

definition js_trim :: "string \<Rightarrow> string" where
  "js_trim s = js_trim_end (js_trim_start s)"

text \<open>\<open>s.split(c)\<close> and \<open>xs.join(sep)\<close>.\<close>

fun js_split :: "char \<Rightarrow> string \<Rightarrow> string list" where
  "js_split c [] = [[]]"
| "js_split c (x # xs) =
     (if x = c then [] # js_split c xs
      else (case js_split c xs of [] \<Rightarrow> [[x]] | y # ys \<Rightarrow> (x # y) # ys))"

fun js_join :: "string \<Rightarrow> string list \<Rightarrow> string" where
  "js_join sep [] = []"
| "js_join sep (x # xs) = (if xs = [] then x else x @ sep @ js_join sep xs)"

text \<open>\<open>indexOf\<close> and \<open>lastIndexOf\<close> of one character; \<open>-1\<close> when absent.\<close>

fun js_index_of :: "char \<Rightarrow> string \<Rightarrow> int" where
  "js_index_of c [] = -1"
| "js_index_of c (x # xs) =
     (if x = c then 0 else (let i = js_index_of c xs in if i < 0 then -1 else i + 1))"

fun js_last_index_of :: "char \<Rightarrow> string \<Rightarrow> int" where
  "js_last_index_of c [] = -1"
| "js_last_index_of c (x # xs) =
     (let i = js_last_index_of c xs in if i < 0 then (if x = c then 0 else -1) else i + 1)"

text \<open>\<open>s.slice(a, b)\<close>: negative indices count from the end, both ends are clamped.\<close>

definition js_clamp_index :: "string \<Rightarrow> int \<Rightarrow> nat" where
  "js_clamp_index s i =
     (let n = int (length s) in nat (if i < 0 then max 0 (n + i) else min i n))"

definition js_slice :: "string \<Rightarrow> int \<Rightarrow> int \<Rightarrow> string" where
  "js_slice s a b =
     (let i = js_clamp_index s a; j = js_clamp_index s b in take (j - i) (drop i s))"

definition js_slice_from :: "string \<Rightarrow> int \<Rightarrow> string" where
  "js_slice_from s a = drop (js_clamp_index s a) s"

definition js_starts_with :: "string \<Rightarrow> string \<Rightarrow> bool" where
  "js_starts_with s p \<longleftrightarrow> take (length p) s = p"

definition js_ends_with :: "string \<Rightarrow> string \<Rightarrow> bool" where
  "js_ends_with s p \<longleftrightarrow> js_starts_with (rev s) (rev p)"

fun js_includes :: "string \<Rightarrow> string \<Rightarrow> bool" where
  "js_includes [] p = (p = [])"
| "js_includes (x # xs) p = (js_starts_with (x # xs) p \<or> js_includes xs p)"

definition js_has_char :: "char \<Rightarrow> string \<Rightarrow> bool" where
  "js_has_char c s \<longleftrightarrow> c \<in> set s"

text \<open>\<open>replaceAll\<close> of one character by another.\<close>

definition js_replace_all :: "char \<Rightarrow> char \<Rightarrow> string \<Rightarrow> string" where
  "js_replace_all a b s = map (\<lambda>c. if c = a then b else c) s"

text \<open>\<open>toLowerCase\<close>: A-Z and the upper-case letters of the range 0xC0-0xDE.\<close>

definition char_code :: "char \<Rightarrow> nat" where
  "char_code c = of_char c"

definition js_lower_char :: "char \<Rightarrow> char" where
  "js_lower_char c =
     (let n = char_code c in
      if (65 \<le> n \<and> n \<le> 90) \<or> (192 \<le> n \<and> n \<le> 222 \<and> n \<noteq> 215) then char_of (n + 32) else c)"

definition js_lower :: "string \<Rightarrow> string" where
  "js_lower s = map js_lower_char s"

text \<open>
  \<open>toUpperCase\<close>; the three letters whose capital is not a single char below 256 stay as they are.
\<close>

definition js_upper_char :: "char \<Rightarrow> char" where
  "js_upper_char c =
     (let n = char_code c in
      if (97 \<le> n \<and> n \<le> 122) \<or> (224 \<le> n \<and> n \<le> 254 \<and> n \<noteq> 247) then char_of (n - 32) else c)"

definition js_upper :: "string \<Rightarrow> string" where
  "js_upper s = map js_upper_char s"

definition is_digit :: "char \<Rightarrow> bool" where
  "is_digit c \<longleftrightarrow> 48 \<le> char_code c \<and> char_code c \<le> 57"

definition is_lower_alpha :: "char \<Rightarrow> bool" where
  "is_lower_alpha c \<longleftrightarrow> 97 \<le> char_code c \<and> char_code c \<le> 122"

definition is_upper_alpha :: "char \<Rightarrow> bool" where
  "is_upper_alpha c \<longleftrightarrow> 65 \<le> char_code c \<and> char_code c \<le> 90"

definition is_alnum :: "char \<Rightarrow> bool" where
  "is_alnum c \<longleftrightarrow> is_digit c \<or> is_lower_alpha c \<or> is_upper_alpha c"

text \<open>The number that a run of decimal digits denotes, and \<open>String(n)\<close> of a natural number.\<close>

definition digit_val :: "char \<Rightarrow> int" where
  "digit_val c = int (char_code c) - 48"

definition digits_val :: "string \<Rightarrow> int" where
  "digits_val s = foldl (\<lambda>n c. 10 * n + digit_val c) 0 s"

definition digit_char :: "nat \<Rightarrow> char" where
  "digit_char n = char_of (48 + n)"

fun nat_str :: "nat \<Rightarrow> string" where
  "nat_str n = (if n < 10 then [digit_char n] else nat_str (n div 10) @ [digit_char (n mod 10)])"

declare nat_str.simps [simp del]

definition int_str :: "int \<Rightarrow> string" where
  "int_str i = (if i < 0 then ''-'' @ nat_str (nat (- i)) else nat_str (nat i))"

text \<open>The order of first occurrences: \<open>[...new Set(xs)]\<close>.\<close>

fun js_uniq_acc :: "'a list \<Rightarrow> 'a list \<Rightarrow> 'a list" where
  "js_uniq_acc seen [] = []"
| "js_uniq_acc seen (x # xs) =
     (if x \<in> set seen then js_uniq_acc seen xs else x # js_uniq_acc (x # seen) xs)"

definition js_uniq :: "'a list \<Rightarrow> 'a list" where
  "js_uniq xs = js_uniq_acc [] xs"

text \<open>\<open>xs.sort()\<close> without a comparator: by code units.\<close>

definition js_sort :: "string list \<Rightarrow> string list" where
  "js_sort xs = sort xs"

text \<open>Sorting by a comparison, as the stable \<open>Array.prototype.sort\<close> does, is a fold of this insertion.\<close>

fun insert_by :: "('a \<Rightarrow> 'a \<Rightarrow> bool) \<Rightarrow> 'a \<Rightarrow> 'a list \<Rightarrow> 'a list" where
  "insert_by le e [] = [e]"
| "insert_by le e (x # xs) = (if le e x then e # x # xs else x # insert_by le e xs)"

definition sort_by :: "('a \<Rightarrow> 'a \<Rightarrow> bool) \<Rightarrow> 'a list \<Rightarrow> 'a list" where
  "sort_by le xs = foldr (insert_by le) xs []"


text \<open>Three-way comparisons chained with \<open>if (c) return c\<close>, as an order on the compared pairs.\<close>

fun before_by :: "(string \<Rightarrow> string \<Rightarrow> bool) \<Rightarrow> (string \<times> string) list \<Rightarrow> bool" where
  "before_by le [] = True"
| "before_by le ((x, y) # rest) = (if le x y \<and> le y x then before_by le rest else le x y)"

section \<open>Lemmas on strings\<close>

lemma char_code_less [simp]: "char_code c < 256"
  by (simp add: char_code_def)

lemma char_of_char_code [simp]: "char_of (char_code c) = c"
  by (simp add: char_code_def)

lemma char_code_char_of [simp]: "n < 256 \<Longrightarrow> char_code (char_of n) = n"
  by (simp add: char_code_def)

lemma char_code_eq_iff: "char_code a = char_code b \<longleftrightarrow> a = b"
  by (metis char_of_char_code)

lemma digit_val_digit_char [simp]: "n < 10 \<Longrightarrow> digit_val (digit_char n) = int n"
  by (simp add: digit_val_def digit_char_def)

lemma is_digit_digit_char [simp]: "n < 10 \<Longrightarrow> is_digit (digit_char n)"
  by (simp add: is_digit_def digit_char_def)

lemma digit_char_digit_val [simp]: "is_digit c \<Longrightarrow> digit_char (nat (digit_val c)) = c"
  by (simp add: is_digit_def digit_char_def digit_val_def nat_diff_distrib')

lemma digit_val_bounds: "is_digit c \<Longrightarrow> 0 \<le> digit_val c \<and> digit_val c < 10"
  unfolding is_digit_def digit_val_def by linarith

lemma digits_val_nonneg: "list_all is_digit s \<Longrightarrow> 0 \<le> digits_val s"
  by (induction s rule: rev_induct) (auto simp: digits_val_def dest: digit_val_bounds)

lemma digits_val_Nil [simp]: "digits_val [] = 0"
  by (simp add: digits_val_def)

lemma digits_val_snoc [simp]: "digits_val (xs @ [c]) = 10 * digits_val xs + digit_val c"
  by (simp add: digits_val_def)

lemma digits_val_single [simp]: "digits_val [c] = digit_val c"
  by (simp add: digits_val_def)

lemma nat_str_not_Nil [simp]: "nat_str n \<noteq> []"
  by (subst nat_str.simps) simp

lemma nat_str_digits: "list_all is_digit (nat_str n)"
proof (induction n rule: nat_str.induct)
  case (1 n)
  show ?case
    using "1.IH" by (subst nat_str.simps) auto
qed

lemma nat_str_digit: "c \<in> set (nat_str n) \<Longrightarrow> is_digit c"
  using nat_str_digits [of n] by (auto simp: list_all_iff)

lemma digits_val_nat_str [simp]: "digits_val (nat_str n) = int n"
proof (induction n rule: nat_str.induct)
  case (1 n)
  have "10 * int (n div 10) + int (n mod 10) = int n" by presburger
  then show ?case
    using "1.IH" by (subst nat_str.simps) auto
qed

lemma nat_str_inject [simp]: "nat_str m = nat_str n \<longleftrightarrow> m = n"
  by (metis digits_val_nat_str of_nat_eq_iff)

lemma is_digit_cases:
  "is_digit c \<Longrightarrow> c \<noteq> CHR ''.'' \<and> c \<noteq> CHR ''-'' \<and> c \<noteq> CHR ''/'' \<and> c \<noteq> CHR '':'' \<and> \<not> js_space c"
  by (auto simp: is_digit_def char_code_def js_space_def)

lemma nat_str_char: "\<not> is_digit c \<Longrightarrow> c \<notin> set (nat_str n)"
  using nat_str_digit by blast

lemma not_is_digit [simp]:
  "\<not> is_digit (CHR ''.'')" "\<not> is_digit (CHR ''-'')" "\<not> is_digit (CHR ''/'')" "\<not> is_digit (CHR '':'')"
  by (simp_all add: is_digit_def char_code_def)

text \<open>Trimming.\<close>

lemma js_trim_start_id: "s = [] \<or> \<not> js_space (hd s) \<Longrightarrow> js_trim_start s = s"
  by (cases s) (auto simp: js_trim_start_def)

lemma js_trim_end_id: "s = [] \<or> \<not> js_space (last s) \<Longrightarrow> js_trim_end s = s"
  by (cases s rule: rev_cases) (auto simp: js_trim_end_def)

lemma js_trim_id:
  "s = [] \<or> (\<not> js_space (hd s) \<and> \<not> js_space (last s)) \<Longrightarrow> js_trim s = s"
  by (auto simp: js_trim_def js_trim_start_id js_trim_end_id)

lemma js_trim_no_space: "\<forall>c \<in> set s. \<not> js_space c \<Longrightarrow> js_trim s = s"
  by (rule js_trim_id) (cases "s = []"; simp)

lemma js_trim_Nil [simp]: "js_trim [] = []"
  by (simp add: js_trim_id)

lemma js_trim_start_hd: "js_trim_start s \<noteq> [] \<Longrightarrow> \<not> js_space (hd (js_trim_start s))"
  unfolding js_trim_start_def by (rule hd_dropWhile)

lemma js_trim_end_last: "js_trim_end s \<noteq> [] \<Longrightarrow> \<not> js_space (last (js_trim_end s))"
  unfolding js_trim_end_def by (simp add: last_rev hd_dropWhile)

lemma js_trim_end_prefix: "\<exists>w. s = js_trim_end s @ w \<and> (\<forall>c \<in> set w. js_space c)"
proof -
  have "rev s = takeWhile js_space (rev s) @ dropWhile js_space (rev s)"
    by simp
  then have "s = rev (dropWhile js_space (rev s)) @ rev (takeWhile js_space (rev s))"
    by (metis rev_append rev_rev_ident)
  then show ?thesis
    by (auto simp: js_trim_end_def intro!: exI [of _ "rev (takeWhile js_space (rev s))"]
        dest: set_takeWhileD)
qed

lemma js_trim_last: "js_trim s \<noteq> [] \<Longrightarrow> \<not> js_space (last (js_trim s))"
  unfolding js_trim_def by (rule js_trim_end_last)

lemma js_trim_hd: "js_trim s \<noteq> [] \<Longrightarrow> \<not> js_space (hd (js_trim s))"
proof -
  assume ne: "js_trim s \<noteq> []"
  obtain w where w: "js_trim_start s = js_trim s @ w"
    using js_trim_end_prefix [of "js_trim_start s"] by (auto simp: js_trim_def)
  then have "js_trim_start s \<noteq> []" "hd (js_trim_start s) = hd (js_trim s)"
    using ne by auto
  then show ?thesis
    using js_trim_start_hd [of s] by simp
qed

lemma js_trim_idem [simp]: "js_trim (js_trim s) = js_trim s"
  by (rule js_trim_id) (use js_trim_hd js_trim_last in blast)

lemma set_js_trim: "c \<in> set (js_trim s) \<Longrightarrow> c \<in> set s"
  by (auto simp: js_trim_def js_trim_end_def js_trim_start_def dest!: set_dropWhileD)

lemma js_trim_split_spaces:
  "\<exists>u w. s = u @ js_trim s @ w \<and> (\<forall>c \<in> set u \<union> set w. js_space c)"
proof -
  have "s = takeWhile js_space s @ js_trim_start s"
    by (simp add: js_trim_start_def)
  moreover obtain w where "js_trim_start s = js_trim s @ w" "\<forall>c \<in> set w. js_space c"
    using js_trim_end_prefix [of "js_trim_start s"] by (auto simp: js_trim_def)
  ultimately show ?thesis
    by (metis Un_iff set_takeWhileD)
qed

text \<open>Splitting and joining are inverse to each other.\<close>

lemma js_split_not_Nil [simp]: "js_split c s \<noteq> []"
  by (induction s) (auto split: list.splits)

lemma js_join_Cons: "xs \<noteq> [] \<Longrightarrow> js_join sep (x # xs) = x @ sep @ js_join sep xs"
  by simp

lemma js_join_hd: "js_join sep ((a # x) # xs) = a # js_join sep (x # xs)"
  by simp

lemma js_join_split [simp]: "js_join [c] (js_split c s) = s"
  by (induction s) (auto split: list.splits)

lemma js_split_no_sep: "x \<in> set (js_split c s) \<Longrightarrow> c \<notin> set x"
  by (induction s arbitrary: x) (auto split: list.splits if_splits)

lemma js_split_single: "c \<notin> set x \<Longrightarrow> js_split c x = [x]"
  by (induction x) auto

lemma js_split_append: "c \<notin> set x \<Longrightarrow> js_split c (x @ c # s) = x # js_split c s"
  by (induction x) auto

lemma split_concat: "js_split c (x @ [c] @ y) = js_split c x @ js_split c y"
  by (induction x) (auto split: list.splits)

lemma js_split_join: "xs \<noteq> [] \<Longrightarrow> \<forall>x \<in> set xs. c \<notin> set x \<Longrightarrow> js_split c (js_join [c] xs) = xs"
  by (induction xs) (auto simp: js_split_single js_split_append)

lemma set_js_split: "x \<in> set (js_split c s) \<Longrightarrow> a \<in> set x \<Longrightarrow> a \<in> set s"
  by (induction s arbitrary: x) (fastforce split: list.splits if_splits)+

lemma set_js_join:
  "a \<in> set (js_join sep xs) \<longleftrightarrow> (\<exists>x \<in> set xs. a \<in> set x) \<or> (a \<in> set sep \<and> 1 < length xs)"
  by (induction xs) auto

text \<open>The index of a separator cuts the string into what is before and after it.\<close>

lemma js_index_of_ge: "-1 \<le> js_index_of c s"
  by (induction s) (auto simp: Let_def)

lemma js_index_of_neg: "js_index_of c s < 0 \<longleftrightarrow> c \<notin> set s"
  by (induction s) (auto simp: Let_def)

lemma js_index_of_less: "js_index_of c s < int (length s)"
  by (induction s) (auto simp: Let_def)

lemma js_index_of_append: "c \<notin> set x \<Longrightarrow> js_index_of c (x @ c # y) = int (length x)"
  by (induction x) (auto simp: Let_def)

lemma js_index_of_cut:
  assumes "0 \<le> js_index_of c s"
  obtains x y where "s = x @ c # y" "c \<notin> set x" "js_index_of c s = int (length x)"
proof -
  have "c \<in> set s" using assms js_index_of_neg [of c s] by force
  then obtain x y where "s = x @ c # y" "c \<notin> set x"
    by (metis split_list_first)
  then show thesis using that js_index_of_append by metis
qed

lemma js_slice_0_length [simp]: "js_slice (x @ y) 0 (int (length x)) = x"
  by (simp add: js_slice_def js_clamp_index_def Let_def)

lemma js_slice_from_length [simp]: "js_slice_from (x @ y) (int (length x)) = y"
  by (simp add: js_slice_from_def js_clamp_index_def Let_def)

lemma js_slice_from_Suc_length [simp]: "js_slice_from (x @ c # y) (int (length x) + 1) = y"
  using js_slice_from_length [of "x @ [c]" y] by (simp add: algebra_simps)

lemma js_slice_prefix: "0 \<le> i \<Longrightarrow> js_slice s 0 i = take (nat i) s"
  by (cases "i \<le> int (length s)") (simp_all add: js_slice_def js_clamp_index_def Let_def)

lemma js_starts_with_append [simp]: "js_starts_with (p @ s) p"
  by (simp add: js_starts_with_def)

lemma js_starts_with_prefix: "js_starts_with s p \<longleftrightarrow> prefix p s"
  by (metis append_eq_conv_conj append_take_drop_id js_starts_with_def prefix_def)

lemma js_ends_with_suffix: "js_ends_with s p \<longleftrightarrow> suffix p s"
  by (simp add: js_ends_with_def js_starts_with_prefix suffix_to_prefix)

lemma js_includes_sublist: "js_includes s p \<longleftrightarrow> sublist p s"
  by (induction s) (auto simp: js_starts_with_prefix sublist_Cons_right)

lemma js_includesI: "js_includes (a @ p @ b) p"
  by (auto simp: js_includes_sublist)

lemma length_js_replace_all [simp]: "length (js_replace_all a b s) = length s"
  by (simp add: js_replace_all_def)

lemma js_replace_all_append [simp]:
  "js_replace_all a b (s @ t) = js_replace_all a b s @ js_replace_all a b t"
  by (simp add: js_replace_all_def)

lemma js_replace_all_id: "a \<notin> set s \<Longrightarrow> js_replace_all a b s = s"
  by (induction s) (auto simp: js_replace_all_def)

lemma js_replace_all_inj:
  "js_replace_all a b s = js_replace_all a b t \<Longrightarrow> b \<notin> set s \<Longrightarrow> b \<notin> set t \<Longrightarrow> s = t"
  by (induction s arbitrary: t) (auto simp: js_replace_all_def split: if_splits)

lemma js_lower_append [simp]: "js_lower (s @ t) = js_lower s @ js_lower t"
  by (simp add: js_lower_def)

text \<open>Removing duplicates keeps the elements.\<close>

lemma set_js_uniq_acc: "set (js_uniq_acc seen xs) = set xs - set seen"
  by (induction xs arbitrary: seen) auto

lemma set_js_uniq [simp]: "set (js_uniq xs) = set xs"
  by (simp add: js_uniq_def set_js_uniq_acc)

lemma distinct_js_uniq_acc: "distinct (js_uniq_acc seen xs)"
  by (induction xs arbitrary: seen) (auto simp: set_js_uniq_acc)

lemma distinct_js_uniq [simp]: "distinct (js_uniq xs)"
  by (simp add: js_uniq_def distinct_js_uniq_acc)

lemma js_uniq_acc_id: "distinct xs \<Longrightarrow> set xs \<inter> set seen = {} \<Longrightarrow> js_uniq_acc seen xs = xs"
  by (induction xs arbitrary: seen) auto

lemma js_uniq_id: "distinct xs \<Longrightarrow> js_uniq xs = xs"
  by (simp add: js_uniq_def js_uniq_acc_id)

lemma set_js_sort [simp]: "set (js_sort xs) = set xs"
  by (simp add: js_sort_def)

lemma distinct_js_sort [simp]: "distinct (js_sort xs) = distinct xs"
  by (simp add: js_sort_def)

lemma js_sort_sorted: "sorted (js_sort xs)"
  by (simp add: js_sort_def)

lemma js_sort_id: "sorted xs \<Longrightarrow> js_sort xs = xs"
  by (simp add: js_sort_def sorted_sort_id)

lemma set_insert_by [simp]: "set (insert_by le e xs) = insert e (set xs)"
  by (induction xs) auto

lemma set_sort_by [simp]: "set (sort_by le xs) = set xs"
  unfolding sort_by_def by (induction xs) auto

lemma map_filter_Nil: "List.map_filter g xs = [] \<longleftrightarrow> (\<forall>x \<in> set xs. g x = None)"
  by (auto simp: map_filter_def filter_empty_conv)

end
