(* ===== verification/Js_Object.thy ===== *)
theory Js_Object
  imports Js_Prelude
begin

text \<open>
  Property bags (\<open>Record<string, V>\<close>) as the code uses them for labels, annotations,
  selectors and quotas: association lists with distinct keys in the enumeration order of
  JavaScript (array indices first, ascending, then the other keys in order of creation).
\<close>

type_synonym 'v jsobj = "(string \<times> 'v) list"

definition obj_keys :: "'v jsobj \<Rightarrow> string list" where
  "obj_keys ob = map fst ob"

definition obj_get :: "'v jsobj \<Rightarrow> string \<Rightarrow> 'v option" where
  "obj_get ob k = map_of ob k"

text \<open>A canonical array index below \<open>2^32 - 1\<close>.\<close>

definition is_index_key :: "string \<Rightarrow> bool" where
  "is_index_key k \<longleftrightarrow>
     k \<noteq> [] \<and> list_all is_digit k \<and> (hd k \<noteq> CHR ''0'' \<or> tl k = []) \<and> digits_val k < 4294967295"

fun obj_insert_index :: "string \<Rightarrow> 'v \<Rightarrow> 'v jsobj \<Rightarrow> 'v jsobj" where
  "obj_insert_index k v [] = [(k, v)]"
| "obj_insert_index k v ((a, b) # ob) =
     (if is_index_key a \<and> digits_val a < digits_val k
      then (a, b) # obj_insert_index k v ob else (k, v) # (a, b) # ob)"

text \<open>
  Definition of an own property: a literal, a spread or \<open>Object.fromEntries\<close>.
\<close>

definition obj_put :: "'v jsobj \<Rightarrow> string \<Rightarrow> 'v \<Rightarrow> 'v jsobj" where
  "obj_put ob k v =
     (if k \<in> set (obj_keys ob) then map (\<lambda>(a, b). if a = k then (a, v) else (a, b)) ob
      else if is_index_key k then obj_insert_index k v ob
      else ob @ [(k, v)])"

text \<open>
  Assignment \<open>ob[k] = v\<close> of a primitive value: the inherited setter of \<open>__proto__\<close> ignores it.
\<close>

definition obj_assign :: "'v jsobj \<Rightarrow> string \<Rightarrow> 'v \<Rightarrow> 'v jsobj" where
  "obj_assign ob k v =
     (if k = ''__proto__'' \<and> k \<notin> set (obj_keys ob) then ob else obj_put ob k v)"

definition obj_delete :: "'v jsobj \<Rightarrow> string \<Rightarrow> 'v jsobj" where
  "obj_delete ob k = filter (\<lambda>(a, b). a \<noteq> k) ob"

text \<open>\<open>{...ob, ...p}\<close>, and an object literal with computed keys.\<close>

definition obj_spread :: "'v jsobj \<Rightarrow> 'v jsobj \<Rightarrow> 'v jsobj" where
  "obj_spread ob p = foldl (\<lambda>acc (k, v). obj_put acc k v) ob p"

definition obj_lit :: "(string \<times> 'v) list \<Rightarrow> 'v jsobj" where
  "obj_lit kvs = obj_spread [] kvs"

text \<open>\<open>obj?.[k]\<close> of an optional bag, and \<open>ob ?? {}\<close>.\<close>

definition opt_obj :: "'v jsobj option \<Rightarrow> 'v jsobj" where
  "opt_obj x = (case x of None \<Rightarrow> [] | Some ob \<Rightarrow> ob)"

definition opt_get :: "'v jsobj option \<Rightarrow> string \<Rightarrow> 'v option" where
  "opt_get x k = obj_get (opt_obj x) k"

definition obj_ok :: "'v jsobj \<Rightarrow> bool" where
  "obj_ok ob \<longleftrightarrow> distinct (obj_keys ob)"

section \<open>Lookup after update\<close>

lemma obj_keys_simps [simp]: "obj_keys [] = []" "obj_keys ((k, v) # ob) = k # obj_keys ob"
  by (simp_all add: obj_keys_def)

lemma obj_keys_eq_Nil [simp]: "obj_keys ob = [] \<longleftrightarrow> ob = []"
  by (simp add: obj_keys_def)

lemma obj_get_simps [simp]:
  "obj_get [] k = None" "obj_get ((a, b) # ob) k = (if a = k then Some b else obj_get ob k)"
  by (simp_all add: obj_get_def)

lemma obj_get_None: "obj_get ob k = None \<longleftrightarrow> k \<notin> set (obj_keys ob)"
  by (simp add: obj_get_def obj_keys_def map_of_eq_None_iff)

lemma obj_get_insert_index:
  "k \<notin> set (obj_keys ob) \<Longrightarrow> obj_get (obj_insert_index k v ob) = (obj_get ob)(k := Some v)"
  by (induction k v ob rule: obj_insert_index.induct) (auto simp: fun_eq_iff)

lemma obj_get_append: "obj_get (ob @ p) k = (case obj_get ob k of None \<Rightarrow> obj_get p k | Some v \<Rightarrow> Some v)"
  by (induction ob) auto

lemma obj_get_replace:
  "obj_get (map (\<lambda>(a, b). if a = k then (a, v) else (a, b)) ob) j =
     (if j = k \<and> k \<in> set (obj_keys ob) then Some v else obj_get ob j)"
  by (induction ob) auto

lemma obj_get_put [simp]: "obj_get (obj_put ob k v) j = (if j = k then Some v else obj_get ob j)"
  by (auto simp: obj_put_def obj_get_replace obj_get_insert_index obj_get_append obj_get_None [symmetric]
      split: option.splits)

lemma obj_get_delete [simp]: "obj_get (obj_delete ob k) j = (if j = k then None else obj_get ob j)"
  by (induction ob) (auto simp: obj_delete_def)

lemma obj_get_assign:
  "obj_get (obj_assign ob k v) j =
     (if j = k \<and> (k \<noteq> ''__proto__'' \<or> k \<in> set (obj_keys ob)) then Some v else obj_get ob j)"
  by (auto simp: obj_assign_def)

lemma obj_keys_insert_index: "set (obj_keys (obj_insert_index k v ob)) = insert k (set (obj_keys ob))"
  by (induction k v ob rule: obj_insert_index.induct) auto

lemma set_obj_keys: "set (obj_keys ob) = {k. obj_get ob k \<noteq> None}"
  by (auto simp: obj_get_None)

lemma obj_ok_put [simp]: "obj_ok ob \<Longrightarrow> obj_ok (obj_put ob k v)"
proof -
  have ins: "distinct (obj_keys ob) \<Longrightarrow> k \<notin> set (obj_keys ob) \<Longrightarrow>
      distinct (obj_keys (obj_insert_index k v ob))"
    by (induction k v ob rule: obj_insert_index.induct) (auto simp: obj_keys_insert_index)
  have "obj_keys (map (\<lambda>(a, b). if a = k then (a, v) else (a, b)) ob) = obj_keys ob"
    by (induction ob) auto
  moreover have "obj_keys (ob @ [(k, v)]) = obj_keys ob @ [k]"
    by (simp add: obj_keys_def)
  moreover assume "obj_ok ob"
  ultimately show ?thesis
    using ins by (auto simp: obj_ok_def obj_put_def)
qed

lemma obj_ok_Nil [simp]: "obj_ok []"
  by (simp add: obj_ok_def)

lemma obj_ok_assign [simp]: "obj_ok ob \<Longrightarrow> obj_ok (obj_assign ob k v)"
  by (simp add: obj_assign_def)

lemma obj_ok_delete [simp]: "obj_ok ob \<Longrightarrow> obj_ok (obj_delete ob k)"
  unfolding obj_ok_def obj_keys_def obj_delete_def by (rule distinct_map_filter)

lemma obj_spread_simps [simp]:
  "obj_spread ob [] = ob" "obj_spread ob ((k, v) # p) = obj_spread (obj_put ob k v) p"
  by (simp_all add: obj_spread_def)

lemma obj_ok_spread [simp]: "obj_ok ob \<Longrightarrow> obj_ok (obj_spread ob p)"
  by (induction p arbitrary: ob) auto

lemma obj_ok_lit [simp]: "obj_ok (obj_lit kvs)"
  by (simp add: obj_lit_def)

lemma obj_get_spread:
  "obj_ok p \<Longrightarrow> obj_get (obj_spread ob p) k = (case obj_get p k of None \<Rightarrow> obj_get ob k | Some v \<Rightarrow> Some v)"
proof (induction p arbitrary: ob)
  case Nil
  then show ?case by simp
next
  case (Cons kv p)
  obtain a b where kv: "kv = (a, b)" by (cases kv)
  from Cons.prems have ok: "obj_ok p" and a: "obj_get p a = None"
    by (simp_all add: kv obj_ok_def obj_get_None)
  show ?case
    using Cons.IH [OF ok, of "obj_put ob a b"] a by (auto simp: kv split: option.splits)
qed

lemma obj_get_lit: "distinct (map fst kvs) \<Longrightarrow> obj_get (obj_lit kvs) k = map_of kvs k"
  by (simp add: obj_lit_def obj_get_spread obj_ok_def obj_keys_def obj_get_def [symmetric] split: option.splits)

lemma obj_get_some_iff: "obj_ok ob \<Longrightarrow> obj_get ob k = Some v \<longleftrightarrow> (k, v) \<in> set ob"
  by (auto simp: obj_get_def obj_ok_def obj_keys_def dest: map_of_SomeD)

lemma opt_get_simps [simp]: "opt_get None k = None" "opt_get (Some ob) k = obj_get ob k"
  by (simp_all add: opt_get_def opt_obj_def)

end
