(* ===== verification/Js_Number.thy ===== *)
theory Js_Number
  imports Js_Prelude Complex_Main
begin

text \<open>
  JavaScript numbers where the console code reads them from text: the conversion
  \<open>Number(s)\<close> with its whole grammar (decimal, exponent, \<open>0x\<close>/\<open>0o\<close>/\<open>0b\<close>,
  \<open>Infinity\<close>, and the empty string, which is 0) and the rounding of the exact value to
  an IEEE 754 double (round to nearest, ties to even). A finite number is the rational it
  denotes; the sign of zero is not represented.
\<close>

datatype js_num = NaN | PosInf | NegInf | Fin rat

section \<open>Rounding to a double\<close>

definition round_half_even :: "rat \<Rightarrow> int" where
  "round_half_even x =
     (let f = \<lfloor>x\<rfloor>; r = x - of_int f in
      if r < 1 / 2 then f else if 1 / 2 < r then f + 1 else if even f then f else f + 1)"

text \<open>The exponent \<open>e\<close> of a positive rational with \<open>2^e \<le> q < 2^(e+1)\<close>.\<close>

definition pow2 :: "int \<Rightarrow> rat" where
  "pow2 e = (if 0 \<le> e then 2 ^ nat e else 1 / 2 ^ nat (- e))"

fun ilog2 :: "int \<Rightarrow> nat" where
  "ilog2 n = (if n \<le> 1 then 0 else Suc (ilog2 (n div 2)))"

declare ilog2.simps [simp del]

definition bin_exp :: "rat \<Rightarrow> int" where
  "bin_exp q =
     (let k = int (ilog2 (fst (quotient_of q))) - int (ilog2 (snd (quotient_of q)))
      in if pow2 k \<le> q then k else k - 1)"

text \<open>
  The last place of a double with exponent \<open>e\<close> has weight \<open>2^(e-52)\<close>, and \<open>2^(-1074)\<close>
  at least; only an exponent of 1023 or more can overflow to an infinity.
\<close>

definition js_round :: "rat \<Rightarrow> js_num" where
  "js_round q =
     (if q = 0 then Fin 0
      else let a = \<bar>q\<bar>;
               e = bin_exp a;
               u = max (e - 52) (-1074);
               v = of_int (round_half_even (a / pow2 u)) * pow2 u
           in if e < 1023 then Fin (sgn q * v)
              else if 2 ^ 1024 \<le> v then (if 0 < q then PosInf else NegInf)
              else Fin (sgn q * v))"

section \<open>The grammar of Number(s)\<close>

definition scale10 :: "rat \<Rightarrow> int \<Rightarrow> rat" where
  "scale10 m e = (if 0 \<le> e then m * 10 ^ nat e else m / 10 ^ nat (- e))"

definition all_digits :: "string \<Rightarrow> bool" where
  "all_digits s \<longleftrightarrow> s \<noteq> [] \<and> list_all is_digit s"

text \<open>An exponent part: absent, or \<open>e\<close>/\<open>E\<close>, an optional sign and digits.\<close>

fun exponent_part :: "string \<Rightarrow> int option" where
  "exponent_part [] = Some 0"
| "exponent_part (c # cs) =
     (if c \<noteq> CHR ''e'' \<and> c \<noteq> CHR ''E'' then None
      else if cs \<noteq> [] \<and> hd cs = CHR ''-''
        then (if all_digits (tl cs) then Some (- digits_val (tl cs)) else None)
      else if cs \<noteq> [] \<and> hd cs = CHR ''+''
        then (if all_digits (tl cs) then Some (digits_val (tl cs)) else None)
      else if all_digits cs then Some (digits_val cs) else None)"

definition decimal_value :: "string \<Rightarrow> rat option" where
  "decimal_value s =
     (let ip = takeWhile is_digit s;
          r = dropWhile is_digit s;
          dot = (r \<noteq> [] \<and> hd r = CHR ''.'');
          fp = (if dot then takeWhile is_digit (tl r) else []);
          r' = (if dot then dropWhile is_digit (tl r) else r)
      in if ip = [] \<and> fp = [] then None
         else case exponent_part r' of
                None \<Rightarrow> None
              | Some e \<Rightarrow> Some (scale10 (of_int (digits_val (ip @ fp))) (e - int (length fp))))"

definition radix_digit :: "char \<Rightarrow> nat" where
  "radix_digit c =
     (let n = char_code c in
      if is_digit c then n - 48
      else if is_lower_alpha c then n - 87
      else if is_upper_alpha c then n - 55 else 99)"

definition radix_value :: "nat \<Rightarrow> string \<Rightarrow> rat option" where
  "radix_value b s =
     (if s \<noteq> [] \<and> list_all (\<lambda>c. radix_digit c < b) s
      then Some (of_int (foldl (\<lambda>n c. int b * n + int (radix_digit c)) 0 s)) else None)"

definition round_opt :: "rat option \<Rightarrow> js_num" where
  "round_opt r = (case r of None \<Rightarrow> NaN | Some q \<Rightarrow> js_round q)"

fun neg_num :: "js_num \<Rightarrow> js_num" where
  "neg_num NaN = NaN"
| "neg_num PosInf = NegInf"
| "neg_num NegInf = PosInf"
| "neg_num (Fin q) = Fin (- q)"

definition unsigned_number :: "string \<Rightarrow> js_num" where
  "unsigned_number s =
     (if s = ''Infinity'' then PosInf else round_opt (decimal_value s))"

fun trimmed_number :: "string \<Rightarrow> js_num" where
  "trimmed_number [] = Fin 0"
| "trimmed_number (c # cs) =
     (if c = CHR ''+'' then unsigned_number cs
      else if c = CHR ''-'' then neg_num (unsigned_number cs)
      else if c = CHR ''0'' \<and> cs \<noteq> [] \<and> (hd cs = CHR ''x'' \<or> hd cs = CHR ''X'')
        then round_opt (radix_value 16 (tl cs))
      else if c = CHR ''0'' \<and> cs \<noteq> [] \<and> (hd cs = CHR ''o'' \<or> hd cs = CHR ''O'')
        then round_opt (radix_value 8 (tl cs))
      else if c = CHR ''0'' \<and> cs \<noteq> [] \<and> (hd cs = CHR ''b'' \<or> hd cs = CHR ''B'')
        then round_opt (radix_value 2 (tl cs))
      else unsigned_number (c # cs))"

definition js_number :: "string \<Rightarrow> js_num" where
  "js_number s = trimmed_number (js_trim s)"

text \<open>\<open>Number.isInteger\<close> and \<open>Number.isFinite\<close>.\<close>

fun js_is_integer :: "js_num \<Rightarrow> bool" where
  "js_is_integer (Fin q) = (q = of_int \<lfloor>q\<rfloor>)"
| "js_is_integer _ = False"

fun js_is_finite :: "js_num \<Rightarrow> bool" where
  "js_is_finite (Fin q) = True"
| "js_is_finite _ = False"

fun num_floor :: "js_num \<Rightarrow> int" where
  "num_floor (Fin q) = \<lfloor>q\<rfloor>"
| "num_floor _ = 0"

section \<open>Integers up to 2^53 are exact\<close>

lemma pow2_diff: "pow2 (int m - int n) = 2 ^ m / 2 ^ n"
proof (cases "n \<le> m")
  case True
  then show ?thesis by (simp add: pow2_def nat_diff_distrib' power_diff)
next
  case False
  then have "m < n" by simp
  then have "nat (int n - int m) = n - m" by (simp add: nat_diff_distrib')
  with \<open>m < n\<close> show ?thesis by (simp add: pow2_def power_diff)
qed

lemma round_half_even_of_int [simp]: "round_half_even (of_int z) = z"
  by (simp add: round_half_even_def Let_def)

lemma ilog2_bounds: "0 < n \<Longrightarrow> 2 ^ ilog2 n \<le> n \<and> n < 2 ^ (ilog2 n + 1)"
proof (induction n rule: ilog2.induct)
  case (1 n)
  show ?case
  proof (cases "n \<le> 1")
    case True
    with "1.prems" show ?thesis by (simp add: ilog2.simps [of n])
  next
    case False
    then have "2 ^ ilog2 (n div 2) \<le> n div 2 \<and> n div 2 < 2 ^ (ilog2 (n div 2) + 1)"
      using "1.IH" by simp
    then show ?thesis using False by (auto simp: ilog2.simps [of n])
  qed
qed

lemma bin_exp_of_nat:
  assumes "0 < n" shows "bin_exp (of_nat n) = int (ilog2 (int n))"
proof -
  have q: "quotient_of (of_nat n) = (int n, 1)"
    using quotient_of_int [of "int n"] by simp
  have "2 ^ ilog2 (int n) \<le> int n" using ilog2_bounds [of "int n"] assms by simp
  then have "(2 :: rat) ^ ilog2 (int n) \<le> of_nat n"
    by (metis of_int_le_iff of_int_numeral of_int_of_nat_eq of_int_power)
  then show ?thesis
    by (simp add: bin_exp_def q Let_def pow2_def ilog2.simps [of 1])
qed

lemma js_round_of_nat: "n < 2 ^ 53 \<Longrightarrow> js_round (of_nat n) = Fin (of_nat n)"
proof (cases "n = 0")
  case True
  then show ?thesis by (simp add: js_round_def)
next
  case False
  assume less: "n < 2 ^ 53"
  let ?l = "ilog2 (int n)"
  from False have n: "0 < n" by simp
  have "(2 :: int) ^ ?l < 2 ^ 53"
    using ilog2_bounds [of "int n"] n less
    by (metis le_less_trans of_nat_0_less_iff of_nat_less_iff of_nat_numeral of_nat_power)
  then have l: "?l < 53" by (rule power_less_imp_less_exp [rotated]) simp
  define u where "u = max (int ?l - 52) (-1074)"
  have u: "u = int ?l - int 52"
    using l by (simp add: u_def)
  have p: "pow2 u = 1 / 2 ^ (52 - ?l)"
    using l unfolding u by (subst pow2_diff) (simp add: power_diff)
  have "of_nat n / pow2 u = of_int (int n * 2 ^ (52 - ?l))"
    by (simp add: p)
  then have "round_half_even (of_nat n / pow2 u) = int n * 2 ^ (52 - ?l)"
    by (simp only: round_half_even_of_int)
  then have v: "of_int (round_half_even (of_nat n / pow2 u)) * pow2 u = (of_nat n :: rat)"
    by (simp add: p)
  show ?thesis
    using n l v by (simp add: js_round_def bin_exp_of_nat [OF n] Let_def u_def [symmetric] sgn_if)
qed

lemma js_round_of_int: "0 \<le> z \<Longrightarrow> z < 2 ^ 53 \<Longrightarrow> js_round (of_int z) = Fin (of_int z)"
  using js_round_of_nat [of "nat z"] by simp

lemma decimal_value_digits:
  assumes "all_digits s" shows "decimal_value s = Some (of_int (digits_val s))"
proof -
  have tw: "takeWhile is_digit s = s" and dw: "dropWhile is_digit s = []"
    using assms by (auto simp: all_digits_def list_all_iff takeWhile_eq_all_conv dropWhile_eq_Nil_conv)
  then show ?thesis
    using assms by (simp add: decimal_value_def all_digits_def scale10_def Let_def tw dw)
qed

text \<open>\<open>Number(s)\<close> of a run of digits is the double nearest to the number it denotes.\<close>

lemma js_number_digits_round:
  assumes d: "all_digits s"
  shows "js_number s = js_round (of_int (digits_val s))"
proof -
  from d have ds: "list_all is_digit s" and ne: "s \<noteq> []" by (auto simp: all_digits_def)
  have tr: "js_trim s = s"
    by (rule js_trim_no_space) (use ds in \<open>auto simp: list_all_iff dest: is_digit_cases\<close>)
  obtain c cs where s: "s = c # cs" using ne by (cases s) auto
  have dig: "is_digit c" "list_all is_digit cs" using ds s by auto
  have no: "is_digit a \<Longrightarrow> a \<noteq> CHR ''x'' \<and> a \<noteq> CHR ''X'' \<and> a \<noteq> CHR ''o'' \<and> a \<noteq> CHR ''O'' \<and>
      a \<noteq> CHR ''b'' \<and> a \<noteq> CHR ''B'' \<and> a \<noteq> CHR ''I'' \<and> a \<noteq> CHR ''+'' \<and> a \<noteq> CHR ''-''" for a
    by (auto simp: is_digit_def char_code_def)
  have "cs \<noteq> [] \<Longrightarrow> is_digit (hd cs)" using dig(2) by (cases cs) auto
  from no [OF this] have x: "(cs \<noteq> [] \<and> (hd cs = CHR ''x'' \<or> hd cs = CHR ''X'')) = False"
    and o: "(cs \<noteq> [] \<and> (hd cs = CHR ''o'' \<or> hd cs = CHR ''O'')) = False"
    and bb: "(cs \<noteq> [] \<and> (hd cs = CHR ''b'' \<or> hd cs = CHR ''B'')) = False"
    by (cases "cs = []"; simp)+
  have pm: "(c = CHR ''+'') = False" "(c = CHR ''-'') = False"
    using no [OF dig(1)] by simp_all
  have "trimmed_number s = unsigned_number s"
    unfolding s trimmed_number.simps pm x o bb by (simp only: if_False simp_thms)
  also have "\<dots> = round_opt (decimal_value s)"
    using no [OF dig(1)] by (simp add: s unsigned_number_def)
  also have "\<dots> = js_round (of_int (digits_val s))"
    by (simp only: decimal_value_digits [OF d] round_opt_def option.case)
  finally show ?thesis by (simp add: js_number_def tr)
qed

lemma js_number_digits:
  assumes d: "all_digits s" and less: "digits_val s < 2 ^ 53"
  shows "js_number s = Fin (of_int (digits_val s))"
proof -
  have "list_all is_digit s" using d by (simp add: all_digits_def)
  then show ?thesis
    using js_round_of_int [OF digits_val_nonneg less] by (simp only: js_number_digits_round [OF d])
qed

lemma js_is_integer_Fin: "js_is_integer x \<Longrightarrow> x = Fin (of_int (num_floor x))"
  by (cases x) auto


text \<open>The same function with a fast path for plain digits, for evaluation.\<close>

lemma js_number_code [code]:
  "js_number s =
     (if all_digits s \<and> digits_val s < 2 ^ 53 then Fin (of_int (digits_val s))
      else trimmed_number (js_trim s))"
  by (simp add: js_number_digits js_number_def [symmetric])

end
