(* ===== verification/Js_Effects.thy ===== *)
theory Js_Effects
  imports Js_Object Js_Number
begin

text \<open>
  What \<open>throw\<close> throws, and how effects are sequenced. An asynchronous function of the
  console is a function from the state of the outside world (the clusters it talks to) to
  either a thrown value or a result, and the state after it. Nothing is assumed of the
  state: the API operations that change it are parameters of the functions that call them,
  so they may include what other clients do between two calls.
\<close>

section \<open>Thrown values\<close>

text \<open>
  The properties that the API client may put on an error: \<open>statusCode\<close>, \<open>code\<close> (a number
  or a string) and \<open>response\<close> with its own \<open>statusCode\<close> and \<open>status\<close>.
\<close>

datatype err_code = NumCode int | StrCode string

record err_response =
  resp_statusCode :: "int option"
  resp_status :: "int option"

record err_props =
  ep_statusCode :: "int option"
  ep_code :: "err_code option"
  ep_response :: "err_response option"

definition no_props :: err_props where
  "no_props = \<lparr>ep_statusCode = None, ep_code = None, ep_response = None\<rparr>"

text \<open>
  \<open>ErrorObj\<close> is an instance of \<open>Error\<close> with its \<open>cause\<close>; \<open>MessageObj\<close> another object with
  a \<open>message\<close> property (\<open>None\<close> when it is falsy); \<open>ResponseObj\<close> a thrown \<open>Response\<close> with its
  status; \<open>Primitive\<close> anything else, as \<open>String(value)\<close> shows it.
\<close>

datatype thrown =
    ErrorObj string "thrown option" err_props
  | MessageObj "string option" "thrown option" err_props
  | ResponseObj string nat
  | Primitive string

definition mk_error :: "string \<Rightarrow> thrown" where
  "mk_error msg = ErrorObj msg None no_props"

definition mk_error_cause :: "string \<Rightarrow> thrown \<Rightarrow> thrown" where
  "mk_error_cause msg c = ErrorObj msg (Some c) no_props"

section \<open>Results\<close>

type_synonym 'a result = "thrown + 'a"

definition throw :: "string \<Rightarrow> 'a result" where
  "throw msg = Inl (mk_error msg)"

fun res_bind :: "'a result \<Rightarrow> ('a \<Rightarrow> 'b result) \<Rightarrow> 'b result" where
  "res_bind (Inl e) f = Inl e"
| "res_bind (Inr x) f = f x"

fun res_ok :: "'a result \<Rightarrow> bool" where
  "res_ok (Inl e) = False"
| "res_ok (Inr x) = True"

fun res_opt :: "'a result \<Rightarrow> 'a option" where
  "res_opt (Inl e) = None"
| "res_opt (Inr x) = Some x"

lemma res_bind_Inr: "res_bind m f = Inr y \<longleftrightarrow> (\<exists>x. m = Inr x \<and> f x = Inr y)"
  by (cases m) auto

lemma throw_not_Inr [simp]: "throw msg \<noteq> Inr x" "Inr x \<noteq> throw msg"
  by (simp_all add: throw_def)

lemma res_ok_throw [simp]: "\<not> res_ok (throw msg)"
  by (simp add: throw_def)

lemma res_ok_iff: "res_ok r \<longleftrightarrow> (\<exists>x. r = Inr x)"
  by (cases r) auto

section \<open>Effects\<close>

type_synonym ('s, 'a) act = "'s \<Rightarrow> (thrown + 'a) \<times> 's"

definition act_return :: "'a \<Rightarrow> ('s, 'a) act" where
  "act_return x s = (Inr x, s)"

definition act_fail :: "thrown \<Rightarrow> ('s, 'a) act" where
  "act_fail e s = (Inl e, s)"

definition act_throw :: "string \<Rightarrow> ('s, 'a) act" where
  "act_throw msg = act_fail (mk_error msg)"

definition act_lift :: "'a result \<Rightarrow> ('s, 'a) act" where
  "act_lift r s = (r, s)"

definition act_bind :: "('s, 'a) act \<Rightarrow> ('a \<Rightarrow> ('s, 'b) act) \<Rightarrow> ('s, 'b) act" where
  "act_bind m f s = (case m s of (Inl e, t) \<Rightarrow> (Inl e, t) | (Inr x, t) \<Rightarrow> f x t)"

definition act_seq :: "('s, unit) act \<Rightarrow> ('s, 'b) act \<Rightarrow> ('s, 'b) act" where
  "act_seq m k = act_bind m (\<lambda>_. k)"

text \<open>\<open>try { m } catch (err) { h(err) }\<close>.\<close>

definition act_catch :: "('s, 'a) act \<Rightarrow> (thrown \<Rightarrow> ('s, 'a) act) \<Rightarrow> ('s, 'a) act" where
  "act_catch m h s = (case m s of (Inl e, t) \<Rightarrow> h e t | (Inr x, t) \<Rightarrow> (Inr x, t))"

text \<open>\<open>Promise.all(xs.map(f))\<close>, one after the other.\<close>

fun act_map :: "('a \<Rightarrow> ('s, 'b) act) \<Rightarrow> 'a list \<Rightarrow> ('s, 'b list) act" where
  "act_map f [] = act_return []"
| "act_map f (x # xs) = act_bind (f x) (\<lambda>y. act_bind (act_map f xs) (\<lambda>ys. act_return (y # ys)))"

text \<open>\<open>for (const x of xs) await f(x)\<close>: the first throw leaves the loop.\<close>

fun act_each :: "('a \<Rightarrow> ('s, unit) act) \<Rightarrow> 'a list \<Rightarrow> ('s, unit) act" where
  "act_each f [] = act_return ()"
| "act_each f (x # xs) = act_seq (f x) (act_each f xs)"

fun act_when :: "bool \<Rightarrow> ('s, unit) act \<Rightarrow> ('s, unit) act" where
  "act_when True m = m"
| "act_when False m = act_return ()"

text \<open>\<open>m.catch(() => d)\<close>, and a look at the world that cannot fail.\<close>

definition act_or :: "('s, 'a) act \<Rightarrow> 'a \<Rightarrow> ('s, 'a) act" where
  "act_or m d = act_catch m (\<lambda>_. act_return d)"

definition act_read :: "('s \<Rightarrow> 'a) \<Rightarrow> ('s, 'a) act" where
  "act_read f s = (Inr (f s), s)"

lemma act_read_apply [act_simps]: "act_read f s = (Inr (f s), s)"
  by (simp add: act_read_def)

lemma act_or_apply [act_simps]: "act_or m d s = (case m s of (Inl e, t) \<Rightarrow> (Inr d, t) | (Inr x, t) \<Rightarrow> (Inr x, t))"
  by (simp add: act_or_def act_catch_def act_return_def split: prod.splits sum.splits)

lemma act_return_apply [act_simps]: "act_return x s = (Inr x, s)"
  by (simp add: act_return_def)

lemma act_fail_apply [act_simps]: "act_fail e s = (Inl e, s)"
  by (simp add: act_fail_def)

lemma act_throw_apply [act_simps]: "act_throw msg s = (Inl (mk_error msg), s)"
  by (simp add: act_throw_def act_fail_def)

lemma act_lift_apply [act_simps]: "act_lift r s = (r, s)"
  by (simp add: act_lift_def)

lemma act_seq_apply [act_simps]:
  "act_seq m k s = (case m s of (Inl e, t) \<Rightarrow> (Inl e, t) | (Inr x, t) \<Rightarrow> k t)"
  by (simp add: act_seq_def act_bind_def)

lemmas act_bind_apply [act_simps] = act_bind_def
lemmas act_catch_apply [act_simps] = act_catch_def

lemma act_bind_return_left: "act_bind (act_return x) f = f x"
  by (simp add: fun_eq_iff act_simps)

lemma act_bind_return_right: "act_bind m act_return = m"
  by (auto simp: fun_eq_iff act_simps split: prod.splits sum.splits)

lemma act_bind_assoc: "act_bind (act_bind m f) g = act_bind m (\<lambda>x. act_bind (f x) g)"
  by (auto simp: fun_eq_iff act_simps split: prod.splits sum.splits)

lemma act_bind_InrE:
  assumes "act_bind m f s = (Inr y, t)"
  obtains x u where "m s = (Inr x, u)" "f x u = (Inr y, t)"
  using assms by (auto simp: act_bind_def split: prod.splits sum.splits)

lemma act_seq_InrE:
  assumes "act_seq m k s = (Inr y, t)"
  obtains x u where "m s = (Inr x, u)" "k u = (Inr y, t)"
  using assms by (auto simp: act_seq_apply split: prod.splits sum.splits)

section \<open>Optional strings\<close>

text \<open>\<open>x?.trim()\<close>, \<open>x || undefined\<close> and the truth value of an optional string.\<close>

definition opt_trim :: "string option \<Rightarrow> string option" where
  "opt_trim x = map_option js_trim x"

definition or_undef :: "string \<Rightarrow> string option" where
  "or_undef s = (if s = [] then None else Some s)"

definition opt_or_undef :: "string option \<Rightarrow> string option" where
  "opt_or_undef x = (case x of None \<Rightarrow> None | Some s \<Rightarrow> or_undef s)"

definition trim_or_undef :: "string option \<Rightarrow> string option" where
  "trim_or_undef x = opt_or_undef (opt_trim x)"

definition truthy :: "string option \<Rightarrow> bool" where
  "truthy x \<longleftrightarrow> x \<noteq> None \<and> x \<noteq> Some []"

definition opt_str :: "string option \<Rightarrow> string" where
  "opt_str x = (case x of None \<Rightarrow> [] | Some s \<Rightarrow> s)"

definition opt_default :: "'a \<Rightarrow> 'a option \<Rightarrow> 'a" where
  "opt_default d x = (case x of None \<Rightarrow> d | Some v \<Rightarrow> v)"

text \<open>\<open>a ?? b\<close>.\<close>

definition or_else :: "'a option \<Rightarrow> 'a option \<Rightarrow> 'a option" where
  "or_else a b = (case a of Some x \<Rightarrow> Some x | None \<Rightarrow> b)"

text \<open>\<open>(xs ?? []).map(trim).filter(Boolean)\<close>.\<close>

definition trim_list :: "string list \<Rightarrow> string list" where
  "trim_list xs = filter (\<lambda>s. s \<noteq> []) (map js_trim xs)"

lemma trim_or_undef_Some:
  "trim_or_undef x = Some s \<longleftrightarrow> (\<exists>r. x = Some r \<and> js_trim r = s \<and> s \<noteq> [])"
  by (cases x) (auto simp: trim_or_undef_def opt_trim_def opt_or_undef_def or_undef_def)

lemma trim_or_undef_None: "trim_or_undef x = None \<longleftrightarrow> js_trim (opt_str x) = []"
  by (cases x) (auto simp: trim_or_undef_def opt_trim_def opt_or_undef_def or_undef_def opt_str_def)

lemma set_trim_list: "s \<in> set (trim_list xs) \<longleftrightarrow> s \<noteq> [] \<and> (\<exists>x \<in> set xs. s = js_trim x)"
  by (auto simp: trim_list_def)

lemma trim_list_idem [simp]: "trim_list (trim_list xs) = trim_list xs"
proof -
  have "map js_trim (trim_list xs) = trim_list xs"
    by (rule map_idI) (auto simp: set_trim_list)
  then show ?thesis
    unfolding trim_list_def [of "trim_list xs"] by (simp add: trim_list_def)
qed

lemma trim_list_id: "\<forall>x \<in> set xs. x \<noteq> [] \<and> js_trim x = x \<Longrightarrow> trim_list xs = xs"
  by (induction xs) (auto simp: trim_list_def)

end
