(* ===== verification/Errors.thy ===== *)
theory Errors
  imports Js_Effects
begin

text \<open>
  \<open>lib/errors.ts\<close> and the error classifiers of the API clients: how a thrown value is
  flattened to a message, how an HTTP status is read off it, and the predicates by which the
  clients tell a missing object, a conflict and a refused request apart
  (\<open>lib/k8s/networking-cr.server.ts\<close>, \<open>lib/ipam/ipaddress-cr.server.ts\<close>,
  \<open>backends/backends.server.ts\<close>, \<open>backends/stamp.server.ts\<close>, \<open>snapshots/schedules.server.ts\<close>).
\<close>

section \<open>Flattening the cause chain\<close>

text \<open>
  The messages of a value and of its causes, outermost first. The values of this model are
  trees, so a cause chain never comes back to a value it has seen; the cyclic chains that the
  \<open>seen\<close> set of the code guards against are modelled in the second half of this section.
\<close>

fun error_parts :: "thrown \<Rightarrow> string list" where
  "error_parts (ErrorObj msg c p) =
     (if msg = [] then [] else [msg]) @ (case c of None \<Rightarrow> [] | Some t \<Rightarrow> error_parts t)"
| "error_parts (MessageObj msg c p) =
     (case msg of None \<Rightarrow> [] | Some m \<Rightarrow> [m]) @ (case c of None \<Rightarrow> [] | Some t \<Rightarrow> error_parts t)"
| "error_parts (ResponseObj body st) = [''[object Response]'']"
| "error_parts (Primitive s) = [s]"

text \<open>\<open>parts.filter((p, i) => p && p !== parts[i - 1])\<close>.\<close>

fun dedupe_parts :: "string option \<Rightarrow> string list \<Rightarrow> string list" where
  "dedupe_parts prev [] = []"
| "dedupe_parts prev (p # ps) =
     (if p \<noteq> [] \<and> prev \<noteq> Some p then p # dedupe_parts (Some p) ps else dedupe_parts (Some p) ps)"

definition join_parts :: "string list \<Rightarrow> string" where
  "join_parts ps =
     (let s = js_join '': '' (dedupe_parts None ps) in if s = [] then ''Unknown error'' else s)"

definition format_error :: "thrown \<Rightarrow> string" where
  "format_error e = join_parts (error_parts e)"

text \<open>
  The loop of the code over objects with identity: a heap maps the reference of a value to its
  own message (if it pushes one) and its cause. A value without a \<open>message\<close> ends the walk.
\<close>

datatype err_node = ChainNode "string option" "nat option" | LastNode string

function walk_causes :: "(nat \<times> err_node) list \<Rightarrow> nat list \<Rightarrow> nat option \<Rightarrow> string list" where
  "walk_causes heap seen None = []"
| "walk_causes heap seen (Some r) =
     (if r \<in> set seen then []
      else case map_of heap r of
             None \<Rightarrow> []
           | Some (LastNode s) \<Rightarrow> [s]
           | Some (ChainNode m c) \<Rightarrow>
               (case m of None \<Rightarrow> [] | Some s \<Rightarrow> [s]) @ walk_causes heap (r # seen) c)"
  by pat_completeness auto
termination
proof (relation "measure (\<lambda>(heap, seen, r). card (fst ` set heap - set seen))")
  fix heap :: "(nat \<times> err_node) list" and seen r x m c
  assume "r \<notin> set seen" "map_of heap r = Some x" "x = ChainNode m c"
  then have "r \<in> fst ` set heap - set seen"
    using map_of_SomeD [of heap r x] by force
  then have "card (fst ` set heap - set (r # seen)) < card (fst ` set heap - set seen)"
    by (intro psubset_card_mono) auto
  then show "((heap, r # seen, c), heap, seen, Some r) \<in>
      measure (\<lambda>(heap, seen, r). card (fst ` set heap - set seen))"
    by simp
qed simp

definition format_error_ref :: "(nat \<times> err_node) list \<Rightarrow> nat option \<Rightarrow> string" where
  "format_error_ref heap r = join_parts (walk_causes heap [] r)"

section \<open>The HTTP status of an error\<close>

fun thrown_props :: "thrown \<Rightarrow> err_props" where
  "thrown_props (ErrorObj msg c p) = p"
| "thrown_props (MessageObj msg c p) = p"
| "thrown_props (ResponseObj body st) = no_props"
| "thrown_props (Primitive s) = no_props"

text \<open>\<open>/HTTP-Code:\s*(\d+)/i\<close>: the digits of the first match.\<close>

fun match_http_code :: "string \<Rightarrow> string option" where
  "match_http_code [] = None"
| "match_http_code (c # cs) =
     (let s = c # cs;
          ds = takeWhile is_digit (dropWhile js_space (drop 10 s))
      in if js_lower (take 10 s) = ''http-code:'' \<and> ds \<noteq> [] then Some ds else match_http_code cs)"

text \<open>\<open>/"code"\s*:\s*(\d{3})/\<close>.\<close>

fun match_json_code :: "string \<Rightarrow> string option" where
  "match_json_code [] = None"
| "match_json_code (c # cs) =
     (let s = c # cs;
          r = dropWhile js_space (drop 6 s);
          ds = take 3 (takeWhile is_digit (dropWhile js_space (tl r)))
      in if take 6 s = [CHR 0x22] @ ''code'' @ [CHR 0x22] \<and> r \<noteq> [] \<and> hd r = CHR '':'' \<and> length ds = 3
         then Some ds else match_json_code cs)"

definition status_property :: "err_props \<Rightarrow> int option" where
  "status_property p =
     (case ep_statusCode p of
        Some n \<Rightarrow> Some n
      | None \<Rightarrow>
          (case Option.bind (ep_response p) resp_statusCode of
             Some n \<Rightarrow> Some n
           | None \<Rightarrow>
               (case Option.bind (ep_response p) resp_status of
                  Some n \<Rightarrow> Some n
                | None \<Rightarrow> (case ep_code p of Some (NumCode n) \<Rightarrow> Some n | _ \<Rightarrow> None))))"

definition finite_number :: "string option \<Rightarrow> js_num option" where
  "finite_number m =
     (case m of None \<Rightarrow> None
      | Some ds \<Rightarrow> if js_is_finite (js_number ds) then Some (js_number ds) else None)"

text \<open>\<open>apiStatusCode\<close> of \<open>networking-cr.server.ts\<close>.\<close>

definition cr_status_code :: "thrown \<Rightarrow> js_num option" where
  "cr_status_code e =
     (case status_property (thrown_props e) of
        Some n \<Rightarrow> if 0 < n then Some (Fin (of_int n)) else finite_number (match_http_code (format_error e))
      | None \<Rightarrow> finite_number (match_http_code (format_error e)))"

text \<open>\<open>apiStatusCode\<close> of \<open>ipaddress-cr.server.ts\<close>, which also reads a JSON body.\<close>

definition ipaddr_status_code :: "thrown \<Rightarrow> js_num option" where
  "ipaddr_status_code e =
     (let msg = format_error e;
          from_msg = (case finite_number (match_http_code msg) of
                        Some n \<Rightarrow> Some n
                      | None \<Rightarrow> finite_number (match_json_code msg))
      in case status_property (thrown_props e) of
           Some n \<Rightarrow> if 0 < n then Some (Fin (of_int n)) else from_msg
         | None \<Rightarrow> from_msg)"

text \<open>\<open>apiStatusCode\<close> of \<open>schedules.server.ts\<close>: \<open>Number(code ?? statusCode ?? response.statusCode)\<close>.\<close>

definition schedule_status_code :: "thrown \<Rightarrow> js_num option" where
  "schedule_status_code e =
     (let p = thrown_props e;
          n = (case ep_code p of
                 Some (NumCode k) \<Rightarrow> Fin (of_int k)
               | Some (StrCode s) \<Rightarrow> js_number s
               | None \<Rightarrow>
                   (case ep_statusCode p of
                      Some k \<Rightarrow> Fin (of_int k)
                    | None \<Rightarrow>
                        (case Option.bind (ep_response p) resp_statusCode of
                           Some k \<Rightarrow> Fin (of_int k) | None \<Rightarrow> NaN)))
      in case n of Fin q \<Rightarrow> if 0 < q then Some (Fin q) else None | _ \<Rightarrow> None)"

section \<open>Classifiers\<close>

definition error_text :: "thrown \<Rightarrow> string" where
  "error_text e = js_lower (format_error e)"

text \<open>\<open>networking-cr.server.ts\<close>.\<close>

definition isNotFoundError :: "thrown \<Rightarrow> bool" where
  "isNotFoundError e \<longleftrightarrow>
     (let m = error_text e in js_includes m ''404'' \<or> js_includes m ''not found'')
     \<or> cr_status_code e = Some (Fin 404)"

definition isAlreadyExistsError :: "thrown \<Rightarrow> bool" where
  "isAlreadyExistsError e \<longleftrightarrow>
     (let m = error_text e in js_includes m ''already exists'' \<or> js_includes m ''alreadyexists'')
     \<or> cr_status_code e = Some (Fin 409)"

definition isForbiddenError :: "thrown \<Rightarrow> bool" where
  "isForbiddenError e \<longleftrightarrow>
     cr_status_code e = Some (Fin 403) \<or> js_includes (error_text e) ''forbidden''"

text \<open>\<open>ipaddress-cr.server.ts\<close>.\<close>

definition isIpAddressAlreadyExists :: "thrown \<Rightarrow> bool" where
  "isIpAddressAlreadyExists e \<longleftrightarrow>
     (let m = error_text e in js_includes m ''already exists'' \<or> js_includes m ''alreadyexists'')
     \<or> ipaddr_status_code e = Some (Fin 409)"

definition isIpAddressNotFound :: "thrown \<Rightarrow> bool" where
  "isIpAddressNotFound e \<longleftrightarrow>
     ipaddr_status_code e = Some (Fin 404) \<or> js_includes (error_text e) ''not found''"

definition isIpAddressForbidden :: "thrown \<Rightarrow> bool" where
  "isIpAddressForbidden e \<longleftrightarrow>
     ipaddr_status_code e = Some (Fin 403) \<or>
     (let m = error_text e in js_includes m ''forbidden'' \<or> js_includes m ''is forbidden'')"

text \<open>\<open>backends.server.ts\<close> and \<open>stamp.server.ts\<close>, by the text alone.\<close>

definition backend_isNotFound :: "thrown \<Rightarrow> bool" where
  "backend_isNotFound e \<longleftrightarrow>
     (let m = error_text e in js_includes m ''404'' \<or> js_includes m ''not found'')"

definition stamp_isNotFound :: "thrown \<Rightarrow> bool" where
  "stamp_isNotFound e \<longleftrightarrow>
     (let m = error_text e in js_includes m ''404'' \<or> js_includes m ''not found'')"

definition stamp_isConflict :: "thrown \<Rightarrow> bool" where
  "stamp_isConflict e \<longleftrightarrow>
     (let m = error_text e in js_includes m ''409'' \<or> js_includes m ''conflict'')"

text \<open>\<open>schedules.server.ts\<close>.\<close>

definition schedule_isNotFound :: "thrown \<Rightarrow> bool" where
  "schedule_isNotFound e \<longleftrightarrow>
     schedule_status_code e = Some (Fin 404) \<or> js_includes (error_text e) ''not found''"

definition schedule_isAlreadyExists :: "thrown \<Rightarrow> bool" where
  "schedule_isAlreadyExists e \<longleftrightarrow>
     (let m = error_text e in js_includes m ''already exists'' \<or> js_includes m ''alreadyexists'')
     \<or> schedule_status_code e = Some (Fin 409)"

end
