(* ===== verification/Net_Resources.thy ===== *)
theory Net_Resources
  imports Errors
begin

text \<open>
  \<open>lib/k8s/networking-cr.server.ts\<close> and the constants it shares: the custom resources of the
  networking control plane as the console reads and writes them, the wrappers of the custom
  object API, and the names of objects. The API itself is not in the repository: a record of
  operations that every definition takes as a parameter.
\<close>

section \<open>Constants\<close>

definition KMC_LABEL_NAMESPACE :: string where "KMC_LABEL_NAMESPACE = ''kmc.ianunruh.com''"
definition KMC_MANAGED_BY :: string where "KMC_MANAGED_BY = ''kmc''"
definition MANAGED_BY_LABEL :: string where "MANAGED_BY_LABEL = ''app.kubernetes.io/managed-by''"
definition KMC_LABEL_RESOURCE :: string where "KMC_LABEL_RESOURCE = KMC_LABEL_NAMESPACE @ ''/resource''"

definition KMC_API_GROUP :: string where "KMC_API_GROUP = ''kmc.ianunruh.com''"
definition KMC_API_VERSION :: string where "KMC_API_VERSION = ''v1alpha1''"
definition KMC_API :: string where "KMC_API = KMC_API_GROUP @ ''/'' @ KMC_API_VERSION"
definition PLURAL_VPCS :: string where "PLURAL_VPCS = ''vpcs''"
definition PLURAL_ROUTERS :: string where "PLURAL_ROUTERS = ''routers''"
definition PLURAL_FLOATING_IPS :: string where "PLURAL_FLOATING_IPS = ''floatingips''"
definition PLURAL_PORT_FORWARDS :: string where "PLURAL_PORT_FORWARDS = ''portforwards''"
definition PLURAL_IP_ADDRESSES :: string where "PLURAL_IP_ADDRESSES = ''ipaddresses''"
definition PLURAL_VLAN_POOLS :: string where "PLURAL_VLAN_POOLS = ''vlanpools''"
definition PLURAL_IP_POOLS :: string where "PLURAL_IP_POOLS = ''ippools''"

section \<open>Objects\<close>

record object_meta =
  om_name :: "string option"
  om_generateName :: "string option"
  om_namespace :: "string option"
  om_uid :: "string option"
  om_creationTimestamp :: "string option"
  om_labels :: "string jsobj option"
  om_annotations :: "string jsobj option"

text \<open>The metadata of an object to be created: no identity of its own yet.\<close>

definition new_meta :: "string option \<Rightarrow> string \<Rightarrow> string jsobj option \<Rightarrow> string jsobj option \<Rightarrow> object_meta" where
  "new_meta nm ns labels annotations =
     \<lparr>om_name = nm, om_generateName = None, om_namespace = Some ns, om_uid = None,
      om_creationTimestamp = None, om_labels = labels, om_annotations = annotations\<rparr>"

record cr_condition =
  cond_type :: "string option"
  cond_status :: "string option"
  cond_reason :: "string option"
  cond_message :: "string option"
  cond_lastTransitionTime :: "string option"

record console_condition =
  cc_type :: string
  cc_status :: string
  cc_reason :: "string option"
  cc_message :: "string option"
  cc_lastTransitionTime :: "string option"

definition mapCrConditions :: "cr_condition list option \<Rightarrow> console_condition list" where
  "mapCrConditions cs =
     map (\<lambda>c. \<lparr>cc_type = opt_default ''Unknown'' (cond_type c),
               cc_status = opt_default ''Unknown'' (cond_status c),
               cc_reason = cond_reason c, cc_message = cond_message c,
               cc_lastTransitionTime = cond_lastTransitionTime c\<rparr>) (opt_default [] cs)"

record pool_ref =
  pr_kind :: string
  pr_name :: string

record claim_ref =
  cr_apiVersion :: "string option"
  cr_kind :: "string option"
  cr_name :: "string option"
  cr_namespace :: "string option"

record nic_binding =
  nic_mac :: "string option"
  nic_hostname :: "string option"

record ip_address_spec =
  ias_address :: "string option"
  ias_prefixLength :: "int option"
  ias_poolRef :: "pool_ref option"
  ias_claimRef :: "claim_ref option"
  ias_interface :: "nic_binding option"

record ip_address_cr =
  iac_apiVersion :: "string option"
  iac_kind :: "string option"
  iac_metadata :: "object_meta option"
  iac_spec :: "ip_address_spec option"

record vlan_pool_spec =
  vps_start :: "js_num option"
  vps_end :: "js_num option"
  vps_bridge :: "string option"
  vps_dns :: "string list option"
  vps_exclude :: "js_num list option"

record vlan_pool_cr =
  vpc_metadata :: "object_meta option"
  vpc_spec :: "vlan_pool_spec option"

record ip_pool_cni =
  cni_type :: "string option"
  cni_bridge :: "string option"
  cni_vlan :: "int option"

record ip_pool_spec =
  ips_multusNetwork :: "string option"
  ips_cidr :: "string option"
  ips_gateway :: "string option"
  ips_dns :: "string list option"
  ips_exclude :: "string list option"
  ips_start :: "string option"
  ips_end :: "string option"
  ips_interface :: "string option"
  ips_cni :: "ip_pool_cni option"

record ip_pool_cr =
  ipc_metadata :: "object_meta option"
  ipc_spec :: "ip_pool_spec option"

text \<open>\<open>cr.spec?.f\<close>: a field of an optional object.\<close>

abbreviation fld :: "'r option \<Rightarrow> ('r \<Rightarrow> 'a option) \<Rightarrow> 'a option" where
  "fld x f \<equiv> Option.bind x f"

text \<open>\<open>throw new Error(formatError(err), { cause: err })\<close>.\<close>

definition save_error :: "thrown \<Rightarrow> ('s, 'a) act" where
  "save_error err = act_fail (mk_error_cause (format_error err) err)"

section \<open>The custom object API\<close>

text \<open>
  \<open>getClusterClients(cluster).custom\<close>: operations on the objects of one plural, with the
  group, version and plural they are asked for. A list answers with its \<open>items\<close>, if any.
\<close>

record gvp =
  gvp_group :: string
  gvp_version :: string
  gvp_plural :: string

record ('s, 'o) custom_api =
  api_list_cluster :: "gvp \<Rightarrow> string option \<Rightarrow> ('s, 'o list option) act"
  api_list_ns :: "gvp \<Rightarrow> string \<Rightarrow> string option \<Rightarrow> ('s, 'o list option) act"
  api_get_ns :: "gvp \<Rightarrow> string \<Rightarrow> string \<Rightarrow> ('s, 'o) act"
  api_get_cluster :: "gvp \<Rightarrow> string \<Rightarrow> ('s, 'o) act"
  api_create_ns :: "gvp \<Rightarrow> string \<Rightarrow> 'o \<Rightarrow> ('s, 'o) act"
  api_delete_ns :: "gvp \<Rightarrow> string \<Rightarrow> string \<Rightarrow> ('s, unit) act"
  api_replace_ns :: "gvp \<Rightarrow> string \<Rightarrow> string \<Rightarrow> 'o \<Rightarrow> ('s, 'o) act"
  api_patch_ns :: "gvp \<Rightarrow> string \<Rightarrow> string \<Rightarrow> 'o \<Rightarrow> ('s, 'o) act"

text \<open>\<open>getClusterClients\<close> fails for a cluster it cannot authenticate to.\<close>

type_synonym ('s, 'o) clients = "string \<Rightarrow> ('s, 'o) custom_api result"

definition with_custom :: "('s, 'o) clients \<Rightarrow> string \<Rightarrow> (('s, 'o) custom_api \<Rightarrow> ('s, 'a) act) \<Rightarrow> ('s, 'a) act" where
  "with_custom cl cluster k = act_bind (act_lift (cl cluster)) k"

definition kmc_gvp :: "string \<Rightarrow> gvp" where
  "kmc_gvp plural = \<lparr>gvp_group = KMC_API_GROUP, gvp_version = KMC_API_VERSION, gvp_plural = plural\<rparr>"

definition listClusterCustomObjects ::
  "('s, 'o) clients \<Rightarrow> string \<Rightarrow> string \<Rightarrow> string option \<Rightarrow> ('s, 'o list) act" where
  "listClusterCustomObjects cl cluster plural labelSelector =
     act_catch
       (with_custom cl cluster (\<lambda>api.
          act_bind (api_list_cluster api (kmc_gvp plural) (opt_or_undef labelSelector)) (\<lambda>items.
            act_return (opt_default [] items))))
       (\<lambda>err. if isNotFoundError err then act_return [] else act_fail err)"

definition listNamespacedCustomObjects ::
  "('s, 'o) clients \<Rightarrow> string \<Rightarrow> string \<Rightarrow> string \<Rightarrow> string option \<Rightarrow> ('s, 'o list) act" where
  "listNamespacedCustomObjects cl cluster ns plural labelSelector =
     act_catch
       (with_custom cl cluster (\<lambda>api.
          act_bind (api_list_ns api (kmc_gvp plural) ns (opt_or_undef labelSelector)) (\<lambda>items.
            act_return (opt_default [] items))))
       (\<lambda>err. if isNotFoundError err then act_return [] else act_fail err)"

definition getNamespacedCustomObject ::
  "('s, 'o) clients \<Rightarrow> string \<Rightarrow> string \<Rightarrow> string \<Rightarrow> string \<Rightarrow> ('s, 'o) act" where
  "getNamespacedCustomObject cl cluster ns plural nm =
     with_custom cl cluster (\<lambda>api. api_get_ns api (kmc_gvp plural) ns nm)"

definition getClusterCustomObject ::
  "('s, 'o) clients \<Rightarrow> string \<Rightarrow> string \<Rightarrow> string \<Rightarrow> ('s, 'o) act" where
  "getClusterCustomObject cl cluster plural nm =
     with_custom cl cluster (\<lambda>api. api_get_cluster api (kmc_gvp plural) nm)"

definition createNamespacedCustomObject ::
  "('s, 'o) clients \<Rightarrow> string \<Rightarrow> string \<Rightarrow> string \<Rightarrow> 'o \<Rightarrow> ('s, 'o) act" where
  "createNamespacedCustomObject cl cluster ns plural body =
     with_custom cl cluster (\<lambda>api. api_create_ns api (kmc_gvp plural) ns body)"

definition deleteNamespacedCustomObject ::
  "('s, 'o) clients \<Rightarrow> string \<Rightarrow> string \<Rightarrow> string \<Rightarrow> string \<Rightarrow> ('s, unit) act" where
  "deleteNamespacedCustomObject cl cluster ns plural nm =
     act_catch
       (with_custom cl cluster (\<lambda>api. api_delete_ns api (kmc_gvp plural) ns nm))
       (\<lambda>err. if isNotFoundError err then act_return () else act_fail err)"

definition replaceNamespacedCustomObject ::
  "('s, 'o) clients \<Rightarrow> string \<Rightarrow> string \<Rightarrow> string \<Rightarrow> string \<Rightarrow> 'o \<Rightarrow> ('s, 'o) act" where
  "replaceNamespacedCustomObject cl cluster ns plural nm body =
     with_custom cl cluster (\<lambda>api. api_replace_ns api (kmc_gvp plural) ns nm body)"

definition patchNamespacedCustomObject ::
  "('s, 'o) clients \<Rightarrow> string \<Rightarrow> string \<Rightarrow> string \<Rightarrow> string \<Rightarrow> 'o \<Rightarrow> ('s, 'o) act" where
  "patchNamespacedCustomObject cl cluster ns plural nm body =
     with_custom cl cluster (\<lambda>api. api_patch_ns api (kmc_gvp plural) ns nm body)"

section \<open>Labels and names\<close>

definition kmcManagedLabels :: "string jsobj option \<Rightarrow> string jsobj" where
  "kmcManagedLabels extra = obj_spread (obj_lit [(MANAGED_BY_LABEL, KMC_MANAGED_BY)]) (opt_obj extra)"

definition ownerAnnotation :: "string option \<Rightarrow> string jsobj" where
  "ownerAnnotation login =
     (if js_trim (opt_str login) = [] then []
      else obj_lit [(KMC_LABEL_NAMESPACE @ ''/owner'', js_trim (opt_str login))])"

definition ipv4ObjectName :: "string \<Rightarrow> string" where
  "ipv4ObjectName address = js_replace_all (CHR ''.'') (CHR ''-'') (js_trim address)"

definition floatingIpObjectName :: "string \<Rightarrow> string" where
  "floatingIpObjectName publicAddress = ipv4ObjectName publicAddress"

definition portForwardObjectName :: "string \<Rightarrow> string \<Rightarrow> int \<Rightarrow> string" where
  "portForwardObjectName publicAddress protocol publicPort =
     (let proto = (if js_lower protocol = ''udp'' then ''udp'' else ''tcp'')
      in js_slice (''pf-'' @ ipv4ObjectName publicAddress @ ''-'' @ proto @ ''-'' @ int_str publicPort) 0 63)"

text \<open>The annotations of an object without those of \<open>kubectl\<close>.\<close>

definition shown_annotations :: "string jsobj option \<Rightarrow> string jsobj" where
  "shown_annotations annotations =
     obj_lit (filter (\<lambda>(k, v). \<not> js_starts_with k ''kubectl.kubernetes.io/'') (opt_obj annotations))"

section \<open>Lemmas\<close>

lemma new_meta_simps [simp]:
  "om_name (new_meta nm ns ls ans) = nm" "om_namespace (new_meta nm ns ls ans) = Some ns"
  "om_labels (new_meta nm ns ls ans) = ls" "om_annotations (new_meta nm ns ls ans) = ans"
  "om_generateName (new_meta nm ns ls ans) = None" "om_uid (new_meta nm ns ls ans) = None"
  "om_creationTimestamp (new_meta nm ns ls ans) = None"
  by (simp_all add: new_meta_def)

lemma with_custom_apply [act_simps]:
  "with_custom cl cluster k s = (case cl cluster of Inl e \<Rightarrow> (Inl e, s) | Inr api \<Rightarrow> k api s)"
  by (simp add: with_custom_def act_simps split: sum.splits)

lemma kmcManagedLabels_get:
  "obj_ok (opt_obj extra) \<Longrightarrow> obj_get (kmcManagedLabels extra) k =
     (case opt_get extra k of
        Some v \<Rightarrow> Some v
      | None \<Rightarrow> if k = MANAGED_BY_LABEL then Some KMC_MANAGED_BY else None)"
  by (simp add: kmcManagedLabels_def obj_get_spread obj_get_lit opt_get_def split: option.splits)

end
