(* ===== verification/Interfaces.thy ===== *)
theory Interfaces
  imports Js_Effects
begin

text \<open>
  The interfaces that several components share: an injective text notation (addresses, names and
  query strings are compared as text all over the program), and a search for a free name in a
  window, used by the address and the VLAN allocators.
\<close>

section \<open>A text notation with a parser\<close>

locale codec =
  fixes enc :: "'a \<Rightarrow> string" and dec :: "string \<Rightarrow> 'a option"
  assumes dec_enc: "dec (enc x) = Some x"
begin

lemma enc_eq_iff: "enc x = enc y \<longleftrightarrow> x = y"
  by (metis dec_enc option.inject)

lemma inj_enc: "inj enc"
  by (simp add: inj_def enc_eq_iff)

lemma enc_mem_image: "enc x \<in> enc ` A \<longleftrightarrow> x \<in> A"
  by (auto simp: enc_eq_iff)

lemma distinct_enc: "distinct (map enc xs) \<longleftrightarrow> distinct xs"
  by (auto simp: distinct_map intro: inj_on_subset [OF inj_enc])

lemma card_enc: "card (enc ` A) = card A"
  by (rule card_image) (rule inj_on_subset [OF inj_enc], simp)

lemma dec_all: "map dec (map enc xs) = map Some xs"
  by (simp add: dec_enc)

end

section \<open>A search for a free name\<close>

locale free_search =
  fixes names :: "'w \<Rightarrow> string list" and find_free :: "'w \<Rightarrow> (string \<Rightarrow> bool) \<Rightarrow> string option"
  assumes find_some: "find_free w taken = Some n \<Longrightarrow> n \<in> set (names w) \<and> \<not> taken n"
    and find_none: "find_free w taken = None \<Longrightarrow> list_all taken (names w)"
begin

lemma find_none_iff: "find_free w taken = None \<longleftrightarrow> list_all taken (names w)"
  using find_some [of w taken] find_none [of w taken]
  by (cases "find_free w taken") (auto simp: list_all_iff)

text \<open>The candidates of repeated attempts, each of which marks its candidate as taken.\<close>

fun candidates :: "nat \<Rightarrow> 'w \<Rightarrow> string set \<Rightarrow> string list" where
  "candidates 0 w used = []"
| "candidates (Suc n) w used =
     (case find_free w (\<lambda>x. x \<in> used) of
        None \<Rightarrow> []
      | Some c \<Rightarrow> c # candidates n w (insert c used))"

lemma candidates_fresh: "set (candidates n w used) \<inter> used = {}"
proof (induction n arbitrary: used)
  case (Suc n)
  show ?case
  proof (cases "find_free w (\<lambda>x. x \<in> used)")
    case (Some c)
    then show ?thesis using find_some [OF Some] Suc.IH [of "insert c used"] by auto
  qed simp
qed simp

lemma candidates_distinct: "distinct (candidates n w used)"
proof (induction n arbitrary: used)
  case (Suc n)
  show ?case
  proof (cases "find_free w (\<lambda>x. x \<in> used)")
    case (Some c)
    then show ?thesis using Suc.IH candidates_fresh [of n w "insert c used"] by auto
  qed simp
qed simp

lemma candidates_names: "set (candidates n w used) \<subseteq> set (names w)"
proof (induction n arbitrary: used)
  case (Suc n)
  show ?case
  proof (cases "find_free w (\<lambda>x. x \<in> used)")
    case (Some c)
    then show ?thesis using Suc.IH [of "insert c used"] find_some [OF Some] by auto
  qed simp
qed simp

lemma candidates_exhausted:
  "length (candidates n w used) < n \<Longrightarrow> set (names w) \<subseteq> used \<union> set (candidates n w used)"
proof (induction n arbitrary: used)
  case (Suc n)
  show ?case
  proof (cases "find_free w (\<lambda>x. x \<in> used)")
    case None
    then show ?thesis using find_none [OF None] by (auto simp: list_all_iff)
  next
    case (Some c)
    then show ?thesis using Suc.IH [of "insert c used"] Suc.prems by auto
  qed
qed simp

lemma candidates_length: "length (candidates n w used) \<le> card (set (names w) - used)"
proof -
  have "length (candidates n w used) = card (set (candidates n w used))"
    by (simp add: distinct_card candidates_distinct)
  also have "\<dots> \<le> card (set (names w) - used)"
    by (rule card_mono) (use candidates_names [of n w used] candidates_fresh [of n w used] in auto)
  finally show ?thesis .
qed

end

end
