(* ===== verification/Cidr.thy ===== *)
theory Cidr
  imports Errors Interfaces "HOL-Library.Word"
begin

unbundle bit_operations_syntax

text \<open>
  \<open>lib/ipam/cidr.ts\<close>: IPv4 addresses as unsigned 32-bit numbers (the code normalises every
  result with \<open>>>> 0\<close>, so they are \<^typ>\<open>32 word\<close>), CIDR blocks, the window of usable hosts of a
  pool and the search for the first free address.
\<close>

type_synonym ipv4 = "32 word"

definition parse_octet :: "string \<Rightarrow> int option" where
  "parse_octet part =
     (if \<not> all_digits part then None
      else let n = js_number part in
        if \<not> js_is_integer n \<or> num_floor n < 0 \<or> 255 < num_floor n then None
        else Some (num_floor n))"

text \<open>The loop over the parts: \<open>n = ((n << 8) + o) >>> 0\<close>.\<close>

fun parse_octets :: "string \<Rightarrow> ipv4 \<Rightarrow> string list \<Rightarrow> ipv4 result" where
  "parse_octets ip n [] = Inr n"
| "parse_octets ip n (part # parts) =
     (case parse_octet part of
        None \<Rightarrow> throw (''Invalid IPv4 address: '' @ ip)
      | Some oct \<Rightarrow> parse_octets ip (push_bit 8 n + word_of_int oct) parts)"

definition parseIpv4 :: "string \<Rightarrow> ipv4 result" where
  "parseIpv4 ip =
     (let parts = js_split (CHR ''.'') (js_trim ip) in
      if length parts \<noteq> 4 then throw (''Invalid IPv4 address: '' @ ip)
      else parse_octets ip 0 parts)"

definition formatIpv4 :: "ipv4 \<Rightarrow> string" where
  "formatIpv4 x =
     js_join ''.'' (map (\<lambda>k. nat_str (unat (drop_bit k x AND 255))) [24, 16, 8, 0])"

record parsed_cidr =
  pc_cidr :: string
  pc_network :: ipv4
  pc_prefix :: int
  pc_mask :: ipv4
  pc_first :: ipv4
  pc_last :: ipv4

text \<open>\<open>1 << k\<close> is a signed 32-bit number: at \<open>k = 31\<close> it is negative.\<close>

definition shl_signed :: "int \<Rightarrow> nat \<Rightarrow> int" where
  "shl_signed a k = sint (push_bit (k mod 32) (word_of_int a :: 32 word))"

definition cidr_block :: "ipv4 \<Rightarrow> int \<Rightarrow> parsed_cidr" where
  "cidr_block addr pfx =
     (let mask = (if pfx = 0 then 0 else push_bit (nat (32 - pfx)) (word_of_int 0xffffffff));
          network = addr AND mask;
          hostBits = nat (32 - pfx);
          size = (if hostBits = 32 then 0x100000000 else shl_signed 1 hostBits);
          last = word_of_int (uint network + size - 1)
      in \<lparr>pc_cidr = formatIpv4 network @ ''/'' @ int_str pfx, pc_network = network,
              pc_prefix = pfx, pc_mask = mask, pc_first = network, pc_last = last\<rparr>)"

definition parseCidr :: "string \<Rightarrow> parsed_cidr result" where
  "parseCidr cidr =
     (let raw = js_trim cidr;
          slash = js_index_of (CHR ''/'') raw
      in if slash \<le> 0 then throw (''Invalid CIDR (expected a.b.c.d/nn): '' @ cidr)
      else let ip = js_slice raw 0 slash;
               pn = js_number (js_slice_from raw (slash + 1));
               prefix = num_floor pn
      in if \<not> js_is_integer pn \<or> prefix < 0 \<or> 32 < prefix
         then throw (''Invalid CIDR prefix: '' @ cidr)
         else res_bind (parseIpv4 ip) (\<lambda>addr. Inr (cidr_block addr prefix)))"

text \<open>\<open>containsIpv4\<close> with a number, and with a string that is parsed first.\<close>

definition containsIpv4 :: "parsed_cidr \<Rightarrow> ipv4 \<Rightarrow> bool" where
  "containsIpv4 p n \<longleftrightarrow> pc_first p \<le> n \<and> n \<le> pc_last p"

definition containsIpv4_str :: "parsed_cidr \<Rightarrow> string \<Rightarrow> bool result" where
  "containsIpv4_str p ip = res_bind (parseIpv4 ip) (\<lambda>n. Inr (containsIpv4 p n))"

definition addressFromIpv4Annotation :: "string \<Rightarrow> string option" where
  "addressFromIpv4Annotation v =
     (let s = js_trim v in
      if s = [] then None
      else let base = (if js_has_char (CHR ''/'') s then js_slice s 0 (js_index_of (CHR ''/'') s) else s)
           in if res_ok (parseIpv4 base) then Some base else None)"

record host_range =
  hr_start :: ipv4
  hr_end :: ipv4

definition narrow_start :: "parsed_cidr \<Rightarrow> string option \<Rightarrow> ipv4 \<Rightarrow> ipv4 result" where
  "narrow_start p opt start =
     (if \<not> truthy opt then Inr start
      else res_bind (parseIpv4 (opt_str opt)) (\<lambda>s.
        if \<not> containsIpv4 p s then throw (''Pool start '' @ opt_str opt @ '' is outside '' @ pc_cidr p)
        else Inr (max start s)))"

definition narrow_end :: "parsed_cidr \<Rightarrow> string option \<Rightarrow> ipv4 \<Rightarrow> ipv4 result" where
  "narrow_end p opt end' =
     (if \<not> truthy opt then Inr end'
      else res_bind (parseIpv4 (opt_str opt)) (\<lambda>e.
        if \<not> containsIpv4 p e then throw (''Pool end '' @ opt_str opt @ '' is outside '' @ pc_cidr p)
        else Inr (min end' e)))"

definition usableHostRange :: "parsed_cidr \<Rightarrow> string option \<Rightarrow> string option \<Rightarrow> host_range result" where
  "usableHostRange p opt_start opt_end =
     (let start = (if pc_prefix p \<le> 30 then pc_first p + 1 else pc_first p);
          end' = (if pc_prefix p \<le> 30 then pc_last p - 1 else pc_last p)
      in res_bind (narrow_start p opt_start start) (\<lambda>start.
         res_bind (narrow_end p opt_end end') (\<lambda>end'.
           if end' < start
           then throw (''No usable hosts in '' @ pc_cidr p @ '' with the given start/end'')
           else Inr \<lparr>hr_start = start, hr_end = end'\<rparr>)))"

definition countUsableHosts :: "host_range \<Rightarrow> int" where
  "countUsableHosts r = uint (hr_end r) - uint (hr_start r) + 1"

text \<open>
  The search loop: \<open>n\<close> is a number that is not wrapped, so the loop ends even for a window that
  ends at 255.255.255.255.
\<close>

function scan_free :: "int \<Rightarrow> int \<Rightarrow> (string \<Rightarrow> bool) \<Rightarrow> string option" where
  "scan_free n end' taken =
     (if end' < n then None
      else let ip = formatIpv4 (word_of_int n) in
        if taken ip then scan_free (n + 1) end' taken else Some ip)"
  by pat_completeness auto
termination
  by (relation "measure (\<lambda>(n, end', taken). nat (end' + 1 - n))") auto

declare scan_free.simps [simp del]

definition firstFreeIpv4 :: "host_range \<Rightarrow> string set \<Rightarrow> string set \<Rightarrow> string option" where
  "firstFreeIpv4 r used extraExclude =
     scan_free (uint (hr_start r)) (uint (hr_end r)) (\<lambda>ip. ip \<in> used \<or> ip \<in> extraExclude)"

section \<open>Octets and dotted notation\<close>

lemma unat_ipv4_less: "unat (x :: ipv4) < 4294967296"
proof -
  have "unat x < 2 ^ LENGTH(32)" by (rule unsigned_less)
  then show ?thesis by simp
qed

lemma uint_ipv4_less: "uint (x :: ipv4) < 4294967296"
proof -
  have "uint x < 2 ^ LENGTH(32)" by (rule unsigned_less)
  then show ?thesis by simp
qed

lemma js_round_big:
  assumes n: "2 ^ 53 \<le> n" and r: "js_round (of_nat n) = Fin q"
  shows "255 < q"
proof -
  have n0: "0 < n" using n by (metis gr0I not_le pos2 zero_less_power)
  let ?l = "ilog2 (int n)"
  have b: "2 ^ ?l \<le> int n" "int n < 2 ^ (?l + 1)"
    using ilog2_bounds [of "int n"] n0 by auto
  have "(2 :: int) ^ 53 \<le> int n" using n by (metis of_nat_le_iff of_nat_numeral of_nat_power)
  then have "(2 :: int) ^ 53 < 2 ^ (?l + 1)" using b(2) by linarith
  then have "53 < ?l + 1" by (rule power_less_imp_less_exp [rotated]) simp
  then have l: "53 \<le> ?l" by simp
  define u where "u = max (int ?l - 52) (-1074)"
  have u: "u = int ?l - int 52" "0 < u" using l by (auto simp: u_def)
  have p: "pow2 u = 2 ^ (?l - 52)"
    using l by (simp add: pow2_def u nat_diff_distrib')
  have "(2 :: rat) ^ ?l \<le> of_nat n"
    using b(1) by (metis of_int_le_iff of_int_numeral of_int_of_nat_eq of_int_power)
  moreover have "(2 :: rat) ^ ?l = 2 ^ 52 * 2 ^ (?l - 52)"
  proof -
    have "?l = 52 + (?l - 52)" using l by simp
    then show ?thesis by (metis power_add)
  qed
  ultimately have "2 ^ 52 \<le> of_nat n / pow2 u" by (simp add: p field_simps)
  then have "2 ^ 52 \<le> \<lfloor>of_nat n / pow2 u\<rfloor>" by (simp add: le_floor_iff)
  then have "2 ^ 52 \<le> round_half_even (of_nat n / pow2 u)"
    by (simp add: round_half_even_def Let_def)
  then have "(of_int (2 ^ 52) :: rat) \<le> of_int (round_half_even (of_nat n / pow2 u))"
    by (simp only: of_int_le_iff)
  moreover have "1 \<le> pow2 u" by (simp add: p)
  ultimately have "of_int (2 ^ 52) * 1 \<le> of_int (round_half_even (of_nat n / pow2 u)) * pow2 u"
    by (intro mult_mono) auto
  then show ?thesis
    using r n0 by (simp add: js_round_def bin_exp_of_nat [OF n0] Let_def u_def [symmetric] sgn_if
        split: if_splits)
qed


lemma parse_octet_Some:
  "parse_octet part = Some v \<longleftrightarrow> all_digits part \<and> digits_val part = v \<and> v \<le> 255"
proof (cases "all_digits part")
  case True
  then have nonneg: "0 \<le> digits_val part" by (simp add: all_digits_def digits_val_nonneg)
  show ?thesis
  proof (cases "digits_val part < 2 ^ 53")
    case less: True
    then show ?thesis
      using nonneg by (auto simp: parse_octet_def True js_number_digits [OF True less] Let_def)
  next
    case False
    then have big: "2 ^ 53 \<le> nat (digits_val part)" by (simp add: le_nat_iff)
    have num: "js_number part = js_round (of_nat (nat (digits_val part)))"
      using nonneg by (simp add: js_number_digits_round [OF True])
    have "parse_octet part = None"
    proof (cases "js_number part")
      case (Fin q)
      then have "255 < q" using js_round_big [OF big] num by simp
      then have "js_is_integer (Fin q) \<Longrightarrow> (of_int 255 :: rat) < of_int \<lfloor>q\<rfloor>" by simp
      then have "js_is_integer (Fin q) \<Longrightarrow> 255 < \<lfloor>q\<rfloor>" by (simp only: of_int_less_iff)
      then show ?thesis by (auto simp: parse_octet_def True Fin Let_def)
    qed (simp_all add: parse_octet_def True Let_def)
    then show ?thesis using False by auto
  qed
next
  case False
  then show ?thesis by (simp add: parse_octet_def)
qed

lemma parse_octet_nat_str: "n \<le> 255 \<Longrightarrow> parse_octet (nat_str n) = Some (int n)"
  by (simp add: parse_octet_Some all_digits_def nat_str_digits)

lemma uint_ipv4_of_int: "0 \<le> k \<Longrightarrow> k < 4294967296 \<Longrightarrow> uint (word_of_int k :: ipv4) = k"
  by (simp only: uint_word_of_int_eq) (simp add: take_bit_int_eq_self)

text \<open>The value of four octets, in network order.\<close>

definition dotted_value :: "string list \<Rightarrow> int" where
  "dotted_value parts = foldl (\<lambda>n p. 256 * n + digits_val p) 0 parts"

lemma octet_fold_word:
  "word_of_int a = (word_of_int b :: ipv4) \<Longrightarrow>
     word_of_int (foldl (\<lambda>m p. 256 * m + digits_val p) a ps) =
     (word_of_int (foldl (\<lambda>m p. 256 * m + digits_val p) b ps) :: ipv4)"
proof (induction ps arbitrary: a b)
  case (Cons p ps)
  have "word_of_int (256 * a + digits_val p) = (word_of_int (256 * b + digits_val p) :: ipv4)"
    using Cons.prems by (simp only: of_int_add of_int_mult)
  from Cons.IH [OF this] show ?case by simp
qed simp

lemma parse_octets_Inr:
  "parse_octets ip n parts = Inr x \<longleftrightarrow>
     list_all (\<lambda>p. parse_octet p \<noteq> None) parts \<and>
     x = word_of_int (foldl (\<lambda>m p. 256 * m + digits_val p) (uint n) parts)"
proof (induction parts arbitrary: n)
  case Nil
  then show ?case by auto
next
  case (Cons p parts)
  show ?case
  proof (cases "parse_octet p")
    case None
    then show ?thesis by simp
  next
    case (Some v)
    then have v: "v = digits_val p" by (simp add: parse_octet_Some)
    have step: "push_bit 8 n + word_of_int v = (word_of_int (256 * uint n + v) :: ipv4)"
      by (simp add: push_bit_eq_mult)
    have "word_of_int (foldl (\<lambda>m p. 256 * m + digits_val p) (uint (word_of_int k :: ipv4)) parts) =
        (word_of_int (foldl (\<lambda>m p. 256 * m + digits_val p) k parts) :: ipv4)" for k
      by (rule octet_fold_word) simp
    then have IH: "parse_octets ip (word_of_int (256 * uint n + v)) parts = Inr x \<longleftrightarrow>
        list_all (\<lambda>p. parse_octet p \<noteq> None) parts \<and>
        x = word_of_int (foldl (\<lambda>m p. 256 * m + digits_val p) (256 * uint n + v) parts)"
      using Cons.IH [of "word_of_int (256 * uint n + v)"] by (simp only:)
    show ?thesis
      unfolding parse_octets.simps Some option.case step IH by (simp add: v [symmetric] Some)
  qed
qed

lemma parseIpv4_Inr:
  "parseIpv4 ip = Inr x \<longleftrightarrow>
     (let parts = js_split (CHR ''.'') (js_trim ip) in
      length parts = 4 \<and> list_all (\<lambda>p. parse_octet p \<noteq> None) parts \<and>
      x = word_of_int (dotted_value parts))"
  unfolding parseIpv4_def Let_def dotted_value_def
  by (simp only: parse_octets_Inr unsigned_0 throw_not_Inr if_split_eq1 if_False if_True simp_thms split: if_split) blast

lemma word_octets:
  fixes x :: ipv4
  shows "256 * (256 * (256 * (unat (drop_bit 24 x AND 255)) + unat (drop_bit 16 x AND 255))
    + unat (drop_bit 8 x AND 255)) + unat (drop_bit 0 x AND 255) = unat x"
proof -
  have m: "unat (drop_bit k x AND 255) = unat x div 2 ^ k mod 256" for k
  proof -
    have "drop_bit k x AND 255 = take_bit 8 (drop_bit k x)"
      by (simp add: take_bit_eq_mask mask_eq_exp_minus_1)
    moreover have "unat (take_bit 8 (drop_bit k x)) = take_bit 8 (drop_bit k (unat x))"
      using unat_ipv4_less [of x] by (simp add: unsigned_take_bit_eq unsigned_drop_bit_eq take_bit_nat_eq_self)
    ultimately show ?thesis by (simp add: drop_bit_eq_div take_bit_eq_mod)
  qed
  have "unat x < 4294967296" by (rule unat_ipv4_less)
  then have "unat x div 16777216 mod 256 = unat x div 16777216" by simp
  moreover have "256 * (256 * (256 * (n div 16777216) + n div 65536 mod 256) + n div 256 mod 256) + n mod 256 = n"
    for n :: nat
  proof -
    have "n div 65536 = n div 256 div 256" "n div 16777216 = n div 256 div 256 div 256"
      by (simp_all flip: div_mult2_eq)
    then show ?thesis by (simp only: mult_div_mod_eq)
  qed
  ultimately show ?thesis unfolding m by simp
qed

lemma octet_le: "unat (drop_bit k (x :: ipv4) AND 255) \<le> 255"
proof -
  have "drop_bit k x AND 255 \<le> 255" by (rule word_and_le1)
  then show ?thesis by (simp add: word_le_nat_alt)
qed

lemma split_join_nats:
  "ks \<noteq> [] \<Longrightarrow> js_split (CHR ''.'') (js_join ''.'' (map (\<lambda>k. nat_str (f k)) ks)) =
     map (\<lambda>k. nat_str (f k)) ks"
  by (rule js_split_join) (auto simp: nat_str_char)

lemma formatIpv4_parts:
  "js_split (CHR ''.'') (formatIpv4 x) = map (\<lambda>k. nat_str (unat (drop_bit k x AND 255))) [24, 16, 8, 0]"
  unfolding formatIpv4_def by (rule split_join_nats) simp

lemma formatIpv4_chars: "c \<in> set (formatIpv4 x) \<Longrightarrow> is_digit c \<or> c = CHR ''.''"
  unfolding formatIpv4_def set_js_join by (auto dest: nat_str_digit)

lemma formatIpv4_trim [simp]: "js_trim (formatIpv4 x) = formatIpv4 x"
proof (rule js_trim_no_space, rule ballI)
  fix c assume "c \<in> set (formatIpv4 x)"
  then consider "is_digit c" | "c = CHR ''.''" using formatIpv4_chars [of c x] by blast
  then show "\<not> js_space c"
  proof cases
    case 1
    then show ?thesis using is_digit_cases [of c] by simp
  qed (simp add: js_space_def)
qed

lemma parse_format_ipv4: "parseIpv4 (formatIpv4 x) = Inr x"
proof -
  let ?parts = "map (\<lambda>k. nat_str (unat (drop_bit k x AND 255))) [24, 16, 8, 0]"
  have "dotted_value ?parts = int (unat x)"
    by (subst word_octets [of x, symmetric]) (simp add: dotted_value_def)
  then have "word_of_int (dotted_value ?parts) = x" by simp
  moreover have "list_all (\<lambda>p. parse_octet p \<noteq> None) ?parts"
    by (simp add: parse_octet_nat_str octet_le del: drop_bit_0)
  ultimately show ?thesis
    unfolding parseIpv4_Inr formatIpv4_trim formatIpv4_parts Let_def
    by (simp only: length_map list.size) simp
qed


section \<open>Blocks\<close>

definition host_bits :: "parsed_cidr \<Rightarrow> nat" where
  "host_bits p = nat (32 - pc_prefix p)"

text \<open>The invariant of a parsed block.\<close>

definition cidr_wf :: "parsed_cidr \<Rightarrow> bool" where
  "cidr_wf p \<longleftrightarrow>
     0 \<le> pc_prefix p \<and> pc_prefix p \<le> 32 \<and>
     pc_mask p = (if pc_prefix p = 0 then 0 else push_bit (host_bits p) (- 1)) \<and>
     (\<exists>a. pc_network p = a AND pc_mask p) \<and>
     pc_first p = pc_network p \<and>
     uint (pc_last p) = uint (pc_network p) + 2 ^ host_bits p - 1"

lemma all_ones: "(word_of_int 0xffffffff :: ipv4) = - 1"
  by simp

lemma block_start_le: "(2 ^ k :: int) * (x div 2 ^ k) \<le> x"
proof -
  have "2 ^ k * (x div 2 ^ k) + x mod 2 ^ k = x" by (rule mult_div_mod_eq)
  moreover have "0 \<le> x mod 2 ^ k" by simp
  ultimately show ?thesis by linarith
qed

lemma uint_and_mask:
  fixes a :: ipv4
  assumes "k \<le> 32"
  shows "uint (a AND (if k = 32 then 0 else push_bit k (- 1))) = 2 ^ k * (uint a div 2 ^ k)"
proof (cases "k = 32")
  case True
  then show ?thesis using uint_ipv4_less [of a] by simp
next
  case False
  have "a AND push_bit k (- 1) = push_bit k (drop_bit k a)"
    by (rule bit_word_eqI) (auto simp: bit_simps)
  moreover have "uint (push_bit k (drop_bit k a)) = take_bit 32 (push_bit k (drop_bit k (uint a)))"
    by (simp add: unsigned_push_bit_eq unsigned_drop_bit_eq take_bit_int_eq_self uint_ipv4_less)
  moreover have "push_bit k (drop_bit k (uint a)) = 2 ^ k * (uint a div 2 ^ k)"
    by (simp add: push_bit_eq_mult drop_bit_eq_div mult.commute)
  moreover have "2 ^ k * (uint a div 2 ^ k) \<le> uint a" "0 \<le> 2 ^ k * (uint a div 2 ^ k)"
    by (rule block_start_le) (simp add: pos_imp_zdiv_nonneg_iff)
  ultimately show ?thesis
    using False uint_ipv4_less [of a] by (simp add: take_bit_int_eq_self)
qed

lemma block_size_word:
  assumes "k \<le> 32"
  shows "word_of_int (if k = 32 then 0x100000000 else shl_signed 1 k) = (word_of_int (2 ^ k) :: ipv4)"
proof (cases "k = 32")
  case False
  then have "k mod 32 = k" using assms by simp
  then have "word_of_int (shl_signed 1 k) = (push_bit k 1 :: ipv4)"
    by (simp add: shl_signed_def)
  then show ?thesis using False by (simp add: push_bit_eq_mult)
qed simp

lemma last_of_block:
  fixes a :: ipv4
  assumes k: "k \<le> 32" and net: "net = a AND (if k = 32 then 0 else push_bit k (- 1))"
  shows "uint (word_of_int (uint net + (if k = 32 then 0x100000000 else shl_signed 1 k) - 1) :: ipv4)
    = uint net + 2 ^ k - 1"
proof -
  have "(word_of_int (uint net + (if k = 32 then 0x100000000 else shl_signed 1 k) - 1) :: ipv4)
      = word_of_int (uint net + 2 ^ k - 1)"
    using block_size_word [OF k] by (simp only: of_int_add of_int_diff)
  moreover have "uint net + 2 ^ k - 1 < 4294967296"
  proof -
    have u: "uint net = 2 ^ k * (uint a div 2 ^ k)" using uint_and_mask [OF k] net by simp
    have "(4294967296 :: int) = 2 ^ k * 2 ^ (32 - k)" using k by (simp flip: power_add)
    moreover have "uint a div 2 ^ k < 2 ^ (32 - k)"
    proof (rule ccontr)
      assume "\<not> ?thesis"
      then have "2 ^ k * 2 ^ (32 - k) \<le> 2 ^ k * (uint a div 2 ^ k)" by (intro mult_left_mono) auto
      moreover have "2 ^ k * (uint a div 2 ^ k) \<le> uint a" by (rule block_start_le)
      ultimately show False using uint_ipv4_less [of a] \<open>4294967296 = 2 ^ k * 2 ^ (32 - k)\<close> by linarith
    qed
    then have "2 ^ k * (uint a div 2 ^ k + 1) \<le> 2 ^ k * (2 ^ (32 - k) :: int)"
      by (intro mult_left_mono) auto
    ultimately show ?thesis using u by (simp add: algebra_simps)
  qed
  moreover have "0 \<le> uint net + 2 ^ k - 1"
    using one_le_power [of "2 :: int" k] by (simp add: algebra_simps add_increasing)
  ultimately show ?thesis by (simp only: uint_word_of_int_eq) (simp add: take_bit_int_eq_self)
qed

lemma parseCidr_Inr:
  assumes "parseCidr s = Inr p"
  shows "\<exists>addr pn. 0 \<le> pn \<and> pn \<le> 32 \<and> p = cidr_block addr pn"
  using assms unfolding parseCidr_def Let_def
  by (cases "parseIpv4 (js_slice (js_trim s) 0 (js_index_of CHR ''/'' (js_trim s)))")
    (auto split: if_splits simp: not_less)

lemma parseCidr_wf:
  assumes "parseCidr s = Inr p" shows "cidr_wf p"
proof -
  obtain addr pn where pn: "0 \<le> pn" "pn \<le> 32" and p: "p = cidr_block addr pn"
    using parseCidr_Inr [OF assms] by blast
  define k where "k = nat (32 - pn)"
  have k: "k \<le> 32" "pn = 0 \<longleftrightarrow> k = 32" using pn by (auto simp: k_def)
  let ?m = "if k = 32 then 0 else push_bit k (- 1) :: ipv4"
  have hb: "host_bits p = k" "pc_prefix p = pn" "pc_mask p = ?m"
    "pc_network p = addr AND ?m" "pc_first p = pc_network p"
    "pc_last p = word_of_int (uint (pc_network p) + (if k = 32 then 0x100000000 else shl_signed 1 k) - 1)"
    using k(2) unfolding p cidr_block_def Let_def host_bits_def all_ones k_def [symmetric] by (simp_all add: k_def)
  have "uint (pc_last p) = uint (pc_network p) + 2 ^ k - 1"
    unfolding hb(6) by (rule last_of_block [OF k(1) hb(4)])
  then show ?thesis
    unfolding cidr_wf_def hb(1) using pn k(2) hb by (auto intro: exI [of _ addr])
qed

lemma div_block_iff: "0 < m \<Longrightarrow> x div m = q \<longleftrightarrow> m * q \<le> x \<and> x < m * q + m" for x m q :: int
proof -
  assume m: "0 < m"
  have x: "x = m * (x div m) + x mod m" "0 \<le> x mod m" "x mod m < m" using m by simp_all
  show ?thesis
  proof
    assume "m * q \<le> x \<and> x < m * q + m"
    then show "x div m = q"
      using m by (intro int_div_pos_eq [of _ _ _ "x - m * q"]) (auto simp: algebra_simps)
  qed (use x in auto)
qed

text \<open>Membership by bounds is membership by mask.\<close>

lemma contains_iff_mask:
  assumes wf: "cidr_wf p"
  shows "containsIpv4 p x \<longleftrightarrow> x AND pc_mask p = pc_network p"
proof -
  define k where "k = host_bits p"
  have k: "k \<le> 32" "pc_prefix p = 0 \<longleftrightarrow> k = 32" using wf by (auto simp: cidr_wf_def k_def host_bits_def)
  then have m: "pc_mask p = (if k = 32 then 0 else push_bit k (- 1))"
    using wf by (simp add: cidr_wf_def k_def)
  obtain a where a: "pc_network p = a AND pc_mask p" using wf by (auto simp: cidr_wf_def)
  have net: "uint (pc_network p) = 2 ^ k * (uint a div 2 ^ k)"
    unfolding a m by (rule uint_and_mask [OF k(1)])
  have x: "uint (x AND pc_mask p) = 2 ^ k * (uint x div 2 ^ k)"
    unfolding m by (rule uint_and_mask [OF k(1)])
  have last: "uint (pc_last p) = uint (pc_network p) + 2 ^ k - 1"
    using wf by (simp add: cidr_wf_def k_def)
  have "x AND pc_mask p = pc_network p \<longleftrightarrow> uint x div 2 ^ k = uint a div 2 ^ k"
    using net x by (simp add: word_uint_eq_iff)
  also have "\<dots> \<longleftrightarrow> 2 ^ k * (uint a div 2 ^ k) \<le> uint x \<and> uint x < 2 ^ k * (uint a div 2 ^ k) + 2 ^ k"
    by (rule div_block_iff) simp
  also have "\<dots> \<longleftrightarrow> containsIpv4 p x"
    using wf last net by (auto simp: containsIpv4_def cidr_wf_def word_le_def)
  finally show ?thesis by simp
qed


text \<open>Reading back a block in canonical notation.\<close>

lemma formatIpv4_no_char: "\<not> is_digit c \<Longrightarrow> c \<noteq> CHR ''.'' \<Longrightarrow> c \<notin> set (formatIpv4 x)"
  using formatIpv4_chars by blast

lemma formatIpv4_not_Nil [simp]: "formatIpv4 x \<noteq> []"
  by (simp add: formatIpv4_def del: nat_str.simps)

lemma cidr_text_trim: "js_trim (formatIpv4 x @ CHR ''/'' # nat_str k) = formatIpv4 x @ CHR ''/'' # nat_str k"
proof (rule js_trim_no_space, rule ballI)
  fix c assume "c \<in> set (formatIpv4 x @ CHR ''/'' # nat_str k)"
  then consider "is_digit c" | "c = CHR ''.''" | "c = CHR ''/''"
    using formatIpv4_chars [of c x] nat_str_digit [of c k] by auto
  then show "\<not> js_space c"
  proof cases
    case 1
    then show ?thesis using is_digit_cases [of c] by simp
  qed (simp_all add: js_space_def)
qed

lemma parseCidr_format:
  assumes k: "k \<le> 32"
  shows "parseCidr (formatIpv4 x @ ''/'' @ nat_str k) = Inr (cidr_block x (int k))"
proof -
  let ?s = "formatIpv4 x @ CHR ''/'' # nat_str k"
  have trim: "js_trim ?s = ?s" by (rule cidr_text_trim)
  have slash: "js_index_of (CHR ''/'') ?s = int (length (formatIpv4 x))"
    by (rule js_index_of_append) (rule formatIpv4_no_char; simp)
  have pos: "\<not> int (length (formatIpv4 x)) \<le> 0" by (simp del: formatIpv4_not_Nil add: formatIpv4_not_Nil)
  have num: "js_number (nat_str k) = Fin (of_int (int k))"
    by (subst js_number_digits) (use k in \<open>simp_all add: all_digits_def nat_str_digits\<close>)
  have "js_slice_from ?s (int (length (formatIpv4 x)) + 1) = nat_str k" by (rule js_slice_from_Suc_length)
  then show ?thesis
    unfolding parseCidr_def append_Cons append_Nil trim Let_def slash js_slice_0_length if_not_P [OF pos]
    using k by (simp add: num parse_format_ipv4)
qed
section \<open>The window of usable hosts\<close>

lemma first_le_last:
  assumes "cidr_wf p" shows "pc_first p \<le> pc_last p"
proof -
  have "(1 :: int) \<le> 2 ^ host_bits p" by simp
  then show ?thesis using assms by (simp add: cidr_wf_def word_le_def)
qed

lemma inner_hosts:
  assumes wf: "cidr_wf p" and small: "pc_prefix p \<le> 30"
  shows "uint (pc_first p + 1) = uint (pc_first p) + 1" "uint (pc_last p - 1) = uint (pc_last p) - 1"
proof -
  have "2 \<le> host_bits p" using wf small by (auto simp: host_bits_def cidr_wf_def)
  then have "(2 :: int) ^ 2 \<le> 2 ^ host_bits p" by (intro power_increasing) auto
  then have d: "uint (pc_first p) + 3 \<le> uint (pc_last p)" using wf by (simp add: cidr_wf_def)
  have b: "uint (pc_last p) < 4294967296" "0 \<le> uint (pc_first p)"
    using uint_ipv4_less by simp_all
  have w: "pc_first p + 1 = word_of_int (uint (pc_first p) + 1)"
    "pc_last p - 1 = word_of_int (uint (pc_last p) - 1)" by simp_all
  show "uint (pc_first p + 1) = uint (pc_first p) + 1"
    unfolding w by (rule uint_ipv4_of_int) (use b d in linarith)+
  show "uint (pc_last p - 1) = uint (pc_last p) - 1"
    unfolding w by (rule uint_ipv4_of_int) (use b d in linarith)+
qed

lemma inner_hosts_iff:
  assumes wf: "cidr_wf p" and small: "pc_prefix p \<le> 30"
  shows "pc_first p + 1 \<le> x \<and> x \<le> pc_last p - 1 \<longleftrightarrow>
    containsIpv4 p x \<and> x \<noteq> pc_first p \<and> x \<noteq> pc_last p"
  unfolding word_le_def inner_hosts [OF assms] containsIpv4_def word_uint_eq_iff by auto

lemma narrow_start_Inr:
  "narrow_start p opt a = Inr b \<longleftrightarrow>
     (if truthy opt then \<exists>s. parseIpv4 (opt_str opt) = Inr s \<and> containsIpv4 p s \<and> b = max a s
      else b = a)"
  by (auto simp: narrow_start_def res_bind_Inr split: if_splits)

lemma narrow_end_Inr:
  "narrow_end p opt a = Inr b \<longleftrightarrow>
     (if truthy opt then \<exists>s. parseIpv4 (opt_str opt) = Inr s \<and> containsIpv4 p s \<and> b = min a s
      else b = a)"
  by (auto simp: narrow_end_def res_bind_Inr split: if_splits)

lemma usableHostRange_Inr:
  "usableHostRange p os oe = Inr r \<longleftrightarrow>
     narrow_start p os (if pc_prefix p \<le> 30 then pc_first p + 1 else pc_first p) = Inr (hr_start r) \<and>
     narrow_end p oe (if pc_prefix p \<le> 30 then pc_last p - 1 else pc_last p) = Inr (hr_end r) \<and>
     hr_start r \<le> hr_end r"
  by (cases r) (auto simp: usableHostRange_def Let_def res_bind_Inr not_less split: if_splits)

text \<open>A bound of the pool configuration, when it is given.\<close>

definition from_bound :: "string option \<Rightarrow> ipv4 \<Rightarrow> bool" where
  "from_bound opt x \<longleftrightarrow> \<not> truthy opt \<or> (\<exists>s. parseIpv4 (opt_str opt) = Inr s \<and> s \<le> x)"

definition to_bound :: "string option \<Rightarrow> ipv4 \<Rightarrow> bool" where
  "to_bound opt x \<longleftrightarrow> \<not> truthy opt \<or> (\<exists>s. parseIpv4 (opt_str opt) = Inr s \<and> x \<le> s)"

lemma narrow_start_le:
  assumes "narrow_start p opt a = Inr b" shows "b \<le> x \<longleftrightarrow> a \<le> x \<and> from_bound opt x"
  using assms by (auto simp: narrow_start_Inr from_bound_def split: if_splits)

lemma narrow_end_le:
  assumes "narrow_end p opt a = Inr b" shows "x \<le> b \<longleftrightarrow> x \<le> a \<and> to_bound opt x"
  using assms by (auto simp: narrow_end_Inr to_bound_def split: if_splits)

definition in_range :: "host_range \<Rightarrow> ipv4 \<Rightarrow> bool" where
  "in_range r x \<longleftrightarrow> hr_start r \<le> x \<and> x \<le> hr_end r"

lemma in_range_iff:
  assumes wf: "cidr_wf p" and r: "usableHostRange p os oe = Inr r"
  shows "in_range r x \<longleftrightarrow>
     containsIpv4 p x \<and> (pc_prefix p \<le> 30 \<longrightarrow> x \<noteq> pc_first p \<and> x \<noteq> pc_last p) \<and>
     from_bound os x \<and> to_bound oe x"
proof -
  let ?a = "if pc_prefix p \<le> 30 then pc_first p + 1 else pc_first p"
  let ?b = "if pc_prefix p \<le> 30 then pc_last p - 1 else pc_last p"
  have n: "narrow_start p os ?a = Inr (hr_start r)" "narrow_end p oe ?b = Inr (hr_end r)"
    using r by (simp_all only: usableHostRange_Inr)
  have "in_range r x \<longleftrightarrow> (?a \<le> x \<and> x \<le> ?b) \<and> from_bound os x \<and> to_bound oe x"
    unfolding in_range_def narrow_start_le [OF n(1)] narrow_end_le [OF n(2)] by blast
  also have "?a \<le> x \<and> x \<le> ?b \<longleftrightarrow>
      containsIpv4 p x \<and> (pc_prefix p \<le> 30 \<longrightarrow> x \<noteq> pc_first p \<and> x \<noteq> pc_last p)"
    using inner_hosts_iff [OF wf] by (simp add: containsIpv4_def)
  finally show ?thesis by blast
qed

section \<open>The search for a free address\<close>

lemma scan_free_None:
  "scan_free n m taken = None \<longleftrightarrow> (\<forall>k. n \<le> k \<and> k \<le> m \<longrightarrow> taken (formatIpv4 (word_of_int k)))"
proof (induction n m taken rule: scan_free.induct)
  case (1 n m taken)
  show ?case
  proof (cases "m < n \<or> \<not> taken (formatIpv4 (word_of_int n))")
    case True
    then show ?thesis by (subst scan_free.simps) (force simp: Let_def)
  next
    case False
    have r: "(\<forall>k. n \<le> k \<and> k \<le> m \<longrightarrow> P k) \<longleftrightarrow> P n \<and> (\<forall>k. n + 1 \<le> k \<and> k \<le> m \<longrightarrow> P k)"
      for P :: "int \<Rightarrow> bool" using False by (metis add1_zle_eq order_le_less not_less zle_add1_eq_le)
    show ?thesis
      unfolding r by (subst scan_free.simps) (use False 1 in \<open>simp add: Let_def\<close>)
  qed
qed

lemma scan_free_Some:
  "scan_free n m taken = Some ip \<Longrightarrow>
     \<exists>k. n \<le> k \<and> k \<le> m \<and> ip = formatIpv4 (word_of_int k) \<and> \<not> taken ip \<and>
         (\<forall>j. n \<le> j \<and> j < k \<longrightarrow> taken (formatIpv4 (word_of_int j)))"
proof (induction n m taken rule: scan_free.induct)
  case (1 n m taken)
  show ?case
  proof (cases "m < n \<or> \<not> taken (formatIpv4 (word_of_int n))")
    case True
    then show ?thesis
      using 1(2) by (subst (asm) scan_free.simps) (force simp: Let_def split: if_splits intro: exI [of _ n])
  next
    case False
    then have "scan_free (n + 1) m taken = Some ip"
      using 1(2) by (subst (asm) scan_free.simps) (simp add: Let_def)
    then obtain k where k: "n + 1 \<le> k" "k \<le> m" "ip = formatIpv4 (word_of_int k)" "\<not> taken ip"
      "\<And>j. n + 1 \<le> j \<Longrightarrow> j < k \<Longrightarrow> taken (formatIpv4 (word_of_int j))"
      using 1(1) False by (auto simp: Let_def)
    have "taken (formatIpv4 (word_of_int j))" if "n \<le> j" "j < k" for j
      using k(5) [of j] that False by (cases "j = n") auto
    then show ?thesis using k(1-4) by (intro exI [of _ k]) auto
  qed
qed

text \<open>The addresses of a window, in ascending order.\<close>

definition range_addresses :: "host_range \<Rightarrow> string list" where
  "range_addresses r = map (\<lambda>k. formatIpv4 (word_of_int k)) [uint (hr_start r)..uint (hr_end r)]"

lemma set_range_addresses: "set (range_addresses r) = formatIpv4 ` {x. in_range r x}"
proof -
  have "(word_of_int :: int \<Rightarrow> ipv4) ` {uint (hr_start r)..uint (hr_end r)} = {x. in_range r x}"
  proof (intro equalityI subsetI)
    fix x :: ipv4 assume "x \<in> word_of_int ` {uint (hr_start r)..uint (hr_end r)}"
    then obtain k where k: "x = word_of_int k" "uint (hr_start r) \<le> k" "k \<le> uint (hr_end r)" by auto
    moreover have "k < 4294967296" "0 \<le> k"
      using k uint_ipv4_less [of "hr_end r"] by (auto intro: order_trans [OF uint_ge_0])
    then have "uint (word_of_int k :: ipv4) = k" by (intro uint_ipv4_of_int)
    ultimately show "x \<in> {x. in_range r x}" unfolding mem_Collect_eq by (simp add: in_range_def word_le_def)
  next
    fix x :: ipv4 assume "x \<in> {x. in_range r x}"
    then show "x \<in> word_of_int ` {uint (hr_start r)..uint (hr_end r)}"
      by (auto simp: in_range_def word_le_def intro: image_eqI [of _ _ "uint x"])
  qed
  then show ?thesis by (simp add: range_addresses_def image_image [symmetric])
qed


section \<open>Shared interfaces\<close>

text \<open>The notation of addresses and the search are instances of the shared interfaces.\<close>

definition read_ipv4 :: "string \<Rightarrow> ipv4 option" where
  "read_ipv4 s = res_opt (parseIpv4 s)"

interpretation ipv4_text: codec formatIpv4 read_ipv4
  by unfold_locales (simp add: read_ipv4_def parse_format_ipv4)

definition find_free_ipv4 :: "host_range \<Rightarrow> (string \<Rightarrow> bool) \<Rightarrow> string option" where
  "find_free_ipv4 r taken = scan_free (uint (hr_start r)) (uint (hr_end r)) taken"

lemma firstFreeIpv4_find:
  "firstFreeIpv4 r used excl = find_free_ipv4 r (\<lambda>ip. ip \<in> used \<union> excl)"
  by (simp add: firstFreeIpv4_def find_free_ipv4_def)

interpretation ipv4_search: free_search range_addresses find_free_ipv4
proof
  fix w taken n assume "find_free_ipv4 w taken = Some n"
  then show "n \<in> set (range_addresses w) \<and> \<not> taken n"
    by (auto simp: find_free_ipv4_def range_addresses_def dest!: scan_free_Some)
next
  fix w taken assume "find_free_ipv4 w taken = None"
  then show "list_all taken (range_addresses w)"
    by (simp add: find_free_ipv4_def range_addresses_def scan_free_None list_all_iff)
qed

lemma range_addresses_length: "int (length (range_addresses r)) = max 0 (countUsableHosts r)"
  by (simp add: range_addresses_def countUsableHosts_def)

lemma range_addresses_distinct: "distinct (range_addresses r)"
proof -
  have "inj_on (word_of_int :: int \<Rightarrow> ipv4) {uint (hr_start r)..uint (hr_end r)}"
  proof (rule inj_onI)
    fix a b :: int
    assume "a \<in> {uint (hr_start r)..uint (hr_end r)}" "b \<in> {uint (hr_start r)..uint (hr_end r)}"
      and eq: "(word_of_int a :: ipv4) = word_of_int b"
    then have "0 \<le> a" "a < 4294967296" "0 \<le> b" "b < 4294967296"
      using uint_ipv4_less [of "hr_end r"] by (auto intro: order_trans [OF uint_ge_0])
    then show "a = b" using eq uint_ipv4_of_int by metis
  qed
  then have "distinct (map (word_of_int :: int \<Rightarrow> ipv4) [uint (hr_start r)..uint (hr_end r)])"
    by (simp add: distinct_map)
  then have "distinct (map formatIpv4 (map word_of_int [uint (hr_start r)..uint (hr_end r)]))"
    by (simp only: ipv4_text.distinct_enc)
  then show ?thesis by (simp add: range_addresses_def comp_def)
qed


section \<open>Properties\<close>

lemma scan_free_least:
  assumes "firstFreeIpv4 r used excl = Some ip"
  shows "\<exists>x. in_range r x \<and> ip = formatIpv4 x \<and> ip \<notin> used \<union> excl \<and>
           (\<forall>y. in_range r y \<and> y < x \<longrightarrow> formatIpv4 y \<in> used \<union> excl)"
proof -
  from assms have "scan_free (uint (hr_start r)) (uint (hr_end r)) (\<lambda>ip. ip \<in> used \<or> ip \<in> excl) = Some ip"
    by (simp add: firstFreeIpv4_def)
  from scan_free_Some [OF this] obtain k where k: "uint (hr_start r) \<le> k" "k \<le> uint (hr_end r)"
    "ip = formatIpv4 (word_of_int k)" "\<not> (ip \<in> used \<or> ip \<in> excl)"
    "\<forall>j. uint (hr_start r) \<le> j \<and> j < k \<longrightarrow> formatIpv4 (word_of_int j) \<in> used \<or> formatIpv4 (word_of_int j) \<in> excl"
    by blast
  have "0 \<le> k" "k < 4294967296"
    using k uint_ipv4_less [of "hr_end r"] by (auto intro: order_trans [OF uint_ge_0])
  then have u: "uint (word_of_int k :: ipv4) = k" by (rule uint_ipv4_of_int)
  have "formatIpv4 y \<in> used \<union> excl" if "in_range r y" "y < word_of_int k" for y
    using k(5) [rule_format, of "uint y"] that u by (simp add: in_range_def word_le_def word_less_def)
  then show ?thesis
    using k u by (intro exI [of _ "word_of_int k"]) (auto simp: in_range_def word_le_def)
qed

lemma cidr_block_again:
  assumes "0 \<le> n" "n \<le> 32" shows "cidr_block (pc_network (cidr_block a n)) n = cidr_block a n"
  by (simp add: cidr_block_def Let_def and.assoc)

lemma cidr_block_text: "0 \<le> n \<Longrightarrow> pc_cidr (cidr_block a n) = formatIpv4 (pc_network (cidr_block a n)) @ ''/'' @ nat_str (nat n)"
  by (simp add: cidr_block_def Let_def int_str_def)

text \<open>
  C4. The window of usable hosts of a parsed block is exactly the set of addresses of the block
  that are neither its network nor its broadcast address (blocks up to /30) and that lie between
  the configured start and end, when these are given.
\<close>

theorem usable_window_exact:
  assumes "parseCidr s = Inr p" and "usableHostRange p os oe = Inr r"
  shows "hr_start r \<le> hr_end r \<and>
    (\<forall>x. in_range r x \<longleftrightarrow>
       containsIpv4 p x \<and> (pc_prefix p \<le> 30 \<longrightarrow> x \<noteq> pc_first p \<and> x \<noteq> pc_last p) \<and>
       from_bound os x \<and> to_bound oe x)"
  using in_range_iff [OF parseCidr_wf [OF assms(1)] assms(2)] assms(2)
  by (simp add: usableHostRange_Inr)

lemma usable_window_exact_witness:
  "\<exists>p r. parseCidr ''10.40.1.77/24'' = Inr p \<and> usableHostRange p (Some ''10.40.1.20'') None = Inr r \<and>
     hr_start r = 0x0a280114 \<and> hr_end r = 0x0a2801fe \<and>
     (\<forall>x. in_range r x \<longleftrightarrow>
       containsIpv4 p x \<and> (pc_prefix p \<le> 30 \<longrightarrow> x \<noteq> pc_first p \<and> x \<noteq> pc_last p) \<and>
       from_bound (Some ''10.40.1.20'') x \<and> to_bound None x)"
proof -
  have p: "parseCidr ''10.40.1.77/24'' = Inr (cidr_block 0x0a28014d 24)" by code_simp
  have r: "usableHostRange (cidr_block 0x0a28014d 24) (Some ''10.40.1.20'') None =
    Inr \<lparr>hr_start = 0x0a280114, hr_end = 0x0a2801fe\<rparr>" by code_simp
  show ?thesis
    using usable_window_exact [OF p r] p r
    by (intro exI [of _ "cidr_block 0x0a28014d 24"] exI [of _ "\<lparr>hr_start = 0x0a280114, hr_end = 0x0a2801fe\<rparr> :: host_range"])
      simp
qed

text \<open>
  For every block that the parser accepts, comparing an address with the first and the last
  address of the block (what the code does, with a size computed by a signed shift) is the same
  as comparing the masked address with the network.
\<close>

lemma bounds_are_the_mask:
  assumes "parseCidr s = Inr p"
  shows "containsIpv4 p x \<longleftrightarrow> x AND pc_mask p = pc_network p"
  by (rule contains_iff_mask [OF parseCidr_wf [OF assms]])

lemma bounds_are_the_mask_witness:
  "\<exists>p. parseCidr ''200.1.2.3/1'' = Inr p \<and> pc_last p = 0xffffffff \<and>
     (containsIpv4 p 0x80000005 \<longleftrightarrow> 0x80000005 AND pc_mask p = pc_network p) \<and> containsIpv4 p 0x80000005"
proof -
  have p: "parseCidr ''200.1.2.3/1'' = Inr (cidr_block 0xc8010203 1)" by code_simp
  have "pc_last (cidr_block 0xc8010203 1) = 0xffffffff" "containsIpv4 (cidr_block 0xc8010203 1) 0x80000005"
    by code_simp+
  then show ?thesis using p bounds_are_the_mask [OF p, of "0x80000005"] by blast
qed

text \<open>
  C6. The search returns the least address of the window that is not taken, in its dotted form,
  and returns nothing only when every address of the window is taken.
\<close>

theorem first_free_is_least:
  "case firstFreeIpv4 r used excl of
     None \<Rightarrow> \<forall>x. in_range r x \<longrightarrow> formatIpv4 x \<in> used \<union> excl
   | Some ip \<Rightarrow> \<exists>x. in_range r x \<and> ip = formatIpv4 x \<and> ip \<notin> used \<union> excl \<and>
       (\<forall>y. in_range r y \<and> y < x \<longrightarrow> formatIpv4 y \<in> used \<union> excl)"
proof (cases "firstFreeIpv4 r used excl")
  case None
  then have "set (range_addresses r) \<subseteq> used \<union> excl"
    by (simp add: firstFreeIpv4_find ipv4_search.find_none_iff list_all_iff subset_iff)
  then show ?thesis using None by (auto simp: set_range_addresses)
next
  case (Some ip)
  then show ?thesis using scan_free_least [OF Some] by simp
qed

lemma first_free_is_least_witness:
  "\<exists>x. in_range \<lparr>hr_start = 1, hr_end = 3\<rparr> x \<and> ''0.0.0.2'' = formatIpv4 x \<and>
     (\<forall>y. in_range \<lparr>hr_start = 1, hr_end = 3\<rparr> y \<and> y < x \<longrightarrow> formatIpv4 y \<in> {''0.0.0.1''} \<union> {})"
proof -
  have "firstFreeIpv4 \<lparr>hr_start = 1, hr_end = 3\<rparr> {''0.0.0.1''} {} = Some ''0.0.0.2''" by code_simp
  then show ?thesis
    using first_free_is_least [of "\<lparr>hr_start = 1, hr_end = 3\<rparr>" "{''0.0.0.1''}" "{}"] by auto
qed

text \<open>
  An address text is accepted exactly when, trimmed, it has four parts of decimal digits each
  at most 255, its number is their value in base 256, and the dotted form of every number reads
  back as that number.
\<close>

lemma ipv4_text_grammar:
  "(parseIpv4 ip = Inr x \<longleftrightarrow>
      (let parts = js_split (CHR ''.'') (js_trim ip) in
       length parts = 4 \<and> list_all (\<lambda>p. all_digits p \<and> digits_val p \<le> 255) parts \<and>
       x = word_of_int (foldl (\<lambda>n p. 256 * n + digits_val p) 0 parts))) \<and>
   parseIpv4 (formatIpv4 y) = Inr y"
proof -
  have "list_all (\<lambda>p. parse_octet p \<noteq> None) parts \<longleftrightarrow> list_all (\<lambda>p. all_digits p \<and> digits_val p \<le> 255) parts" for parts
    by (rule arg_cong [where f = "\<lambda>P. list_all P parts"]) (auto simp: parse_octet_Some)
  then show ?thesis
    by (simp only: parseIpv4_Inr dotted_value_def parse_format_ipv4 Let_def simp_thms)
qed

text \<open>
  The text that a parsed block carries is canonical: parsing it again gives the same block,
  and a block given by any address of it and its prefix length parses to the block of that
  address.
\<close>

lemma cidr_text_canonical:
  "(case parseCidr s of Inl e \<Rightarrow> True | Inr p \<Rightarrow> parseCidr (pc_cidr p) = Inr p \<and> containsIpv4 p (pc_network p)) \<and>
   parseCidr (formatIpv4 x @ ''/'' @ nat_str (min k 32)) = Inr (cidr_block x (int (min k 32)))"
proof
  show "parseCidr (formatIpv4 x @ ''/'' @ nat_str (min k 32)) = Inr (cidr_block x (int (min k 32)))"
    by (rule parseCidr_format) simp
  show "case parseCidr s of Inl e \<Rightarrow> True | Inr p \<Rightarrow> parseCidr (pc_cidr p) = Inr p \<and> containsIpv4 p (pc_network p)"
  proof (cases "parseCidr s")
    case (Inr p)
    then obtain a n where n: "0 \<le> n" "n \<le> 32" and p: "p = cidr_block a n" using parseCidr_Inr by blast
    have "parseCidr (pc_cidr p) = Inr (cidr_block (pc_network p) n)"
      unfolding p cidr_block_text [OF n(1)] using parseCidr_format [of "nat n"] n by simp
    moreover have "containsIpv4 p (pc_network p)"
      using first_le_last [OF parseCidr_wf [OF Inr]] parseCidr_wf [OF Inr] by (simp add: containsIpv4_def cidr_wf_def)
    ultimately show ?thesis using cidr_block_again [OF n] by (simp add: Inr p)
  qed simp
qed

end
