(* ===== verification/Ip_Claims.thy ===== *)
theory Ip_Claims
  imports Net_Resources Cidr
begin

text \<open>
  \<open>lib/ipam/ipaddress-cr.server.ts\<close>: the IPAddress claims that lease an address. Creating the
  object is the lease; its name is the address with dashes.
\<close>

record ip_pool_config =
  pool_id :: string
  pool_multusNetwork :: string
  pool_cidr :: string
  pool_gateway :: "string option"
  pool_dns :: "string list option"
  pool_exclude :: "string list option"
  pool_start :: "string option"
  pool_end :: "string option"
  pool_interface :: "string option"
  pool_cni :: "ip_pool_cni option"

definition IPADDRESS_LABEL_ADDRESS :: string where
  "IPADDRESS_LABEL_ADDRESS = KMC_LABEL_NAMESPACE @ ''/address''"

definition IPADDRESS_LABEL_POOL :: string where
  "IPADDRESS_LABEL_POOL = KMC_LABEL_NAMESPACE @ ''/pool''"

definition ipaddress_gvp :: gvp where
  "ipaddress_gvp = \<lparr>gvp_group = ''kmc.ianunruh.com'', gvp_version = ''v1alpha1'', gvp_plural = ''ipaddresses''\<rparr>"

definition ipAddressObjectName :: "string \<Rightarrow> string" where
  "ipAddressObjectName address = js_replace_all (CHR ''.'') (CHR ''-'') (js_trim address)"

definition poolRefFromConfig :: "ip_pool_config \<Rightarrow> pool_ref" where
  "poolRefFromConfig pool =
     (if js_starts_with (pool_id pool) ''vpc:''
      then let rest = js_slice_from (pool_id pool) 4;
               slash = js_index_of (CHR ''/'') rest;
               nm = (if 0 < slash then js_slice_from rest (slash + 1) else rest)
           in \<lparr>pr_kind = ''VPC'', pr_name = (if nm = [] then pool_id pool else nm)\<rparr>
      else \<lparr>pr_kind = ''IPPool'', pr_name = pool_id pool\<rparr>)"

record claim_input =
  ci_cluster :: string
  ci_namespace :: string
  ci_address :: string
  ci_prefixLength :: int
  ci_pool :: ip_pool_config
  ci_claim :: "claim_ref option"
  ci_interface :: "nic_binding option"

section \<open>Creating a claim\<close>

definition claim_body :: "claim_input \<Rightarrow> ip_address_cr" where
  "claim_body inp =
     (let address = js_trim (ci_address inp);
          ns = js_trim (ci_namespace inp);
          poolRef = poolRefFromConfig (ci_pool inp);
          claimNs = opt_default ns (trim_or_undef (fld (ci_claim inp) cr_namespace));
          claimName = opt_trim (fld (ci_claim inp) cr_name);
          mac = map_option js_lower (opt_trim (fld (ci_interface inp) nic_mac));
          hostname = opt_trim (fld (ci_interface inp) nic_hostname)
      in \<lparr>iac_apiVersion = Some ''kmc.ianunruh.com/v1alpha1'', iac_kind = Some ''IPAddress'',
          iac_metadata = Some (new_meta (Some (ipAddressObjectName address)) ns
            (Some (obj_lit [(MANAGED_BY_LABEL, KMC_MANAGED_BY),
                            (IPADDRESS_LABEL_ADDRESS, address),
                            (IPADDRESS_LABEL_POOL, pr_name poolRef)]))
            None),
          iac_spec = Some \<lparr>ias_address = Some address, ias_prefixLength = Some (ci_prefixLength inp),
            ias_poolRef = Some poolRef,
            ias_claimRef =
              (if truthy claimName
               then Some \<lparr>cr_apiVersion = Some (opt_default ''kubevirt.io/v1'' (trim_or_undef (fld (ci_claim inp) cr_apiVersion))),
                          cr_kind = Some (opt_default ''VirtualMachine'' (trim_or_undef (fld (ci_claim inp) cr_kind))),
                          cr_name = claimName, cr_namespace = Some claimNs\<rparr>
               else None),
            ias_interface =
              (if truthy mac \<or> truthy hostname
               then Some \<lparr>nic_mac = opt_or_undef mac, nic_hostname = opt_or_undef hostname\<rparr>
               else None)\<rparr>\<rparr>)"

definition createIpAddressClaim ::
  "('s, ip_address_cr) clients \<Rightarrow> claim_input \<Rightarrow> ('s, unit) act" where
  "createIpAddressClaim cl inp =
     (let address = js_trim (ci_address inp); ns = js_trim (ci_namespace inp) in
      if address = [] then act_throw ''address is required for IPAddress claim''
      else if ns = [] then act_throw ''namespace is required for IPAddress claim''
      else with_custom cl (ci_cluster inp) (\<lambda>api.
        act_catch
          (act_bind (api_create_ns api ipaddress_gvp ns (claim_body inp)) (\<lambda>_. act_return ()))
          (\<lambda>err.
            if isIpAddressAlreadyExists err then act_fail err
            else let hint = (if isIpAddressForbidden err
                   then '' (need create on ipaddresses.kmc.ianunruh.com '' @ em_dash
                        @ '' see deploy/controller RBAC example)''
                   else [])
                 in act_fail (mk_error_cause
                      (''Failed to create IPAddress '' @ ns @ ''/'' @ ipAddressObjectName address @ '' for '' @
                       address @ '': '' @ format_error err @ hint) err))))"

section \<open>Releasing claims\<close>

text \<open>The address that an annotation or a claim names: the parsed text, else the trimmed one.\<close>

definition annotation_address :: "string \<Rightarrow> string" where
  "annotation_address a = opt_default (js_trim a) (addressFromIpv4Annotation a)"

definition deleteIpAddressClaim ::
  "('s, ip_address_cr) clients \<Rightarrow> string \<Rightarrow> string \<Rightarrow> string \<Rightarrow> ('s, unit) act" where
  "deleteIpAddressClaim cl cluster ns0 address =
     (let addr = annotation_address address; ns = js_trim ns0 in
      if addr = [] \<or> ns = [] then act_return ()
      else with_custom cl cluster (\<lambda>api.
        act_catch (api_delete_ns api ipaddress_gvp ns (ipAddressObjectName addr)) (\<lambda>err. act_return ())))"

definition releaseIpAddressClaims ::
  "('s, ip_address_cr) clients \<Rightarrow> string \<Rightarrow> string \<Rightarrow> string list \<Rightarrow> ('s, unit) act" where
  "releaseIpAddressClaims cl cluster ns addresses = act_each (deleteIpAddressClaim cl cluster ns) addresses"

section \<open>The inventory\<close>

definition item_address :: "ip_address_cr \<Rightarrow> string option" where
  "item_address item =
     (case trim_or_undef (fld (iac_spec item) ias_address) of
        Some a \<Rightarrow> Some a
      | None \<Rightarrow> map_option (js_replace_all (CHR ''-'') (CHR ''.'')) (fld (iac_metadata item) om_name))"

definition collect_address :: "ip_address_cr \<Rightarrow> string option" where
  "collect_address item =
     (let addr = item_address item in
      case addressFromIpv4Annotation (opt_str addr) of
        Some a \<Rightarrow> opt_or_undef (Some a)
      | None \<Rightarrow> opt_or_undef addr)"

definition collect_addresses :: "ip_address_cr list option \<Rightarrow> string list" where
  "collect_addresses items = List.map_filter collect_address (opt_default [] items)"

definition list_claims_ns :: "('s, ip_address_cr) custom_api \<Rightarrow> string \<Rightarrow> ('s, string list) act" where
  "list_claims_ns api ns =
     (if ns = [] then act_return []
      else act_catch
        (act_bind (api_list_ns api ipaddress_gvp ns None) (\<lambda>items. act_return (collect_addresses items)))
        (\<lambda>err. act_return []))"

definition listIpAddressClaimAddresses ::
  "('s, ip_address_cr) clients \<Rightarrow> string \<Rightarrow> string \<Rightarrow> bool \<Rightarrow> ('s, string list) act" where
  "listIpAddressClaimAddresses cl cluster ns0 clusterWide =
     with_custom cl cluster (\<lambda>api.
       let ns = js_trim ns0 in
       if clusterWide
       then act_catch
         (act_bind (api_list_cluster api ipaddress_gvp None) (\<lambda>items. act_return (collect_addresses items)))
         (\<lambda>err. list_claims_ns api ns)
       else list_claims_ns api ns)"

section \<open>Claims of a deleted VM\<close>

fun release_named ::
  "('s, ip_address_cr) clients \<Rightarrow> string \<Rightarrow> string \<Rightarrow> string list \<Rightarrow> string list \<Rightarrow> ('s, string list) act" where
  "release_named cl cluster ns seen [] = act_return seen"
| "release_named cl cluster ns seen (a # as) =
     (let addr = annotation_address a in
      if addr = [] \<or> addr \<in> set seen then release_named cl cluster ns seen as
      else act_seq (deleteIpAddressClaim cl cluster ns addr) (release_named cl cluster ns (addr # seen) as))"

text \<open>A claim of the VM: its name, and its namespace when the reference has one.\<close>

definition claims_vm :: "string \<Rightarrow> string \<Rightarrow> ip_address_cr \<Rightarrow> bool" where
  "claims_vm ns nm item =
     (case fld (iac_spec item) ias_claimRef of
        None \<Rightarrow> False
      | Some c \<Rightarrow> truthy (cr_name c) \<and> cr_name c = Some nm \<and>
                  (truthy (cr_namespace c) \<longrightarrow> cr_namespace c = Some ns))"

fun release_claimed ::
  "('s, ip_address_cr) clients \<Rightarrow> string \<Rightarrow> string \<Rightarrow> string \<Rightarrow> string list \<Rightarrow> ip_address_cr list \<Rightarrow> ('s, unit) act" where
  "release_claimed cl cluster ns nm seen [] = act_return ()"
| "release_claimed cl cluster ns nm seen (item # items) =
     (let addr = opt_str (item_address item) in
      if \<not> claims_vm ns nm item \<or> addr = [] \<or> addr \<in> set seen then release_claimed cl cluster ns nm seen items
      else act_seq (deleteIpAddressClaim cl cluster ns addr)
             (release_claimed cl cluster ns nm (addr # seen) items))"

definition deleteIpAddressClaimsForVm ::
  "('s, ip_address_cr) clients \<Rightarrow> string \<Rightarrow> string \<Rightarrow> string \<Rightarrow> string list option \<Rightarrow> ('s, unit) act" where
  "deleteIpAddressClaimsForVm cl cluster ns0 vmName addresses =
     (let ns = js_trim ns0; nm = js_trim vmName in
      if ns = [] \<or> nm = [] then act_return ()
      else act_bind (release_named cl cluster ns [] (opt_default [] addresses)) (\<lambda>seen.
        act_catch
          (with_custom cl cluster (\<lambda>api.
             act_bind (api_list_ns api ipaddress_gvp ns None) (\<lambda>items.
               release_claimed cl cluster ns nm seen (opt_default [] items))))
          (\<lambda>err. act_return ())))"

end
