(* ===== verification/Ip_Pools.thy ===== *)
theory Ip_Pools
  imports Ip_Claims
begin

text \<open>
  \<open>lib/ipam/pools.server.ts\<close>, the pools: where their configuration comes from (IPPool objects
  and annotated VPC networks), the inventory of used addresses and the allocator. The netplan
  half of the file is in \<open>Netplan\<close>.
\<close>

definition KMC_ANN_CIDR :: string where "KMC_ANN_CIDR = KMC_LABEL_NAMESPACE @ ''/cidr''"
definition KMC_ANN_GATEWAY :: string where "KMC_ANN_GATEWAY = KMC_LABEL_NAMESPACE @ ''/gateway''"
definition KMC_ANN_DNS :: string where "KMC_ANN_DNS = KMC_LABEL_NAMESPACE @ ''/dns''"
definition KMC_RESOURCE_VPC :: string where "KMC_RESOURCE_VPC = ''vpc''"

record allocated_ip =
  ai_poolId :: string
  ai_address :: string
  ai_prefix :: int
  ai_cidrHost :: string
  ai_gateway :: "string option"
  ai_dns :: "string list"
  ai_interfaceName :: "string option"
  ai_macAddress :: "string option"
  ai_networkName :: "string option"
  ai_dhcp4 :: bool

definition dhcpDeferredMultusAllocation :: "string \<Rightarrow> allocated_ip" where
  "dhcpDeferredMultusAllocation mac =
     \<lparr>ai_poolId = [], ai_address = [], ai_prefix = 0, ai_cidrHost = [], ai_gateway = None, ai_dns = [],
      ai_interfaceName = None, ai_macAddress = Some (js_lower (js_trim mac)), ai_networkName = None,
      ai_dhcp4 = True\<rparr>"

text \<open>The clients of one cluster, by the kind of object.\<close>

record nad_for_pool =
  nad_metadata :: "object_meta option"

record 's pool_clients =
  pcl_pools :: "('s, ip_pool_cr) clients"
  pcl_nads :: "('s, nad_for_pool) clients"
  pcl_claims :: "('s, ip_address_cr) clients"

section \<open>Pool configuration\<close>

definition ipPoolConfigFromCr :: "ip_pool_cr \<Rightarrow> ip_pool_config option" where
  "ipPoolConfigFromCr cr =
     (let spec = ipc_spec cr;
          id = opt_str (opt_trim (fld (ipc_metadata cr) om_name));
          net = opt_str (opt_trim (fld spec ips_multusNetwork));
          cidr = opt_str (opt_trim (fld spec ips_cidr));
          cniType = opt_trim (fld (fld spec ips_cni) cni_type);
          cniBridge = opt_trim (fld (fld spec ips_cni) cni_bridge)
      in if id = [] \<or> net = [] \<or> cidr = [] then None
         else Some \<lparr>pool_id = id, pool_multusNetwork = net, pool_cidr = cidr,
           pool_gateway = trim_or_undef (fld spec ips_gateway),
           pool_dns = Some (trim_list (opt_default [] (fld spec ips_dns))),
           pool_exclude = Some (trim_list (opt_default [] (fld spec ips_exclude))),
           pool_start = trim_or_undef (fld spec ips_start),
           pool_end = trim_or_undef (fld spec ips_end),
           pool_interface = trim_or_undef (fld spec ips_interface),
           pool_cni = (if truthy cniType \<and> truthy cniBridge
             then Some \<lparr>cni_type = cniType, cni_bridge = cniBridge, cni_vlan = fld (fld spec ips_cni) cni_vlan\<rparr>
             else None)\<rparr>)"

definition listIpPools :: "'s pool_clients \<Rightarrow> string \<Rightarrow> ('s, ip_pool_config list) act" where
  "listIpPools cl cluster =
     act_catch
       (act_bind (listClusterCustomObjects (pcl_pools cl) cluster PLURAL_IP_POOLS None) (\<lambda>items.
          act_return (List.map_filter ipPoolConfigFromCr items)))
       (\<lambda>err. act_return [])"

definition multus_base :: "string \<Rightarrow> string" where
  "multus_base a =
     (if js_has_char (CHR ''/'') a then js_slice_from a (js_last_index_of (CHR ''/'') a + 1) else a)"

definition multusNetworkMatches :: "string \<Rightarrow> string \<Rightarrow> bool" where
  "multusNetworkMatches poolNetwork selected \<longleftrightarrow>
     (let a = js_trim poolNetwork; b = js_trim selected in
      if a = [] \<or> b = [] then False
      else if a = b then True
      else multus_base a = multus_base b)"

definition findIpPoolForMultus :: "'s pool_clients \<Rightarrow> string \<Rightarrow> string \<Rightarrow> ('s, ip_pool_config option) act" where
  "findIpPoolForMultus cl cluster multusNetworkName =
     (let nm = js_trim multusNetworkName in
      if nm = [] then act_return None
      else act_bind (listIpPools cl cluster) (\<lambda>pools.
        act_return (find (\<lambda>pool. multusNetworkMatches (pool_multusNetwork pool) nm) pools)))"

text \<open>A VPC network carries its pool in annotations.\<close>

definition ipPoolFromVpcNad :: "nad_for_pool \<Rightarrow> string option \<Rightarrow> ip_pool_config option" where
  "ipPoolFromVpcNad nad namespaceHint =
     (let labels = fld (nad_metadata nad) om_labels;
          ann = fld (nad_metadata nad) om_annotations;
          cidr = opt_str (opt_trim (opt_get ann KMC_ANN_CIDR));
          nm = opt_str (opt_trim (fld (nad_metadata nad) om_name));
          ns = (case trim_or_undef (fld (nad_metadata nad) om_namespace) of
                  Some n \<Rightarrow> n
                | None \<Rightarrow> opt_str (opt_trim namespaceHint));
          gateway = trim_or_undef (opt_get ann KMC_ANN_GATEWAY);
          dns = trim_list (js_split (CHR '','') (opt_str (opt_get ann KMC_ANN_DNS)))
      in if opt_get labels KMC_LABEL_RESOURCE \<noteq> Some KMC_RESOURCE_VPC then None
         else if cidr = [] then None
         else if nm = [] then None
         else Some \<lparr>pool_id = ''vpc:'' @ ns @ ''/'' @ nm, pool_multusNetwork = nm, pool_cidr = cidr,
           pool_gateway = gateway, pool_dns = (if 0 < length dns then Some dns else None),
           pool_exclude = None, pool_start = None, pool_end = None, pool_interface = None, pool_cni = None\<rparr>)"

definition loadNamespacedNad :: "'s pool_clients \<Rightarrow> string \<Rightarrow> string \<Rightarrow> string \<Rightarrow> ('s, nad_for_pool option) act" where
  "loadNamespacedNad cl cluster ns nm =
     with_custom (pcl_nads cl) cluster (\<lambda>api.
       act_catch
         (act_bind (api_get_ns api \<lparr>gvp_group = ''k8s.cni.cncf.io'', gvp_version = ''v1'',
              gvp_plural = ''network-attachment-definitions''\<rparr> ns nm) (\<lambda>nad. act_return (Some nad)))
         (\<lambda>err. act_return None))"

text \<open>The namespace and the name of a network, relative to a VM.\<close>

definition parseMultusNetworkRef :: "string \<Rightarrow> string \<Rightarrow> string \<times> string" where
  "parseMultusNetworkRef multusNetworkName defaultNamespace =
     (let raw = js_trim multusNetworkName; slash = js_index_of (CHR ''/'') raw in
      if 0 < slash then (js_slice raw 0 slash, js_slice_from raw (slash + 1))
      else (defaultNamespace, raw))"

definition nad_pool :: "'s pool_clients \<Rightarrow> string \<Rightarrow> string \<Rightarrow> string \<Rightarrow> ('s, ip_pool_config option) act" where
  "nad_pool cl cluster ns nm =
     act_bind (loadNamespacedNad cl cluster ns nm) (\<lambda>nad.
       act_return (case nad of None \<Rightarrow> None | Some n \<Rightarrow> ipPoolFromVpcNad n (Some ns)))"

definition resolveIpPoolForMultus ::
  "'s pool_clients \<Rightarrow> string \<Rightarrow> string \<Rightarrow> string option \<Rightarrow> ('s, ip_pool_config option) act" where
  "resolveIpPoolForMultus cl cluster multusNetworkName ns =
     act_bind (findIpPoolForMultus cl cluster multusNetworkName) (\<lambda>staticPool.
       case staticPool of
         Some pool \<Rightarrow> act_return (Some pool)
       | None \<Rightarrow>
           let nm = js_trim multusNetworkName in
           if nm = [] \<or> js_trim (opt_str ns) = [] then act_return None
           else case parseMultusNetworkRef nm (opt_str ns) of
                  (refNs, refName) \<Rightarrow> nad_pool cl cluster refNs refName)"

definition resolveIpPoolById :: "'s pool_clients \<Rightarrow> string \<Rightarrow> string \<Rightarrow> ('s, ip_pool_config option) act" where
  "resolveIpPoolById cl cluster poolId =
     act_bind (listIpPools cl cluster) (\<lambda>pools.
       case find (\<lambda>p. pool_id p = poolId) pools of
         Some pool \<Rightarrow> act_return (Some pool)
       | None \<Rightarrow>
           if \<not> js_starts_with poolId ''vpc:'' then act_return None
           else let rest = js_slice_from poolId 4; slash = js_index_of (CHR ''/'') rest in
                if slash \<le> 0 then act_return None
                else nad_pool cl cluster (js_slice rest 0 slash) (js_slice_from rest (slash + 1)))"

section \<open>Validation and inventory\<close>

text \<open>The set of addresses that are never allocated, in the order of insertion.\<close>

definition buildExcludeSet :: "ip_pool_config \<Rightarrow> parsed_cidr \<Rightarrow> string list" where
  "buildExcludeSet pool parsed =
     js_uniq (filter (\<lambda>a. a \<noteq> []) (opt_str (opt_trim (pool_gateway pool)) #
                map annotation_address (opt_default [] (pool_exclude pool))) @
              (if pc_prefix parsed \<le> 30 then [formatIpv4 (pc_first parsed), formatIpv4 (pc_last parsed)] else []))"

record valid_pool =
  vp_parsed :: parsed_cidr
  vp_range :: host_range
  vp_exclude :: "string list"

definition check_gateway :: "ip_pool_config \<Rightarrow> parsed_cidr \<Rightarrow> unit result" where
  "check_gateway pool parsed =
     (let gw = opt_str (opt_trim (pool_gateway pool)) in
      if gw = [] then Inr ()
      else res_bind (parseIpv4 gw) (\<lambda>_. res_bind (containsIpv4_str parsed gw) (\<lambda>inside.
        if \<not> inside
        then throw (''IP pool \"'' @ pool_id pool @ ''\": gateway '' @ gw @ '' is outside '' @ pc_cidr parsed)
        else Inr ())))"

definition validatePool :: "ip_pool_config \<Rightarrow> valid_pool result" where
  "validatePool pool =
     res_bind (parseCidr (pool_cidr pool)) (\<lambda>parsed.
     res_bind (check_gateway pool parsed) (\<lambda>_.
     res_bind (usableHostRange parsed (pool_start pool) (pool_end pool)) (\<lambda>range.
       Inr \<lparr>vp_parsed = parsed, vp_range = range, vp_exclude = buildExcludeSet pool parsed\<rparr>)))"

definition parseIpv4AnnotationList :: "string \<Rightarrow> string list" where
  "parseIpv4AnnotationList v =
     List.map_filter (\<lambda>part. opt_or_undef (addressFromIpv4Annotation (js_trim part))) (js_split (CHR '','') v)"

definition claim_namespace :: "ip_pool_config \<Rightarrow> string option \<Rightarrow> string" where
  "claim_namespace pool ns0 =
     (let ns = opt_str (opt_trim ns0) in
      if ns = [] \<and> js_starts_with (pool_id pool) ''vpc:''
      then let rest = js_slice_from (pool_id pool) 4; slash = js_index_of (CHR ''/'') rest in
           if 0 < slash then js_slice rest 0 slash else ns
      else ns)"

definition listUsedIpv4FromClaims ::
  "'s pool_clients \<Rightarrow> string \<Rightarrow> ip_pool_config \<Rightarrow> parsed_cidr \<Rightarrow> string option \<Rightarrow> ('s, string set) act" where
  "listUsedIpv4FromClaims cl cluster pool parsed ns0 =
     act_bind (listIpAddressClaimAddresses (pcl_claims cl) cluster (claim_namespace pool ns0)
                 (\<not> js_starts_with (pool_id pool) ''vpc:'')) (\<lambda>fromCrs.
       act_return {a \<in> set fromCrs. containsIpv4_str parsed a = Inr True})"


section \<open>Usage\<close>

record ip_pool_usage =
  ipu_pool :: ip_pool_config
  ipu_cidr :: string
  ipu_total :: int
  ipu_used :: int
  ipu_free :: int
  ipu_usedAddresses :: "string list"

text \<open>
  The reserved addresses of the block are used ones too; an entry that is not an address throws.
\<close>

fun add_reserved :: "parsed_cidr \<Rightarrow> string list \<Rightarrow> string set \<Rightarrow> string set result" where
  "add_reserved parsed [] used = Inr used"
| "add_reserved parsed (e # es) used =
     res_bind (containsIpv4_str parsed e) (\<lambda>inside.
       add_reserved parsed es (if inside then insert e used else used))"

definition count_usage :: "ip_pool_config \<Rightarrow> valid_pool \<Rightarrow> string set \<Rightarrow> ip_pool_usage" where
  "count_usage pool v usedSet =
     (let ips = map (\<lambda>n. formatIpv4 (word_of_int n)) [uint (hr_start (vp_range v))..uint (hr_end (vp_range v))];
          total = countUsableHosts (vp_range v);
          usedInRange = filter (\<lambda>ip. ip \<in> usedSet \<or> ip \<in> set (vp_exclude v)) ips;
          free = int (length (filter (\<lambda>ip. ip \<notin> usedSet \<and> ip \<notin> set (vp_exclude v)) ips))
      in \<lparr>ipu_pool = pool, ipu_cidr = pc_cidr (vp_parsed v), ipu_total = total, ipu_used = total - free,
          ipu_free = free, ipu_usedAddresses = usedInRange\<rparr>)"

definition getIpPoolUsageForConfig ::
  "'s pool_clients \<Rightarrow> string \<Rightarrow> ip_pool_config \<Rightarrow> string option \<Rightarrow> ('s, ip_pool_usage) act" where
  "getIpPoolUsageForConfig cl cluster pool ns =
     act_bind (act_lift (validatePool pool)) (\<lambda>v.
     act_bind (listUsedIpv4FromClaims cl cluster pool (vp_parsed v) ns) (\<lambda>used.
     act_bind (act_lift (add_reserved (vp_parsed v) (vp_exclude v) used)) (\<lambda>usedSet.
       act_return (count_usage pool v usedSet))))"

definition usage_of_resolved ::
  "'s pool_clients \<Rightarrow> string \<Rightarrow> string option \<Rightarrow> ip_pool_config option \<Rightarrow> ('s, ip_pool_usage option) act" where
  "usage_of_resolved cl cluster ns pool =
     (case pool of
        None \<Rightarrow> act_return None
      | Some p \<Rightarrow> act_bind (getIpPoolUsageForConfig cl cluster p ns) (\<lambda>u. act_return (Some u)))"

definition getIpPoolUsage ::
  "'s pool_clients \<Rightarrow> string \<Rightarrow> string \<Rightarrow> string option \<Rightarrow> ('s, ip_pool_usage option) act" where
  "getIpPoolUsage cl cluster poolId ns =
     act_bind (resolveIpPoolById cl cluster poolId) (usage_of_resolved cl cluster ns)"

definition getIpPoolUsageForMultus ::
  "'s pool_clients \<Rightarrow> string \<Rightarrow> string \<Rightarrow> string option \<Rightarrow> ('s, ip_pool_usage option) act" where
  "getIpPoolUsageForMultus cl cluster multusNetworkName ns =
     act_bind (resolveIpPoolForMultus cl cluster multusNetworkName ns) (usage_of_resolved cl cluster ns)"

section \<open>Allocation\<close>

text \<open>
  \<open>gatewayOverride\<close>: \<open>None\<close> when absent, \<open>Some None\<close> for \<open>null\<close>.
\<close>

record alloc_opts =
  ao_extraUsed :: "string list option"
  ao_preferredAddress :: "string option"
  ao_claimGateway :: bool
  ao_gatewayOverride :: "string option option"
  ao_claim :: "claim_ref option"
  ao_interface :: "nic_binding option"

definition IPADDRESS_CLAIM_MAX_ATTEMPTS :: nat where
  "IPADDRESS_CLAIM_MAX_ATTEMPTS = 64"

definition buildAllocatedIp :: "ip_pool_config \<Rightarrow> parsed_cidr \<Rightarrow> string \<Rightarrow> alloc_opts \<Rightarrow> allocated_ip" where
  "buildAllocatedIp pool parsed address opts =
     \<lparr>ai_poolId = pool_id pool, ai_address = address, ai_prefix = pc_prefix parsed,
      ai_cidrHost = address @ ''/'' @ int_str (pc_prefix parsed),
      ai_gateway =
        (case ao_gatewayOverride opts of
           Some None \<Rightarrow> None
         | Some (Some g) \<Rightarrow> or_undef (js_trim g)
         | None \<Rightarrow> trim_or_undef (pool_gateway pool)),
      ai_dns = trim_list (opt_default [] (pool_dns pool)),
      ai_interfaceName = trim_or_undef (pool_interface pool),
      ai_macAddress = None, ai_networkName = None, ai_dhcp4 = False\<rparr>"

definition alloc_claim :: "string \<Rightarrow> string \<Rightarrow> ip_pool_config \<Rightarrow> parsed_cidr \<Rightarrow> alloc_opts \<Rightarrow> string \<Rightarrow> claim_input" where
  "alloc_claim cluster ns pool parsed opts address =
     \<lparr>ci_cluster = cluster, ci_namespace = ns, ci_address = address, ci_prefixLength = pc_prefix parsed,
      ci_pool = pool, ci_claim = ao_claim opts, ci_interface = ao_interface opts\<rparr>"

definition check_preferred ::
  "ip_pool_config \<Rightarrow> valid_pool \<Rightarrow> string set \<Rightarrow> string set \<Rightarrow> string \<Rightarrow> unit result" where
  "check_preferred pool v used claimExclude preferred =
     res_bind (parseIpv4 preferred) (\<lambda>prefN.
       if \<not> containsIpv4 (vp_parsed v) prefN
       then throw (''Preferred address '' @ preferred @ '' is outside pool \"'' @ pool_id pool @ ''\" ('' @
                   pc_cidr (vp_parsed v) @ '')'')
       else if prefN < hr_start (vp_range v) \<or> hr_end (vp_range v) < prefN
       then throw (''Preferred address '' @ preferred @
                   '' is outside the allocation window for pool \"'' @ pool_id pool @ ''\"'')
       else if preferred \<in> used
       then throw (''Preferred address '' @ preferred @ '' is already in use in pool \"'' @ pool_id pool @ ''\"'')
       else if preferred \<in> claimExclude
       then throw (''Preferred address '' @ preferred @ '' is reserved in pool \"'' @ pool_id pool @ ''\"'')
       else Inr ())"

definition claim_preferred ::
  "'s pool_clients \<Rightarrow> string \<Rightarrow> string \<Rightarrow> ip_pool_config \<Rightarrow> valid_pool \<Rightarrow> alloc_opts \<Rightarrow>
     string set \<Rightarrow> string set \<Rightarrow> string \<Rightarrow> ('s, allocated_ip) act" where
  "claim_preferred cl cluster ns pool v opts used claimExclude preferred =
     act_bind (act_lift (check_preferred pool v used claimExclude preferred)) (\<lambda>_.
     act_bind
       (act_catch
         (createIpAddressClaim (pcl_claims cl) (alloc_claim cluster ns pool (vp_parsed v) opts preferred))
         (\<lambda>err. if isIpAddressAlreadyExists err
           then act_fail (mk_error_cause
             (''Preferred address '' @ preferred @ '' is already in use in pool \"'' @ pool_id pool @ ''\"'') err)
           else act_fail err)) (\<lambda>_.
       act_return (buildAllocatedIp pool (vp_parsed v) preferred opts)))"

text \<open>The loop over free addresses: a conflict marks the address as used and tries the next.\<close>

fun claim_loop ::
  "nat \<Rightarrow> 's pool_clients \<Rightarrow> string \<Rightarrow> string \<Rightarrow> ip_pool_config \<Rightarrow> valid_pool \<Rightarrow> alloc_opts \<Rightarrow>
     string set \<Rightarrow> string set \<Rightarrow> ('s, allocated_ip) act" where
  "claim_loop 0 cl cluster ns pool v opts used claimExclude =
     act_throw (''IP pool \"'' @ pool_id pool @ ''\" ('' @ pc_cidr (vp_parsed v) @ '') on cluster '' @ cluster @
                '': too many allocation conflicts'')"
| "claim_loop (Suc attempts) cl cluster ns pool v opts used claimExclude =
     (case firstFreeIpv4 (vp_range v) used claimExclude of
        None \<Rightarrow> act_throw (''IP pool \"'' @ pool_id pool @ ''\" ('' @ pc_cidr (vp_parsed v) @ '') on cluster '' @
                          cluster @ '' is exhausted'')
      | Some address \<Rightarrow>
          act_catch
            (act_bind (createIpAddressClaim (pcl_claims cl) (alloc_claim cluster ns pool (vp_parsed v) opts address))
               (\<lambda>_. act_return (buildAllocatedIp pool (vp_parsed v) address opts)))
            (\<lambda>err. if isIpAddressAlreadyExists err
               then claim_loop attempts cl cluster ns pool v opts (insert address used) claimExclude
               else act_fail err))"

definition extra_used :: "alloc_opts \<Rightarrow> string set" where
  "extra_used opts = set (filter (\<lambda>a. a \<noteq> []) (map annotation_address (opt_default [] (ao_extraUsed opts))))"

definition claim_exclude :: "valid_pool \<Rightarrow> alloc_opts \<Rightarrow> string set" where
  "claim_exclude v opts =
     (let preferred = opt_str (opt_trim (ao_preferredAddress opts)) in
      if preferred \<noteq> [] \<and> ao_claimGateway opts then set (vp_exclude v) - {preferred} else set (vp_exclude v))"

text \<open>The section under the pool lock.\<close>

definition allocate_locked ::
  "'s pool_clients \<Rightarrow> string \<Rightarrow> string \<Rightarrow> ip_pool_config \<Rightarrow> alloc_opts \<Rightarrow> ('s, allocated_ip) act" where
  "allocate_locked cl cluster ns pool opts =
     act_bind (act_lift (validatePool pool)) (\<lambda>v.
     act_bind (listUsedIpv4FromClaims cl cluster pool (vp_parsed v) (Some ns)) (\<lambda>claimed.
       let used = claimed \<union> extra_used opts;
           preferred = opt_str (opt_trim (ao_preferredAddress opts))
       in if preferred \<noteq> []
          then claim_preferred cl cluster ns pool v opts used (claim_exclude v opts) preferred
          else claim_loop IPADDRESS_CLAIM_MAX_ATTEMPTS cl cluster ns pool v opts used (claim_exclude v opts)))"

definition allocateIpv4ForMultus ::
  "'s pool_clients \<Rightarrow> string \<Rightarrow> string \<Rightarrow> string option \<Rightarrow> alloc_opts \<Rightarrow> ('s, allocated_ip option) act" where
  "allocateIpv4ForMultus cl cluster multusNetworkName ns0 opts =
     act_bind (resolveIpPoolForMultus cl cluster multusNetworkName ns0) (\<lambda>found.
       case found of
         None \<Rightarrow> act_return None
       | Some pool \<Rightarrow>
           let ns = opt_str (opt_trim ns0) in
           if ns = [] then act_throw ''namespace is required for IPAddress claims (IPAddress is namespaced)''
           else act_bind (allocate_locked cl cluster ns pool opts) (\<lambda>a. act_return (Some a)))"


section \<open>What validation guarantees\<close>

lemma validatePool_Inr:
  "validatePool pool = Inr v \<longleftrightarrow>
     parseCidr (pool_cidr pool) = Inr (vp_parsed v) \<and>
     check_gateway pool (vp_parsed v) = Inr () \<and>
     usableHostRange (vp_parsed v) (pool_start pool) (pool_end pool) = Inr (vp_range v) \<and>
     vp_exclude v = buildExcludeSet pool (vp_parsed v)"
  by (cases v) (auto simp: validatePool_def res_bind_Inr)

lemma validatePool_wf: "validatePool pool = Inr v \<Longrightarrow> cidr_wf (vp_parsed v)"
  by (auto simp: validatePool_Inr intro: parseCidr_wf)

lemma valid_range_nonempty: "validatePool pool = Inr v \<Longrightarrow> hr_start (vp_range v) \<le> hr_end (vp_range v)"
  by (simp add: validatePool_Inr usableHostRange_Inr)

lemma set_exclude:
  "set (buildExcludeSet pool parsed) =
     (if js_trim (opt_str (pool_gateway pool)) = [] then {} else {js_trim (opt_str (pool_gateway pool))}) \<union>
     {a \<in> annotation_address ` set (opt_default [] (pool_exclude pool)). a \<noteq> []} \<union>
     (if pc_prefix parsed \<le> 30 then {formatIpv4 (pc_first parsed), formatIpv4 (pc_last parsed)} else {})"
  by (cases "pool_gateway pool") (auto simp: buildExcludeSet_def opt_trim_def opt_str_def)

section \<open>The allocation loop\<close>

lemma firstFreeIpv4_Some:
  assumes "firstFreeIpv4 r used excl = Some ip"
  shows "ip \<in> set (range_addresses r)" "ip \<notin> used" "ip \<notin> excl"
  using ipv4_search.find_some [of r "\<lambda>ip. ip \<in> used \<union> excl" ip] assms by (simp_all add: firstFreeIpv4_find)

text \<open>
  A successful loop holds a lease: its last call created the claim of the address it returns,
  and the address is one of the candidates the search yields.
\<close>

lemma claim_loop_Inr:
  "claim_loop n cl cluster ns pool v opts used excl s = (Inr a, t) \<Longrightarrow>
     ai_address a \<in> set (ipv4_search.candidates n (vp_range v) (used \<union> excl)) \<and>
     a = buildAllocatedIp pool (vp_parsed v) (ai_address a) opts \<and>
     (\<exists>u. createIpAddressClaim (pcl_claims cl) (alloc_claim cluster ns pool (vp_parsed v) opts (ai_address a)) u
            = (Inr (), t))"
proof (induction n arbitrary: used s)
  case 0
  then show ?case by (simp add: act_simps)
next
  case (Suc n)
  show ?case
  proof (cases "firstFreeIpv4 (vp_range v) used excl")
    case None
    then show ?thesis using Suc.prems by (simp add: act_simps)
  next
    case (Some address)
    let ?create = "createIpAddressClaim (pcl_claims cl) (alloc_claim cluster ns pool (vp_parsed v) opts address)"
    have c: "ipv4_search.candidates (Suc n) (vp_range v) (used \<union> excl) =
        address # ipv4_search.candidates n (vp_range v) (insert address used \<union> excl)"
      using Some by (simp add: firstFreeIpv4_find)
    obtain r u where cr: "?create s = (r, u)" by (cases "?create s")
    show ?thesis
    proof (cases r)
      case (Inl e)
      then have "claim_loop n cl cluster ns pool v opts (insert address used) excl u = (Inr a, t)"
        using Suc.prems Some cr by (auto simp: act_simps split: if_splits)
      from Suc.IH [OF this] show ?thesis unfolding c by simp
    next
      case (Inr x)
      then have "a = buildAllocatedIp pool (vp_parsed v) address opts" "u = t"
        using Suc.prems Some cr by (auto simp: act_simps)
      then show ?thesis unfolding c using cr Inr by (auto simp: buildAllocatedIp_def)
    qed
  qed
qed

text \<open>
  Progress: in the states of \<open>P\<close> the creates that conflict are those of the addresses in \<open>busy\<close>,
  and they stay in \<open>P\<close>. When the window holds a free address outside \<open>busy\<close>, at most
  \<open>card busy\<close> attempts are lost.
\<close>

definition creates_except ::
  "('s \<Rightarrow> bool) \<Rightarrow> string set \<Rightarrow> (string \<Rightarrow> ('s, unit) act) \<Rightarrow> string list \<Rightarrow> bool" where
  "creates_except P busy create addresses \<longleftrightarrow>
     (\<forall>x u. x \<in> set addresses \<longrightarrow> P u \<longrightarrow>
        (if x \<in> busy then \<exists>e w. create x u = (Inl e, w) \<and> isIpAddressAlreadyExists e \<and> P w
         else \<exists>w. create x u = (Inr (), w)))"

lemma claim_loop_progress:
  assumes creates: "creates_except P busy
      (\<lambda>x. createIpAddressClaim (pcl_claims cl) (alloc_claim cluster ns pool (vp_parsed v) opts x))
      (range_addresses (vp_range v))"
    and free: "x \<in> set (range_addresses (vp_range v))" "x \<notin> used \<union> excl \<union> busy"
    and fin: "finite busy" and s: "P s" and n: "card (busy - used) < n"
  shows "\<exists>a t. claim_loop n cl cluster ns pool v opts used excl s = (Inr a, t) \<and> ai_address a \<notin> busy"
  using free(2) n s
proof (induction n arbitrary: used s)
  case (Suc n)
  obtain address where a: "firstFreeIpv4 (vp_range v) used excl = Some address"
    using free(1) Suc.prems(1) ipv4_search.find_none_iff [of "vp_range v" "\<lambda>ip. ip \<in> used \<union> excl"]
    by (cases "firstFreeIpv4 (vp_range v) used excl") (auto simp: firstFreeIpv4_find list_all_iff)
  let ?create = "createIpAddressClaim (pcl_claims cl) (alloc_claim cluster ns pool (vp_parsed v) opts address)"
  note r = firstFreeIpv4_Some [OF a]
  have c: "if address \<in> busy then \<exists>e w. ?create s = (Inl e, w) \<and> isIpAddressAlreadyExists e \<and> P w
      else \<exists>w. ?create s = (Inr (), w)"
    using creates r(1) Suc.prems(3) unfolding creates_except_def by blast
  show ?case
  proof (cases "address \<in> busy")
    case True
    then obtain e w where e: "?create s = (Inl e, w)" "isIpAddressAlreadyExists e" "P w" using c by auto
    have "busy - insert address used = (busy - used) - {address}" by auto
    then have "card (busy - insert address used) < n"
      using Suc.prems(2) True r(2) fin card_Diff1_less [of "busy - used" address] by simp
    moreover have "x \<notin> insert address used \<union> excl \<union> busy" using Suc.prems(1) True by auto
    ultimately show ?thesis
      using Suc.IH [of "insert address used" w] a e by (auto simp: act_simps)
  next
    case False
    then show ?thesis using c a by (auto simp: act_simps buildAllocatedIp_def)
  qed
qed simp

section \<open>Usage\<close>

lemma filter_split_length: "length (filter P xs) + length (filter (\<lambda>x. \<not> P x) xs) = length xs"
  by (induction xs) auto

lemma count_usage_balance:
  assumes "hr_start (vp_range v) \<le> hr_end (vp_range v)"
  shows "ipu_used (count_usage pool v u) = int (length (ipu_usedAddresses (count_usage pool v u)))"
    "ipu_used (count_usage pool v u) + ipu_free (count_usage pool v u) = ipu_total (count_usage pool v u)"
proof -
  let ?ips = "range_addresses (vp_range v)"
  let ?P = "\<lambda>ip. ip \<in> u \<or> ip \<in> set (vp_exclude v)"
  have "0 < countUsableHosts (vp_range v)" using assms by (simp add: countUsableHosts_def word_le_def)
  then have "int (length ?ips) = countUsableHosts (vp_range v)" by (simp add: range_addresses_length)
  moreover have "length (filter ?P ?ips) + length (filter (\<lambda>x. \<not> ?P x) ?ips) = length ?ips"
    by (rule filter_split_length)
  ultimately show "ipu_used (count_usage pool v u) = int (length (ipu_usedAddresses (count_usage pool v u)))"
    unfolding count_usage_def range_addresses_def [symmetric] Let_def by simp
  show "ipu_used (count_usage pool v u) + ipu_free (count_usage pool v u) = ipu_total (count_usage pool v u)"
    by (simp add: count_usage_def Let_def)
qed

lemma count_usage_free:
  "0 < ipu_free (count_usage pool v u) \<longleftrightarrow>
     firstFreeIpv4 (vp_range v) u (set (vp_exclude v)) \<noteq> None"
proof -
  have "firstFreeIpv4 (vp_range v) u (set (vp_exclude v)) = None \<longleftrightarrow>
      filter (\<lambda>ip. ip \<notin> u \<and> ip \<notin> set (vp_exclude v)) (range_addresses (vp_range v)) = []"
    by (simp add: firstFreeIpv4_find ipv4_search.find_none_iff list_all_iff filter_empty_conv)
  moreover have "ipu_free (count_usage pool v u) =
      int (length (filter (\<lambda>ip. ip \<notin> u \<and> ip \<notin> set (vp_exclude v)) (range_addresses (vp_range v))))"
    by (simp add: count_usage_def range_addresses_def Let_def)
  ultimately show ?thesis by (metis length_greater_0_conv of_nat_0_less_iff)
qed


section \<open>What an allocation returns\<close>

lemma listUsed_claims:
  assumes "listUsedIpv4FromClaims cl cluster pool parsed ns s = (Inr used, t)" "a \<in> used"
  shows "\<exists>x. parseIpv4 a = Inr x \<and> containsIpv4 parsed x"
  using assms unfolding listUsedIpv4FromClaims_def
  by (auto simp: act_simps containsIpv4_str_def res_bind_Inr split: prod.splits sum.splits)

lemma allocate_locked_Inr:
  assumes al: "allocate_locked cl cluster ns pool opts s = (Inr a, t)"
    and auto: "js_trim (opt_str (ao_preferredAddress opts)) = []"
  obtains v used u u' where "validatePool pool = Inr v"
    "listUsedIpv4FromClaims cl cluster pool (vp_parsed v) (Some ns) s = (Inr used, u)"
    "ai_address a \<in> set (range_addresses (vp_range v))"
    "ai_address a \<notin> used \<union> extra_used opts \<union> set (vp_exclude v)"
    "a = buildAllocatedIp pool (vp_parsed v) (ai_address a) opts"
    "createIpAddressClaim (pcl_claims cl) (alloc_claim cluster ns pool (vp_parsed v) opts (ai_address a)) u' = (Inr (), t)"
proof -
  obtain v used u where v: "validatePool pool = Inr v"
    and used: "listUsedIpv4FromClaims cl cluster pool (vp_parsed v) (Some ns) s = (Inr used, u)"
    and loop: "claim_loop IPADDRESS_CLAIM_MAX_ATTEMPTS cl cluster ns pool v opts (used \<union> extra_used opts)
      (claim_exclude v opts) u = (Inr a, t)"
  proof -
    have p: "opt_str (opt_trim (ao_preferredAddress opts)) = []"
      using auto by (cases "ao_preferredAddress opts") (simp_all add: opt_trim_def opt_str_def)
    show ?thesis
      using al p that unfolding allocate_locked_def
      by (auto simp: act_simps Let_def split: prod.splits sum.splits)
  qed
  have e: "claim_exclude v opts = set (vp_exclude v)"
    using auto by (cases "ao_preferredAddress opts") (simp_all add: claim_exclude_def opt_trim_def opt_str_def)
  note l = claim_loop_Inr [OF loop, unfolded e]
  have c: "ai_address a \<in> set (range_addresses (vp_range v))"
    "ai_address a \<notin> used \<union> extra_used opts \<union> set (vp_exclude v)"
    using l ipv4_search.candidates_names ipv4_search.candidates_fresh by blast+
  obtain u' where "createIpAddressClaim (pcl_claims cl)
      (alloc_claim cluster ns pool (vp_parsed v) opts (ai_address a)) u' = (Inr (), t)"
    using l by blast
  with v used c l show ?thesis by (intro that [of v used u]) blast+
qed

lemma allocateIpv4ForMultus_Inr:
  "allocateIpv4ForMultus cl cluster net ns0 opts s = (Inr (Some a), t) \<longleftrightarrow>
     (\<exists>pool u. resolveIpPoolForMultus cl cluster net ns0 s = (Inr (Some pool), u) \<and>
        opt_str (opt_trim ns0) \<noteq> [] \<and>
        allocate_locked cl cluster (opt_str (opt_trim ns0)) pool opts u = (Inr a, t))"
  by (auto simp: allocateIpv4ForMultus_def act_simps Let_def split: prod.splits sum.splits option.splits if_splits)

end
