(* ===== verification/Claim_Store.thy ===== *)
theory Claim_Store
  imports Ip_Pools
begin

text \<open>
  What the allocator relies on of the Kubernetes API, stated as a predicate of the operations
  (creating an object is atomic on its namespace and name), the runs of several allocating
  clients against it, and a small in-memory API for concrete instances.
\<close>

section \<open>The contract of the API\<close>

definition cr_object_name :: "ip_address_cr \<Rightarrow> string" where
  "cr_object_name ob = opt_str (fld (iac_metadata ob) om_name)"

text \<open>
  \<open>names s\<close> are the claims (namespace and object name) that exist in state \<open>s\<close>. The other
  clients may create claims during a call, so a call only ever grows it; a create succeeds only
  for a name that did not exist.
\<close>

fun create_outcome :: "string \<times> string \<Rightarrow> (string \<times> string) set \<Rightarrow> 'a result \<Rightarrow> (string \<times> string) set \<Rightarrow> bool" where
  "create_outcome key before (Inl e) after = (before \<subseteq> after)"
| "create_outcome key before (Inr x) after = (key \<notin> before \<and> insert key before \<subseteq> after)"

definition creates_atomically ::
  "('s \<Rightarrow> (string \<times> string) set) \<Rightarrow> ('s, ip_address_cr) custom_api \<Rightarrow> bool" where
  "creates_atomically names api \<longleftrightarrow>
     (\<forall>ns ob s. create_outcome (ns, cr_object_name ob) (names s)
        (fst (api_create_ns api ipaddress_gvp ns ob s)) (names (snd (api_create_ns api ipaddress_gvp ns ob s))))"

definition lists_keep_claims :: "('s \<Rightarrow> (string \<times> string) set) \<Rightarrow> ('s, 'o) custom_api \<Rightarrow> bool" where
  "lists_keep_claims names api \<longleftrightarrow>
     (\<forall>g ns l s. names s \<subseteq> names (snd (api_list_ns api g ns l s))) \<and>
     (\<forall>g l s. names s \<subseteq> names (snd (api_list_cluster api g l s))) \<and>
     (\<forall>g ns nm s. names s \<subseteq> names (snd (api_get_ns api g ns nm s)))"

definition api_contract :: "('s \<Rightarrow> (string \<times> string) set) \<Rightarrow> 's pool_clients \<Rightarrow> string \<Rightarrow> bool" where
  "api_contract names cl cluster \<longleftrightarrow>
     (\<forall>api. pcl_claims cl cluster = Inr api \<longrightarrow> creates_atomically names api \<and> lists_keep_claims names api) \<and>
     (\<forall>api. pcl_pools cl cluster = Inr api \<longrightarrow> lists_keep_claims names api) \<and>
     (\<forall>api. pcl_nads cl cluster = Inr api \<longrightarrow> lists_keep_claims names api)"

text \<open>An action that never removes a claim.\<close>

definition keeps :: "('s \<Rightarrow> 'k set) \<Rightarrow> ('s, 'a) act \<Rightarrow> bool" where
  "keeps names m \<longleftrightarrow> (\<forall>s. names s \<subseteq> names (snd (m s)))"

named_theorems keeps_intros

lemma keeps_return [keeps_intros]: "keeps names (act_return x)"
  by (simp add: keeps_def act_simps)

lemma keeps_fail [keeps_intros]: "keeps names (act_fail e)"
  by (simp add: keeps_def act_simps)

lemma keeps_throw [keeps_intros]: "keeps names (act_throw e)"
  by (simp add: keeps_def act_simps)

lemma keeps_lift [keeps_intros]: "keeps names (act_lift r)"
  by (simp add: keeps_def act_simps)

lemma keeps_bind [keeps_intros]: "keeps names m \<Longrightarrow> (\<And>x. keeps names (f x)) \<Longrightarrow> keeps names (act_bind m f)"
  unfolding keeps_def act_bind_def
  by (fastforce split: prod.splits sum.splits)

lemma keeps_catch [keeps_intros]: "keeps names m \<Longrightarrow> (\<And>e. keeps names (h e)) \<Longrightarrow> keeps names (act_catch m h)"
  unfolding keeps_def act_catch_def
  by (fastforce split: prod.splits sum.splits)

lemma keeps_if [keeps_intros]: "keeps names m \<Longrightarrow> keeps names n \<Longrightarrow> keeps names (if b then m else n)"
  by simp

lemma keeps_custom [keeps_intros]:
  "(\<And>api. cl cluster = Inr api \<Longrightarrow> keeps names (k api)) \<Longrightarrow> keeps names (with_custom cl cluster k)"
  by (simp add: keeps_def act_simps split: sum.splits)

lemma keeps_list [keeps_intros]:
  "lists_keep_claims names api \<Longrightarrow> keeps names (api_list_ns api g ns l)"
  "lists_keep_claims names api \<Longrightarrow> keeps names (api_list_cluster api g l)"
  "lists_keep_claims names api \<Longrightarrow> keeps names (api_get_ns api g ns nm)"
  by (simp_all add: keeps_def lists_keep_claims_def)

section \<open>What each operation does to the claims\<close>

lemma resolve_keeps:
  assumes "api_contract names cl cluster"
  shows "keeps names (resolveIpPoolForMultus cl cluster net ns)"
proof -
  have p: "pcl_pools cl cluster = Inr api \<Longrightarrow> lists_keep_claims names api"
    and n: "pcl_nads cl cluster = Inr api' \<Longrightarrow> lists_keep_claims names api'" for api api'
    using assms by (auto simp: api_contract_def)
  have list: "keeps names (listIpPools cl cluster)"
    unfolding listIpPools_def listClusterCustomObjects_def by (intro keeps_intros p)
  have find: "keeps names (findIpPoolForMultus cl cluster net)"
    unfolding findIpPoolForMultus_def Let_def by (intro keeps_intros list)
  have nad: "keeps names (nad_pool cl cluster a b)" for a b
    unfolding nad_pool_def loadNamespacedNad_def by (intro keeps_intros n)
  show ?thesis
    unfolding resolveIpPoolForMultus_def Let_def
    by (intro keeps_intros find) (auto split: option.splits prod.splits intro!: keeps_intros nad)
qed

lemma list_used_keeps:
  assumes "api_contract names cl cluster"
  shows "keeps names (listUsedIpv4FromClaims cl cluster pool parsed ns)"
proof -
  have c: "pcl_claims cl cluster = Inr api \<Longrightarrow> lists_keep_claims names api" for api
    using assms by (auto simp: api_contract_def)
  show ?thesis
    unfolding listUsedIpv4FromClaims_def listIpAddressClaimAddresses_def list_claims_ns_def Let_def
    by (intro keeps_intros c)
qed

lemma create_outcome_keeps: "create_outcome key before r after \<Longrightarrow> before \<subseteq> after"
  by (cases r) auto

lemma creates_keep: "creates_atomically names api \<Longrightarrow> keeps names (api_create_ns api ipaddress_gvp ns ob)"
  unfolding keeps_def creates_atomically_def by (intro allI create_outcome_keeps) auto

lemma creates_fresh:
  assumes "creates_atomically names api" "api_create_ns api ipaddress_gvp ns ob s = (Inr x, t)"
  shows "(ns, cr_object_name ob) \<notin> names s" "(ns, cr_object_name ob) \<in> names t"
proof -
  have "create_outcome (ns, cr_object_name ob) (names s) (fst (api_create_ns api ipaddress_gvp ns ob s))
      (names (snd (api_create_ns api ipaddress_gvp ns ob s)))"
    using assms(1) by (simp only: creates_atomically_def)
  then show "(ns, cr_object_name ob) \<notin> names s" "(ns, cr_object_name ob) \<in> names t"
    by (simp_all add: assms(2))
qed

lemma claim_body_name: "cr_object_name (claim_body inp) = ipAddressObjectName (ci_address inp)"
  by (simp add: cr_object_name_def claim_body_def Let_def opt_str_def ipAddressObjectName_def)

lemma create_claim_cases:
  assumes c: "api_contract names cl cluster" and inp: "ci_cluster inp = cluster"
  shows "keeps names (createIpAddressClaim (pcl_claims cl) inp)"
    "createIpAddressClaim (pcl_claims cl) inp s = (Inr (), t) \<Longrightarrow>
       (js_trim (ci_namespace inp), ipAddressObjectName (ci_address inp)) \<notin> names s \<and>
       (js_trim (ci_namespace inp), ipAddressObjectName (ci_address inp)) \<in> names t"
proof -
  have a: "pcl_claims cl cluster = Inr api \<Longrightarrow> creates_atomically names api" for api
    using c by (auto simp: api_contract_def)
  have k: "pcl_claims cl cluster = Inr api \<Longrightarrow> keeps names (api_create_ns api ipaddress_gvp ns ob)" for api ns ob
    by (rule creates_keep [OF a])
  show "keeps names (createIpAddressClaim (pcl_claims cl) inp)"
    unfolding createIpAddressClaim_def Let_def inp by (intro keeps_intros k)
  assume ok: "createIpAddressClaim (pcl_claims cl) inp s = (Inr (), t)"
  then obtain api x where api: "pcl_claims cl cluster = Inr api"
    and "api_create_ns api ipaddress_gvp (js_trim (ci_namespace inp)) (claim_body inp) s = (Inr x, t)"
    unfolding createIpAddressClaim_def Let_def inp
    by (auto simp: act_simps split: if_splits sum.splits prod.splits)
  then show "(js_trim (ci_namespace inp), ipAddressObjectName (ci_address inp)) \<notin> names s \<and>
      (js_trim (ci_namespace inp), ipAddressObjectName (ci_address inp)) \<in> names t"
    using creates_fresh [OF a [OF api]] by (metis claim_body_name)
qed


text \<open>The claim that an allocation holds: its namespace and the name of its object.\<close>

definition lease_key :: "string \<Rightarrow> allocated_ip \<Rightarrow> string \<times> string" where
  "lease_key ns a = (js_trim ns, ipAddressObjectName (ai_address a))"

text \<open>An action that, when it returns, has taken a lease that did not exist before.\<close>

definition takes_lease :: "('s \<Rightarrow> (string \<times> string) set) \<Rightarrow> string \<Rightarrow> ('s, allocated_ip) act \<Rightarrow> bool" where
  "takes_lease names ns m \<longleftrightarrow> keeps names m \<and>
     (\<forall>s a t. m s = (Inr a, t) \<longrightarrow> lease_key ns a \<notin> names s \<and> lease_key ns a \<in> names t)"

lemma takes_lease_bind:
  assumes m: "keeps names m" and f: "\<And>x. takes_lease names ns (f x)"
  shows "takes_lease names ns (act_bind m f)"
  unfolding takes_lease_def
proof (intro conjI allI impI)
  show "keeps names (act_bind m f)"
    using m f by (intro keeps_bind) (simp_all add: takes_lease_def)
  fix s a t assume "act_bind m f s = (Inr a, t)"
  then obtain x u where u: "m s = (Inr x, u)" "f x u = (Inr a, t)" by (rule act_bind_InrE)
  moreover have "names s \<subseteq> names u" using m u(1) unfolding keeps_def by (metis snd_conv)
  ultimately show "lease_key ns a \<notin> names s" "lease_key ns a \<in> names t"
    using f [of x] unfolding takes_lease_def by blast+
qed

lemma takes_lease_throw: "takes_lease names ns (act_throw e)"
  by (simp add: takes_lease_def keeps_throw act_simps)

lemma takes_lease_fail: "takes_lease names ns (act_fail e)"
  by (simp add: takes_lease_def keeps_fail act_simps)

lemma takes_lease_if:
  "takes_lease names ns m \<Longrightarrow> takes_lease names ns n \<Longrightarrow> takes_lease names ns (if b then m else n)"
  by simp

lemma takes_lease_catch:
  assumes m: "takes_lease names ns m" and h: "\<And>e. takes_lease names ns (h e)"
  shows "takes_lease names ns (act_catch m h)"
  unfolding takes_lease_def
proof (intro conjI allI impI)
  have k: "keeps names m" using m by (simp add: takes_lease_def)
  show "keeps names (act_catch m h)"
    using m h by (intro keeps_catch) (simp_all add: takes_lease_def)
  fix s a t assume r: "act_catch m h s = (Inr a, t)"
  obtain x u where u: "m s = (x, u)" by (cases "m s")
  have su: "names s \<subseteq> names u" using k u unfolding keeps_def by (metis snd_conv)
  have "lease_key ns a \<notin> names s \<and> lease_key ns a \<in> names t"
  proof (cases x)
    case (Inl e)
    then have "h e u = (Inr a, t)" using r u by (simp add: act_simps)
    then show ?thesis using h [of e] su unfolding takes_lease_def by blast
  next
    case (Inr b)
    then have "m s = (Inr a, t)" using r u by (simp add: act_simps)
    then show ?thesis using m unfolding takes_lease_def by blast
  qed
  then show "lease_key ns a \<notin> names s" "lease_key ns a \<in> names t" by simp_all
qed

lemma takes_lease_create:
  assumes c: "api_contract names cl cluster"
  shows "takes_lease names ns
    (act_bind (createIpAddressClaim (pcl_claims cl) (alloc_claim cluster ns pool parsed opts address))
       (\<lambda>_. act_return (buildAllocatedIp pool parsed address opts)))"
proof -
  let ?inp = "alloc_claim cluster ns pool parsed opts address"
  have i: "ci_cluster ?inp = cluster" "ci_namespace ?inp = ns" "ci_address ?inp = address"
    by (simp_all add: alloc_claim_def)
  note k = create_claim_cases [OF c i(1)]
  show ?thesis
    unfolding takes_lease_def lease_key_def
  proof (intro conjI allI impI)
    show "keeps names (act_bind (createIpAddressClaim (pcl_claims cl) ?inp)
        (\<lambda>_. act_return (buildAllocatedIp pool parsed address opts)))"
      by (intro keeps_intros k(1))
    fix s a t
    assume "act_bind (createIpAddressClaim (pcl_claims cl) ?inp)
        (\<lambda>_. act_return (buildAllocatedIp pool parsed address opts)) s = (Inr a, t)"
    then have r: "createIpAddressClaim (pcl_claims cl) ?inp s = (Inr (), t)" "ai_address a = address"
      by (auto simp: act_simps buildAllocatedIp_def split: prod.splits sum.splits)
    show "(js_trim ns, ipAddressObjectName (ai_address a)) \<notin> names s"
      "(js_trim ns, ipAddressObjectName (ai_address a)) \<in> names t"
      using k(2) [OF r(1)] by (simp_all add: i r(2))
  qed
qed

lemma takes_lease_loop:
  assumes c: "api_contract names cl cluster"
  shows "takes_lease names ns (claim_loop n cl cluster ns pool v opts used excl)"
proof (induction n arbitrary: used)
  case (Suc n)
  show ?case
  proof (cases "firstFreeIpv4 (vp_range v) used excl")
    case None
    then show ?thesis by (simp add: takes_lease_throw)
  next
    case (Some address)
    show ?thesis
      unfolding claim_loop.simps Some option.case
      by (intro takes_lease_catch takes_lease_create [OF c] takes_lease_if Suc.IH takes_lease_fail)
  qed
qed (simp add: takes_lease_throw)

lemma takes_lease_preferred:
  assumes c: "api_contract names cl cluster"
  shows "takes_lease names ns (claim_preferred cl cluster ns pool v opts used excl preferred)"
  unfolding claim_preferred_def
proof (rule takes_lease_bind [OF keeps_lift])
  fix x :: unit
  let ?create = "createIpAddressClaim (pcl_claims cl) (alloc_claim cluster ns pool (vp_parsed v) opts preferred)"
  let ?h = "\<lambda>err. if isIpAddressAlreadyExists err
    then act_fail (mk_error_cause (''Preferred address '' @ preferred @ '' is already in use in pool \"'' @ pool_id pool @ ''\"'') err)
    else act_fail err"
  let ?ret = "\<lambda>_ :: unit. act_return (buildAllocatedIp pool (vp_parsed v) preferred opts)"
  have "act_bind (act_catch ?create ?h) ?ret = act_catch (act_bind ?create ?ret) ?h"
    by (auto simp: fun_eq_iff act_simps split: prod.splits sum.splits)
  moreover have "takes_lease names ns (act_catch (act_bind ?create ?ret) ?h)"
    by (intro takes_lease_catch takes_lease_create [OF c] takes_lease_if takes_lease_fail)
  ultimately show "takes_lease names ns (act_bind (act_catch ?create ?h) ?ret)" by simp
qed

lemma takes_lease_allocate:
  assumes c: "api_contract names cl cluster"
  shows "takes_lease names ns (allocate_locked cl cluster ns pool opts)"
  unfolding allocate_locked_def Let_def
  by (intro takes_lease_bind keeps_lift list_used_keeps [OF c] takes_lease_if takes_lease_preferred [OF c]
      takes_lease_loop [OF c])

lemma allocate_lease:
  assumes c: "api_contract names cl cluster"
  shows "keeps names (allocateIpv4ForMultus cl cluster net ns opts)"
    "allocateIpv4ForMultus cl cluster net ns opts s = (Inr (Some a), t) \<Longrightarrow>
       lease_key (opt_str ns) a \<notin> names s \<and> lease_key (opt_str ns) a \<in> names t"
proof -
  note l = takes_lease_allocate [OF c, of "opt_str (opt_trim ns)"]
  have k: "keeps names (allocate_locked cl cluster (opt_str (opt_trim ns)) pool opts)" for pool
    using l unfolding takes_lease_def by simp
  show "keeps names (allocateIpv4ForMultus cl cluster net ns opts)"
    unfolding allocateIpv4ForMultus_def Let_def
    by (intro keeps_bind resolve_keeps [OF c]) (auto split: option.splits intro!: keeps_intros k)
  assume "allocateIpv4ForMultus cl cluster net ns opts s = (Inr (Some a), t)"
  then obtain pool u where u: "resolveIpPoolForMultus cl cluster net ns s = (Inr (Some pool), u)"
    "allocate_locked cl cluster (opt_str (opt_trim ns)) pool opts u = (Inr a, t)"
    unfolding allocateIpv4ForMultus_Inr by blast
  have "names s \<subseteq> names u"
    using resolve_keeps [OF c] u(1) unfolding keeps_def by (metis snd_conv)
  moreover have "lease_key (opt_str (opt_trim ns)) a = lease_key (opt_str ns) a"
    by (cases ns) (simp_all add: lease_key_def opt_trim_def opt_str_def)
  ultimately show "lease_key (opt_str ns) a \<notin> names s \<and> lease_key (opt_str ns) a \<in> names t"
    using l u(2) unfolding takes_lease_def by (metis subsetD)
qed

section \<open>Runs of several clients\<close>

text \<open>
  \<open>leases names cl cluster s ls t\<close>: from state \<open>s\<close>, allocations returned the leases \<open>ls\<close> (the last
  one first) and the state is \<open>t\<close>. Between and during the calls others may create claims.
\<close>

inductive leases ::
  "('s \<Rightarrow> (string \<times> string) set) \<Rightarrow> 's pool_clients \<Rightarrow> string \<Rightarrow> 's \<Rightarrow> (string \<times> string) list \<Rightarrow> 's \<Rightarrow> bool"
  for names cl cluster s where
  start: "leases names cl cluster s [] s"
| others: "leases names cl cluster s ls t \<Longrightarrow> names t \<subseteq> names u \<Longrightarrow> leases names cl cluster s ls u"
| granted: "leases names cl cluster s ls t \<Longrightarrow>
    allocateIpv4ForMultus cl cluster net ns opts t = (Inr (Some a), u) \<Longrightarrow>
    leases names cl cluster s (lease_key (opt_str ns) a # ls) u"
| refused: "leases names cl cluster s ls t \<Longrightarrow>
    allocateIpv4ForMultus cl cluster net ns opts t = (r, u) \<Longrightarrow> r = Inr None \<or> (\<exists>e. r = Inl e) \<Longrightarrow>
    leases names cl cluster s ls u"

lemma leases_invariant:
  assumes "leases names cl cluster s ls t" and c: "api_contract names cl cluster"
  shows "distinct ls \<and> set ls \<subseteq> names t \<and> set ls \<inter> names s = {} \<and> names s \<subseteq> names t"
  using assms(1)
proof (induction rule: leases.induct)
  case (granted ls t net ns opts a u)
  have "names t \<subseteq> names u"
    using allocate_lease(1) [OF c] granted(2) unfolding keeps_def by (metis snd_conv)
  with allocate_lease(2) [OF c granted(2)] granted.IH show ?case by auto
next
  case (refused ls t net ns opts r u)
  have "names t \<subseteq> names u"
    using allocate_lease(1) [OF c] refused(2) unfolding keeps_def by (metis snd_conv)
  then show ?case using refused.IH by blast
qed auto


section \<open>An in-memory API\<close>

text \<open>
  One cluster with fixed pools and no VPC networks; the state is the list of claims with their
  namespaces. It is used for concrete instances of the theorems only.
\<close>

type_synonym mem_state = "(string \<times> ip_address_cr) list"

definition mem_names :: "mem_state \<Rightarrow> (string \<times> string) set" where
  "mem_names s = set (map (\<lambda>(ns, ob). (ns, cr_object_name ob)) s)"

definition no_api :: "(mem_state, 'o) custom_api" where
  "no_api = \<lparr>api_list_cluster = (\<lambda>g l. act_return (Some [])), api_list_ns = (\<lambda>g ns l. act_return (Some [])),
     api_get_ns = (\<lambda>g ns nm. act_throw ''not found''), api_get_cluster = (\<lambda>g nm. act_throw ''not found''),
     api_create_ns = (\<lambda>g ns ob. act_throw ''read only''), api_delete_ns = (\<lambda>g ns nm. act_throw ''read only''),
     api_replace_ns = (\<lambda>g ns nm ob. act_throw ''read only''), api_patch_ns = (\<lambda>g ns nm ob. act_throw ''read only'')\<rparr>"

definition mem_create :: "gvp \<Rightarrow> string \<Rightarrow> ip_address_cr \<Rightarrow> (mem_state, ip_address_cr) act" where
  "mem_create g ns ob s =
     (if (ns, cr_object_name ob) \<in> mem_names s
      then (Inl (mk_error ''object already exists''), s) else (Inr ob, s @ [(ns, ob)]))"

definition mem_delete :: "gvp \<Rightarrow> string \<Rightarrow> string \<Rightarrow> (mem_state, unit) act" where
  "mem_delete g ns nm s =
     (if (ns, nm) \<in> mem_names s
      then (Inr (), filter (\<lambda>(a, ob). (a, cr_object_name ob) \<noteq> (ns, nm)) s)
      else (Inl (mk_error ''not found''), s))"

definition mem_claims :: "(mem_state, ip_address_cr) custom_api" where
  "mem_claims = no_api\<lparr>api_list_cluster := (\<lambda>g l s. (Inr (Some (map snd s)), s)),
     api_list_ns := (\<lambda>g ns l s. (Inr (Some (map snd (filter (\<lambda>(a, ob). a = ns) s))), s)),
     api_create_ns := mem_create, api_delete_ns := mem_delete\<rparr>"

definition mem_clients :: "ip_pool_cr list \<Rightarrow> mem_state pool_clients" where
  "mem_clients pools =
     \<lparr>pcl_pools = (\<lambda>c. Inr (no_api\<lparr>api_list_cluster := (\<lambda>g l s. (Inr (Some pools), s))\<rparr>)),
      pcl_nads = (\<lambda>c. Inr no_api), pcl_claims = (\<lambda>c. Inr mem_claims)\<rparr>"

lemma mem_contract: "api_contract mem_names (mem_clients pools) cluster"
  by (auto simp: api_contract_def mem_clients_def mem_claims_def no_api_def creates_atomically_def
      lists_keep_claims_def mem_create_def act_simps mem_names_def)

definition lab_pool :: ip_pool_cr where
  "lab_pool = \<lparr>ipc_metadata = Some (new_meta (Some ''lab'') [] None None),
     ipc_spec = Some \<lparr>ips_multusNetwork = Some ''lab-net'', ips_cidr = Some ''10.0.0.0/29'',
       ips_gateway = Some ''10.0.0.1'', ips_dns = None, ips_exclude = None, ips_start = None, ips_end = None,
       ips_interface = None, ips_cni = None\<rparr>\<rparr>"

definition no_opts :: alloc_opts where
  "no_opts = \<lparr>ao_extraUsed = None, ao_preferredAddress = None, ao_claimGateway = False,
     ao_gatewayOverride = None, ao_claim = None, ao_interface = None\<rparr>"

definition lab_allocate :: "string \<Rightarrow> alloc_opts \<Rightarrow> (mem_state, allocated_ip option) act" where
  "lab_allocate ns opts = allocateIpv4ForMultus (mem_clients [lab_pool]) ''c'' ''lab-net'' (Some ns) opts"


lemma lab_first:
  "\<exists>a t. lab_allocate ''team'' no_opts [] = (Inr (Some a), t) \<and> ai_address a = ''10.0.0.2'' \<and>
         fst (lab_allocate ''team'' no_opts t) \<noteq> Inr None"
proof -
  have "case lab_allocate ''team'' no_opts [] of
      (Inr (Some a), t) \<Rightarrow> ai_address a = ''10.0.0.2'' \<and>
         (case fst (lab_allocate ''team'' no_opts t) of Inr (Some b) \<Rightarrow> True | _ \<Rightarrow> False)
    | _ \<Rightarrow> False" by code_simp
  then show ?thesis by (auto split: prod.splits sum.splits option.splits)
qed

section \<open>Properties\<close>



text \<open>What an allocation without a preferred address promises.\<close>

definition sound_allocation ::
  "'s pool_clients \<Rightarrow> string \<Rightarrow> string \<Rightarrow> string option \<Rightarrow> alloc_opts \<Rightarrow> 's \<Rightarrow> allocated_ip \<Rightarrow> 's \<Rightarrow> bool" where
  "sound_allocation cl cluster net ns opts s a t \<longleftrightarrow>
     (\<exists>pool u (v :: valid_pool) used w y x.
        resolveIpPoolForMultus cl cluster net ns s = (Inr (Some pool), u) \<and>
        parseCidr (pool_cidr pool) = Inr (vp_parsed v) \<and>
        listUsedIpv4FromClaims cl cluster pool (vp_parsed v) (Some (js_trim (opt_str ns))) u = (Inr used, w) \<and>
        ai_address a = formatIpv4 x \<and> containsIpv4 (vp_parsed v) x \<and>
        (pc_prefix (vp_parsed v) \<le> 30 \<longrightarrow> x \<noteq> pc_first (vp_parsed v) \<and> x \<noteq> pc_last (vp_parsed v)) \<and>
        from_bound (pool_start pool) x \<and> to_bound (pool_end pool) x \<and>
        ai_address a \<notin> used \<and> ai_address a \<notin> extra_used opts \<and>
        ai_address a \<noteq> js_trim (opt_str (pool_gateway pool)) \<and>
        ai_address a \<notin> annotation_address ` set (opt_default [] (pool_exclude pool)) \<and>
        a = buildAllocatedIp pool (vp_parsed v) (ai_address a) opts \<and>
        createIpAddressClaim (pcl_claims cl)
          (alloc_claim cluster (js_trim (opt_str ns)) pool (vp_parsed v) opts (ai_address a)) y = (Inr (), t))"

text \<open>
  C2. An automatic allocation returns an address of the pool's block, inside its window, that is
  neither the network, the broadcast nor the gateway address, nor excluded, nor among the
  addresses that the inventory or the same request already uses, and its last step was the
  successful creation of the claim for exactly that address.
\<close>

theorem allocation_is_sound:
  assumes al: "allocateIpv4ForMultus cl cluster net ns opts s = (Inr (Some a), t)"
    and automatic: "js_trim (opt_str (ao_preferredAddress opts)) = []"
  shows "sound_allocation cl cluster net ns opts s a t"
proof -
  have n: "opt_str (opt_trim ns) = js_trim (opt_str ns)" by (cases ns) (simp_all add: opt_trim_def opt_str_def)
  obtain pool u where pool: "resolveIpPoolForMultus cl cluster net ns s = (Inr (Some pool), u)"
    and l: "allocate_locked cl cluster (js_trim (opt_str ns)) pool opts u = (Inr a, t)"
    using al unfolding allocateIpv4ForMultus_Inr n by blast
  from allocate_locked_Inr [OF l automatic] obtain v used w y where v: "validatePool pool = Inr v"
    and used: "listUsedIpv4FromClaims cl cluster pool (vp_parsed v) (Some (js_trim (opt_str ns))) u = (Inr used, w)"
    and mem: "ai_address a \<in> set (range_addresses (vp_range v))"
    and fresh: "ai_address a \<notin> used \<union> extra_used opts \<union> set (vp_exclude v)"
    and a: "a = buildAllocatedIp pool (vp_parsed v) (ai_address a) opts"
    and cr: "createIpAddressClaim (pcl_claims cl)
      (alloc_claim cluster (js_trim (opt_str ns)) pool (vp_parsed v) opts (ai_address a)) y = (Inr (), t)"
    by blast
  obtain x where x: "ai_address a = formatIpv4 x" "in_range (vp_range v) x"
    using mem by (auto simp: set_range_addresses)
  have p: "parseCidr (pool_cidr pool) = Inr (vp_parsed v)"
    and e: "vp_exclude v = buildExcludeSet pool (vp_parsed v)"
    and r: "usableHostRange (vp_parsed v) (pool_start pool) (pool_end pool) = Inr (vp_range v)"
    using v by (simp_all add: validatePool_Inr)
  have w: "containsIpv4 (vp_parsed v) x \<and>
      (pc_prefix (vp_parsed v) \<le> 30 \<longrightarrow> x \<noteq> pc_first (vp_parsed v) \<and> x \<noteq> pc_last (vp_parsed v)) \<and>
      from_bound (pool_start pool) x \<and> to_bound (pool_end pool) x"
    using in_range_iff [OF validatePool_wf [OF v] r] x(2) by blast
  have "ai_address a \<noteq> []" using x(1) by simp
  then have g: "ai_address a \<noteq> js_trim (opt_str (pool_gateway pool))"
    "ai_address a \<notin> annotation_address ` set (opt_default [] (pool_exclude pool))"
    using fresh unfolding e set_exclude by (auto split: if_splits)
  from fresh have f: "ai_address a \<notin> used" "ai_address a \<notin> extra_used opts" by simp_all
  show ?thesis
    unfolding sound_allocation_def using pool p used x(1) w g a cr f by blast
qed

lemma allocation_is_sound_witness:
  "\<exists>a t. lab_allocate ''team'' no_opts [] = (Inr (Some a), t) \<and> ai_address a = ''10.0.0.2'' \<and>
     sound_allocation (mem_clients [lab_pool]) ''c'' ''lab-net'' (Some ''team'') no_opts [] a t"
proof -
  obtain a t where r: "lab_allocate ''team'' no_opts [] = (Inr (Some a), t)" "ai_address a = ''10.0.0.2''"
    using lab_first by blast
  have "js_trim (opt_str (ao_preferredAddress no_opts)) = []" by (simp add: no_opts_def opt_str_def)
  from allocation_is_sound [OF r(1) [unfolded lab_allocate_def] this] r show ?thesis by blast
qed

text \<open>
  C3. Conflicts cost only attempts: when the API refuses with "already exists" exactly the claims
  of the addresses in \<open>busy\<close> (fewer than 64), and the window holds some other free address, the
  allocation loop returns, with an address outside \<open>busy\<close>.
\<close>

theorem allocation_survives_conflicts:
  assumes "creates_except P busy
      (\<lambda>x. createIpAddressClaim (pcl_claims cl) (alloc_claim cluster ns pool (vp_parsed v) opts x))
      (range_addresses (vp_range v))"
    and "x \<in> set (range_addresses (vp_range v))" "x \<notin> used \<union> excl \<union> busy"
    and "finite busy" "card busy < 64" and "P s"
  shows "\<exists>a t. claim_loop IPADDRESS_CLAIM_MAX_ATTEMPTS cl cluster ns pool v opts used excl s = (Inr a, t)
           \<and> ai_address a \<notin> busy"
proof (rule claim_loop_progress [OF assms(1-4,6)])
  have "card (busy - used) \<le> card busy" by (rule card_mono) (use assms(4) in auto)
  then show "card (busy - used) < IPADDRESS_CLAIM_MAX_ATTEMPTS"
    using assms(5) by (simp add: IPADDRESS_CLAIM_MAX_ATTEMPTS_def)
qed


lemma allocation_survives_conflicts_witness:
  "\<exists>pool v s0 a t.
     validatePool pool = Inr v \<and> length s0 = 1 \<and>
     claim_loop IPADDRESS_CLAIM_MAX_ATTEMPTS (mem_clients [lab_pool]) ''c'' ''team'' pool v no_opts {} {} s0 = (Inr a, t) \<and>
     ai_address a \<noteq> ''10.0.0.1''"
proof -
  define pool where "pool = the (ipPoolConfigFromCr lab_pool)"
  define v where "v = (case validatePool pool of Inr v \<Rightarrow> v)"
  define create where "create x = createIpAddressClaim (pcl_claims (mem_clients [lab_pool]))
    (alloc_claim ''c'' ''team'' pool (vp_parsed v) no_opts x)" for x
  define s0 where "s0 = snd (create ''10.0.0.1'' [])"
  note defs = pool_def v_def create_def s0_def
  have v: "validatePool pool = Inr v"
  proof -
    have "res_ok (validatePool pool)" unfolding defs by code_simp
    then show ?thesis by (auto simp: v_def res_ok_iff)
  qed
  have "list_all (\<lambda>x. case create x s0 of
        (Inl e, w) \<Rightarrow> x = ''10.0.0.1'' \<and> isIpAddressAlreadyExists e \<and> w = s0
      | (Inr _, w) \<Rightarrow> x \<noteq> ''10.0.0.1'') (range_addresses (vp_range v))"
    unfolding defs by code_simp
  then have c: "creates_except (\<lambda>s. s = s0) {''10.0.0.1''} create (range_addresses (vp_range v))"
    unfolding creates_except_def list_all_iff
    by (fastforce split: prod.splits sum.splits)
  have x: "''10.0.0.2'' \<in> set (range_addresses (vp_range v))" unfolding defs by code_simp
  have "length s0 = 1" unfolding defs by code_simp
  moreover have "\<exists>a t. claim_loop IPADDRESS_CLAIM_MAX_ATTEMPTS (mem_clients [lab_pool]) ''c'' ''team'' pool v no_opts {} {} s0
      = (Inr a, t) \<and> ai_address a \<notin> {''10.0.0.1''}"
    by (rule allocation_survives_conflicts [OF c [unfolded create_def] x]) auto
  ultimately show ?thesis using v by blast
qed

text \<open>
  C9. The usage shown for a pool adds up: the used addresses are the listed ones, used and free
  make the size of the window, and there is a free address exactly when the allocator, given the
  same inventory, would find one.
\<close>

theorem usage_agrees_with_allocator:
  assumes "validatePool pool = Inr v"
  shows "ipu_used (count_usage pool v u) = int (length (ipu_usedAddresses (count_usage pool v u))) \<and>
    ipu_used (count_usage pool v u) + ipu_free (count_usage pool v u) = countUsableHosts (vp_range v) \<and>
    (0 < ipu_free (count_usage pool v u) \<longleftrightarrow> firstFreeIpv4 (vp_range v) u (set (vp_exclude v)) \<noteq> None)"
proof -
  note b = count_usage_balance [OF valid_range_nonempty [OF assms], of pool u]
  have "ipu_total (count_usage pool v u) = countUsableHosts (vp_range v)" by (simp add: count_usage_def Let_def)
  then show ?thesis using b count_usage_free by metis
qed

lemma usage_agrees_with_allocator_witness:
  "\<exists>pool v. validatePool pool = Inr v \<and>
     ipu_used (count_usage pool v {''10.0.0.2''}) + ipu_free (count_usage pool v {''10.0.0.2''}) = 6 \<and>
     ipu_used (count_usage pool v {''10.0.0.2''}) = 2"
proof -
  define pool where "pool = the (ipPoolConfigFromCr lab_pool)"
  define v where "v = (case validatePool pool of Inr v \<Rightarrow> v)"
  have "res_ok (validatePool pool)" unfolding pool_def by code_simp
  then have v: "validatePool pool = Inr v" by (auto simp: v_def res_ok_iff)
  have "countUsableHosts (vp_range v) = 6" "ipu_used (count_usage pool v {''10.0.0.2''}) = 2"
    unfolding v_def pool_def by code_simp+
  then show ?thesis using usage_agrees_with_allocator [OF v, of "{''10.0.0.2''}"] v by metis
qed

end
