(* ===== verification/Netplan.thy ===== *)
theory Netplan
  imports Ip_Pools
begin

text \<open>
  \<open>lib/ipam/pools.server.ts\<close>, the guest side: generated MAC addresses, the netplan document of a
  guest (one stanza per network interface) and the annotations that record its addresses.
\<close>

definition IPAM_ANNOTATION_IPV4 :: string where "IPAM_ANNOTATION_IPV4 = ''kmc.ianunruh.com/ipv4''"
definition IPAM_ANNOTATION_POOL :: string where "IPAM_ANNOTATION_POOL = ''kmc.ianunruh.com/ipam-pool''"

section \<open>MAC addresses\<close>

definition hex_digit :: "nat \<Rightarrow> char" where
  "hex_digit n = (if n < 10 then char_of (48 + n) else char_of (87 + n))"

text \<open>\<open>b.toString(16).padStart(2, "0")\<close> of a byte.\<close>

definition hex_byte :: "8 word \<Rightarrow> string" where
  "hex_byte b = [hex_digit (unat b div 16), hex_digit (unat b mod 16)]"

text \<open>The six random bytes are an argument.\<close>

definition generateLocalMacAddress :: "8 word list \<Rightarrow> string" where
  "generateLocalMacAddress bytes =
     js_join '':'' (map hex_byte (bytes[0 := ((bytes ! 0) AND 0xfe) OR 0x02]))"

section \<open>Stanzas\<close>

definition has_gateway :: "allocated_ip \<Rightarrow> bool" where
  "has_gateway a \<longleftrightarrow> js_trim (opt_str (ai_gateway a)) \<noteq> []"

definition pickPrimaryAllocation :: "allocated_ip list \<Rightarrow> allocated_ip option" where
  "pickPrimaryAllocation allocations =
     (case find has_gateway allocations of
        Some a \<Rightarrow> Some a
      | None \<Rightarrow> (case allocations of [] \<Rightarrow> None | a # as \<Rightarrow> Some a))"

text \<open>
  The position of that allocation. The code compares objects by identity
  (\<open>allocation === primary\<close>); the objects of a list are distinct, one per interface.
\<close>

fun primary_index :: "allocated_ip list \<Rightarrow> nat option" where
  "primary_index [] = None"
| "primary_index (a # as) =
     (if has_gateway a then Some 0
      else case find has_gateway as of
             None \<Rightarrow> Some 0
           | Some b \<Rightarrow> map_option Suc (primary_index as))"

definition ethernetKeyFor :: "allocated_ip \<Rightarrow> nat \<Rightarrow> string" where
  "ethernetKeyFor a index =
     (if truthy (ai_interfaceName a) then ''static'' @ nat_str index
      else if truthy (ai_networkName a) then opt_str (ai_networkName a)
      else ''net'' @ nat_str index)"

definition quoted :: "string \<Rightarrow> string" where
  "quoted s = [CHR 0x22] @ s @ [CHR 0x22]"

definition matchLinesFor :: "allocated_ip \<Rightarrow> string list" where
  "matchLinesFor a =
     (if truthy (ai_interfaceName a) then [''    match:'', ''      name: '' @ quoted (opt_str (ai_interfaceName a))]
      else if truthy (ai_macAddress a)
        then [''    match:'', ''      macaddress: '' @ quoted (js_lower (opt_str (ai_macAddress a)))]
      else [''    match:'', ''      driver: virtio_net''])"

definition KUBEVIRT_MASQUERADE_GATEWAY :: string where "KUBEVIRT_MASQUERADE_GATEWAY = ''10.0.2.1''"

definition STATIC_NETPLAN_FALLBACK_DNS :: "string list" where
  "STATIC_NETPLAN_FALLBACK_DNS = [''1.1.1.1'', ''1.0.0.1'']"

record network_data_opts =
  ndo_includePodDhcp :: bool
  ndo_clusterCidrs :: "string list option"
  ndo_masqueradeGateway :: "string option"
  ndo_podMacAddress :: "string option"

definition appendPodEthernet :: "network_data_opts \<Rightarrow> string list" where
  "appendPodEthernet opts =
     (let gw = opt_default KUBEVIRT_MASQUERADE_GATEWAY (trim_or_undef (ndo_masqueradeGateway opts));
          clusterCidrs = trim_list (opt_default [] (ndo_clusterCidrs opts));
          podMac = js_lower (opt_str (opt_trim (ndo_podMacAddress opts)))
      in [''  pod:''] @
         (if podMac \<noteq> [] then [''    match:'', ''      macaddress: '' @ quoted podMac]
          else [''    match:'', ''      name: '' @ quoted ''en*'']) @
         [''    dhcp4: true'', ''    dhcp4-overrides:'', ''      use-routes: false''] @
         (if 0 < length clusterCidrs
          then ''    routes:'' # concat (map (\<lambda>cidr. [''      - to: '' @ cidr, ''        via: '' @ gw]) clusterCidrs)
          else []) @
         [''    optional: true''])"

definition default_route :: "allocated_ip \<Rightarrow> string list" where
  "default_route a =
     [''    routes:'', ''      - to: default'', ''        via: '' @ js_trim (opt_str (ai_gateway a))]"

definition resolver_lines :: "allocated_ip \<Rightarrow> string list" where
  "resolver_lines a =
     [''    nameservers:'', ''      addresses:''] @
     map (\<lambda>d. ''        - '' @ d) (if 0 < length (ai_dns a) then ai_dns a else STATIC_NETPLAN_FALLBACK_DNS)"

text \<open>One interface of \<open>buildNetworkData\<close>.\<close>

definition nic_lines :: "nat option \<Rightarrow> nat \<times> allocated_ip \<Rightarrow> string list" where
  "nic_lines primary = (\<lambda>(index, a).
     [''  '' @ ethernetKeyFor a index @ '':''] @ matchLinesFor a @
     (if ai_dhcp4 a
      then ''    dhcp4: true'' # (if truthy (ai_macAddress a) then [''    dhcp-identifier: mac''] else [])
      else [''    dhcp4: false'', ''    addresses:'', ''      - '' @ ai_cidrHost a] @
           (if has_gateway a \<and> primary = Some index then default_route a else []) @
           resolver_lines a))"

definition network_lines :: "allocated_ip list \<Rightarrow> network_data_opts \<Rightarrow> string list" where
  "network_lines allocations opts =
     [''version: 2'', ''ethernets:''] @
     concat (map (nic_lines (primary_index allocations)) (List.enumerate 0 allocations)) @
     (if ndo_includePodDhcp opts then appendPodEthernet opts else [])"

definition join_lines :: "string list \<Rightarrow> string" where
  "join_lines ls = js_join [CHR 0x0a] ls @ [CHR 0x0a]"

definition buildNetworkData :: "allocated_ip list \<Rightarrow> network_data_opts \<Rightarrow> string result" where
  "buildNetworkData allocations opts =
     (if allocations = [] then throw ''buildNetworkData requires at least one allocation''
      else Inr (join_lines (network_lines allocations opts)))"

section \<open>Routers\<close>

record router_network_opts = network_data_opts +
  rno_privateMultus :: "allocated_ip list option"
  rno_external :: "allocated_ip option"

definition router_private_lines :: "nat \<times> allocated_ip \<Rightarrow> string list" where
  "router_private_lines = (\<lambda>(index, a).
     if js_trim (opt_str (ai_macAddress a)) = [] then []
     else [''  '' @ ethernetKeyFor a index @ '':''] @ matchLinesFor a @ [''    dhcp4: false'', ''    optional: true''])"

definition router_external_lines :: "nat \<Rightarrow> allocated_ip option \<Rightarrow> string list" where
  "router_external_lines index ext =
     (case ext of
        None \<Rightarrow> []
      | Some a \<Rightarrow>
          if js_trim (ai_cidrHost a) = [] then []
          else [''  '' @ ethernetKeyFor a index @ '':''] @ matchLinesFor a @
               [''    dhcp4: false'', ''    addresses:'', ''      - '' @ ai_cidrHost a] @
               (if has_gateway a then default_route a else []) @ resolver_lines a)"

definition router_lines :: "router_network_opts \<Rightarrow> string list" where
  "router_lines opts =
     (let privateList = opt_default [] (rno_privateMultus opts) in
      [''version: 2'', ''ethernets:''] @
      concat (map router_private_lines (List.enumerate 0 privateList)) @
      router_external_lines (length privateList) (rno_external opts) @
      appendPodEthernet (network_data_opts.truncate opts))"

definition buildRouterNetworkData :: "router_network_opts \<Rightarrow> string" where
  "buildRouterNetworkData opts = join_lines (router_lines opts)"

section \<open>Annotations\<close>

definition ipamAnnotations :: "allocated_ip list \<Rightarrow> string jsobj" where
  "ipamAnnotations allocations =
     (let list = filter (\<lambda>a. js_trim (ai_address a) \<noteq> [] \<and> js_trim (ai_cidrHost a) \<noteq> []) allocations in
      if list = [] then []
      else obj_lit [(IPAM_ANNOTATION_IPV4, js_join '','' (map ai_cidrHost list)),
                    (IPAM_ANNOTATION_POOL, js_join '','' (map ai_poolId list))])"

section \<open>Default routes\<close>

definition default_line :: string where "default_line = ''      - to: default''"

definition default_routes :: "string list \<Rightarrow> nat" where
  "default_routes ls = length (filter (\<lambda>l. l = default_line) ls)"

lemma default_routes_append [simp]: "default_routes (xs @ ys) = default_routes xs + default_routes ys"
  by (simp add: default_routes_def)

lemma default_routes_Nil [simp]: "default_routes [] = 0"
  by (simp add: default_routes_def)

lemma default_routes_Cons [simp]:
  "default_routes (l # ls) = (if l = default_line then Suc (default_routes ls) else default_routes ls)"
  by (simp add: default_routes_def)

lemma key_line: "''  '' @ k @ '':'' \<noteq> default_line"
proof
  assume "''  '' @ k @ '':'' = default_line"
  then have "last (''  '' @ k @ '':'') = last default_line" by simp
  then show False by (simp add: default_line_def)
qed

lemma match_lines_default: "default_routes (matchLinesFor a) = 0"
  by (simp add: matchLinesFor_def default_line_def)

lemma resolver_lines_default: "default_routes (resolver_lines a) = 0"
proof -
  have "default_routes (map (\<lambda>d. ''        - '' @ d) ds) = 0" for ds
    by (induction ds) (simp_all add: default_line_def)
  then show ?thesis by (simp add: resolver_lines_def default_line_def)
qed

lemma default_route_default: "default_routes (default_route a) = 1"
  by (simp add: default_route_def default_line_def)

lemma address_line: "''      - '' @ h = default_line \<longleftrightarrow> h = ''to: default''"
  by (simp add: default_line_def)

lemma nic_lines_default:
  assumes "ai_cidrHost a \<noteq> ''to: default''"
  shows "default_routes (nic_lines primary (i, a)) =
    (if \<not> ai_dhcp4 a \<and> has_gateway a \<and> primary = Some i then 1 else 0)"
proof -
  have "''  '' @ ethernetKeyFor a i @ '':'' \<noteq> default_line" by (rule key_line)
  moreover have "''      - '' @ ai_cidrHost a \<noteq> default_line" using assms by (simp only: address_line not_False_eq_True)
  ultimately show ?thesis
    unfolding nic_lines_def prod.case default_routes_append match_lines_default
    by (simp only: default_routes_append default_routes_Cons default_routes_Nil resolver_lines_default
        default_route_default if_False append.simps split: if_split) (auto simp: default_line_def)
qed


lemma primary_index_pick:
  "primary_index as = Some i \<Longrightarrow> i < length as \<and> pickPrimaryAllocation as = Some (as ! i)"
proof (induction as arbitrary: i)
  case (Cons a as)
  show ?case
  proof (cases "has_gateway a \<or> find has_gateway as = None")
    case True
    then show ?thesis using Cons.prems by (auto simp: pickPrimaryAllocation_def split: if_splits)
  next
    case False
    then obtain b j where b: "find has_gateway as = Some b" and j: "primary_index as = Some j" "i = Suc j"
      using Cons.prems by (auto split: if_splits)
    then have "pickPrimaryAllocation as = Some b" by (simp add: pickPrimaryAllocation_def)
    then show ?thesis using Cons.IH [OF j(1)] False b j by (simp add: pickPrimaryAllocation_def)
  qed
qed simp

lemma primary_index_None: "primary_index as = None \<longleftrightarrow> as = []"
  by (induction as) (auto split: option.splits)

lemma default_routes_nics:
  assumes "\<forall>a \<in> set as. ai_cidrHost a \<noteq> ''to: default''"
  shows "default_routes (concat (map (nic_lines primary) (List.enumerate n as))) =
    (case primary of
       None \<Rightarrow> 0
     | Some i \<Rightarrow> if n \<le> i \<and> i < n + length as \<and> has_gateway (as ! (i - n)) \<and> \<not> ai_dhcp4 (as ! (i - n)) then 1 else 0)"
  using assms
proof (induction as arbitrary: n)
  case Nil
  then show ?case by (auto split: option.splits)
next
  case (Cons a as)
  have h: "default_routes (nic_lines primary (n, a)) =
      (if \<not> ai_dhcp4 a \<and> has_gateway a \<and> primary = Some n then 1 else 0)"
    using Cons.prems by (intro nic_lines_default) simp
  have IH: "default_routes (concat (map (nic_lines primary) (List.enumerate (Suc n) as))) =
    (case primary of
       None \<Rightarrow> 0
     | Some i \<Rightarrow> if Suc n \<le> i \<and> i < Suc n + length as \<and> has_gateway (as ! (i - Suc n)) \<and> \<not> ai_dhcp4 (as ! (i - Suc n)) then 1 else 0)"
    using Cons.prems by (intro Cons.IH) simp
  show ?case
  proof (cases primary)
    case (Some i)
    consider "i < n" | "i = n" | "n < i" by linarith
    then show ?thesis
    proof cases
      case 3
      then have "i - n = Suc (i - Suc n)" by simp
      then show ?thesis using h IH 3 by (simp add: Some)
    qed (use h IH in \<open>simp_all add: Some\<close>)
  qed (use h IH in simp)
qed

lemma pod_default_routes:
  assumes "''default'' \<notin> set (trim_list (opt_default [] (ndo_clusterCidrs opts)))"
  shows "default_routes (appendPodEthernet opts) = 0"
proof -
  have "default_routes (concat (map (\<lambda>cidr. [''      - to: '' @ cidr, ''        via: '' @ gw]) cs)) = 0"
    if "''default'' \<notin> set cs" for cs gw
    using that by (induction cs) (auto simp: default_line_def)
  from this [OF assms] show ?thesis
    by (simp add: appendPodEthernet_def Let_def default_line_def)
qed

section \<open>Annotations read back\<close>

lemma annotation_of_host:
  "addressFromIpv4Annotation (formatIpv4 x @ ''/'' @ nat_str k) = Some (formatIpv4 x)"
proof -
  let ?s = "formatIpv4 x @ CHR ''/'' # nat_str k"
  have trim: "js_trim ?s = ?s" by (rule cidr_text_trim)
  have slash: "js_index_of (CHR ''/'') ?s = int (length (formatIpv4 x))"
    by (rule js_index_of_append) (rule formatIpv4_no_char; simp)
  show ?thesis
    unfolding addressFromIpv4Annotation_def append_Cons append_Nil trim Let_def
    by (simp add: slash js_has_char_def parse_format_ipv4)
qed

text \<open>An allocation of the allocator: an address in dotted form with its prefix length.\<close>

definition host_text :: "allocated_ip \<Rightarrow> bool" where
  "host_text a \<longleftrightarrow> (\<exists>x k. ai_address a = formatIpv4 x \<and> ai_cidrHost a = formatIpv4 x @ ''/'' @ nat_str k)"

lemma host_text_built:
  "0 \<le> pc_prefix parsed \<Longrightarrow> host_text (buildAllocatedIp pool parsed (formatIpv4 x) opts)"
  by (auto simp: host_text_def buildAllocatedIp_def int_str_def)

lemma host_text_part:
  assumes "host_text a"
  shows "CHR '','' \<notin> set (ai_cidrHost a)" "js_trim (ai_cidrHost a) = ai_cidrHost a"
    "addressFromIpv4Annotation (ai_cidrHost a) = Some (ai_address a)" "js_trim (ai_address a) \<noteq> []"
    "ai_cidrHost a \<noteq> []" "ai_address a \<noteq> []"
proof -
  obtain x k where a: "ai_address a = formatIpv4 x" "ai_cidrHost a = formatIpv4 x @ CHR ''/'' # nat_str k"
    using assms by (auto simp: host_text_def)
  have "CHR '','' \<notin> set (formatIpv4 x)" by (rule formatIpv4_no_char) (simp_all add: is_digit_def char_code_def)
  then show "CHR '','' \<notin> set (ai_cidrHost a)" by (simp add: a nat_str_char is_digit_def char_code_def)
  show "js_trim (ai_cidrHost a) = ai_cidrHost a" unfolding a by (rule cidr_text_trim)
  show "addressFromIpv4Annotation (ai_cidrHost a) = Some (ai_address a)"
    using annotation_of_host [of x k] by (simp add: a)
  show "js_trim (ai_address a) \<noteq> []" "ai_cidrHost a \<noteq> []" "ai_address a \<noteq> []" by (simp_all add: a)
qed

lemma annotation_list_join:
  assumes "as \<noteq> []" and "\<forall>a \<in> set as. host_text a"
  shows "parseIpv4AnnotationList (js_join '','' (map ai_cidrHost as)) = map ai_address as"
proof -
  have "js_split (CHR '','') (js_join '','' (map ai_cidrHost as)) = map ai_cidrHost as"
    by (rule js_split_join) (use assms host_text_part(1) in auto)
  moreover have "List.map_filter (\<lambda>part. opt_or_undef (addressFromIpv4Annotation (js_trim part))) (map ai_cidrHost as)
      = map ai_address as"
    using assms(2)
    by (induction as) (auto simp: host_text_part opt_or_undef_def or_undef_def)
  ultimately show ?thesis by (simp add: parseIpv4AnnotationList_def)
qed


section \<open>MAC text\<close>

lemma length_hex_byte [simp]: "length (hex_byte b) = 2"
  by (simp add: hex_byte_def)

lemma hex_digit_lower: "n < 16 \<Longrightarrow> js_lower_char (hex_digit n) = hex_digit n \<and> hex_digit n \<noteq> CHR '':''"
proof -
  assume n: "n < 16"
  then have c: "char_code (hex_digit n) = (if n < 10 then 48 + n else 87 + n)"
    by (simp add: hex_digit_def)
  then have "js_lower_char (hex_digit n) = hex_digit n" using n by (simp add: js_lower_char_def)
  moreover have "char_code (CHR '':'') = 58" by (simp add: char_code_def)
  with c n have "char_code (hex_digit n) \<noteq> char_code (CHR '':'')" by simp
  then have "hex_digit n \<noteq> CHR '':''" by (simp only: char_code_eq_iff not_False_eq_True)
  ultimately show ?thesis by simp
qed

lemma unat_byte_div: "unat (b :: 8 word) div 16 < 16" "unat b mod 16 < 16"
proof -
  have "unat b < 2 ^ LENGTH(8)" by (rule unsigned_less)
  then show "unat b div 16 < 16" by simp
qed simp

lemma hex_byte_lower: "js_lower (hex_byte b) = hex_byte b" "CHR '':'' \<notin> set (hex_byte b)"
  using hex_digit_lower [OF unat_byte_div(1) [of b]] hex_digit_lower [OF unat_byte_div(2) [of b]]
  by (simp_all add: hex_byte_def js_lower_def) (metis)

lemma js_lower_join: "js_lower sep = sep \<Longrightarrow> \<forall>x \<in> set xs. js_lower x = x \<Longrightarrow> js_lower (js_join sep xs) = js_join sep xs"
  by (induction xs rule: induct_list012) (simp_all add: js_lower_def)

lemma local_bits:
  fixes b :: "8 word"
  shows "\<not> bit ((b AND 0xfe) OR 0x02) 0" "bit ((b AND 0xfe) OR 0x02) 1"
  by (simp_all add: bit_simps)

section \<open>Properties\<close>


definition lab_nic :: "string \<Rightarrow> string option \<Rightarrow> allocated_ip" where
  "lab_nic host gw = \<lparr>ai_poolId = ''lab'', ai_address = take 8 host, ai_prefix = 29, ai_cidrHost = host,
     ai_gateway = gw, ai_dns = [], ai_interfaceName = None, ai_macAddress = None, ai_networkName = None,
     ai_dhcp4 = False\<rparr>"


text \<open>
  C11. The annotation that records the addresses of a guest reads back: the list of addresses
  parsed from it is the list of allocated addresses, in order.
\<close>

theorem annotations_read_back:
  assumes "as \<noteq> []" and "\<forall>a \<in> set as. host_text a"
  shows "\<exists>text. obj_get (ipamAnnotations as) IPAM_ANNOTATION_IPV4 = Some text \<and>
    parseIpv4AnnotationList text = map ai_address as"
proof -
  have "filter (\<lambda>a. js_trim (ai_address a) \<noteq> [] \<and> js_trim (ai_cidrHost a) \<noteq> []) as = as"
    by (rule filter_True) (use assms(2) host_text_part in auto)
  then have "obj_get (ipamAnnotations as) IPAM_ANNOTATION_IPV4 = Some (js_join '','' (map ai_cidrHost as))"
    using assms(1) by (simp add: ipamAnnotations_def Let_def obj_get_lit IPAM_ANNOTATION_IPV4_def IPAM_ANNOTATION_POOL_def)
  with annotation_list_join [OF assms] show ?thesis by blast
qed

lemma annotations_read_back_witness:
  "\<exists>text. obj_get (ipamAnnotations [lab_nic ''10.0.0.2/29'' None, lab_nic ''10.0.0.3/29'' None]) IPAM_ANNOTATION_IPV4 = Some text \<and>
    parseIpv4AnnotationList text = [''10.0.0.2'', ''10.0.0.3'']"
proof -
  let ?as = "[lab_nic ''10.0.0.2/29'' None, lab_nic ''10.0.0.3/29'' None]"
  have "formatIpv4 0x0a000002 = ''10.0.0.2''" "formatIpv4 0x0a000003 = ''10.0.0.3''" "nat_str 29 = ''29''" by code_simp+
  then have "ai_address (lab_nic ''10.0.0.2/29'' None) = formatIpv4 0x0a000002"
    "ai_cidrHost (lab_nic ''10.0.0.2/29'' None) = formatIpv4 0x0a000002 @ ''/'' @ nat_str 29"
    "ai_address (lab_nic ''10.0.0.3/29'' None) = formatIpv4 0x0a000003"
    "ai_cidrHost (lab_nic ''10.0.0.3/29'' None) = formatIpv4 0x0a000003 @ ''/'' @ nat_str 29"
    by (simp_all add: lab_nic_def)
  then have "host_text (lab_nic ''10.0.0.2/29'' None)" "host_text (lab_nic ''10.0.0.3/29'' None)"
    unfolding host_text_def by blast+
  then have "\<forall>a \<in> set ?as. host_text a" by simp
  from annotations_read_back [OF _ this] show ?thesis by (simp add: lab_nic_def)
qed

text \<open>
  C12. A generated MAC address is six pairs of lower-case hexadecimal digits (so matching on the
  lower-cased text is matching on the text itself), and its first byte marks a locally
  administered unicast address, whatever the random bytes are.
\<close>

theorem mac_is_local_unicast:
  assumes "length bytes = 6"
  shows "\<exists>b bs. js_split (CHR '':'') (generateLocalMacAddress bytes) = map hex_byte (b # bs) \<and> length bs = 5 \<and>
    \<not> bit b 0 \<and> bit b 1 \<and> js_lower (generateLocalMacAddress bytes) = generateLocalMacAddress bytes"
proof -
  obtain c cs where c: "bytes = c # cs" "length cs = 5" using assms by (cases bytes) auto
  let ?b = "(c AND 0xfe) OR 0x02"
  have g: "generateLocalMacAddress bytes = js_join '':'' (map hex_byte (?b # cs))"
    by (simp add: generateLocalMacAddress_def c)
  have "js_split (CHR '':'') (js_join '':'' (map hex_byte (?b # cs))) = map hex_byte (?b # cs)"
    by (rule js_split_join) (auto simp: hex_byte_lower)
  moreover have "js_lower (js_join '':'' (map hex_byte (?b # cs))) = js_join '':'' (map hex_byte (?b # cs))"
  proof (rule js_lower_join)
    show "js_lower '':'' = '':''" by code_simp
  qed (auto simp: hex_byte_lower)
  ultimately show ?thesis using local_bits [of c] c(2) unfolding g by blast
qed

lemma mac_is_local_unicast_witness:
  "js_lower (generateLocalMacAddress [0xff, 1, 2, 3, 4, 0xab]) = ''fe:01:02:03:04:ab''"
proof -
  have "generateLocalMacAddress [0xff, 1, 2, 3, 4, 0xab] = ''fe:01:02:03:04:ab''" by code_simp
  then show ?thesis using mac_is_local_unicast [of "[0xff, 1, 2, 3, 4, 0xab]"] by auto
qed

end
