(* ===== verification/Vlan_Pools.thy ===== *)
theory Vlan_Pools
  imports Net_Resources
begin

text \<open>\<open>lib/ipam/vlan-pools.server.ts\<close>: the VLAN ranges that networks are cut from.\<close>

record vlan_pool_config =
  vpl_id :: string
  vpl_start :: js_num
  vpl_end :: js_num
  vpl_bridge :: string
  vpl_dns :: "string list option"
  vpl_exclude :: "js_num list option"

definition vlanPoolConfigFromCr :: "vlan_pool_cr \<Rightarrow> vlan_pool_config option" where
  "vlanPoolConfigFromCr cr =
     (let spec = vpc_spec cr;
          id = opt_str (opt_trim (fld (vpc_metadata cr) om_name));
          bridge = opt_str (opt_trim (fld spec vps_bridge))
      in case (fld spec vps_start, fld spec vps_end) of
           (Some start, Some end') \<Rightarrow>
             if id = [] \<or> bridge = [] then None
             else Some \<lparr>vpl_id = id, vpl_start = start, vpl_end = end', vpl_bridge = bridge,
               vpl_dns = Some (trim_list (opt_default [] (fld spec vps_dns))),
               vpl_exclude = Some (filter js_is_integer (opt_default [] (fld spec vps_exclude)))\<rparr>
         | _ \<Rightarrow> None)"

definition listVlanPools :: "('s, vlan_pool_cr) clients \<Rightarrow> string \<Rightarrow> ('s, vlan_pool_config list) act" where
  "listVlanPools cl cluster =
     act_catch
       (act_bind (listClusterCustomObjects cl cluster PLURAL_VLAN_POOLS None) (\<lambda>items.
          act_return (List.map_filter vlanPoolConfigFromCr items)))
       (\<lambda>err. act_return [])"

definition getVlanPool ::
  "('s, vlan_pool_cr) clients \<Rightarrow> string \<Rightarrow> string option \<Rightarrow> ('s, vlan_pool_config option) act" where
  "getVlanPool cl cluster poolId =
     act_bind (listVlanPools cl cluster) (\<lambda>pools. act_return
       (case pools of
          [] \<Rightarrow> None
        | p # ps \<Rightarrow>
            if js_trim (opt_str poolId) = [] then Some p
            else find (\<lambda>q. vpl_id q = js_trim (opt_str poolId)) pools))"

definition clusterHasVlanPools :: "('s, vlan_pool_cr) clients \<Rightarrow> string \<Rightarrow> ('s, bool) act" where
  "clusterHasVlanPools cl cluster =
     act_bind (listVlanPools cl cluster) (\<lambda>pools. act_return (0 < length pools))"

text \<open>Every pool that is listed has a name, a bridge and integer exclusions.\<close>

lemma vlan_pool_valid:
  "vlanPoolConfigFromCr cr = Some p \<Longrightarrow>
     vpl_id p \<noteq> [] \<and> vpl_bridge p \<noteq> [] \<and> list_all js_is_integer (the (vpl_exclude p))"
  by (auto simp: vlanPoolConfigFromCr_def Let_def list_all_iff split: option.splits if_splits)

lemma listVlanPools_total: "\<exists>ps. fst (listVlanPools cl cluster s) = Inr ps \<and> (\<forall>p \<in> set ps. vpl_id p \<noteq> [])"
proof -
  have v: "\<forall>p \<in> set (List.map_filter vlanPoolConfigFromCr items). vpl_id p \<noteq> []" for items
    by (auto simp: map_filter_def dest: vlan_pool_valid split: if_splits)
  show ?thesis
    using v by (auto simp: listVlanPools_def act_simps split: prod.splits sum.splits)
qed

end
