(* ===== verification/Resource_Paths.thy ===== *)
theory Resource_Paths
  imports Interfaces
begin

text \<open>
  \<open>lib/search-params.ts\<close> and the URL builders of \<open>lib/format.ts\<close>: the address of every page,
  with its resource in the path and its filters or its prefilled form in the query.
\<close>

section \<open>Percent encoding\<close>

text \<open>The UTF-8 bytes of a code unit below 256.\<close>

definition utf8_bytes :: "char \<Rightarrow> nat list" where
  "utf8_bytes c =
     (let n = char_code c in if n < 128 then [n] else [192 + n div 64, 128 + n mod 64])"

definition upper_hex :: "nat \<Rightarrow> char" where
  "upper_hex n = (if n < 10 then char_of (48 + n) else char_of (55 + n))"

definition pct_byte :: "nat \<Rightarrow> string" where
  "pct_byte b = [CHR ''%'', upper_hex (b div 16), upper_hex (b mod 16)]"

definition encode_char :: "(char \<Rightarrow> bool) \<Rightarrow> char \<Rightarrow> string" where
  "encode_char keep c = (if keep c then [c] else concat (map pct_byte (utf8_bytes c)))"

definition uri_keep :: "char \<Rightarrow> bool" where
  "uri_keep c \<longleftrightarrow> is_alnum c \<or> c \<in> set ''-_.!~*'' \<or> c = CHR 0x27 \<or> c = CHR ''('' \<or> c = CHR '')''"

definition encodeURIComponent :: "string \<Rightarrow> string" where
  "encodeURIComponent s = concat (map (encode_char uri_keep) s)"

text \<open>The serializer of \<open>URLSearchParams\<close>.\<close>

definition form_keep :: "char \<Rightarrow> bool" where
  "form_keep c \<longleftrightarrow> is_alnum c \<or> c \<in> set ''*-._''"

definition form_encode :: "string \<Rightarrow> string" where
  "form_encode s = concat (map (\<lambda>c. if c = CHR '' '' then ''+'' else encode_char form_keep c) s)"

text \<open>The decoders of the standard library: percent sequences, then UTF-8.\<close>

definition hex_value :: "char \<Rightarrow> nat option" where
  "hex_value c =
     (let n = char_code c in
      if is_digit c then Some (n - 48)
      else if 65 \<le> n \<and> n \<le> 70 then Some (n - 55)
      else if 97 \<le> n \<and> n \<le> 102 then Some (n - 87) else None)"

fun pct_decode :: "string \<Rightarrow> nat list option" where
  "pct_decode [] = Some []"
| "pct_decode (c # cs) =
     (if c = CHR ''%''
      then (case cs of
              a # b # rest \<Rightarrow>
                (case (hex_value a, hex_value b) of
                   (Some x, Some y) \<Rightarrow> map_option ((#) (16 * x + y)) (pct_decode rest)
                 | _ \<Rightarrow> None)
            | _ \<Rightarrow> None)
      else map_option ((@) (utf8_bytes c)) (pct_decode cs))"

fun utf8_decode :: "nat list \<Rightarrow> string option" where
  "utf8_decode [] = Some []"
| "utf8_decode (n # ns) =
     (if n < 128 then map_option ((#) (char_of n)) (utf8_decode ns)
      else case ns of
             m # rest \<Rightarrow>
               if 194 \<le> n \<and> n \<le> 195 \<and> 128 \<le> m \<and> m < 192
               then map_option ((#) (char_of (64 * (n - 192) + (m - 128)))) (utf8_decode rest)
               else None
           | [] \<Rightarrow> None)"

definition decodeURIComponent :: "string \<Rightarrow> string option" where
  "decodeURIComponent s = Option.bind (pct_decode s) utf8_decode"

definition form_decode :: "string \<Rightarrow> string option" where
  "form_decode s = decodeURIComponent (js_replace_all (CHR ''+'') (CHR '' '') s)"

section \<open>Encoding is invertible\<close>

lemma hex_value_upper: "n < 16 \<Longrightarrow> hex_value (upper_hex n) = Some n"
  by (simp add: hex_value_def upper_hex_def is_digit_def Let_def)

lemma char_code_div: "char_code c div 64 < 4"
  by (rule less_mult_imp_div_less) simp

lemma utf8_bytes_small: "\<forall>b \<in> set (utf8_bytes c). b < 256"
  using char_code_div [of c] by (auto simp: utf8_bytes_def Let_def)

lemma pct_decode_byte: "b < 256 \<Longrightarrow> pct_decode (pct_byte b @ s) = map_option ((#) b) (pct_decode s)"
  by (simp add: pct_byte_def hex_value_upper)

lemma pct_decode_bytes:
  "\<forall>b \<in> set bs. b < 256 \<Longrightarrow> pct_decode (concat (map pct_byte bs) @ s) = map_option ((@) bs) (pct_decode s)"
proof (induction bs)
  case Nil
  then show ?case by (simp add: option.map_ident)
next
  case (Cons b bs)
  then show ?case by (simp add: pct_decode_byte option.map_comp comp_def del: pct_decode.simps)
qed

lemma pct_decode_char:
  assumes "\<not> keep (CHR ''%'')"
  shows "pct_decode (encode_char keep c @ s) = map_option ((@) (utf8_bytes c)) (pct_decode s)"
proof (cases "keep c")
  case True
  then have "c \<noteq> CHR ''%''" using assms by auto
  then show ?thesis using True by (simp add: encode_char_def)
next
  case False
  then show ?thesis by (simp add: encode_char_def pct_decode_bytes utf8_bytes_small del: pct_decode.simps)
qed

lemma utf8_decode_char: "utf8_decode (utf8_bytes c @ ns) = map_option ((#) c) (utf8_decode ns)"
proof (cases "char_code c < 128")
  case True
  then show ?thesis by (simp add: utf8_bytes_def)
next
  case False
  have d: "char_code c div 64 < 4" by (rule char_code_div)
  have "2 \<le> char_code c div 64" using False by simp
  moreover have "64 * (char_code c div 64) + char_code c mod 64 = char_code c" by simp
  ultimately show ?thesis using False d by (simp add: utf8_bytes_def Let_def)
qed

lemma decode_encoded:
  assumes "\<not> keep (CHR ''%'')"
  shows "decodeURIComponent (concat (map (encode_char keep) s)) = Some s"
proof -
  have "pct_decode (concat (map (encode_char keep) s)) = Some (concat (map utf8_bytes s))"
    by (induction s) (simp_all add: pct_decode_char [of keep, OF assms] del: pct_decode.simps(2))
  moreover have "utf8_decode (concat (map utf8_bytes s)) = Some s"
    by (induction s) (simp_all add: utf8_decode_char)
  ultimately show ?thesis by (simp add: decodeURIComponent_def)
qed

interpretation uri_text: codec encodeURIComponent decodeURIComponent
proof
  fix s
  have "\<not> uri_keep (CHR ''%'')" by code_simp
  then show "decodeURIComponent (encodeURIComponent s) = Some s"
    unfolding encodeURIComponent_def by (rule decode_encoded)
qed

lemma encode_char_bytes:
  assumes "x \<in> set (encode_char keep c)" "\<not> keep c"
  shows "x = CHR ''%'' \<or> is_digit x \<or> is_upper_alpha x"
proof -
  have h: "is_digit (upper_hex n) \<or> is_upper_alpha (upper_hex n)" if "n < 16" for n
    using that by (simp add: upper_hex_def is_digit_def is_upper_alpha_def)
  obtain b where b: "b \<in> set (utf8_bytes c)" "x \<in> set (pct_byte b)"
    using assms by (auto simp: encode_char_def)
  then have "b < 256" using utf8_bytes_small by blast
  then have "b div 16 < 16" "b mod 16 < 16" by simp_all
  from h [OF this(1)] h [OF this(2)] show ?thesis using b(2) by (auto simp: pct_byte_def)
qed

lemma replace_plus:
  "js_replace_all (CHR ''+'') (CHR '' '') (if c = CHR '' '' then ''+'' else encode_char form_keep c)
     = encode_char (\<lambda>c. form_keep c \<or> c = CHR '' '') c"
proof (cases "form_keep c \<or> c = CHR '' ''")
  case True
  moreover have "\<not> form_keep (CHR ''+'')" by code_simp
  ultimately show ?thesis by (auto simp: encode_char_def js_replace_all_def)
next
  case False
  then have "CHR ''+'' \<notin> set (encode_char form_keep c)"
    using encode_char_bytes [of "CHR ''+''" form_keep c]
    by (auto simp: is_digit_def is_upper_alpha_def char_code_def)
  then show ?thesis using False by (simp add: js_replace_all_id) (simp add: encode_char_def)
qed

lemma replace_plus_all:
  "js_replace_all (CHR ''+'') (CHR '' '') (form_encode s) =
     concat (map (encode_char (\<lambda>c. form_keep c \<or> c = CHR '' '')) s)"
proof (induction s)
  case Nil
  then show ?case by (simp add: form_encode_def js_replace_all_def)
next
  case (Cons c s)
  then show ?case using replace_plus [of c] by (simp add: form_encode_def js_replace_all_append)
qed

interpretation form_text: codec form_encode form_decode
proof
  fix s
  have "\<not> (form_keep (CHR ''%'') \<or> CHR ''%'' = CHR '' '')" by code_simp
  then show "form_decode (form_encode s) = Some s"
    unfolding form_decode_def replace_plus_all by (rule decode_encoded)
qed

text \<open>Which characters an encoded text can hold.\<close>

lemma uri_encoded_char:
  assumes "x \<in> set (encodeURIComponent s)" shows "x = CHR ''%'' \<or> uri_keep x"
proof -
  obtain c where c: "x \<in> set (encode_char uri_keep c)" using assms by (auto simp: encodeURIComponent_def)
  show ?thesis
  proof (cases "uri_keep c")
    case True
    then show ?thesis using c by (simp add: encode_char_def)
  next
    case False
    then show ?thesis using encode_char_bytes [OF c] by (auto simp: uri_keep_def is_alnum_def)
  qed
qed

lemma form_encoded_char:
  assumes "x \<in> set (form_encode s)" shows "x = CHR ''%'' \<or> x = CHR ''+'' \<or> form_keep x"
proof -
  obtain c where c: "x \<in> set (if c = CHR '' '' then ''+'' else encode_char form_keep c)"
    using assms unfolding form_encode_def set_concat set_map by blast
  show ?thesis
  proof (cases "c = CHR '' '' \<or> form_keep c")
    case True
    then show ?thesis using c by (auto simp: encode_char_def split: if_splits)
  next
    case False
    then show ?thesis using encode_char_bytes [of x form_keep c] c by (auto simp: form_keep_def is_alnum_def)
  qed
qed

lemma uri_no_slash: "CHR ''/'' \<notin> set (encodeURIComponent s)" "CHR ''?'' \<notin> set (encodeURIComponent s)"
proof -
  have "\<not> uri_keep (CHR ''/'')" "\<not> uri_keep (CHR ''?'')" by code_simp+
  then show "CHR ''/'' \<notin> set (encodeURIComponent s)" "CHR ''?'' \<notin> set (encodeURIComponent s)"
    using uri_encoded_char by fastforce+
qed

lemma form_no_sep: "CHR ''&'' \<notin> set (form_encode s)" "CHR ''='' \<notin> set (form_encode s)"
proof -
  have "\<not> form_keep (CHR ''&'')" "\<not> form_keep (CHR ''='')" by code_simp+
  then show "CHR ''&'' \<notin> set (form_encode s)" "CHR ''='' \<notin> set (form_encode s)"
    using form_encoded_char by fastforce+
qed

section \<open>Pages of a resource\<close>

record resource_ref =
  rr_cluster :: string
  rr_namespace :: string
  rr_name :: string

text \<open>\<open>`/kind/${enc(cluster)}/${enc(namespace)}/${enc(name)}`\<close>, and without a namespace.\<close>

definition object_path :: "string \<Rightarrow> resource_ref \<Rightarrow> string" where
  "object_path kind r =
     ''/'' @ kind @ ''/'' @ encodeURIComponent (rr_cluster r) @ ''/'' @ encodeURIComponent (rr_namespace r) @
     ''/'' @ encodeURIComponent (rr_name r)"

definition cluster_object_path :: "string \<Rightarrow> string \<Rightarrow> string \<Rightarrow> string" where
  "cluster_object_path kind cluster nm =
     ''/'' @ kind @ ''/'' @ encodeURIComponent cluster @ ''/'' @ encodeURIComponent nm"

definition vmPath :: "resource_ref \<Rightarrow> string" where "vmPath r = object_path ''vms'' r"
definition dataVolumePath :: "resource_ref \<Rightarrow> string" where "dataVolumePath r = object_path ''datavolumes'' r"
definition databasePath :: "resource_ref \<Rightarrow> string" where "databasePath r = object_path ''databases'' r"
definition objectStoragePath :: "resource_ref \<Rightarrow> string" where "objectStoragePath r = object_path ''object-storage'' r"
definition httpRoutePath :: "resource_ref \<Rightarrow> string" where "httpRoutePath r = object_path ''http-routes'' r"
definition loadBalancerPath :: "resource_ref \<Rightarrow> string" where "loadBalancerPath r = object_path ''load-balancers'' r"
definition vpcPath :: "resource_ref \<Rightarrow> string" where "vpcPath r = object_path ''vpcs'' r"
definition routerPath :: "resource_ref \<Rightarrow> string" where "routerPath r = object_path ''routers'' r"
definition floatingIpPath :: "resource_ref \<Rightarrow> string" where "floatingIpPath r = object_path ''floating-ips'' r"
definition portForwardPath :: "resource_ref \<Rightarrow> string" where "portForwardPath r = object_path ''port-forwards'' r"

definition instanceTypePath :: "string \<Rightarrow> string \<Rightarrow> string" where
  "instanceTypePath cluster nm = cluster_object_path ''instancetypes'' cluster nm"
definition imagePath :: "string \<Rightarrow> string \<Rightarrow> string" where
  "imagePath cluster nm = cluster_object_path ''images'' cluster nm"
definition namespacePath :: "string \<Rightarrow> string \<Rightarrow> string" where
  "namespacePath cluster nm = cluster_object_path ''namespaces'' cluster nm"

definition detailTabPath :: "string \<Rightarrow> string option \<Rightarrow> string" where
  "detailTabPath base tab0 =
     (let tab = opt_default ''overview'' tab0 in
      if tab = [] \<or> tab = ''overview'' then base else base @ ''/'' @ tab)"

definition vmTabPath :: "resource_ref \<Rightarrow> string option \<Rightarrow> string" where
  "vmTabPath vm tab = detailTabPath (vmPath vm) tab"

definition vmEditPath :: "resource_ref \<Rightarrow> string" where "vmEditPath vm = vmPath vm @ ''/edit''"
definition vmConsolePath :: "resource_ref \<Rightarrow> string" where "vmConsolePath vm = vmPath vm @ ''/console''"
definition vmTerminalPath :: "resource_ref \<Rightarrow> string" where "vmTerminalPath vm = vmPath vm @ ''/terminal''"
definition databaseTerminalPath :: "resource_ref \<Rightarrow> string" where "databaseTerminalPath db = databasePath db @ ''/terminal''"
definition httpRouteEditPath :: "resource_ref \<Rightarrow> string" where "httpRouteEditPath route = httpRoutePath route @ ''/edit''"
definition loadBalancerEditPath :: "resource_ref \<Rightarrow> string" where "loadBalancerEditPath lb = loadBalancerPath lb @ ''/edit''"
definition vpcEditPath :: "resource_ref \<Rightarrow> string" where "vpcEditPath vpc = vpcPath vpc @ ''/edit''"
definition instanceTypeEditPath :: "string \<Rightarrow> string \<Rightarrow> string" where
  "instanceTypeEditPath cluster nm = instanceTypePath cluster nm @ ''/edit''"
definition imageEditPath :: "string \<Rightarrow> string \<Rightarrow> string" where
  "imageEditPath cluster nm = imagePath cluster nm @ ''/edit''"
definition namespaceEditPath :: "string \<Rightarrow> string \<Rightarrow> string" where
  "namespaceEditPath cluster nm = namespacePath cluster nm @ ''/edit''"

text \<open>\<open>(a || b || c || "").trim()\<close> of the names a row may carry.\<close>

definition first_truthy :: "string option list \<Rightarrow> string" where
  "first_truthy xs = (case find truthy xs of Some x \<Rightarrow> opt_str x | None \<Rightarrow> [])"

definition floatingIpDetailPath :: "string \<Rightarrow> string \<Rightarrow> string option \<Rightarrow> string option \<Rightarrow> string option \<Rightarrow> string" where
  "floatingIpDetailPath cluster ns ident nm pub =
     floatingIpPath \<lparr>rr_cluster = cluster, rr_namespace = ns, rr_name = js_trim (first_truthy [nm, ident, pub])\<rparr>"

definition portForwardDetailPath :: "string \<Rightarrow> string \<Rightarrow> string option \<Rightarrow> string option \<Rightarrow> string" where
  "portForwardDetailPath cluster ns ident nm =
     portForwardPath \<lparr>rr_cluster = cluster, rr_namespace = ns, rr_name = js_trim (first_truthy [nm, ident])\<rparr>"

definition httpRouteHostUrl :: "string \<Rightarrow> string list option \<Rightarrow> string" where
  "httpRouteHostUrl host httpsHosts =
     (let h = js_trim host;
          scheme = (if h \<in> set (opt_default [] httpsHosts) then ''https'' else ''http'')
      in scheme @ ''://'' @ h)"

section \<open>Queries\<close>

text \<open>A value of a filter or of a prefilled field; \<open>QNone\<close> is \<open>null\<close>, \<open>undefined\<close> or \<open>false\<close>.\<close>

datatype query_value = QNone | QStr string | QNum int

fun query_text :: "query_value \<Rightarrow> string" where
  "query_text QNone = []"
| "query_text (QStr s) = s"
| "query_text (QNum n) = int_str n"

type_synonym query = "query_value jsobj"

text \<open>\<open>URLSearchParams.set\<close>: the first pair of the name is replaced, the others are removed.\<close>

definition sp_set :: "(string \<times> string) list \<Rightarrow> string \<Rightarrow> string \<Rightarrow> (string \<times> string) list" where
  "sp_set sp k v =
     (if k \<in> fst ` set sp
      then takeWhile (\<lambda>p. fst p \<noteq> k) sp @ (k, v) # filter (\<lambda>p. fst p \<noteq> k) (dropWhile (\<lambda>p. fst p \<noteq> k) sp)
      else sp @ [(k, v)])"

definition sp_delete :: "(string \<times> string) list \<Rightarrow> string \<Rightarrow> (string \<times> string) list" where
  "sp_delete sp k = filter (\<lambda>p. fst p \<noteq> k) sp"

definition sp_get :: "(string \<times> string) list \<Rightarrow> string \<Rightarrow> string option" where
  "sp_get sp k = map_option snd (find (\<lambda>p. fst p = k) sp)"

definition sp_text :: "(string \<times> string) list \<Rightarrow> string" where
  "sp_text sp = js_join ''&'' (map (\<lambda>(k, v). form_encode k @ ''='' @ form_encode v) sp)"

definition add_param :: "(string \<times> string) list \<Rightarrow> string \<times> query_value \<Rightarrow> (string \<times> string) list" where
  "add_param sp = (\<lambda>(key, v).
     if v = QNone then sp
     else let trimmed = js_trim (query_text v) in
       if trimmed = [] then sp else sp_set sp key trimmed)"

definition withSearch :: "string \<Rightarrow> query \<Rightarrow> string" where
  "withSearch path params =
     (let q = sp_text (foldl add_param [] params) in if q = [] then path else path @ ''?'' @ q)"

definition getSearchParam :: "(string \<times> string) list \<Rightarrow> string \<Rightarrow> string option" where
  "getSearchParam params key = trim_or_undef (sp_get params key)"

fun patch_params :: "(string \<times> string) list \<Rightarrow> (string \<times> string option) list \<Rightarrow> (string \<times> string) list" where
  "patch_params sp [] = sp"
| "patch_params sp ((key, v) # ps) =
     patch_params (if \<not> truthy v then sp_delete sp key else sp_set sp key (opt_str v)) ps"

definition patchSearchParams :: "(string \<times> string) list \<Rightarrow> string option jsobj \<Rightarrow> (string \<times> string) list" where
  "patchSearchParams current patch = patch_params current patch"

definition databasesListPath :: "query \<Rightarrow> string" where "databasesListPath q = withSearch ''/databases'' q"
definition databaseCreatePath :: "query \<Rightarrow> string" where "databaseCreatePath q = withSearch ''/databases/create'' q"
definition objectStorageListPath :: "query \<Rightarrow> string" where "objectStorageListPath q = withSearch ''/object-storage'' q"
definition objectStorageCreatePath :: "query \<Rightarrow> string" where "objectStorageCreatePath q = withSearch ''/object-storage/create'' q"
definition vmsListPath :: "query \<Rightarrow> string" where "vmsListPath q = withSearch ''/'' q"
definition devBoxesListPath :: "query \<Rightarrow> string" where "devBoxesListPath q = withSearch ''/dev-boxes'' q"
definition devBoxCreatePath :: "query \<Rightarrow> string" where "devBoxCreatePath q = withSearch ''/dev-boxes/create'' q"
definition dataVolumesListPath :: "query \<Rightarrow> string" where "dataVolumesListPath q = withSearch ''/datavolumes'' q"
definition imagesListPath :: "query \<Rightarrow> string" where "imagesListPath q = withSearch ''/images'' q"
definition instanceTypesListPath :: "query \<Rightarrow> string" where "instanceTypesListPath q = withSearch ''/instancetypes'' q"
definition httpRoutesListPath :: "query \<Rightarrow> string" where "httpRoutesListPath q = withSearch ''/http-routes'' q"
definition httpRouteCreatePath :: "query \<Rightarrow> string" where "httpRouteCreatePath q = withSearch ''/http-routes/create'' q"
definition loadBalancersListPath :: "query \<Rightarrow> string" where "loadBalancersListPath q = withSearch ''/load-balancers'' q"
definition routersListPath :: "query \<Rightarrow> string" where "routersListPath q = withSearch ''/routers'' q"
definition vpcsListPath :: "query \<Rightarrow> string" where "vpcsListPath q = withSearch ''/vpcs'' q"
definition floatingIpsListPath :: "query \<Rightarrow> string" where "floatingIpsListPath q = withSearch ''/floating-ips'' q"
definition floatingIpCreatePath :: "query \<Rightarrow> string" where "floatingIpCreatePath q = withSearch ''/floating-ips/create'' q"
definition portForwardsListPath :: "query \<Rightarrow> string" where "portForwardsListPath q = withSearch ''/port-forwards'' q"
definition namespacesListPath :: "query \<Rightarrow> string" where "namespacesListPath q = withSearch ''/namespaces'' q"
definition topologyPath :: "query \<Rightarrow> string" where "topologyPath q = withSearch ''/topology'' q"

text \<open>\<open>value != null && value !== "" ? String(value) : null\<close> of a port.\<close>

definition port_param :: "query_value option \<Rightarrow> query_value" where
  "port_param v =
     (case v of
        None \<Rightarrow> QNone
      | Some QNone \<Rightarrow> QNone
      | Some (QStr s) \<Rightarrow> if s = [] then QNone else QStr s
      | Some (QNum n) \<Rightarrow> QStr (int_str n))"

definition loadBalancerCreatePath :: "query \<Rightarrow> string" where
  "loadBalancerCreatePath prefill =
     withSearch ''/load-balancers/create''
       (obj_put (obj_put (obj_spread [] prefill) ''servicePort'' (port_param (obj_get prefill ''servicePort'')))
          ''targetPort'' (port_param (obj_get prefill ''targetPort'')))"

definition portForwardCreatePath :: "query \<Rightarrow> string" where
  "portForwardCreatePath prefill =
     withSearch ''/port-forwards/create''
       (obj_put (obj_put (obj_spread [] prefill) ''publicPort'' (port_param (obj_get prefill ''publicPort'')))
          ''privatePort'' (port_param (obj_get prefill ''privatePort'')))"

definition vmCreateFromImagePath :: "string \<Rightarrow> string \<Rightarrow> string option \<Rightarrow> string" where
  "vmCreateFromImagePath cluster nm ns0 =
     (let ns = js_trim (opt_str ns0);
          image = (if ns \<noteq> [] then ns @ ''/'' @ nm else nm)
      in withSearch ''/vms/create'' [(''cluster'', QStr cluster), (''image'', QStr image)])"

definition vpcRouterCreatePath :: "resource_ref \<Rightarrow> string" where
  "vpcRouterCreatePath vpc =
     withSearch ''/routers/create''
       [(''cluster'', QStr (rr_cluster vpc)), (''namespace'', QStr (rr_namespace vpc)), (''vpc'', QStr (rr_name vpc))]"

section \<open>Reading addresses back\<close>

text \<open>What a router reads of a path: the decoded segments.\<close>

definition path_segments :: "string \<Rightarrow> string option list" where
  "path_segments p = map decodeURIComponent (js_split (CHR ''/'') p)"

lemma segments_step:
  "CHR ''/'' \<notin> set k \<Longrightarrow> path_segments (k @ CHR ''/'' # s) = decodeURIComponent k # path_segments s"
  by (simp add: path_segments_def js_split_append)

lemma segments_enc_step:
  "path_segments (encodeURIComponent x @ CHR ''/'' # s) = Some x # path_segments s"
  by (simp add: segments_step uri_no_slash uri_text.dec_enc)

lemma segments_enc: "path_segments (encodeURIComponent x) = [Some x]"
  by (simp add: path_segments_def js_split_single uri_no_slash uri_text.dec_enc)

lemma object_path_segments:
  assumes "CHR ''/'' \<notin> set kind"
  shows "path_segments (object_path kind r) =
    [Some [], decodeURIComponent kind, Some (rr_cluster r), Some (rr_namespace r), Some (rr_name r)]"
proof -
  have "path_segments (CHR ''/'' # s) = Some [] # path_segments s" for s
    using segments_step [of "[]" s] by (simp add: decodeURIComponent_def)
  then show ?thesis
    using segments_step [OF assms] by (simp add: object_path_def segments_enc_step segments_enc)
qed

text \<open>What a loader reads of a query: the decoded pairs.\<close>

definition read_pair :: "string \<Rightarrow> (string \<times> string) option" where
  "read_pair p =
     (let i = js_index_of (CHR ''='') p in
      case (form_decode (js_slice p 0 i), form_decode (js_slice_from p (i + 1))) of
        (Some k, Some v) \<Rightarrow> Some (k, v) | _ \<Rightarrow> None)"

definition read_query :: "string \<Rightarrow> (string \<times> string) option list" where
  "read_query q = (if q = [] then [] else map read_pair (js_split (CHR ''&'') q))"

lemma read_pair_text: "read_pair (form_encode k @ CHR ''='' # form_encode v) = Some (k, v)"
proof -
  have i: "js_index_of (CHR ''='') (form_encode k @ CHR ''='' # form_encode v) = int (length (form_encode k))"
    by (rule js_index_of_append [OF form_no_sep(2)])
  show ?thesis unfolding read_pair_def i Let_def by (simp add: form_text.dec_enc)
qed

lemma read_query_text: "read_query (sp_text sp) = map Some sp"
proof (cases "sp = []")
  case True
  then show ?thesis by (simp add: read_query_def sp_text_def)
next
  case False
  let ?f = "\<lambda>(k, v). form_encode k @ ''='' @ form_encode v"
  have s: "js_split (CHR ''&'') (sp_text sp) = map ?f sp"
    unfolding sp_text_def by (rule js_split_join) (use False form_no_sep in \<open>auto split: prod.splits\<close>)
  have "CHR ''='' \<in> set (sp_text sp)"
  proof -
    obtain k v rest where "sp = (k, v) # rest" using False by (cases sp) auto
    then show ?thesis by (auto simp: sp_text_def set_js_join)
  qed
  then have "sp_text sp \<noteq> []" by auto
  then show ?thesis unfolding read_query_def s by (auto simp: read_pair_text split: prod.splits)
qed

lemma sp_text_empty: "sp_text sp = [] \<longleftrightarrow> sp = []"
proof
  assume "sp_text sp = []"
  then have "map Some sp = []" by (simp flip: read_query_text add: read_query_def)
  then show "sp = []" by simp
qed (simp add: sp_text_def)

text \<open>The pairs that a query keeps.\<close>

definition kept_params :: "query \<Rightarrow> (string \<times> string) list" where
  "kept_params params =
     filter (\<lambda>(k, v). v \<noteq> []) (map (\<lambda>(k, v). (k, js_trim (query_text v))) params)"

lemma sp_set_new: "k \<notin> fst ` set sp \<Longrightarrow> sp_set sp k v = sp @ [(k, v)]"
  by (simp add: sp_set_def)

lemma fold_params:
  "distinct (map fst params) \<Longrightarrow> fst ` set sp \<inter> fst ` set params = {} \<Longrightarrow>
     foldl add_param sp params = sp @ kept_params params"
proof (induction params arbitrary: sp)
  case Nil
  then show ?case by (simp add: kept_params_def)
next
  case (Cons p params)
  obtain k v where p: "p = (k, v)" by (cases p)
  show ?case
  proof (cases "v = QNone \<or> js_trim (query_text v) = []")
    case True
    then have "add_param sp p = sp" "kept_params (p # params) = kept_params params"
      by (auto simp: add_param_def kept_params_def p Let_def)
    then show ?thesis using Cons by (auto simp: p)
  next
    case False
    have "k \<notin> fst ` set sp" using Cons.prems by (auto simp: p)
    with False have "add_param sp p = sp @ [(k, js_trim (query_text v))]"
      by (simp add: add_param_def p Let_def sp_set_new)
    moreover have "kept_params (p # params) = (k, js_trim (query_text v)) # kept_params params"
      using False by (simp add: kept_params_def p)
    moreover have "foldl add_param (sp @ [(k, js_trim (query_text v))]) params =
        (sp @ [(k, js_trim (query_text v))]) @ kept_params params"
      using Cons.prems by (intro Cons.IH) (auto simp: p)
    ultimately show ?thesis by simp
  qed
qed

lemma withSearch_text:
  "obj_ok params \<Longrightarrow> withSearch path params =
     (if kept_params params = [] then path else path @ ''?'' @ sp_text (kept_params params))"
  using fold_params [of params "[]"] by (simp add: withSearch_def Let_def obj_ok_def obj_keys_def sp_text_empty)


lemma sp_get_simps [simp]:
  "sp_get [] k = None" "sp_get ((a, b) # sp) k = (if a = k then Some b else sp_get sp k)"
  by (simp_all add: sp_get_def)

lemma sp_get_delete: "sp_get (sp_delete sp k) j = (if j = k then None else sp_get sp j)"
  by (induction sp) (auto simp: sp_delete_def)

lemma sp_get_append: "sp_get (xs @ ys) j = (case sp_get xs j of Some v \<Rightarrow> Some v | None \<Rightarrow> sp_get ys j)"
  by (induction xs) auto

lemma sp_get_take: "sp_get (takeWhile (\<lambda>p. fst p \<noteq> k) sp) j = None \<or> j \<noteq> k"
  by (induction sp) auto

lemma sp_get_set: "sp_get (sp_set sp k v) j = (if j = k then Some v else sp_get sp j)"
proof (cases "k \<in> fst ` set sp")
  case True
  have "sp_get (takeWhile (\<lambda>p. fst p \<noteq> k) sp @ (k, v) # filter (\<lambda>p. fst p \<noteq> k) (dropWhile (\<lambda>p. fst p \<noteq> k) sp)) j
      = (if j = k then Some v else sp_get sp j)"
  proof (induction sp)
    case (Cons p sp)
    have f: "sp_get (filter (\<lambda>p. fst p \<noteq> k) xs) j = (if j = k then None else sp_get xs j)" for xs
      using sp_get_delete [of xs k j] by (simp add: sp_delete_def)
    show ?case by (cases p) (use Cons f in auto)
  qed simp
  then show ?thesis using True by (simp add: sp_set_def)
next
  case False
  then have "sp_get sp k = None" by (induction sp) auto
  then show ?thesis using False by (auto simp: sp_set_def sp_get_append split: option.splits)
qed

lemma patch_params_get:
  "distinct (map fst ps) \<Longrightarrow> sp_get (patch_params sp ps) k =
     (case map_of ps k of
        None \<Rightarrow> sp_get sp k
      | Some v \<Rightarrow> if truthy v then v else None)"
proof (induction sp ps rule: patch_params.induct)
  case (2 sp key v ps)
  have "key = k \<Longrightarrow> map_of ps k = None" using 2(2) by (auto simp: map_of_eq_None_iff)
  then show ?case
    using 2 by (auto simp: sp_get_delete sp_get_set truthy_def opt_str_def split: option.splits if_splits)
qed simp

section \<open>Properties\<close>

text \<open>
  C15. The address of a page names its resource: whatever characters the cluster, the namespace
  and the name have, the decoded segments of the path are the kind of the resource and exactly
  these three texts; sub pages append one segment.
\<close>

theorem resource_pages_decode:
  "list_all (\<lambda>(page, kind). path_segments (page r) =
       [Some [], Some kind, Some (rr_cluster r), Some (rr_namespace r), Some (rr_name r)])
     [(vmPath, ''vms''), (dataVolumePath, ''datavolumes''), (databasePath, ''databases''),
      (objectStoragePath, ''object-storage''), (httpRoutePath, ''http-routes''),
      (loadBalancerPath, ''load-balancers''), (vpcPath, ''vpcs''), (routerPath, ''routers''),
      (floatingIpPath, ''floating-ips''), (portForwardPath, ''port-forwards'')] \<and>
   path_segments (vmEditPath r) = path_segments (vmPath r) @ [Some ''edit'']"
proof -
  have kinds: "decodeURIComponent k = Some k \<and> CHR ''/'' \<notin> set k"
    if "k \<in> set [''vms'', ''datavolumes'', ''databases'', ''object-storage'', ''http-routes'', ''load-balancers'',
      ''vpcs'', ''routers'', ''floating-ips'', ''port-forwards'']" for k
  proof -
    have "list_all (\<lambda>k. decodeURIComponent k = Some k \<and> CHR ''/'' \<notin> set k)
      [''vms'', ''datavolumes'', ''databases'', ''object-storage'', ''http-routes'', ''load-balancers'',
       ''vpcs'', ''routers'', ''floating-ips'', ''port-forwards'']" by code_simp
    then show ?thesis using that unfolding list_all_iff by blast
  qed
  have page: "path_segments (object_path k r) =
      [Some [], Some k, Some (rr_cluster r), Some (rr_namespace r), Some (rr_name r)]"
    if "k \<in> set [''vms'', ''datavolumes'', ''databases'', ''object-storage'', ''http-routes'', ''load-balancers'',
      ''vpcs'', ''routers'', ''floating-ips'', ''port-forwards'']" for k
    using object_path_segments [of k r] kinds [OF that] by simp
  have "path_segments (vmEditPath r) = path_segments (vmPath r) @ [Some ''edit'']"
  proof -
    have e: "path_segments ''edit'' = [Some ''edit'']" by code_simp
    have s: "path_segments (p @ ''/'' @ q) = path_segments p @ path_segments q" for p q
    proof (induction p)
      case (Cons c p)
      show ?case
      proof (cases "c = CHR ''/''")
        case True
        then show ?thesis using Cons by (simp add: path_segments_def)
      next
        case False
        obtain w ws where w: "js_split (CHR ''/'') p = w # ws" by (cases "js_split (CHR ''/'') p") auto
        then have "js_split (CHR ''/'') (p @ ''/'' @ q) = w # ws @ js_split (CHR ''/'') q"
          using split_concat [of "CHR ''/''" p q] by simp
        then show ?thesis using False w by (simp add: path_segments_def)
      qed
    qed (simp add: path_segments_def)
    show ?thesis using s [of "vmPath r" "''edit''"] e by (simp add: vmEditPath_def)
  qed
  then show ?thesis
    by (simp only: list.pred_inject prod.case vmPath_def dataVolumePath_def databasePath_def objectStoragePath_def
        httpRoutePath_def loadBalancerPath_def vpcPath_def routerPath_def floatingIpPath_def portForwardPath_def)
      (simp add: page)
qed

text \<open>
  A shared view can be reopened: the query that carries filters decodes to exactly the filters
  that are set, trimmed, in the same order; a page without filters has no query.
\<close>

lemma filters_decode:
  assumes "obj_ok params"
  shows "\<exists>q. withSearch path params = (if kept_params params = [] then path else path @ ''?'' @ q) \<and>
    read_query q = map Some (kept_params params)"
  by (rule exI [of _ "sp_text (kept_params params)"])
    (simp add: withSearch_text [OF assms] read_query_text)

lemma filters_decode_witness:
  "\<exists>q. vmsListPath [(''q'', QStr '' a&b=c ''), (''cluster'', QNone), (''owner'', QStr ''x y'')] = ''/?'' @ q \<and>
     read_query q = [Some (''q'', ''a&b=c''), Some (''owner'', ''x y'')]"
proof -
  let ?p = "[(''q'', QStr '' a&b=c ''), (''cluster'', QNone), (''owner'', QStr ''x y'')]"
  have "obj_ok ?p" by (simp add: obj_ok_def)
  moreover have "kept_params ?p = [(''q'', ''a&b=c''), (''owner'', ''x y'')]" by code_simp
  ultimately show ?thesis using filters_decode [of ?p "''/''"] by (simp add: vmsListPath_def)
qed

text \<open>
  Patching the query of a view changes exactly the given parameters: an empty or absent value
  removes its parameter, another one replaces it, and every other parameter keeps its value.
\<close>

lemma patch_is_local:
  assumes "obj_ok patch"
  shows "sp_get (patchSearchParams current patch) k =
    (case obj_get patch k of
       None \<Rightarrow> sp_get current k
     | Some v \<Rightarrow> if truthy v then v else None)"
  using patch_params_get [of patch current k] assms
  by (simp add: patchSearchParams_def obj_ok_def obj_keys_def obj_get_def)

lemma patch_is_local_witness:
  "sp_get (patchSearchParams [(''q'', ''a''), (''ns'', ''x''), (''q'', ''b'')] [(''q'', None), (''ns'', Some ''y'')]) ''ns'' = Some ''y''"
proof -
  have "obj_ok [(''q'', None), (''ns'', Some ''y'')]" by (simp add: obj_ok_def)
  from patch_is_local [OF this] show ?thesis by (simp add: truthy_def)
qed

end
