(* ===== verification/Vm_Rules.thy ===== *)
theory Vm_Rules
  imports Js_Effects "HOL-Library.Multiset"
begin

text \<open>
  \<open>lib/format.ts\<close>, the rules of the VM views: which actions a status allows, the text forms of
  ages, sizes and labels, and the names of VMs that are launched together. URLs are in
  \<open>Resource_Paths\<close>.
\<close>

section \<open>Ages and sizes\<close>

text \<open>
  \<open>new Date(text)\<close> is a parameter: the milliseconds of a valid date.
\<close>

definition parseTimestamp :: "(string \<Rightarrow> int option) \<Rightarrow> string \<Rightarrow> int option" where
  "parseTimestamp date stamp = (if stamp = [] then None else date stamp)"

definition formatAge :: "(string \<Rightarrow> int option) \<Rightarrow> int \<Rightarrow> string \<Rightarrow> string" where
  "formatAge date now stamp =
     (case parseTimestamp date stamp of
        None \<Rightarrow> if stamp = [] then em_dash else stamp
      | Some t \<Rightarrow>
          let seconds = (now - t) div 1000 in
          if seconds < 60 then int_str seconds @ ''s''
          else let minutes = seconds div 60 in
          if minutes < 60 then int_str minutes @ ''m''
          else let hours = minutes div 60 in
          if hours < 48 then int_str hours @ ''h''
          else let days = hours div 24 in
          if days < 365 then int_str days @ ''d''
          else int_str (days div 365) @ ''y'')"

definition sizeLabel :: "string option \<Rightarrow> string option \<Rightarrow> string" where
  "sizeLabel cpu memory = opt_default em_dash cpu @ '' / '' @ opt_default em_dash memory"

text \<open>\<open>toFixed\<close> of a non-negative number below 10^21 with at most two digits.\<close>

definition to_fixed :: "nat \<Rightarrow> rat \<Rightarrow> string" where
  "to_fixed f x =
     (let n = nat \<lfloor>x * 10 ^ f + 1 / 2\<rfloor> in
      if f = 0 then nat_str n
      else nat_str (n div 10 ^ f) @ ''.'' @
           (if f = 2 \<and> n mod 10 ^ f < 10 then ''0'' else []) @ nat_str (n mod 10 ^ f))"

text \<open>The loop over the units; dividing by 1024 is exact.\<close>

fun scale_bytes :: "rat \<Rightarrow> nat \<Rightarrow> string list \<Rightarrow> rat \<times> nat \<times> string" where
  "scale_bytes v i [] = (v, i, [])"
| "scale_bytes v i [u] = (v, i, u)"
| "scale_bytes v i (u # w # us) =
     (if 1024 \<le> v then scale_bytes (v / 1024) (Suc i) (w # us) else (v, i, u))"

definition formatBytes :: "js_num option \<Rightarrow> string" where
  "formatBytes bytes =
     (case bytes of
        Some (Fin b) \<Rightarrow>
          if b < 0 then em_dash
          else if b = 0 then ''0 B''
          else case scale_bytes b 0 [''B'', ''KiB'', ''MiB'', ''GiB'', ''TiB''] of
                 (v, i, u) \<Rightarrow> to_fixed (if i = 0 then 0 else if 10 \<le> v then 1 else 2) v @ '' '' @ u
      | _ \<Rightarrow> em_dash)"

section \<open>Actions by status\<close>

definition canStop :: "string \<Rightarrow> bool" where
  "canStop status \<longleftrightarrow> status \<in> set [''Running'', ''Starting'', ''Migrating'']"

definition canStart :: "string \<Rightarrow> bool" where
  "canStart status \<longleftrightarrow> status \<in> set [''Stopped'', ''Error'']"

definition canRestart :: "string \<Rightarrow> bool" where
  "canRestart status \<longleftrightarrow> status \<in> set [''Running'', ''Paused'']"

definition canSoftReboot :: "string \<Rightarrow> bool" where
  "canSoftReboot status \<longleftrightarrow> status = ''Running''"

definition canPause :: "string \<Rightarrow> bool" where
  "canPause status \<longleftrightarrow> status = ''Running''"

definition canUnpause :: "string \<Rightarrow> bool" where
  "canUnpause status \<longleftrightarrow> status = ''Paused''"

definition canOpenConsole :: "string \<Rightarrow> bool" where
  "canOpenConsole status \<longleftrightarrow> status \<in> set [''Running'', ''Paused'', ''Migrating'']"

definition canEditVmSpec :: "string \<Rightarrow> bool" where
  "canEditVmSpec status \<longleftrightarrow> status \<in> set [''Stopped'', ''Error'', ''Running'', ''Paused'', ''Migrating'']"

definition isVmStopped :: "string \<Rightarrow> bool" where
  "isVmStopped status \<longleftrightarrow> status \<in> set [''Stopped'', ''Error'']"

definition canOpenDatabaseTerminal :: "string option \<Rightarrow> int option \<Rightarrow> string \<Rightarrow> bool" where
  "canOpenDatabaseTerminal currentPrimary readyInstances status \<longleftrightarrow>
     (if js_trim (opt_str currentPrimary) \<noteq> [] then True
      else if 0 < opt_default 0 readyInstances then True
      else status = ''Ready'')"

definition canRestoreVmSnapshot :: "string \<Rightarrow> bool \<Rightarrow> bool" where
  "canRestoreVmSnapshot phase readyToUse \<longleftrightarrow> readyToUse \<and> phase \<noteq> ''Failed''"

definition parseCpuCores :: "string option \<Rightarrow> js_num" where
  "parseCpuCores cpu =
     (if \<not> truthy cpu then Fin 1
      else let ds = takeWhile is_digit (js_trim (opt_str cpu)) in
        if ds = [] then Fin 1
        else case js_number ds of
               Fin n \<Rightarrow> if 1 \<le> n then Fin n else Fin 1
             | _ \<Rightarrow> Fin 1)"

section \<open>Labels as text\<close>

text \<open>
  The order of \<open>localeCompare\<close> is a parameter: what sorting by it does to the entries.
\<close>

definition formatLabelsText :: "(string \<times> string \<Rightarrow> string \<times> string \<Rightarrow> bool) \<Rightarrow> string jsobj \<Rightarrow> string" where
  "formatLabelsText locale_le labels =
     js_join [CHR 0x0a] (map (\<lambda>(k, v). k @ ''='' @ v)
       (sort_by locale_le labels))"

fun parse_label_lines :: "string jsobj \<Rightarrow> nat \<Rightarrow> string list \<Rightarrow> string + string jsobj" where
  "parse_label_lines labels i [] = Inr labels"
| "parse_label_lines labels i (line # lines) =
     (let raw = js_trim line in
      if raw = [] \<or> js_starts_with raw ''#'' then parse_label_lines labels (Suc i) lines
      else let eq = js_index_of (CHR ''='') raw in
        if eq \<le> 0 then Inl (''Line '' @ nat_str (Suc i) @ '': expected key=value'')
        else let key = js_trim (js_slice raw 0 eq); v = js_slice_from raw (eq + 1) in
          if key = [] then Inl (''Line '' @ nat_str (Suc i) @ '': empty label key'')
          else if 253 < length key then Inl (''Line '' @ nat_str (Suc i) @ '': key too long'')
          else if 63 < length v then Inl (''Line '' @ nat_str (Suc i) @ '': value too long (max 63)'')
          else parse_label_lines (obj_assign labels key v) (Suc i) lines)"

definition parseLabelsText :: "string \<Rightarrow> string + string jsobj" where
  "parseLabelsText txt = parse_label_lines [] 0 (js_split (CHR 0x0a) txt)"

section \<open>Names\<close>

text \<open>\<open>/^[a-z0-9]([-a-z0-9]*[a-z0-9])?$/\<close>.\<close>

definition label_char :: "char \<Rightarrow> bool" where
  "label_char c \<longleftrightarrow> is_lower_alpha c \<or> is_digit c"

definition DNS1123_LABEL :: "string \<Rightarrow> bool" where
  "DNS1123_LABEL s \<longleftrightarrow>
     s \<noteq> [] \<and> label_char (hd s) \<and> label_char (last s) \<and> list_all (\<lambda>c. label_char c \<or> c = CHR ''-'') s"

definition validateDns1123Label :: "string \<Rightarrow> string option" where
  "validateDns1123Label v =
     (if v = [] then Some ''Required''
      else if 63 < length v then Some ''Max 63 characters''
      else if \<not> DNS1123_LABEL v then Some ''DNS-1123 label required (lowercase alphanumeric and hyphens)''
      else None)"

definition MAX_VM_LAUNCH_COUNT :: int where "MAX_VM_LAUNCH_COUNT = 50"

fun launch_names :: "string \<Rightarrow> nat list \<Rightarrow> string list \<Rightarrow> string + string list" where
  "launch_names base [] names = Inr names"
| "launch_names base (i # is) names =
     (let nm = base @ ''-'' @ nat_str i in
      case validateDns1123Label nm of
        Some err \<Rightarrow>
          if 63 < length nm
          then Inl (''Generated name \"'' @ nm @ ''\" exceeds 63 characters '' @ em_dash @ '' shorten the base name'')
          else Inl (''Generated name \"'' @ nm @ ''\" is not a valid DNS-1123 label '' @ em_dash @ '' adjust the base name'')
      | None \<Rightarrow> launch_names base is (names @ [nm]))"

definition expandVmLaunchNames :: "string \<Rightarrow> js_num \<Rightarrow> string + string list" where
  "expandVmLaunchNames baseName count' =
     (let base = js_trim baseName; n = num_floor count' in
      if base = [] then Inl ''Name is required''
      else if \<not> js_is_integer count' \<or> n < 1 then Inl ''Count must be a positive integer''
      else if MAX_VM_LAUNCH_COUNT < n then Inl (''Count cannot exceed '' @ int_str MAX_VM_LAUNCH_COUNT)
      else if n = 1 then
        (case validateDns1123Label base of
           Some err \<Rightarrow> Inl (if err = ''Required'' then ''Name is required'' else err)
         | None \<Rightarrow> Inr [base])
      else launch_names base [1..<Suc (nat n)] [])"


section \<open>Lemmas on names\<close>

lemma validateDns1123Label_None:
  "validateDns1123Label v = None \<longleftrightarrow> DNS1123_LABEL v \<and> length v \<le> 63"
  by (auto simp: validateDns1123Label_def DNS1123_LABEL_def)

lemma launch_names_Inr:
  "launch_names base is acc = Inr ns \<longleftrightarrow>
     ns = acc @ map (\<lambda>i. base @ ''-'' @ nat_str i) is \<and>
     (\<forall>i \<in> set is. validateDns1123Label (base @ ''-'' @ nat_str i) = None)"
proof (induction base "is" acc rule: launch_names.induct)
  case (2 base i "is" names)
  show ?case
  proof (cases "validateDns1123Label (base @ ''-'' @ nat_str i)")
    case None
    then show ?thesis using 2 by (auto simp: Let_def)
  qed (auto simp: Let_def)
qed auto

lemma distinct_launch_names: "distinct (map (\<lambda>i. base @ ''-'' @ nat_str i) is) = distinct is"
  by (simp add: distinct_map inj_on_def)

lemma nat_str_length: "n < 100 \<Longrightarrow> length (nat_str n) \<le> 2"
  using less_mult_imp_div_less [of n 10 10] by (subst nat_str.simps, subst nat_str.simps) simp

lemma digit_label_char: "is_digit c \<Longrightarrow> label_char c"
  by (simp add: label_char_def)

lemma numbered_label:
  assumes "DNS1123_LABEL base" shows "DNS1123_LABEL (base @ ''-'' @ nat_str i)"
proof -
  have "label_char (last (nat_str i))" using nat_str_digit [of "last (nat_str i)" i] by (simp add: digit_label_char)
  moreover have "list_all label_char (nat_str i)"
    using nat_str_digits [of i] by (auto simp: list_all_iff digit_label_char)
  ultimately show ?thesis using assms by (auto simp: DNS1123_LABEL_def list_all_iff)
qed

lemma label_char_not_space: "label_char c \<Longrightarrow> \<not> js_space c"
  by (auto simp: label_char_def is_lower_alpha_def is_digit_def js_space_def char_code_def)

lemma dns_label_trim: "DNS1123_LABEL s \<Longrightarrow> js_trim s = s"
  by (rule js_trim_id) (auto simp: DNS1123_LABEL_def label_char_not_space)

section \<open>Lemmas on labels as text\<close>

lemma mset_insert_by [simp]: "mset (insert_by le e xs) = add_mset e (mset xs)"
  by (induction xs) auto

lemma mset_sort_by: "mset (sort_by le xs) = mset xs"
  unfolding sort_by_def
  by (induction xs) auto

text \<open>An entry that its line can carry.\<close>

definition label_entry :: "string \<times> string \<Rightarrow> bool" where
  "label_entry = (\<lambda>(k, v).
     k \<noteq> [] \<and> js_trim k = k \<and> hd k \<noteq> CHR ''#'' \<and> CHR ''='' \<notin> set k \<and> CHR 0x0a \<notin> set k \<and> k \<noteq> ''__proto__'' \<and>
     length k \<le> 253 \<and> CHR 0x0a \<notin> set v \<and> (v = [] \<or> \<not> js_space (last v)) \<and> length v \<le> 63)"

definition label_line :: "string \<times> string \<Rightarrow> string" where
  "label_line = (\<lambda>(k, v). k @ ''='' @ v)"

lemma trim_hd: "js_trim k = k \<Longrightarrow> k \<noteq> [] \<Longrightarrow> \<not> js_space (hd k)"
  using js_trim_hd [of k] by simp

lemma label_line_trim:
  assumes "label_entry e" shows "js_trim (label_line e) = label_line e"
proof -
  obtain k v where e: "e = (k, v)" by (cases e)
  have "\<not> js_space (hd (label_line e))"
    using assms trim_hd [of k] by (simp add: label_entry_def label_line_def e)
  moreover have "\<not> js_space (last (label_line e))"
    using assms by (auto simp: label_entry_def label_line_def e js_space_def)
  ultimately show ?thesis by (intro js_trim_id) simp
qed

lemma parse_label_line:
  assumes "label_entry (k, v)"
  shows "parse_label_lines labels i (label_line (k, v) # lines) =
    parse_label_lines (obj_assign labels k v) (Suc i) lines"
proof -
  have t: "js_trim (label_line (k, v)) = k @ CHR ''='' # v"
    using label_line_trim [OF assms] by (simp add: label_line_def)
  have k: "k \<noteq> []" "js_trim k = k" "hd k \<noteq> CHR ''#''" "CHR ''='' \<notin> set k" "length k \<le> 253" "length v \<le> 63"
    using assms by (simp_all add: label_entry_def)
  have n: "\<not> js_starts_with (k @ CHR ''='' # v) ''#''"
    using k(1,3) by (cases k) (simp_all add: js_starts_with_def)
  have eq: "js_index_of (CHR ''='') (k @ CHR ''='' # v) = int (length k)"
    by (rule js_index_of_append [OF k(4)])
  show ?thesis
    unfolding parse_label_lines.simps t Let_def eq js_slice_0_length js_slice_from_Suc_length k(2)
    using k(1,5,6) n by simp
qed

lemma parse_label_all:
  "\<forall>e \<in> set es. label_entry e \<Longrightarrow>
     parse_label_lines labels i (map label_line es) = Inr (foldl (\<lambda>ob (k, v). obj_assign ob k v) labels es)"
proof (induction es arbitrary: labels i)
  case (Cons e es)
  obtain k v where e: "e = (k, v)" by (cases e)
  have "label_entry (k, v)" using Cons.prems by (simp add: e)
  from parse_label_line [OF this] show ?case using Cons by (simp add: e del: parse_label_lines.simps)
qed simp

lemma obj_get_assigned:
  "distinct (map fst es) \<Longrightarrow> ''__proto__'' \<notin> fst ` set es \<Longrightarrow>
     obj_get (foldl (\<lambda>ob (k, v). obj_assign ob k v) labels es) j =
     (case map_of es j of Some v \<Rightarrow> Some v | None \<Rightarrow> obj_get labels j)"
proof (induction es arbitrary: labels)
  case (Cons e es)
  obtain k v where e: "e = (k, v)" by (cases e)
  have k: "k \<noteq> ''__proto__''" "map_of es k = None"
    using Cons.prems by (auto simp: e map_of_eq_None_iff)
  show ?case using Cons k by (auto simp: e obj_get_assign split: option.splits)
qed simp

lemma map_of_mset:
  assumes "mset xs = mset ys" "distinct (map fst xs)" shows "map_of xs = map_of ys"
proof -
  have "distinct (map fst ys)"
    using assms by (metis mset_eq_imp_distinct_iff mset_map)
  moreover have "set xs = set ys" using assms(1) by (metis set_mset_mset)
  ultimately show ?thesis using assms(2) by (simp add: map_of_inject_set)
qed

section \<open>Properties\<close>

text \<open>
  C13. Names of VMs launched together: when the names are returned there are as many as asked
  for (1 to 50), they are pairwise distinct and each is a valid DNS-1123 label; and they are
  always returned for a base that is a valid label of at most 60 characters.
\<close>

theorem launch_names_valid:
  assumes "js_is_integer n"
  shows "(case expandVmLaunchNames base n of
      Inr names \<Rightarrow> distinct names \<and> int (length names) = num_floor n \<and> 1 \<le> num_floor n \<and> num_floor n \<le> 50 \<and>
        list_all (\<lambda>nm. validateDns1123Label nm = None) names
    | Inl e \<Rightarrow> \<not> (DNS1123_LABEL (js_trim base) \<and> length (js_trim base) \<le> 60 \<and> 1 \<le> num_floor n \<and> num_floor n \<le> 50))"
proof (cases "js_trim base = [] \<or> num_floor n < 1 \<or> MAX_VM_LAUNCH_COUNT < num_floor n")
  case True
  then show ?thesis
    using assms by (auto simp: expandVmLaunchNames_def Let_def MAX_VM_LAUNCH_COUNT_def DNS1123_LABEL_def)
next
  case False
  then have b: "js_trim base \<noteq> []" "1 \<le> num_floor n" "num_floor n \<le> 50"
    by (simp_all add: MAX_VM_LAUNCH_COUNT_def)
  show ?thesis
  proof (cases "num_floor n = 1")
    case True
    then show ?thesis
      using assms b by (auto simp: expandVmLaunchNames_def Let_def MAX_VM_LAUNCH_COUNT_def
          validateDns1123Label_None validateDns1123Label_def split: option.splits)
  next
    case many: False
    let ?is = "[1..<Suc (nat (num_floor n))]"
    have e: "expandVmLaunchNames base n = launch_names (js_trim base) ?is []"
      using assms b many by (simp add: expandVmLaunchNames_def Let_def MAX_VM_LAUNCH_COUNT_def)
    show ?thesis
    proof (cases "launch_names (js_trim base) ?is []")
      case (Inr names)
      then have names: "names = map (\<lambda>i. js_trim base @ ''-'' @ nat_str i) ?is"
        and ok: "\<forall>i \<in> set ?is. validateDns1123Label (js_trim base @ ''-'' @ nat_str i) = None"
        unfolding launch_names_Inr by blast+
      have "distinct names" unfolding names distinct_launch_names by (rule distinct_upt)
      moreover have "int (length names) = num_floor n" using b by (simp add: names del: upt_Suc)
      moreover have "list_all (\<lambda>nm. validateDns1123Label nm = None) names"
        using ok unfolding names list_all_iff by (simp only: set_map ball_simps)
      ultimately show ?thesis unfolding e Inr using b by simp
    next
      case (Inl err)
      have "\<not> (DNS1123_LABEL (js_trim base) \<and> length (js_trim base) \<le> 60)"
      proof
        assume a: "DNS1123_LABEL (js_trim base) \<and> length (js_trim base) \<le> 60"
        have "validateDns1123Label (js_trim base @ ''-'' @ nat_str i) = None" if "i \<in> set ?is" for i
        proof -
          have "i < 100" using that b(3) by auto
          then show ?thesis
            using a numbered_label [of "js_trim base" i] nat_str_length [of i]
            by (simp add: validateDns1123Label_None)
        qed
        then have "launch_names (js_trim base) ?is [] = Inr (map (\<lambda>i. js_trim base @ ''-'' @ nat_str i) ?is)"
          by (simp only: launch_names_Inr append_Nil simp_thms) blast
        then show False using Inl by simp
      qed
      then show ?thesis unfolding e Inl sum.case by blast
    qed
  qed
qed

lemma launch_names_valid_witness:
  "expandVmLaunchNames '' web '' (Fin 3) = Inr [''web-1'', ''web-2'', ''web-3''] \<and>
   distinct [''web-1'', ''web-2'', ''web-3'']"
proof -
  have "expandVmLaunchNames '' web '' (Fin 3) = Inr [''web-1'', ''web-2'', ''web-3'']" by code_simp
  then show ?thesis using launch_names_valid [of "Fin 3" "'' web ''"] by simp
qed

text \<open>
  Labels survive the text editor: parsing the text that shows a set of labels (keys and
  values without line breaks, keys trimmed and without equals sign) gives the same labels,
  whatever order the locale sorts them in.
\<close>

lemma labels_text_roundtrip:
  assumes "obj_ok labels" and "\<forall>e \<in> set labels. label_entry e"
  shows "\<exists>m. parseLabelsText (formatLabelsText le labels) = Inr m \<and> (\<forall>k. obj_get m k = obj_get labels k)"
proof -
  define es where "es = sort_by le labels"
  have m: "mset es = mset labels" by (simp add: es_def mset_sort_by)
  then have set: "set es = set labels" by (metis set_mset_mset)
  have d: "distinct (map fst labels)" using assms(1) by (simp add: obj_ok_def obj_keys_def)
  then have des: "distinct (map fst es)" using m by (metis mset_eq_imp_distinct_iff mset_map)
  have f: "formatLabelsText le labels = js_join [CHR 0x0a] (map label_line es)"
    by (simp add: formatLabelsText_def es_def label_line_def)
  have p: "parseLabelsText (formatLabelsText le labels) = Inr (foldl (\<lambda>ob (k, v). obj_assign ob k v) [] es)"
  proof (cases "es = []")
    case True
    then show ?thesis by (simp add: f parseLabelsText_def)
  next
    case False
    have "js_split (CHR 0x0a) (js_join [CHR 0x0a] (map label_line es)) = map label_line es"
      by (rule js_split_join) (use False assms(2) set in \<open>auto simp: label_line_def label_entry_def\<close>)
    then show ?thesis
      unfolding f parseLabelsText_def using parse_label_all [of es "[]" 0] assms(2) set by simp
  qed
  have "''__proto__'' \<notin> fst ` set es" using assms(2) set by (auto simp: label_entry_def)
  from obj_get_assigned [OF des this, of "[]"] have
    "obj_get (foldl (\<lambda>ob (k, v). obj_assign ob k v) [] es) k = map_of es k" for k
    by (simp split: option.splits)
  moreover have "map_of es = map_of labels" by (rule map_of_mset [OF m des])
  ultimately show ?thesis using p by (auto simp: obj_get_def)
qed

lemma labels_text_roundtrip_witness:
  "\<exists>m. parseLabelsText (formatLabelsText (\<lambda>x y. length (fst x) \<le> length (fst y)) [(''tier'', ''web''), (''app'', ''a=b'')]) = Inr m \<and>
     obj_get m ''app'' = Some ''a=b'' \<and> obj_get m ''tier'' = Some ''web''"
proof -
  let ?l = "[(''tier'', ''web''), (''app'', ''a=b'')]"
  have "obj_ok ?l" by (simp add: obj_ok_def)
  moreover have "\<forall>e \<in> set ?l. label_entry e" unfolding list_all_iff [symmetric] by code_simp
  ultimately obtain m where
    "parseLabelsText (formatLabelsText (\<lambda>x y. length (fst x) \<le> length (fst y)) ?l) = Inr m"
    and g: "\<forall>k. obj_get m k = obj_get ?l k"
    using labels_text_roundtrip by blast
  moreover have "obj_get m ''app'' = Some ''a=b''" "obj_get m ''tier'' = Some ''web''"
    unfolding g [rule_format] by simp_all
  ultimately show ?thesis by blast
qed

end
