(* ===== verification/Json.thy ===== *)
theory Json
  imports Js_Object Js_Number
begin

text \<open>
  The part of \<open>JSON\<close> that the code uses: \<open>stringify\<close> of a bag of strings and \<open>parse\<close> of any text.
  A \<open>\\u\<close> escape of a code unit that the model does not cover is read as no value.
\<close>

datatype json = JNull | JBool bool | JNum js_num | JStr string | JArr "json list" | JObj "json jsobj"

section \<open>Writing\<close>

definition json_hex :: "nat \<Rightarrow> char" where
  "json_hex n = (if n < 10 then char_of (48 + n) else char_of (87 + n))"

definition json_escape :: "char \<Rightarrow> string" where
  "json_escape c =
     (let n = char_code c in
      if n = 34 then [CHR 0x5c, CHR 0x22]
      else if n = 92 then [CHR 0x5c, CHR 0x5c]
      else if n = 8 then [CHR 0x5c, CHR ''b'']
      else if n = 9 then [CHR 0x5c, CHR ''t'']
      else if n = 10 then [CHR 0x5c, CHR ''n'']
      else if n = 12 then [CHR 0x5c, CHR ''f'']
      else if n = 13 then [CHR 0x5c, CHR ''r'']
      else if n < 32 then [CHR 0x5c, CHR ''u'', CHR ''0'', CHR ''0'', json_hex (n div 16), json_hex (n mod 16)]
      else [c])"

definition json_string :: "string \<Rightarrow> string" where
  "json_string s = [CHR 0x22] @ concat (map json_escape s) @ [CHR 0x22]"

definition json_member :: "string \<times> string \<Rightarrow> string" where
  "json_member = (\<lambda>(k, v). json_string k @ '':'' @ json_string v)"

definition json_stringify :: "string jsobj \<Rightarrow> string" where
  "json_stringify ob = ''{'' @ js_join '','' (map json_member ob) @ ''}''"

section \<open>Reading\<close>

definition json_space :: "char \<Rightarrow> bool" where
  "json_space c \<longleftrightarrow> char_code c \<in> {9, 10, 13, 32}"

definition skip_space :: "string \<Rightarrow> string" where
  "skip_space s = dropWhile json_space s"

definition hex_val :: "char \<Rightarrow> nat option" where
  "hex_val c =
     (let n = char_code c in
      if 48 \<le> n \<and> n \<le> 57 then Some (n - 48)
      else if 65 \<le> n \<and> n \<le> 70 then Some (n - 55)
      else if 97 \<le> n \<and> n \<le> 102 then Some (n - 87) else None)"

definition simple_escape :: "char \<Rightarrow> char option" where
  "simple_escape c =
     (let n = char_code c in
      if n = 34 \<or> n = 92 \<or> n = 47 then Some c
      else if n = 98 then Some (char_of (8 :: nat))
      else if n = 102 then Some (char_of (12 :: nat))
      else if n = 110 then Some (char_of (10 :: nat))
      else if n = 114 then Some (char_of (13 :: nat))
      else if n = 116 then Some (char_of (9 :: nat))
      else None)"

definition unicode_escape :: "string \<Rightarrow> char option" where
  "unicode_escape ds =
     (case map hex_val ds of
        [Some a, Some b, Some c, Some d] \<Rightarrow>
          let n = 4096 * a + 256 * b + 16 * c + d in if n < 256 then Some (char_of n) else None
      | _ \<Rightarrow> None)"

text \<open>The rest of a string literal after its opening quote.\<close>

function read_string :: "string \<Rightarrow> (string \<times> string) option" where
  "read_string [] = None"
| "read_string (c # cs) =
     (if char_code c = 34 then Some ([], cs)
      else if char_code c < 32 then None
      else if char_code c = 92 then
        (case cs of
           [] \<Rightarrow> None
         | e # rest \<Rightarrow>
             if char_code e = 117
             then (case unicode_escape (take 4 rest) of
                     None \<Rightarrow> None
                   | Some d \<Rightarrow> map_option (\<lambda>(s, r). (d # s, r)) (read_string (drop 4 rest)))
             else (case simple_escape e of
                     None \<Rightarrow> None
                   | Some d \<Rightarrow> map_option (\<lambda>(s, r). (d # s, r)) (read_string rest)))
      else map_option (\<lambda>(s, r). (c # s, r)) (read_string cs))"
  by pat_completeness auto
termination by (relation "measure length") auto

definition json_number_text :: "string \<Rightarrow> bool" where
  "json_number_text s =
     (let t = (if s \<noteq> [] \<and> hd s = CHR ''-'' then tl s else s);
          ip = takeWhile is_digit t;
          r = dropWhile is_digit t;
          dot = (r \<noteq> [] \<and> hd r = CHR ''.'');
          fp = (if dot then takeWhile is_digit (tl r) else []);
          r' = (if dot then dropWhile is_digit (tl r) else r)
      in ip \<noteq> [] \<and> (hd ip \<noteq> CHR ''0'' \<or> tl ip = []) \<and> (dot \<longrightarrow> fp \<noteq> []) \<and> exponent_part r' \<noteq> None)"

definition number_char :: "char \<Rightarrow> bool" where
  "number_char c \<longleftrightarrow> is_digit c \<or> c \<in> set ''+-.eE''"

fun read_value :: "nat \<Rightarrow> string \<Rightarrow> (json \<times> string) option"
  and read_members :: "nat \<Rightarrow> json jsobj \<Rightarrow> string \<Rightarrow> (json jsobj \<times> string) option"
  and read_elements :: "nat \<Rightarrow> json list \<Rightarrow> string \<Rightarrow> (json list \<times> string) option" where
  "read_value 0 s = None"
| "read_value (Suc n) s0 =
     (let s = skip_space s0 in
      if s = [] then None
      else if hd s = CHR 0x22 then map_option (\<lambda>(x, r). (JStr x, r)) (read_string (tl s))
      else if hd s = CHR ''{'' then
        (let r = skip_space (tl s) in
         if r \<noteq> [] \<and> hd r = CHR ''}'' then Some (JObj [], tl r)
         else map_option (\<lambda>(ob, r). (JObj ob, r)) (read_members n [] r))
      else if hd s = CHR ''['' then
        (let r = skip_space (tl s) in
         if r \<noteq> [] \<and> hd r = CHR '']'' then Some (JArr [], tl r)
         else map_option (\<lambda>(xs, r). (JArr xs, r)) (read_elements n [] r))
      else if js_starts_with s ''null'' then Some (JNull, drop 4 s)
      else if js_starts_with s ''true'' then Some (JBool True, drop 4 s)
      else if js_starts_with s ''false'' then Some (JBool False, drop 5 s)
      else let d = takeWhile number_char s in
        if json_number_text d then Some (JNum (js_number d), dropWhile number_char s) else None)"
| "read_members 0 ob s = None"
| "read_members (Suc n) ob s0 =
     (let s = skip_space s0 in
      if s = [] \<or> hd s \<noteq> CHR 0x22 then None
      else case read_string (tl s) of
             None \<Rightarrow> None
           | Some (k, r0) \<Rightarrow>
               let r = skip_space r0 in
               if r = [] \<or> hd r \<noteq> CHR '':'' then None
               else case read_value n (tl r) of
                      None \<Rightarrow> None
                    | Some (v, q0) \<Rightarrow>
                        let q = skip_space q0 in
                        if q = [] then None
                        else if hd q = CHR ''}'' then Some (obj_put ob k v, tl q)
                        else if hd q = CHR '','' then read_members n (obj_put ob k v) (tl q)
                        else None)"
| "read_elements 0 xs s = None"
| "read_elements (Suc n) xs s0 =
     (case read_value n s0 of
        None \<Rightarrow> None
      | Some (v, q0) \<Rightarrow>
          let q = skip_space q0 in
          if q = [] then None
          else if hd q = CHR '']'' then Some (xs @ [v], tl q)
          else if hd q = CHR '','' then read_elements n (xs @ [v]) (tl q)
          else None)"

text \<open>Two steps at most are taken between two characters that are read, so twice the length is enough fuel.\<close>

definition json_parse :: "string \<Rightarrow> json option" where
  "json_parse s =
     (case read_value (2 * length s + 2) s of
        Some (v, r) \<Rightarrow> if skip_space r = [] then Some v else None
      | None \<Rightarrow> None)"

section \<open>Reading back a bag of strings\<close>

lemma hex_val_json_hex: "n < 16 \<Longrightarrow> hex_val (json_hex n) = Some n"
  by (simp add: hex_val_def json_hex_def Let_def)

lemma char_code_lit: "char_code (CHR 0x22) = 34" "char_code (CHR 0x5c) = 92" "char_code (CHR ''u'') = 117"
  "char_code (CHR ''b'') = 98" "char_code (CHR ''t'') = 116" "char_code (CHR ''n'') = 110"
  "char_code (CHR ''f'') = 102" "char_code (CHR ''r'') = 114" "char_code (CHR ''0'') = 48"
  by (simp_all add: char_code_def)

lemma char_code_eqD: "char_code c = n \<Longrightarrow> char_of n = c"
  by (metis char_of_char_code)

lemma char_code_quote: "char_code c = 34 \<Longrightarrow> c = CHR 0x22" "char_code c = 92 \<Longrightarrow> c = CHR 0x5c"
  using char_code_eq_iff [of c "CHR 0x22"] char_code_eq_iff [of c "CHR 0x5c"] by (simp_all add: char_code_lit)

lemma read_string_escape:
  "read_string (json_escape c @ r) = map_option (\<lambda>(s, t). (c # s, t)) (read_string r)"
proof -
  let ?n = "char_code c"
  consider (quot) "c = CHR 0x22" | (slash) "c = CHR 0x5c" | (1) "?n \<in> {8, 9, 10, 12, 13}"
    | (2) "?n \<notin> {34, 92, 8, 9, 10, 12, 13}" "?n < 32" | (3) "?n \<notin> {34, 92}" "32 \<le> ?n"
    using char_code_quote [of c] by fastforce
  then show ?thesis
  proof cases
    case quot
    then show ?thesis by (simp add: json_escape_def simple_escape_def char_code_lit)
  next
    case slash
    then show ?thesis by (simp add: json_escape_def simple_escape_def char_code_lit)
  next
    case 1
    then show ?thesis
      by (elim insertE emptyE)
        (simp_all add: json_escape_def simple_escape_def char_code_lit char_code_eqD)
  next
    case 2
    then have "?n div 16 < 16" "?n mod 16 < 16" by simp_all
    then show ?thesis
      using 2 by (simp add: json_escape_def unicode_escape_def char_code_lit hex_val_json_hex Let_def)
        (simp add: hex_val_def char_code_lit)
  next
    case 3
    then show ?thesis by (simp add: json_escape_def Let_def)
  qed
qed

lemma read_string_json: "read_string (concat (map json_escape s) @ CHR 0x22 # r) = Some (s, r)"
proof (induction s)
  case Nil
  then show ?case by (simp add: char_code_lit)
next
  case (Cons c s)
  then show ?case by (simp only: list.map concat.simps append_assoc read_string_escape) simp
qed


lemma json_string_read: "json_string s = CHR 0x22 # concat (map json_escape s) @ [CHR 0x22]"
  by (simp add: json_string_def)

lemma skip_space_id: "s = [] \<or> \<not> json_space (hd s) \<Longrightarrow> skip_space s = s"
  by (cases s) (auto simp: skip_space_def)

lemma not_json_space: "\<not> json_space (CHR 0x22)" "\<not> json_space (CHR '':'')" "\<not> json_space (CHR '','')"
  "\<not> json_space (CHR ''}'')" "\<not> json_space (CHR ''{'')"
  by (simp_all add: json_space_def char_code_def)

lemma read_value_string: "read_value (Suc n) (json_string s @ r) = Some (JStr s, r)"
proof -
  have "skip_space (json_string s @ r) = json_string s @ r"
    by (rule skip_space_id) (simp add: json_string_read not_json_space)
  then show ?thesis by (simp add: json_string_read read_string_json del: read_string.simps)
qed

lemma skip_colon: "skip_space (CHR '':'' # x) = CHR '':'' # x"
  by (rule skip_space_id) (simp add: not_json_space)

lemma read_member:
  assumes "\<not> json_space c"
  shows "read_members (Suc (Suc n)) ob (json_member (k, v) @ c # r) =
     (if c = CHR ''}'' then Some (obj_put ob k (JStr v), r)
      else if c = CHR '','' then read_members (Suc n) (obj_put ob k (JStr v)) r
      else None)"
proof -
  have m: "json_member (k, v) @ c # r =
      CHR 0x22 # concat (map json_escape k) @ CHR 0x22 # CHR '':'' # json_string v @ c # r"
    by (simp add: json_member_def json_string_read)
  have s: "skip_space (CHR 0x22 # x) = CHR 0x22 # x" for x
    by (rule skip_space_id) (simp add: not_json_space)
  have q: "skip_space (c # r) = c # r" using assms by (intro skip_space_id) simp
  show ?thesis
    unfolding m read_members.simps s Let_def list.sel read_string_json option.case prod.case skip_colon
      read_value_string q by simp
qed

lemma read_member_last:
  "read_members (Suc (Suc n)) ob (json_member (k, v) @ CHR ''}'' # r) = Some (obj_put ob k (JStr v), r)"
  by (subst read_member) (simp_all add: not_json_space)

lemma read_member_next:
  "read_members (Suc (Suc n)) ob (json_member (k, v) @ CHR '','' # r) = read_members (Suc n) (obj_put ob k (JStr v)) r"
  by (subst read_member) (simp_all add: not_json_space)

lemma read_members_all:
  "length es < n \<Longrightarrow> es \<noteq> [] \<Longrightarrow>
     read_members (Suc n) ob (js_join '','' (map json_member es) @ ''}'' @ r) =
       Some (foldl (\<lambda>ob (k, v). obj_put ob k (JStr v)) ob es, r)"
proof (induction es arbitrary: n ob)
  case (Cons e es)
  obtain k v where e: "e = (k, v)" by (cases e)
  obtain m where m: "n = Suc m" using Cons.prems by (cases n) auto
  show ?case
  proof (cases "es = []")
    case True
    then show ?thesis by (simp add: e m read_member_last del: read_members.simps)
  next
    case False
    have j: "js_join '','' (map json_member (e # es)) @ ''}'' @ r =
        json_member (k, v) @ CHR '','' # js_join '','' (map json_member es) @ ''}'' @ r"
      using False by (simp add: js_join_Cons e)
    show ?thesis
      unfolding j m read_member_next using Cons.IH [of m] Cons.prems False
      by (simp add: e m del: read_members.simps)
  qed
qed simp

lemma json_member_not_Nil [simp]: "json_member e \<noteq> []"
  by (cases e) (simp add: json_member_def json_string_def)

lemma js_join_length: "length es \<le> length (js_join '','' (map json_member es))"
proof (induction es)
  case (Cons e es)
  have "0 < length (json_member e)" by simp
  then show ?case using Cons by (cases "es = []") (simp_all add: js_join_Cons Suc_le_eq)
qed simp

lemma json_parse_stringify:
  assumes "es \<noteq> []"
  shows "json_parse (json_stringify es) = Some (JObj (foldl (\<lambda>ob (k, v). obj_put ob k (JStr v)) [] es))"
proof -
  let ?body = "js_join '','' (map json_member es) @ ''}''"
  have s: "json_stringify es = CHR ''{'' # ?body" by (simp add: json_stringify_def)
  obtain e es' where es: "es = e # es'" using assms by (cases es) auto
  have b: "\<exists>t. ?body = CHR 0x22 # t"
    by (cases e; cases "es' = []") (simp_all add: es js_join_Cons json_member_def json_string_read)
  then have sp: "skip_space ?body = ?body" "hd ?body \<noteq> CHR ''}''" "?body \<noteq> []"
    using not_json_space by (auto intro!: skip_space_id)
  have sp0: "skip_space (CHR ''{'' # ?body) = CHR ''{'' # ?body"
    by (rule skip_space_id) (simp add: not_json_space)
  have f: "read_members (2 * length (CHR ''{'' # ?body) + 1) [] ?body =
      Some (foldl (\<lambda>ob (k, v). obj_put ob k (JStr v)) [] es, [])"
    using read_members_all [of es "2 * length (CHR ''{'' # ?body)" "[]" "[]"] js_join_length [of es] assms
    by (simp del: read_members.simps)
  have "read_value (2 * length (CHR ''{'' # ?body) + 2) (CHR ''{'' # ?body) =
      Some (JObj (foldl (\<lambda>ob (k, v). obj_put ob k (JStr v)) [] es), [])"
    using f sp by (simp add: sp0 Let_def del: read_members.simps)
  then show ?thesis unfolding json_parse_def s by (simp add: skip_space_def del: read_value.simps)
qed

end
