(* ===== verification/Membership.thy ===== *)
theory Membership
  imports Json Net_Resources
begin

text \<open>
  \<open>backends/membership.ts\<close>: which VMs a backend Service selects (one VM, a label selector or a
  stamped group), how the mode is recorded in the labels and annotations of the Service, and how
  it is read back.
\<close>

definition KMC_LABEL_VM :: string where "KMC_LABEL_VM = KMC_LABEL_NAMESPACE @ ''/vm''"
definition KMC_LABEL_TARGET_KIND :: string where "KMC_LABEL_TARGET_KIND = KMC_LABEL_NAMESPACE @ ''/target-kind''"
definition KMC_TARGET_KIND_VM :: string where "KMC_TARGET_KIND_VM = ''VirtualMachine''"
definition KMC_TARGET_KIND_LABELS :: string where "KMC_TARGET_KIND_LABELS = ''LabelSelector''"
definition KMC_TARGET_KIND_GROUP :: string where "KMC_TARGET_KIND_GROUP = ''Group''"
definition KMC_LABEL_BACKEND_GROUP :: string where "KMC_LABEL_BACKEND_GROUP = KMC_LABEL_NAMESPACE @ ''/backend-group''"
definition KMC_ANN_MATCH_LABELS :: string where "KMC_ANN_MATCH_LABELS = KMC_LABEL_NAMESPACE @ ''/match-labels''"
definition KMC_ANN_MEMBER_VMS :: string where "KMC_ANN_MEMBER_VMS = KMC_LABEL_NAMESPACE @ ''/member-vms''"

lemmas membership_keys = KMC_LABEL_NAMESPACE_def KMC_LABEL_VM_def KMC_LABEL_TARGET_KIND_def KMC_TARGET_KIND_VM_def
  KMC_TARGET_KIND_LABELS_def KMC_TARGET_KIND_GROUP_def KMC_LABEL_BACKEND_GROUP_def KMC_ANN_MATCH_LABELS_def
  KMC_ANN_MEMBER_VMS_def

datatype backend_membership =
    SingleVm string
  | MatchLabels "string jsobj"
  | VmGroup string "string list"

text \<open>What the Service selects.\<close>

fun resolveServiceSelector :: "backend_membership \<Rightarrow> string jsobj" where
  "resolveServiceSelector (SingleVm vm) = [(''kubevirt.io/vm'', vm)]"
| "resolveServiceSelector (MatchLabels ls) = obj_spread [] ls"
| "resolveServiceSelector (VmGroup g vms) = [(KMC_LABEL_BACKEND_GROUP, g)]"

fun membershipLabels :: "backend_membership \<Rightarrow> string jsobj" where
  "membershipLabels (SingleVm vm) = obj_lit [(KMC_LABEL_TARGET_KIND, KMC_TARGET_KIND_VM), (KMC_LABEL_VM, vm)]"
| "membershipLabels (MatchLabels ls) = obj_lit [(KMC_LABEL_TARGET_KIND, KMC_TARGET_KIND_LABELS)]"
| "membershipLabels (VmGroup g vms) =
     obj_lit [(KMC_LABEL_TARGET_KIND, KMC_TARGET_KIND_GROUP), (KMC_LABEL_BACKEND_GROUP, g)]"

fun membershipAnnotations :: "backend_membership \<Rightarrow> string jsobj" where
  "membershipAnnotations (SingleVm vm) = []"
| "membershipAnnotations (MatchLabels ls) = obj_lit [(KMC_ANN_MATCH_LABELS, json_stringify ls)]"
| "membershipAnnotations (VmGroup g vms) = obj_lit [(KMC_ANN_MEMBER_VMS, js_join '','' vms)]"

declare membershipLabels.simps [simp del] membershipAnnotations.simps [simp del]

text \<open>The string members of a JSON object; \<open>None\<close> for a text that is not an object.\<close>

fun string_members :: "json jsobj \<Rightarrow> string jsobj \<Rightarrow> string jsobj" where
  "string_members [] acc = acc"
| "string_members ((k, v) # ms) acc =
     string_members ms (case v of JStr s \<Rightarrow> obj_assign acc k s | _ \<Rightarrow> acc)"

definition read_match_labels :: "string \<Rightarrow> string jsobj option" where
  "read_match_labels raw =
     (case json_parse raw of Some (JObj ms) \<Rightarrow> Some (string_members ms []) | _ \<Rightarrow> None)"

text \<open>\<open>None\<close> stands for the mode \<open>unknown\<close>.\<close>

definition membershipFromServiceMeta ::
  "string jsobj option \<Rightarrow> string jsobj option \<Rightarrow> backend_membership option" where
  "membershipFromServiceMeta labels annotations =
     (case labels of
        None \<Rightarrow> None
      | Some ls \<Rightarrow>
          let kind = obj_get ls KMC_LABEL_TARGET_KIND in
          if kind = Some KMC_TARGET_KIND_VM
          then (let vm = obj_get ls KMC_LABEL_VM in if truthy vm then Some (SingleVm (opt_str vm)) else None)
          else if kind = Some KMC_TARGET_KIND_LABELS
          then (let raw = opt_get annotations KMC_ANN_MATCH_LABELS in
                if \<not> truthy raw then None
                else case read_match_labels (opt_str raw) of
                       None \<Rightarrow> None
                     | Some ms \<Rightarrow> if 0 < length (obj_keys ms) then Some (MatchLabels ms) else None)
          else if kind = Some KMC_TARGET_KIND_GROUP
          then (let g = obj_get ls KMC_LABEL_BACKEND_GROUP in
                if \<not> truthy g then None
                else Some (VmGroup (opt_str g)
                  (trim_list (js_split (CHR '','') (opt_str (opt_get annotations KMC_ANN_MEMBER_VMS))))))
          else None)"

definition labelsMatchSelector :: "string jsobj option \<Rightarrow> string jsobj \<Rightarrow> bool" where
  "labelsMatchSelector labels selector \<longleftrightarrow>
     selector \<noteq> [] \<and> list_all (\<lambda>(k, v). opt_get labels k = Some v) selector"

definition membershipModeLabel :: "string option \<Rightarrow> string" where
  "membershipModeLabel m =
     (let mode = opt_default ''unknown'' m in
      if mode = ''single-vm'' then ''Single VM''
      else if mode = ''labels'' then ''Label selector''
      else if mode = ''group'' then ''VM group''
      else if mode = ''unknown'' then ''Unknown''
      else mode)"

definition formatLabelSelector :: "string jsobj option \<Rightarrow> string" where
  "formatLabelSelector labels =
     (case labels of None \<Rightarrow> [] | Some ls \<Rightarrow> js_join '', '' (map (\<lambda>(k, v). k @ ''='' @ v) ls))"

definition singleVmMembership :: "string \<Rightarrow> backend_membership" where
  "singleVmMembership vmName = SingleVm vmName"

definition labelsMembership :: "string jsobj \<Rightarrow> backend_membership" where
  "labelsMembership matchLabels = MatchLabels matchLabels"

text \<open>\<open>[...new Set(vmNames.map(trim).filter(Boolean))].sort()\<close>.\<close>

definition normal_names :: "string list \<Rightarrow> string list" where
  "normal_names vmNames = js_sort (js_uniq (trim_list vmNames))"

definition groupMembership :: "string \<Rightarrow> string list \<Rightarrow> backend_membership" where
  "groupMembership groupId vmNames = VmGroup groupId (normal_names vmNames)"

fun add_match_labels :: "string jsobj \<Rightarrow> string list \<Rightarrow> string jsobj result" where
  "add_match_labels ob [] = Inr ob"
| "add_match_labels ob (part # parts) =
     (let eq = js_index_of (CHR ''='') part in
      if eq \<le> 0
      then throw (''Invalid label \"'' @ part @ ''\" '' @ em_dash @ '' expected key=value (one per line or comma-separated)'')
      else let key = js_trim (js_slice part 0 eq); v = js_trim (js_slice_from part (eq + 1)) in
        if key = [] \<or> v = []
        then throw (''Invalid label \"'' @ part @ ''\" '' @ em_dash @ '' empty key or value'')
        else if \<not> list_all (\<lambda>c. \<not> js_space c) key
        then throw (''Invalid label key \"'' @ key @ ''\" '' @ em_dash @ '' must not contain spaces'')
        else add_match_labels (obj_assign ob key v) parts)"

definition parseMatchLabelsText :: "string \<Rightarrow> string jsobj result" where
  "parseMatchLabelsText txt =
     (let parts = trim_list (concat (map (js_split (CHR '','')) (js_split (CHR 0x0a) txt))) in
      res_bind (add_match_labels [] parts) (\<lambda>ob.
        if length (obj_keys ob) = 0 then throw ''At least one match label is required'' else Inr ob))"

section \<open>Reading back\<close>

lemma normal_names_props:
  "distinct (normal_names vs)" "sorted (normal_names vs)" "set (normal_names vs) = set (trim_list vs)"
  by (simp_all add: normal_names_def js_sort_sorted)

text \<open>A name that the annotation of a group can carry.\<close>

definition plain_name :: "string \<Rightarrow> bool" where
  "plain_name n \<longleftrightarrow> n \<noteq> [] \<and> js_trim n = n \<and> CHR '','' \<notin> set n"

lemma member_names_roundtrip:
  assumes "\<forall>n \<in> set vms. plain_name n"
  shows "trim_list (js_split (CHR '','') (js_join '','' vms)) = vms"
proof (cases "vms = []")
  case True
  then show ?thesis by (simp add: trim_list_def)
next
  case False
  then have "js_split (CHR '','') (js_join '','' vms) = vms"
    by (rule js_split_join) (use assms in \<open>auto simp: plain_name_def\<close>)
  then show ?thesis using assms by (simp add: trim_list_id plain_name_def)
qed

lemma string_members_get:
  "\<forall>(k, v) \<in> set ms. k \<noteq> ''__proto__'' \<and> v \<in> range JStr \<Longrightarrow> obj_ok ms \<Longrightarrow>
     obj_get (string_members ms acc) k =
       (case obj_get ms k of Some (JStr s) \<Rightarrow> Some s | _ \<Rightarrow> obj_get acc k)"
proof (induction ms acc rule: string_members.induct)
  case (2 j v ms acc)
  then obtain s where v: "v = JStr s" and j: "j \<noteq> ''__proto__''" by auto
  have ok: "obj_ok ms" and n: "obj_get ms j = None"
    using 2(3) by (simp_all add: obj_ok_def obj_get_None)
  have "obj_get (string_members ms (obj_assign acc j s)) k =
      (case obj_get ms k of Some (JStr s) \<Rightarrow> Some s | _ \<Rightarrow> obj_get (obj_assign acc j s) k)"
    using 2(1) [unfolded v json.case, OF _ ok] 2(2) by simp
  then show ?case using n j by (auto simp: v obj_get_assign split: option.splits json.splits)
qed simp

lemma json_bag:
  "foldl (\<lambda>ob (k, v). obj_put ob k (JStr v)) ob es = obj_spread ob (map (\<lambda>(k, v). (k, JStr v)) es)"
  by (induction es arbitrary: ob) (auto simp: obj_spread_def)

lemma obj_get_map: "obj_get (map (\<lambda>(k, v). (k, f v)) es) j = map_option f (obj_get es j)"
  by (induction es) auto

lemma read_match_labels_stringify:
  assumes ne: "ls \<noteq> []" and ok: "obj_ok ls" and np: "''__proto__'' \<notin> set (obj_keys ls)"
  shows "\<exists>ms. read_match_labels (json_stringify ls) = Some ms \<and> (\<forall>k. obj_get ms k = obj_get ls k)"
proof -
  let ?es = "map (\<lambda>(k, v). (k, JStr v)) ls"
  let ?ob = "obj_spread [] ?es"
  have e: "obj_ok ?es" using ok by (simp add: obj_ok_def obj_keys_def comp_def case_prod_beta)
  have get: "obj_get ?ob k = map_option JStr (obj_get ls k)" for k
    by (simp add: obj_get_spread [OF e] obj_get_map split: option.splits)
  have okb: "obj_ok ?ob" by simp
  have vals: "\<forall>(k, v) \<in> set ?ob. k \<noteq> ''__proto__'' \<and> v \<in> range JStr"
  proof (clarify, intro conjI)
    fix k v assume "(k, v) \<in> set ?ob"
    then have g: "map_option JStr (obj_get ls k) = Some v" using obj_get_some_iff [OF okb] get by simp
    then show "v \<in> range JStr" by auto
    show "k \<noteq> ''__proto__''" using g np by (auto simp: set_obj_keys)
  qed
  have "read_match_labels (json_stringify ls) = Some (string_members ?ob [])"
    by (simp add: read_match_labels_def json_parse_stringify [OF ne] json_bag)
  moreover have "obj_get (string_members ?ob []) k = obj_get ls k" for k
    by (simp add: string_members_get [OF vals okb] get split: option.splits)
  ultimately show ?thesis by blast
qed

text \<open>A membership that the Service can record, and labels and annotations that record it.\<close>

fun membership_ok :: "backend_membership \<Rightarrow> bool" where
  "membership_ok (SingleVm vm) \<longleftrightarrow> vm \<noteq> []"
| "membership_ok (MatchLabels ls) \<longleftrightarrow> ls \<noteq> [] \<and> obj_ok ls \<and> ''__proto__'' \<notin> set (obj_keys ls)"
| "membership_ok (VmGroup g vms) \<longleftrightarrow> g \<noteq> [] \<and> (\<forall>n \<in> set vms. plain_name n)"

definition carries :: "string jsobj \<Rightarrow> string jsobj \<Rightarrow> backend_membership \<Rightarrow> bool" where
  "carries ls an m \<longleftrightarrow>
     (\<forall>(k, v) \<in> set (membershipLabels m). obj_get ls k = Some v) \<and>
     (\<forall>(k, v) \<in> set (membershipAnnotations m). obj_get an k = Some v)"

fun same_membership :: "backend_membership \<Rightarrow> backend_membership \<Rightarrow> bool" where
  "same_membership (MatchLabels a) (MatchLabels b) \<longleftrightarrow> (\<forall>k. obj_get a k = obj_get b k)"
| "same_membership m m' \<longleftrightarrow> m = m'"

lemma membership_lits:
  "membershipLabels (SingleVm vm) = [(KMC_LABEL_TARGET_KIND, KMC_TARGET_KIND_VM), (KMC_LABEL_VM, vm)]"
  "membershipLabels (MatchLabels ls) = [(KMC_LABEL_TARGET_KIND, KMC_TARGET_KIND_LABELS)]"
  "membershipLabels (VmGroup g vms) = [(KMC_LABEL_TARGET_KIND, KMC_TARGET_KIND_GROUP), (KMC_LABEL_BACKEND_GROUP, g)]"
  "membershipAnnotations (SingleVm vm) = []"
  "membershipAnnotations (MatchLabels ls) = [(KMC_ANN_MATCH_LABELS, json_stringify ls)]"
  "membershipAnnotations (VmGroup g vms) = [(KMC_ANN_MEMBER_VMS, js_join '','' vms)]"
  by (simp_all add: membershipLabels.simps membershipAnnotations.simps obj_lit_def obj_spread_def obj_put_def is_index_key_def membership_keys)

lemma membership_kinds:
  "KMC_TARGET_KIND_VM \<noteq> KMC_TARGET_KIND_LABELS" "KMC_TARGET_KIND_VM \<noteq> KMC_TARGET_KIND_GROUP"
  "KMC_TARGET_KIND_LABELS \<noteq> KMC_TARGET_KIND_VM" "KMC_TARGET_KIND_GROUP \<noteq> KMC_TARGET_KIND_VM"
  "KMC_TARGET_KIND_LABELS \<noteq> KMC_TARGET_KIND_GROUP" "KMC_TARGET_KIND_GROUP \<noteq> KMC_TARGET_KIND_LABELS"
  by (simp_all add: membership_keys)

lemma recorded_membership:
  assumes "membership_ok m" and "carries ls an m"
  shows "\<exists>m'. membershipFromServiceMeta (Some ls) (Some an) = Some m' \<and> same_membership m' m"
proof (cases m)
  case (SingleVm vm)
  then show ?thesis
    using assms by (simp add: carries_def membership_lits membershipFromServiceMeta_def truthy_def opt_str_def)
next
  case (MatchLabels sel)
  then have c: "obj_get ls KMC_LABEL_TARGET_KIND = Some KMC_TARGET_KIND_LABELS"
    "obj_get an KMC_ANN_MATCH_LABELS = Some (json_stringify sel)"
    using assms(2) by (simp_all add: carries_def membership_lits)
  have ok: "sel \<noteq> []" "obj_ok sel" "''__proto__'' \<notin> set (obj_keys sel)" using assms(1) MatchLabels by simp_all
  obtain ms where ms: "read_match_labels (json_stringify sel) = Some ms" "\<And>k. obj_get ms k = obj_get sel k"
    using read_match_labels_stringify [OF ok] by blast
  have "set (obj_keys ms) = set (obj_keys sel)" by (simp add: set_obj_keys ms(2))
  then have ne: "obj_keys ms \<noteq> []" using ok(1) by (cases sel) auto
  have "json_stringify sel \<noteq> []" by (simp add: json_stringify_def)
  then show ?thesis
    using c ms ne membership_kinds
    by (simp add: MatchLabels membershipFromServiceMeta_def truthy_def opt_str_def)
next
  case (VmGroup g vms)
  then have c: "obj_get ls KMC_LABEL_TARGET_KIND = Some KMC_TARGET_KIND_GROUP"
    "obj_get ls KMC_LABEL_BACKEND_GROUP = Some g" "obj_get an KMC_ANN_MEMBER_VMS = Some (js_join '','' vms)"
    using assms(2) by (simp_all add: carries_def membership_lits)
  have "trim_list (js_split (CHR '','') (js_join '','' vms)) = vms"
    using assms(1) VmGroup by (intro member_names_roundtrip) simp
  then show ?thesis
    using c assms(1) VmGroup membership_kinds
    by (simp add: membershipFromServiceMeta_def truthy_def opt_str_def)
qed

text \<open>
  Reading the labels and annotations of a Service gives back the membership that was
  recorded in them: the VM, the group with its members, or a label selector with the same
  entries, whatever other labels and annotations are there; so it resolves to a selector with
  the same entries.
\<close>

lemma membership_reads_back:
  assumes "membership_ok m" and "carries ls an m"
  shows "\<exists>m'. membershipFromServiceMeta (Some ls) (Some an) = Some m' \<and> same_membership m' m"
  using assms by (rule recorded_membership)

lemma membership_reads_back_witness:
  "\<exists>m'. membershipFromServiceMeta (Some ((''extra'', ''x'') # membershipLabels (MatchLabels [(''app'', ''a\"b''), (''10'', ''y'')])))
      (Some (membershipAnnotations (MatchLabels [(''app'', ''a\"b''), (''10'', ''y'')]))) = Some m' \<and>
     same_membership m' (MatchLabels [(''app'', ''a\"b''), (''10'', ''y'')])"
proof -
  let ?m = "MatchLabels [(''app'', ''a\"b''), (''10'', ''y'')]"
  have "membership_ok ?m" by (simp add: obj_ok_def)
  moreover have "carries ((''extra'', ''x'') # membershipLabels ?m) (membershipAnnotations ?m) ?m"
    by (simp add: carries_def membership_lits membership_keys)
  ultimately show ?thesis by (rule membership_reads_back)
qed

end
