(* ===== verification/Backend_Template.thy ===== *)
theory Backend_Template
  imports Membership
begin

text \<open>
  \<open>backends/template.server.ts\<close> and the views of \<open>backends.server.ts\<close>: the Service that a
  backend is, the manifest that creates it and the summary that shows it.
\<close>

section \<open>Data\<close>

definition KMC_RESOURCE_BACKEND :: string where "KMC_RESOURCE_BACKEND = ''backend''"

definition KMC_BACKEND_LABEL_SELECTOR :: string where
  "KMC_BACKEND_LABEL_SELECTOR =
     MANAGED_BY_LABEL @ ''='' @ KMC_MANAGED_BY @ '','' @ KMC_LABEL_RESOURCE @ ''='' @ KMC_RESOURCE_BACKEND"

text \<open>\<open>protocol\<close> is one of TCP and UDP; ports are numbers as they are typed in.\<close>

record backend_port =
  bp_name :: "string option"
  bp_port :: js_num
  bp_targetPort :: js_num
  bp_protocol :: "string option"

record create_backend_request =
  cbr_cluster :: string
  cbr_namespace :: string
  cbr_name :: string
  cbr_membership :: backend_membership
  cbr_ports :: "backend_port list"
  cbr_serviceType :: "string option"
  cbr_extraLabels :: "string jsobj option"
  cbr_extraAnnotations :: "string jsobj option"

record update_backend_request =
  ubr_cluster :: string
  ubr_namespace :: string
  ubr_name :: string
  ubr_membership :: "backend_membership option"
  ubr_ports :: "backend_port list option"

datatype target_port = PortNumber js_num | PortName string

record service_port =
  sp_name :: "string option"
  sp_port :: "js_num option"
  sp_targetPort :: "target_port option"
  sp_protocol :: "string option"

record lb_ingress =
  lbi_ip :: "string option"
  lbi_hostname :: "string option"

text \<open>A Service object, the fields of \<open>metadata\<close>, \<open>spec\<close> and \<open>status\<close> side by side.\<close>

record kube_service =
  sv_apiVersion :: "string option"
  sv_kind :: "string option"
  sv_name :: "string option"
  sv_namespace :: "string option"
  sv_creationTimestamp :: "string option"
  sv_labels :: "string jsobj option"
  sv_annotations :: "string jsobj option"
  sv_type :: "string option"
  sv_externalTrafficPolicy :: "string option"
  sv_ports :: "service_port list option"
  sv_selector :: "string jsobj option"
  sv_ingress :: "lb_ingress list option"

record backend_matched_vm =
  bmv_name :: string
  bmv_status :: string
  bmv_ready :: bool
  bmv_podNetwork :: bool

text \<open>The \<open>membership\<close> of a summary is \<open>None\<close> for the mode \<open>unknown\<close>.\<close>

record backend_summary =
  bs_cluster :: string
  bs_namespace :: string
  bs_name :: string
  bs_serviceType :: string
  bs_externalTrafficPolicy :: "string option"
  bs_membership :: "backend_membership option"
  bs_vmName :: "string option"
  bs_ports :: "backend_port list"
  bs_selector :: "string jsobj"
  bs_age :: string
  bs_externalAddress :: "string option"
  bs_endpoints :: "(nat \<times> nat) option"

section \<open>The manifest\<close>

definition backendOwnershipLabels :: "create_backend_request \<Rightarrow> string jsobj" where
  "backendOwnershipLabels input =
     obj_spread
       (obj_spread (obj_lit [(MANAGED_BY_LABEL, KMC_MANAGED_BY), (KMC_LABEL_RESOURCE, KMC_RESOURCE_BACKEND)])
          (membershipLabels (cbr_membership input)))
       (opt_obj (cbr_extraLabels input))"

text \<open>One port of the Service, named after its position when it has no name of its own.\<close>

definition port_entry :: "nat \<Rightarrow> backend_port \<Rightarrow> service_port" where
  "port_entry i p =
     \<lparr>sp_name = Some (opt_default (''port-'' @ nat_str i) (trim_or_undef (bp_name p))),
      sp_port = Some (bp_port p), sp_targetPort = Some (PortNumber (bp_targetPort p)),
      sp_protocol = Some (opt_default ''TCP'' (bp_protocol p))\<rparr>"

definition port_entries :: "backend_port list \<Rightarrow> service_port list" where
  "port_entries ports = map (\<lambda>(i, p). port_entry i p) (enumerate 0 ports)"

definition buildServiceManifest :: "create_backend_request \<Rightarrow> kube_service result" where
  "buildServiceManifest input =
     (let serviceType = opt_default ''ClusterIP'' (cbr_serviceType input);
          selector = resolveServiceSelector (cbr_membership input);
          labels = backendOwnershipLabels input;
          annotations = obj_spread (obj_spread [] (membershipAnnotations (cbr_membership input)))
            (opt_obj (cbr_extraAnnotations input))
      in if cbr_ports input = [] then throw ''backend requires at least one port''
         else if length (obj_keys selector) = 0 then throw ''backend selector cannot be empty''
         else Inr
           \<lparr>sv_apiVersion = Some ''v1'', sv_kind = Some ''Service'',
            sv_name = Some (cbr_name input), sv_namespace = Some (cbr_namespace input),
            sv_creationTimestamp = None, sv_labels = Some labels,
            sv_annotations = (if 0 < length (obj_keys annotations) then Some annotations else None),
            sv_type = Some serviceType,
            sv_externalTrafficPolicy = (if serviceType = ''LoadBalancer'' then Some ''Local'' else None),
            sv_ports = Some (port_entries (cbr_ports input)), sv_selector = Some selector,
            sv_ingress = None\<rparr>)"

section \<open>The summary\<close>

definition target_port_number :: "js_num option \<Rightarrow> target_port option \<Rightarrow> js_num" where
  "target_port_number port target =
     (case target of
        Some (PortNumber n) \<Rightarrow> n
      | Some (PortName s) \<Rightarrow> if all_digits s then js_number s else opt_default (Fin 0) port
      | None \<Rightarrow> opt_default (Fin 0) port)"

definition map_port :: "service_port \<Rightarrow> backend_port" where
  "map_port p =
     \<lparr>bp_name = sp_name p, bp_port = opt_default (Fin 0) (sp_port p),
      bp_targetPort = target_port_number (sp_port p) (sp_targetPort p),
      bp_protocol = (if sp_protocol p = Some ''UDP'' then Some ''UDP''
                     else if sp_protocol p = Some ''TCP'' then Some ''TCP'' else None)\<rparr>"

definition mapPorts :: "service_port list option \<Rightarrow> backend_port list" where
  "mapPorts ports = map map_port (opt_default [] ports)"

definition mapExternalAddress :: "kube_service \<Rightarrow> string option" where
  "mapExternalAddress svc =
     (case opt_default [] (sv_ingress svc) of
        [] \<Rightarrow> None
      | lb # _ \<Rightarrow> if truthy (lbi_hostname lb) then lbi_hostname lb else opt_or_undef (lbi_ip lb))"

text \<open>\<open>endpoints\<close> is the pair of the ready and of all endpoints, when it is known.\<close>

definition mapSummary :: "string \<Rightarrow> kube_service \<Rightarrow> (nat \<times> nat) option \<Rightarrow> backend_summary" where
  "mapSummary cluster svc endpoints =
     (let membership = membershipFromServiceMeta (sv_labels svc) (sv_annotations svc) in
      \<lparr>bs_cluster = cluster, bs_namespace = opt_default ''default'' (sv_namespace svc),
       bs_name = opt_default ''unknown'' (sv_name svc),
       bs_serviceType = opt_default ''ClusterIP'' (sv_type svc),
       bs_externalTrafficPolicy = sv_externalTrafficPolicy svc, bs_membership = membership,
       bs_vmName = (case membership of Some (SingleVm vm) \<Rightarrow> Some vm | _ \<Rightarrow> None),
       bs_ports = mapPorts (sv_ports svc), bs_selector = opt_default [] (sv_selector svc),
       bs_age = opt_default [] (sv_creationTimestamp svc), bs_externalAddress = mapExternalAddress svc,
       bs_endpoints = endpoints\<rparr>)"

section \<open>Lemmas\<close>

text \<open>What \<open>BackendPort\<close> says of a port: its protocol, if it has one, is TCP or UDP.\<close>

definition port_typed :: "backend_port \<Rightarrow> bool" where
  "port_typed p \<longleftrightarrow> bp_protocol p = None \<or> bp_protocol p = Some ''TCP'' \<or> bp_protocol p = Some ''UDP''"

text \<open>A port as it is read back from the Service it was written to.\<close>

definition named_port :: "nat \<Rightarrow> backend_port \<Rightarrow> backend_port" where
  "named_port i p =
     p\<lparr>bp_name := Some (opt_default (''port-'' @ nat_str i) (trim_or_undef (bp_name p))),
       bp_protocol := Some (opt_default ''TCP'' (bp_protocol p))\<rparr>"

lemma map_port_entry: "port_typed p \<Longrightarrow> map_port (port_entry i p) = named_port i p"
  by (auto simp: map_port_def port_entry_def named_port_def target_port_number_def port_typed_def opt_default_def)

lemma mapPorts_entries:
  assumes "\<forall>p \<in> set ports. port_typed p"
  shows "mapPorts (Some (port_entries ports)) = map (\<lambda>(i, p). named_port i p) (enumerate 0 ports)"
proof -
  have "port_typed p" if "(i, p) \<in> set (enumerate 0 ports)" for i p
    using that assms by (auto simp: in_set_enumerate_eq)
  then show ?thesis
    by (auto simp: mapPorts_def port_entries_def opt_default_def map_port_entry)
qed

lemma membershipLabels_ok [simp]: "obj_ok (membershipLabels m)"
  by (cases m) (simp_all add: membershipLabels.simps)

lemma membershipAnnotations_ok [simp]: "obj_ok (membershipAnnotations m)"
  by (cases m) (simp_all add: membershipAnnotations.simps)

lemma ownership_labels_get:
  assumes "obj_ok (opt_obj (cbr_extraLabels input))"
  shows "obj_get (backendOwnershipLabels input) k =
    (case opt_get (cbr_extraLabels input) k of
       Some v \<Rightarrow> Some v
     | None \<Rightarrow> (case obj_get (membershipLabels (cbr_membership input)) k of
         Some v \<Rightarrow> Some v
       | None \<Rightarrow> if k = MANAGED_BY_LABEL then Some KMC_MANAGED_BY
                 else if k = KMC_LABEL_RESOURCE then Some KMC_RESOURCE_BACKEND else None))"
proof -
  have "MANAGED_BY_LABEL \<noteq> KMC_LABEL_RESOURCE"
    by (simp add: MANAGED_BY_LABEL_def KMC_LABEL_RESOURCE_def KMC_LABEL_NAMESPACE_def)
  then show ?thesis
    using assms by (simp add: backendOwnershipLabels_def obj_get_spread obj_get_lit opt_get_def split: option.splits)
qed

text \<open>The labels and annotations of a manifest record its membership, unless an extra entry overrides one.\<close>

definition extras_apart :: "create_backend_request \<Rightarrow> bool" where
  "extras_apart input \<longleftrightarrow>
     obj_ok (opt_obj (cbr_extraLabels input)) \<and> obj_ok (opt_obj (cbr_extraAnnotations input)) \<and>
     (\<forall>k \<in> {KMC_LABEL_TARGET_KIND, KMC_LABEL_VM, KMC_LABEL_BACKEND_GROUP}. opt_get (cbr_extraLabels input) k = None) \<and>
     (\<forall>k \<in> {KMC_ANN_MATCH_LABELS, KMC_ANN_MEMBER_VMS}. opt_get (cbr_extraAnnotations input) k = None)"

lemma opt_obj_nonempty: "opt_obj (if 0 < length (obj_keys an) then Some an else None) = an"
  by (cases an) (auto simp: opt_obj_def)

end
