(* ===== verification/Frames.thy ===== *)
theory Frames
  imports Net_Resources
begin

text \<open>
  What a call leaves alone. An observer \<open>f\<close> reads a part of the state of the outside world;
  \<open>leaves f m\<close> says that running \<open>m\<close>, whether it returns or throws, does not change that part.
\<close>

definition leaves :: "('s \<Rightarrow> 'o) \<Rightarrow> ('s, 'a) act \<Rightarrow> bool" where
  "leaves f m \<longleftrightarrow> (\<forall>s. f (snd (m s)) = f s)"

named_theorems leaves_intros

lemma leavesD: "leaves f m \<Longrightarrow> m s = (r, t) \<Longrightarrow> f t = f s"
  by (simp add: leaves_def) (metis snd_conv)

lemma leaves_snd: "leaves f m \<Longrightarrow> f (snd (m s)) = f s"
  by (simp add: leaves_def)

lemma leaves_basic [leaves_intros]:
  "leaves f (act_return x)" "leaves f (act_fail e)" "leaves f (act_throw msg)" "leaves f (act_lift r)"
  by (simp_all add: leaves_def act_simps)

lemma leaves_bind [leaves_intros]:
  assumes "leaves f m" "\<And>x. leaves f (g x)"
  shows "leaves f (act_bind m g)"
  unfolding leaves_def
proof
  fix s
  show "f (snd (act_bind m g s)) = f s"
  proof (cases "m s")
    case (Pair r u)
    then have "f u = f s" by (rule leavesD [OF assms(1)])
    moreover have "f (snd (g x u)) = f u" for x using assms(2) by (simp add: leaves_def)
    ultimately show ?thesis using Pair by (cases r) (simp_all add: act_simps)
  qed
qed

lemma leaves_seq [leaves_intros]: "leaves f m \<Longrightarrow> leaves f k \<Longrightarrow> leaves f (act_seq m k)"
  unfolding act_seq_def by (rule leaves_bind)

lemma leaves_catch [leaves_intros]:
  assumes "leaves f m" "\<And>e. leaves f (h e)"
  shows "leaves f (act_catch m h)"
  unfolding leaves_def
proof
  fix s
  show "f (snd (act_catch m h s)) = f s"
  proof (cases "m s")
    case (Pair r u)
    then have "f u = f s" by (rule leavesD [OF assms(1)])
    moreover have "f (snd (h e u)) = f u" for e using assms(2) by (simp add: leaves_def)
    ultimately show ?thesis using Pair by (cases r) (simp_all add: act_simps)
  qed
qed

lemma leaves_each [leaves_intros]: "(\<And>x. leaves f (g x)) \<Longrightarrow> leaves f (act_each g xs)"
  by (induction xs) (auto intro: leaves_intros)

lemma leaves_when [leaves_intros]: "leaves f m \<Longrightarrow> leaves f (act_when b m)"
  by (cases b) (auto intro: leaves_intros)

lemma leaves_if [leaves_intros]: "leaves f m \<Longrightarrow> leaves f k \<Longrightarrow> leaves f (if b then m else k)"
  by simp

lemma leaves_with_custom [leaves_intros]:
  "(\<And>api. cl cluster = Inr api \<Longrightarrow> leaves f (k api)) \<Longrightarrow> leaves f (with_custom cl cluster k)"
  by (cases "cl cluster") (simp_all add: leaves_def act_simps)

lemma leaves_or [leaves_intros]: "leaves f m \<Longrightarrow> leaves f (act_or m d)"
  unfolding act_or_def by (intro leaves_intros)

lemma leaves_read [leaves_intros]: "leaves f (act_read g)"
  by (simp add: leaves_def act_simps)

lemma leaves_case_option [leaves_intros]:
  "leaves f m \<Longrightarrow> (\<And>x. leaves f (k x)) \<Longrightarrow> leaves f (case v of None \<Rightarrow> m | Some x \<Rightarrow> k x)"
  by (cases v) simp_all

section \<open>Reading calls\<close>

text \<open>The calls of an API that only read leave the observed part alone.\<close>

definition reads_leave :: "('s \<Rightarrow> 'o) \<Rightarrow> ('s, 'b) custom_api \<Rightarrow> bool" where
  "reads_leave f api \<longleftrightarrow>
     (\<forall>g l. leaves f (api_list_cluster api g l)) \<and> (\<forall>g ns l. leaves f (api_list_ns api g ns l)) \<and>
     (\<forall>g ns nm. leaves f (api_get_ns api g ns nm)) \<and> (\<forall>g nm. leaves f (api_get_cluster api g nm))"

definition clients_read :: "('s \<Rightarrow> 'o) \<Rightarrow> ('s, 'b) clients \<Rightarrow> string \<Rightarrow> bool" where
  "clients_read f cl cluster \<longleftrightarrow> (\<forall>api. cl cluster = Inr api \<longrightarrow> reads_leave f api)"

lemma reads_leave_calls:
  assumes "clients_read f cl cluster" "cl cluster = Inr api"
  shows "leaves f (api_list_cluster api g l)" "leaves f (api_list_ns api g ns l)"
    "leaves f (api_get_ns api g ns nm)" "leaves f (api_get_cluster api g nm)"
  using assms by (simp_all add: clients_read_def reads_leave_def)

lemma reads_leave_api:
  assumes "reads_leave f api"
  shows "leaves f (api_list_cluster api g l)" "leaves f (api_list_ns api g ns l)"
    "leaves f (api_get_ns api g ns nm)" "leaves f (api_get_cluster api g nm)"
  using assms by (simp_all add: reads_leave_def)

lemma leaves_with_reads:
  assumes "clients_read f cl cluster" "\<And>api. reads_leave f api \<Longrightarrow> leaves f (k api)"
  shows "leaves f (with_custom cl cluster k)"
  using assms by (intro leaves_with_custom) (simp add: clients_read_def)

lemma clients_read_wrappers:
  assumes "clients_read f cl cluster"
  shows "leaves f (listClusterCustomObjects cl cluster plural sel)"
    "leaves f (listNamespacedCustomObjects cl cluster ns plural sel)"
    "leaves f (getNamespacedCustomObject cl cluster ns plural nm)"
    "leaves f (getClusterCustomObject cl cluster plural nm)"
  unfolding listClusterCustomObjects_def listNamespacedCustomObjects_def
    getNamespacedCustomObject_def getClusterCustomObject_def
  by (intro leaves_intros reads_leave_calls [OF assms] | assumption)+

text \<open>An API with no objects that refuses to change anything.\<close>

definition idle_api :: "('s, 'o) custom_api" where
  "idle_api = \<lparr>api_list_cluster = (\<lambda>g l. act_return (Some [])), api_list_ns = (\<lambda>g ns l. act_return (Some [])),
     api_get_ns = (\<lambda>g ns nm. act_throw ''not found''), api_get_cluster = (\<lambda>g nm. act_throw ''not found''),
     api_create_ns = (\<lambda>g ns ob. act_throw ''read only''), api_delete_ns = (\<lambda>g ns nm. act_throw ''read only''),
     api_replace_ns = (\<lambda>g ns nm ob. act_throw ''read only''), api_patch_ns = (\<lambda>g ns nm ob. act_throw ''read only'')\<rparr>"

lemma idle_api_reads [simp]: "reads_leave f idle_api"
  by (simp add: reads_leave_def idle_api_def leaves_basic)

end
