(* ===== verification/Group_Stamp.thy ===== *)
theory Group_Stamp
  imports Membership Frames
begin

text \<open>
  \<open>backends/stamp.server.ts\<close>: the label that makes a VM a member of a backend group, set and
  cleared on the VM and on its pod template (what the Service selects on), with a rollback when
  a member cannot be stamped.
\<close>

text \<open>
  A VirtualMachine as this component reads and writes it; the other fields of the object are
  written back unchanged (\<open>structuredClone\<close>) and are not represented. A network is a pair of
  flags: has a \<open>pod\<close>, has a \<open>multus\<close>.
\<close>

record vm_status =
  vs_printableStatus :: "string option"
  vs_ready :: "bool option"

record kube_vm =
  kv_name :: "string option"
  kv_labels :: "string jsobj option"
  kv_template_labels :: "string jsobj option"
  kv_networks :: "(bool \<times> bool) list option"
  kv_status :: "vm_status option"

type_synonym 's vm_clients = "('s, kube_vm) clients"

definition vm_gvp :: gvp where
  "vm_gvp = \<lparr>gvp_group = ''kubevirt.io'', gvp_version = ''v1'', gvp_plural = ''virtualmachines''\<rparr>"

definition fetchVm :: "'s vm_clients \<Rightarrow> string \<Rightarrow> string \<Rightarrow> string \<Rightarrow> ('s, kube_vm) act" where
  "fetchVm cl cluster ns nm = with_custom cl cluster (\<lambda>api. api_get_ns api vm_gvp ns nm)"

text \<open>The label of a bag, set when the group id is not empty and removed otherwise.\<close>

definition put_group :: "string option \<Rightarrow> string jsobj option \<Rightarrow> string jsobj" where
  "put_group groupId labels =
     (let ls = obj_spread [] (opt_obj labels) in
      if truthy groupId then obj_assign ls KMC_LABEL_BACKEND_GROUP (opt_str groupId)
      else obj_delete ls KMC_LABEL_BACKEND_GROUP)"

definition stamped_body :: "string option \<Rightarrow> kube_vm \<Rightarrow> kube_vm" where
  "stamped_body groupId vm =
     vm\<lparr>kv_status := None, kv_labels := Some (put_group groupId (kv_labels vm)),
        kv_template_labels := Some (put_group groupId (kv_template_labels vm))\<rparr>"

definition stamp_attempt ::
  "'s vm_clients \<Rightarrow> ('s, kube_vm) custom_api \<Rightarrow> string \<Rightarrow> string \<Rightarrow> string \<Rightarrow> string option \<Rightarrow> ('s, unit) act" where
  "stamp_attempt cl api cluster ns vmName groupId =
     act_bind (fetchVm cl cluster ns vmName) (\<lambda>existing.
     act_bind (api_replace_ns api vm_gvp ns vmName (stamped_body groupId existing)) (\<lambda>_. act_return ()))"

definition stamp_error :: "string \<Rightarrow> thrown \<Rightarrow> thrown" where
  "stamp_error vmName err =
     mk_error_cause (''Failed to update backend group on VM \"'' @ vmName @ ''\": '' @ format_error err) err"

text \<open>One retry on a conflict.\<close>

definition setBackendGroupLabel ::
  "'s vm_clients \<Rightarrow> string \<Rightarrow> string \<Rightarrow> string \<Rightarrow> string option \<Rightarrow> ('s, unit) act" where
  "setBackendGroupLabel cl cluster ns vmName groupId =
     with_custom cl cluster (\<lambda>api.
       act_catch (stamp_attempt cl api cluster ns vmName groupId) (\<lambda>err.
         if \<not> stamp_isConflict err then act_fail (stamp_error vmName err)
         else act_catch (stamp_attempt cl api cluster ns vmName groupId) (\<lambda>retryErr.
           act_fail (stamp_error vmName retryErr))))"

text \<open>A member is stamped only when it exists.\<close>

definition stamp_member :: "'s vm_clients \<Rightarrow> string \<Rightarrow> string \<Rightarrow> string \<Rightarrow> string \<Rightarrow> ('s, unit) act" where
  "stamp_member cl cluster ns groupId vmName =
     act_bind
       (act_catch (fetchVm cl cluster ns vmName) (\<lambda>err.
         if stamp_isNotFound err then act_throw (''VirtualMachine \"'' @ ns @ ''/'' @ vmName @ ''\" not found'')
         else act_fail (mk_error_cause (format_error err) err)))
       (\<lambda>_. setBackendGroupLabel cl cluster ns vmName (Some groupId))"

definition clear_quietly :: "'s vm_clients \<Rightarrow> string \<Rightarrow> string \<Rightarrow> string \<Rightarrow> ('s, unit) act" where
  "clear_quietly cl cluster ns vmName =
     act_catch (setBackendGroupLabel cl cluster ns vmName None) (\<lambda>_. act_return ())"

fun stamp_all ::
  "'s vm_clients \<Rightarrow> string \<Rightarrow> string \<Rightarrow> string \<Rightarrow> string list \<Rightarrow> string list \<Rightarrow> ('s, unit) act" where
  "stamp_all cl cluster ns groupId stamped [] = act_return ()"
| "stamp_all cl cluster ns groupId stamped (vmName # vms) = (\<lambda>s.
     case stamp_member cl cluster ns groupId vmName s of
       (Inl err, t) \<Rightarrow> act_seq (act_each (clear_quietly cl cluster ns) stamped) (act_fail err) t
     | (Inr _, t) \<Rightarrow> stamp_all cl cluster ns groupId (stamped @ [vmName]) vms t)"

definition stampBackendGroup ::
  "'s vm_clients \<Rightarrow> string \<Rightarrow> string \<Rightarrow> string \<Rightarrow> string list \<Rightarrow> ('s, unit) act" where
  "stampBackendGroup cl cluster ns groupId vmNames = stamp_all cl cluster ns groupId [] vmNames"

definition unstampBackendGroup :: "'s vm_clients \<Rightarrow> string \<Rightarrow> string \<Rightarrow> string list \<Rightarrow> ('s, unit) act" where
  "unstampBackendGroup cl cluster ns vmNames =
     act_each (\<lambda>vmName. act_catch (setBackendGroupLabel cl cluster ns vmName None) (\<lambda>err.
       if stamp_isNotFound err then act_return () else act_fail err)) vmNames"

definition listVmsWithBackendGroup :: "'s vm_clients \<Rightarrow> string \<Rightarrow> string \<Rightarrow> string \<Rightarrow> ('s, string list) act" where
  "listVmsWithBackendGroup cl cluster ns groupId =
     with_custom cl cluster (\<lambda>api.
       act_bind (api_list_ns api vm_gvp ns (Some (KMC_LABEL_BACKEND_GROUP @ ''='' @ groupId))) (\<lambda>items.
         act_return (js_sort (List.map_filter (\<lambda>vm. opt_or_undef (kv_name vm)) (opt_default [] items)))))"

section \<open>The label\<close>

lemma put_group_get:
  assumes "obj_ok (opt_obj labels)"
  shows "obj_get (put_group g labels) k =
    (if k = KMC_LABEL_BACKEND_GROUP then (if truthy g then g else None) else opt_get labels k)"
proof -
  have s: "obj_get (obj_spread [] (opt_obj labels)) k = opt_get labels k" for k
    using obj_get_spread [OF assms, of "[]" k] by (simp add: opt_get_def split: option.splits)
  have "KMC_LABEL_BACKEND_GROUP \<noteq> ''__proto__''" by (simp add: membership_keys)
  then show ?thesis
    by (cases g) (auto simp: put_group_def Let_def obj_get_assign s truthy_def opt_str_def)
qed

section \<open>A store of VMs\<close>

text \<open>
  What the component relies on of the API when no other client writes and no call fails:
  \<open>vms s\<close> is the map of the stored VMs; a read returns the stored VM or fails with "not found", a
  replace of a stored VM stores what it is given. Status is not writable through a replace, so
  nothing is said of it.
\<close>

definition vm_store ::
  "('s \<Rightarrow> string \<times> string \<Rightarrow> kube_vm option) \<Rightarrow> ('s, kube_vm) custom_api \<Rightarrow> bool" where
  "vm_store vms api \<longleftrightarrow>
     (\<forall>ns nm s vm. vms s (ns, nm) = Some vm \<longrightarrow> api_get_ns api vm_gvp ns nm s = (Inr vm, s)) \<and>
     (\<forall>ns nm s. vms s (ns, nm) = None \<longrightarrow>
        (\<exists>e. api_get_ns api vm_gvp ns nm s = (Inl e, s) \<and> stamp_isNotFound e)) \<and>
     (\<forall>ns nm b s vm. vms s (ns, nm) = Some vm \<longrightarrow>
        (\<exists>r t. api_replace_ns api vm_gvp ns nm b s = (Inr r, t) \<and> vms t = (vms s)((ns, nm) \<mapsto> b)))"

lemma vm_store_get_Some:
  "vm_store vms api \<Longrightarrow> vms s (ns, nm) = Some vm \<Longrightarrow> api_get_ns api vm_gvp ns nm s = (Inr vm, s)"
  unfolding vm_store_def by blast

lemma vm_store_get_None:
  "vm_store vms api \<Longrightarrow> vms s (ns, nm) = None \<Longrightarrow>
     \<exists>e. api_get_ns api vm_gvp ns nm s = (Inl e, s) \<and> stamp_isNotFound e"
  unfolding vm_store_def by blast

lemma vm_store_replace:
  "vm_store vms api \<Longrightarrow> vms s (ns, nm) = Some vm \<Longrightarrow>
     \<exists>r t. api_replace_ns api vm_gvp ns nm b s = (Inr r, t) \<and> vms t = (vms s)((ns, nm) \<mapsto> b)"
  unfolding vm_store_def by blast

lemma set_label_stored:
  assumes api: "cl cluster = Inr api" "vm_store vms api" and vm: "vms s (ns, nm) = Some vm"
  shows "\<exists>t. setBackendGroupLabel cl cluster ns nm g s = (Inr (), t) \<and>
    vms t = (vms s)((ns, nm) \<mapsto> stamped_body g vm)"
proof -
  obtain r t where r: "api_replace_ns api vm_gvp ns nm (stamped_body g vm) s = (Inr r, t)"
    "vms t = (vms s)((ns, nm) \<mapsto> stamped_body g vm)"
    using vm_store_replace [where vms = vms and s = s and ns = ns and nm = nm, OF api(2), OF vm] by blast
  then have "stamp_attempt cl api cluster ns nm g s = (Inr (), t)"
    using vm_store_get_Some [where vms = vms and s = s and ns = ns and nm = nm, OF api(2), OF vm] by (simp add: stamp_attempt_def fetchVm_def act_simps api(1))
  then show ?thesis using r(2) by (simp add: setBackendGroupLabel_def act_simps api(1))
qed

text \<open>The stored VMs after a list of them has been given a group.\<close>

definition regroup ::
  "string option \<Rightarrow> string \<Rightarrow> string list \<Rightarrow> (string \<times> string \<Rightarrow> kube_vm option) \<Rightarrow> string \<times> string \<Rightarrow> kube_vm option" where
  "regroup g ns names m = (\<lambda>(n, nm). if n = ns \<and> nm \<in> set names then map_option (stamped_body g) (m (n, nm)) else m (n, nm))"

lemma regroup_out: "n \<noteq> ns \<or> nm \<notin> set names \<Longrightarrow> regroup g ns names m (n, nm) = m (n, nm)"
  by (auto simp: regroup_def)

lemma regroup_Nil [simp]: "regroup g ns [] m = m"
  by (simp add: regroup_def)

lemma stamp_member_stored:
  assumes api: "cl cluster = Inr api" "vm_store vms api" and vm: "vms s (ns, nm) = Some vm"
  shows "\<exists>t. stamp_member cl cluster ns g nm s = (Inr (), t) \<and>
    vms t = (vms s)((ns, nm) \<mapsto> stamped_body (Some g) vm)"
  using set_label_stored [where cl = cl and cluster = cluster and vms = vms and s = s and ns = ns and nm = nm and g = "Some g", OF api, OF vm] vm_store_get_Some [where vms = vms and s = s and ns = ns and nm = nm, OF api(2), OF vm]
  by (simp add: stamp_member_def fetchVm_def act_simps api(1))

lemma stamp_member_missing:
  assumes api: "cl cluster = Inr api" "vm_store vms api" and vm: "vms s (ns, nm) = None"
  shows "\<exists>e. stamp_member cl cluster ns g nm s = (Inl e, s)"
  using vm_store_get_None [where vms = vms and s = s and ns = ns and nm = nm, OF api(2), OF vm] by (auto simp: stamp_member_def fetchVm_def act_simps api(1))

lemma clear_quietly_stored:
  assumes api: "cl cluster = Inr api" "vm_store vms api" and vm: "vms s (ns, nm) = Some vm"
  shows "\<exists>t. clear_quietly cl cluster ns nm s = (Inr (), t) \<and>
    vms t = (vms s)((ns, nm) \<mapsto> stamped_body None vm)"
  using set_label_stored [where cl = cl and cluster = cluster and vms = vms and s = s and ns = ns and nm = nm and g = None, OF api, OF vm] by (auto simp: clear_quietly_def act_simps)

lemma unstamp_one_stored:
  assumes api: "cl cluster = Inr api" "vm_store vms api" and vm: "vms s (ns, nm) = Some vm"
  shows "\<exists>t. act_catch (setBackendGroupLabel cl cluster ns nm None) (\<lambda>err.
      if stamp_isNotFound err then act_return () else act_fail err) s = (Inr (), t) \<and>
    vms t = (vms s)((ns, nm) \<mapsto> stamped_body None vm)"
  using set_label_stored [where cl = cl and cluster = cluster and vms = vms and s = s and ns = ns and nm = nm and g = None, OF api, OF vm]
  by (auto simp: act_simps)

text \<open>A loop whose step gives one stored VM the group \<open>g\<close>.\<close>

lemma each_regroups:
  assumes step: "\<And>nm s vm. vms s (ns, nm) = Some vm \<Longrightarrow>
      \<exists>t. f nm s = (Inr (), t) \<and> vms t = (vms s)((ns, nm) \<mapsto> stamped_body g vm)"
  shows "distinct names \<Longrightarrow> \<forall>nm \<in> set names. vms s (ns, nm) \<noteq> None \<Longrightarrow>
    \<exists>t. act_each f names s = (Inr (), t) \<and> vms t = regroup g ns names (vms s)"
proof (induction names arbitrary: s)
  case Nil
  then show ?case by (simp add: act_simps)
next
  case (Cons nm names)
  obtain vm where vm: "vms s (ns, nm) = Some vm" using Cons.prems(2) by auto
  obtain u where u: "f nm s = (Inr (), u)" "vms u = (vms s)((ns, nm) \<mapsto> stamped_body g vm)"
    using step [OF vm] by blast
  have "\<forall>nm' \<in> set names. vms u (ns, nm') \<noteq> None" using Cons.prems(2) by (auto simp: u(2))
  then obtain t where t: "act_each f names u = (Inr (), t)" "vms t = regroup g ns names (vms u)"
    using Cons.IH [of u] Cons.prems(1) by auto
  have "vms t = regroup g ns (nm # names) (vms s)"
    using Cons.prems(1) vm by (auto simp: t(2) u(2) regroup_def fun_eq_iff)
  then show ?case using u t by (auto simp: act_simps)
qed

lemma clear_all_stored:
  assumes "cl cluster = Inr api" "vm_store vms api"
    and "distinct names" "\<forall>nm \<in> set names. vms s (ns, nm) \<noteq> None"
  shows "\<exists>t. act_each (clear_quietly cl cluster ns) names s = (Inr (), t) \<and> vms t = regroup None ns names (vms s)"
  by (rule each_regroups [where vms = vms and f = "clear_quietly cl cluster ns"])
    (rule clear_quietly_stored [where cl = cl and cluster = cluster and vms = vms, OF assms(1,2)], assumption, rule assms(3), rule assms(4))

lemma unstamp_stored:
  assumes "cl cluster = Inr api" "vm_store vms api"
    and "distinct names" "\<forall>nm \<in> set names. vms s (ns, nm) \<noteq> None"
  shows "\<exists>t. unstampBackendGroup cl cluster ns names s = (Inr (), t) \<and> vms t = regroup None ns names (vms s)"
  unfolding unstampBackendGroup_def
  by (rule each_regroups [where vms = vms])
    (rule unstamp_one_stored [where cl = cl and cluster = cluster and vms = vms, OF assms(1,2)], assumption, rule assms(3), rule assms(4))

lemma stamp_all_stored:
  assumes api: "cl cluster = Inr api" "vm_store vms api"
    and d: "distinct (stamped @ names)" and old: "\<forall>nm \<in> set stamped. vms s (ns, nm) \<noteq> None"
  shows "(\<forall>nm \<in> set names. vms s (ns, nm) \<noteq> None) \<and>
      (\<exists>t. stamp_all cl cluster ns g stamped names s = (Inr (), t) \<and> vms t = regroup (Some g) ns names (vms s))
    \<or> (\<exists>pre nm post e t. names = pre @ nm # post \<and> vms s (ns, nm) = None \<and>
        stamp_all cl cluster ns g stamped names s = (Inl e, t) \<and>
        vms t = regroup None ns (stamped @ pre) (regroup (Some g) ns pre (vms s)))"
  using d old
proof (induction names arbitrary: s stamped)
  case Nil
  then show ?case by (simp add: act_simps)
next
  case (Cons nm names)
  show ?case
  proof (cases "vms s (ns, nm)")
    case None
    obtain e where e: "stamp_member cl cluster ns g nm s = (Inl e, s)"
      using stamp_member_missing [where cl = cl and cluster = cluster and vms = vms and s = s and ns = ns and nm = nm, OF api, OF None] by blast
    obtain t where t: "act_each (clear_quietly cl cluster ns) stamped s = (Inr (), t)"
      "vms t = regroup None ns stamped (vms s)"
      using clear_all_stored [where cl = cl and cluster = cluster and vms = vms and names = stamped and s = s and ns = ns, OF api] Cons.prems by auto
    have "stamp_all cl cluster ns g stamped (nm # names) s = (Inl e, t)"
      by (simp add: e t act_simps)
    then show ?thesis
      using None t(2) by (intro disjI2 exI [of _ "[]"] exI [of _ nm] exI [of _ names] exI [of _ e] exI [of _ t]) simp
  next
    case (Some vm)
    obtain u where u: "stamp_member cl cluster ns g nm s = (Inr (), u)"
      "vms u = (vms s)((ns, nm) \<mapsto> stamped_body (Some g) vm)"
      using stamp_member_stored [where cl = cl and cluster = cluster and vms = vms and s = s and ns = ns and nm = nm, OF api, OF Some] by blast
    have step: "stamp_all cl cluster ns g stamped (nm # names) s = stamp_all cl cluster ns g (stamped @ [nm]) names u"
      by (simp add: u)
    have d: "nm \<notin> set names" using Cons.prems(1) by simp
    have same: "vms u (ns, nm') = vms s (ns, nm')" if "nm' \<in> set names" for nm'
      using that d by (auto simp: u(2))
    have re: "regroup h ns names' (vms u) = (regroup h ns names' (vms s))((ns, nm) \<mapsto> stamped_body (Some g) vm)"
      if "nm \<notin> set names'" for h names' using that by (auto simp: regroup_def u(2) fun_eq_iff)
    have rg: "(regroup (Some g) ns names' (vms s))((ns, nm) \<mapsto> stamped_body (Some g) vm)
        = regroup (Some g) ns (nm # names') (vms s)" if "nm \<notin> set names'" for names'
      using that Some by (auto simp: regroup_def fun_eq_iff)
    have "distinct ((stamped @ [nm]) @ names)" "\<forall>nm' \<in> set (stamped @ [nm]). vms u (ns, nm') \<noteq> None"
      using Cons.prems by (auto simp: u(2))
    from Cons.IH [OF this] show ?thesis
    proof
      assume a: "(\<forall>nm \<in> set names. vms u (ns, nm) \<noteq> None) \<and>
        (\<exists>t. stamp_all cl cluster ns g (stamped @ [nm]) names u = (Inr (), t) \<and> vms t = regroup (Some g) ns names (vms u))"
      then have "\<forall>nm' \<in> set (nm # names). vms s (ns, nm') \<noteq> None" using Some same by auto
      then show ?thesis using a step re [OF d] rg [OF d] by (intro disjI1) auto
    next
      assume "\<exists>pre nm' post e t. names = pre @ nm' # post \<and> vms u (ns, nm') = None \<and>
        stamp_all cl cluster ns g (stamped @ [nm]) names u = (Inl e, t) \<and>
        vms t = regroup None ns ((stamped @ [nm]) @ pre) (regroup (Some g) ns pre (vms u))"
      then obtain pre nm' post e t where p: "names = pre @ nm' # post" "vms u (ns, nm') = None"
        "stamp_all cl cluster ns g (stamped @ [nm]) names u = (Inl e, t)"
        "vms t = regroup None ns ((stamped @ [nm]) @ pre) (regroup (Some g) ns pre (vms u))" by blast
      have "nm \<notin> set pre" using d p(1) by simp
      then have "vms t = regroup None ns (stamped @ nm # pre) (regroup (Some g) ns (nm # pre) (vms s))"
        unfolding p(4) by (simp add: re rg)
      moreover have "vms s (ns, nm') = None" using p(1,2) same by auto
      ultimately show ?thesis
        using p(1,3) step by (intro disjI2 exI [of _ "nm # pre"] exI [of _ nm'] exI [of _ post]) auto
    qed
  qed
qed

text \<open>What the component leaves alone: anything that reading and replacing a VM does.\<close>

lemma set_label_leaves [leaves_intros]:
  assumes "\<And>api ns nm. cl cluster = Inr api \<Longrightarrow> leaves f (api_get_ns api vm_gvp ns nm)"
    and "\<And>api ns nm b. cl cluster = Inr api \<Longrightarrow> leaves f (api_replace_ns api vm_gvp ns nm b)"
  shows "leaves f (setBackendGroupLabel cl cluster ns nm g)"
  unfolding setBackendGroupLabel_def stamp_attempt_def fetchVm_def by (intro leaves_intros assms) assumption+

lemma unstamp_leaves [leaves_intros]:
  assumes "\<And>api ns nm. cl cluster = Inr api \<Longrightarrow> leaves f (api_get_ns api vm_gvp ns nm)"
    and "\<And>api ns nm b. cl cluster = Inr api \<Longrightarrow> leaves f (api_replace_ns api vm_gvp ns nm b)"
  shows "leaves f (unstampBackendGroup cl cluster ns names)"
  unfolding unstampBackendGroup_def by (intro leaves_intros assms) assumption+

lemma stamp_leaves [leaves_intros]:
  assumes get: "\<And>api ns nm. cl cluster = Inr api \<Longrightarrow> leaves f (api_get_ns api vm_gvp ns nm)"
    and put: "\<And>api ns nm b. cl cluster = Inr api \<Longrightarrow> leaves f (api_replace_ns api vm_gvp ns nm b)"
  shows "leaves f (stampBackendGroup cl cluster ns g names)"
proof -
  have one: "leaves f (stamp_member cl cluster ns g nm)" for nm
    unfolding stamp_member_def fetchVm_def by (intro leaves_intros get put) assumption+
  have undo: "leaves f (act_seq (act_each (clear_quietly cl cluster ns) stamped) (act_fail err) :: (_, unit) act)"
    for stamped and err :: thrown
    unfolding clear_quietly_def by (intro leaves_intros get put) assumption+
  have "leaves f (stamp_all cl cluster ns g stamped names)" for stamped
  proof (induction names arbitrary: stamped)
    case Nil
    then show ?case by (simp add: leaves_intros)
  next
    case (Cons nm names)
    show ?case
      unfolding leaves_def
    proof
      fix s
      obtain r u where ru: "stamp_member cl cluster ns g nm s = (r, u)" by fastforce
      then have "f u = f s" by (rule leavesD [OF one])
      then show "f (snd (stamp_all cl cluster ns g stamped (nm # names) s)) = f s"
        using ru Cons.IH undo by (cases r) (simp_all add: leaves_def)
    qed
  qed
  then show ?thesis unfolding stampBackendGroup_def .
qed

text \<open>A cluster whose only state is its VMs, for concrete instances.\<close>

type_synonym vm_table = "string \<times> string \<Rightarrow> kube_vm option"

definition mem_vms :: "(vm_table, kube_vm) custom_api" where
  "mem_vms =
     \<lparr>api_list_cluster = (\<lambda>g l. act_throw ''not served''), api_list_ns = (\<lambda>g ns l. act_throw ''not served''),
      api_get_ns = (\<lambda>g ns nm s. (case s (ns, nm) of None \<Rightarrow> (throw ''vm not found'', s) | Some vm \<Rightarrow> (Inr vm, s))),
      api_get_cluster = (\<lambda>g nm. act_throw ''not served''), api_create_ns = (\<lambda>g ns b. act_throw ''not served''),
      api_delete_ns = (\<lambda>g ns nm. act_throw ''not served''),
      api_replace_ns = (\<lambda>g ns nm b s. (case s (ns, nm) of None \<Rightarrow> (throw ''vm not found'', s)
        | Some vm \<Rightarrow> (Inr b, s((ns, nm) \<mapsto> b)))),
      api_patch_ns = (\<lambda>g ns nm b. act_throw ''not served'')\<rparr>"

definition plain_vm :: "string \<Rightarrow> kube_vm" where
  "plain_vm nm = \<lparr>kv_name = Some nm, kv_labels = None, kv_template_labels = Some [(''app'', nm)],
     kv_networks = None, kv_status = None\<rparr>"

lemma mem_vms_store: "vm_store (\<lambda>s. s) mem_vms"
proof -
  have "stamp_isNotFound (mk_error ''vm not found'')" by code_simp
  then show ?thesis by (auto simp: vm_store_def mem_vms_def throw_def)
qed

section \<open>Properties\<close>



end
