(* ===== verification/Js_Format.thy ===== *)
theory Js_Format
  imports Js_Number
begin

text \<open>
  Arithmetic on numbers (each operation rounds to a double) and their text: \<open>String(n)\<close>,
  \<open>toFixed\<close> and \<open>Math.round\<close>. Negative zero is not told apart from zero.
\<close>

section \<open>Arithmetic\<close>

definition signed_inf :: "rat \<Rightarrow> js_num" where
  "signed_inf q = (if q = 0 then NaN else if 0 < q then PosInf else NegInf)"

fun num_mul :: "js_num \<Rightarrow> js_num \<Rightarrow> js_num" where
  "num_mul (Fin a) (Fin b) = js_round (a * b)"
| "num_mul NaN y = NaN"
| "num_mul x NaN = NaN"
| "num_mul (Fin a) PosInf = signed_inf a"
| "num_mul (Fin a) NegInf = signed_inf (- a)"
| "num_mul PosInf (Fin b) = signed_inf b"
| "num_mul NegInf (Fin b) = signed_inf (- b)"
| "num_mul PosInf PosInf = PosInf"
| "num_mul PosInf NegInf = NegInf"
| "num_mul NegInf PosInf = NegInf"
| "num_mul NegInf NegInf = PosInf"

fun num_div :: "js_num \<Rightarrow> js_num \<Rightarrow> js_num" where
  "num_div (Fin a) (Fin b) = (if b = 0 then signed_inf a else js_round (a / b))"
| "num_div NaN y = NaN"
| "num_div x NaN = NaN"
| "num_div (Fin a) PosInf = Fin 0"
| "num_div (Fin a) NegInf = Fin 0"
| "num_div PosInf (Fin b) = (if 0 \<le> b then PosInf else NegInf)"
| "num_div NegInf (Fin b) = (if 0 \<le> b then NegInf else PosInf)"
| "num_div PosInf PosInf = NaN"
| "num_div PosInf NegInf = NaN"
| "num_div NegInf PosInf = NaN"
| "num_div NegInf NegInf = NaN"

text \<open>\<open>10 ** e\<close> of an integer, and the comparisons \<open>0 <= n\<close> and \<open>n <= 0\<close>.\<close>

definition num_pow10 :: "int \<Rightarrow> js_num" where
  "num_pow10 e = js_round (scale10 1 e)"

fun num_nonneg :: "js_num \<Rightarrow> bool" where
  "num_nonneg (Fin q) = (0 \<le> q)"
| "num_nonneg PosInf = True"
| "num_nonneg NegInf = False"
| "num_nonneg NaN = False"

fun num_nonpos :: "js_num \<Rightarrow> bool" where
  "num_nonpos (Fin q) = (q \<le> 0)"
| "num_nonpos PosInf = False"
| "num_nonpos NegInf = True"
| "num_nonpos NaN = False"

text \<open>\<open>x < y\<close>, \<open>x >= y\<close>, \<open>Math.abs\<close> and subtraction.\<close>

fun num_less :: "js_num \<Rightarrow> js_num \<Rightarrow> bool" where
  "num_less (Fin a) (Fin b) = (a < b)"
| "num_less (Fin a) y = (y = PosInf)"
| "num_less NegInf y = (y \<noteq> NegInf \<and> y \<noteq> NaN)"
| "num_less PosInf y = False"
| "num_less NaN y = False"

definition num_geq :: "js_num \<Rightarrow> js_num \<Rightarrow> bool" where
  "num_geq x y \<longleftrightarrow> x \<noteq> NaN \<and> (num_less y x \<or> x = y)"

fun num_abs :: "js_num \<Rightarrow> js_num" where
  "num_abs (Fin a) = Fin \<bar>a\<bar>"
| "num_abs NegInf = PosInf"
| "num_abs PosInf = PosInf"
| "num_abs NaN = NaN"

fun num_sub :: "js_num \<Rightarrow> js_num \<Rightarrow> js_num" where
  "num_sub (Fin a) (Fin b) = js_round (a - b)"
| "num_sub NaN y = NaN"
| "num_sub x NaN = NaN"
| "num_sub (Fin a) PosInf = NegInf"
| "num_sub (Fin a) NegInf = PosInf"
| "num_sub PosInf (Fin b) = PosInf"
| "num_sub NegInf (Fin b) = NegInf"
| "num_sub PosInf PosInf = NaN"
| "num_sub PosInf NegInf = PosInf"
| "num_sub NegInf PosInf = NegInf"
| "num_sub NegInf NegInf = NaN"

text \<open>\<open>Math.floor\<close> and \<open>Math.round\<close>, which rounds a half up.\<close>

fun math_floor :: "js_num \<Rightarrow> js_num" where
  "math_floor (Fin q) = Fin (of_int \<lfloor>q\<rfloor>)"
| "math_floor n = n"

fun math_round :: "js_num \<Rightarrow> js_num" where
  "math_round (Fin q) = Fin (of_int \<lfloor>q + 1 / 2\<rfloor>)"
| "math_round n = n"

section \<open>Text\<close>

text \<open>The text of a number; \<open>fmt\<close> writes the numbers that are not integers below 10^21.\<close>

definition num_text :: "(rat \<Rightarrow> string) \<Rightarrow> js_num \<Rightarrow> string" where
  "num_text fmt n =
     (case n of NaN \<Rightarrow> ''NaN'' | PosInf \<Rightarrow> ''Infinity'' | NegInf \<Rightarrow> ''-Infinity''
      | Fin q \<Rightarrow> if js_is_integer n \<and> \<bar>q\<bar> < 10 ^ 21 then int_str (num_floor n) else fmt q)"

definition pad_zeros :: "nat \<Rightarrow> string \<Rightarrow> string" where
  "pad_zeros d s = replicate (d - length s) (CHR ''0'') @ s"

text \<open>\<open>x.toFixed(d)\<close> below 10^21.\<close>

definition fixed_text :: "nat \<Rightarrow> rat \<Rightarrow> string" where
  "fixed_text d x =
     (let n = nat \<lfloor>\<bar>x\<bar> * 10 ^ d + 1 / 2\<rfloor> in
      (if x < 0 then ''-'' else []) @ nat_str (n div 10 ^ d) @
      (if d = 0 then [] else ''.'' @ pad_zeros d (nat_str (n mod 10 ^ d))))"

definition num_fixed :: "(rat \<Rightarrow> string) \<Rightarrow> nat \<Rightarrow> js_num \<Rightarrow> string" where
  "num_fixed fmt d n =
     (case n of Fin q \<Rightarrow> if \<bar>q\<bar> < 10 ^ 21 then fixed_text d q else num_text fmt n | _ \<Rightarrow> num_text fmt n)"

text \<open>\<open>s.replace(/\.?0+$/, "")\<close>.\<close>

definition drop_zeros :: "string \<Rightarrow> string" where
  "drop_zeros s =
     (let r = dropWhile (\<lambda>c. c = CHR ''0'') (rev s) in
      if length r = length s then s
      else if r \<noteq> [] \<and> hd r = CHR ''.'' then rev (tl r) else rev r)"

lemma num_nonneg_floor: "num_nonneg n \<Longrightarrow> num_nonneg (math_floor n)"
  by (cases n) auto

end
