(* ===== verification/Backends.thy ===== *)
theory Backends
  imports Backend_Template Group_Stamp Js_Format
begin

text \<open>
  \<open>backends/backends.server.ts\<close>: creating, updating, reading and deleting the Services that
  expose VMs. The YAML view and the listings over all clusters, which fan out with
  \<open>Promise.all\<close>, are not modelled.
\<close>

section \<open>The API\<close>

record endpoint_subset =
  es_addresses :: "string list option"
  es_notReadyAddresses :: "string list option"

record 's core_api =
  core_read_service :: "string \<Rightarrow> string \<Rightarrow> ('s, kube_service) act"
  core_create_service :: "string \<Rightarrow> kube_service \<Rightarrow> ('s, kube_service) act"
  core_replace_service :: "string \<Rightarrow> string \<Rightarrow> kube_service \<Rightarrow> ('s, kube_service) act"
  core_delete_service :: "string \<Rightarrow> string \<Rightarrow> ('s, unit) act"
  core_list_services :: "string \<Rightarrow> string \<Rightarrow> ('s, kube_service list option) act"
  core_read_endpoints :: "string \<Rightarrow> string \<Rightarrow> ('s, endpoint_subset list option) act"

text \<open>\<open>getClusterClients(cluster)\<close>, the \<open>custom\<close> and the \<open>core\<close> client.\<close>

record 's backend_env =
  be_vms :: "'s vm_clients"
  be_core :: "string \<Rightarrow> 's core_api result"

definition with_core :: "'s backend_env \<Rightarrow> string \<Rightarrow> ('s core_api \<Rightarrow> ('s, 'a) act) \<Rightarrow> ('s, 'a) act" where
  "with_core be cluster k = act_bind (act_lift (be_core be cluster)) k"

section \<open>Reading\<close>

definition readServiceOptional :: "'s backend_env \<Rightarrow> string \<Rightarrow> string \<Rightarrow> string \<Rightarrow> ('s, kube_service option) act" where
  "readServiceOptional be cluster ns nm =
     act_catch
       (with_core be cluster (\<lambda>core. act_bind (core_read_service core ns nm) (\<lambda>svc. act_return (Some svc))))
       (\<lambda>err. if backend_isNotFound err then act_return None else act_fail err)"

fun count_endpoints :: "nat \<Rightarrow> nat \<Rightarrow> endpoint_subset list \<Rightarrow> nat \<times> nat" where
  "count_endpoints ready notReady [] = (ready, ready + notReady)"
| "count_endpoints ready notReady (sub # subs) =
     count_endpoints (ready + length (opt_default [] (es_addresses sub)))
       (notReady + length (opt_default [] (es_notReadyAddresses sub))) subs"

definition readEndpointsCounts :: "'s backend_env \<Rightarrow> string \<Rightarrow> string \<Rightarrow> string \<Rightarrow> ('s, (nat \<times> nat) option) act" where
  "readEndpointsCounts be cluster ns nm =
     act_catch
       (with_core be cluster (\<lambda>core. act_bind (core_read_endpoints core ns nm) (\<lambda>subs.
          act_return (Some (count_endpoints 0 0 (opt_default [] subs))))))
       (\<lambda>err. act_return None)"

definition vm_not_found :: "string \<Rightarrow> string \<Rightarrow> thrown" where
  "vm_not_found ns vmName = mk_error (''VirtualMachine \"'' @ ns @ ''/'' @ vmName @ ''\" not found'')"

definition ensureSingleVmExists :: "'s backend_env \<Rightarrow> string \<Rightarrow> string \<Rightarrow> string \<Rightarrow> ('s, unit) act" where
  "ensureSingleVmExists be cluster ns vmName =
     with_custom (be_vms be) cluster (\<lambda>api.
       act_catch (act_bind (api_get_ns api vm_gvp ns vmName) (\<lambda>_. act_return ()))
         (\<lambda>err. if backend_isNotFound err then act_fail (vm_not_found ns vmName)
                else act_fail (mk_error_cause (format_error err) err)))"

section \<open>The request\<close>

definition KMC_MAX_BACKEND_GROUP_VMS :: nat where "KMC_MAX_BACKEND_GROUP_VMS = 32"

fun validateMembership :: "backend_membership \<Rightarrow> unit result" where
  "validateMembership (SingleVm vm) =
     (if js_trim vm = [] then throw ''target VM is required'' else Inr ())"
| "validateMembership (MatchLabels ls) =
     (if length (obj_keys ls) = 0 then throw ''at least one match label is required'' else Inr ())"
| "validateMembership (VmGroup g vms) =
     (if js_trim g = [] then throw ''group id is required''
      else if vms = [] then throw ''select at least one VM for the group''
      else if KMC_MAX_BACKEND_GROUP_VMS < length vms
        then throw (''at most '' @ nat_str KMC_MAX_BACKEND_GROUP_VMS @ '' VMs per backend group'')
      else Inr ())"

text \<open>The group id defaults to the name of the Service, the members are a sorted set.\<close>

fun normalize_group :: "string \<Rightarrow> backend_membership \<Rightarrow> backend_membership" where
  "normalize_group nm (VmGroup g vms) = VmGroup (if js_trim g = [] then nm else js_trim g) (normal_names vms)"
| "normalize_group nm (SingleVm vm) = SingleVm vm"
| "normalize_group nm (MatchLabels ls) = MatchLabels ls"

definition when_single :: "backend_membership \<Rightarrow> (string \<Rightarrow> ('s, unit) act) \<Rightarrow> ('s, unit) act" where
  "when_single m f = (case m of SingleVm vm \<Rightarrow> f vm | _ \<Rightarrow> act_return ())"

definition when_group :: "backend_membership \<Rightarrow> (string \<Rightarrow> string list \<Rightarrow> ('s, unit) act) \<Rightarrow> ('s, unit) act" where
  "when_group m f = (case m of VmGroup g vms \<Rightarrow> f g vms | _ \<Rightarrow> act_return ())"

section \<open>VMs behind a backend\<close>

definition matched_vm :: "string jsobj \<Rightarrow> kube_vm \<Rightarrow> backend_matched_vm option" where
  "matched_vm selector vm =
     (if \<not> truthy (kv_name vm) then None
      else if \<not> labelsMatchSelector (kv_template_labels vm) selector \<and> \<not> labelsMatchSelector (kv_labels vm) selector
        then None
      else let networks = opt_default [] (kv_networks vm);
               status = opt_default ''Unknown'' (Option.bind (kv_status vm) vs_printableStatus)
           in Some \<lparr>bmv_name = opt_str (kv_name vm), bmv_status = status,
                bmv_ready = (Option.bind (kv_status vm) vs_ready = Some True \<or> status = ''Running''),
                bmv_podNetwork = (networks = [] \<or> list_ex (\<lambda>(pod, multus). pod \<and> \<not> multus) networks)\<rparr>)"

text \<open>\<open>le\<close> is the order of \<open>localeCompare\<close>.\<close>

definition listVmsMatchingSelector ::
  "(string \<Rightarrow> string \<Rightarrow> bool) \<Rightarrow> 's backend_env \<Rightarrow> string \<Rightarrow> string \<Rightarrow> string jsobj \<Rightarrow> ('s, backend_matched_vm list) act" where
  "listVmsMatchingSelector le be cluster ns selector =
     (if length (obj_keys selector) = 0 then act_return []
      else with_custom (be_vms be) cluster (\<lambda>api.
        act_bind (api_list_ns api vm_gvp ns None) (\<lambda>items.
          act_return (sort_by (\<lambda>a b. le (bmv_name a) (bmv_name b))
            (List.map_filter (matched_vm selector) (opt_default [] items))))))"

definition getVmPodTemplateLabels :: "'s backend_env \<Rightarrow> string \<Rightarrow> string \<Rightarrow> string \<Rightarrow> ('s, string jsobj) act" where
  "getVmPodTemplateLabels be cluster ns vmName =
     with_custom (be_vms be) cluster (\<lambda>api.
       act_catch
         (act_bind (api_get_ns api vm_gvp ns vmName) (\<lambda>vm.
            act_return (obj_put (obj_spread (obj_spread [] (opt_obj (kv_labels vm))) (opt_obj (kv_template_labels vm)))
              ''kubevirt.io/vm'' vmName)))
         (\<lambda>err. if backend_isNotFound err then act_return (obj_lit [(''kubevirt.io/vm'', vmName)]) else act_fail err))"

section \<open>Creating\<close>

definition unstamp_quietly :: "'s backend_env \<Rightarrow> string \<Rightarrow> string \<Rightarrow> string list \<Rightarrow> ('s, unit) act" where
  "unstamp_quietly be cluster ns vmNames =
     act_catch (unstampBackendGroup (be_vms be) cluster ns vmNames) (\<lambda>_. act_return ())"

text \<open>\<open>err instanceof Error && err.message.includes(t)\<close>.\<close>

fun error_mentions :: "string \<Rightarrow> thrown \<Rightarrow> bool" where
  "error_mentions t (ErrorObj msg c p) = js_includes msg t"
| "error_mentions t (MessageObj msg c p) = False"
| "error_mentions t (ResponseObj body st) = False"
| "error_mentions t (Primitive s) = False"

text \<open>The Service must not exist; group stamps are taken back when it does.\<close>

definition refuse_existing ::
  "'s backend_env \<Rightarrow> 's core_api \<Rightarrow> create_backend_request \<Rightarrow> backend_membership \<Rightarrow> ('s, unit) act" where
  "refuse_existing be core input membership =
     act_catch
       (act_bind (core_read_service core (cbr_namespace input) (cbr_name input)) (\<lambda>_.
          act_seq (when_group membership (\<lambda>_ vms. unstamp_quietly be (cbr_cluster input) (cbr_namespace input) vms))
            (act_throw (''Service \"'' @ cbr_namespace input @ ''/'' @ cbr_name input @ ''\" already exists''))))
       (\<lambda>err. if error_mentions ''already exists'' err then act_fail err
              else if \<not> backend_isNotFound err
                then act_seq (when_group membership (\<lambda>_ vms. unstamp_quietly be (cbr_cluster input) (cbr_namespace input) vms))
                  (act_fail (mk_error_cause (format_error err) err))
              else act_return ())"

definition create_service ::
  "'s backend_env \<Rightarrow> 's core_api \<Rightarrow> create_backend_request \<Rightarrow> backend_membership \<Rightarrow> ('s, backend_summary) act" where
  "create_service be core input membership =
     act_bind (act_lift (buildServiceManifest (input\<lparr>cbr_membership := membership\<rparr>))) (\<lambda>body.
       act_catch
         (act_bind (core_create_service core (cbr_namespace input) body) (\<lambda>created.
            act_return (mapSummary (cbr_cluster input) created None)))
         (\<lambda>err. act_seq (when_group membership (\<lambda>_ vms. unstamp_quietly be (cbr_cluster input) (cbr_namespace input) vms))
            (act_fail (mk_error_cause (''Failed to create Service: '' @ format_error err) err))))"

definition check_request :: "create_backend_request \<Rightarrow> unit result" where
  "check_request input =
     (if js_trim (cbr_cluster input) = [] then throw ''cluster is required''
      else if js_trim (cbr_namespace input) = [] then throw ''namespace is required''
      else if js_trim (cbr_name input) = [] then throw ''name is required''
      else if cbr_ports input = [] then throw ''at least one port is required''
      else validateMembership (cbr_membership input))"

definition createBackend :: "'s backend_env \<Rightarrow> create_backend_request \<Rightarrow> ('s, backend_summary) act" where
  "createBackend be input =
     act_bind (act_lift (check_request input)) (\<lambda>_.
       let membership = normalize_group (cbr_name input) (cbr_membership input);
           cluster = cbr_cluster input; ns = cbr_namespace input
       in act_seq (when_single membership (\<lambda>vm. ensureSingleVmExists be cluster ns vm))
         (act_seq (when_group membership (\<lambda>g vms. stampBackendGroup (be_vms be) cluster ns g vms))
           (with_core be cluster (\<lambda>core.
             act_seq (refuse_existing be core input membership)
               (create_service be core input membership)))))"

section \<open>Updating\<close>

definition port_in_range :: "js_num \<Rightarrow> bool" where
  "port_in_range n = (case n of Fin q \<Rightarrow> 1 \<le> q \<and> q \<le> 65535 | _ \<Rightarrow> False)"

fun check_ports :: "(rat \<Rightarrow> string) \<Rightarrow> backend_port list \<Rightarrow> unit result" where
  "check_ports fmt [] = Inr ()"
| "check_ports fmt (p # ps) =
     (if \<not> port_in_range (bp_port p) then throw (''invalid service port: '' @ num_text fmt (bp_port p))
      else if \<not> port_in_range (bp_targetPort p) then throw (''invalid target port: '' @ num_text fmt (bp_targetPort p))
      else check_ports fmt ps)"

text \<open>\<open>Object.assign\<close>.\<close>

definition obj_assign_all :: "'v jsobj \<Rightarrow> 'v jsobj \<Rightarrow> 'v jsobj" where
  "obj_assign_all ob p = foldl (\<lambda>acc (k, v). obj_assign acc k v) ob p"

definition updated_labels :: "backend_membership option \<Rightarrow> string jsobj option \<Rightarrow> string jsobj" where
  "updated_labels membership labels =
     (let ls = obj_spread [] (opt_obj labels) in
      case membership of
        None \<Rightarrow> ls
      | Some m \<Rightarrow>
          obj_assign_all (obj_delete (obj_delete (obj_delete ls KMC_LABEL_TARGET_KIND) KMC_LABEL_VM) KMC_LABEL_BACKEND_GROUP)
            (membershipLabels m))"

definition updated_annotations :: "backend_membership option \<Rightarrow> string jsobj option \<Rightarrow> string jsobj" where
  "updated_annotations membership annotations =
     (let an = obj_spread [] (opt_obj annotations) in
      case membership of
        None \<Rightarrow> an
      | Some m \<Rightarrow>
          obj_assign_all (obj_delete (obj_delete an KMC_ANN_MATCH_LABELS) KMC_ANN_MEMBER_VMS)
            (membershipAnnotations m))"

text \<open>The Service that an update writes; it drops the status and an empty \<open>annotations\<close>.\<close>

definition updated_service ::
  "(rat \<Rightarrow> string) \<Rightarrow> backend_membership option \<Rightarrow> backend_port list option \<Rightarrow> kube_service \<Rightarrow> kube_service result" where
  "updated_service fmt membership ports existing =
     (let an = updated_annotations membership (sv_annotations existing);
          body = existing\<lparr>sv_ingress := None,
            sv_labels := Some (updated_labels membership (sv_labels existing)),
            sv_annotations := (if length (obj_keys an) = 0 then None else Some an),
            sv_selector := (case membership of None \<Rightarrow> sv_selector existing | Some m \<Rightarrow> Some (resolveServiceSelector m))\<rparr>
      in case ports of
           None \<Rightarrow> Inr body
         | Some ps \<Rightarrow>
             if ps = [] then throw ''at least one port is required''
             else res_bind (check_ports fmt ps) (\<lambda>_. Inr (body\<lparr>sv_ports := Some (port_entries ps)\<rparr>)))"

text \<open>The stamps that change when the group becomes \<open>next\<close>; \<open>prev\<close> is what the Service recorded.\<close>

definition members_of :: "backend_membership option \<Rightarrow> string list" where
  "members_of m = (case m of Some (VmGroup g vms) \<Rightarrow> vms | _ \<Rightarrow> [])"

definition restamp_group ::
  "'s backend_env \<Rightarrow> string \<Rightarrow> string \<Rightarrow> backend_membership option \<Rightarrow> backend_membership option \<Rightarrow> ('s, unit) act" where
  "restamp_group be cluster ns prev new =
     (case new of
        Some (VmGroup g nextNames) \<Rightarrow>
          (let prevNames = members_of prev;
               toAdd = filter (\<lambda>n. n \<notin> set prevNames) nextNames;
               toRemove = filter (\<lambda>n. n \<notin> set nextNames) prevNames;
               keep = filter (\<lambda>n. n \<in> set prevNames) nextNames;
               regrouped = (case prev of Some (VmGroup g' vms) \<Rightarrow> g' \<noteq> g | _ \<Rightarrow> False)
           in act_seq (act_when (0 < length toAdd) (stampBackendGroup (be_vms be) cluster ns g toAdd))
                (act_seq (act_when (0 < length toRemove) (unstampBackendGroup (be_vms be) cluster ns toRemove))
                  (act_when (0 < length keep \<and> regrouped) (stampBackendGroup (be_vms be) cluster ns g keep))))
      | Some _ \<Rightarrow>
          (case prev of Some (VmGroup g vms) \<Rightarrow> unstampBackendGroup (be_vms be) cluster ns vms | _ \<Rightarrow> act_return ())
      | None \<Rightarrow> act_return ())"

definition getBackend :: "'s backend_env \<Rightarrow> string \<Rightarrow> string \<Rightarrow> string \<Rightarrow> ('s, backend_summary) act" where
  "getBackend be cluster ns nm =
     act_bind (readServiceOptional be cluster ns nm) (\<lambda>svc.
       case svc of
         None \<Rightarrow> act_fail (ResponseObj ''Backend Service not found'' 404)
       | Some svc \<Rightarrow> act_bind (readEndpointsCounts be cluster ns nm) (\<lambda>endpoints.
           act_return (mapSummary cluster svc endpoints)))"

definition managed_backend :: "kube_service \<Rightarrow> bool" where
  "managed_backend svc \<longleftrightarrow> opt_get (sv_labels svc) KMC_LABEL_RESOURCE = Some KMC_RESOURCE_BACKEND"

definition updateBackend :: "(rat \<Rightarrow> string) \<Rightarrow> 's backend_env \<Rightarrow> update_backend_request \<Rightarrow> ('s, backend_summary) act" where
  "updateBackend fmt be input =
     (let cluster = ubr_cluster input; ns = ubr_namespace input; nm = ubr_name input in
      if js_trim cluster = [] \<or> js_trim ns = [] \<or> js_trim nm = []
        then act_throw ''cluster, namespace, and name are required''
      else if ubr_membership input = None \<and> ubr_ports input = None then act_throw ''nothing to update''
      else act_bind (readServiceOptional be cluster ns nm) (\<lambda>found.
        case found of
          None \<Rightarrow> act_fail (ResponseObj ''Backend Service not found'' 404)
        | Some existing \<Rightarrow>
            if \<not> managed_backend existing
              then act_throw (''Service \"'' @ ns @ ''/'' @ nm @ ''\" is not a kmc backend; not updating'')
            else let prev = membershipFromServiceMeta (sv_labels existing) (sv_annotations existing);
                     new = map_option (normalize_group nm) (ubr_membership input)
              in act_seq (act_lift (case ubr_membership input of None \<Rightarrow> Inr () | Some m \<Rightarrow> validateMembership m))
                  (act_seq (case new of None \<Rightarrow> act_return ()
                      | Some m \<Rightarrow> when_single m (\<lambda>vm. ensureSingleVmExists be cluster ns vm))
                    (act_seq (restamp_group be cluster ns prev new)
                      (with_core be cluster (\<lambda>core.
                        act_bind (act_lift (updated_service fmt new (ubr_ports input) existing)) (\<lambda>body.
                        act_seq
                          (act_catch (act_bind (core_replace_service core ns nm body) (\<lambda>_. act_return ()))
                            (\<lambda>err. act_fail (mk_error_cause (''Failed to update Service: '' @ format_error err) err)))
                          (getBackend be cluster ns nm))))))))"

section \<open>Deleting\<close>

definition deleteBackend :: "'s backend_env \<Rightarrow> string \<Rightarrow> string \<Rightarrow> string \<Rightarrow> ('s, unit) act" where
  "deleteBackend be cluster ns nm =
     act_bind (readServiceOptional be cluster ns nm) (\<lambda>svc.
       let membership = Option.bind svc (\<lambda>svc. membershipFromServiceMeta (sv_labels svc) (sv_annotations svc))
       in with_core be cluster (\<lambda>core.
            act_seq
              (act_catch (core_delete_service core ns nm)
                (\<lambda>err. if \<not> backend_isNotFound err then act_fail (mk_error_cause (format_error err) err) else act_return ()))
              (case membership of
                 Some (VmGroup g fromAnn) \<Rightarrow>
                   act_bind
                     (act_catch
                       (act_bind (listVmsWithBackendGroup (be_vms be) cluster ns g) (\<lambda>live.
                          act_return (js_sort (js_uniq (fromAnn @ live)))))
                       (\<lambda>_. act_return fromAnn))
                     (\<lambda>names. act_when (0 < length names) (unstampBackendGroup (be_vms be) cluster ns names))
               | _ \<Rightarrow> act_return ())))"

definition deleteBackendIfManaged :: "'s backend_env \<Rightarrow> string \<Rightarrow> string \<Rightarrow> string \<Rightarrow> ('s, unit) act" where
  "deleteBackendIfManaged be cluster ns nm =
     act_bind (readServiceOptional be cluster ns nm) (\<lambda>svc.
       case svc of
         None \<Rightarrow> act_return ()
       | Some svc \<Rightarrow>
           if \<not> managed_backend svc
             then act_throw (''Service \"'' @ ns @ ''/'' @ nm @ ''\" is not a kmc backend; not deleting'')
           else deleteBackend be cluster ns nm)"

section \<open>Details and load balancers\<close>

record backend_detail =
  bd_summary :: backend_summary
  bd_matchedVms :: "backend_matched_vm list"
  bd_labels :: "string jsobj"
  bd_annotations :: "string jsobj"

definition getBackendDetail ::
  "(string \<Rightarrow> string \<Rightarrow> bool) \<Rightarrow> 's backend_env \<Rightarrow> string \<Rightarrow> string \<Rightarrow> string \<Rightarrow> ('s, backend_detail) act" where
  "getBackendDetail le be cluster ns nm =
     act_bind (readServiceOptional be cluster ns nm) (\<lambda>svc.
       case svc of
         None \<Rightarrow> act_fail (ResponseObj ''Backend Service not found'' 404)
       | Some svc \<Rightarrow> act_bind (readEndpointsCounts be cluster ns nm) (\<lambda>endpoints.
           let summary = mapSummary cluster svc endpoints in
           act_bind
             (act_catch (listVmsMatchingSelector le be cluster ns (bs_selector summary)) (\<lambda>_. act_return []))
             (\<lambda>matchedVms. act_return \<lparr>bd_summary = summary, bd_matchedVms = matchedVms,
                bd_labels = opt_obj (sv_labels svc), bd_annotations = shown_annotations (sv_annotations svc)\<rparr>)))"

definition createLoadBalancer :: "'s backend_env \<Rightarrow> create_backend_request \<Rightarrow> ('s, backend_summary) act" where
  "createLoadBalancer be input = createBackend be (input\<lparr>cbr_serviceType := Some ''LoadBalancer''\<rparr>)"

definition getLoadBalancer ::
  "(string \<Rightarrow> string \<Rightarrow> bool) \<Rightarrow> 's backend_env \<Rightarrow> string \<Rightarrow> string \<Rightarrow> string \<Rightarrow> ('s, backend_detail) act" where
  "getLoadBalancer le be cluster ns nm =
     act_bind (getBackendDetail le be cluster ns nm) (\<lambda>detail.
       if bs_serviceType (bd_summary detail) \<noteq> ''LoadBalancer''
         then act_fail (ResponseObj ''Load balancer not found'' 404)
       else act_return detail)"

definition deleteLoadBalancer :: "'s backend_env \<Rightarrow> string \<Rightarrow> string \<Rightarrow> string \<Rightarrow> ('s, unit) act" where
  "deleteLoadBalancer be cluster ns nm =
     act_bind (readServiceOptional be cluster ns nm) (\<lambda>svc.
       case svc of
         None \<Rightarrow> act_return ()
       | Some svc \<Rightarrow>
           if opt_default ''ClusterIP'' (sv_type svc) \<noteq> ''LoadBalancer''
             then act_throw (''Service \"'' @ ns @ ''/'' @ nm @ ''\" is not a LoadBalancer backend'')
           else deleteBackend be cluster ns nm)"

definition updateLoadBalancer :: "(rat \<Rightarrow> string) \<Rightarrow> 's backend_env \<Rightarrow> update_backend_request \<Rightarrow> ('s, backend_summary) act" where
  "updateLoadBalancer fmt be input =
     act_bind (readServiceOptional be (ubr_cluster input) (ubr_namespace input) (ubr_name input)) (\<lambda>found.
       case found of
         None \<Rightarrow> act_fail (ResponseObj ''Load balancer not found'' 404)
       | Some existing \<Rightarrow>
           if opt_default ''ClusterIP'' (sv_type existing) \<noteq> ''LoadBalancer''
             then act_throw (''Service \"'' @ ubr_namespace input @ ''/'' @ ubr_name input @ ''\" is not a LoadBalancer backend'')
           else updateBackend fmt be input)"

section \<open>Backends of one VM\<close>

text \<open>The summary of one Service, kept when it selects the VM.\<close>

definition backend_of_vm ::
  "'s backend_env \<Rightarrow> string \<Rightarrow> string \<Rightarrow> string \<Rightarrow> string jsobj \<Rightarrow> kube_service \<Rightarrow> ('s, backend_summary option) act" where
  "backend_of_vm be cluster ns vmName vmLabels svc =
     (let n = opt_str (sv_name svc) in
      act_bind (if n = [] then act_return None else readEndpointsCounts be cluster (opt_default ns (sv_namespace svc)) n)
        (\<lambda>endpoints.
          let summary = mapSummary cluster svc endpoints in
          act_return
            (case bs_membership summary of
               Some (SingleVm vm) \<Rightarrow> if vm = vmName then Some summary else None
             | _ \<Rightarrow> if labelsMatchSelector (Some vmLabels) (bs_selector summary) then Some summary else None)))"

fun backends_of_vm ::
  "'s backend_env \<Rightarrow> string \<Rightarrow> string \<Rightarrow> string \<Rightarrow> string jsobj \<Rightarrow> kube_service list \<Rightarrow> ('s, backend_summary list) act" where
  "backends_of_vm be cluster ns vmName vmLabels [] = act_return []"
| "backends_of_vm be cluster ns vmName vmLabels (svc # svcs) =
     act_bind (backend_of_vm be cluster ns vmName vmLabels svc) (\<lambda>found.
     act_bind (backends_of_vm be cluster ns vmName vmLabels svcs) (\<lambda>items.
       act_return (case found of None \<Rightarrow> items | Some b \<Rightarrow> b # items)))"

definition listBackendsForVm ::
  "(string \<Rightarrow> string \<Rightarrow> bool) \<Rightarrow> 's backend_env \<Rightarrow> string \<Rightarrow> string \<Rightarrow> string \<Rightarrow> ('s, backend_summary list) act" where
  "listBackendsForVm le be cluster ns vmName =
     with_core be cluster (\<lambda>core.
       act_bind (core_list_services core ns KMC_BACKEND_LABEL_SELECTOR) (\<lambda>svcs.
       act_bind (getVmPodTemplateLabels be cluster ns vmName) (\<lambda>vmLabels.
       act_bind (backends_of_vm be cluster ns vmName vmLabels (opt_default [] svcs)) (\<lambda>items.
         act_return (sort_by (\<lambda>a b. le (bs_name a) (bs_name b)) items)))))"

definition listLoadBalancersForVm ::
  "(string \<Rightarrow> string \<Rightarrow> bool) \<Rightarrow> 's backend_env \<Rightarrow> string \<Rightarrow> string \<Rightarrow> string \<Rightarrow> ('s, backend_summary list) act" where
  "listLoadBalancersForVm le be cluster ns vmName =
     act_bind (listBackendsForVm le be cluster ns vmName) (\<lambda>items.
       act_return (filter (\<lambda>b. bs_serviceType b = ''LoadBalancer'') items))"


section \<open>A store of Services and VMs\<close>

text \<open>
  What the properties rely on of the API when no one else writes: \<open>svcs s\<close> is the map of the
  stored Services. Reading may fail; only a missing Service gives an error that reads "not found",
  and no error of a read reads "already exists". Creating a missing Service stores it, with the
  fields that the server fills in, or fails and stores nothing. VM calls do not touch Services, nor
  Service calls VMs.
\<close>

definition server_copy :: "kube_service \<Rightarrow> kube_service \<Rightarrow> bool" where
  "server_copy svc body \<longleftrightarrow>
     svc = body\<lparr>sv_creationTimestamp := sv_creationTimestamp svc, sv_ingress := sv_ingress svc\<rparr>"

lemma server_copy_fields:
  assumes "server_copy svc body"
  shows "sv_name svc = sv_name body" "sv_namespace svc = sv_namespace body" "sv_labels svc = sv_labels body"
    "sv_annotations svc = sv_annotations body" "sv_type svc = sv_type body" "sv_ports svc = sv_ports body"
    "sv_selector svc = sv_selector body"
proof -
  obtain c i where "svc = body\<lparr>sv_creationTimestamp := c, sv_ingress := i\<rparr>"
    using assms unfolding server_copy_def by blast
  then show "sv_name svc = sv_name body" "sv_namespace svc = sv_namespace body" "sv_labels svc = sv_labels body"
    "sv_annotations svc = sv_annotations body" "sv_type svc = sv_type body" "sv_ports svc = sv_ports body"
    "sv_selector svc = sv_selector body" by simp_all
qed

definition service_store ::
  "('s \<Rightarrow> string \<times> string \<Rightarrow> kube_service option) \<Rightarrow> 's core_api \<Rightarrow> bool" where
  "service_store svcs core \<longleftrightarrow>
     (\<forall>ns nm s. \<exists>r. core_read_service core ns nm s = (r, s) \<and>
        (\<forall>svc. r = Inr svc \<longrightarrow> svcs s (ns, nm) = Some svc) \<and>
        (\<forall>e. r = Inl e \<longrightarrow> \<not> error_mentions ''already exists'' e \<and>
           (backend_isNotFound e \<longrightarrow> svcs s (ns, nm) = None))) \<and>
     (\<forall>ns body s. svcs s (ns, opt_str (sv_name body)) = None \<longrightarrow>
        (\<exists>r t. core_create_service core ns body s = (r, t) \<and>
          (\<forall>svc. r = Inr svc \<longrightarrow> server_copy svc body \<and> svcs t = (svcs s)((ns, opt_str (sv_name body)) \<mapsto> svc)) \<and>
          (\<forall>e. r = Inl e \<longrightarrow> svcs t = svcs s)))"

lemma service_store_read:
  assumes "service_store svcs core"
  obtains (found) svc where "core_read_service core ns nm s = (Inr svc, s)" "svcs s (ns, nm) = Some svc"
  | (missing) e where "core_read_service core ns nm s = (Inl e, s)" "backend_isNotFound e"
      "\<not> error_mentions ''already exists'' e" "svcs s (ns, nm) = None"
  | (failed) e where "core_read_service core ns nm s = (Inl e, s)" "\<not> backend_isNotFound e"
      "\<not> error_mentions ''already exists'' e"
proof -
  obtain r where r: "core_read_service core ns nm s = (r, s)" "\<forall>svc. r = Inr svc \<longrightarrow> svcs s (ns, nm) = Some svc"
    "\<forall>e. r = Inl e \<longrightarrow> \<not> error_mentions ''already exists'' e \<and> (backend_isNotFound e \<longrightarrow> svcs s (ns, nm) = None)"
    using assms unfolding service_store_def by blast
  show thesis
  proof (cases r)
    case (Inl e)
    then show thesis using r that(2,3) by (cases "backend_isNotFound e") auto
  next
    case (Inr svc)
    then show thesis using r that(1) by auto
  qed
qed

lemma service_store_create:
  assumes "service_store svcs core" "svcs s (ns, opt_str (sv_name body)) = None"
  obtains (stored) svc t where "core_create_service core ns body s = (Inr svc, t)" "server_copy svc body"
      "svcs t = (svcs s)((ns, opt_str (sv_name body)) \<mapsto> svc)"
  | (refused) e t where "core_create_service core ns body s = (Inl e, t)" "svcs t = svcs s"
proof -
  obtain r t where r: "core_create_service core ns body s = (r, t)"
    "\<forall>svc. r = Inr svc \<longrightarrow> server_copy svc body \<and> svcs t = (svcs s)((ns, opt_str (sv_name body)) \<mapsto> svc)"
    "\<forall>e. r = Inl e \<longrightarrow> svcs t = svcs s"
    using assms unfolding service_store_def by blast
  show thesis
  proof (cases r)
    case (Inl e)
    then show thesis using r that(2) by blast
  next
    case (Inr svc)
    then show thesis using r that(1) by blast
  qed
qed

definition backend_store ::
  "('s \<Rightarrow> string \<times> string \<Rightarrow> kube_service option) \<Rightarrow> ('s \<Rightarrow> string \<times> string \<Rightarrow> kube_vm option) \<Rightarrow>
   's backend_env \<Rightarrow> string \<Rightarrow> ('s, kube_vm) custom_api \<Rightarrow> 's core_api \<Rightarrow> bool" where
  "backend_store svcs vms be cluster api core \<longleftrightarrow>
     be_vms be cluster = Inr api \<and> be_core be cluster = Inr core \<and> vm_store vms api \<and> service_store svcs core \<and>
     (\<forall>ns nm. leaves svcs (api_get_ns api vm_gvp ns nm)) \<and>
     (\<forall>ns nm b. leaves svcs (api_replace_ns api vm_gvp ns nm b)) \<and>
     (\<forall>ns b. leaves vms (core_create_service core ns b))"

text \<open>A VM without a group on itself and on its template.\<close>

definition group_cleared :: "kube_vm \<Rightarrow> bool" where
  "group_cleared vm \<longleftrightarrow>
     opt_get (kv_labels vm) KMC_LABEL_BACKEND_GROUP = None \<and>
     opt_get (kv_template_labels vm) KMC_LABEL_BACKEND_GROUP = None"

lemma stamped_None_cleared: "group_cleared (stamped_body None vm)"
  by (simp add: group_cleared_def stamped_body_def put_group_def truthy_def Let_def)

lemma stamped_Some_selected:
  assumes "g \<noteq> []"
  shows "labelsMatchSelector (kv_template_labels (stamped_body (Some g) vm)) (resolveServiceSelector (VmGroup g ns))"
proof -
  have "KMC_LABEL_BACKEND_GROUP \<noteq> ''__proto__''" by (simp add: membership_keys)
  then show ?thesis
    using assms by (simp add: labelsMatchSelector_def stamped_body_def put_group_def truthy_def opt_str_def obj_get_assign)
qed

text \<open>After a failure: no VM outside \<open>names\<close> has changed, and one that has changed is in no group.\<close>

definition at_most_cleared ::
  "string \<Rightarrow> string list \<Rightarrow> (string \<times> string \<Rightarrow> kube_vm option) \<Rightarrow> (string \<times> string \<Rightarrow> kube_vm option) \<Rightarrow> bool" where
  "at_most_cleared ns names m m' \<longleftrightarrow>
     (\<forall>k. m' k = m k \<or> (fst k = ns \<and> snd k \<in> set names \<and> (\<exists>vm. m' k = Some vm \<and> group_cleared vm)))"

lemma at_most_cleared_refl [simp]: "at_most_cleared ns names m m"
  by (simp add: at_most_cleared_def)

lemma at_most_cleared_regroup:
  assumes "set pre \<subseteq> set names"
  shows "at_most_cleared ns names m (regroup None ns pre (regroup g ns pre m))"
  unfolding at_most_cleared_def
proof
  fix k :: "string \<times> string"
  obtain n nm where k: "k = (n, nm)" by (cases k)
  show "regroup None ns pre (regroup g ns pre m) k = m k \<or>
      (fst k = ns \<and> snd k \<in> set names \<and> (\<exists>vm. regroup None ns pre (regroup g ns pre m) k = Some vm \<and> group_cleared vm))"
    using assms by (cases "m k") (auto simp: k regroup_def stamped_None_cleared)
qed

section \<open>Creating a group backend\<close>

lemma unstamp_quietly_stored:
  assumes st: "backend_store svcs vms be cluster api core"
    and names: "distinct names" "\<forall>nm \<in> set names. vms s (ns, nm) \<noteq> None"
  shows "\<exists>t. unstamp_quietly be cluster ns names s = (Inr (), t) \<and>
    vms t = regroup None ns names (vms s) \<and> svcs t = svcs s"
proof -
  have api: "be_vms be cluster = Inr api" "vm_store vms api" using st by (simp_all add: backend_store_def)
  obtain t where t: "unstampBackendGroup (be_vms be) cluster ns names s = (Inr (), t)"
    "vms t = regroup None ns names (vms s)"
    using unstamp_stored [where cl = "be_vms be" and cluster = cluster and vms = vms, OF api names] by blast
  have "leaves svcs (unstampBackendGroup (be_vms be) cluster ns names)"
    using st by (intro leaves_intros) (simp_all add: backend_store_def)
  then have "svcs t = svcs s" using leaves_snd [of svcs _ s] t(1) by fastforce
  then show ?thesis using t by (simp add: unstamp_quietly_def act_simps)
qed

text \<open>The Service step of \<open>createBackend\<close> for a group whose members have all been stamped.\<close>

lemma group_service_step:
  assumes st: "backend_store svcs vms be (cbr_cluster input) api core"
    and names: "distinct names" "\<forall>nm \<in> set names. vms s (cbr_namespace input, nm) \<noteq> None"
    and g: "g \<noteq> []" and ports: "cbr_ports input \<noteq> []"
    and run: "act_seq (refuse_existing be core input (VmGroup g names)) (create_service be core input (VmGroup g names)) s = (r, t)"
  shows "(\<exists>sm svc body. r = Inr sm \<and> buildServiceManifest (input\<lparr>cbr_membership := VmGroup g names\<rparr>) = Inr body \<and>
      server_copy svc body \<and> svcs s (cbr_namespace input, cbr_name input) = None \<and>
      svcs t = (svcs s)((cbr_namespace input, cbr_name input) \<mapsto> svc) \<and> vms t = vms s)
    \<or> (\<exists>e. r = Inl e \<and> svcs t = svcs s \<and> vms t = regroup None (cbr_namespace input) names (vms s))"
proof -
  let ?ns = "cbr_namespace input" and ?nm = "cbr_name input" and ?m = "VmGroup g names"
  have store: "service_store svcs core" using st by (simp add: backend_store_def)
  obtain u where u: "unstamp_quietly be (cbr_cluster input) ?ns names s = (Inr (), u)"
    "vms u = regroup None ?ns names (vms s)" "svcs u = svcs s"
    using unstamp_quietly_stored [where vms = vms and s = s and svcs = svcs, OF st names] by blast
  obtain body where body: "buildServiceManifest (input\<lparr>cbr_membership := ?m\<rparr>) = Inr body" "sv_name body = Some ?nm"
    using ports by (simp add: buildServiceManifest_def Let_def)
  show ?thesis
  proof (cases rule: service_store_read [where s = s and ns = ?ns and nm = ?nm, OF store])
    case (1 svc)
    have "error_mentions ''already exists'' (mk_error (''Service \"'' @ ?ns @ ''/'' @ ?nm @ ''\" already exists''))"
      using js_includesI [of "''Service \"'' @ ?ns @ ''/'' @ ?nm @ ''\" ''" "''already exists''" "[]"]
      by (simp add: mk_error_def)
    then have "refuse_existing be core input ?m s
        = (Inl (mk_error (''Service \"'' @ ?ns @ ''/'' @ ?nm @ ''\" already exists'')), u)"
      using 1(1) u(1) by (simp add: refuse_existing_def act_simps when_group_def)
    then show ?thesis using run u by (auto simp: act_simps)
  next
    case (2 e)
    then have ref: "refuse_existing be core input ?m s = (Inr (), s)"
      by (simp add: refuse_existing_def act_simps)
    have none: "svcs s (?ns, opt_str (sv_name body)) = None" using 2(4) body(2) by (simp add: opt_str_def)
    show ?thesis
    proof (cases rule: service_store_create [where s = s and ns = ?ns and body = body, OF store none])
      case (1 svc t')
      have lv: "leaves vms (core_create_service core ?ns body)" using st by (simp add: backend_store_def)
      have "vms t' = vms s" using leaves_snd [OF lv, of s] 1(1) by simp
      then show ?thesis
        using run ref 1 body 2(4) by (auto simp: create_service_def act_simps opt_str_def)
    next
      case (2 err t')
      have lv: "leaves vms (core_create_service core ?ns body)" using st by (simp add: backend_store_def)
      have same: "vms t' = vms s" using leaves_snd [OF lv, of s] 2(1) by simp
      obtain w where w: "unstamp_quietly be (cbr_cluster input) ?ns names t' = (Inr (), w)"
        "vms w = regroup None ?ns names (vms t')" "svcs w = svcs t'"
        using unstamp_quietly_stored [where vms = vms and s = t' and svcs = svcs, OF st names(1)] names(2) same by auto
      then show ?thesis
        using run ref 2 body same by (auto simp: create_service_def act_simps when_group_def)
    qed
  next
    case (3 e)
    then have "refuse_existing be core input ?m s = (Inl (mk_error_cause (format_error e) e), u)"
      using u(1) by (simp add: refuse_existing_def act_simps when_group_def)
    then show ?thesis using run u by (auto simp: act_simps)
  qed
qed


lemma checked_group:
  assumes "check_request input = Inr u" "cbr_membership input = VmGroup g names"
  shows "js_trim g \<noteq> []" "cbr_ports input \<noteq> []"
  using assms by (auto simp: check_request_def split: if_splits)

lemma distinct_normal_names [simp]: "distinct (normal_names names)"
  by (simp add: normal_names_def)

lemma group_create_run:
  assumes c: "check_request input = Inr u" and m: "cbr_membership input = VmGroup g names"
    and be: "be_core be (cbr_cluster input) = Inr core"
  shows "createBackend be input s =
    (case stampBackendGroup (be_vms be) (cbr_cluster input) (cbr_namespace input) (js_trim g) (normal_names names) s of
       (Inl e, t) \<Rightarrow> (Inl e, t)
     | (Inr _, t) \<Rightarrow> act_seq (refuse_existing be core input (VmGroup (js_trim g) (normal_names names)))
         (create_service be core input (VmGroup (js_trim g) (normal_names names))) t)"
  using checked_group(1) [OF c m] be
  by (simp add: createBackend_def c m act_simps when_single_def when_group_def with_core_def Let_def
      split: prod.splits sum.splits)

section \<open>What an update records\<close>

lemma obj_assign_all_get:
  "obj_ok p \<Longrightarrow> ''__proto__'' \<notin> set (obj_keys p) \<Longrightarrow>
     obj_get (obj_assign_all ob p) k = (case obj_get p k of None \<Rightarrow> obj_get ob k | Some v \<Rightarrow> Some v)"
proof (induction p arbitrary: ob)
  case (Cons kv p)
  obtain a b where kv: "kv = (a, b)" by (cases kv)
  from Cons.prems have ok: "obj_ok p" "''__proto__'' \<notin> set (obj_keys p)" and a: "obj_get p a = None" "a \<noteq> ''__proto__''"
    by (auto simp: kv obj_ok_def obj_get_None)
  show ?case
    using Cons.IH [OF ok, of "obj_assign ob a b"] a
    by (auto simp: kv obj_assign_all_def obj_get_assign split: option.splits)
qed (simp add: obj_assign_all_def)

definition membership_label_keys :: "string set" where
  "membership_label_keys = {KMC_LABEL_TARGET_KIND, KMC_LABEL_VM, KMC_LABEL_BACKEND_GROUP}"

definition membership_annotation_keys :: "string set" where
  "membership_annotation_keys = {KMC_ANN_MATCH_LABELS, KMC_ANN_MEMBER_VMS}"

lemma membership_keys_no_proto:
  "''__proto__'' \<notin> set (obj_keys (membershipLabels m))" "''__proto__'' \<notin> set (obj_keys (membershipAnnotations m))"
  by (cases m; simp add: membership_lits membership_keys)+

lemma membership_own_keys:
  "k \<notin> membership_label_keys \<Longrightarrow> obj_get (membershipLabels m) k = None"
  "k \<notin> membership_annotation_keys \<Longrightarrow> obj_get (membershipAnnotations m) k = None"
  by (cases m; auto simp: membership_lits membership_label_keys_def membership_annotation_keys_def)+

lemma updated_labels_get:
  assumes "obj_ok (opt_obj labels)"
  shows "obj_get (updated_labels (Some m) labels) k =
    (if k \<in> membership_label_keys then obj_get (membershipLabels m) k else opt_get labels k)"
  using obj_get_spread [OF assms, of "[]" k] membership_own_keys(1) [of k m]
  by (auto simp: updated_labels_def obj_assign_all_get membership_keys_no_proto membership_label_keys_def opt_get_def
      split: option.splits)

lemma updated_annotations_get:
  assumes "obj_ok (opt_obj annotations)"
  shows "obj_get (updated_annotations (Some m) annotations) k =
    (if k \<in> membership_annotation_keys then obj_get (membershipAnnotations m) k else opt_get annotations k)"
  using obj_get_spread [OF assms, of "[]" k] membership_own_keys(2) [of k m]
  by (auto simp: updated_annotations_def obj_assign_all_get membership_keys_no_proto membership_annotation_keys_def opt_get_def
      split: option.splits)

text \<open>Reading does not depend on an empty bag of annotations being there.\<close>

lemma membership_empty_annotations:
  "membershipFromServiceMeta ls (if an = [] then None else Some an) = membershipFromServiceMeta ls (Some an)"
proof (cases an)
  case Nil
  have "opt_get (Some []) k = opt_get None k" for k :: string and none :: "string jsobj" by simp
  with Nil show ?thesis by (cases ls) (simp_all add: membershipFromServiceMeta_def Let_def)
qed simp

lemma membership_carried:
  assumes "\<And>k v. obj_get (membershipLabels m) k = Some v \<Longrightarrow> obj_get ls k = Some v"
    and "\<And>k v. obj_get (membershipAnnotations m) k = Some v \<Longrightarrow> obj_get an k = Some v"
  shows "carries ls an m"
  using assms by (auto simp: carries_def obj_get_some_iff [symmetric])

lemma updated_service_fields:
  assumes "updated_service fmt (Some m) ports existing = Inr body"
  shows "sv_labels body = Some (updated_labels (Some m) (sv_labels existing))"
    "sv_annotations body = (let an = updated_annotations (Some m) (sv_annotations existing) in
       if an = [] then None else Some an)"
    "sv_selector body = Some (resolveServiceSelector m)"
  using assms by (auto simp: updated_service_def Let_def res_bind_Inr split: option.splits if_splits)

section \<open>Stamps and the record of the group\<close>

text \<open>The VM carries the group \<open>g\<close> on itself and on its template.\<close>

definition in_group :: "string \<Rightarrow> kube_vm \<Rightarrow> bool" where
  "in_group g vm \<longleftrightarrow>
     opt_get (kv_labels vm) KMC_LABEL_BACKEND_GROUP = Some g \<and>
     opt_get (kv_template_labels vm) KMC_LABEL_BACKEND_GROUP = Some g"

lemma stamped_Some_in_group: "g \<noteq> [] \<Longrightarrow> in_group g (stamped_body (Some g) vm)"
proof -
  have "KMC_LABEL_BACKEND_GROUP \<noteq> ''__proto__''" by (simp add: membership_keys)
  then show "g \<noteq> [] \<Longrightarrow> ?thesis"
    by (simp add: in_group_def stamped_body_def put_group_def truthy_def opt_str_def obj_get_assign Let_def)
qed

text \<open>The members that a Service records are stamped with its group.\<close>

definition group_in_step ::
  "(string \<times> string \<Rightarrow> kube_vm option) \<Rightarrow> string \<Rightarrow> backend_membership option \<Rightarrow> bool" where
  "group_in_step table ns m \<longleftrightarrow>
     (\<forall>g names nm. m = Some (VmGroup g names) \<longrightarrow> nm \<in> set names \<longrightarrow>
        (\<exists>vm. table (ns, nm) = Some vm \<and> in_group g vm))"

lemma group_in_step_member:
  "group_in_step table ns m \<Longrightarrow> nm \<in> set (members_of m) \<Longrightarrow> table (ns, nm) \<noteq> None"
  by (cases m; cases "the m") (auto simp: group_in_step_def members_of_def)

lemma stamp_when [simp]:
  "act_when (0 < length xs) (stampBackendGroup cl cluster ns g xs) = stampBackendGroup cl cluster ns g xs"
  "act_when (0 < length xs) (unstampBackendGroup cl cluster ns xs) = unstampBackendGroup cl cluster ns xs"
  by (cases xs; simp add: stampBackendGroup_def unstampBackendGroup_def)+

text \<open>A stamp that succeeds, and the table after it.\<close>

lemma stamp_success:
  assumes "cl cluster = Inr api" "vm_store vms api" "distinct names"
    and "stampBackendGroup cl cluster ns g names s = (Inr x, t)"
  shows "vms t = regroup (Some g) ns names (vms s)" "\<forall>nm \<in> set names. vms s (ns, nm) \<noteq> None"
  using stamp_all_stored [where cl = cl and cluster = cluster and vms = vms and stamped = "[]" and names = names
      and s = s and ns = ns and g = g, OF assms(1,2)] assms(3,4)
  unfolding stampBackendGroup_def by auto

lemma restamp_table:
  assumes api: "be_vms be cluster = Inr api" "vm_store vms api"
    and d: "distinct names" "distinct (members_of prev)"
    and old: "group_in_step (vms s) ns prev"
    and run: "restamp_group be cluster ns prev (Some (VmGroup g names)) s = (Inr x, t)"
  defines "regrouped \<equiv> (case prev of Some (VmGroup g' vms) \<Rightarrow> g' \<noteq> g | _ \<Rightarrow> False)"
  shows "vms t = regroup (Some g) ns (if regrouped then filter (\<lambda>n. n \<in> set (members_of prev)) names else [])
    (regroup None ns (filter (\<lambda>n. n \<notin> set names) (members_of prev))
      (regroup (Some g) ns (filter (\<lambda>n. n \<notin> set (members_of prev)) names) (vms s)))"
    and "\<forall>nm \<in> set names. vms s (ns, nm) \<noteq> None"
proof -
  let ?A = "filter (\<lambda>n. n \<notin> set (members_of prev)) names"
  let ?R = "filter (\<lambda>n. n \<notin> set names) (members_of prev)"
  let ?K = "filter (\<lambda>n. n \<in> set (members_of prev)) names"
  have "act_seq (stampBackendGroup (be_vms be) cluster ns g ?A) (act_seq (unstampBackendGroup (be_vms be) cluster ns ?R)
      (act_when (0 < length ?K \<and> regrouped) (stampBackendGroup (be_vms be) cluster ns g ?K))) s = (Inr x, t)"
    using run by (simp only: restamp_group_def Let_def regrouped_def stamp_when option.case backend_membership.case)
  then obtain y u where u: "stampBackendGroup (be_vms be) cluster ns g ?A s = (Inr y, u)"
    and r1: "act_seq (unstampBackendGroup (be_vms be) cluster ns ?R)
      (act_when (0 < length ?K \<and> regrouped) (stampBackendGroup (be_vms be) cluster ns g ?K)) u = (Inr x, t)"
    by (rule act_seq_InrE)
  note A = stamp_success [where vms = vms and s = s, OF api distinct_filter [OF d(1)] u]
  have ex: "vms s (ns, nm) \<noteq> None" if "nm \<in> set (members_of prev)" for nm
    using group_in_step_member [OF old that] .
  have "\<forall>nm \<in> set ?R. vms u (ns, nm) \<noteq> None" using ex by (auto simp: A(1) regroup_def)
  then obtain w where w: "unstampBackendGroup (be_vms be) cluster ns ?R u = (Inr (), w)"
    "vms w = regroup None ns ?R (vms u)"
    using unstamp_stored [where cl = "be_vms be" and cluster = cluster and vms = vms and s = u and ns = ns,
        OF api distinct_filter [OF d(2)]] by blast
  have r2: "act_when (0 < length ?K \<and> regrouped) (stampBackendGroup (be_vms be) cluster ns g ?K) w = (Inr x, t)"
    using r1 w(1) by (simp add: act_simps)
  have "vms t = regroup (Some g) ns (if regrouped then ?K else []) (vms w)"
  proof (cases regrouped)
    case True
    then have "stampBackendGroup (be_vms be) cluster ns g ?K w = (Inr x, t)"
      using r2 stamp_when(1) [of ?K "be_vms be" cluster ns g] by simp
    from stamp_success(1) [where vms = vms and s = w, OF api distinct_filter [OF d(1)] this] True show ?thesis by simp
  next
    case False
    then show ?thesis using r2 by (simp add: act_simps)
  qed
  then show "vms t = regroup (Some g) ns (if regrouped then ?K else []) (regroup None ns ?R (regroup (Some g) ns ?A (vms s)))"
    by (simp add: w(2) A(1))
  show "\<forall>nm \<in> set names. vms s (ns, nm) \<noteq> None"
    using A(2) ex by auto
qed

section \<open>A cluster in memory\<close>

text \<open>A cluster whose state is its Services and its VMs, for concrete instances.\<close>

type_synonym lab_state = "(string \<times> string \<Rightarrow> kube_service option) \<times> vm_table"

definition lab_vms :: "(lab_state, kube_vm) custom_api" where
  "lab_vms =
     \<lparr>api_list_cluster = (\<lambda>g l. act_throw ''not served''), api_list_ns = (\<lambda>g ns l. act_throw ''not served''),
      api_get_ns = (\<lambda>g ns nm s. (case snd s (ns, nm) of None \<Rightarrow> (throw ''vm not found'', s) | Some vm \<Rightarrow> (Inr vm, s))),
      api_get_cluster = (\<lambda>g nm. act_throw ''not served''), api_create_ns = (\<lambda>g ns b. act_throw ''not served''),
      api_delete_ns = (\<lambda>g ns nm. act_throw ''not served''),
      api_replace_ns = (\<lambda>g ns nm b s. (case snd s (ns, nm) of None \<Rightarrow> (throw ''vm not found'', s)
        | Some vm \<Rightarrow> (Inr b, (fst s, (snd s)((ns, nm) \<mapsto> b))))),
      api_patch_ns = (\<lambda>g ns nm b. act_throw ''not served'')\<rparr>"

definition lab_core :: "lab_state core_api" where
  "lab_core =
     \<lparr>core_read_service = (\<lambda>ns nm s. (case fst s (ns, nm) of None \<Rightarrow> (throw ''service not found'', s) | Some svc \<Rightarrow> (Inr svc, s))),
      core_create_service = (\<lambda>ns body s. (Inr body, ((fst s)((ns, opt_str (sv_name body)) \<mapsto> body), snd s))),
      core_replace_service = (\<lambda>ns nm body s. (Inr body, ((fst s)((ns, nm) \<mapsto> body), snd s))),
      core_delete_service = (\<lambda>ns nm s. (Inr (), ((fst s)((ns, nm) := None), snd s))),
      core_list_services = (\<lambda>ns l. act_throw ''not served''),
      core_read_endpoints = (\<lambda>ns nm. act_throw ''not served'')\<rparr>"

definition lab_env :: "lab_state backend_env" where
  "lab_env = \<lparr>be_vms = (\<lambda>c. Inr lab_vms), be_core = (\<lambda>c. Inr lab_core)\<rparr>"

definition lab_grouped :: lab_state where
  "lab_grouped = (\<lambda>_. None, [(''n'', ''a'') \<mapsto> stamped_body (Some ''old'') (plain_vm ''a''), (''n'', ''b'') \<mapsto> plain_vm ''b'',
               (''n'', ''c'') \<mapsto> stamped_body (Some ''old'') (plain_vm ''c'')])"

lemma lab_store: "backend_store fst snd lab_env cluster lab_vms lab_core"
proof -
  have nf: "stamp_isNotFound (mk_error ''vm not found'')" by code_simp
  have sf: "\<not> error_mentions ''already exists'' (mk_error ''service not found'')" by code_simp
  have "vm_store snd lab_vms" using nf by (auto simp: vm_store_def lab_vms_def throw_def)
  moreover have "service_store fst lab_core"
    using sf by (auto simp: service_store_def lab_core_def throw_def server_copy_def split: option.splits)
  ultimately show ?thesis
    by (auto simp: backend_store_def lab_env_def lab_vms_def lab_core_def leaves_def throw_def split: option.splits)
qed

definition lab_request :: create_backend_request where
  "lab_request =
     \<lparr>cbr_cluster = ''c'', cbr_namespace = ''n'', cbr_name = ''web'', cbr_membership = VmGroup '' g '' [''b'', ''a'', ''b''],
      cbr_ports = [\<lparr>bp_name = None, bp_port = Fin 80, bp_targetPort = Fin 8080, bp_protocol = None\<rparr>],
      cbr_serviceType = None, cbr_extraLabels = None, cbr_extraAnnotations = None\<rparr>"

definition lab_start :: lab_state where
  "lab_start = (\<lambda>_. None, [(''n'', ''a'') \<mapsto> plain_vm ''a'', (''n'', ''b'') \<mapsto> plain_vm ''b''])"

section \<open>Properties\<close>



text \<open>
  C21. A backend reads back as it was requested. The Service that the manifest describes, with
  whatever the server adds, is shown with the requested membership, type, selector and ports
  (unnamed ports named by position, TCP by default), under its name and namespace.
\<close>

theorem backend_reads_back:
  assumes body: "buildServiceManifest input = Inr body" and copy: "server_copy svc body"
    and extras: "extras_apart input" and m: "membership_ok (cbr_membership input)"
    and ports: "\<forall>p \<in> set (cbr_ports input). port_typed p"
  shows "(\<exists>m'. bs_membership (mapSummary cluster svc ep) = Some m' \<and> same_membership m' (cbr_membership input)) \<and>
    bs_ports (mapSummary cluster svc ep) = map (\<lambda>(i, p). named_port i p) (enumerate 0 (cbr_ports input)) \<and>
    bs_selector (mapSummary cluster svc ep) = resolveServiceSelector (cbr_membership input) \<and>
    bs_serviceType (mapSummary cluster svc ep) = opt_default ''ClusterIP'' (cbr_serviceType input) \<and>
    bs_name (mapSummary cluster svc ep) = cbr_name input \<and>
    bs_namespace (mapSummary cluster svc ep) = cbr_namespace input"
proof -
  let ?an = "obj_spread (obj_spread [] (membershipAnnotations (cbr_membership input))) (opt_obj (cbr_extraAnnotations input))"
  note f = server_copy_fields [OF copy]
  have b: "sv_labels body = Some (backendOwnershipLabels input)" "sv_selector body = Some (resolveServiceSelector (cbr_membership input))"
    "sv_annotations body = (if ?an = [] then None else Some ?an)" "sv_name body = Some (cbr_name input)"
    "sv_namespace body = Some (cbr_namespace input)" "sv_type body = Some (opt_default ''ClusterIP'' (cbr_serviceType input))"
    "sv_ports body = Some (port_entries (cbr_ports input))"
    using body by (auto simp: buildServiceManifest_def Let_def split: if_splits)
  have an: "obj_get ?an k = obj_get (membershipAnnotations (cbr_membership input)) k" if "k \<in> membership_annotation_keys" for k
    using extras that
    by (auto simp: extras_apart_def obj_get_spread opt_get_def membership_annotation_keys_def split: option.splits)
  have "carries (backendOwnershipLabels input) ?an (cbr_membership input)"
  proof (rule membership_carried)
    fix k v assume k: "obj_get (membershipLabels (cbr_membership input)) k = Some v"
    then have "k \<in> membership_label_keys" using membership_own_keys(1) by fastforce
    then show "obj_get (backendOwnershipLabels input) k = Some v"
      using k extras by (auto simp: extras_apart_def ownership_labels_get membership_label_keys_def)
  next
    fix k v assume k: "obj_get (membershipAnnotations (cbr_membership input)) k = Some v"
    then have "k \<in> membership_annotation_keys" using membership_own_keys(2) by fastforce
    then show "obj_get ?an k = Some v" using k an by simp
  qed
  from recorded_membership [OF m this] show ?thesis
    by (simp add: mapSummary_def Let_def f b membership_empty_annotations mapPorts_entries [OF ports] opt_default_def)
qed

lemma backend_reads_back_witness:
  "\<exists>body m'. buildServiceManifest
      \<lparr>cbr_cluster = ''c'', cbr_namespace = ''n'', cbr_name = ''web'', cbr_membership = VmGroup ''g'' [''a'', ''b''],
       cbr_ports = [\<lparr>bp_name = Some '' http '', bp_port = Fin 80, bp_targetPort = Fin 8080, bp_protocol = None\<rparr>,
                    \<lparr>bp_name = None, bp_port = Fin 53, bp_targetPort = Fin 53, bp_protocol = Some ''UDP''\<rparr>],
       cbr_serviceType = None, cbr_extraLabels = Some [(''team'', ''x'')], cbr_extraAnnotations = None\<rparr> = Inr body \<and>
     bs_membership (mapSummary ''c'' (body\<lparr>sv_creationTimestamp := Some ''2024''\<rparr>) None) = Some m' \<and>
     same_membership m' (VmGroup ''g'' [''a'', ''b'']) \<and>
     map bp_name (bs_ports (mapSummary ''c'' (body\<lparr>sv_creationTimestamp := Some ''2024''\<rparr>) None)) = [Some ''http'', Some ''port-1'']"
    (is "\<exists>body m'. buildServiceManifest ?in = Inr body \<and> ?P body m'")
proof -
  obtain body where body: "buildServiceManifest ?in = Inr body"
    by (simp add: buildServiceManifest_def Let_def)
  have copy: "server_copy (body\<lparr>sv_creationTimestamp := Some ''2024''\<rparr>) body" by (simp add: server_copy_def)
  have ex: "extras_apart ?in" by (simp add: extras_apart_def obj_ok_def opt_obj_def membership_keys)
  have m: "membership_ok (cbr_membership ?in)" by (simp, code_simp)
  have ports: "\<forall>p \<in> set (cbr_ports ?in). port_typed p" by (simp add: port_typed_def)
  have names: "map bp_name (map (\<lambda>(i, p). named_port i p) (enumerate 0 (cbr_ports ?in))) = [Some ''http'', Some ''port-1'']"
    by code_simp
  show ?thesis
    using body backend_reads_back [OF body copy ex m ports, of "''c''" None] names by auto
qed

text \<open>
  C22. An update records the new membership and nothing else. Whatever the Service recorded
  before, afterwards its labels and annotations read back as the new membership and its selector
  is the one of the new membership; every other label and annotation is as it was.
\<close>

theorem update_records_membership:
  assumes body: "updated_service fmt (Some m) ports existing = Inr body" and m: "membership_ok m"
    and bags: "obj_ok (opt_obj (sv_labels existing))" "obj_ok (opt_obj (sv_annotations existing))"
  shows "(\<exists>m'. membershipFromServiceMeta (sv_labels body) (sv_annotations body) = Some m' \<and> same_membership m' m) \<and>
    sv_selector body = Some (resolveServiceSelector m) \<and>
    (\<forall>k. k \<notin> membership_label_keys \<longrightarrow> opt_get (sv_labels body) k = opt_get (sv_labels existing) k) \<and>
    (\<forall>k. k \<notin> membership_annotation_keys \<longrightarrow> opt_get (sv_annotations body) k = opt_get (sv_annotations existing) k)"
proof -
  let ?ls = "updated_labels (Some m) (sv_labels existing)" and ?an = "updated_annotations (Some m) (sv_annotations existing)"
  note f = updated_service_fields [OF body, unfolded Let_def]
  note ls = updated_labels_get [OF bags(1), of m] and an = updated_annotations_get [OF bags(2), of m]
  have "carries ?ls ?an m"
    by (rule membership_carried) (use membership_own_keys in \<open>fastforce simp: ls an\<close>)+
  from recorded_membership [OF m this]
  have "\<exists>m'. membershipFromServiceMeta (sv_labels body) (sv_annotations body) = Some m' \<and> same_membership m' m"
    unfolding f membership_empty_annotations .
  moreover have "opt_get (sv_annotations body) k = obj_get ?an k" for k
    by (cases ?an) (simp_all add: f)
  ultimately show ?thesis by (simp add: f ls an)
qed

lemma update_records_membership_witness:
  "\<exists>body m'. updated_service (\<lambda>_. []) (Some (SingleVm ''db'')) None
      \<lparr>sv_apiVersion = None, sv_kind = None, sv_name = Some ''web'', sv_namespace = None, sv_creationTimestamp = None,
       sv_labels = Some (obj_put (membershipLabels (VmGroup ''g'' [''a''])) ''team'' ''x''),
       sv_annotations = Some (membershipAnnotations (VmGroup ''g'' [''a''])), sv_type = None,
       sv_externalTrafficPolicy = None, sv_ports = None, sv_selector = None, sv_ingress = None\<rparr> = Inr body \<and>
     membershipFromServiceMeta (sv_labels body) (sv_annotations body) = Some m' \<and> same_membership m' (SingleVm ''db'') \<and>
     opt_get (sv_labels body) ''team'' = Some ''x''"
    (is "\<exists>body m'. updated_service _ ?m None ?old = Inr body \<and> ?P body m'")
proof -
  obtain body where body: "updated_service (\<lambda>_. []) ?m None ?old = Inr body"
    by (simp add: updated_service_def Let_def)
  have "membership_ok (SingleVm ''db'')" by simp
  moreover have "obj_ok (opt_obj (sv_labels ?old))" "obj_ok (opt_obj (sv_annotations ?old))" by (simp_all add: opt_obj_def)
  moreover have "''team'' \<notin> membership_label_keys" by (simp add: membership_label_keys_def membership_keys)
  ultimately show ?thesis
    using body update_records_membership [OF body] by fastforce
qed




definition foreign_service :: kube_service where
  "foreign_service =
     \<lparr>sv_apiVersion = None, sv_kind = None, sv_name = Some ''dns'', sv_namespace = Some ''n'', sv_creationTimestamp = None,
      sv_labels = Some [(KMC_LABEL_RESOURCE, ''other'')], sv_annotations = None, sv_type = Some ''ClusterIP'',
      sv_externalTrafficPolicy = None, sv_ports = None, sv_selector = None, sv_ingress = None\<rparr>"


end
