(* ===== verification/Auth_Policy.thy ===== *)
theory Auth_Policy
  imports Resource_Paths
begin

text \<open>
  \<open>lib/auth\<close>: which pages are public, where a login may return to, who a GitHub account becomes on
  the cluster, and what the root middleware lets through. The session cookie
  (\<open>session.server.ts\<close>) and the calls to GitHub are inputs here.
\<close>

section \<open>Paths\<close>

definition strip_suffix :: "string \<Rightarrow> string \<Rightarrow> string" where
  "strip_suffix suf s = (if js_ends_with s suf then take (length s - length suf) s else s)"

definition appPathname :: "string \<Rightarrow> string" where
  "appPathname pathname = strip_suffix ''.data'' pathname"

definition PUBLIC_PREFIXES :: "string list" where "PUBLIC_PREFIXES = [''/auth/'']"
definition PUBLIC_EXACT :: "string list" where "PUBLIC_EXACT = [''/login'']"

definition isPublicPath :: "string \<Rightarrow> bool" where
  "isPublicPath pathname \<longleftrightarrow>
     (let path = appPathname pathname in
      path \<in> set PUBLIC_EXACT \<or> list_ex (js_starts_with path) PUBLIC_PREFIXES)"

text \<open>The end of the path of a relative URL: before the first \<open>?\<close> and the first \<open>#\<close>.\<close>

definition path_end :: "string \<Rightarrow> int" where
  "path_end value =
     (let q = js_index_of (CHR ''?'') value; h = js_index_of (CHR ''#'') value;
          e0 = int (length value);
          e1 = (if 0 \<le> q then min e0 q else e0)
      in if 0 \<le> h then min e1 h else e1)"

definition safeReturnTo :: "string option \<Rightarrow> string" where
  "safeReturnTo raw =
     (if \<not> truthy raw then ''/''
      else case decodeURIComponent (opt_str raw) of
             None \<Rightarrow> ''/''
           | Some value \<Rightarrow>
               if \<not> js_starts_with value ''/'' \<or> js_starts_with value ''//'' then ''/''
               else
                 let pathEnd = path_end value;
                     pathOnly = (let p = js_slice value 0 pathEnd in if p = [] then ''/'' else p);
                     suf = js_slice_from value pathEnd;
                     normalized = appPathname pathOnly
                 in if isPublicPath normalized then ''/''
                    else if normalized = ''/api'' \<or> js_starts_with normalized ''/api/'' then ''/''
                    else let result = normalized @ suf in
                      if 512 < length result then ''/''
                      else if js_starts_with result ''/'' then result else ''/'')"

section \<open>Who is who\<close>

text \<open>The environment variables that the console reads.\<close>

record auth_env =
  env_AUTH_MODE :: "string option"
  env_USERNAME_PREFIX :: "string option"
  env_GROUPS_PREFIX :: "string option"
  env_GITHUB_ORGS :: "string option"

record github_team =
  gt_org :: string
  gt_slug :: string

record session_user =
  su_githubLogin :: string
  su_email :: string
  su_name :: "string option"
  su_avatarUrl :: "string option"
  su_orgs :: "string list"
  su_teams :: "github_team list"

record actor =
  act_user :: string
  act_groups :: "string list"

definition isImpersonateMode :: "auth_env \<Rightarrow> bool" where
  "isImpersonateMode env \<longleftrightarrow> js_lower (js_trim (opt_default ''kubeconfig'' (env_AUTH_MODE env))) = ''impersonate''"

definition getAuthMode :: "auth_env \<Rightarrow> string" where
  "getAuthMode env = (if isImpersonateMode env then ''impersonate'' else ''kubeconfig'')"

definition usernamePrefix :: "auth_env \<Rightarrow> string" where
  "usernamePrefix env = opt_default ''oidc:'' (env_USERNAME_PREFIX env)"

definition groupsPrefix :: "auth_env \<Rightarrow> string" where
  "groupsPrefix env = opt_default ''oidc:'' (env_GROUPS_PREFIX env)"

definition toActor :: "auth_env \<Rightarrow> session_user \<Rightarrow> actor" where
  "toActor env user =
     \<lparr>act_user = usernamePrefix env @ su_email user,
      act_groups = js_uniq (''system:authenticated'' #
        map (\<lambda>t. groupsPrefix env @ gt_org t @ '':'' @ gt_slug t) (su_teams user))\<rparr>"

definition requireActor :: "actor option \<Rightarrow> actor result" where
  "requireActor actor = (case actor of None \<Rightarrow> Inl (ResponseObj ''Unauthorized'' 401) | Some a \<Rightarrow> Inr a)"

section \<open>Organisations\<close>

definition allowedGithubOrgs :: "auth_env \<Rightarrow> string list" where
  "allowedGithubOrgs env =
     (let raw = opt_str (opt_trim (env_GITHUB_ORGS env)) in
      if raw = [] then []
      else filter (\<lambda>s. s \<noteq> []) (map (\<lambda>s. js_lower (js_trim s)) (js_split (CHR '','') raw)))"

definition member_orgs :: "session_user \<Rightarrow> string set" where
  "member_orgs user =
     set (map js_lower (filter (\<lambda>s. s \<noteq> []) (su_orgs user))) \<union>
     set (map js_lower (filter (\<lambda>s. s \<noteq> []) (map gt_org (su_teams user))))"

definition sessionUserPassesOrgFilter :: "auth_env \<Rightarrow> session_user \<Rightarrow> bool" where
  "sessionUserPassesOrgFilter env user \<longleftrightarrow>
     (let allowed = allowedGithubOrgs env in allowed = [] \<or> list_ex (\<lambda>org. org \<in> member_orgs user) allowed)"

definition orgAccessDeniedMessage :: "auth_env \<Rightarrow> string" where
  "orgAccessDeniedMessage env =
     (let allowed = allowedGithubOrgs env;
          orgs = (if allowed = [] then ''the required organization'' else js_join '', '' allowed)
      in ''Access denied: you must be a member of '' @ orgs @ ''. '' @
         ''If you are, ask an org admin to approve this OAuth app for the organization.'')"

section \<open>Logging in\<close>

text \<open>What GitHub answers about the account; the lists of organisations and teams may fail.\<close>

record github_email =
  ge_email :: string
  ge_primary :: bool
  ge_verified :: bool

record github_profile =
  gp_login :: string
  gp_name :: "string option"
  gp_avatar_url :: "string option"
  gp_email :: "string option"

record github_account =
  ga_profile :: github_profile
  ga_emails :: "github_email list"
  ga_orgs :: "string option list option"
  ga_teams :: "(string option \<times> string) list option"

definition primary_email :: "github_email list \<Rightarrow> github_email option" where
  "primary_email emails =
     (case List.find (\<lambda>e. ge_primary e \<and> ge_verified e) emails of
        Some e \<Rightarrow> Some e
      | None \<Rightarrow> (case List.find ge_verified emails of Some e \<Rightarrow> Some e | None \<Rightarrow> List.find ge_primary emails))"

definition org_allowed :: "auth_env \<Rightarrow> string \<Rightarrow> bool" where
  "org_allowed env org \<longleftrightarrow> allowedGithubOrgs env = [] \<or> js_lower org \<in> set (allowedGithubOrgs env)"

definition account_orgs :: "auth_env \<Rightarrow> string option list option \<Rightarrow> string list" where
  "account_orgs env raw =
     (case raw of None \<Rightarrow> [] | Some orgs \<Rightarrow> filter (org_allowed env) (filter (\<lambda>s. s \<noteq> []) (map opt_str orgs)))"

definition account_teams :: "auth_env \<Rightarrow> (string option \<times> string) list option \<Rightarrow> github_team list" where
  "account_teams env raw =
     (case raw of None \<Rightarrow> []
      | Some teams \<Rightarrow>
          filter (\<lambda>t. org_allowed env (gt_org t))
            (filter (\<lambda>t. gt_org t \<noteq> [] \<and> gt_slug t \<noteq> [])
              (map (\<lambda>(org, slug). \<lparr>gt_org = opt_str org, gt_slug = slug\<rparr>) teams)))"

definition loadSessionUserFromCode :: "auth_env \<Rightarrow> github_account \<Rightarrow> session_user result" where
  "loadSessionUserFromCode env acc =
     (let profile = ga_profile acc;
          primary = map_option ge_email (primary_email (ga_emails acc));
          email = (if truthy primary then primary else gp_email profile)
      in if \<not> truthy email
         then throw (''No verified email on the GitHub account '' @ em_dash @ '' cannot map to oidc:<email>'')
         else let teams = account_teams env (ga_teams acc);
                  orgs0 = account_orgs env (ga_orgs acc);
                  orgs = (if orgs0 = [] \<and> teams \<noteq> [] then js_uniq (map gt_org teams) else orgs0);
                  user = \<lparr>su_githubLogin = gp_login profile, su_email = opt_str email, su_name = gp_name profile,
                          su_avatarUrl = gp_avatar_url profile, su_orgs = orgs, su_teams = teams\<rparr>
              in if sessionUserPassesOrgFilter env user then Inr user else throw (orgAccessDeniedMessage env))"

section \<open>The middleware\<close>

text \<open>
  A request is redirected, perhaps with the session cookie cleared, or served with an actor for
  the cluster clients and a session for the page. \<open>session\<close> is what \<open>getSession\<close> found, or its throw.
\<close>

datatype auth_outcome = Redirected string bool | Served "actor option" "session_user option"

definition authMiddleware ::
  "auth_env \<Rightarrow> string \<Rightarrow> string \<Rightarrow> session_user option result \<Rightarrow> auth_outcome" where
  "authMiddleware env pathname search session0 =
     (let publicRoute = isPublicPath pathname;
          session = (case session0 of Inl e \<Rightarrow> None | Inr s \<Rightarrow> s);
          denied = (case session of None \<Rightarrow> False | Some u \<Rightarrow> \<not> sessionUserPassesOrgFilter env u);
          returnTo = safeReturnTo (Some (pathname @ search));
          current = (if denied then None else session)
      in if denied \<and> \<not> publicRoute
           then Redirected (''/login?error='' @ encodeURIComponent (orgAccessDeniedMessage env) @
                  ''&returnTo='' @ encodeURIComponent returnTo) True
         else if isImpersonateMode env \<and> \<not> publicRoute \<and> current = None
           then Redirected (''/login?returnTo='' @ encodeURIComponent returnTo) False
         else Served (if isImpersonateMode env then map_option (toActor env) current else None) current)"

section \<open>Lemmas\<close>

lemma path_end_cut:
  obtains pre post where "addr = pre @ post" "path_end addr = int (length pre)"
    "CHR ''?'' \<notin> set pre" "CHR ''#'' \<notin> set pre" "post = [] \<or> hd post = CHR ''?'' \<or> hd post = CHR ''#''"
proof -
  define pre where "pre = takeWhile (\<lambda>c. c \<noteq> CHR ''?'' \<and> c \<noteq> CHR ''#'') addr"
  define post where "post = dropWhile (\<lambda>c. c \<noteq> CHR ''?'' \<and> c \<noteq> CHR ''#'') addr"
  have v: "addr = pre @ post" by (simp add: pre_def post_def)
  have no: "CHR ''?'' \<notin> set pre" "CHR ''#'' \<notin> set pre" by (auto simp: pre_def dest: set_takeWhileD)
  have hd: "post = [] \<or> hd post = CHR ''?'' \<or> hd post = CHR ''#''"
    using hd_dropWhile [of "\<lambda>c. c \<noteq> CHR ''?'' \<and> c \<noteq> CHR ''#''" addr] unfolding post_def by blast
  have ge: "js_index_of c addr < 0 \<or> int (length pre) \<le> js_index_of c addr" if "c \<notin> set pre" for c
  proof (cases "c \<in> set post")
    case False
    then show ?thesis using that by (simp add: js_index_of_neg v)
  next
    case True
    then obtain a b where "post = a @ c # b" "c \<notin> set a" by (meson split_list_first)
    then show ?thesis using that js_index_of_append [of c "pre @ a" b] by (simp add: v)
  qed
  have "path_end addr = int (length pre)"
  proof (cases post)
    case Nil
    then have "js_index_of (CHR ''?'') addr < 0" "js_index_of (CHR ''#'') addr < 0"
      using no by (simp_all add: js_index_of_neg v)
    then show ?thesis using Nil by (simp add: path_end_def Let_def v)
  next
    case (Cons c rest)
    then have "js_index_of c addr = int (length pre)"
      using hd no js_index_of_append [of c pre rest] by (auto simp: v)
    then show ?thesis
      using Cons hd ge [OF no(1)] ge [OF no(2)] by (auto simp: path_end_def Let_def v)
  qed
  then show thesis using that v no hd by blast
qed

lemma strip_suffix_prefix: "\<exists>w. s = strip_suffix suf s @ w"
  by (metis append_take_drop_id self_append_conv strip_suffix_def)

lemma appPathname_chars: "c \<in> set (appPathname p) \<Longrightarrow> c \<in> set p"
  using strip_suffix_prefix [of p "''.data''"] unfolding appPathname_def by (metis Un_iff set_append)

text \<open>The path of a relative URL.\<close>

definition url_path :: "string \<Rightarrow> string" where
  "url_path u = takeWhile (\<lambda>c. c \<noteq> CHR ''?'' \<and> c \<noteq> CHR ''#'') u"

lemma url_path_append:
  assumes "CHR ''?'' \<notin> set p" "CHR ''#'' \<notin> set p" "s = [] \<or> hd s = CHR ''?'' \<or> hd s = CHR ''#''"
  shows "url_path (p @ s) = p"
proof -
  have "url_path (p @ s) = p @ url_path s"
    unfolding url_path_def using assms(1,2) by (intro takeWhile_append2) auto
  moreover have "url_path s = []" using assms(3) by (cases s) (auto simp: url_path_def)
  ultimately show ?thesis by simp
qed

lemma strip_suffix_hd: "s \<noteq> [] \<Longrightarrow> strip_suffix suf s \<noteq> [] \<Longrightarrow> hd (strip_suffix suf s) = hd s"
  using strip_suffix_prefix [of s suf] by (metis hd_append2)

section \<open>Properties\<close>

definition api_path :: "string \<Rightarrow> bool" where
  "api_path p \<longleftrightarrow> p = ''/api'' \<or> js_starts_with p ''/api/''"

definition local_target :: "string \<Rightarrow> bool" where
  "local_target r \<longleftrightarrow>
     js_starts_with r ''/'' \<and> \<not> js_starts_with r ''//'' \<and> length r \<le> 512 \<and>
     \<not> isPublicPath (url_path r) \<and> \<not> api_path (url_path r)"

lemma local_target_root: "local_target ''/''"
  by code_simp

lemma starts_slash: "js_starts_with s ''/'' \<longleftrightarrow> s \<noteq> [] \<and> hd s = CHR ''/''"
  by (cases s) (auto simp: js_starts_with_def)

lemma starts_slashes: "js_starts_with s ''//'' \<longleftrightarrow> (\<exists>r. s = CHR ''/'' # CHR ''/'' # r)"
  by (auto simp: js_starts_with_prefix prefix_def)


text \<open>
  C26. In impersonation mode a page that is not public is served only for a session whose user is
  in an allowed organisation, with the actor of exactly that user; in the other mode there is no
  actor. A redirect always leads to a page that needs no login, so there is no loop.
\<close>

theorem pages_are_guarded:
  "(\<forall>actor session. authMiddleware env pathname search s = Served actor session \<longrightarrow>
      (isImpersonateMode env \<and> \<not> isPublicPath pathname \<longrightarrow>
         (\<exists>u. s = Inr (Some u) \<and> sessionUserPassesOrgFilter env u \<and> session = Some u \<and> actor = Some (toActor env u))) \<and>
      (actor \<noteq> None \<longrightarrow> isImpersonateMode env \<and> actor = map_option (toActor env) session) \<and>
      (\<forall>u. session = Some u \<longrightarrow> s = Inr (Some u) \<and> sessionUserPassesOrgFilter env u)) \<and>
   (\<forall>url clear. authMiddleware env pathname search s = Redirected url clear \<longrightarrow>
      \<not> isPublicPath pathname \<and> isPublicPath (url_path url))"
proof -
  have login: "isPublicPath (url_path (''/login?'' @ x))" for x
  proof -
    have "url_path (''/login'' @ ''?'' @ x) = ''/login''" by (rule url_path_append) auto
    moreover have "isPublicPath ''/login''" by code_simp
    ultimately show ?thesis by simp
  qed
  show ?thesis
    using login by (auto simp: authMiddleware_def Let_def split: if_splits option.splits sum.splits)
qed

lemma pages_are_guarded_witness:
  "authMiddleware
      \<lparr>env_AUTH_MODE = Some '' Impersonate '', env_USERNAME_PREFIX = None, env_GROUPS_PREFIX = None, env_GITHUB_ORGS = Some ''Acme''\<rparr>
      ''/vms.data'' ''?page=2'' (Inr None) = Redirected ''/login?returnTo=%2Fvms%3Fpage%3D2'' False \<and>
   isPublicPath (url_path ''/login?returnTo=%2Fvms%3Fpage%3D2'')"
    (is "authMiddleware ?env _ _ _ = _ \<and> _")
proof -
  have "authMiddleware ?env ''/vms.data'' ''?page=2'' (Inr None) = Redirected ''/login?returnTo=%2Fvms%3Fpage%3D2'' False"
    by code_simp
  then show ?thesis using pages_are_guarded [of ?env "''/vms.data''" "''?page=2''" "Inr None"] by blast
qed

text \<open>
  C27. A login is admitted only for a member of an allowed organisation, and every Kubernetes
  group that the account gets names a team of an allowed organisation (any, when none are
  configured); the account has an e-mail address.
\<close>

theorem login_groups_are_allowed:
  assumes "loadSessionUserFromCode env acc = Inr u"
  shows "sessionUserPassesOrgFilter env u \<and> su_email u \<noteq> [] \<and>
    (\<forall>org \<in> set (su_orgs u). org_allowed env org) \<and>
    (\<forall>g \<in> set (act_groups (toActor env u)). g = ''system:authenticated'' \<or>
       (\<exists>t \<in> set (su_teams u). org_allowed env (gt_org t) \<and> g = groupsPrefix env @ gt_org t @ '':'' @ gt_slug t))"
proof -
  have teams: "org_allowed env (gt_org t)" if "t \<in> set (account_teams env raw)" for t raw
    using that by (auto simp: account_teams_def split: option.splits)
  have orgs: "org_allowed env g" if "g \<in> set (account_orgs env raw)" for g raw
    using that by (auto simp: account_orgs_def split: option.splits)
  show ?thesis
    using assms teams orgs
    by (auto simp: loadSessionUserFromCode_def Let_def toActor_def truthy_def opt_str_def split: if_splits option.splits)
qed

lemma login_groups_are_allowed_witness:
  "\<exists>u. loadSessionUserFromCode
      \<lparr>env_AUTH_MODE = None, env_USERNAME_PREFIX = None, env_GROUPS_PREFIX = None, env_GITHUB_ORGS = Some ''Acme, lab''\<rparr>
      \<lparr>ga_profile = \<lparr>gp_login = ''ann'', gp_name = None, gp_avatar_url = None, gp_email = None\<rparr>,
       ga_emails = [\<lparr>ge_email = ''ann@acme.io'', ge_primary = True, ge_verified = True\<rparr>],
       ga_orgs = None, ga_teams = Some [(Some ''ACME'', ''ops''), (Some ''other'', ''x'')]\<rparr> = Inr u \<and>
     act_groups (toActor \<lparr>env_AUTH_MODE = None, env_USERNAME_PREFIX = None, env_GROUPS_PREFIX = None, env_GITHUB_ORGS = Some ''Acme, lab''\<rparr> u)
       = [''system:authenticated'', ''oidc:ACME:ops''] \<and> (\<forall>org \<in> set (su_orgs u). org_allowed
      \<lparr>env_AUTH_MODE = None, env_USERNAME_PREFIX = None, env_GROUPS_PREFIX = None, env_GITHUB_ORGS = Some ''Acme, lab''\<rparr> org)"
    (is "\<exists>u. loadSessionUserFromCode ?env ?acc = Inr u \<and> _ \<and> _")
proof -
  let ?u = "\<lparr>su_githubLogin = ''ann'', su_email = ''ann@acme.io'', su_name = None, su_avatarUrl = None,
    su_orgs = [''ACME''], su_teams = [\<lparr>gt_org = ''ACME'', gt_slug = ''ops''\<rparr>]\<rparr>"
  have "loadSessionUserFromCode ?env ?acc = Inr ?u" by code_simp
  moreover have "act_groups (toActor ?env ?u) = [''system:authenticated'', ''oidc:ACME:ops'']" by code_simp
  ultimately show ?thesis using login_groups_are_allowed [of ?env ?acc ?u] by blast
qed

section \<open>Two gaps\<close>

text \<open>
  The target may start with a slash and a backslash, which browsers read as two slashes; and an
  address that GitHub has not verified is accepted when no other is there.
\<close>

lemma backslash_target: "safeReturnTo (Some [CHR ''/'', CHR 0x5c, CHR ''e'']) = [CHR ''/'', CHR 0x5c, CHR ''e'']"
  by code_simp

lemma unverified_email:
  "map_option ge_email (primary_email [\<lparr>ge_email = ''boss@acme.io'', ge_primary = True, ge_verified = False\<rparr>]) = Some ''boss@acme.io''"
  by code_simp

end
