(* ===== verification/Quotas.thy ===== *)
theory Quotas
  imports Js_Format Js_Object Js_Effects
begin

text \<open>
  \<open>namespaces/quantity.ts\<close> and \<open>namespaces/quota.ts\<close>: Kubernetes quantities, the limits of a
  namespace and the ResourceQuota that enforces them.
\<close>

section \<open>Quantities\<close>

definition suffix_multiplier :: "string \<Rightarrow> js_num option" where
  "suffix_multiplier s =
     map_of [([], Fin 1), (''m'', js_round (1 / 1000)),
       (''Ki'', Fin 1024), (''Mi'', Fin (1024 ^ 2)), (''Gi'', Fin (1024 ^ 3)), (''Ti'', Fin (1024 ^ 4)),
       (''Pi'', Fin (1024 ^ 5)), (''Ei'', Fin (1024 ^ 6)),
       (''k'', Fin 1000), (''K'', Fin 1000), (''M'', Fin (10 ^ 6)), (''G'', Fin (10 ^ 9)), (''T'', Fin (10 ^ 12)),
       (''P'', Fin (10 ^ 15)), (''E'', Fin (10 ^ 18))] s"

text \<open>
  The groups of the pattern: a decimal with an optional sign, an exponent with its letter, a
  suffix. Each part is read greedily, which is the only way the whole text can match.
\<close>

definition read_decimal :: "string \<Rightarrow> (string \<times> string) option" where
  "read_decimal s =
     (let sign = (if s \<noteq> [] \<and> (hd s = CHR ''+'' \<or> hd s = CHR ''-'') then [hd s] else []);
          t = (if sign = [] then s else tl s);
          ip = takeWhile is_digit t;
          r = dropWhile is_digit t;
          dot = (r \<noteq> [] \<and> hd r = CHR ''.'');
          fp = (if dot then takeWhile is_digit (tl r) else []);
          r' = (if dot then dropWhile is_digit (tl r) else r)
      in if ip = [] \<and> fp = [] then None
         else Some (sign @ ip @ (if dot then ''.'' @ fp else []), r'))"

definition read_exponent :: "string \<Rightarrow> string option \<times> string" where
  "read_exponent s =
     (let t = tl s;
          sign = (if t \<noteq> [] \<and> (hd t = CHR ''+'' \<or> hd t = CHR ''-'') then [hd t] else []);
          u = (if sign = [] then t else tl t);
          ds = takeWhile is_digit u
      in if s \<noteq> [] \<and> (hd s = CHR ''e'' \<or> hd s = CHR ''E'') \<and> ds \<noteq> []
         then (Some (sign @ ds), dropWhile is_digit u) else (None, s))"

definition parseQuantity :: "string option \<Rightarrow> js_num option" where
  "parseQuantity raw =
     (case raw of None \<Rightarrow> None
      | Some raw \<Rightarrow>
          (case read_decimal (js_trim raw) of None \<Rightarrow> None
           | Some (mantissa, r) \<Rightarrow>
               (case read_exponent r of (ex, suf) \<Rightarrow>
                  (case suffix_multiplier suf of None \<Rightarrow> None
                   | Some mult \<Rightarrow>
                       let n = js_number mantissa in
                       if \<not> js_is_finite n then None
                       else (case ex of
                               None \<Rightarrow> Some (num_mul n mult)
                             | Some e \<Rightarrow>
                                 let k = js_number e in
                                 if \<not> js_is_finite k then None
                                 else Some (num_mul (num_mul n (num_pow10 (num_floor k))) mult))))))"

definition quantityPercent :: "string option \<Rightarrow> string option \<Rightarrow> js_num option" where
  "quantityPercent used hard =
     (case (parseQuantity used, parseQuantity hard) of
        (Some u, Some h) \<Rightarrow> if num_nonpos h then None else Some (num_mul (num_div u h) (Fin 100))
      | _ \<Rightarrow> None)"

definition isValidQuantity :: "string \<Rightarrow> bool" where
  "isValidQuantity v \<longleftrightarrow> (case parseQuantity (Some v) of None \<Rightarrow> False | Some n \<Rightarrow> num_nonneg n)"

definition byte_suffixes :: "string list" where
  "byte_suffixes = [''Ki'', ''Mi'', ''Gi'', ''Ti'', ''Pi'', ''Ei'', ''k'', ''K'', ''M'', ''G'', ''T'', ''P'', ''E'']"

definition isValidByteQuantity :: "string \<Rightarrow> bool" where
  "isValidByteQuantity v \<longleftrightarrow>
     (let s = js_trim v in
      s \<noteq> [] \<and> (s = ''0'' \<or> (list_ex (js_ends_with s) byte_suffixes \<and> isValidQuantity s)))"

definition isValidCpuQuantity :: "string \<Rightarrow> bool" where
  "isValidCpuQuantity v \<longleftrightarrow> (let s = js_trim v in s \<noteq> [] \<and> isValidQuantity s)"

section \<open>Quantities for the page\<close>

datatype quota_unit = CpuUnit | MemoryUnit | StorageUnit | CountUnit | OtherUnit

text \<open>A core count; \<open>fmt\<close> writes fractions and very large numbers (\<open>num_text\<close>).\<close>

definition formatCpuCores :: "(rat \<Rightarrow> string) \<Rightarrow> js_num \<Rightarrow> string" where
  "formatCpuCores fmt cores =
     (let milli = num_mul cores (Fin 1000); m = math_round milli in
      if cores = Fin 0 then ''0''
      else if num_less cores (js_round (1 / 100)) then num_text fmt m @ ''m''
      else if num_less cores (Fin 1) \<and> num_less (num_abs (num_sub milli m)) (Fin (1 / 2)) then num_text fmt m @ ''m''
      else if js_is_integer cores then num_text fmt cores
      else drop_zeros (num_fixed fmt 3 cores))"

definition binary_units :: "(string \<times> rat) list" where
  "binary_units = [(''Ei'', 1024 ^ 6), (''Pi'', 1024 ^ 5), (''Ti'', 1024 ^ 4), (''Gi'', 1024 ^ 3), (''Mi'', 1024 ^ 2), (''Ki'', 1024)]"

fun binary_bytes :: "(rat \<Rightarrow> string) \<Rightarrow> js_num \<Rightarrow> (string \<times> rat) list \<Rightarrow> string" where
  "binary_bytes fmt bytes [] = num_text fmt (math_round bytes)"
| "binary_bytes fmt bytes ((suf, d) # units) =
     (if num_geq (num_abs bytes) (Fin d)
      then let v = num_div bytes (Fin d) in
        if num_less (num_abs (num_sub v (math_round v))) (js_round (1 / 10 ^ 9)) then num_text fmt (math_round v) @ suf
        else num_text fmt (js_number (num_fixed fmt (if num_geq v (Fin 10) then 1 else 2) v)) @ suf
      else binary_bytes fmt bytes units)"

definition formatBinaryBytes :: "(rat \<Rightarrow> string) \<Rightarrow> js_num \<Rightarrow> string" where
  "formatBinaryBytes fmt bytes = (if bytes = Fin 0 then ''0'' else binary_bytes fmt bytes binary_units)"

definition formatQuotaQuantity :: "(rat \<Rightarrow> string) \<Rightarrow> string option \<Rightarrow> quota_unit \<Rightarrow> string \<Rightarrow> string" where
  "formatQuotaQuantity fmt raw unitKind dflt =
     (let s = js_trim (opt_str raw) in
      if s = [] then dflt
      else case parseQuantity (Some s) of
             None \<Rightarrow> s
           | Some n \<Rightarrow>
               (case unitKind of
                  MemoryUnit \<Rightarrow> formatBinaryBytes fmt n
                | StorageUnit \<Rightarrow> formatBinaryBytes fmt n
                | CpuUnit \<Rightarrow> formatCpuCores fmt n
                | CountUnit \<Rightarrow> if js_is_integer n then num_text fmt n else num_text fmt (math_round n)
                | OtherUnit \<Rightarrow>
                    if \<not> list_ex (\<lambda>c. is_lower_alpha c \<or> is_upper_alpha c) s \<and> num_geq n (Fin 1024)
                    then formatBinaryBytes fmt n else s))"

section \<open>Limits\<close>

definition quota_cpu :: string where "quota_cpu = ''requests.cpu''"
definition quota_memory :: string where "quota_memory = ''requests.memory''"
definition quota_storage :: string where "quota_storage = ''requests.storage''"
definition quota_vms :: string where "quota_vms = ''count/virtualmachines.kubevirt.io''"
definition quota_pvcs :: string where "quota_pvcs = ''persistentvolumeclaims''"

lemmas quota_resources = quota_cpu_def quota_memory_def quota_storage_def quota_vms_def quota_pvcs_def

record quota_limits =
  ql_cpu :: "string option"
  ql_memory :: "string option"
  ql_storage :: "string option"
  ql_vms :: "js_num option"
  ql_pvcs :: "js_num option"

definition no_limits :: quota_limits where
  "no_limits = \<lparr>ql_cpu = None, ql_memory = None, ql_storage = None, ql_vms = None, ql_pvcs = None\<rparr>"

text \<open>A count that the ResourceQuota holds as text.\<close>

definition count_limit :: "string option \<Rightarrow> js_num option" where
  "count_limit raw =
     (if \<not> truthy raw then None
      else let n = js_number (opt_str raw) in
        if js_is_finite n \<and> num_nonneg n then Some (math_floor n) else None)"

definition limitsFromHard :: "string jsobj \<Rightarrow> quota_limits" where
  "limitsFromHard hard =
     \<lparr>ql_cpu = opt_or_undef (obj_get hard quota_cpu), ql_memory = opt_or_undef (obj_get hard quota_memory),
      ql_storage = opt_or_undef (obj_get hard quota_storage),
      ql_vms = count_limit (obj_get hard quota_vms), ql_pvcs = count_limit (obj_get hard quota_pvcs)\<rparr>"

definition add_text_limit :: "string \<Rightarrow> string option \<Rightarrow> string jsobj \<Rightarrow> string jsobj" where
  "add_text_limit key v hard =
     (case trim_or_undef v of None \<Rightarrow> hard | Some s \<Rightarrow> obj_assign hard key s)"

definition add_count_limit :: "(rat \<Rightarrow> string) \<Rightarrow> string \<Rightarrow> js_num option \<Rightarrow> string jsobj \<Rightarrow> string jsobj" where
  "add_count_limit fmt key v hard =
     (case v of None \<Rightarrow> hard
      | Some n \<Rightarrow> if js_is_finite n \<and> num_nonneg n then obj_assign hard key (num_text fmt (math_floor n)) else hard)"

definition hardFromLimits :: "(rat \<Rightarrow> string) \<Rightarrow> quota_limits \<Rightarrow> string jsobj" where
  "hardFromLimits fmt limits =
     add_count_limit fmt quota_pvcs (ql_pvcs limits)
       (add_count_limit fmt quota_vms (ql_vms limits)
         (add_text_limit quota_storage (ql_storage limits)
           (add_text_limit quota_memory (ql_memory limits)
             (add_text_limit quota_cpu (ql_cpu limits) []))))"

definition hasAnyLimit :: "(rat \<Rightarrow> string) \<Rightarrow> quota_limits \<Rightarrow> bool" where
  "hasAnyLimit fmt limits \<longleftrightarrow> 0 < length (obj_keys (hardFromLimits fmt limits))"

section \<open>The rows of the capacity table\<close>

record quota_resource =
  qr_name :: string
  qr_label :: string
  qr_hard :: "string option"
  qr_used :: "string option"
  qr_percent :: "js_num option"
  qr_unitKind :: quota_unit

text \<open>Label, unit and place in the table of a resource.\<close>

definition resource_meta :: "(string \<times> string \<times> quota_unit \<times> nat) list" where
  "resource_meta =
     [(quota_cpu, ''CPU'', CpuUnit, 10), (''limits.cpu'', ''CPU (limits)'', CpuUnit, 11),
      (quota_memory, ''Memory'', MemoryUnit, 20), (''limits.memory'', ''Memory (limits)'', MemoryUnit, 21),
      (quota_storage, ''Storage'', StorageUnit, 30), (quota_vms, ''Virtual machines'', CountUnit, 40),
      (quota_pvcs, ''Persistent volume claims'', CountUnit, 50), (''pods'', ''Pods'', CountUnit, 60),
      (''services'', ''Services'', CountUnit, 70), (''count/datavolumes.cdi.kubevirt.io'', ''DataVolumes'', CountUnit, 55)]"

definition metaFor :: "string \<Rightarrow> string \<times> quota_unit \<times> nat" where
  "metaFor nm = opt_default (nm, OtherUnit, 1000) (map_of resource_meta nm)"

definition quota_row :: "string jsobj \<Rightarrow> string jsobj \<Rightarrow> string \<Rightarrow> quota_resource" where
  "quota_row hard used nm =
     (case metaFor nm of (label, unitKind, _) \<Rightarrow>
        \<lparr>qr_name = nm, qr_label = label, qr_hard = obj_get hard nm, qr_used = obj_get used nm,
         qr_percent = quantityPercent (obj_get used nm) (obj_get hard nm), qr_unitKind = unitKind\<rparr>)"

definition row_before :: "(string \<Rightarrow> string \<Rightarrow> bool) \<Rightarrow> string \<Rightarrow> string \<Rightarrow> bool" where
  "row_before le a b =
     (let x = snd (snd (metaFor a)); y = snd (snd (metaFor b)) in if x \<noteq> y then x < y else le a b)"

definition buildQuotaResources ::
  "(string \<Rightarrow> string \<Rightarrow> bool) \<Rightarrow> string jsobj \<Rightarrow> string jsobj \<Rightarrow> quota_resource list" where
  "buildQuotaResources le hard used =
     map (quota_row hard used) (sort_by (row_before le) (js_uniq (obj_keys hard @ obj_keys used)))"

record kube_resource_quota =
  rq_name :: "string option"
  rq_labels :: "string jsobj option"
  rq_resourceVersion :: "string option"
  rq_spec_hard :: "string jsobj option"
  rq_status_hard :: "string jsobj option"
  rq_status_used :: "string jsobj option"

record namespace_quota =
  nq_name :: string
  nq_managedByKmc :: bool
  nq_hard :: "string jsobj"
  nq_used :: "string jsobj"
  nq_resources :: "quota_resource list"
  nq_limits :: quota_limits

definition mapResourceQuota :: "(string \<Rightarrow> string \<Rightarrow> bool) \<Rightarrow> kube_resource_quota \<Rightarrow> bool \<Rightarrow> namespace_quota" where
  "mapResourceQuota le rq managedByKmc =
     (let hard = obj_spread (obj_spread [] (opt_obj (rq_spec_hard rq))) (opt_obj (rq_status_hard rq));
          displayHard = (case rq_status_hard rq of Some h \<Rightarrow> h | None \<Rightarrow> opt_obj (rq_spec_hard rq));
          used = opt_obj (rq_status_used rq);
          mergedHard = (if 0 < length (obj_keys displayHard) then displayHard else hard)
      in \<lparr>nq_name = opt_default ''unknown'' (rq_name rq), nq_managedByKmc = managedByKmc, nq_hard = mergedHard,
          nq_used = used, nq_resources = buildQuotaResources le mergedHard used,
          nq_limits = limitsFromHard (opt_default mergedHard (rq_spec_hard rq))\<rparr>)"

definition capacityColor :: "js_num option \<Rightarrow> string" where
  "capacityColor percent =
     (case percent of None \<Rightarrow> ''gray''
      | Some p \<Rightarrow> if num_geq p (Fin 100) then ''red'' else if num_geq p (Fin 85) then ''orange''
                  else if num_geq p (Fin 70) then ''yellow'' else ''teal'')"

section \<open>Lemmas\<close>

lemma quota_keys_distinct: "distinct [quota_cpu, quota_memory, quota_storage, quota_vms, quota_pvcs]"
  by (simp add: quota_resources)

lemma quota_keys_no_proto: "''__proto__'' \<notin> {quota_cpu, quota_memory, quota_storage, quota_vms, quota_pvcs}"
  by (simp add: quota_resources)

lemma add_text_limit_get:
  "key \<noteq> ''__proto__'' \<Longrightarrow> obj_get (add_text_limit key v hard) k =
     (if k = key \<and> trim_or_undef v \<noteq> None then trim_or_undef v else obj_get hard k)"
  by (auto simp: add_text_limit_def obj_get_assign split: option.splits)

definition count_text :: "(rat \<Rightarrow> string) \<Rightarrow> js_num option \<Rightarrow> string option" where
  "count_text fmt v =
     (case v of None \<Rightarrow> None
      | Some n \<Rightarrow> if js_is_finite n \<and> num_nonneg n then Some (num_text fmt (math_floor n)) else None)"

lemma add_count_limit_get:
  "key \<noteq> ''__proto__'' \<Longrightarrow> obj_get (add_count_limit fmt key v hard) k =
     (if k = key \<and> count_text fmt v \<noteq> None then count_text fmt v else obj_get hard k)"
  by (auto simp: add_count_limit_def count_text_def obj_get_assign split: option.splits)

lemma hardFromLimits_get:
  "obj_get (hardFromLimits fmt l) quota_cpu = trim_or_undef (ql_cpu l)"
  "obj_get (hardFromLimits fmt l) quota_memory = trim_or_undef (ql_memory l)"
  "obj_get (hardFromLimits fmt l) quota_storage = trim_or_undef (ql_storage l)"
  "obj_get (hardFromLimits fmt l) quota_vms = count_text fmt (ql_vms l)"
  "obj_get (hardFromLimits fmt l) quota_pvcs = count_text fmt (ql_pvcs l)"
  using quota_keys_distinct quota_keys_no_proto
  by (auto simp: hardFromLimits_def add_text_limit_get add_count_limit_get)

end
