(* ===== verification/Namespaces.thy ===== *)
theory Namespaces
  imports Quotas Group_Stamp Vm_Rules
begin

text \<open>
  \<open>namespaces/namespaces.server.ts\<close>: the namespaces that may hold VMs, their ResourceQuota, and
  the guards on creating and deleting them. The listing over all clusters and the YAML view are
  not modelled; console logging is left out.
\<close>

section \<open>Objects\<close>

definition VM_ALLOWED_LABEL :: string where "VM_ALLOWED_LABEL = KMC_LABEL_NAMESPACE @ ''/vm-allowed''"
definition KMC_RESOURCE_NAMESPACE_QUOTA :: string where "KMC_RESOURCE_NAMESPACE_QUOTA = ''namespace-quota''"
definition KMC_NAMESPACE_QUOTA_NAME :: string where "KMC_NAMESPACE_QUOTA_NAME = ''kmc-quota''"

text \<open>A timestamp as the client returns it: text, or a date with its ISO text unless it is invalid.\<close>

datatype timestamp = TimeText string | TimeDate "string option"

record kube_namespace =
  kn_name :: "string option"
  kn_uid :: "string option"
  kn_creationTimestamp :: "timestamp option"
  kn_labels :: "string jsobj option"
  kn_annotations :: "string jsobj option"
  kn_phase :: "string option"

record namespace_summary =
  nsu_cluster :: string
  nsu_name :: string
  nsu_phase :: string
  nsu_age :: string
  nsu_managedByKmc :: bool

record namespace_detail =
  nsd_summary :: namespace_summary
  nsd_uid :: "string option"
  nsd_labels :: "string jsobj"
  nsd_annotations :: "string jsobj"
  nsd_vmCount :: nat
  nsd_quota :: "namespace_quota option"
  nsd_quotas :: "namespace_quota list"

record create_namespace_request =
  cnr_cluster :: string
  cnr_name :: string
  cnr_quota :: "quota_limits option"

record upsert_quota_request =
  uqr_cluster :: string
  uqr_name :: string
  uqr_quota :: quota_limits

section \<open>The API\<close>

record 's ns_api =
  nsa_read :: "string \<Rightarrow> ('s, kube_namespace) act"
  nsa_create :: "kube_namespace \<Rightarrow> ('s, kube_namespace) act"
  nsa_delete :: "string \<Rightarrow> ('s, unit) act"
  nsa_read_quota :: "string \<Rightarrow> string \<Rightarrow> ('s, kube_resource_quota) act"
  nsa_replace_quota :: "string \<Rightarrow> string \<Rightarrow> kube_resource_quota \<Rightarrow> ('s, kube_resource_quota) act"
  nsa_create_quota :: "string \<Rightarrow> kube_resource_quota \<Rightarrow> ('s, kube_resource_quota) act"
  nsa_delete_quota :: "string \<Rightarrow> string \<Rightarrow> ('s, unit) act"
  nsa_list_quotas :: "string \<Rightarrow> ('s, kube_resource_quota list option) act"

record 's ns_env =
  ne_core :: "string \<Rightarrow> 's ns_api result"
  ne_vms :: "'s vm_clients"

definition with_ns :: "'s ns_env \<Rightarrow> string \<Rightarrow> ('s ns_api \<Rightarrow> ('s, 'a) act) \<Rightarrow> ('s, 'a) act" where
  "with_ns ne cluster k = act_bind (act_lift (ne_core ne cluster)) k"

definition ns_isNotFound :: "thrown \<Rightarrow> bool" where
  "ns_isNotFound err \<longleftrightarrow> (let m = error_text err in js_includes m ''404'' \<or> js_includes m ''not found'')"

definition ns_isAlreadyExists :: "thrown \<Rightarrow> bool" where
  "ns_isAlreadyExists err \<longleftrightarrow> (let m = error_text err in js_includes m ''409'' \<or> js_includes m ''already exists'')"

text \<open>A test on the message of an \<open>Error\<close>; other values fail it.\<close>

fun error_message_is :: "(string \<Rightarrow> bool) \<Rightarrow> thrown \<Rightarrow> bool" where
  "error_message_is p (ErrorObj msg c props) = p msg"
| "error_message_is p (MessageObj msg c props) = False"
| "error_message_is p (ResponseObj body st) = False"
| "error_message_is p (Primitive s) = False"

section \<open>Views\<close>

definition toIsoTimestamp :: "timestamp option \<Rightarrow> string" where
  "toIsoTimestamp t =
     (case t of None \<Rightarrow> [] | Some (TimeDate d) \<Rightarrow> opt_str d | Some (TimeText s) \<Rightarrow> s)"

definition ns_mapSummary :: "string \<Rightarrow> kube_namespace \<Rightarrow> namespace_summary" where
  "ns_mapSummary cluster ns =
     \<lparr>nsu_cluster = cluster, nsu_name = opt_default ''unknown'' (kn_name ns),
      nsu_phase = opt_default ''Unknown'' (kn_phase ns), nsu_age = toIsoTimestamp (kn_creationTimestamp ns),
      nsu_managedByKmc = (opt_get (kn_labels ns) MANAGED_BY_LABEL = Some KMC_MANAGED_BY)\<rparr>"

definition validateName :: "string \<Rightarrow> unit result" where
  "validateName nm =
     (if nm = [] then throw ''name is required''
      else if 63 < length nm then throw ''name max length is 63''
      else if \<not> DNS1123_LABEL nm
        then throw ''name must be a DNS-1123 label (lowercase alphanumeric and hyphens)''
      else Inr ())"

text \<open>Any failure of the listing counts as no VM.\<close>

definition countVms :: "'s ns_env \<Rightarrow> string \<Rightarrow> string \<Rightarrow> ('s, nat) act" where
  "countVms ne cluster ns =
     with_custom (ne_vms ne) cluster (\<lambda>api.
       act_catch (act_bind (api_list_ns api vm_gvp ns None) (\<lambda>items. act_return (length (opt_default [] items))))
         (\<lambda>_. act_return 0))"

definition isManagedQuota :: "kube_resource_quota \<Rightarrow> bool" where
  "isManagedQuota rq \<longleftrightarrow>
     opt_get (rq_labels rq) MANAGED_BY_LABEL = Some KMC_MANAGED_BY \<and>
     opt_get (rq_labels rq) KMC_LABEL_RESOURCE = Some KMC_RESOURCE_NAMESPACE_QUOTA"

definition vm_allowed :: "kube_namespace \<Rightarrow> bool" where
  "vm_allowed ns \<longleftrightarrow> opt_get (kn_labels ns) VM_ALLOWED_LABEL = Some ''true''"

text \<open>Reading a namespace that may hold VMs; anything else is a 404 or an error.\<close>

definition read_allowed :: "'s ns_api \<Rightarrow> string \<Rightarrow> ('s, kube_namespace) act" where
  "read_allowed core nm =
     act_bind
       (act_catch (nsa_read core nm) (\<lambda>err.
          if ns_isNotFound err then act_fail (ResponseObj ''Namespace not found'' 404)
          else act_fail (mk_error_cause (format_error err) err)))
       (\<lambda>ns. if vm_allowed ns then act_return ns
             else act_fail (ResponseObj (''Namespace is not labeled '' @ VM_ALLOWED_LABEL @ ''=true'') 404))"

definition ensureVmAllowedNamespace :: "'s ns_env \<Rightarrow> string \<Rightarrow> string \<Rightarrow> ('s, unit) act" where
  "ensureVmAllowedNamespace ne cluster nm =
     with_ns ne cluster (\<lambda>core. act_bind (read_allowed core nm) (\<lambda>_. act_return ()))"

text \<open>The managed quota first, then the one of its name, then by name.\<close>

definition quota_before :: "(string \<Rightarrow> string \<Rightarrow> bool) \<Rightarrow> namespace_quota \<Rightarrow> namespace_quota \<Rightarrow> bool" where
  "quota_before le a b =
     (if nq_managedByKmc a \<noteq> nq_managedByKmc b then nq_managedByKmc a
      else if nq_name a = KMC_NAMESPACE_QUOTA_NAME then True
      else if nq_name b = KMC_NAMESPACE_QUOTA_NAME then False
      else le (nq_name a) (nq_name b))"

definition listNamespaceQuotas ::
  "(string \<Rightarrow> string \<Rightarrow> bool) \<Rightarrow> 's ns_env \<Rightarrow> string \<Rightarrow> string \<Rightarrow> ('s, namespace_quota list) act" where
  "listNamespaceQuotas le ne cluster ns =
     with_ns ne cluster (\<lambda>core.
       act_catch
         (act_bind (nsa_list_quotas core ns) (\<lambda>items.
            act_return (sort_by (quota_before le)
              (map (\<lambda>rq. mapResourceQuota le rq (isManagedQuota rq)) (opt_default [] items)))))
         (\<lambda>_. act_return []))"

section \<open>Quotas\<close>

definition check_text_limit :: "(string \<Rightarrow> bool) \<Rightarrow> (string \<Rightarrow> string) \<Rightarrow> string option \<Rightarrow> unit result" where
  "check_text_limit valid msg v =
     (case v of None \<Rightarrow> Inr ()
      | Some s \<Rightarrow> if js_trim s \<noteq> [] \<and> \<not> valid s then throw (msg s) else Inr ())"

definition check_count_limit :: "string \<Rightarrow> js_num option \<Rightarrow> unit result" where
  "check_count_limit msg v =
     (case v of None \<Rightarrow> Inr ()
      | Some n \<Rightarrow> if \<not> js_is_finite n \<or> \<not> num_nonneg n \<or> \<not> js_is_integer n then throw msg else Inr ())"

definition validateQuotaLimits :: "(rat \<Rightarrow> string) \<Rightarrow> quota_limits \<Rightarrow> unit result" where
  "validateQuotaLimits fmt limits =
     res_bind (check_text_limit isValidCpuQuantity
       (\<lambda>s. ''Invalid CPU quota \"'' @ s @ ''\" (use cores like 16 or millicores like 500m)'') (ql_cpu limits)) (\<lambda>_.
     res_bind (check_text_limit isValidByteQuantity
       (\<lambda>s. ''Invalid memory quota \"'' @ s @ ''\" (use a quantity like 64Gi)'') (ql_memory limits)) (\<lambda>_.
     res_bind (check_text_limit isValidByteQuantity
       (\<lambda>s. ''Invalid storage quota \"'' @ s @ ''\" (use a quantity like 500Gi)'') (ql_storage limits)) (\<lambda>_.
     res_bind (check_count_limit ''VM count quota must be a non-negative integer'' (ql_vms limits)) (\<lambda>_.
     res_bind (check_count_limit ''PVC count quota must be a non-negative integer'' (ql_pvcs limits)) (\<lambda>_.
       if hasAnyLimit fmt limits then Inr () else throw ''At least one quota limit is required'')))))"

definition managedQuotaLabels :: "string jsobj" where
  "managedQuotaLabels = obj_lit [(MANAGED_BY_LABEL, KMC_MANAGED_BY), (KMC_LABEL_RESOURCE, KMC_RESOURCE_NAMESPACE_QUOTA)]"

definition quota_path :: "string \<Rightarrow> string \<Rightarrow> string" where
  "quota_path cluster nm = cluster @ ''/'' @ nm @ ''/'' @ KMC_NAMESPACE_QUOTA_NAME"

definition unmanaged_quota :: "thrown \<Rightarrow> bool" where
  "unmanaged_quota = error_message_is (\<lambda>m. js_includes m ''not managed by kmc'')"

text \<open>The replacement of an existing quota; \<open>None\<close> when there is none to replace.\<close>

definition replace_quota ::
  "(string \<Rightarrow> string \<Rightarrow> bool) \<Rightarrow> 's ns_api \<Rightarrow> string \<Rightarrow> string \<Rightarrow> string jsobj \<Rightarrow> ('s, namespace_quota option) act" where
  "replace_quota le core cluster nm hard =
     act_catch
       (act_bind (nsa_read_quota core nm KMC_NAMESPACE_QUOTA_NAME) (\<lambda>existing.
          if \<not> isManagedQuota existing
            then act_throw (''ResourceQuota \"'' @ KMC_NAMESPACE_QUOTA_NAME @ ''\" exists but is not managed by kmc '' @ em_dash @
              '' rename or delete it before setting quotas in the console'')
          else act_bind
            (nsa_replace_quota core nm KMC_NAMESPACE_QUOTA_NAME
              \<lparr>rq_name = Some KMC_NAMESPACE_QUOTA_NAME,
               rq_labels = Some (obj_spread (obj_spread [] (opt_obj (rq_labels existing))) managedQuotaLabels),
               rq_resourceVersion = rq_resourceVersion existing, rq_spec_hard = Some hard,
               rq_status_hard = None, rq_status_used = None\<rparr>)
            (\<lambda>updated. act_return (Some (mapResourceQuota le updated True)))))
       (\<lambda>err. if unmanaged_quota err then act_fail err
              else if \<not> ns_isNotFound err
                then act_fail (mk_error_cause (''Failed to update ResourceQuota '' @ quota_path cluster nm @ '': '' @ format_error err) err)
              else act_return None)"

definition create_quota ::
  "(string \<Rightarrow> string \<Rightarrow> bool) \<Rightarrow> 's ns_api \<Rightarrow> string \<Rightarrow> string \<Rightarrow> string jsobj \<Rightarrow> ('s, namespace_quota) act" where
  "create_quota le core cluster nm hard =
     act_catch
       (act_bind
         (nsa_create_quota core nm
           \<lparr>rq_name = Some KMC_NAMESPACE_QUOTA_NAME, rq_labels = Some managedQuotaLabels, rq_resourceVersion = None,
            rq_spec_hard = Some hard, rq_status_hard = None, rq_status_used = None\<rparr>)
         (\<lambda>created. act_return (mapResourceQuota le created True)))
       (\<lambda>err. act_fail (mk_error_cause (''Failed to create ResourceQuota '' @ quota_path cluster nm @ '': '' @ format_error err) err))"

definition upsertNamespaceQuota ::
  "(string \<Rightarrow> string \<Rightarrow> bool) \<Rightarrow> (rat \<Rightarrow> string) \<Rightarrow> 's ns_env \<Rightarrow> upsert_quota_request \<Rightarrow> ('s, namespace_quota) act" where
  "upsertNamespaceQuota le fmt ne input =
     (let cluster = js_trim (uqr_cluster input); nm = js_trim (uqr_name input) in
      if cluster = [] \<or> nm = [] then act_throw ''cluster and name are required''
      else act_bind (act_lift (validateQuotaLimits fmt (uqr_quota input))) (\<lambda>_.
        act_seq (ensureVmAllowedNamespace ne cluster nm)
          (let hard = hardFromLimits fmt (uqr_quota input) in
           with_ns ne cluster (\<lambda>core.
             act_bind (replace_quota le core cluster nm hard) (\<lambda>replaced.
               case replaced of Some q \<Rightarrow> act_return q | None \<Rightarrow> create_quota le core cluster nm hard)))))"

definition deleteNamespaceQuota :: "'s ns_env \<Rightarrow> string \<Rightarrow> string \<Rightarrow> ('s, unit) act" where
  "deleteNamespaceQuota ne cluster nm =
     (if js_trim cluster = [] \<or> js_trim nm = [] then act_throw ''cluster and name are required''
      else act_seq (ensureVmAllowedNamespace ne cluster nm)
        (with_ns ne cluster (\<lambda>core.
          act_catch
            (act_bind (nsa_read_quota core nm KMC_NAMESPACE_QUOTA_NAME) (\<lambda>existing.
               if \<not> isManagedQuota existing
                 then act_throw (''ResourceQuota \"'' @ KMC_NAMESPACE_QUOTA_NAME @ ''\" exists but is not managed by kmc '' @ em_dash @
                   '' delete it with kubectl'')
               else nsa_delete_quota core nm KMC_NAMESPACE_QUOTA_NAME))
            (\<lambda>err. if ns_isNotFound err then act_return ()
                   else if unmanaged_quota err then act_fail err
                   else act_fail (mk_error_cause (''Failed to delete ResourceQuota '' @ quota_path cluster nm @ '': '' @ format_error err) err)))))"

section \<open>Namespaces\<close>

text \<open>The two reads that the code runs side by side are run one after the other; neither throws.\<close>

definition getNamespace ::
  "(string \<Rightarrow> string \<Rightarrow> bool) \<Rightarrow> 's ns_env \<Rightarrow> string \<Rightarrow> string \<Rightarrow> ('s, namespace_detail) act" where
  "getNamespace le ne cluster nm =
     with_ns ne cluster (\<lambda>core.
       act_bind (read_allowed core nm) (\<lambda>ns.
       act_bind (countVms ne cluster nm) (\<lambda>vmCount.
       act_bind (listNamespaceQuotas le ne cluster nm) (\<lambda>quotas.
         act_return
           \<lparr>nsd_summary = ns_mapSummary cluster ns, nsd_uid = kn_uid ns, nsd_labels = opt_obj (kn_labels ns),
            nsd_annotations = shown_annotations (kn_annotations ns),
            nsd_vmCount = vmCount,
            nsd_quota = (case List.find nq_managedByKmc quotas of
               Some q \<Rightarrow> Some q | None \<Rightarrow> List.find (\<lambda>q. nq_name q = KMC_NAMESPACE_QUOTA_NAME) quotas),
            nsd_quotas = quotas\<rparr>))))"

text \<open>The name must be free.\<close>

definition refuse_taken :: "'s ns_api \<Rightarrow> string \<Rightarrow> ('s, unit) act" where
  "refuse_taken core nm =
     act_catch
       (act_bind (nsa_read core nm) (\<lambda>existing.
          if vm_allowed existing then act_throw (''Namespace \"'' @ nm @ ''\" already exists and is vm-allowed'')
          else act_throw (''Namespace \"'' @ nm @ ''\" already exists without '' @ VM_ALLOWED_LABEL @ ''=true '' @
            ''(label it manually or pick another name)'')))
       (\<lambda>err. if error_message_is (\<lambda>m. js_starts_with m ''Namespace '') err then act_fail err
              else if \<not> ns_isNotFound err then act_fail (mk_error_cause (format_error err) err)
              else act_return ())"

definition new_namespace :: "string \<Rightarrow> kube_namespace" where
  "new_namespace nm =
     \<lparr>kn_name = Some nm, kn_uid = None, kn_creationTimestamp = None,
      kn_labels = Some (obj_lit [(VM_ALLOWED_LABEL, ''true''), (MANAGED_BY_LABEL, KMC_MANAGED_BY)]),
      kn_annotations = None, kn_phase = None\<rparr>"

definition wants_quota :: "(rat \<Rightarrow> string) \<Rightarrow> quota_limits option \<Rightarrow> quota_limits option" where
  "wants_quota fmt q = (case q of None \<Rightarrow> None | Some l \<Rightarrow> if hasAnyLimit fmt l then Some l else None)"

definition createNamespace ::
  "(string \<Rightarrow> string \<Rightarrow> bool) \<Rightarrow> (rat \<Rightarrow> string) \<Rightarrow> 's ns_env \<Rightarrow> create_namespace_request \<Rightarrow> ('s, namespace_summary) act" where
  "createNamespace le fmt ne input =
     (let cluster = js_trim (cnr_cluster input); nm = js_trim (cnr_name input); quota = wants_quota fmt (cnr_quota input) in
      if cluster = [] then act_throw ''cluster is required''
      else act_bind (act_lift (validateName nm)) (\<lambda>_.
        act_bind (act_lift (case quota of None \<Rightarrow> Inr () | Some l \<Rightarrow> validateQuotaLimits fmt l)) (\<lambda>_.
          with_ns ne cluster (\<lambda>core.
            act_seq (refuse_taken core nm)
              (act_catch
                (act_bind (nsa_create core (new_namespace nm)) (\<lambda>created.
                   act_seq
                     (case quota of None \<Rightarrow> act_return ()
                      | Some l \<Rightarrow> act_catch
                          (act_bind (upsertNamespaceQuota le fmt ne \<lparr>uqr_cluster = cluster, uqr_name = nm, uqr_quota = l\<rparr>)
                            (\<lambda>_. act_return ()))
                          (\<lambda>quotaErr. act_fail (mk_error_cause
                            (''Namespace created but ResourceQuota failed: '' @ format_error quotaErr) quotaErr)))
                     (act_return (ns_mapSummary cluster created))))
                (\<lambda>err. if error_message_is (\<lambda>m. js_starts_with m ''Namespace created but'') err then act_fail err
                       else if ns_isAlreadyExists err then act_throw (''Namespace \"'' @ nm @ ''\" already exists'')
                       else act_fail (mk_error_cause
                         (''Failed to create namespace '' @ cluster @ ''/'' @ nm @ '': '' @ format_error err) err)))))))"

text \<open>The deletion is refused while VMs are counted.\<close>

definition deleteNamespace ::
  "(string \<Rightarrow> string \<Rightarrow> bool) \<Rightarrow> 's ns_env \<Rightarrow> string \<Rightarrow> string \<Rightarrow> ('s, unit) act" where
  "deleteNamespace le ne cluster nm =
     (if js_trim cluster = [] \<or> js_trim nm = [] then act_throw ''cluster and name are required''
      else act_bind (getNamespace le ne cluster nm) (\<lambda>detail.
        if 0 < nsd_vmCount detail
        then act_throw (''Cannot delete namespace \"'' @ nm @ ''\": '' @ nat_str (nsd_vmCount detail) @
               '' VirtualMachine(s) still exist'')
        else with_ns ne cluster (\<lambda>core.
          act_catch (nsa_delete core nm) (\<lambda>err.
            if ns_isNotFound err then act_fail (ResponseObj ''Namespace not found'' 404)
            else act_fail (mk_error_cause (''Failed to delete namespace '' @ cluster @ ''/'' @ nm @ '': '' @ format_error err) err)))))"

section \<open>Counts and quantities as text\<close>

definition count_ok :: "js_num option \<Rightarrow> bool" where
  "count_ok v \<longleftrightarrow> (\<forall>n. v = Some n \<longrightarrow> (\<exists>k :: nat. n = Fin (of_nat k) \<and> k < 2 ^ 53))"

lemma num_text_nat: "k < 2 ^ 53 \<Longrightarrow> num_text fmt (Fin (of_nat k)) = nat_str k"
proof -
  assume k: "k < 2 ^ 53"
  have "(of_nat k :: rat) < of_nat (2 ^ 53)" using k by (simp only: of_nat_less_iff)
  then have "\<bar>of_nat k :: rat\<bar> < 10 ^ 21" by simp
  moreover have "\<lfloor>of_nat k :: rat\<rfloor> = int k" by simp
  ultimately show ?thesis by (simp add: num_text_def int_str_def)
qed

lemma js_number_nat: "k < 2 ^ 53 \<Longrightarrow> js_number (nat_str k) = Fin (of_nat k)"
  by (subst js_number_digits) (simp_all add: all_digits_def nat_str_digits)

lemma count_limit_text: "count_ok v \<Longrightarrow> count_limit (count_text fmt v) = v"
  by (cases v) (auto simp: count_ok_def count_text_def count_limit_def truthy_def opt_str_def num_text_nat js_number_nat)

lemma takeWhile_digits: "list_all is_digit s \<Longrightarrow> takeWhile is_digit s = s"
  by (simp add: takeWhile_eq_all_conv list_all_iff)

lemma dropWhile_digits: "list_all is_digit s \<Longrightarrow> dropWhile is_digit s = []"
  by (simp add: dropWhile_eq_Nil_conv list_all_iff)

lemma parseQuantity_nat:
  assumes k: "k < 2 ^ 53"
  shows "parseQuantity (Some (nat_str k)) = Some (Fin (of_nat k))"
proof -
  have d: "list_all is_digit (nat_str k)" by (rule nat_str_digits)
  have "hd (nat_str k) \<in> set (nat_str k)" by (rule hd_in_set) simp
  then have dg: "is_digit (hd (nat_str k))" by (rule nat_str_digit)
  have nd: "\<not> is_digit (CHR ''+'')" "\<not> is_digit (CHR ''-'')" by (code_simp, simp)
  have hd: "hd (nat_str k) \<noteq> CHR ''+''" using dg nd(1) by force
  have hd': "hd (nat_str k) \<noteq> CHR ''-''" using dg nd(2) by force
  have "js_space c \<Longrightarrow> c \<notin> set (nat_str k)" for c
    using nat_str_digit [of c k] by (auto simp: js_space_def is_digit_def char_code_def)
  then have tr: "js_trim (nat_str k) = nat_str k" by (intro js_trim_no_space) blast
  have r: "read_decimal (nat_str k) = Some (nat_str k, [])"
    using hd hd' by (simp add: read_decimal_def Let_def takeWhile_digits [OF d] dropWhile_digits [OF d])
  have "js_round (of_nat k :: rat) = Fin (of_nat k)"
    using js_round_of_int [of "int k"] k by simp
  then show ?thesis
    by (simp add: parseQuantity_def tr r read_exponent_def suffix_multiplier_def js_number_nat [OF k])
qed

lemma valid_trim: "isValidQuantity (js_trim s) \<longleftrightarrow> isValidQuantity s"
  by (simp add: isValidQuantity_def parseQuantity_def)

lemma byte_quantity_valid: "isValidByteQuantity s \<Longrightarrow> isValidQuantity (js_trim s)"
proof -
  have "isValidQuantity ''0''" by code_simp
  then show "isValidByteQuantity s \<Longrightarrow> ?thesis" by (auto simp: isValidByteQuantity_def Let_def)
qed

lemma check_text_limit_ok:
  "check_text_limit valid msg v = Inr u \<Longrightarrow> trim_or_undef v = Some s \<Longrightarrow> \<exists>r. js_trim r = s \<and> valid r"
  by (auto simp: check_text_limit_def trim_or_undef_Some split: option.splits if_splits)

lemma count_text_valid: "count_ok v \<Longrightarrow> count_text fmt v = Some s \<Longrightarrow> isValidQuantity s"
  by (auto simp: count_ok_def count_text_def num_text_nat isValidQuantity_def parseQuantity_nat split: option.splits if_splits)

lemma hard_keys: "obj_get (hardFromLimits fmt l) k = Some v \<Longrightarrow>
    k \<in> {quota_cpu, quota_memory, quota_storage, quota_vms, quota_pvcs}"
proof (rule ccontr)
  assume k: "k \<notin> {quota_cpu, quota_memory, quota_storage, quota_vms, quota_pvcs}"
  have np: "quota_cpu \<noteq> ''__proto__''" "quota_memory \<noteq> ''__proto__''" "quota_storage \<noteq> ''__proto__''"
    "quota_vms \<noteq> ''__proto__''" "quota_pvcs \<noteq> ''__proto__''"
    by (simp_all add: quota_resources)
  have "obj_get (hardFromLimits fmt l) k = None"
    using k by (simp add: hardFromLimits_def add_text_limit_get [OF np(1)] add_text_limit_get [OF np(2)]
        add_text_limit_get [OF np(3)] add_count_limit_get [OF np(4)] add_count_limit_get [OF np(5)])
  moreover assume "obj_get (hardFromLimits fmt l) k = Some v"
  ultimately show False by simp
qed

lemma trim_or_undef_idem: "opt_or_undef (trim_or_undef v) = trim_or_undef v"
  by (cases v) (auto simp: trim_or_undef_def opt_trim_def opt_or_undef_def or_undef_def)

section \<open>Reading leaves everything alone\<close>

lemma with_ns_leaves [leaves_intros]:
  "(\<And>core. ne_core ne cluster = Inr core \<Longrightarrow> leaves f (k core)) \<Longrightarrow> leaves f (with_ns ne cluster k)"
  by (cases "ne_core ne cluster") (simp_all add: with_ns_def leaves_def act_simps)

lemma read_allowed_leaves [leaves_intros]:
  assumes "leaves f (nsa_read core nm)"
  shows "leaves f (read_allowed core nm)"
  unfolding read_allowed_def by (intro leaves_intros assms)

section \<open>A cluster in memory\<close>

text \<open>The state is the list of the namespaces; the listing of VMs is a parameter.\<close>

definition lab_ns_api :: "string list ns_api" where
  "lab_ns_api =
     \<lparr>nsa_read = (\<lambda>nm s. if nm \<in> set s then (Inr (new_namespace nm), s) else (throw ''namespace not found'', s)),
      nsa_create = (\<lambda>ns s. (Inr ns, opt_str (kn_name ns) # s)),
      nsa_delete = (\<lambda>nm s. (Inr (), filter (\<lambda>x. x \<noteq> nm) s)),
      nsa_read_quota = (\<lambda>ns nm. act_throw ''quota not found''), nsa_replace_quota = (\<lambda>ns nm b. act_return b),
      nsa_create_quota = (\<lambda>ns b. act_return b), nsa_delete_quota = (\<lambda>ns nm. act_return ()),
      nsa_list_quotas = (\<lambda>ns. act_return None)\<rparr>"

definition lab_vm_list :: "(string list, kube_vm list option) act \<Rightarrow> (string list, kube_vm) custom_api" where
  "lab_vm_list l =
     \<lparr>api_list_cluster = (\<lambda>g l. act_throw ''not served''), api_list_ns = (\<lambda>g ns x. l),
      api_get_ns = (\<lambda>g ns nm. act_throw ''not served''), api_get_cluster = (\<lambda>g nm. act_throw ''not served''),
      api_create_ns = (\<lambda>g ns b. act_throw ''not served''), api_delete_ns = (\<lambda>g ns nm. act_throw ''not served''),
      api_replace_ns = (\<lambda>g ns nm b. act_throw ''not served''), api_patch_ns = (\<lambda>g ns nm b. act_throw ''not served'')\<rparr>"

definition lab_ns_env :: "(string list, kube_vm list option) act \<Rightarrow> string list ns_env" where
  "lab_ns_env l = \<lparr>ne_core = (\<lambda>c. Inr lab_ns_api), ne_vms = (\<lambda>c. Inr (lab_vm_list l))\<rparr>"

text \<open>The guard is gone when the listing fails: the namespace is deleted with its VMs.\<close>

lemma unlisted_vms_do_not_guard:
  "deleteNamespace (\<lambda>a b. True) (lab_ns_env (act_throw ''forbidden'')) ''c'' ''team'' [''team''] = (Inr (), [])"
  by code_simp

section \<open>Properties\<close>

text \<open>
  C28. The limits that the console accepts for a namespace survive the ResourceQuota. When the
  validation passes (and counts are whole numbers below 2^53), the quota is not empty, every entry
  of it is a quantity that parses to a number that is not negative, and reading the quota back
  gives the same limits with surrounding spaces removed.
\<close>

theorem accepted_limits_survive:
  assumes ok: "validateQuotaLimits fmt l = Inr u" and counts: "count_ok (ql_vms l)" "count_ok (ql_pvcs l)"
  shows "hardFromLimits fmt l \<noteq> [] \<and>
    (\<forall>k v. obj_get (hardFromLimits fmt l) k = Some v \<longrightarrow> isValidQuantity v) \<and>
    limitsFromHard (hardFromLimits fmt l) =
      l\<lparr>ql_cpu := trim_or_undef (ql_cpu l), ql_memory := trim_or_undef (ql_memory l), ql_storage := trim_or_undef (ql_storage l)\<rparr>"
proof -
  have c: "check_text_limit isValidCpuQuantity
       (\<lambda>s. ''Invalid CPU quota \"'' @ s @ ''\" (use cores like 16 or millicores like 500m)'') (ql_cpu l) = Inr ()"
    "check_text_limit isValidByteQuantity
       (\<lambda>s. ''Invalid memory quota \"'' @ s @ ''\" (use a quantity like 64Gi)'') (ql_memory l) = Inr ()"
    "check_text_limit isValidByteQuantity
       (\<lambda>s. ''Invalid storage quota \"'' @ s @ ''\" (use a quantity like 500Gi)'') (ql_storage l) = Inr ()"
    and any: "hasAnyLimit fmt l"
    using ok by (auto simp: validateQuotaLimits_def res_bind_Inr split: if_splits)
  have "isValidQuantity v" if g: "obj_get (hardFromLimits fmt l) k = Some v" for k v
    using hard_keys [OF g] g
  proof (elim insertE emptyE)
    assume "k = quota_cpu"
    then show ?thesis
      using g check_text_limit_ok [OF c(1), of v] by (auto simp: hardFromLimits_get isValidCpuQuantity_def Let_def)
  next
    assume "k = quota_memory"
    then show ?thesis
      using g check_text_limit_ok [OF c(2), of v] byte_quantity_valid by (auto simp: hardFromLimits_get)
  next
    assume "k = quota_storage"
    then show ?thesis
      using g check_text_limit_ok [OF c(3), of v] byte_quantity_valid by (auto simp: hardFromLimits_get)
  next
    assume "k = quota_vms"
    then show ?thesis using g counts(1) by (auto simp: hardFromLimits_get intro: count_text_valid)
  next
    assume "k = quota_pvcs"
    then show ?thesis using g counts(2) by (auto simp: hardFromLimits_get intro: count_text_valid)
  qed
  moreover have "limitsFromHard (hardFromLimits fmt l) =
      l\<lparr>ql_cpu := trim_or_undef (ql_cpu l), ql_memory := trim_or_undef (ql_memory l), ql_storage := trim_or_undef (ql_storage l)\<rparr>"
    by (simp add: limitsFromHard_def hardFromLimits_get count_limit_text counts trim_or_undef_idem)
  ultimately show ?thesis using any by (simp add: hasAnyLimit_def)
qed

lemma accepted_limits_survive_witness:
  "limitsFromHard (hardFromLimits (\<lambda>_. []) \<lparr>ql_cpu = Some '' 1500m '', ql_memory = Some ''64Gi'', ql_storage = None,
       ql_vms = Some (Fin 12), ql_pvcs = None\<rparr>) =
     \<lparr>ql_cpu = Some ''1500m'', ql_memory = Some ''64Gi'', ql_storage = None, ql_vms = Some (Fin 12), ql_pvcs = None\<rparr>"
    (is "limitsFromHard (hardFromLimits ?f ?l) = ?r")
proof -
  have v: "validateQuotaLimits ?f ?l = Inr ()" by code_simp
  have "count_ok (ql_vms ?l)" by (auto simp: count_ok_def intro: exI [of _ "12 :: nat"])
  moreover have "count_ok (ql_pvcs ?l)" by (simp add: count_ok_def)
  moreover have "?l\<lparr>ql_cpu := trim_or_undef (ql_cpu ?l), ql_memory := trim_or_undef (ql_memory ?l),
      ql_storage := trim_or_undef (ql_storage ?l)\<rparr> = ?r" by code_simp
  ultimately show ?thesis using accepted_limits_survive [OF v] by metis
qed

text \<open>
  C29. A namespace that still holds VMs is never deleted, as long as the VMs can be listed: the
  deletion throws, and nothing that reading leaves alone has changed.
\<close>

theorem namespace_with_vms_survives:
  assumes reads: "\<And>core nm. ne_core ne cluster = Inr core \<Longrightarrow> leaves f (nsa_read core nm)"
      "\<And>core ns. ne_core ne cluster = Inr core \<Longrightarrow> leaves f (nsa_list_quotas core ns)"
    and vms: "ne_vms ne cluster = Inr api"
      "\<And>s. \<exists>items. api_list_ns api vm_gvp nm None s = (Inr (Some items), s) \<and> items \<noteq> []"
  shows "\<exists>e t. deleteNamespace le ne cluster nm s = (Inl e, t) \<and> f t = f s"
proof -
  have count: "\<exists>n. countVms ne cluster nm s = (Inr n, s) \<and> 0 < n" for s
    using vms(2) [of s] by (auto simp: countVms_def vms(1) act_simps opt_default_def)
  have lcount: "leaves f (countVms ne cluster nm)"
    unfolding leaves_def using count by (metis snd_conv)
  have llist: "leaves f (listNamespaceQuotas le ne cluster nm)"
    unfolding listNamespaceQuotas_def by (intro leaves_intros reads)
  have lget: "leaves f (getNamespace le ne cluster nm)"
    unfolding getNamespace_def by (intro leaves_intros lcount llist reads)
  show ?thesis
  proof (cases "js_trim cluster = [] \<or> js_trim nm = []")
    case True
    then show ?thesis by (auto simp: deleteNamespace_def act_simps)
  next
    case False
    obtain r t where r: "getNamespace le ne cluster nm s = (r, t)" by fastforce
    have ft: "f t = f s" using leaves_snd [OF lget, of s] r by simp
    show ?thesis
    proof (cases r)
      case (Inl e)
      then show ?thesis using r ft False by (simp add: deleteNamespace_def act_simps)
    next
      case (Inr d)
      have "0 < nsd_vmCount d"
      proof -
        have "\<exists>core ns a. ne_core ne cluster = Inr core \<and> read_allowed core nm s = (Inr ns, a)"
          using r Inr by (auto simp: getNamespace_def with_ns_def act_simps split: sum.splits prod.splits)
        then obtain core ns a where ca: "ne_core ne cluster = Inr core" "read_allowed core nm s = (Inr ns, a)" by blast
        obtain n where n: "countVms ne cluster nm a = (Inr n, a)" "0 < n" using count by blast
        have "nsd_vmCount d = n"
          using r Inr ca n(1) by (auto simp: getNamespace_def with_ns_def act_simps split: sum.splits prod.splits)
        then show ?thesis using n(2) by simp
      qed
      then show ?thesis using r Inr ft False by (simp add: deleteNamespace_def act_simps)
    qed
  qed
qed

lemma namespace_with_vms_survives_witness:
  "\<exists>e t. deleteNamespace (\<lambda>a b. True) (lab_ns_env (act_return (Some [plain_vm ''a'']))) ''c'' ''team'' [''team''] = (Inl e, t) \<and>
     t = [''team'']"
proof -
  let ?ne = "lab_ns_env (act_return (Some [plain_vm ''a'']))"
  have core: "ne_core ?ne ''c'' = Inr core \<Longrightarrow> core = lab_ns_api" for core by (simp add: lab_ns_env_def)
  have r: "leaves (\<lambda>s. s) (nsa_read core nm)" if "ne_core ?ne ''c'' = Inr core" for core nm
    using core [OF that] by (simp add: leaves_def lab_ns_api_def)
  have l: "leaves (\<lambda>s. s) (nsa_list_quotas core nm)" if "ne_core ?ne ''c'' = Inr core" for core nm
    using core [OF that] by (simp add: leaves_def lab_ns_api_def act_simps)
  have v: "ne_vms ?ne ''c'' = Inr (lab_vm_list (act_return (Some [plain_vm ''a''])))" by (simp add: lab_ns_env_def)
  have i: "\<exists>items. api_list_ns (lab_vm_list (act_return (Some [plain_vm ''a'']))) vm_gvp ''team'' None s = (Inr (Some items), s) \<and> items \<noteq> []" for s
    by (simp add: lab_vm_list_def act_simps)
  show ?thesis
    using namespace_with_vms_survives [where f = "\<lambda>s. s" and s = "[''team'']", OF r l v i, of "\<lambda>a b. True"] by blast
qed

end
