(* ===== verification/Http_Client.thy ===== *)
theory Http_Client
  imports Json Js_Format
begin

text \<open>
  What the calls outside the generated clients share (\<open>lib/k8s/clients.server.ts\<close>): which status is
  fine, and the text of an error answer.
\<close>

text \<open>The text of a JSON value as \<open>String\<close> has it; \<open>null\<close> in a list is empty.\<close>

fun json_text :: "(rat \<Rightarrow> string) \<Rightarrow> json \<Rightarrow> string" where
  "json_text fmt JNull = ''null''"
| "json_text fmt (JBool b) = (if b then ''true'' else ''false'')"
| "json_text fmt (JNum n) = num_text fmt n"
| "json_text fmt (JStr s) = s"
| "json_text fmt (JArr xs) = js_join '','' (map (\<lambda>x. if x = JNull then [] else json_text fmt x) xs)"
| "json_text fmt (JObj ms) = ''[object Object]''"

fun json_truthy :: "json \<Rightarrow> bool" where
  "json_truthy JNull = False"
| "json_truthy (JBool b) = b"
| "json_truthy (JNum n) = (n \<noteq> Fin 0 \<and> n \<noteq> NaN)"
| "json_truthy (JStr s) = (s \<noteq> [])"
| "json_truthy (JArr xs) = True"
| "json_truthy (JObj ms) = True"

definition truthy_member :: "json jsobj \<Rightarrow> string \<Rightarrow> json option" where
  "truthy_member ms k = (case obj_get ms k of Some v \<Rightarrow> if json_truthy v then Some v else None | None \<Rightarrow> None)"

definition httpErrorMessage :: "(rat \<Rightarrow> string) \<Rightarrow> nat \<Rightarrow> string \<Rightarrow> string" where
  "httpErrorMessage fmt status body =
     (let fallback = (if body = [] then ''HTTP '' @ nat_str status else body) in
      case json_parse body of
        Some (JObj ms) \<Rightarrow>
          (case truthy_member ms ''message'' of
             Some m \<Rightarrow> json_text fmt m
           | None \<Rightarrow> (case truthy_member ms ''reason'' of Some r \<Rightarrow> json_text fmt r | None \<Rightarrow> fallback))
      | _ \<Rightarrow> fallback)"

definition http_ok :: "nat \<Rightarrow> bool" where
  "http_ok status \<longleftrightarrow> 200 \<le> status \<and> status < 300"

end
