(* ===== verification/Bulk_Actions.thy ===== *)
theory Bulk_Actions
  imports Http_Client Errors
begin

text \<open>
  \<open>lib/bulk-action.ts\<close>: one request that acts on many resources. The targets travel as JSON in a
  form field, are checked, and are acted on one after the other; a failure is recorded and the
  rest goes on.
\<close>

section \<open>Targets\<close>

definition BULK_TARGET_LIMIT :: nat where "BULK_TARGET_LIMIT = 100"

record bulk_resource_target =
  brt_cluster :: string
  brt_namespace :: string
  brt_name :: string

record bulk_cluster_target =
  bct_cluster :: string
  bct_name :: string

record bulk_floating_ip_target =
  bft_cluster :: string
  bft_namespace :: string
  bft_vpcName :: string
  bft_idOrPublic :: string

text \<open>The raw form field; \<open>None\<close> when it is not in the form. The error is the left value.\<close>

definition parseTargetArray :: "string option \<Rightarrow> string + json list" where
  "parseTargetArray raw =
     (if js_trim (opt_str raw) = [] then Inl ''Missing targets''
      else case json_parse (opt_str raw) of
             None \<Rightarrow> Inl ''Invalid targets JSON''
           | Some parsed \<Rightarrow>
               (case parsed of
                  JArr items \<Rightarrow>
                    if length items = 0 then Inl ''No targets selected''
                    else if BULK_TARGET_LIMIT < length items
                      then Inl (''Too many targets (max '' @ nat_str BULK_TARGET_LIMIT @ '')'')
                    else Inr items
                | _ \<Rightarrow> Inl ''Targets must be an array''))"

text \<open>\<open>String(obj[name] ?? "").trim()\<close>; an array has none of the fields that are asked for.\<close>

definition bulk_field :: "(rat \<Rightarrow> string) \<Rightarrow> json jsobj \<Rightarrow> string \<Rightarrow> string" where
  "bulk_field fmt ob nm =
     js_trim (case obj_get ob nm of None \<Rightarrow> [] | Some v \<Rightarrow> if v = JNull then [] else json_text fmt v)"

definition as_object :: "json \<Rightarrow> json jsobj option" where
  "as_object v = (case v of JObj ob \<Rightarrow> Some ob | JArr xs \<Rightarrow> Some [] | _ \<Rightarrow> None)"

text \<open>The loop of the parsers: the first bad target ends it.\<close>

fun parse_items :: "(json jsobj \<Rightarrow> string + 'a) \<Rightarrow> json list \<Rightarrow> string + 'a list" where
  "parse_items read [] = Inr []"
| "parse_items read (item # items) =
     (case as_object item of
        None \<Rightarrow> Inl ''Each target must be an object''
      | Some ob \<Rightarrow>
          (case read ob of
             Inl e \<Rightarrow> Inl e
           | Inr t \<Rightarrow> (case parse_items read items of Inl e \<Rightarrow> Inl e | Inr ts \<Rightarrow> Inr (t # ts))))"

definition parse_targets :: "(json jsobj \<Rightarrow> string + 'a) \<Rightarrow> string option \<Rightarrow> string + 'a list" where
  "parse_targets read raw =
     (case parseTargetArray raw of Inl e \<Rightarrow> Inl e | Inr items \<Rightarrow> parse_items read items)"

definition parseNamespacedBulkTargets :: "(rat \<Rightarrow> string) \<Rightarrow> string option \<Rightarrow> string + bulk_resource_target list" where
  "parseNamespacedBulkTargets fmt =
     parse_targets (\<lambda>ob.
       let cluster = bulk_field fmt ob ''cluster''; ns = bulk_field fmt ob ''namespace''; nm = bulk_field fmt ob ''name''
       in if cluster = [] \<or> ns = [] \<or> nm = [] then Inl ''Each target needs cluster, namespace, and name''
          else Inr \<lparr>brt_cluster = cluster, brt_namespace = ns, brt_name = nm\<rparr>)"

definition parseClusterBulkTargets :: "(rat \<Rightarrow> string) \<Rightarrow> string option \<Rightarrow> string + bulk_cluster_target list" where
  "parseClusterBulkTargets fmt =
     parse_targets (\<lambda>ob.
       let cluster = bulk_field fmt ob ''cluster''; nm = bulk_field fmt ob ''name''
       in if cluster = [] \<or> nm = [] then Inl ''Each target needs cluster and name''
          else Inr \<lparr>bct_cluster = cluster, bct_name = nm\<rparr>)"

definition parseIdBulkTargets :: "(rat \<Rightarrow> string) \<Rightarrow> string option \<Rightarrow> string + string list" where
  "parseIdBulkTargets fmt =
     parse_targets (\<lambda>ob. let i = bulk_field fmt ob ''id'' in if i = [] then Inl ''Each target needs id'' else Inr i)"

definition parseFloatingIpBulkTargets :: "(rat \<Rightarrow> string) \<Rightarrow> string option \<Rightarrow> string + bulk_floating_ip_target list" where
  "parseFloatingIpBulkTargets fmt =
     parse_targets (\<lambda>ob.
       let cluster = bulk_field fmt ob ''cluster''; ns = bulk_field fmt ob ''namespace'';
           vpcName = bulk_field fmt ob ''vpcName'';
           idOrPublic = (let i = bulk_field fmt ob ''idOrPublic'' in if i = [] then bulk_field fmt ob ''id'' else i)
       in if cluster = [] \<or> ns = [] \<or> vpcName = [] \<or> idOrPublic = []
          then Inl ''Each target needs cluster, namespace, vpcName, and idOrPublic''
          else Inr \<lparr>bft_cluster = cluster, bft_namespace = ns, bft_vpcName = vpcName, bft_idOrPublic = idOrPublic\<rparr>)"

text \<open>The text of an array of bags of strings.\<close>

definition bulkTargetsJson :: "string jsobj list \<Rightarrow> string" where
  "bulkTargetsJson targets = ''['' @ js_join '','' (map json_stringify targets) @ '']''"

definition namespacedKey :: "bulk_resource_target \<Rightarrow> string" where
  "namespacedKey t = brt_cluster t @ ''/'' @ brt_namespace t @ ''/'' @ brt_name t"

definition clusterScopedKey :: "bulk_cluster_target \<Rightarrow> string" where
  "clusterScopedKey t = bct_cluster t @ ''/'' @ bct_name t"

section \<open>Results\<close>

datatype bulk_status = ItemOk | ItemSkipped | ItemFailed

record bulk_item_result =
  bir_key :: string
  bir_status :: bulk_status
  bir_error :: "string option"
  bir_retainedDisks :: "string list option"

record bulk_summary =
  bsu_total :: nat
  bsu_succeeded :: nat
  bsu_skipped :: nat
  bsu_failed :: nat

record bulk_result =
  br_ok :: bool
  br_intent :: string
  br_summary :: bulk_summary
  br_results :: "bulk_item_result list"
  br_retainDisks :: "bool option"

fun count_results :: "nat \<Rightarrow> nat \<Rightarrow> nat \<Rightarrow> bulk_item_result list \<Rightarrow> nat \<times> nat \<times> nat" where
  "count_results succeeded skipped failed [] = (succeeded, skipped, failed)"
| "count_results succeeded skipped failed (r # rs) =
     (case bir_status r of
        ItemOk \<Rightarrow> count_results (succeeded + 1) skipped failed rs
      | ItemSkipped \<Rightarrow> count_results succeeded (skipped + 1) failed rs
      | ItemFailed \<Rightarrow> count_results succeeded skipped (failed + 1) rs)"

definition summarizeBulkResults :: "bulk_item_result list \<Rightarrow> bulk_summary" where
  "summarizeBulkResults results =
     (case count_results 0 0 0 results of (succeeded, skipped, failed) \<Rightarrow>
        \<lparr>bsu_total = length results, bsu_succeeded = succeeded, bsu_skipped = skipped, bsu_failed = failed\<rparr>)"

text \<open>One target; \<open>run\<close> answers with the disks it has kept, if it says so.\<close>

definition bulk_item ::
  "('a \<Rightarrow> string) \<Rightarrow> ('a \<Rightarrow> ('s, string list option) act) \<Rightarrow> 'a \<Rightarrow> 's \<Rightarrow> bulk_item_result \<times> 's" where
  "bulk_item keyOf run target s =
     (case run target s of
        (Inr disks, t) \<Rightarrow> (\<lparr>bir_key = keyOf target, bir_status = ItemOk, bir_error = None, bir_retainedDisks = disks\<rparr>, t)
      | (Inl err, t) \<Rightarrow>
          (\<lparr>bir_key = keyOf target, bir_status = ItemFailed, bir_error = Some (format_error err), bir_retainedDisks = None\<rparr>, t))"

fun bulk_items ::
  "('a \<Rightarrow> string) \<Rightarrow> ('a \<Rightarrow> ('s, string list option) act) \<Rightarrow> 'a list \<Rightarrow> 's \<Rightarrow> bulk_item_result list \<times> 's" where
  "bulk_items keyOf run [] s = ([], s)"
| "bulk_items keyOf run (x # xs) s =
     (let (r, t) = bulk_item keyOf run x s; (rs, u) = bulk_items keyOf run xs t in (r # rs, u))"

definition runBulkAction ::
  "string \<Rightarrow> 'a list \<Rightarrow> ('a \<Rightarrow> string) \<Rightarrow> ('a \<Rightarrow> ('s, string list option) act) \<Rightarrow> bool option \<Rightarrow> ('s, bulk_result) act" where
  "runBulkAction intent targets keyOf run retainDisks s =
     (let (results, t) = bulk_items keyOf run targets s; summary = summarizeBulkResults results in
      (Inr \<lparr>br_ok = (bsu_failed summary = 0), br_intent = intent, br_summary = summary, br_results = results,
            br_retainDisks = retainDisks\<rparr>, t))"

text \<open>The answer of an action, told from other data.\<close>

definition isBulkActionResult :: "json \<Rightarrow> bool" where
  "isBulkActionResult data \<longleftrightarrow>
     (case data of
        JObj d \<Rightarrow>
          (case obj_get d ''summary'' of None \<Rightarrow> False | Some v \<Rightarrow> v \<noteq> JNull) \<and>
          (case obj_get d ''intent'' of Some (JStr s) \<Rightarrow> js_starts_with s ''bulk-'' | _ \<Rightarrow> False) \<and>
          (case obj_get d ''results'' of Some (JArr rs) \<Rightarrow> True | _ \<Rightarrow> False)
      | _ \<Rightarrow> False)"

section \<open>Lemmas\<close>

lemma count_results_sum:
  "count_results a b c rs =
     (a + length (filter (\<lambda>r. bir_status r = ItemOk) rs), b + length (filter (\<lambda>r. bir_status r = ItemSkipped) rs),
      c + length (filter (\<lambda>r. bir_status r = ItemFailed) rs))"
  by (induction a b c rs rule: count_results.induct) (auto split: bulk_status.splits)

lemma status_partition:
  "length (filter (\<lambda>r. bir_status r = ItemOk) rs) + length (filter (\<lambda>r. bir_status r = ItemSkipped) rs) +
     length (filter (\<lambda>r. bir_status r = ItemFailed) rs) = length rs"
proof (induction rs)
  case (Cons r rs)
  then show ?case by (cases "bir_status r") auto
qed simp

text \<open>The states that the targets see, in order.\<close>

fun bulk_states :: "('a \<Rightarrow> ('s, 'b) act) \<Rightarrow> 'a list \<Rightarrow> 's \<Rightarrow> 's list" where
  "bulk_states run [] s = []"
| "bulk_states run (x # xs) s = s # bulk_states run xs (snd (run x s))"

lemma bulk_item_state: "snd (bulk_item keyOf run x s) = snd (run x s)"
  by (auto simp: bulk_item_def split: prod.splits sum.splits)

lemma length_bulk_states [simp]: "length (bulk_states run xs s) = length xs"
  by (induction xs arbitrary: s) auto

lemma bulk_items_states:
  "fst (bulk_items keyOf run xs s) = map (\<lambda>(x, u). fst (bulk_item keyOf run x u)) (zip xs (bulk_states run xs s))"
proof (induction xs arbitrary: s)
  case (Cons x xs)
  have "snd (bulk_item keyOf run x s) = snd (run x s)" by (rule bulk_item_state)
  then show ?case using Cons [of "snd (run x s)"] by (simp add: case_prod_beta Let_def)
qed simp

lemma not_json_space_bracket: "\<not> json_space (CHR ''['')" "\<not> json_space (CHR '']'')"
  by (simp_all add: json_space_def char_code_def)

lemma read_object:
  assumes "es \<noteq> []" "length es < n"
  shows "read_value (Suc (Suc n)) (json_stringify es @ r) = Some (JObj (foldl (\<lambda>ob (k, v). obj_put ob k (JStr v)) [] es), r)"
proof -
  define body where "body = js_join '','' (map json_member es) @ ''}'' @ r"
  have s: "json_stringify es @ r = CHR ''{'' # body" by (simp add: json_stringify_def body_def)
  obtain e es' where es: "es = e # es'" using assms by (cases es) auto
  have b: "\<exists>t. body = CHR 0x22 # t"
    by (cases e; cases "es' = []") (simp_all add: body_def es js_join_Cons json_member_def json_string_read)
  then have sp: "skip_space body = body" "hd body \<noteq> CHR ''}''" "body \<noteq> []"
    using not_json_space by (auto intro!: skip_space_id)
  have sp0: "skip_space (CHR ''{'' # body) = CHR ''{'' # body"
    by (rule skip_space_id) (simp add: not_json_space)
  have "read_members (Suc n) [] body = Some (foldl (\<lambda>ob (k, v). obj_put ob k (JStr v)) [] es, r)"
    unfolding body_def by (rule read_members_all [OF assms(2,1)])
  then show ?thesis
    using sp by (simp add: s sp0 Let_def del: read_members.simps)
qed

lemma read_elements_all:
  "xs \<noteq> [] \<Longrightarrow> \<forall>es \<in> set xs. es \<noteq> [] \<and> length es \<le> k \<Longrightarrow> length xs + k + 2 \<le> n \<Longrightarrow>
     read_elements (Suc n) acc (js_join '','' (map json_stringify xs) @ '']'' @ r) =
       Some (acc @ map (\<lambda>es. JObj (foldl (\<lambda>ob (k, v). obj_put ob k (JStr v)) [] es)) xs, r)"
proof (induction xs arbitrary: n acc)
  case (Cons es xs)
  have "k + 3 \<le> n" using Cons.prems(3) by simp
  then obtain m where m: "n = Suc (Suc m)" "k < m" by (intro that [of "n - 2"]) simp_all
  have es: "es \<noteq> []" "length es < m" using Cons.prems(2) m(2) by auto
  have c: "skip_space (CHR '','' # x) = CHR '','' # x" "skip_space (CHR '']'' # x) = CHR '']'' # x" for x
    by (rule skip_space_id, simp add: not_json_space not_json_space_bracket)+
  show ?case
  proof (cases "xs = []")
    case True
    then show ?thesis
      using read_object [OF es, of "'']'' @ r"] by (simp add: m(1) c del: read_value.simps)
  next
    case False
    have j: "js_join '','' (map json_stringify (es # xs)) @ '']'' @ r =
        json_stringify es @ CHR '','' # js_join '','' (map json_stringify xs) @ '']'' @ r"
      using False by (simp add: js_join_Cons)
    have ih: "read_elements (Suc (Suc m)) (acc @ [JObj (foldl (\<lambda>ob (k, v). obj_put ob k (JStr v)) [] es)])
        (js_join '','' (map json_stringify xs) @ '']'' @ r) =
      Some (acc @ map (\<lambda>es. JObj (foldl (\<lambda>ob (k, v). obj_put ob k (JStr v)) [] es)) (es # xs), r)"
      using Cons.IH [of "Suc m" "acc @ [JObj (foldl (\<lambda>ob (k, v). obj_put ob k (JStr v)) [] es)]"] Cons.prems False
      by (simp add: m(1) del: read_elements.simps)
    have step: "read_elements (Suc (Suc (Suc m))) acc (json_stringify es @ CHR '','' # x) =
        read_elements (Suc (Suc m)) (acc @ [JObj (foldl (\<lambda>ob (k, v). obj_put ob k (JStr v)) [] es)]) x" for x
      by (subst read_elements.simps) (simp add: read_object [OF es] c del: read_value.simps read_elements.simps)
    show ?thesis unfolding j m(1) step by (rule ih)
  qed
qed simp

lemma js_join_length_le: "\<forall>x \<in> set xs. x \<noteq> [] \<Longrightarrow> length xs \<le> length (js_join sep xs)"
proof (induction xs)
  case (Cons x xs)
  then have ih: "length xs \<le> length (js_join sep xs)" by simp
  obtain c x' where x: "x = c # x'" using Cons.prems by (cases x) auto
  show ?case using ih by (cases "xs = []") (simp_all add: js_join_Cons x)
qed simp

lemma parse_targets_json:
  assumes "xs \<noteq> []" and k: "\<forall>es \<in> set xs. es \<noteq> [] \<and> length es \<le> 5"
  shows "json_parse (bulkTargetsJson xs) = Some (JArr (map (\<lambda>es. JObj (foldl (\<lambda>ob (k, v). obj_put ob k (JStr v)) [] es)) xs))"
proof -
  define body where "body = js_join '','' (map json_stringify xs) @ '']'' @ []"
  obtain es xs' where xs: "xs = es # xs'" using assms by (cases xs) auto
  have b: "\<exists>t. body = CHR ''{'' # t"
    by (cases "xs' = []") (simp_all add: body_def xs js_join_Cons json_stringify_def)
  then have sp: "skip_space body = body" "hd body \<noteq> CHR '']''" "body \<noteq> []"
    using not_json_space by (auto intro!: skip_space_id)
  have sp0: "skip_space (CHR ''['' # body) = CHR ''['' # body"
    by (rule skip_space_id) (simp add: not_json_space_bracket)
  have "2 \<le> length (json_stringify ys)" for ys by (simp add: json_stringify_def)
  then have ne: "json_stringify ys \<noteq> []" for ys by (metis list.size(3) not_numeral_le_zero)
  have "length xs \<le> length (js_join '','' (map json_stringify xs))"
    using js_join_length_le [of "map json_stringify xs" "'',''"] ne by auto
  moreover obtain k v es' where es: "es = (k, v) # es'" using k xs by (cases es) auto
  have "7 \<le> length (json_stringify es)"
    by (cases "es' = []") (simp_all add: es json_stringify_def js_join_Cons json_member_def json_string_def)
  then have "7 \<le> length (js_join '','' (map json_stringify xs))"
    by (cases "xs' = []") (simp_all add: xs js_join_Cons)
  ultimately have "length xs + 5 + 2 \<le> 2 * length body + 2" by (simp add: body_def)
  then have "read_elements (Suc (2 * length body + 2)) [] body =
      Some (map (\<lambda>es. JObj (foldl (\<lambda>ob (k, v). obj_put ob k (JStr v)) [] es)) xs, [])"
    using read_elements_all [OF assms(1) k, of "2 * length body + 2" "[]" "[]"]
    unfolding body_def by simp
  then have "read_value (Suc (Suc (2 * length body + 2))) (CHR ''['' # body) =
      Some (JArr (map (\<lambda>es. JObj (foldl (\<lambda>ob (k, v). obj_put ob k (JStr v)) [] es)) xs), [])"
    using sp by (simp add: sp0 Let_def del: read_elements.simps)
  moreover have "bulkTargetsJson xs = CHR ''['' # body" by (simp add: bulkTargetsJson_def body_def)
  ultimately show ?thesis unfolding json_parse_def by (simp add: skip_space_def del: read_value.simps)
qed

text \<open>The bag that the page sends for a target, and a target that needs no trimming.\<close>

definition target_bag :: "bulk_resource_target \<Rightarrow> string jsobj" where
  "target_bag t = [(''cluster'', brt_cluster t), (''namespace'', brt_namespace t), (''name'', brt_name t)]"

definition clean :: "string \<Rightarrow> bool" where
  "clean s \<longleftrightarrow> s \<noteq> [] \<and> js_trim s = s"

definition clean_target :: "bulk_resource_target \<Rightarrow> bool" where
  "clean_target t \<longleftrightarrow> clean (brt_cluster t) \<and> clean (brt_namespace t) \<and> clean (brt_name t)"

lemma parse_items_map:
  "(\<And>x. x \<in> set xs \<Longrightarrow> \<exists>ob. as_object (g x) = Some ob \<and> read ob = Inr (h x)) \<Longrightarrow> parse_items read (map g xs) = Inr (map h xs)"
proof (induction xs)
  case (Cons x xs)
  then obtain ob where "as_object (g x) = Some ob" "read ob = Inr (h x)" by auto
  moreover have "parse_items read (map g xs) = Inr (map h xs)" using Cons by simp
  ultimately show ?case by simp
qed simp

lemma parse_items_all:
  "parse_items read items = Inr ts \<Longrightarrow> length ts = length items \<and> (\<forall>t \<in> set ts. \<exists>ob. read ob = Inr t)"
  by (induction items arbitrary: ts) (auto split: option.splits sum.splits)

section \<open>Properties\<close>

text \<open>
  C30. What the page selects is what the action gets. The JSON of one to a hundred targets parses
  back to the same targets in the same order; and whatever text arrives, targets that are accepted
  are one to a hundred, each with a cluster, a namespace and a name.
\<close>

theorem bulk_targets_arrive:
  "(targets \<noteq> [] \<and> length targets \<le> BULK_TARGET_LIMIT \<and> list_all clean_target targets \<longrightarrow>
      parseNamespacedBulkTargets fmt (Some (bulkTargetsJson (map target_bag targets))) = Inr targets) \<and>
   (\<forall>raw ts. parseNamespacedBulkTargets fmt raw = Inr ts \<longrightarrow>
      0 < length ts \<and> length ts \<le> BULK_TARGET_LIMIT \<and>
      (\<forall>t \<in> set ts. brt_cluster t \<noteq> [] \<and> brt_namespace t \<noteq> [] \<and> brt_name t \<noteq> []))"
proof (intro conjI impI allI)
  assume a: "targets \<noteq> [] \<and> length targets \<le> BULK_TARGET_LIMIT \<and> list_all clean_target targets"
  let ?j = "bulkTargetsJson (map target_bag targets)"
  let ?g = "\<lambda>t. JObj (foldl (\<lambda>ob (k, v). obj_put ob k (JStr v)) [] (target_bag t))"
  have p: "json_parse ?j = Some (JArr (map ?g targets))"
    using parse_targets_json [of "map target_bag targets"] a by (simp add: target_bag_def comp_def)
  have "js_trim ?j \<noteq> []"
  proof -
    have "?j = CHR ''['' # js_join '','' (map json_stringify (map target_bag targets)) @ [CHR '']'']"
      by (simp add: bulkTargetsJson_def)
    moreover have "\<not> js_space (CHR ''['')" "\<not> js_space (CHR '']'')" by (simp_all add: js_space_def)
    ultimately show ?thesis using js_trim_id [of ?j] by (metis last_ConsR last_snoc list.distinct(1) list.sel(1) snoc_eq_iff_butlast)
  qed
  then have "parseTargetArray (Some ?j) = Inr (map ?g targets)"
    using a by (simp add: parseTargetArray_def opt_str_def p)
  moreover have "\<exists>ob. as_object (?g t) = Some ob \<and>
      (let cluster = bulk_field fmt ob ''cluster''; ns = bulk_field fmt ob ''namespace''; nm = bulk_field fmt ob ''name''
       in if cluster = [] \<or> ns = [] \<or> nm = [] then Inl ''Each target needs cluster, namespace, and name''
          else Inr \<lparr>brt_cluster = cluster, brt_namespace = ns, brt_name = nm\<rparr>) = Inr t"
    if "t \<in> set targets" for t
    using a that by (auto simp: as_object_def target_bag_def bulk_field_def clean_target_def clean_def list_all_iff)
  note m = parse_items_map [of targets ?g _ "\<lambda>t. t", OF this]
  ultimately show "parseNamespacedBulkTargets fmt (Some ?j) = Inr targets"
    using m by (simp add: parseNamespacedBulkTargets_def parse_targets_def)
next
  fix raw ts
  assume "parseNamespacedBulkTargets fmt raw = Inr ts"
  then obtain items where i: "parseTargetArray raw = Inr items"
    and ts: "parse_items (\<lambda>ob.
       let cluster = bulk_field fmt ob ''cluster''; ns = bulk_field fmt ob ''namespace''; nm = bulk_field fmt ob ''name''
       in if cluster = [] \<or> ns = [] \<or> nm = [] then Inl ''Each target needs cluster, namespace, and name''
          else Inr \<lparr>brt_cluster = cluster, brt_namespace = ns, brt_name = nm\<rparr>) items = Inr ts"
    by (auto simp: parseNamespacedBulkTargets_def parse_targets_def split: sum.splits)
  have "0 < length items \<and> length items \<le> BULK_TARGET_LIMIT"
    using i by (auto simp: parseTargetArray_def split: if_splits option.splits json.splits)
  then show "0 < length ts" "length ts \<le> BULK_TARGET_LIMIT"
    using parse_items_all [OF ts] by simp_all
  show "\<forall>t \<in> set ts. brt_cluster t \<noteq> [] \<and> brt_namespace t \<noteq> [] \<and> brt_name t \<noteq> []"
    using parse_items_all [OF ts] by (auto simp: Let_def split: if_splits)
qed

lemma bulk_targets_arrive_witness:
  "parseNamespacedBulkTargets (\<lambda>_. []) (Some (bulkTargetsJson (map target_bag
      [\<lparr>brt_cluster = ''c'', brt_namespace = ''n'', brt_name = ''a''\<rparr>, \<lparr>brt_cluster = ''c'', brt_namespace = ''n'', brt_name = ''b \"x''\<rparr>]))) =
     Inr [\<lparr>brt_cluster = ''c'', brt_namespace = ''n'', brt_name = ''a''\<rparr>, \<lparr>brt_cluster = ''c'', brt_namespace = ''n'', brt_name = ''b \"x''\<rparr>]"
    (is "parseNamespacedBulkTargets ?f (Some (bulkTargetsJson (map target_bag ?ts))) = _")
proof -
  have "?ts \<noteq> [] \<and> length ?ts \<le> BULK_TARGET_LIMIT \<and> list_all clean_target ?ts" by code_simp
  then show ?thesis using bulk_targets_arrive [of ?ts ?f] by blast
qed

text \<open>
  C31. A bulk action tries every target, in order, whatever happens to the others: there is one
  result per target, with its key; the result of a target is what acting on it gives in the state
  that the targets before it have left; the counts add up, and the action is ok exactly when none
  has failed.
\<close>

theorem bulk_action_tries_all:
  assumes "runBulkAction intent targets keyOf run retain s = (r, t)"
  shows "\<exists>b. r = Inr b \<and>
    br_results b = map (\<lambda>(x, u). fst (bulk_item keyOf run x u)) (zip targets (bulk_states run targets s)) \<and>
    map bir_key (br_results b) = map keyOf targets \<and>
    bsu_total (br_summary b) = length targets \<and>
    bsu_succeeded (br_summary b) + bsu_skipped (br_summary b) + bsu_failed (br_summary b) = length targets \<and>
    (br_ok b \<longleftrightarrow> (\<forall>(x, u) \<in> set (zip targets (bulk_states run targets s)). res_ok (fst (run x u))))"
proof -
  obtain b where b: "r = Inr b" "br_results b = fst (bulk_items keyOf run targets s)"
    "br_summary b = summarizeBulkResults (br_results b)" "br_ok b = (bsu_failed (br_summary b) = 0)"
    using assms by (auto simp: runBulkAction_def Let_def split: prod.splits)
  have res: "br_results b = map (\<lambda>(x, u). fst (bulk_item keyOf run x u)) (zip targets (bulk_states run targets s))"
    by (simp add: b(2) bulk_items_states)
  have len: "length (br_results b) = length targets" by (simp add: res)
  have key: "bir_key (fst (bulk_item keyOf run x u)) = keyOf x" for x u
    by (auto simp: bulk_item_def split: prod.splits sum.splits)
  have st: "bir_status (fst (bulk_item keyOf run x u)) = ItemFailed \<longleftrightarrow> \<not> res_ok (fst (run x u))" for x u
    by (auto simp: bulk_item_def split: prod.splits sum.splits)
  have "map bir_key (br_results b) = map keyOf (map fst (zip targets (bulk_states run targets s)))"
    unfolding res by (simp add: key case_prod_beta comp_def del: map_fst_zip)
  moreover have "map fst (zip targets (bulk_states run targets s)) = targets" by simp
  ultimately have keys: "map bir_key (br_results b) = map keyOf targets" by simp
  have "br_ok b \<longleftrightarrow> (\<forall>x \<in> set (br_results b). bir_status x \<noteq> ItemFailed)"
    by (simp add: b(3,4) summarizeBulkResults_def count_results_sum filter_empty_conv)
  then have "br_ok b \<longleftrightarrow> (\<forall>(x, u) \<in> set (zip targets (bulk_states run targets s)). res_ok (fst (run x u)))"
    by (auto simp: res st)
  then show ?thesis
    using b(1) res keys len status_partition [of "br_results b"]
    by (auto simp: b(3) summarizeBulkResults_def count_results_sum)
qed

lemma bulk_action_tries_all_witness:
  "\<exists>b t. runBulkAction ''bulk-stop'' [''a'', ''b'', ''c''] (\<lambda>x. x)
      (\<lambda>x s. if x = ''b'' then (throw ''busy'', s) else (Inr None, s @ x)) None [] = (Inr b, t) \<and>
     t = ''ac'' \<and> map bir_key (br_results b) = [''a'', ''b'', ''c''] \<and> bsu_total (br_summary b) = 3"
    (is "\<exists>b t. ?run = _ \<and> _ b t")
proof -
  obtain r t where run: "?run = (r, t)" by (rule prod.exhaust)
  have "snd ?run = ''ac''" by code_simp
  then have "t = ''ac''" by (simp add: run)
  then show ?thesis using run bulk_action_tries_all [OF run] by auto
qed

end
