(* ===== verification/Vpc_Views.thy ===== *)
theory Vpc_Views
  imports Cidr Netplan Vm_Rules Net_Resources
begin

text \<open>
  The custom resources of virtual networks (VPC, Router, FloatingIP, PortForward) as
  \<open>lib/k8s/networking-cr.server.ts\<close> declares them, and the pure part of \<open>vpcs/vpcs.server.ts\<close>:
  what is accepted, and how an object is shown.
\<close>

section \<open>Custom resources\<close>

definition KMC_LABEL_ROLE :: string where "KMC_LABEL_ROLE = KMC_LABEL_NAMESPACE @ ''/role''"
definition KMC_ROLE_ROUTER :: string where "KMC_ROLE_ROUTER = ''router''"
definition KMC_LABEL_VPC :: string where "KMC_LABEL_VPC = KMC_LABEL_NAMESPACE @ ''/vpc''"
definition KMC_LABEL_ROUTER :: string where "KMC_LABEL_ROUTER = KMC_LABEL_NAMESPACE @ ''/router''"

record local_ref =
  lr_name :: string

record vpc_cr_spec =
  vcs_vlanPoolRef :: "local_ref option"
  vcs_cidr :: "string option"
  vcs_gateway :: "string option"
  vcs_dns :: "string list option"
  vcs_description :: "string option"

record vpc_cr_status =
  vct_phase :: "string option"
  vct_vlan :: "js_num option"
  vct_bridge :: "string option"
  vct_networkAttachmentReady :: "bool option"
  vct_routerRef :: "local_ref option"
  vct_observedGeneration :: "int option"
  vct_conditions :: "cr_condition list option"

record vpc_cr =
  vcr_apiVersion :: "string option"
  vcr_kind :: "string option"
  vcr_metadata :: "object_meta option"
  vcr_spec :: "vpc_cr_spec option"
  vcr_status :: "vpc_cr_status option"

record router_vpc_attachment =
  rva_name :: string
  rva_gateway :: "string option"

record router_external_spec =
  res_multusNetwork :: string
  res_address :: "string option"
  res_snat :: "bool option"

record router_image_ref =
  rim_kind :: "string option"
  rim_namespace :: string
  rim_name :: string

record router_appliance_spec =
  ras_image :: router_image_ref
  ras_instanceType :: "string option"
  ras_cpuCores :: "js_num option"
  ras_memory :: "string option"
  ras_diskSize :: string
  ras_storageClass :: "string option"
  ras_sshPublicKeys :: "string list"
  ras_runStrategy :: "string option"

record router_cr_spec =
  rcs_vpcs :: "router_vpc_attachment list option"
  rcs_external :: "router_external_spec option"
  rcs_appliance :: "router_appliance_spec option"

record router_status_interface =
  rsi_vpc :: "string option"
  rsi_cidr :: "string option"
  rsi_gateway :: "string option"
  rsi_mac :: "string option"
  rsi_domain :: "string option"

record router_status_external =
  rse_multusNetwork :: "string option"
  rse_primaryCidr :: "string option"
  rse_gateway :: "string option"
  rse_mac :: "string option"
  rse_snat :: "bool option"

record router_agent =
  rag_status :: "string option"
  rag_observedGeneration :: "string option"
  rag_lastError :: "string option"
  rag_appliedAt :: "string option"
  rag_heartbeatAt :: "string option"
  rag_version :: "string option"

record router_cr_status =
  rct_phase :: "string option"
  rct_policyConfigMap :: "string option"
  rct_policyGeneration :: "int option"
  rct_interfaces :: "router_status_interface list option"
  rct_external :: "router_status_external option"
  rct_vmName :: "string option"
  rct_vmStatus :: "string option"
  rct_vmReady :: "bool option"
  rct_vmMissing :: "bool option"
  rct_applianceRecreateNonce :: "string option"
  rct_agent :: "router_agent option"
  rct_observedGeneration :: "int option"
  rct_conditions :: "cr_condition list option"

record router_cr =
  rcr_apiVersion :: "string option"
  rcr_kind :: "string option"
  rcr_metadata :: "object_meta option"
  rcr_spec :: "router_cr_spec option"
  rcr_status :: "router_cr_status option"

record fip_cr_spec =
  fcs_poolRef :: "pool_ref option"
  fcs_address :: "string option"
  fcs_vpcRef :: "local_ref option"
  fcs_routerRef :: "local_ref option"
  fcs_privateAddress :: "string option"
  fcs_targetVM :: "local_ref option"

record fip_cr_status =
  fct_phase :: "string option"
  fct_address :: "string option"
  fct_prefixLength :: "int option"
  fct_programmed :: "bool option"
  fct_observedGeneration :: "int option"
  fct_conditions :: "cr_condition list option"

record fip_cr =
  fcr_apiVersion :: "string option"
  fcr_kind :: "string option"
  fcr_metadata :: "object_meta option"
  fcr_spec :: "fip_cr_spec option"
  fcr_status :: "fip_cr_status option"

record pf_cr_spec =
  pcs_vpcRef :: "local_ref option"
  pcs_routerRef :: "local_ref option"
  pcs_publicAddress :: "string option"
  pcs_publicPort :: "js_num option"
  pcs_privateAddress :: "string option"
  pcs_privatePort :: "js_num option"
  pcs_protocol :: "string option"
  pcs_targetVM :: "local_ref option"

record pf_cr_status =
  pct_phase :: "string option"
  pct_programmed :: "bool option"
  pct_observedGeneration :: "int option"
  pct_conditions :: "cr_condition list option"

record pf_cr =
  pcr_apiVersion :: "string option"
  pcr_kind :: "string option"
  pcr_metadata :: "object_meta option"
  pcr_spec :: "pf_cr_spec option"
  pcr_status :: "pf_cr_status option"

text \<open>\<open>ref?.name\<close>.\<close>

abbreviation ref_name :: "local_ref option \<Rightarrow> string option" where
  "ref_name r \<equiv> map_option lr_name r"

text \<open>
  A VirtualMachine as this component reads it; a network is the \<open>networkName\<close> of its
  \<open>multus\<close>, if any.
\<close>

record vpc_vm =
  vvm_name :: "string option"
  vvm_namespace :: "string option"
  vvm_labels :: "string jsobj option"
  vvm_annotations :: "string jsobj option"
  vvm_networks :: "string option list option"

section \<open>Addresses and references\<close>

text \<open>Of a list of addresses, the first one inside the block; without a usable block, the first.\<close>

definition allocatedIpv4ForVpc :: "string option \<Rightarrow> string option \<Rightarrow> string option" where
  "allocatedIpv4ForVpc annotation vpcCidr =
     (if js_trim (opt_str annotation) = [] then None
      else case trim_list (js_split (CHR '','') (opt_str annotation)) of
        [] \<Rightarrow> None
      | p # ps \<Rightarrow>
          if js_trim (opt_str vpcCidr) = [] then Some p
          else case parseCidr (js_trim (opt_str vpcCidr)) of
            Inl e \<Rightarrow> Some p
          | Inr parsed \<Rightarrow>
              find (\<lambda>part. case addressFromIpv4Annotation part of
                             None \<Rightarrow> False
                           | Some a \<Rightarrow> containsIpv4_str parsed a = Inr True) (p # ps))"

definition multusRefMatches :: "string option \<Rightarrow> string \<Rightarrow> string \<Rightarrow> bool" where
  "multusRefMatches networkName vpcNamespace vpcName \<longleftrightarrow>
     (let n = js_trim (opt_str networkName) in
      n \<noteq> [] \<and> (n = vpcName \<or> n = vpcNamespace @ ''/'' @ vpcName))"

section \<open>What is accepted\<close>

record ipam_fields =
  ipf_cidr :: "string option"
  ipf_gateway :: "string option"
  ipf_dns :: "string list option"

fun check_dns :: "string list \<Rightarrow> unit result" where
  "check_dns [] = Inr ()"
| "check_dns (d # ds) =
     (if js_trim d = [] then check_dns ds
      else res_bind (parseIpv4 (js_trim d)) (\<lambda>_. check_dns ds))"

definition validateVpcIpamFields :: "ipam_fields \<Rightarrow> unit result" where
  "validateVpcIpamFields inp =
     (let cidr = js_trim (opt_str (ipf_cidr inp)); gw = js_trim (opt_str (ipf_gateway inp)) in
      if cidr \<noteq> [] then
        res_bind (parseCidr cidr) (\<lambda>parsed.
        res_bind
          (if gw = [] then Inr ()
           else res_bind (parseIpv4 gw) (\<lambda>_.
                res_bind (containsIpv4_str parsed gw) (\<lambda>inside.
                  if inside then Inr ()
                  else throw (''gateway '' @ gw @ '' is outside '' @ pc_cidr parsed))))
          (\<lambda>_. check_dns (opt_default [] (ipf_dns inp))))
      else if gw \<noteq> [] then throw ''gateway requires cidr (enable private IPAM)''
      else Inr ())"

record create_vpc_request =
  cvr_cluster :: string
  cvr_namespace :: string
  cvr_name :: string
  cvr_description :: "string option"
  cvr_ipam :: ipam_fields
  cvr_vlanPoolId :: "string option"

definition validateCreateVpcInput :: "create_vpc_request \<Rightarrow> unit result" where
  "validateCreateVpcInput inp =
     (let nm = js_trim (cvr_name inp) in
      if js_trim (cvr_cluster inp) = [] then throw ''cluster is required''
      else if js_trim (cvr_namespace inp) = [] then throw ''namespace is required''
      else if nm = [] then throw ''name is required''
      else if \<not> DNS1123_LABEL nm \<or> 63 < length nm
        then throw ''name must be a DNS-1123 label (lowercase alphanumeric and hyphens, <=63 chars)''
      else validateVpcIpamFields (cvr_ipam inp))"

definition defaultGatewayAddress :: "string \<Rightarrow> string result" where
  "defaultGatewayAddress cidr =
     res_bind (parseCidr cidr) (\<lambda>parsed.
     res_bind (usableHostRange parsed None None) (\<lambda>range. Inr (formatIpv4 (hr_start range))))"

section \<open>Views\<close>

record vpc_summary =
  vsm_cluster :: string
  vsm_namespace :: string
  vsm_name :: string
  vsm_vlan :: js_num
  vsm_vlanPoolId :: "string option"
  vsm_bridge :: "string option"
  vsm_cidr :: "string option"
  vsm_gateway :: "string option"
  vsm_dns :: "string list"
  vsm_description :: "string option"
  vsm_owner :: "string option"
  vsm_age :: string

definition mapVpcSummary :: "string \<Rightarrow> vpc_cr \<Rightarrow> vpc_summary" where
  "mapVpcSummary cluster cr =
     (let md = vcr_metadata cr; sp = vcr_spec cr; vlan = opt_default (Fin 0) (fld (vcr_status cr) vct_vlan) in
      \<lparr>vsm_cluster = cluster,
       vsm_namespace = opt_default ''default'' (fld md om_namespace),
       vsm_name = opt_default ''unknown'' (fld md om_name),
       vsm_vlan = (if js_is_integer vlan then vlan else Fin 0),
       vsm_vlanPoolId = ref_name (fld sp vcs_vlanPoolRef),
       vsm_bridge = trim_or_undef (fld (vcr_status cr) vct_bridge),
       vsm_cidr = trim_or_undef (fld sp vcs_cidr),
       vsm_gateway = trim_or_undef (fld sp vcs_gateway),
       vsm_dns = trim_list (opt_default [] (fld sp vcs_dns)),
       vsm_description = trim_or_undef (fld sp vcs_description),
       vsm_owner = opt_get (fld md om_annotations) ''kmc.ianunruh.com/owner'',
       vsm_age = opt_default [] (fld md om_creationTimestamp)\<rparr>)"

datatype router_agent_status = Ready | AgentError | AgentUnknown | Pending | Stale

definition agentStatusFromRouter :: "router_cr \<Rightarrow> router_agent_status option" where
  "agentStatusFromRouter r =
     (let raw = js_trim (opt_str (fld (fld (rcr_status r) rct_agent) rag_status)) in
      if raw = [] then None
      else if raw = ''Ready'' then Some Ready
      else if raw = ''Error'' then Some AgentError
      else if raw = ''Pending'' then Some Pending
      else Some AgentUnknown)"

record router_summary =
  rsm_cluster :: string
  rsm_namespace :: string
  rsm_name :: string
  rsm_vpcNames :: "string list"
  rsm_hasExternal :: bool
  rsm_agentStatus :: "router_agent_status option"
  rsm_agentHeartbeatAt :: "string option"
  rsm_age :: string

text \<open>\<open>a?.trim() || b?.trim()\<close>: the first of two fields with something in it.\<close>

definition trim_or :: "string option \<Rightarrow> string option \<Rightarrow> string option" where
  "trim_or a b = (case trim_or_undef a of Some x \<Rightarrow> Some x | None \<Rightarrow> trim_or_undef b)"

definition external_multus :: "router_cr \<Rightarrow> string option" where
  "external_multus r =
     trim_or (fld (fld (rcr_status r) rct_external) rse_multusNetwork)
       (map_option res_multusNetwork (fld (rcr_spec r) rcs_external))"

text \<open>The attached networks: what the controller reports, or else what was asked for.\<close>

definition router_interfaces :: "router_cr \<Rightarrow> string option list" where
  "router_interfaces cr =
     (case fld (rcr_status cr) rct_interfaces of
        Some ifaces \<Rightarrow> map rsi_vpc ifaces
      | None \<Rightarrow> map (\<lambda>v. Some (rva_name v)) (opt_default [] (fld (rcr_spec cr) rcs_vpcs)))"

text \<open>\<open>date\<close> reads a timestamp and \<open>now\<close> is the clock, as for \<open>formatAge\<close>.\<close>

definition routerSummaryFromCr ::
  "(string \<Rightarrow> int option) \<Rightarrow> int \<Rightarrow> string \<Rightarrow> router_cr \<Rightarrow> router_summary" where
  "routerSummaryFromCr date now cluster cr =
     (let md = rcr_metadata cr; stamp = fld md om_creationTimestamp in
      \<lparr>rsm_cluster = cluster,
       rsm_namespace = opt_default ''default'' (fld md om_namespace),
       rsm_name = opt_default ''unknown'' (fld md om_name),
       rsm_vpcNames = List.map_filter opt_or_undef (router_interfaces cr),
       rsm_hasExternal = (external_multus cr \<noteq> None),
       rsm_agentStatus = agentStatusFromRouter cr,
       rsm_agentHeartbeatAt = fld (fld (rcr_status cr) rct_agent) rag_heartbeatAt,
       rsm_age = (if truthy stamp then formatAge date now (opt_str stamp) else em_dash)\<rparr>)"

datatype fip_state = Associated | Held

definition floatingIpState :: "fip_cr \<Rightarrow> fip_state" where
  "floatingIpState cr =
     (if js_trim (opt_str (fld (fcr_spec cr) fcs_privateAddress)) \<noteq> [] then Associated
      else if fld (fcr_status cr) fct_phase = Some ''Associated'' then Associated
      else Held)"

text \<open>\<open>cr.status?.address?.trim() || cr.spec?.address?.trim() || ""\<close>.\<close>

definition fip_public :: "fip_cr \<Rightarrow> string" where
  "fip_public cr = opt_str (trim_or (fld (fcr_status cr) fct_address) (fld (fcr_spec cr) fcs_address))"

record fip_association =
  fas_id :: string
  fas_public :: string
  fas_prefix :: int
  fas_private :: "string option"
  fas_targetVm :: "string option"
  fas_state :: fip_state

definition mapFloatingIpAssociation :: "fip_cr \<Rightarrow> fip_association" where
  "mapFloatingIpAssociation cr =
     \<lparr>fas_id = opt_default (fip_public cr) (fld (fcr_metadata cr) om_name),
      fas_public = fip_public cr,
      fas_prefix = opt_default 32 (fld (fcr_status cr) fct_prefixLength),
      fas_private = trim_or_undef (fld (fcr_spec cr) fcs_privateAddress),
      fas_targetVm = ref_name (fld (fcr_spec cr) fcs_targetVM),
      fas_state = floatingIpState cr\<rparr>"

record fip_summary =
  fsm_cluster :: string
  fsm_namespace :: string
  fsm_vpcName :: string
  fsm_association :: fip_association
  fsm_routerName :: "string option"
  fsm_agentStatus :: "router_agent_status option"
  fsm_agentHeartbeatAt :: "string option"
  fsm_policyConfigMap :: "string option"

text \<open>\<open>spec.routerRef?.name || router?.metadata?.name || undefined\<close>.\<close>

definition router_name_of :: "local_ref option \<Rightarrow> router_cr option \<Rightarrow> string option" where
  "router_name_of ref router =
     (case opt_or_undef (ref_name ref) of
        Some n \<Rightarrow> Some n
      | None \<Rightarrow> opt_or_undef (fld (fld router rcr_metadata) om_name))"

definition mapFloatingIpSummary :: "string \<Rightarrow> fip_cr \<Rightarrow> router_cr option \<Rightarrow> fip_summary" where
  "mapFloatingIpSummary cluster cr router =
     \<lparr>fsm_cluster = cluster,
      fsm_namespace = opt_str (fld (fcr_metadata cr) om_namespace),
      fsm_vpcName = opt_str (ref_name (fld (fcr_spec cr) fcs_vpcRef)),
      fsm_association = mapFloatingIpAssociation cr,
      fsm_routerName = router_name_of (fld (fcr_spec cr) fcs_routerRef) router,
      fsm_agentStatus = fld router agentStatusFromRouter,
      fsm_agentHeartbeatAt = fld (fld (fld router rcr_status) rct_agent) rag_heartbeatAt,
      fsm_policyConfigMap = fld (fld router rcr_status) rct_policyConfigMap\<rparr>"

datatype pf_protocol = Tcp | Udp

record pf_association =
  pas_id :: string
  pas_public :: string
  pas_publicPort :: js_num
  pas_private :: string
  pas_privatePort :: js_num
  pas_protocol :: pf_protocol
  pas_targetVm :: "string option"
  pas_vpc :: "string option"

definition mapPortForwardAssociation :: "pf_cr \<Rightarrow> string option \<Rightarrow> pf_association" where
  "mapPortForwardAssociation cr vpcName =
     (let sp = pcr_spec cr in
      \<lparr>pas_id = opt_str (fld (pcr_metadata cr) om_name),
       pas_public = opt_str (opt_trim (fld sp pcs_publicAddress)),
       pas_publicPort = opt_default (Fin 0) (fld sp pcs_publicPort),
       pas_private = opt_str (opt_trim (fld sp pcs_privateAddress)),
       pas_privatePort = opt_default (Fin 0) (fld sp pcs_privatePort),
       pas_protocol = (if js_upper (opt_default ''TCP'' (fld sp pcs_protocol)) = ''UDP'' then Udp else Tcp),
       pas_targetVm = ref_name (fld sp pcs_targetVM),
       pas_vpc = (case ref_name (fld sp pcs_vpcRef) of Some n \<Rightarrow> Some n | None \<Rightarrow> vpcName)\<rparr>)"

record pf_summary =
  psm_cluster :: string
  psm_namespace :: string
  psm_vpcName :: string
  psm_association :: pf_association
  psm_routerName :: "string option"
  psm_agentStatus :: "router_agent_status option"
  psm_agentHeartbeatAt :: "string option"
  psm_policyConfigMap :: "string option"

text \<open>The association without the \<open>vpc\<close> field, which the summary does not copy.\<close>

definition mapPortForwardSummary :: "string \<Rightarrow> pf_cr \<Rightarrow> router_cr option \<Rightarrow> pf_summary" where
  "mapPortForwardSummary cluster cr router =
     \<lparr>psm_cluster = cluster,
      psm_namespace = opt_str (fld (pcr_metadata cr) om_namespace),
      psm_vpcName = opt_str (ref_name (fld (pcr_spec cr) pcs_vpcRef)),
      psm_association = (mapPortForwardAssociation cr None)\<lparr>pas_vpc := None\<rparr>,
      psm_routerName = router_name_of (fld (pcr_spec cr) pcs_routerRef) router,
      psm_agentStatus = fld router agentStatusFromRouter,
      psm_agentHeartbeatAt = fld (fld (fld router rcr_status) rct_agent) rag_heartbeatAt,
      psm_policyConfigMap = fld (fld router rcr_status) rct_policyConfigMap\<rparr>"

end
