(* ===== verification/Vm_Namespaces.thy ===== *)
theory Vm_Namespaces
  imports Namespaces
begin

text \<open>
  \<open>lib/k8s/catalog.server.ts\<close>, the guard that every creation passes first: virtual machines,
  databases, networks and object stores go into namespaces that are labelled for them.
\<close>

text \<open>\<open>err instanceof Error ? err.message : String(err)\<close>.\<close>

fun message_or_text :: "thrown \<Rightarrow> string" where
  "message_or_text (ErrorObj msg c props) = msg"
| "message_or_text (MessageObj msg c props) = ''[object Object]''"
| "message_or_text (ResponseObj body st) = ''[object Response]''"
| "message_or_text (Primitive s) = s"

definition assertVmNamespaceAllowed :: "'s ns_env \<Rightarrow> string \<Rightarrow> string \<Rightarrow> ('s, unit) act" where
  "assertVmNamespaceAllowed ne cluster nm =
     with_ns ne cluster (\<lambda>core.
       act_bind
         (act_catch (nsa_read core nm) (\<lambda>err.
            let message = message_or_text err in
            if js_includes message ''404'' \<or> js_includes (js_lower message) ''not found''
            then act_throw (''Namespace \"'' @ nm @ ''\" was not found'')
            else act_fail err))
         (\<lambda>ns.
            if opt_get (kn_labels ns) VM_ALLOWED_LABEL \<noteq> Some ''true''
            then act_throw (''Namespace \"'' @ nm @ ''\" is not allowed for VM launch '' @
                   ''(requires label '' @ VM_ALLOWED_LABEL @ ''=true)'')
            else act_return ()))"

text \<open>What passes has been read with the label set.\<close>

lemma assertVmNamespaceAllowed_Inr:
  "assertVmNamespaceAllowed ne cluster nm s = (Inr u, t) \<longleftrightarrow>
     (\<exists>core ns. ne_core ne cluster = Inr core \<and> nsa_read core nm s = (Inr ns, t) \<and> vm_allowed ns)"
  by (auto simp: assertVmNamespaceAllowed_def with_ns_def vm_allowed_def act_simps Let_def
      split: sum.splits prod.splits)

lemma namespace_allowed_leaves:
  assumes "\<And>core. ne_core ne cluster = Inr core \<Longrightarrow> leaves f (nsa_read core nm)"
  shows "leaves f (assertVmNamespaceAllowed ne cluster nm)"
  unfolding assertVmNamespaceAllowed_def Let_def by (intro leaves_intros assms)

end
