(* ===== verification/Vpcs.thy ===== *)
theory Vpcs
  imports Vpc_Views Vm_Namespaces Ip_Pools Vlan_Pools Frames
begin

text \<open>
  \<open>vpcs/vpcs.server.ts\<close>, the networks: reading one with everything attached to it, creating,
  updating and deleting. The clients of the clusters, the signed-in user, the clock and the
  order of \<open>localeCompare\<close> are parameters. Reads that the code starts together are made one
  after the other. The listings over all clusters and the YAML view are not modelled.
\<close>

record 's vpc_env =
  ve_vpcs :: "('s, vpc_cr) clients"
  ve_routers :: "('s, router_cr) clients"
  ve_fips :: "('s, fip_cr) clients"
  ve_pfs :: "('s, pf_cr) clients"
  ve_vms :: "('s, vpc_vm) clients"
  ve_pools :: "'s pool_clients"
  ve_vlans :: "('s, vlan_pool_cr) clients"
  ve_ns :: "'s ns_env"
  ve_owner :: "string option"
  ve_date :: "string \<Rightarrow> int option"
  ve_now :: "'s \<Rightarrow> int"
  ve_sleep :: "int \<Rightarrow> ('s, unit) act"
  ve_le :: "string \<Rightarrow> string \<Rightarrow> bool"

section \<open>Routers and attached machines\<close>

definition loadRouter :: "'s vpc_env \<Rightarrow> string \<Rightarrow> string \<Rightarrow> string \<Rightarrow> ('s, router_cr option) act" where
  "loadRouter env cluster ns nm =
     act_catch
       (act_bind (getNamespacedCustomObject (ve_routers env) cluster ns PLURAL_ROUTERS nm) (\<lambda>r. act_return (Some r)))
       (\<lambda>err. if isNotFoundError err then act_return None else act_fail err)"

definition resolvePublicPoolForRouter ::
  "'s vpc_env \<Rightarrow> string \<Rightarrow> router_cr \<Rightarrow> ('s, string \<times> string) act" where
  "resolvePublicPoolForRouter env cluster router =
     (case external_multus router of
        None \<Rightarrow> act_throw (''Router '' @ opt_default ''undefined'' (fld (rcr_metadata router) om_name) @
                 '' has no external Multus network'')
      | Some multus \<Rightarrow>
          act_bind (findIpPoolForMultus (ve_pools env) cluster multus) (\<lambda>pool.
            case pool of
              None \<Rightarrow> act_throw (''No IPPool found for external Multus network \"'' @ multus @
                       ''\" -- create an IPPool CR'')
            | Some p \<Rightarrow> act_return (pool_id p, multus)))"

text \<open>A reference by bare name counts only in the namespace of the network.\<close>

definition attaches :: "string \<Rightarrow> string \<Rightarrow> string \<Rightarrow> string option \<Rightarrow> bool" where
  "attaches ns nm vmNs net \<longleftrightarrow>
     multusRefMatches net ns nm \<and> \<not> (js_trim (opt_str net) = nm \<and> vmNs \<noteq> ns)"

record vpc_attached_vm =
  vav_cluster :: string
  vav_namespace :: string
  vav_name :: string
  vav_allocatedIpv4 :: "string option"
  vav_isRouter :: bool

definition is_router_vm :: "string \<Rightarrow> vpc_vm \<Rightarrow> bool" where
  "is_router_vm nm vm \<longleftrightarrow>
     opt_get (vvm_labels vm) KMC_LABEL_ROLE = Some KMC_ROLE_ROUTER \<and>
     (opt_get (vvm_labels vm) KMC_LABEL_ROUTER \<noteq> None \<or> opt_get (vvm_labels vm) KMC_LABEL_VPC = Some nm)"

definition attached_row ::
  "string \<Rightarrow> string \<Rightarrow> string \<Rightarrow> string option \<Rightarrow> vpc_vm \<Rightarrow> vpc_attached_vm option" where
  "attached_row cluster ns nm cidr vm =
     (let vmNs = opt_str (vvm_namespace vm); vmName = opt_str (vvm_name vm) in
      if vmName = [] then None
      else if list_ex (attaches ns nm vmNs) (opt_default [] (vvm_networks vm))
        then Some \<lparr>vav_cluster = cluster, vav_namespace = vmNs, vav_name = vmName,
               vav_allocatedIpv4 = allocatedIpv4ForVpc (opt_get (vvm_annotations vm) IPAM_ANNOTATION_IPV4) cidr,
               vav_isRouter = is_router_vm nm vm\<rparr>
      else None)"

definition attached_before :: "(string \<Rightarrow> string \<Rightarrow> bool) \<Rightarrow> vpc_attached_vm \<Rightarrow> vpc_attached_vm \<Rightarrow> bool" where
  "attached_before le a b =
     before_by le [(vav_namespace a, vav_namespace b), (vav_name a, vav_name b)]"

definition listAttachedVms ::
  "'s vpc_env \<Rightarrow> string \<Rightarrow> string \<Rightarrow> string \<Rightarrow> string option \<Rightarrow> ('s, vpc_attached_vm list) act" where
  "listAttachedVms env cluster ns nm cidr =
     with_custom (ve_vms env) cluster (\<lambda>api.
       act_bind (api_list_cluster api vm_gvp None) (\<lambda>items.
         act_return (sort_by (attached_before (ve_le env))
           (List.map_filter (attached_row cluster ns nm cidr) (opt_default [] items)))))"

text \<open>The private target of a mapping: the given address, or the one of the target machine.\<close>

definition address_of_target :: "'s vpc_env \<Rightarrow> string \<Rightarrow> string \<Rightarrow> string \<Rightarrow> string \<Rightarrow> ('s, string option) act" where
  "address_of_target env cluster ns vpcCidr targetVm =
     with_custom (ve_vms env) cluster (\<lambda>api.
       act_bind (api_get_ns api vm_gvp ns targetVm) (\<lambda>vm.
         let fromAnn = allocatedIpv4ForVpc (opt_get (vvm_annotations vm) IPAM_ANNOTATION_IPV4) (Some vpcCidr)
         in act_return
              (case addressFromIpv4Annotation (opt_str fromAnn) of Some a \<Rightarrow> Some a | None \<Rightarrow> fromAnn)))"

definition check_private :: "string \<Rightarrow> string \<Rightarrow> unit result" where
  "check_private vpcCidr ip =
     res_bind (parseIpv4 ip) (\<lambda>_.
     res_bind (parseCidr vpcCidr) (\<lambda>parsed.
     res_bind (containsIpv4_str parsed ip) (\<lambda>inside.
       if inside then Inr () else throw (''private address '' @ ip @ '' is outside '' @ vpcCidr))))"

definition resolvePrivateOnVpc ::
  "'s vpc_env \<Rightarrow> string \<Rightarrow> string \<Rightarrow> string \<Rightarrow> string option \<Rightarrow> string option \<Rightarrow> ('s, string \<times> string option) act" where
  "resolvePrivateOnVpc env cluster ns vpcCidr privateIpv4 targetVm =
     (let given = trim_or_undef privateIpv4; target = trim_or_undef targetVm in
      act_bind
        (case (given, target) of
           (None, Some t) \<Rightarrow> address_of_target env cluster ns vpcCidr t
         | _ \<Rightarrow> act_return given)
        (\<lambda>ip.
          if \<not> truthy ip then act_throw ''privateIpv4 or targetVm with IPAM address is required''
          else act_seq (act_lift (check_private vpcCidr (opt_str ip))) (act_return (opt_str ip, target))))"

section \<open>Reading a network\<close>

record network_ip_pool =
  nip_id :: string
  nip_cidr :: string
  nip_free :: int
  nip_total :: int
  nip_gateway :: "string option"

record vpc_detail =
  vd_summary :: vpc_summary
  vd_uid :: "string option"
  vd_labels :: "string jsobj"
  vd_annotations :: "string jsobj"
  vd_conditions :: "console_condition list"
  vd_attachedVms :: "vpc_attached_vm list"
  vd_attachedCount :: nat
  vd_router :: "router_summary option"
  vd_ipPool :: "network_ip_pool option"
  vd_floatingIps :: "fip_association list"
  vd_portForwards :: "pf_association list"

definition missing_router :: "string \<Rightarrow> string \<Rightarrow> string \<Rightarrow> string \<Rightarrow> router_summary" where
  "missing_router cluster ns nm routerName =
     \<lparr>rsm_cluster = cluster, rsm_namespace = ns, rsm_name = routerName, rsm_vpcNames = [nm],
      rsm_hasExternal = False, rsm_agentStatus = None, rsm_agentHeartbeatAt = None, rsm_age = em_dash\<rparr>"

text \<open>A router that cannot be read is shown by its name alone.\<close>

definition router_of_vpc ::
  "'s vpc_env \<Rightarrow> string \<Rightarrow> string \<Rightarrow> string \<Rightarrow> vpc_cr \<Rightarrow> ('s, router_summary option) act" where
  "router_of_vpc env cluster ns nm cr =
     (case trim_or_undef (ref_name (fld (vcr_status cr) vct_routerRef)) of
        None \<Rightarrow> act_return None
      | Some routerName \<Rightarrow>
          act_bind (act_or (loadRouter env cluster ns routerName) None) (\<lambda>rtr.
            case rtr of
              None \<Rightarrow> act_return (Some (missing_router cluster ns nm routerName))
            | Some r \<Rightarrow> act_bind (act_read (ve_now env)) (\<lambda>now.
                act_return (Some (routerSummaryFromCr (ve_date env) now cluster r)))))"

definition usage_of_vpc ::
  "'s vpc_env \<Rightarrow> string \<Rightarrow> string \<Rightarrow> string \<Rightarrow> string option \<Rightarrow> ('s, ip_pool_usage option) act" where
  "usage_of_vpc env cluster ns nm cidr =
     (if truthy cidr then act_or (getIpPoolUsage (ve_pools env) cluster (''vpc:'' @ ns @ ''/'' @ nm) None) None
      else act_return None)"

definition vpc_detail_of ::
  "string \<Rightarrow> string \<Rightarrow> vpc_cr \<Rightarrow> vpc_attached_vm list \<Rightarrow> ip_pool_usage option \<Rightarrow> fip_cr list \<Rightarrow> pf_cr list \<Rightarrow>
   router_summary option \<Rightarrow> vpc_detail" where
  "vpc_detail_of cluster nm cr attachedVms usage fips pfs router =
     \<lparr>vd_summary = mapVpcSummary cluster cr,
      vd_uid = fld (vcr_metadata cr) om_uid,
      vd_labels = opt_obj (fld (vcr_metadata cr) om_labels),
      vd_annotations = shown_annotations (fld (vcr_metadata cr) om_annotations),
      vd_conditions = mapCrConditions (fld (vcr_status cr) vct_conditions),
      vd_attachedVms = attachedVms, vd_attachedCount = length attachedVms,
      vd_router = router,
      vd_ipPool = map_option (\<lambda>u. \<lparr>nip_id = pool_id (ipu_pool u), nip_cidr = ipu_cidr u,
        nip_free = ipu_free u, nip_total = ipu_total u, nip_gateway = pool_gateway (ipu_pool u)\<rparr>) usage,
      vd_floatingIps = map mapFloatingIpAssociation
        (filter (\<lambda>f. ref_name (fld (fcr_spec f) fcs_vpcRef) = Some nm) fips),
      vd_portForwards = map (\<lambda>p. mapPortForwardAssociation p (Some nm))
        (filter (\<lambda>p. ref_name (fld (pcr_spec p) pcs_vpcRef) = Some nm) pfs)\<rparr>"

definition read_vpc :: "'s vpc_env \<Rightarrow> string \<Rightarrow> string \<Rightarrow> string \<Rightarrow> ('s, vpc_cr) act" where
  "read_vpc env cluster ns nm =
     act_catch (getNamespacedCustomObject (ve_vpcs env) cluster ns PLURAL_VPCS nm) (\<lambda>err.
       if isNotFoundError err then act_fail (ResponseObj ''VPC not found'' 404)
       else act_fail (mk_error_cause (format_error err) err))"

definition getVpc :: "'s vpc_env \<Rightarrow> string \<Rightarrow> string \<Rightarrow> string \<Rightarrow> ('s, vpc_detail) act" where
  "getVpc env cluster ns nm =
     act_bind (read_vpc env cluster ns nm) (\<lambda>cr.
     act_bind (listAttachedVms env cluster ns nm (vsm_cidr (mapVpcSummary cluster cr))) (\<lambda>attachedVms.
     act_bind (usage_of_vpc env cluster ns nm (vsm_cidr (mapVpcSummary cluster cr))) (\<lambda>usage.
     act_bind (act_or (listNamespacedCustomObjects (ve_fips env) cluster ns PLURAL_FLOATING_IPS None) []) (\<lambda>fips.
     act_bind (act_or (listNamespacedCustomObjects (ve_pfs env) cluster ns PLURAL_PORT_FORWARDS None) []) (\<lambda>pfs.
     act_bind (router_of_vpc env cluster ns nm cr) (\<lambda>router.
       act_return (vpc_detail_of cluster nm cr attachedVms usage fips pfs router)))))))"

text \<open>Static networks with a pool, as candidates for the external side of a router.\<close>

definition listPublicEgressNetworks ::
  "'s vpc_env \<Rightarrow> string \<Rightarrow> string option \<Rightarrow> ('s, (string \<times> string \<times> string \<times> string option) list) act" where
  "listPublicEgressNetworks env cluster excludeMultus =
     (let exclude = js_trim (opt_str excludeMultus) in
      act_bind (listIpPools (ve_pools env) cluster) (\<lambda>pools. act_return
        (map (\<lambda>p. (pool_id p, pool_multusNetwork p, pool_cidr p, pool_gateway p))
          (filter (\<lambda>p. exclude = [] \<or> \<not> multusRefMatches (Some (pool_multusNetwork p)) [] exclude) pools))))"

section \<open>Creating, updating, deleting\<close>

definition new_vpc :: "string option \<Rightarrow> string \<Rightarrow> create_vpc_request \<Rightarrow> vpc_cr" where
  "new_vpc owner poolId inp =
     (let ip = cvr_ipam inp; cidr = trim_or_undef (ipf_cidr ip); dns = trim_list (opt_default [] (ipf_dns ip)) in
      \<lparr>vcr_apiVersion = Some KMC_API, vcr_kind = Some ''VPC'',
       vcr_metadata = Some (new_meta (Some (js_trim (cvr_name inp))) (js_trim (cvr_namespace inp))
         (Some (kmcManagedLabels None)) (Some (ownerAnnotation owner))),
       vcr_spec = Some \<lparr>vcs_vlanPoolRef = Some \<lparr>lr_name = poolId\<rparr>,
         vcs_cidr = cidr,
         vcs_gateway = (if cidr = None then None else trim_or_undef (ipf_gateway ip)),
         vcs_dns = (if cidr = None \<or> dns = [] then None else Some dns),
         vcs_description = trim_or_undef (cvr_description inp)\<rparr>,
       vcr_status = None\<rparr>)"

definition createVpc :: "'s vpc_env \<Rightarrow> create_vpc_request \<Rightarrow> ('s, vpc_summary) act" where
  "createVpc env inp =
     act_seq (act_lift (validateCreateVpcInput inp))
     (act_seq (assertVmNamespaceAllowed (ve_ns env) (cvr_cluster inp) (cvr_namespace inp))
     (act_bind (clusterHasVlanPools (ve_vlans env) (cvr_cluster inp)) (\<lambda>has.
       if \<not> has then act_throw (''Cluster \"'' @ cvr_cluster inp @
              ''\" has no VLANPool CRs -- apply a VLANPool (see deploy/controller/examples)'')
       else act_bind (getVlanPool (ve_vlans env) (cvr_cluster inp) (cvr_vlanPoolId inp)) (\<lambda>pool.
         case pool of
           None \<Rightarrow> act_throw
             (if js_trim (opt_str (cvr_vlanPoolId inp)) \<noteq> []
              then ''VLAN pool \"'' @ opt_str (cvr_vlanPoolId inp) @ ''\" not found on cluster '' @ cvr_cluster inp
              else ''No VLAN pool available on cluster '' @ cvr_cluster inp)
         | Some p \<Rightarrow>
             act_catch
               (act_bind
                 (createNamespacedCustomObject (ve_vpcs env) (cvr_cluster inp) (cvr_namespace inp) PLURAL_VPCS
                   (new_vpc (ve_owner env) (vpl_id p) inp))
                 (\<lambda>created. act_return (mapVpcSummary (cvr_cluster inp) created)))
               save_error))))"

record update_vpc_request =
  uvr_cluster :: string
  uvr_namespace :: string
  uvr_name :: string
  uvr_description :: "string option"
  uvr_ipam :: ipam_fields

definition empty_vpc_spec :: vpc_cr_spec where
  "empty_vpc_spec = \<lparr>vcs_vlanPoolRef = None, vcs_cidr = None, vcs_gateway = None, vcs_dns = None, vcs_description = None\<rparr>"

text \<open>Without a block the address fields are removed.\<close>

definition updated_vpc :: "update_vpc_request \<Rightarrow> vpc_cr \<Rightarrow> vpc_cr" where
  "updated_vpc inp existing =
     (let ip = uvr_ipam inp; cidr = trim_or_undef (ipf_cidr ip);
          dns = trim_list (opt_default [] (ipf_dns ip));
          old = opt_default empty_vpc_spec (vcr_spec existing) in
      existing\<lparr>vcr_spec := Some (old\<lparr>
        vcs_vlanPoolRef := Some (opt_default \<lparr>lr_name = []\<rparr> (vcs_vlanPoolRef old)),
        vcs_description := trim_or_undef (uvr_description inp),
        vcs_cidr := cidr,
        vcs_gateway := (if cidr = None then None else trim_or_undef (ipf_gateway ip)),
        vcs_dns := (if cidr = None \<or> dns = [] then None else Some dns)\<rparr>)\<rparr>)"

definition check_update :: "update_vpc_request \<Rightarrow> unit result" where
  "check_update inp =
     (if js_trim (uvr_cluster inp) = [] then throw ''cluster is required''
      else if js_trim (uvr_namespace inp) = [] then throw ''namespace is required''
      else if js_trim (uvr_name inp) = [] then throw ''name is required''
      else validateVpcIpamFields (uvr_ipam inp))"

definition updateVpc :: "'s vpc_env \<Rightarrow> update_vpc_request \<Rightarrow> ('s, vpc_summary) act" where
  "updateVpc env inp =
     act_seq (act_lift (check_update inp))
     (act_bind
       (act_catch
         (getNamespacedCustomObject (ve_vpcs env) (uvr_cluster inp) (uvr_namespace inp) PLURAL_VPCS (uvr_name inp))
         (\<lambda>err. if isNotFoundError err
                then act_throw (''VPC '' @ uvr_namespace inp @ ''/'' @ uvr_name inp @ '' not found'')
                else save_error err))
       (\<lambda>existing.
         act_catch
           (act_bind
             (replaceNamespacedCustomObject (ve_vpcs env) (uvr_cluster inp) (uvr_namespace inp) PLURAL_VPCS
               (uvr_name inp) (updated_vpc inp existing))
             (\<lambda>updated. act_return (mapVpcSummary (uvr_cluster inp) updated)))
           save_error))"

definition attached_error :: "vpc_attached_vm list \<Rightarrow> string" where
  "attached_error attached =
     ''Cannot delete VPC: '' @ int_str (int (length attached)) @ '' VM(s) still attached ('' @
     js_join '', '' (map (\<lambda>vm. vav_namespace vm @ ''/'' @ vav_name vm) (take 5 attached)) @
     (if 5 < length attached then '' (+'' @ int_str (int (length attached) - 5) @ '' more)'' else []) @ '')''"

definition deleteVpc :: "'s vpc_env \<Rightarrow> string \<Rightarrow> string \<Rightarrow> string \<Rightarrow> ('s, unit) act" where
  "deleteVpc env cluster ns nm =
     act_bind (getVpc env cluster ns nm) (\<lambda>_.
     act_bind (listAttachedVms env cluster ns nm None) (\<lambda>attached.
       if 0 < length attached then act_throw (attached_error attached)
       else deleteNamespacedCustomObject (ve_vpcs env) cluster ns PLURAL_VPCS nm))"

section \<open>What the reads leave alone\<close>

text \<open>
  The reading calls of every client leave the observed part of the world alone, and so does
  every function here that only reads.
\<close>

definition pool_reads :: "('s \<Rightarrow> 'o) \<Rightarrow> 's pool_clients \<Rightarrow> string \<Rightarrow> bool" where
  "pool_reads f cl cluster \<longleftrightarrow>
     clients_read f (pcl_pools cl) cluster \<and> clients_read f (pcl_nads cl) cluster \<and>
     clients_read f (pcl_claims cl) cluster"

definition network_reads :: "('s \<Rightarrow> 'o) \<Rightarrow> 's vpc_env \<Rightarrow> string \<Rightarrow> bool" where
  "network_reads f env cluster \<longleftrightarrow>
     clients_read f (ve_vpcs env) cluster \<and> clients_read f (ve_routers env) cluster \<and>
     clients_read f (ve_fips env) cluster \<and> clients_read f (ve_pfs env) cluster \<and>
     clients_read f (ve_vms env) cluster \<and> pool_reads f (ve_pools env) cluster"

lemma leaves_case_prod: "(\<And>x y. leaves f (k x y)) \<Longrightarrow> leaves f (case p of (x, y) \<Rightarrow> k x y)"
  by (cases p) simp

lemma pool_reads_clients:
  assumes "pool_reads f cl cluster"
  shows "clients_read f (pcl_pools cl) cluster" "clients_read f (pcl_nads cl) cluster"
    "clients_read f (pcl_claims cl) cluster"
  using assms by (simp_all add: pool_reads_def)

lemma leaves_listIpPools: "pool_reads f cl cluster \<Longrightarrow> leaves f (listIpPools cl cluster)"
  unfolding listIpPools_def by (intro leaves_intros clients_read_wrappers pool_reads_clients)

lemma leaves_nad_pool: "pool_reads f cl cluster \<Longrightarrow> leaves f (nad_pool cl cluster ns nm)"
  unfolding nad_pool_def loadNamespacedNad_def
  by (intro leaves_with_reads leaves_bind leaves_catch leaves_basic reads_leave_api pool_reads_clients)

lemma leaves_findIpPoolForMultus: "pool_reads f cl cluster \<Longrightarrow> leaves f (findIpPoolForMultus cl cluster m)"
  unfolding findIpPoolForMultus_def Let_def by (intro leaves_intros leaves_listIpPools)

lemma leaves_resolveIpPoolById: "pool_reads f cl cluster \<Longrightarrow> leaves f (resolveIpPoolById cl cluster poolId)"
  unfolding resolveIpPoolById_def Let_def by (intro leaves_intros leaves_listIpPools leaves_nad_pool)

lemma leaves_claim_list: "pool_reads f cl cluster \<Longrightarrow>
    leaves f (listIpAddressClaimAddresses (pcl_claims cl) cluster ns wide)"
  unfolding listIpAddressClaimAddresses_def list_claims_ns_def Let_def
  by (intro leaves_with_reads leaves_if leaves_bind leaves_catch leaves_basic reads_leave_api pool_reads_clients)

lemma leaves_getIpPoolUsage: "pool_reads f cl cluster \<Longrightarrow> leaves f (getIpPoolUsage cl cluster poolId ns)"
  unfolding getIpPoolUsage_def usage_of_resolved_def getIpPoolUsageForConfig_def listUsedIpv4FromClaims_def
  by (intro leaves_intros leaves_resolveIpPoolById leaves_claim_list)

lemma network_reads_clients:
  assumes "network_reads f env cluster"
  shows "clients_read f (ve_vpcs env) cluster" "clients_read f (ve_routers env) cluster"
    "clients_read f (ve_fips env) cluster" "clients_read f (ve_pfs env) cluster"
    "clients_read f (ve_vms env) cluster" "pool_reads f (ve_pools env) cluster"
  using assms by (simp_all add: network_reads_def)

lemmas network_leaves =
  leaves_intros clients_read_wrappers network_reads_clients leaves_getIpPoolUsage leaves_findIpPoolForMultus

lemma leaves_loadRouter: "network_reads f env cluster \<Longrightarrow> leaves f (loadRouter env cluster ns nm)"
  unfolding loadRouter_def by (intro network_leaves)

lemma leaves_listAttachedVms: "network_reads f env cluster \<Longrightarrow> leaves f (listAttachedVms env cluster ns nm cidr)"
  unfolding listAttachedVms_def by (intro leaves_with_reads leaves_bind leaves_basic reads_leave_api network_reads_clients)

lemma leaves_getVpc: "network_reads f env cluster \<Longrightarrow> leaves f (getVpc env cluster ns nm)"
  unfolding getVpc_def read_vpc_def usage_of_vpc_def router_of_vpc_def
  by (intro network_leaves leaves_loadRouter leaves_listAttachedVms)

lemma leaves_publicPool: "network_reads f env cluster \<Longrightarrow> leaves f (resolvePublicPoolForRouter env cluster r)"
  unfolding resolvePublicPoolForRouter_def by (intro network_leaves)

lemma leaves_resolvePrivate:
  "network_reads f env cluster \<Longrightarrow> leaves f (resolvePrivateOnVpc env cluster ns cidr ip vm)"
  unfolding resolvePrivateOnVpc_def address_of_target_def Let_def
  by (cases "trim_or_undef ip"; cases "trim_or_undef vm"; simp only: prod.case option.case)
    (intro leaves_with_reads leaves_bind leaves_if leaves_seq leaves_basic reads_leave_api network_reads_clients;
      assumption)+

section \<open>Deleting a network in use\<close>

text \<open>
  \<open>machines\<close> is the inventory of machines: the listing of the cluster answers with it.
  A machine uses a network when one of its networks refers to it, by bare name from the
  namespace of the network or by namespace and name from anywhere.
\<close>

definition lists_inventory :: "('s \<Rightarrow> vpc_vm list) \<Rightarrow> 's vpc_env \<Rightarrow> string \<Rightarrow> bool" where
  "lists_inventory machines env cluster \<longleftrightarrow>
     (\<forall>api. ve_vms env cluster = Inr api \<longrightarrow>
        (\<forall>s. fst (api_list_cluster api vm_gvp None s) = Inr (Some (machines s))))"

definition uses_network :: "string \<Rightarrow> string \<Rightarrow> vpc_vm \<Rightarrow> bool" where
  "uses_network ns nm vm \<longleftrightarrow>
     opt_str (vvm_name vm) \<noteq> [] \<and>
     (\<exists>net \<in> set (opt_default [] (vvm_networks vm)).
        let n = js_trim (opt_str net) in
        n \<noteq> [] \<and> (n = ns @ ''/'' @ nm \<or> n = nm \<and> opt_str (vvm_namespace vm) = ns))"

lemma attached_row_None: "attached_row cluster ns nm cidr vm = None \<longleftrightarrow> \<not> uses_network ns nm vm"
  by (auto simp: attached_row_def uses_network_def attaches_def multusRefMatches_def Let_def list_ex_iff)

lemma sort_by_Nil [simp]: "sort_by le xs = [] \<longleftrightarrow> xs = []"
  by (metis set_empty set_sort_by)

lemma listAttachedVms_inventory:
  assumes "lists_inventory machines env cluster"
    and "fst (listAttachedVms env cluster ns nm cidr s) = Inr attached"
  shows "attached = [] \<longleftrightarrow> (\<forall>vm \<in> set (machines s). \<not> uses_network ns nm vm)"
proof (cases "ve_vms env cluster")
  case (Inl e)
  with assms(2) show ?thesis by (simp add: listAttachedVms_def act_simps)
next
  case (Inr api)
  then have "fst (api_list_cluster api vm_gvp None s) = Inr (Some (machines s))"
    using assms(1) by (simp add: lists_inventory_def)
  with Inr assms(2) show ?thesis
    by (cases "api_list_cluster api vm_gvp None s")
      (auto simp: listAttachedVms_def act_simps map_filter_Nil attached_row_None opt_default_def)
qed

lemma delete_needs_no_machine:
  assumes reads: "network_reads (\<lambda>s. (machines s, vpcs s)) env cluster"
    and list: "lists_inventory machines env cluster"
    and used: "vm \<in> set (machines s)" "uses_network ns nm vm"
  shows "\<not> res_ok (fst (deleteVpc env cluster ns nm s)) \<and> vpcs (snd (deleteVpc env cluster ns nm s)) = vpcs s"
proof -
  obtain r u where get: "getVpc env cluster ns nm s = (r, u)" by (rule prod.exhaust)
  have u: "machines u = machines s" "vpcs u = vpcs s"
    using leaves_snd [OF leaves_getVpc [OF reads], of ns nm s] get by simp_all
  obtain q v where att: "listAttachedVms env cluster ns nm None u = (q, v)" by (rule prod.exhaust)
  have v: "vpcs v = vpcs s"
    using leaves_snd [OF leaves_listAttachedVms [OF reads], of ns nm None u] att u by simp
  show ?thesis
  proof (cases r)
    case (Inl e)
    with get u show ?thesis by (simp add: deleteVpc_def act_simps)
  next
    case d: (Inr detail)
    show ?thesis
    proof (cases q)
      case (Inl e)
      with d get att v show ?thesis by (simp add: deleteVpc_def act_simps)
    next
      case (Inr attached)
      then have "attached \<noteq> []"
        using listAttachedVms_inventory [OF list, of ns nm None u attached] att used u by auto
      with Inr d get att v show ?thesis by (simp add: deleteVpc_def act_simps)
    qed
  qed
qed

text \<open>
  C32. a network that a machine of the cluster is attached to is never deleted: \<open>deleteVpc\<close>
  throws and the stored networks stay as they were, whatever else the reads answer.
\<close>

theorem used_network_survives:
  assumes "network_reads (\<lambda>s. (machines s, vpcs s)) env cluster"
    and "lists_inventory machines env cluster"
    and "vm \<in> set (machines s)" "uses_network ns nm vm"
  shows "\<not> res_ok (fst (deleteVpc env cluster ns nm s)) \<and> vpcs (snd (deleteVpc env cluster ns nm s)) = vpcs s"
  by (rule delete_needs_no_machine [OF assms])

section \<open>A network in a laboratory\<close>

text \<open>The machines of a cluster and the names of its networks, of which there is one.\<close>

type_synonym net_lab = "vpc_vm list \<times> string list"

definition idle_env :: "'s vpc_env" where
  "idle_env =
     \<lparr>ve_vpcs = (\<lambda>c. Inr idle_api), ve_routers = (\<lambda>c. Inr idle_api), ve_fips = (\<lambda>c. Inr idle_api),
      ve_pfs = (\<lambda>c. Inr idle_api), ve_vms = (\<lambda>c. Inr idle_api),
      ve_pools = \<lparr>pcl_pools = (\<lambda>c. Inr idle_api), pcl_nads = (\<lambda>c. Inr idle_api), pcl_claims = (\<lambda>c. Inr idle_api)\<rparr>,
      ve_vlans = (\<lambda>c. Inr idle_api), ve_ns = \<lparr>ne_core = (\<lambda>c. throw ''no namespaces''), ne_vms = (\<lambda>c. Inr idle_api)\<rparr>,
      ve_owner = None, ve_date = (\<lambda>t. None), ve_now = (\<lambda>s. 0), ve_sleep = (\<lambda>n. act_return ()),
      ve_le = (\<lambda>a b. True)\<rparr>"

definition lab_vpc :: vpc_cr where
  "lab_vpc = \<lparr>vcr_apiVersion = Some KMC_API, vcr_kind = Some ''VPC'',
     vcr_metadata = Some (new_meta (Some ''net'') ''lab'' None None),
     vcr_spec = Some empty_vpc_spec, vcr_status = None\<rparr>"

definition lab_vpc_api :: "(net_lab, vpc_cr) custom_api" where
  "lab_vpc_api = idle_api\<lparr>
     api_get_ns := (\<lambda>g ns nm s. if nm \<in> set (snd s) then (Inr lab_vpc, s) else (Inl (mk_error ''not found''), s)),
     api_delete_ns := (\<lambda>g ns nm s. (Inr (), (fst s, filter (\<lambda>x. x \<noteq> nm) (snd s))))\<rparr>"

definition lab_vm_api :: "(net_lab, vpc_vm) custom_api" where
  "lab_vm_api = idle_api\<lparr>api_list_cluster := (\<lambda>g l s. (Inr (Some (fst s)), s))\<rparr>"

definition lab_net_env :: "net_lab vpc_env" where
  "lab_net_env = idle_env\<lparr>ve_vpcs := (\<lambda>c. Inr lab_vpc_api), ve_vms := (\<lambda>c. Inr lab_vm_api)\<rparr>"

definition lab_machine :: vpc_vm where
  "lab_machine = \<lparr>vvm_name = Some ''web'', vvm_namespace = Some ''lab'', vvm_labels = None,
     vvm_annotations = None, vvm_networks = Some [None, Some ''net'']\<rparr>"

lemma lab_net_env_reads: "network_reads (\<lambda>s. (fst s, snd s)) lab_net_env cluster"
  by (simp add: network_reads_def pool_reads_def clients_read_def lab_net_env_def idle_env_def)
    (auto simp: reads_leave_def lab_vpc_api_def lab_vm_api_def idle_api_def leaves_def act_simps)

lemma lab_net_env_lists: "lists_inventory fst lab_net_env cluster"
  by (simp add: lists_inventory_def lab_net_env_def lab_vm_api_def)

lemma lab_machine_uses: "uses_network ''lab'' ''net'' lab_machine"
  by (simp add: uses_network_def lab_machine_def opt_default_def opt_str_def Let_def) code_simp

theorem used_network_survives_witness:
  "\<not> res_ok (fst (deleteVpc lab_net_env ''c1'' ''lab'' ''net'' ([lab_machine], [''net'']))) \<and>
   snd (snd (deleteVpc lab_net_env ''c1'' ''lab'' ''net'' ([lab_machine], [''net'']))) = [''net'']"
  using used_network_survives [OF lab_net_env_reads lab_net_env_lists _ lab_machine_uses,
      of "([lab_machine], [''net''])" "''c1''"]
  by simp

lemma free_network_is_deleted:
  "deleteVpc lab_net_env ''c1'' ''lab'' ''net'' ([], [''net'']) = (Inr (), ([], []))"
  by code_simp

end
