(* ===== verification/Vpc_Forwards.thy ===== *)
theory Vpc_Forwards
  imports Vpcs Js_Format
begin

text \<open>
  \<open>vpcs/vpcs.server.ts\<close>, the mappings: floating addresses (reserved, associated, released) and
  port forwards, both through the router of a network. The loop that waits for an address
  polls with the clock of the model; of the listings over all clusters the part that reads one
  cluster is modelled.
\<close>

section \<open>The gateway of a network\<close>

text \<open>What every mapping needs first: the block of the network and its router.\<close>

record vpc_gateway =
  vg_cidr :: string
  vg_routerName :: string
  vg_router :: router_cr

definition gateway_of_vpc :: "'s vpc_env \<Rightarrow> string \<Rightarrow> string \<Rightarrow> string \<Rightarrow> ('s, vpc_gateway) act" where
  "gateway_of_vpc env cluster ns vpcName =
     act_bind (getVpc env cluster ns vpcName) (\<lambda>vpc.
       let cidr = opt_str (vsm_cidr (vd_summary vpc)) in
       if js_trim cidr = [] then act_throw ''VPC has no private CIDR''
       else case vd_router vpc of
         None \<Rightarrow> act_throw ''VPC has no router external gateway -- enable an external gateway on the shared router first''
       | Some r \<Rightarrow>
           if \<not> rsm_hasExternal r \<or> rsm_name r = []
           then act_throw ''VPC has no router external gateway -- enable an external gateway on the shared router first''
           else act_bind (loadRouter env cluster ns (rsm_name r)) (\<lambda>router.
             case router of
               None \<Rightarrow> act_throw (''Router '' @ rsm_name r @ '' not found'')
             | Some rt \<Rightarrow> act_return \<lparr>vg_cidr = cidr, vg_routerName = rsm_name r, vg_router = rt\<rparr>))"

section \<open>Floating addresses\<close>

record fip_request =
  fr_cluster :: string
  fr_namespace :: string
  fr_vpcName :: string
  fr_privateIpv4 :: "string option"
  fr_targetVm :: "string option"
  fr_publicIpv4 :: "string option"

definition findFloatingIpByPublic :: "'s vpc_env \<Rightarrow> string \<Rightarrow> string \<Rightarrow> string \<Rightarrow> ('s, fip_cr option) act" where
  "findFloatingIpByPublic env cluster ns idOrPublic =
     (let key = js_trim idOrPublic in
      if key = [] then act_return None
      else act_bind (listNamespacedCustomObjects (ve_fips env) cluster ns PLURAL_FLOATING_IPS None) (\<lambda>items.
        let addr = (case addressFromIpv4Annotation key of Some a \<Rightarrow> a | None \<Rightarrow> key) in
        act_return (find (\<lambda>f. fld (fcr_metadata f) om_name = Some key \<or>
                              fip_public f = addr \<or> fip_public f = key) items)))"

definition empty_fip_spec :: fip_cr_spec where
  "empty_fip_spec = \<lparr>fcs_poolRef = None, fcs_address = None, fcs_vpcRef = None, fcs_routerRef = None,
     fcs_privateAddress = None, fcs_targetVM = None\<rparr>"

definition patched_fip :: "fip_cr \<Rightarrow> string option \<Rightarrow> string option \<Rightarrow> fip_cr" where
  "patched_fip existing privateIpv4 targetVm =
     (let old = opt_default empty_fip_spec (fcr_spec existing) in
      existing\<lparr>fcr_spec := Some (old\<lparr>
        fcs_poolRef := Some (opt_default \<lparr>pr_kind = ''IPPool'', pr_name = []\<rparr> (fcs_poolRef old)),
        fcs_vpcRef := Some (opt_default \<lparr>lr_name = []\<rparr> (fcs_vpcRef old)),
        fcs_privateAddress := opt_or_undef privateIpv4,
        fcs_targetVM := (if truthy privateIpv4 then map_option (\<lambda>n. \<lparr>lr_name = n\<rparr>) (opt_or_undef targetVm) else None)\<rparr>)\<rparr>)"

text \<open>\<open>existing.metadata!.name!\<close>: an object without a name cannot be written back.\<close>

definition object_name_of :: "object_meta option \<Rightarrow> string result" where
  "object_name_of md =
     (case md of
        None \<Rightarrow> throw ''Cannot read properties of undefined (reading 'name')''
      | Some m \<Rightarrow> (case om_name m of
          None \<Rightarrow> throw (''Required parameter name was null or undefined when calling '' @
                         ''CustomObjectsApi.replaceNamespacedCustomObject.'')
        | Some n \<Rightarrow> Inr n))"

definition patchFloatingPrivate ::
  "'s vpc_env \<Rightarrow> string \<Rightarrow> string \<Rightarrow> fip_cr \<Rightarrow> string option \<Rightarrow> string option \<Rightarrow> ('s, fip_cr) act" where
  "patchFloatingPrivate env cluster ns existing privateIpv4 targetVm =
     act_bind (act_lift (object_name_of (fcr_metadata existing))) (\<lambda>nm.
       replaceNamespacedCustomObject (ve_fips env) cluster ns PLURAL_FLOATING_IPS nm
         (patched_fip existing privateIpv4 targetVm))"

text \<open>A preferred address names the object; otherwise the server makes up the name.\<close>

definition fip_meta :: "string option \<Rightarrow> string \<Rightarrow> string \<Rightarrow> object_meta" where
  "fip_meta preferred ns vpcName =
     (case preferred of
        Some p \<Rightarrow> new_meta (Some (js_replace_all (CHR ''.'') (CHR ''-'') p)) ns (Some (kmcManagedLabels None)) None
      | None \<Rightarrow> (new_meta None ns (Some (kmcManagedLabels None)) None)\<lparr>
          om_generateName := Some (''fip-'' @ vpcName @ ''-'')\<rparr>)"

definition new_fip ::
  "string option \<Rightarrow> string \<Rightarrow> string \<Rightarrow> string \<Rightarrow> string \<Rightarrow> string option \<Rightarrow> string option \<Rightarrow> fip_cr" where
  "new_fip preferred ns vpcName routerName poolId privateIpv4 targetVm =
     \<lparr>fcr_apiVersion = Some KMC_API, fcr_kind = Some ''FloatingIP'',
      fcr_metadata = Some (fip_meta preferred ns vpcName),
      fcr_spec = Some \<lparr>fcs_poolRef = Some \<lparr>pr_kind = ''IPPool'', pr_name = poolId\<rparr>,
        fcs_address = preferred, fcs_vpcRef = Some \<lparr>lr_name = vpcName\<rparr>,
        fcs_routerRef = Some \<lparr>lr_name = routerName\<rparr>, fcs_privateAddress = privateIpv4,
        fcs_targetVM = map_option (\<lambda>n. \<lparr>lr_name = n\<rparr>) targetVm\<rparr>,
      fcr_status = None\<rparr>"

definition create_fip :: "'s vpc_env \<Rightarrow> string \<Rightarrow> string \<Rightarrow> fip_cr \<Rightarrow> ('s, fip_cr) act" where
  "create_fip env cluster ns body = createNamespacedCustomObject (ve_fips env) cluster ns PLURAL_FLOATING_IPS body"

text \<open>An existing address of the same network is pointed at the new target.\<close>

definition reuse_fip ::
  "'s vpc_env \<Rightarrow> string \<Rightarrow> string \<Rightarrow> string \<Rightarrow> string option \<Rightarrow> ('s, fip_cr option) act" where
  "reuse_fip env cluster ns vpcName preferred =
     (case preferred of
        None \<Rightarrow> act_return None
      | Some p \<Rightarrow> act_bind (findFloatingIpByPublic env cluster ns p) (\<lambda>existing. act_return
          (case existing of
             None \<Rightarrow> None
           | Some f \<Rightarrow> if ref_name (fld (fcr_spec f) fcs_vpcRef) = Some vpcName then Some f else None)))"

definition associateFloatingIp :: "'s vpc_env \<Rightarrow> fip_request \<Rightarrow> ('s, fip_association) act" where
  "associateFloatingIp env inp =
     (let cluster = fr_cluster inp; ns = fr_namespace inp; preferred = trim_or_undef (fr_publicIpv4 inp) in
      act_bind (gateway_of_vpc env cluster ns (fr_vpcName inp)) (\<lambda>gw.
      act_bind (resolvePublicPoolForRouter env cluster (vg_router gw)) (\<lambda>pool.
      act_bind (resolvePrivateOnVpc env cluster ns (vg_cidr gw) (fr_privateIpv4 inp) (fr_targetVm inp)) (\<lambda>target.
      act_bind (reuse_fip env cluster ns (fr_vpcName inp) preferred) (\<lambda>existing.
      act_bind
        (case existing of
           Some f \<Rightarrow> patchFloatingPrivate env cluster ns f (Some (fst target)) (snd target)
         | None \<Rightarrow> create_fip env cluster ns
             (new_fip preferred ns (fr_vpcName inp) (vg_routerName gw) (fst pool) (Some (fst target)) (snd target)))
        (\<lambda>f. act_return (mapFloatingIpAssociation f)))))))"

subsection \<open>Waiting for the controller\<close>

definition wait_timeoutMs :: int where "wait_timeoutMs = 30000"
definition wait_intervalMs :: int where "wait_intervalMs = 400"

definition wait_failure :: "string \<Rightarrow> string \<Rightarrow> fip_cr option \<Rightarrow> ('s, fip_cr) act" where
  "wait_failure ns nm last' =
     act_throw (''Timed out waiting for public address on FloatingIP '' @ ns @ ''/'' @ nm @
       (case opt_or_undef (fld (fld last' fcr_status) fct_phase) of
          Some p \<Rightarrow> '' (phase '' @ p @ '')'' | None \<Rightarrow> []))"

definition allocation_error :: "fip_cr \<Rightarrow> string" where
  "allocation_error cr =
     (case opt_or_undef (fld (find (\<lambda>c. cond_type c = Some ''Ready'')
             (opt_default [] (fld (fcr_status cr) fct_conditions))) cond_message) of
        Some m \<Rightarrow> m | None \<Rightarrow> ''FloatingIP allocation failed'')"

text \<open>
  The loop, with a bound on its rounds. Its own test is the clock; \<open>wait_bound\<close> shows that the
  bound of \<open>waitForFloatingIpAddress\<close> is never what ends it.
\<close>

fun wait_loop ::
  "nat \<Rightarrow> 's vpc_env \<Rightarrow> string \<Rightarrow> string \<Rightarrow> string \<Rightarrow> int \<Rightarrow> int \<Rightarrow> fip_cr option \<Rightarrow> ('s, fip_cr) act" where
  "wait_loop 0 env cluster ns nm deadline interval last' = wait_failure ns nm last'"
| "wait_loop (Suc n) env cluster ns nm deadline interval last' =
     act_bind (act_read (ve_now env)) (\<lambda>now.
       if now < deadline then
         act_bind (getNamespacedCustomObject (ve_fips env) cluster ns PLURAL_FLOATING_IPS nm) (\<lambda>cr.
           if fip_public cr \<noteq> [] then act_return cr
           else if fld (fcr_status cr) fct_phase = Some ''Error'' then act_throw (allocation_error cr)
           else act_seq (ve_sleep env interval)
                  (wait_loop n env cluster ns nm deadline interval (Some cr)))
       else wait_failure ns nm last')"

definition waitForFloatingIpAddress :: "'s vpc_env \<Rightarrow> string \<Rightarrow> string \<Rightarrow> string \<Rightarrow> ('s, fip_cr) act" where
  "waitForFloatingIpAddress env cluster ns nm =
     act_bind (act_read (ve_now env)) (\<lambda>start.
       wait_loop (nat (wait_timeoutMs div wait_intervalMs)) env cluster ns nm
         (start + wait_timeoutMs) wait_intervalMs None)"

definition reserveFloatingIp :: "'s vpc_env \<Rightarrow> string \<Rightarrow> string \<Rightarrow> string \<Rightarrow> string option \<Rightarrow> ('s, fip_association) act" where
  "reserveFloatingIp env cluster ns vpcName publicIpv4 =
     act_bind (gateway_of_vpc env cluster ns vpcName) (\<lambda>gw.
     act_bind (resolvePublicPoolForRouter env cluster (vg_router gw)) (\<lambda>pool.
     act_bind (create_fip env cluster ns
         (new_fip (trim_or_undef publicIpv4) ns vpcName (vg_routerName gw) (fst pool) None None)) (\<lambda>created.
       case trim_or_undef (fld (fcr_metadata created) om_name) of
         None \<Rightarrow> act_throw ''FloatingIP create returned no object name''
       | Some nm \<Rightarrow>
           act_bind (waitForFloatingIpAddress env cluster ns nm) (\<lambda>ready.
             act_return (mapFloatingIpAssociation ready)))))"

definition disassociateFloatingIp :: "'s vpc_env \<Rightarrow> string \<Rightarrow> string \<Rightarrow> string \<Rightarrow> ('s, unit) act" where
  "disassociateFloatingIp env cluster ns idOrPublic =
     act_bind (findFloatingIpByPublic env cluster ns idOrPublic) (\<lambda>fip.
       case fip of
         None \<Rightarrow> act_throw (''Floating IP \"'' @ idOrPublic @ ''\" not found'')
       | Some f \<Rightarrow> act_bind (patchFloatingPrivate env cluster ns f None None) (\<lambda>_. act_return ()))"

definition releaseFloatingIp :: "'s vpc_env \<Rightarrow> string \<Rightarrow> string \<Rightarrow> string \<Rightarrow> ('s, unit) act" where
  "releaseFloatingIp env cluster ns idOrPublic =
     act_bind (findFloatingIpByPublic env cluster ns idOrPublic) (\<lambda>fip.
       case opt_or_undef (fld (fld fip fcr_metadata) om_name) of
         None \<Rightarrow> act_throw (''Floating IP \"'' @ idOrPublic @ ''\" not found'')
       | Some nm \<Rightarrow> deleteNamespacedCustomObject (ve_fips env) cluster ns PLURAL_FLOATING_IPS nm)"

record fip_detail =
  fd_summary :: fip_summary
  fd_name :: string
  fd_uid :: "string option"
  fd_labels :: "string jsobj"
  fd_annotations :: "string jsobj"
  fd_age :: string
  fd_phase :: "string option"
  fd_programmed :: "bool option"
  fd_observedGeneration :: "int option"
  fd_poolRef :: "pool_ref option"
  fd_conditions :: "console_condition list"

definition detail_of_fip :: "string \<Rightarrow> string \<Rightarrow> fip_cr \<Rightarrow> router_cr option \<Rightarrow> fip_detail" where
  "detail_of_fip cluster nm cr router =
     \<lparr>fd_summary = mapFloatingIpSummary cluster cr router, fd_name = nm,
      fd_uid = fld (fcr_metadata cr) om_uid,
      fd_labels = opt_obj (fld (fcr_metadata cr) om_labels),
      fd_annotations = shown_annotations (fld (fcr_metadata cr) om_annotations),
      fd_age = opt_str (fld (fcr_metadata cr) om_creationTimestamp),
      fd_phase = fld (fcr_status cr) fct_phase, fd_programmed = fld (fcr_status cr) fct_programmed,
      fd_observedGeneration = fld (fcr_status cr) fct_observedGeneration,
      fd_poolRef = fld (fcr_spec cr) fcs_poolRef,
      fd_conditions = mapCrConditions (fld (fcr_status cr) fct_conditions)\<rparr>"

definition load_router_opt :: "'s vpc_env \<Rightarrow> string \<Rightarrow> string \<Rightarrow> string option \<Rightarrow> ('s, router_cr option) act" where
  "load_router_opt env cluster ns nm =
     (case nm of None \<Rightarrow> act_return None | Some n \<Rightarrow> loadRouter env cluster ns n)"

definition fip_not_found :: thrown where
  "fip_not_found = ResponseObj ''Floating IP not found'' 404"

definition getFloatingIp :: "'s vpc_env \<Rightarrow> string \<Rightarrow> string \<Rightarrow> string \<Rightarrow> ('s, fip_detail) act" where
  "getFloatingIp env cluster ns nm =
     act_bind
       (act_catch
         (act_bind (getNamespacedCustomObject (ve_fips env) cluster ns PLURAL_FLOATING_IPS nm) (\<lambda>cr. act_return (Some cr)))
         (\<lambda>err. if \<not> isNotFoundError err then save_error err else act_return None))
       (\<lambda>direct.
     act_bind (case direct of Some cr \<Rightarrow> act_return (Some cr) | None \<Rightarrow> findFloatingIpByPublic env cluster ns nm)
       (\<lambda>found.
       case found of
         None \<Rightarrow> act_fail fip_not_found
       | Some cr \<Rightarrow>
           (case opt_or_undef (fld (fcr_metadata cr) om_name) of
              None \<Rightarrow> act_fail fip_not_found
            | Some crName \<Rightarrow>
                act_bind
                  (load_router_opt env cluster ns
                    (case trim_or_undef (ref_name (fld (fcr_spec cr) fcs_routerRef)) of
                       Some n \<Rightarrow> Some n
                     | None \<Rightarrow> fsm_routerName (mapFloatingIpSummary cluster cr None)))
                  (\<lambda>router. act_return (detail_of_fip cluster crName cr router)))))"

text \<open>
  The addresses and forwards of one machine, each shown with its router, which is loaded once
  per name.
\<close>

fun map_with_routers ::
  "'s vpc_env \<Rightarrow> string \<Rightarrow> string \<Rightarrow> ('x \<Rightarrow> string option) \<Rightarrow> ('x \<Rightarrow> router_cr option \<Rightarrow> 'y) \<Rightarrow>
   (string \<times> router_cr option) list \<Rightarrow> 'x list \<Rightarrow> ('s, 'y list) act" where
  "map_with_routers env cluster ns ref show cache [] = act_return []"
| "map_with_routers env cluster ns ref show cache (x # xs) =
     (case opt_or_undef (ref x) of
        None \<Rightarrow> act_bind (map_with_routers env cluster ns ref show cache xs) (\<lambda>ys. act_return (show x None # ys))
      | Some n \<Rightarrow>
          (case map_of cache n of
             Some r \<Rightarrow> act_bind (map_with_routers env cluster ns ref show cache xs) (\<lambda>ys. act_return (show x r # ys))
           | None \<Rightarrow> act_bind (loadRouter env cluster ns n) (\<lambda>r.
               act_bind (map_with_routers env cluster ns ref show ((n, r) # cache) xs) (\<lambda>ys.
                 act_return (show x r # ys)))))"

definition bare_address :: "string \<Rightarrow> string" where
  "bare_address a = (case addressFromIpv4Annotation a of Some b \<Rightarrow> b | None \<Rightarrow> js_trim a)"

text \<open>A mapping is of a machine by its target or by its private address.\<close>

definition maps_to_vm :: "string \<Rightarrow> string list \<Rightarrow> string option \<Rightarrow> string option \<Rightarrow> bool" where
  "maps_to_vm vmName privateAddresses target privateAddress \<longleftrightarrow>
     (let privSet = set (filter (\<lambda>a. a \<noteq> []) (map bare_address privateAddresses)) in
      (case trim_or_undef target of None \<Rightarrow> False | Some t \<Rightarrow> t = vmName) \<or>
      (case trim_or_undef privateAddress of
         None \<Rightarrow> False
       | Some p \<Rightarrow> (case addressFromIpv4Annotation p of Some a \<Rightarrow> a | None \<Rightarrow> p) \<in> privSet))"

definition listFloatingIpsForVm ::
  "'s vpc_env \<Rightarrow> string \<Rightarrow> string \<Rightarrow> string \<Rightarrow> string list \<Rightarrow> ('s, fip_summary list) act" where
  "listFloatingIpsForVm env cluster ns vmName privateAddresses =
     act_bind (listNamespacedCustomObjects (ve_fips env) cluster ns PLURAL_FLOATING_IPS None) (\<lambda>items.
       map_with_routers env cluster ns (\<lambda>f. ref_name (fld (fcr_spec f) fcs_routerRef)) (mapFloatingIpSummary cluster) []
         (filter (\<lambda>f. maps_to_vm vmName privateAddresses (ref_name (fld (fcr_spec f) fcs_targetVM))
                        (fld (fcr_spec f) fcs_privateAddress)) items))"

text \<open>One cluster of the listing over all clusters.\<close>

definition routers_by_key :: "router_cr list \<Rightarrow> (string \<times> router_cr) list" where
  "routers_by_key routers =
     rev (map (\<lambda>r. (opt_default ''undefined'' (fld (rcr_metadata r) om_namespace) @ ''/'' @
                    opt_default ''undefined'' (fld (rcr_metadata r) om_name), r)) routers)"

definition cluster_routers :: "'s vpc_env \<Rightarrow> string \<Rightarrow> ('s, (string \<times> router_cr) list) act" where
  "cluster_routers env cluster =
     act_bind (act_or (listClusterCustomObjects (ve_routers env) cluster PLURAL_ROUTERS None) []) (\<lambda>rs.
       act_return (routers_by_key rs))"

definition keyed_router :: "(string \<times> router_cr) list \<Rightarrow> object_meta option \<Rightarrow> local_ref option \<Rightarrow> router_cr option" where
  "keyed_router routers md ref =
     (case opt_or_undef (ref_name ref) of
        None \<Rightarrow> None
      | Some n \<Rightarrow> map_of routers (opt_str (fld md om_namespace) @ ''/'' @ n))"

definition fip_rows :: "'s vpc_env \<Rightarrow> string \<Rightarrow> ('s, fip_summary list) act" where
  "fip_rows env cluster =
     act_bind (listClusterCustomObjects (ve_fips env) cluster PLURAL_FLOATING_IPS None) (\<lambda>fips.
     act_bind (cluster_routers env cluster) (\<lambda>routers. act_return
       (map (\<lambda>f. mapFloatingIpSummary cluster f
               (keyed_router routers (fcr_metadata f) (fld (fcr_spec f) fcs_routerRef))) fips)))"

record eligible_target =
  et_name :: string
  et_allocatedIpv4 :: "string option"

record fip_eligible_vpc =
  fev_cluster :: string
  fev_namespace :: string
  fev_name :: string
  fev_cidr :: "string option"
  fev_routerName :: "string option"
  fev_publicNetwork :: "string option"
  fev_agentStatus :: "router_agent_status option"
  fev_floatingCount :: nat
  fev_heldPublicIps :: "string list"
  fev_targetVms :: "eligible_target list"

text \<open>\<open>router?.status?.external?.multusNetwork || router?.spec?.external?.multusNetwork\<close>.\<close>

definition public_network :: "router_cr option \<Rightarrow> string option" where
  "public_network router =
     (case opt_or_undef (fld (fld (fld router rcr_status) rct_external) rse_multusNetwork) of
        Some n \<Rightarrow> Some n
      | None \<Rightarrow> map_option res_multusNetwork (fld (fld router rcr_spec) rcs_external))"

definition eligible_targets :: "vpc_detail \<Rightarrow> eligible_target list" where
  "eligible_targets d =
     map (\<lambda>vm. \<lparr>et_name = vav_name vm, et_allocatedIpv4 = vav_allocatedIpv4 vm\<rparr>)
       (filter (\<lambda>vm. \<not> vav_isRouter vm) (vd_attachedVms d))"

text \<open>The row of one network, if it can take floating addresses; a failed read skips it.\<close>

definition fip_eligible_row :: "'s vpc_env \<Rightarrow> vpc_summary \<Rightarrow> ('s, fip_eligible_vpc option) act" where
  "fip_eligible_row env vpc =
     (if js_trim (opt_str (vsm_cidr vpc)) = [] then act_return None
      else act_or
        (act_bind (getVpc env (vsm_cluster vpc) (vsm_namespace vpc) (vsm_name vpc)) (\<lambda>d.
           case vd_router d of
             None \<Rightarrow> act_return None
           | Some r \<Rightarrow>
               if \<not> rsm_hasExternal r \<or> rsm_name r = [] then act_return None
               else act_bind (loadRouter env (vsm_cluster vpc) (vsm_namespace vpc) (rsm_name r)) (\<lambda>router.
                 act_return (Some
                   \<lparr>fev_cluster = vsm_cluster vpc, fev_namespace = vsm_namespace vpc, fev_name = vsm_name vpc,
                    fev_cidr = vsm_cidr vpc, fev_routerName = Some (rsm_name r),
                    fev_publicNetwork = public_network router, fev_agentStatus = rsm_agentStatus r,
                    fev_floatingCount = length (vd_floatingIps d),
                    fev_heldPublicIps = map fas_public (filter (\<lambda>f. fas_state f = Held) (vd_floatingIps d)),
                    fev_targetVms = eligible_targets d\<rparr>))))
        None)"

section \<open>Port forwards\<close>

record create_pf_request =
  cpr_cluster :: string
  cpr_namespace :: string
  cpr_vpcName :: string
  cpr_protocol :: pf_protocol
  cpr_publicPort :: js_num
  cpr_privatePort :: js_num
  cpr_privateIpv4 :: "string option"
  cpr_targetVm :: "string option"
  cpr_publicIpv4 :: "string option"
  cpr_allocatePublic :: bool

definition port_ok :: "js_num \<Rightarrow> bool" where
  "port_ok p \<longleftrightarrow> js_is_integer p \<and> \<not> num_less p (Fin 1) \<and> \<not> num_less (Fin 65535) p"

text \<open>
  The public side: the given address; a newly reserved one; or the primary address of the router.
\<close>

definition primary_address :: "router_cr \<Rightarrow> string option" where
  "primary_address router =
     (let primary = opt_trim (fld (fld (rcr_status router) rct_external) rse_primaryCidr) in
      case addressFromIpv4Annotation (opt_str primary) of
        Some a \<Rightarrow> Some a
      | None \<Rightarrow> map_option (\<lambda>p. hd (js_split (CHR ''/'') p)) primary)"

definition public_of_forward :: "'s vpc_env \<Rightarrow> create_pf_request \<Rightarrow> router_cr \<Rightarrow> ('s, string) act" where
  "public_of_forward env inp router =
     (case trim_or_undef (cpr_publicIpv4 inp) of
        Some p \<Rightarrow> act_return p
      | None \<Rightarrow>
          if cpr_allocatePublic inp then
            act_bind (reserveFloatingIp env (cpr_cluster inp) (cpr_namespace inp) (cpr_vpcName inp) None) (\<lambda>held.
              if js_trim (fas_public held) = []
              then act_throw (''Allocated FloatingIP '' @ fas_id held @ '' but public address is not ready yet'')
              else act_return (js_trim (fas_public held)))
          else case opt_or_undef (primary_address router) of
            Some p \<Rightarrow> act_return p
          | None \<Rightarrow> act_throw
              ''publicIpv4 is required (or set allocatePublic / configure router external primary)'')"

definition protocol_name :: "pf_protocol \<Rightarrow> string" where
  "protocol_name p = (if p = Udp then ''UDP'' else ''TCP'')"

definition new_forward ::
  "create_pf_request \<Rightarrow> string \<Rightarrow> string \<Rightarrow> string \<Rightarrow> string option \<Rightarrow> pf_cr" where
  "new_forward inp routerName publicAddress privateIpv4 targetVm =
     (let protocol = protocol_name (cpr_protocol inp) in
      \<lparr>pcr_apiVersion = Some KMC_API, pcr_kind = Some ''PortForward'',
       pcr_metadata = Some (new_meta
         (Some (portForwardObjectName publicAddress protocol (num_floor (cpr_publicPort inp))))
         (cpr_namespace inp) (Some (kmcManagedLabels None)) None),
       pcr_spec = Some \<lparr>pcs_vpcRef = Some \<lparr>lr_name = cpr_vpcName inp\<rparr>,
         pcs_routerRef = Some \<lparr>lr_name = routerName\<rparr>, pcs_publicAddress = Some publicAddress,
         pcs_publicPort = Some (cpr_publicPort inp), pcs_privateAddress = Some privateIpv4,
         pcs_privatePort = Some (cpr_privatePort inp), pcs_protocol = Some protocol,
         pcs_targetVM = map_option (\<lambda>n. \<lparr>lr_name = n\<rparr>) targetVm\<rparr>,
       pcr_status = None\<rparr>)"

definition createPortForward :: "'s vpc_env \<Rightarrow> create_pf_request \<Rightarrow> ('s, pf_association) act" where
  "createPortForward env inp =
     (let cluster = cpr_cluster inp; ns = cpr_namespace inp in
      act_bind (gateway_of_vpc env cluster ns (cpr_vpcName inp)) (\<lambda>gw.
      act_bind (resolvePrivateOnVpc env cluster ns (vg_cidr gw) (cpr_privateIpv4 inp) (cpr_targetVm inp)) (\<lambda>target.
      act_bind (public_of_forward env inp (vg_router gw)) (\<lambda>publicAddress.
        if \<not> port_ok (cpr_publicPort inp) \<or> \<not> port_ok (cpr_privatePort inp)
        then act_throw ''publicPort and privatePort must be integers 1-65535''
        else act_bind
          (createNamespacedCustomObject (ve_pfs env) cluster ns PLURAL_PORT_FORWARDS
            (new_forward inp (vg_routerName gw) publicAddress (fst target) (snd target)))
          (\<lambda>created. act_return (mapPortForwardAssociation created (Some (cpr_vpcName inp))))))))"

definition deletePortForward :: "'s vpc_env \<Rightarrow> string \<Rightarrow> string \<Rightarrow> string \<Rightarrow> ('s, unit) act" where
  "deletePortForward env cluster ns pfId =
     (if js_trim pfId = [] then act_throw ''port forward id is required''
      else deleteNamespacedCustomObject (ve_pfs env) cluster ns PLURAL_PORT_FORWARDS (js_trim pfId))"

record pf_detail =
  pd_summary :: pf_summary
  pd_name :: string
  pd_uid :: "string option"
  pd_labels :: "string jsobj"
  pd_annotations :: "string jsobj"
  pd_age :: string
  pd_phase :: "string option"
  pd_programmed :: "bool option"
  pd_observedGeneration :: "int option"
  pd_conditions :: "console_condition list"

definition detail_of_forward :: "string \<Rightarrow> string \<Rightarrow> pf_cr \<Rightarrow> router_cr option \<Rightarrow> pf_detail" where
  "detail_of_forward cluster nm cr router =
     \<lparr>pd_summary = mapPortForwardSummary cluster cr router, pd_name = nm,
      pd_uid = fld (pcr_metadata cr) om_uid,
      pd_labels = opt_obj (fld (pcr_metadata cr) om_labels),
      pd_annotations = shown_annotations (fld (pcr_metadata cr) om_annotations),
      pd_age = opt_str (fld (pcr_metadata cr) om_creationTimestamp),
      pd_phase = fld (pcr_status cr) pct_phase, pd_programmed = fld (pcr_status cr) pct_programmed,
      pd_observedGeneration = fld (pcr_status cr) pct_observedGeneration,
      pd_conditions = mapCrConditions (fld (pcr_status cr) pct_conditions)\<rparr>"

definition getPortForward :: "'s vpc_env \<Rightarrow> string \<Rightarrow> string \<Rightarrow> string \<Rightarrow> ('s, pf_detail) act" where
  "getPortForward env cluster ns nm =
     act_bind
       (act_catch (getNamespacedCustomObject (ve_pfs env) cluster ns PLURAL_PORT_FORWARDS nm) (\<lambda>err.
          if isNotFoundError err then act_fail (ResponseObj ''Port forward not found'' 404) else save_error err))
       (\<lambda>cr. case opt_or_undef (fld (pcr_metadata cr) om_name) of
          None \<Rightarrow> act_fail (ResponseObj ''Port forward not found'' 404)
        | Some crName \<Rightarrow>
            act_bind (load_router_opt env cluster ns (trim_or_undef (ref_name (fld (pcr_spec cr) pcs_routerRef))))
              (\<lambda>router. act_return (detail_of_forward cluster crName cr router)))"

definition listPortForwardsForVm ::
  "'s vpc_env \<Rightarrow> string \<Rightarrow> string \<Rightarrow> string \<Rightarrow> string list \<Rightarrow> ('s, pf_summary list) act" where
  "listPortForwardsForVm env cluster ns vmName privateAddresses =
     act_bind (listNamespacedCustomObjects (ve_pfs env) cluster ns PLURAL_PORT_FORWARDS None) (\<lambda>items.
       map_with_routers env cluster ns (\<lambda>p. ref_name (fld (pcr_spec p) pcs_routerRef)) (mapPortForwardSummary cluster) []
         (filter (\<lambda>p. maps_to_vm vmName privateAddresses (ref_name (fld (pcr_spec p) pcs_targetVM))
                        (fld (pcr_spec p) pcs_privateAddress)) items))"

definition pf_rows :: "'s vpc_env \<Rightarrow> string \<Rightarrow> ('s, pf_summary list) act" where
  "pf_rows env cluster =
     act_bind (listClusterCustomObjects (ve_pfs env) cluster PLURAL_PORT_FORWARDS None) (\<lambda>pfs.
     act_bind (cluster_routers env cluster) (\<lambda>routers. act_return
       (map (\<lambda>p. mapPortForwardSummary cluster p
               (keyed_router routers (pcr_metadata p) (fld (pcr_spec p) pcs_routerRef))) pfs)))"

record pf_eligible_vpc =
  pev_cluster :: string
  pev_namespace :: string
  pev_name :: string
  pev_cidr :: "string option"
  pev_routerName :: "string option"
  pev_publicNetwork :: "string option"
  pev_externalPrimaryIpv4 :: "string option"
  pev_agentStatus :: "router_agent_status option"
  pev_portForwardCount :: nat
  pev_publicIpv4Options :: "string list"
  pev_targetVms :: "eligible_target list"

text \<open>The public addresses that may host a forward: none that is mapped one to one.\<close>

definition external_primary :: "router_cr \<Rightarrow> string option" where
  "external_primary router =
     (let primary = fld (fld (rcr_status router) rct_external) rse_primaryCidr in
      case addressFromIpv4Annotation (opt_str primary) of
        Some a \<Rightarrow> Some a
      | None \<Rightarrow> map_option (\<lambda>p. js_trim (hd (js_split (CHR ''/'') p))) primary)"

definition associated_publics :: "fip_association list \<Rightarrow> string set" where
  "associated_publics fips =
     (\<lambda>f. case addressFromIpv4Annotation (fas_public f) of Some a \<Rightarrow> a | None \<Rightarrow> fas_public f) `
       set (filter (\<lambda>f. fas_state f = Associated) fips)"

definition public_options :: "string option \<Rightarrow> vpc_detail \<Rightarrow> string list" where
  "public_options primary d =
     (let taken = associated_publics (vd_floatingIps d) in
      js_sort (js_uniq
        ((case opt_or_undef primary of None \<Rightarrow> [] | Some p \<Rightarrow> if p \<in> taken then [] else [p]) @
         map fas_public (filter (\<lambda>f. fas_state f = Held \<and> fas_public f \<noteq> []) (vd_floatingIps d)) @
         filter (\<lambda>p. p \<noteq> [] \<and> p \<notin> taken)
           (map (\<lambda>f. case addressFromIpv4Annotation (pas_public f) of Some a \<Rightarrow> a | None \<Rightarrow> pas_public f)
             (vd_portForwards d)))))"

definition pf_eligible_row :: "'s vpc_env \<Rightarrow> vpc_summary \<Rightarrow> ('s, pf_eligible_vpc option) act" where
  "pf_eligible_row env vpc =
     (if js_trim (opt_str (vsm_cidr vpc)) = [] then act_return None
      else act_or
        (act_bind (getVpc env (vsm_cluster vpc) (vsm_namespace vpc) (vsm_name vpc)) (\<lambda>d.
           case vd_router d of
             None \<Rightarrow> act_return None
           | Some r \<Rightarrow>
               if \<not> rsm_hasExternal r \<or> rsm_name r = [] then act_return None
               else act_bind (loadRouter env (vsm_cluster vpc) (vsm_namespace vpc) (rsm_name r)) (\<lambda>loaded.
                 case loaded of
                   None \<Rightarrow> act_return None
                 | Some router \<Rightarrow> act_return (Some
                     \<lparr>pev_cluster = vsm_cluster vpc, pev_namespace = vsm_namespace vpc, pev_name = vsm_name vpc,
                      pev_cidr = vsm_cidr vpc, pev_routerName = Some (rsm_name r),
                      pev_publicNetwork = public_network (Some router),
                      pev_externalPrimaryIpv4 = external_primary router, pev_agentStatus = rsm_agentStatus r,
                      pev_portForwardCount = length (vd_portForwards d),
                      pev_publicIpv4Options = public_options (external_primary router) d,
                      pev_targetVms = eligible_targets d\<rparr>))))
        None)"

section \<open>The wait ends by the clock\<close>

text \<open>A sleep lasts at least as long as asked, and a read does not set the clock back.\<close>

definition clock_advances :: "'s vpc_env \<Rightarrow> string \<Rightarrow> bool" where
  "clock_advances env cluster \<longleftrightarrow>
     (\<forall>ms s. ve_now env s + ms \<le> ve_now env (snd (ve_sleep env ms s))) \<and>
     (\<forall>plural ns nm s. ve_now env s \<le>
        ve_now env (snd (getNamespacedCustomObject (ve_fips env) cluster ns plural nm s)))"

lemma wait_bound:
  assumes clock: "clock_advances env cluster" and "0 < interval"
  shows "deadline - ve_now env s \<le> int n * interval \<Longrightarrow> n \<le> m \<Longrightarrow>
    wait_loop m env cluster ns nm deadline interval last' s = wait_loop n env cluster ns nm deadline interval last' s"
proof (induction n arbitrary: m s last')
  case 0
  then show ?case by (cases m) (auto simp: act_simps)
next
  case (Suc n)
  then obtain k where m: "m = Suc k" "n \<le> k" by (cases m) auto
  obtain r u where get: "getNamespacedCustomObject (ve_fips env) cluster ns PLURAL_FLOATING_IPS nm s = (r, u)"
    by (rule prod.exhaust)
  have u: "ve_now env s \<le> ve_now env u"
    using clock get by (metis clock_advances_def snd_conv)
  have IH: "wait_loop k env cluster ns nm deadline interval l t = wait_loop n env cluster ns nm deadline interval l t"
    if "ve_sleep env interval u = (q, t)" for q t l
  proof (rule Suc.IH [OF _ m(2)])
    have "ve_now env u + interval \<le> ve_now env t"
      using clock that by (metis clock_advances_def snd_conv)
    with u Suc.prems(1) show "deadline - ve_now env t \<le> int n * interval"
      by (simp add: algebra_simps)
  qed
  show ?case
    by (simp add: m act_simps get split: sum.splits prod.splits) (auto dest: IH)
qed

text \<open>
  C33. the wait for a reserved address ends by its clock after at most 75 polls: with a clock
  that a sleep advances, no larger bound on the rounds changes what the loop returns.
\<close>

theorem wait_ends_in_time:
  assumes "clock_advances env cluster" "75 \<le> m"
  shows "wait_loop m env cluster ns nm (ve_now env s + wait_timeoutMs) wait_intervalMs None s =
    waitForFloatingIpAddress env cluster ns nm s"
  by (simp add: waitForFloatingIpAddress_def act_simps)
    (rule wait_bound [OF assms(1)], simp_all add: wait_timeoutMs_def wait_intervalMs_def assms(2))

section \<open>What a forward may point at\<close>

text \<open>
  \<open>forwards\<close> observes the stored forwards: reads, sleeping and the creation of a floating
  address leave them alone, and a creation adds at most the object it is given. \<open>block_is\<close>:
  whenever the network is read, its block, if any, is \<open>c\<close>.
\<close>

definition forward_store :: "('s \<Rightarrow> pf_cr set) \<Rightarrow> 's vpc_env \<Rightarrow> string \<Rightarrow> bool" where
  "forward_store forwards env cluster \<longleftrightarrow>
     network_reads forwards env cluster \<and> (\<forall>ms. leaves forwards (ve_sleep env ms)) \<and>
     (\<forall>ns b. leaves forwards (createNamespacedCustomObject (ve_fips env) cluster ns PLURAL_FLOATING_IPS b)) \<and>
     (\<forall>ns b s. forwards (snd (createNamespacedCustomObject (ve_pfs env) cluster ns PLURAL_PORT_FORWARDS b s))
        \<subseteq> insert b (forwards s))"

definition block_is :: "string \<Rightarrow> 's vpc_env \<Rightarrow> string \<Rightarrow> string \<Rightarrow> string \<Rightarrow> bool" where
  "block_is c env cluster ns nm \<longleftrightarrow>
     (\<forall>s cr. fst (read_vpc env cluster ns nm s) = Inr cr \<longrightarrow> vsm_cidr (mapVpcSummary cluster cr) \<in> {None, Some c})"

definition inside_block :: "string \<Rightarrow> string \<Rightarrow> bool" where
  "inside_block c ip \<longleftrightarrow>
     (\<exists>parsed n. parseCidr c = Inr parsed \<and> parseIpv4 ip = Inr n \<and> containsIpv4 parsed n)"

definition sound_forward :: "string \<Rightarrow> string \<Rightarrow> string \<Rightarrow> pf_cr \<Rightarrow> bool" where
  "sound_forward c ns nm b \<longleftrightarrow>
     (fld (pcr_metadata b) om_namespace = Some ns \<and> ref_name (fld (pcr_spec b) pcs_vpcRef) = Some nm \<longrightarrow>
      (\<exists>p q ip. fld (pcr_spec b) pcs_publicPort = Some (Fin (of_int p)) \<and> 1 \<le> p \<and> p \<le> 65535 \<and>
         fld (pcr_spec b) pcs_privatePort = Some (Fin (of_int q)) \<and> 1 \<le> q \<and> q \<le> 65535 \<and>
         fld (pcr_spec b) pcs_privateAddress = Some ip \<and> inside_block c ip))"

lemma check_private_Inr: "check_private c ip = Inr () \<longleftrightarrow> inside_block c ip"
  by (cases "parseIpv4 ip"; cases "parseCidr c")
    (auto simp: check_private_def inside_block_def containsIpv4_str_def)

lemma resolvePrivate_inside:
  assumes "resolvePrivateOnVpc env cluster ns c ip vm s = (Inr target, t)"
  shows "inside_block c (fst target)"
proof -
  obtain a u where "act_seq (act_lift (check_private c (opt_str a))) (act_return (opt_str a, trim_or_undef vm)) u =
      (Inr target, t)"
    using assms unfolding resolvePrivateOnVpc_def Let_def
    by (elim act_bind_InrE) (auto simp: act_simps split: if_splits)
  then show ?thesis
    by (cases "check_private c (opt_str a)") (auto simp: act_simps simp flip: check_private_Inr)
qed

lemma gateway_cidr:
  assumes "block_is c env cluster ns nm" "gateway_of_vpc env cluster ns nm s = (Inr gw, t)"
  shows "vg_cidr gw = c"
proof -
  obtain vpc u where get: "getVpc env cluster ns nm s = (Inr vpc, u)" and
    rest: "(let cidr = opt_str (vsm_cidr (vd_summary vpc)) in
       if js_trim cidr = [] then act_throw ''VPC has no private CIDR''
       else case vd_router vpc of
         None \<Rightarrow> act_throw ''VPC has no router external gateway -- enable an external gateway on the shared router first''
       | Some r \<Rightarrow>
           if \<not> rsm_hasExternal r \<or> rsm_name r = []
           then act_throw ''VPC has no router external gateway -- enable an external gateway on the shared router first''
           else act_bind (loadRouter env cluster ns (rsm_name r)) (\<lambda>router.
             case router of
               None \<Rightarrow> act_throw (''Router '' @ rsm_name r @ '' not found'')
             | Some rt \<Rightarrow> act_return \<lparr>vg_cidr = cidr, vg_routerName = rsm_name r, vg_router = rt\<rparr>)) u =
       (Inr gw, t)"
    using assms(2) unfolding gateway_of_vpc_def by (rule act_bind_InrE)
  obtain cr v where "read_vpc env cluster ns nm s = (Inr cr, v)" "vd_summary vpc = mapVpcSummary cluster cr"
    using get unfolding getVpc_def
    by (elim act_bind_InrE) (auto simp: act_simps vpc_detail_of_def)
  then have "vsm_cidr (vd_summary vpc) \<in> {None, Some c}"
    using assms(1) by (metis block_is_def fst_conv)
  moreover have "vg_cidr gw = opt_str (vsm_cidr (vd_summary vpc)) \<and> vg_cidr gw \<noteq> []"
    using rest by (auto simp: Let_def act_simps js_trim_Nil split: if_splits option.splits sum.splits prod.splits)
  ultimately show ?thesis by (auto simp: opt_str_def)
qed

lemma port_ok_int: "port_ok x \<Longrightarrow> \<exists>p. x = Fin (of_int p) \<and> 1 \<le> p \<and> p \<le> 65535"
  by (cases x) (auto simp: port_ok_def elim!: Ints_cases)

lemma sound_new_forward:
  assumes "port_ok (cpr_publicPort inp)" "port_ok (cpr_privatePort inp)" "inside_block c ip"
  shows "sound_forward c ns nm (new_forward inp rt pub ip vm)"
  using assms(3) port_ok_int [OF assms(1)] port_ok_int [OF assms(2)]
  by (auto simp: sound_forward_def new_forward_def Let_def)

lemma leaves_gateway: "network_reads f env cluster \<Longrightarrow> leaves f (gateway_of_vpc env cluster ns nm)"
  unfolding gateway_of_vpc_def Let_def by (intro leaves_intros leaves_getVpc leaves_loadRouter)

lemma leaves_wait_loop:
  assumes "network_reads f env cluster" "\<And>ms. leaves f (ve_sleep env ms)"
  shows "leaves f (wait_loop n env cluster ns nm deadline interval last')"
proof (induction n arbitrary: last')
  case 0
  then show ?case by (simp add: wait_failure_def leaves_basic)
next
  case (Suc n)
  then show ?case
    unfolding wait_loop.simps wait_failure_def by (intro network_leaves assms)
qed

lemma leaves_public_of_forward:
  assumes "forward_store f env (cpr_cluster inp)"
  shows "leaves f (public_of_forward env inp router)"
proof -
  have reads: "network_reads f env (cpr_cluster inp)" and sleep: "\<And>ms. leaves f (ve_sleep env ms)"
    and create: "\<And>ns b. leaves f (createNamespacedCustomObject (ve_fips env) (cpr_cluster inp) ns PLURAL_FLOATING_IPS b)"
    using assms by (simp_all add: forward_store_def)
  show ?thesis
    unfolding public_of_forward_def reserveFloatingIp_def create_fip_def waitForFloatingIpAddress_def
    by (intro leaves_intros leaves_gateway leaves_publicPool leaves_wait_loop reads sleep create)
qed

lemma createPortForward_adds:
  assumes store: "forward_store f env (cpr_cluster inp)"
    and block: "block_is c env (cpr_cluster inp) (cpr_namespace inp) (cpr_vpcName inp)"
  shows "\<exists>b. f (snd (createPortForward env inp s)) \<subseteq> insert b (f s) \<and>
    sound_forward c (cpr_namespace inp) (cpr_vpcName inp) b \<or> f (snd (createPortForward env inp s)) = f s"
proof -
  let ?cl = "cpr_cluster inp" and ?ns = "cpr_namespace inp" and ?nm = "cpr_vpcName inp"
  have reads: "network_reads f env ?cl" using store by (simp add: forward_store_def)
  obtain r u where gw: "gateway_of_vpc env ?cl ?ns ?nm s = (r, u)" by (rule prod.exhaust)
  have fu: "f u = f s" using leaves_snd [OF leaves_gateway [OF reads], of ?ns ?nm s] gw by simp
  show ?thesis
  proof (cases r)
    case (Inl e)
    with gw fu show ?thesis by (simp add: createPortForward_def Let_def act_simps)
  next
    case g: (Inr gw')
    have cidr: "vg_cidr gw' = c" using gateway_cidr [OF block] gw g by simp
    obtain q v where tg: "resolvePrivateOnVpc env ?cl ?ns c (cpr_privateIpv4 inp) (cpr_targetVm inp) u = (q, v)"
      by (rule prod.exhaust)
    have fv: "f v = f s"
      using leaves_snd [OF leaves_resolvePrivate [OF reads], of ?ns c "cpr_privateIpv4 inp" "cpr_targetVm inp" u]
        tg fu by simp
    obtain p w where pub: "public_of_forward env inp (vg_router gw') v = (p, w)" by (rule prod.exhaust)
    have fw: "f w = f s"
      using leaves_snd [OF leaves_public_of_forward [OF store], of "vg_router gw'" v] pub fv by simp
    show ?thesis
    proof (cases "\<exists>t a. q = Inr t \<and> p = Inr a \<and> port_ok (cpr_publicPort inp) \<and> port_ok (cpr_privatePort inp)")
      case True
      then obtain t a where ok: "q = Inr t" "p = Inr a" "port_ok (cpr_publicPort inp)" "port_ok (cpr_privatePort inp)"
        by blast
      let ?b = "new_forward inp (vg_routerName gw') a (fst t) (snd t)"
      have "inside_block c (fst t)" by (rule resolvePrivate_inside [OF tg [unfolded ok(1)]])
      then have sound: "sound_forward c ?ns ?nm ?b" using sound_new_forward ok by blast
      have "f (snd (createPortForward env inp s)) =
          f (snd (createNamespacedCustomObject (ve_pfs env) ?cl ?ns PLURAL_PORT_FORWARDS ?b w))"
        using gw g tg pub ok cidr
        by (simp add: createPortForward_def Let_def act_simps split: sum.splits prod.splits)
      also have "\<dots> \<subseteq> insert ?b (f s)"
        using store fw unfolding forward_store_def by metis
      finally show ?thesis using sound by blast
    next
      case False
      then have "f (snd (createPortForward env inp s)) = f s"
        using gw g tg pub cidr fv fw
        by (cases q; cases p) (auto simp: createPortForward_def Let_def act_simps)
      then show ?thesis by blast
    qed
  qed
qed

text \<open>
  C34. as long as the block of a network does not change, every stored forward of the network
  has integer ports from 1 to 65535 and a private address inside the block; \<open>createPortForward\<close>
  keeps it so, on every path, also where it reserves a public address first.
\<close>

theorem forwards_stay_inside:
  assumes "forward_store forwards env (cpr_cluster inp)"
    and "block_is c env (cpr_cluster inp) (cpr_namespace inp) (cpr_vpcName inp)"
    and "\<forall>b \<in> forwards s. sound_forward c (cpr_namespace inp) (cpr_vpcName inp) b"
  shows "\<forall>b \<in> forwards (snd (createPortForward env inp s)). sound_forward c (cpr_namespace inp) (cpr_vpcName inp) b"
  using createPortForward_adds [OF assms(1,2), of s] assms(3) by auto

section \<open>A forward and a wait in a laboratory\<close>

text \<open>The state of one environment is the list of its forwards; of the other, its clock.\<close>

definition gw_vpc :: vpc_cr where
  "gw_vpc = lab_vpc\<lparr>vcr_spec := Some (empty_vpc_spec\<lparr>vcs_cidr := Some ''10.0.0.0/24''\<rparr>),
     vcr_status := Some \<lparr>vct_phase = None, vct_vlan = None, vct_bridge = None, vct_networkAttachmentReady = None,
       vct_routerRef = Some \<lparr>lr_name = ''edge''\<rparr>, vct_observedGeneration = None, vct_conditions = None\<rparr>\<rparr>"

definition edge_router :: router_cr where
  "edge_router = \<lparr>rcr_apiVersion = None, rcr_kind = None,
     rcr_metadata = Some (new_meta (Some ''edge'') ''lab'' None None),
     rcr_spec = Some \<lparr>rcs_vpcs = None, rcs_external =
       Some \<lparr>res_multusNetwork = ''public'', res_address = Some ''203.0.113.5/24'', res_snat = None\<rparr>,
       rcs_appliance = None\<rparr>,
     rcr_status = None\<rparr>"

definition forward_env :: "pf_cr list vpc_env" where
  "forward_env = idle_env\<lparr>
     ve_vpcs := (\<lambda>c. Inr (idle_api\<lparr>api_get_ns := (\<lambda>g ns nm. act_return gw_vpc)\<rparr>)),
     ve_routers := (\<lambda>c. Inr (idle_api\<lparr>api_get_ns := (\<lambda>g ns nm. act_return edge_router)\<rparr>)),
     ve_pfs := (\<lambda>c. Inr (idle_api\<lparr>api_create_ns := (\<lambda>g ns b s. (Inr b, s @ [b]))\<rparr>))\<rparr>"

definition web_forward :: create_pf_request where
  "web_forward = \<lparr>cpr_cluster = ''c1'', cpr_namespace = ''lab'', cpr_vpcName = ''net'', cpr_protocol = Tcp,
     cpr_publicPort = Fin 8080, cpr_privatePort = Fin 80, cpr_privateIpv4 = Some ''10.0.0.7'',
     cpr_targetVm = None, cpr_publicIpv4 = Some ''203.0.113.9'', cpr_allocatePublic = False\<rparr>"

lemma forward_env_store: "forward_store set forward_env cluster"
  by (simp add: forward_store_def network_reads_def pool_reads_def clients_read_def forward_env_def idle_env_def)
    (auto simp: reads_leave_def idle_api_def leaves_def act_simps createNamespacedCustomObject_def)

lemma forward_env_block: "block_is ''10.0.0.0/24'' forward_env cluster ns nm"
proof -
  have "vsm_cidr (mapVpcSummary cluster gw_vpc) = Some ''10.0.0.0/24''"
    by (simp add: mapVpcSummary_def Let_def gw_vpc_def) code_simp
  then show ?thesis
    by (simp add: block_is_def read_vpc_def getNamespacedCustomObject_def forward_env_def act_simps)
qed

lemma web_forward_ports: "port_ok (cpr_publicPort web_forward)" "port_ok (cpr_privatePort web_forward)"
  by (simp_all add: web_forward_def port_ok_def)

lemma web_forward_sel:
  "cpr_cluster web_forward = ''c1''" "cpr_namespace web_forward = ''lab''" "cpr_vpcName web_forward = ''net''"
  by (simp_all add: web_forward_def)

lemma web_gateway:
  "gateway_of_vpc forward_env ''c1'' ''lab'' ''net'' [] =
     (Inr \<lparr>vg_cidr = ''10.0.0.0/24'', vg_routerName = ''edge'', vg_router = edge_router\<rparr>, [])"
  by code_simp

lemma web_target:
  "resolvePrivateOnVpc forward_env ''c1'' ''lab'' ''10.0.0.0/24'' (cpr_privateIpv4 web_forward)
     (cpr_targetVm web_forward) [] = (Inr (''10.0.0.7'', None), [])"
  by code_simp

lemma web_public: "public_of_forward forward_env web_forward edge_router [] = (Inr ''203.0.113.9'', [])"
  by code_simp

lemma web_forward_stored:
  "snd (createPortForward forward_env web_forward []) =
     [new_forward web_forward ''edge'' ''203.0.113.9'' ''10.0.0.7'' None]"
proof -
  have create: "createNamespacedCustomObject (ve_pfs forward_env) cluster ns plural b s = (Inr b, s @ [b])"
    for cluster ns plural b s
    by (simp add: createNamespacedCustomObject_def forward_env_def act_simps)
  show ?thesis
    unfolding createPortForward_def Let_def web_forward_sel
    by (simp only: act_bind_apply web_gateway web_target web_public web_forward_ports create act_return_apply
        prod.case sum.case vpc_gateway.simps fst_conv snd_conv not_True_eq_False simp_thms if_False append_Nil)
qed

theorem forwards_stay_inside_witness:
  "list_all (sound_forward ''10.0.0.0/24'' ''lab'' ''net'') (snd (createPortForward forward_env web_forward [])) \<and>
   length (snd (createPortForward forward_env web_forward [])) = 1"
proof
  show "list_all (sound_forward ''10.0.0.0/24'' ''lab'' ''net'') (snd (createPortForward forward_env web_forward []))"
    unfolding list_all_iff
    by (rule forwards_stay_inside [of set forward_env web_forward "''10.0.0.0/24''" "[]", unfolded web_forward_sel,
          OF forward_env_store forward_env_block]) simp
  show "length (snd (createPortForward forward_env web_forward [])) = 1"
    by (simp only: web_forward_stored) simp
qed

definition clock_env :: "int vpc_env" where
  "clock_env = idle_env\<lparr>ve_now := (\<lambda>s. s), ve_sleep := (\<lambda>ms s. (Inr (), s + ms))\<rparr>"

lemma clock_env_advances: "clock_advances clock_env cluster"
  by (simp add: clock_advances_def clock_env_def idle_env_def idle_api_def getNamespacedCustomObject_def act_simps)

theorem wait_ends_in_time_witness:
  "wait_loop 1000 clock_env ''c1'' ''lab'' ''fip'' (ve_now clock_env 0 + wait_timeoutMs) wait_intervalMs None 0 =
     waitForFloatingIpAddress clock_env ''c1'' ''lab'' ''fip'' 0"
  by (rule wait_ends_in_time [OF clock_env_advances]) simp

end
