(* ===== verification/Cloud_Init.thy ===== *)
theory Cloud_Init
  imports Js_Effects
begin

text \<open>
  \<open>vms/cloud-init.ts\<close>: the \<open>#cloud-config\<close> document that a new guest runs. \<open>new URL\<close> is a
  parameter: the protocol and the path of a text that is a URL.
\<close>

type_synonym url_reader = "string \<Rightarrow> (string \<times> string) option"

record git_identity =
  gi_name :: "string option"
  gi_email :: "string option"
  gi_githubLogin :: "string option"

record cloud_init_opts =
  cio_sshPublicKeys :: "string list"
  cio_sshUser :: "string option"
  cio_guestAgent :: bool
  cio_traceroute :: "bool option"
  cio_basePackages :: bool
  cio_docker :: bool
  cio_gitIdentity :: "git_identity option"
  cio_repoUrl :: "string option"
  cio_codeServer :: bool
  cio_readyFile :: bool

record write_file =
  wf_path :: string
  wf_content :: string
  wf_permissions :: "string option"

definition normalizeAuthorizedKeys :: "string list \<Rightarrow> string list" where
  "normalizeAuthorizedKeys keys = js_uniq (trim_list keys)"

section \<open>Repositories\<close>

text \<open>The characters of \<open>SAFE_HTTPS_REPO\<close> after the scheme, and of a directory name.\<close>

definition repo_char :: "char \<Rightarrow> bool" where
  "repo_char c \<longleftrightarrow> is_alnum c \<or> c \<in> set ''._~:/?#@[]!$&()*+,;=%-'' \<or> c = CHR 0x27"

definition SAFE_HTTPS_REPO :: "string \<Rightarrow> bool" where
  "SAFE_HTTPS_REPO s \<longleftrightarrow>
     js_starts_with s ''https://'' \<and> 8 < length s \<and> list_all repo_char (drop 8 s)"

definition dir_char :: "char \<Rightarrow> bool" where
  "dir_char c \<longleftrightarrow> is_alnum c \<or> c \<in> set ''._-''"

text \<open>\<open>leaf.replace(/.git$/i, "")\<close>.\<close>

definition drop_git :: "string \<Rightarrow> string" where
  "drop_git leaf = (if js_ends_with (js_lower leaf) ''.git'' then take (length leaf - 4) leaf else leaf)"

definition repo_leaf :: "string \<Rightarrow> string" where
  "repo_leaf path =
     (let parts = filter (\<lambda>p. p \<noteq> []) (js_split (CHR ''/'') path) in
      if parts = [] then ''repo'' else last parts)"

definition parseHttpsGitUrl :: "url_reader \<Rightarrow> string \<Rightarrow> (string \<times> string) result" where
  "parseHttpsGitUrl read_url raw =
     (let u = js_trim raw in
      if u = [] then throw ''repo URL is required''
      else if js_starts_with u ''git@'' \<or> js_starts_with u ''ssh://''
        then throw ''Only public https:// git URLs are supported''
      else if \<not> SAFE_HTTPS_REPO u then throw ''repo URL must be a public https:// address''
      else case read_url u of
        None \<Rightarrow> throw ''repo URL is not a valid URL''
      | Some (protocol, path) \<Rightarrow>
          if protocol \<noteq> ''https:'' then throw ''Only public https:// git URLs are supported''
          else let stem = drop_git (repo_leaf path); basename = (if stem = [] then ''repo'' else stem) in
            if \<not> list_all dir_char basename
            then throw ''could not derive a safe directory name from the repo URL''
            else Inr (u, basename))"

definition workspacePathForRepo :: "url_reader \<Rightarrow> string \<Rightarrow> string \<Rightarrow> string result" where
  "workspacePathForRepo read_url sshUser repoUrl =
     res_bind (parseHttpsGitUrl read_url repoUrl) (\<lambda>(u, basename).
       Inr (''/home/'' @ sshUser @ ''/src/'' @ basename))"

section \<open>The document\<close>

definition guest_user :: "cloud_init_opts \<Rightarrow> string" where
  "guest_user opts =
     (let u = js_trim (opt_default ''ubuntu'' (cio_sshUser opts)) in if u = [] then ''ubuntu'' else u)"

definition stagedGitconfig :: string where "stagedGitconfig = ''/var/lib/kmc/gitconfig''"
definition stagedCodeServer :: string where "stagedCodeServer = ''/var/lib/kmc/code-server-config.yaml''"

definition init_packages :: "cloud_init_opts \<Rightarrow> string list" where
  "init_packages opts =
     (if cio_guestAgent opts \<or> cio_basePackages opts
      then ''qemu-guest-agent'' #
           (if cio_traceroute opts \<noteq> Some False \<and> (cio_guestAgent opts \<or> cio_traceroute opts = Some True)
            then [''traceroute''] else [])
      else []) @
     (if cio_basePackages opts then [''git'', ''curl'', ''ca-certificates'', ''build-essential''] else []) @
     (if cio_docker opts then [''docker.io''] else [])"

definition has_gitconfig :: "cloud_init_opts \<Rightarrow> bool" where
  "has_gitconfig opts =
     (case cio_gitIdentity opts of
        None \<Rightarrow> False
      | Some i \<Rightarrow> js_trim (opt_str (gi_name i)) \<noteq> [] \<or> js_trim (opt_str (gi_email i)) \<noteq> [] \<or>
                  truthy (gi_githubLogin i))"

definition gitconfig_text :: "string \<Rightarrow> git_identity \<Rightarrow> string" where
  "gitconfig_text sshUser i =
     (let nm = (case trim_or_undef (gi_name i) of
                  Some n \<Rightarrow> n
                | None \<Rightarrow> (case trim_or_undef (gi_githubLogin i) of Some n \<Rightarrow> n | None \<Rightarrow> sshUser));
          email = js_trim (opt_str (gi_email i))
      in js_join [CHR 0x0a]
           ([''[user]'', ''  name = '' @ nm] @ (if email \<noteq> [] then [''  email = '' @ email] else [])))"

definition init_files :: "cloud_init_opts \<Rightarrow> write_file list" where
  "init_files opts =
     (case cio_gitIdentity opts of
        Some i \<Rightarrow> if has_gitconfig opts
          then [\<lparr>wf_path = stagedGitconfig, wf_content = gitconfig_text (guest_user opts) i, wf_permissions = Some ''0644''\<rparr>]
          else []
      | None \<Rightarrow> []) @
     (if cio_codeServer opts
      then [\<lparr>wf_path = stagedCodeServer,
             wf_content = js_join [CHR 0x0a] [''bind-addr: 0.0.0.0:8080'', ''auth: none'', ''cert: false''],
             wf_permissions = Some ''0644''\<rparr>]
      else [])"

definition touches_home :: "cloud_init_opts \<Rightarrow> bool" where
  "touches_home opts \<longleftrightarrow> has_gitconfig opts \<or> js_trim (opt_str (cio_repoUrl opts)) \<noteq> [] \<or> cio_codeServer opts"

definition owned_by :: "string \<Rightarrow> string" where
  "owned_by u = ''install -d -o '' @ u @ '' -g '' @ u @ '' ''"

definition install_file :: "string \<Rightarrow> string \<Rightarrow> string \<Rightarrow> string" where
  "install_file u from to' = ''install -o '' @ u @ '' -g '' @ u @ '' -m 0644 '' @ from @ '' '' @ to'"

text \<open>The commands, given the repository that was read from the options.\<close>

definition init_commands :: "cloud_init_opts \<Rightarrow> (string \<times> string) option \<Rightarrow> string list" where
  "init_commands opts repo =
     (let u = guest_user opts; home = ''/home/'' @ u in
      (if cio_guestAgent opts \<or> cio_basePackages opts then [''systemctl enable --now qemu-guest-agent''] else []) @
      (if cio_docker opts then [''usermod -aG docker '' @ u] else []) @
      (if touches_home opts then [owned_by u @ home] else []) @
      (if has_gitconfig opts then [install_file u stagedGitconfig (home @ ''/.gitconfig'')] else []) @
      (case repo of
         None \<Rightarrow> []
       | Some (address, basename) \<Rightarrow>
           [owned_by u @ home @ ''/src'',
            ''sudo -u '' @ u @ '' git clone '' @ address @ '' '' @ home @ ''/src/'' @ basename]) @
      (if cio_codeServer opts
       then [owned_by u @ home @ ''/.config/code-server'',
             install_file u stagedCodeServer (home @ ''/.config/code-server/config.yaml''),
             ''curl -fsSL https://code-server.dev/install.sh | HOME=/root sh'']
       else []) @
      (if touches_home opts then [''chown -R '' @ u @ '':'' @ u @ '' '' @ home] else []) @
      (if cio_codeServer opts then [''systemctl enable --now code-server@'' @ u] else []) @
      (if cio_readyFile opts then [''mkdir -p /var/lib/kmc'', ''touch /var/lib/kmc/ready''] else []))"

definition file_lines :: "write_file \<Rightarrow> string list" where
  "file_lines f =
     [''  - path: '' @ wf_path f] @
     (case opt_or_undef (wf_permissions f) of
        Some p \<Rightarrow> [''    permissions: '' @ [CHR 0x22] @ p @ [CHR 0x22]] | None \<Rightarrow> []) @
     [''    content: |''] @
     map (\<lambda>row. ''      '' @ row) (js_split (CHR 0x0a) (wf_content f))"

definition item_lines :: "string list \<Rightarrow> string list" where
  "item_lines xs = map (\<lambda>x. ''  - '' @ x) xs"

definition section_lines :: "string \<Rightarrow> string list \<Rightarrow> string list" where
  "section_lines title items = (if items = [] then [] else title # item_lines items)"

definition init_lines :: "cloud_init_opts \<Rightarrow> (string \<times> string) option \<Rightarrow> string list" where
  "init_lines opts repo =
     [''#cloud-config'', ''users:'', ''  - default'', ''ssh_authorized_keys:''] @
     item_lines (normalizeAuthorizedKeys (cio_sshPublicKeys opts)) @
     section_lines ''packages:'' (js_uniq (init_packages opts)) @
     (let files = init_files opts in if files = [] then [] else ''write_files:'' # concat (map file_lines files)) @
     section_lines ''runcmd:'' (init_commands opts repo)"

definition buildCloudInitDocument :: "url_reader \<Rightarrow> cloud_init_opts \<Rightarrow> string result" where
  "buildCloudInitDocument read_url opts =
     (if normalizeAuthorizedKeys (cio_sshPublicKeys opts) = []
      then throw ''At least one SSH public key is required for cloud-init''
      else res_bind
        (if js_trim (opt_str (cio_repoUrl opts)) = [] then Inr None
         else res_bind (parseHttpsGitUrl read_url (opt_str (cio_repoUrl opts))) (\<lambda>r. Inr (Some r)))
        (\<lambda>repo. Inr (js_join [CHR 0x0a] (init_lines opts repo))))"

definition buildSshUserData :: "string list \<Rightarrow> bool \<Rightarrow> string result" where
  "buildSshUserData sshPublicKeys installGuestAgent =
     buildCloudInitDocument (\<lambda>u. None)
       \<lparr>cio_sshPublicKeys = sshPublicKeys, cio_sshUser = None, cio_guestAgent = installGuestAgent,
        cio_traceroute = Some installGuestAgent, cio_basePackages = False, cio_docker = False,
        cio_gitIdentity = None, cio_repoUrl = None, cio_codeServer = False, cio_readyFile = False\<rparr>"

section \<open>Lemmas\<close>

lemma set_normalizeAuthorizedKeys:
  "set (normalizeAuthorizedKeys keys) = {k. k \<noteq> [] \<and> (\<exists>x \<in> set keys. k = js_trim x)}"
  by (auto simp: normalizeAuthorizedKeys_def set_js_uniq set_trim_list)

lemma buildSshUserData_fails_iff:
  "res_ok (buildSshUserData keys agent) \<longleftrightarrow> (\<exists>k \<in> set keys. js_trim k \<noteq> [])"
proof -
  have "normalizeAuthorizedKeys keys = [] \<longleftrightarrow> (\<forall>k \<in> set keys. js_trim k = [])"
    using set_normalizeAuthorizedKeys [of keys] by (auto simp flip: set_empty)
  then show ?thesis
    by (auto simp: buildSshUserData_def buildCloudInitDocument_def opt_str_def)
qed

text \<open>
  A repository address may carry shell metacharacters: the character class admits them, and the
  clone command contains the address as it is.
\<close>

lemma clone_command_unquoted:
  assumes "read_url ''https://h/a;reboot;/b'' = Some (''https:'', ''/a;reboot;/b'')"
  shows "parseHttpsGitUrl read_url ''https://h/a;reboot;/b'' = Inr (''https://h/a;reboot;/b'', ''b'')"
proof -
  have t: "js_trim ''https://h/a;reboot;/b'' = ''https://h/a;reboot;/b''" by code_simp
  have "SAFE_HTTPS_REPO ''https://h/a;reboot;/b''" by code_simp
  moreover have "\<not> js_starts_with ''https://h/a;reboot;/b'' ''git@''" by code_simp
  moreover have "\<not> js_starts_with ''https://h/a;reboot;/b'' ''ssh://''" by code_simp
  moreover have "drop_git (repo_leaf ''/a;reboot;/b'') = ''b''" by code_simp
  moreover have "list_all dir_char ''b''" by code_simp
  ultimately show ?thesis
    by (simp only: parseHttpsGitUrl_def Let_def t assms option.case prod.case) simp
qed

end
