(* ===== verification/Vm_Template.thy ===== *)
theory Vm_Template
  imports Netplan Cloud_Init Namespaces
begin

text \<open>
  \<open>vms/template.server.ts\<close>: the VirtualMachine object of a create request, and the parts of that
  object (\<open>KubeVm\<close> of \<open>vms/vms.server.ts\<close>) that the console reads and writes. Random bytes are
  parameters: a MAC address for each attachment and one for the pod network.
\<close>

section \<open>VirtualMachine objects\<close>

record vm_disk =
  vdk_name :: "string option"
  vdk_bus :: "string option"

record dv_ref =
  dvr_name :: "string option"
  dvr_hotpluggable :: "bool option"

record cloud_init_source =
  cin_secretRef :: "string option"
  cin_userData :: "string option"
  cin_networkData :: "string option"

record vm_volume =
  vvo_name :: "string option"
  vvo_dataVolume :: "dv_ref option"
  vvo_claimName :: "string option"
  vvo_cloudInit :: "cloud_init_source option"

record vm_interface =
  vif_name :: "string option"
  vif_bridge :: bool
  vif_masquerade :: bool
  vif_macAddress :: "string option"

text \<open>\<open>multus\<close> is its \<open>networkName\<close>.\<close>

record vm_network =
  vnt_name :: "string option"
  vnt_pod :: bool
  vnt_multus :: "string option"

record vm_devices =
  vdv_disks :: "vm_disk list option"
  vdv_interfaces :: "vm_interface list option"

record vm_cpu =
  vcp_cores :: "js_num option"
  vcp_threads :: "js_num option"
  vcp_sockets :: "js_num option"

record vm_resources =
  vrs_requests :: "string jsobj option"
  vrs_limits :: "string jsobj option"

record vm_domain =
  vdm_cpu :: "vm_cpu option"
  vdm_machine :: "string option"
  vdm_resources :: "vm_resources option"
  vdm_devices :: "vm_devices option"

record vm_template_spec =
  vts_architecture :: "string option"
  vts_domain :: "vm_domain option"
  vts_networks :: "vm_network list option"
  vts_volumes :: "vm_volume list option"

record vm_matcher =
  vma_kind :: "string option"
  vma_name :: "string option"

record dv_template =
  dtp_name :: "string option"
  dtp_storageSize :: "string option"
  dtp_pvcSize :: "string option"

record vm_spec =
  vsp_running :: "bool option"
  vsp_runStrategy :: "string option"
  vsp_instancetype :: "vm_matcher option"
  vsp_preference :: "vm_matcher option"
  vsp_dvTemplates :: "dv_template list option"
  vsp_templateLabels :: "string jsobj option"
  vsp_templateSpec :: "vm_template_spec option"

record vm_object_status =
  vot_printableStatus :: "string option"
  vot_ready :: "bool option"
  vot_conditions :: "cr_condition list option"
  vot_nodeName :: "string option"
  vot_instancetypeRef :: "string option"

record vm_object =
  vmo_apiVersion :: "string option"
  vmo_kind :: "string option"
  vmo_metadata :: "object_meta option"
  vmo_spec :: "vm_spec option"
  vmo_status :: "vm_object_status option"

section \<open>Requests\<close>

datatype disk_source_mode = ImageSource | ExistingDataVolume | BlankSource

record vm_image =
  vmi_namespace :: string
  vmi_name :: string

record extra_disk =
  xd_name :: "string option"
  xd_source :: disk_source_mode
  xd_size :: "string option"
  xd_storageClass :: "string option"
  xd_existingDataVolumeName :: "string option"

record create_vm_request =
  cmr_cluster :: string
  cmr_namespace :: string
  cmr_name :: string
  cmr_instanceType :: "string option"
  cmr_cpuCores :: "js_num option"
  cmr_memory :: "string option"
  cmr_preference :: "string option"
  cmr_diskSize :: "string option"
  cmr_storageClass :: "string option"
  cmr_image :: "vm_image option"
  cmr_diskSource :: "disk_source_mode option"
  cmr_existingDataVolumeName :: "string option"
  cmr_networks :: "string list"
  cmr_includePodNetwork :: "bool option"
  cmr_sshPublicKey :: string
  cmr_start :: "bool option"
  cmr_installGuestAgent :: bool
  cmr_extraDisks :: "extra_disk list"
  cmr_labels :: "string jsobj option"
  cmr_annotations :: "string jsobj option"
  cmr_userDataSecretName :: "string option"

definition createVmDiskSource :: "create_vm_request \<Rightarrow> disk_source_mode" where
  "createVmDiskSource inp =
     (if cmr_diskSource inp = Some ExistingDataVolume then ExistingDataVolume else ImageSource)"

definition multusNetworksFromRequest :: "create_vm_request \<Rightarrow> string list" where
  "multusNetworksFromRequest inp = trim_list (cmr_networks inp)"

section \<open>Networks\<close>

definition interfaceNameForAttachment :: "nat \<Rightarrow> nat \<Rightarrow> string" where
  "interfaceNameForAttachment index multusCount =
     (if multusCount \<le> 1 then ''default'' else ''net'' @ nat_str index)"

definition POD_NETWORK_NAME :: string where "POD_NETWORK_NAME = ''pod''"

definition pod_interface :: "string \<Rightarrow> string option \<Rightarrow> vm_interface" where
  "pod_interface nm mac =
     \<lparr>vif_name = Some nm, vif_bridge = False, vif_masquerade = True, vif_macAddress = trim_or_undef mac\<rparr>"

definition pod_network :: "string \<Rightarrow> vm_network" where
  "pod_network nm = \<lparr>vnt_name = Some nm, vnt_pod = True, vnt_multus = None\<rparr>"

text \<open>The allocation of a network: of several for one name the last.\<close>

definition allocation_for :: "allocated_ip list \<Rightarrow> string \<Rightarrow> allocated_ip option" where
  "allocation_for allocations nm = find (\<lambda>a. ai_networkName a = Some nm \<and> nm \<noteq> []) (rev allocations)"

definition multus_interface :: "allocated_ip list \<Rightarrow> nat \<Rightarrow> nat \<Rightarrow> vm_interface" where
  "multus_interface allocations cnt index =
     (let nm = interfaceNameForAttachment index cnt in
      \<lparr>vif_name = Some nm, vif_bridge = True, vif_masquerade = False,
       vif_macAddress = opt_or_undef (fld (allocation_for allocations nm) ai_macAddress)\<rparr>)"

definition buildNetworkSpec ::
  "string list \<Rightarrow> allocated_ip list \<Rightarrow> bool \<Rightarrow> string option \<Rightarrow> vm_interface list \<times> vm_network list" where
  "buildNetworkSpec multusNames allocations includePod podMac =
     (if multusNames = [] then ([pod_interface ''default'' None], [pod_network ''default''])
      else let cnt = length multusNames in
        ((if includePod then [pod_interface POD_NETWORK_NAME podMac] else []) @
           map (multus_interface allocations cnt) [0..<cnt],
         (if includePod then [pod_network POD_NETWORK_NAME] else []) @
           map (\<lambda>(index, m). \<lparr>vnt_name = Some (interfaceNameForAttachment index cnt), vnt_pod = False,
                              vnt_multus = Some m\<rparr>) (List.enumerate 0 multusNames)))"

text \<open>
  The allocations of the attachments, each bound to the name of its network. \<open>fresh n\<close> are the
  random bytes of attachment \<open>n\<close>.
\<close>

definition bind_allocation ::
  "(nat \<Rightarrow> 8 word list) \<Rightarrow> bool \<Rightarrow> nat \<Rightarrow> nat \<Rightarrow> allocated_ip \<Rightarrow> allocated_ip" where
  "bind_allocation fresh forceMac cnt index raw =
     (let needsMac = (forceMac \<or> 1 < cnt \<or> ai_dhcp4 raw \<or> \<not> truthy (ai_interfaceName raw)) in
      raw\<lparr>ai_interfaceName := (if needsMac then None else ai_interfaceName raw),
          ai_networkName := Some (interfaceNameForAttachment index cnt),
          ai_macAddress := (if needsMac
            then Some (opt_default (generateLocalMacAddress (fresh index)) (ai_macAddress raw))
            else ai_macAddress raw)\<rparr>)"

definition bindAllocationsToNetworks ::
  "(nat \<Rightarrow> 8 word list) \<Rightarrow> string list \<Rightarrow> allocated_ip option list \<Rightarrow> bool \<Rightarrow> allocated_ip list" where
  "bindAllocationsToNetworks fresh multusNames rawAllocations forceMac =
     List.map_filter
       (\<lambda>index. if index < length rawAllocations
         then map_option (bind_allocation fresh forceMac (length multusNames) index) (rawAllocations ! index)
         else None)
       [0..<length multusNames]"

section \<open>The manifest\<close>

record resolved_disk =
  rxd_volumeName :: string
  rxd_dataVolumeName :: string

record manifest_opts =
  mfo_labels :: "string jsobj option"
  mfo_annotations :: "string jsobj option"
  mfo_userData :: "string option"
  mfo_extraAuthorizedKeys :: "string list"
  mfo_userDataSecretName :: "string option"
  mfo_includePodNetwork :: bool
  mfo_clusterCidrs :: "string list option"
  mfo_extraDisks :: "resolved_disk list"
  mfo_routerAgentOwnsPrivateL3 :: bool
  mfo_routerExternalAllocation :: "allocated_ip option"

definition cloudInitUserDataSecretName :: "string \<Rightarrow> string" where
  "cloudInitUserDataSecretName vmName = js_slice (vmName @ ''-userdata'') 0 63"

definition KMC_ANN_DISK_SIZE :: string where "KMC_ANN_DISK_SIZE = KMC_LABEL_NAMESPACE @ ''/disk-size''"

definition requireExistingDvName :: "create_vm_request \<Rightarrow> string result" where
  "requireExistingDvName inp =
     (case trim_or_undef (cmr_existingDataVolumeName inp) of
        None \<Rightarrow> throw ''buildVirtualMachineManifest: existingDataVolume mode requires existingDataVolumeName''
      | Some n \<Rightarrow> Inr n)"

definition root_disk_name :: "create_vm_request \<Rightarrow> string result" where
  "root_disk_name inp =
     (if createVmDiskSource inp = ExistingDataVolume then requireExistingDvName inp else Inr (cmr_name inp))"

text \<open>The network document: of a router, of a guest with allocations, or none.\<close>

definition private_multus :: "allocated_ip list \<Rightarrow> allocated_ip option \<Rightarrow> allocated_ip list" where
  "private_multus allocations external =
     filter (\<lambda>a. case opt_or_undef (fld external ai_macAddress) of
                   None \<Rightarrow> True
                 | Some m \<Rightarrow> map_option js_lower (ai_macAddress a) \<noteq> Some (js_lower m)) allocations"

definition network_document ::
  "allocated_ip list \<Rightarrow> manifest_opts \<Rightarrow> string option \<Rightarrow> string option result" where
  "network_document allocations opts podMac =
     (let cidrs = (if mfo_includePodNetwork opts then mfo_clusterCidrs opts else None) in
      if mfo_routerAgentOwnsPrivateL3 opts
      then Inr (Some (buildRouterNetworkData
        \<lparr>ndo_includePodDhcp = False, ndo_clusterCidrs = cidrs, ndo_masqueradeGateway = None, ndo_podMacAddress = podMac,
         rno_privateMultus = Some (private_multus allocations (mfo_routerExternalAllocation opts)),
         rno_external = mfo_routerExternalAllocation opts\<rparr>))
      else if allocations \<noteq> []
      then res_bind (buildNetworkData allocations
             \<lparr>ndo_includePodDhcp = mfo_includePodNetwork opts, ndo_clusterCidrs = cidrs, ndo_masqueradeGateway = None, ndo_podMacAddress = podMac\<rparr>)
             (\<lambda>d. Inr (Some d))
      else Inr None)"

definition cloud_init_of ::
  "manifest_opts \<Rightarrow> string \<Rightarrow> string option \<Rightarrow> cloud_init_source" where
  "cloud_init_of opts defaultUserData networkData =
     (case trim_or_undef (mfo_userDataSecretName opts) of
        Some s \<Rightarrow> \<lparr>cin_secretRef = Some s, cin_userData = None, cin_networkData = networkData\<rparr>
      | None \<Rightarrow> \<lparr>cin_secretRef = None,
          cin_userData = Some (case trim_or_undef (mfo_userData opts) of Some u \<Rightarrow> u | None \<Rightarrow> defaultUserData),
          cin_networkData = networkData\<rparr>)"

definition data_disk :: "string \<Rightarrow> vm_disk" where
  "data_disk nm = \<lparr>vdk_name = Some nm, vdk_bus = Some ''scsi''\<rparr>"

definition data_volume :: "string \<Rightarrow> string \<Rightarrow> vm_volume" where
  "data_volume nm dv =
     \<lparr>vvo_name = Some nm, vvo_dataVolume = Some \<lparr>dvr_name = Some dv, dvr_hotpluggable = Some True\<rparr>,
      vvo_claimName = None, vvo_cloudInit = None\<rparr>"

definition usable_disks :: "resolved_disk list \<Rightarrow> (string \<times> string) list" where
  "usable_disks ds =
     filter (\<lambda>(v, d). v \<noteq> [] \<and> d \<noteq> [])
       (map (\<lambda>x. (js_trim (rxd_volumeName x), js_trim (rxd_dataVolumeName x))) ds)"

definition manifest_disks :: "manifest_opts \<Rightarrow> vm_disk list" where
  "manifest_disks opts =
     [\<lparr>vdk_name = Some ''root'', vdk_bus = Some ''virtio''\<rparr>, \<lparr>vdk_name = Some ''cloudinit'', vdk_bus = Some ''virtio''\<rparr>] @
     map (\<lambda>(v, d). data_disk v) (usable_disks (mfo_extraDisks opts))"

definition manifest_volumes :: "manifest_opts \<Rightarrow> string \<Rightarrow> cloud_init_source \<Rightarrow> vm_volume list" where
  "manifest_volumes opts rootDisk cloudInit =
     [\<lparr>vvo_name = Some ''root'', vvo_dataVolume = Some \<lparr>dvr_name = Some rootDisk, dvr_hotpluggable = None\<rparr>,
       vvo_claimName = None, vvo_cloudInit = None\<rparr>,
      \<lparr>vvo_name = Some ''cloudinit'', vvo_dataVolume = None, vvo_claimName = None, vvo_cloudInit = Some cloudInit\<rparr>] @
     map (\<lambda>(v, d). data_volume v d) (usable_disks (mfo_extraDisks opts))"

definition vm_labels_of :: "create_vm_request \<Rightarrow> manifest_opts \<Rightarrow> string jsobj" where
  "vm_labels_of inp opts =
     obj_spread (obj_lit [(''kubevirt.io/vm'', cmr_name inp), (''app.kubernetes.io/managed-by'', ''kmc'')])
       (opt_obj (mfo_labels opts))"

definition vm_annotations_of :: "create_vm_request \<Rightarrow> allocated_ip list \<Rightarrow> manifest_opts \<Rightarrow> string jsobj" where
  "vm_annotations_of inp allocations opts =
     (let an = obj_spread (if allocations \<noteq> [] then ipamAnnotations allocations else []) (opt_obj (mfo_annotations opts)) in
      if createVmDiskSource inp = ImageSource \<and> js_trim (opt_str (cmr_diskSize inp)) \<noteq> []
      then obj_assign an KMC_ANN_DISK_SIZE (js_trim (opt_str (cmr_diskSize inp))) else an)"

definition check_image :: "create_vm_request \<Rightarrow> unit result" where
  "check_image inp =
     (if createVmDiskSource inp = ImageSource \<and>
         (js_trim (opt_str (map_option vmi_name (cmr_image inp))) = [] \<or> js_trim (opt_str (cmr_diskSize inp)) = [])
      then throw ''buildVirtualMachineManifest: image mode requires image.name and diskSize''
      else Inr ())"

definition manifest_domain :: "create_vm_request \<Rightarrow> manifest_opts \<Rightarrow> vm_interface list \<Rightarrow> vm_domain" where
  "manifest_domain inp opts interfaces =
     (let manual = \<not> truthy (cmr_instanceType inp) in
      \<lparr>vdm_cpu = (if manual then Some \<lparr>vcp_cores = Some (opt_default (Fin 1) (cmr_cpuCores inp)),
          vcp_threads = None, vcp_sockets = None\<rparr> else None),
       vdm_machine = Some ''q35'',
       vdm_resources = Some \<lparr>vrs_requests = (if manual
          then Some (obj_lit [(''memory'', opt_default ''1Gi'' (cmr_memory inp))]) else None), vrs_limits = None\<rparr>,
       vdm_devices = Some \<lparr>vdv_disks = Some (manifest_disks opts), vdv_interfaces = Some interfaces\<rparr>\<rparr>)"

definition matcher :: "string \<Rightarrow> string option \<Rightarrow> vm_matcher option" where
  "matcher kind nm = map_option (\<lambda>n. \<lparr>vma_kind = Some kind, vma_name = Some n\<rparr>) (opt_or_undef nm)"

definition assemble_vm ::
  "create_vm_request \<Rightarrow> allocated_ip list \<Rightarrow> manifest_opts \<Rightarrow> string option \<Rightarrow> string \<Rightarrow> cloud_init_source \<Rightarrow> vm_object" where
  "assemble_vm inp allocations opts podMac rootDisk cloudInit =
     (let (interfaces, networks) =
            buildNetworkSpec (multusNetworksFromRequest inp) allocations (mfo_includePodNetwork opts) podMac;
          labels = vm_labels_of inp opts; annotations = vm_annotations_of inp allocations opts in
      \<lparr>vmo_apiVersion = Some ''kubevirt.io/v1'', vmo_kind = Some ''VirtualMachine'',
       vmo_metadata = Some (new_meta (Some (cmr_name inp)) (cmr_namespace inp) (Some labels)
         (if annotations = [] then None else Some annotations)),
       vmo_spec = Some
         \<lparr>vsp_running = None, vsp_runStrategy = Some (if cmr_start inp \<noteq> Some False then ''Always'' else ''Halted''),
          vsp_instancetype = matcher ''VirtualMachineClusterInstancetype'' (cmr_instanceType inp),
          vsp_preference = matcher ''VirtualMachineClusterPreference'' (cmr_preference inp),
          vsp_dvTemplates = None,
          vsp_templateLabels = Some labels,
          vsp_templateSpec = Some
            \<lparr>vts_architecture = Some ''amd64'', vts_domain = Some (manifest_domain inp opts interfaces),
             vts_networks = Some networks, vts_volumes = Some (manifest_volumes opts rootDisk cloudInit)\<rparr>\<rparr>,
       vmo_status = None\<rparr>)"

definition buildVirtualMachineManifest ::
  "8 word list \<Rightarrow> create_vm_request \<Rightarrow> allocated_ip list \<Rightarrow> manifest_opts \<Rightarrow> vm_object result" where
  "buildVirtualMachineManifest podBytes inp allocations opts =
     (let podMac = (if mfo_includePodNetwork opts then Some (generateLocalMacAddress podBytes) else None) in
      res_bind (root_disk_name inp) (\<lambda>rootDisk.
      res_bind (buildSshUserData (cmr_sshPublicKey inp # mfo_extraAuthorizedKeys opts) (cmr_installGuestAgent inp))
        (\<lambda>defaultUserData.
      res_bind (network_document allocations opts podMac) (\<lambda>networkData.
      res_bind (check_image inp) (\<lambda>_.
        Inr (assemble_vm inp allocations opts podMac rootDisk
               (cloud_init_of opts defaultUserData networkData)))))))"

section \<open>Well-formed machines\<close>

text \<open>\<open>vm.spec?.template?.spec?.volumes ?? []\<close> and its like.\<close>

definition template_spec :: "vm_object \<Rightarrow> vm_template_spec option" where
  "template_spec vm = fld (vmo_spec vm) vsp_templateSpec"

definition vm_volumes :: "vm_object \<Rightarrow> vm_volume list" where
  "vm_volumes vm = opt_default [] (fld (template_spec vm) vts_volumes)"

definition vm_disks :: "vm_object \<Rightarrow> vm_disk list" where
  "vm_disks vm = opt_default [] (fld (fld (fld (template_spec vm) vts_domain) vdm_devices) vdv_disks)"

definition vm_networks :: "vm_object \<Rightarrow> vm_network list" where
  "vm_networks vm = opt_default [] (fld (template_spec vm) vts_networks)"

definition vm_interfaces :: "vm_object \<Rightarrow> vm_interface list" where
  "vm_interfaces vm = opt_default [] (fld (fld (fld (template_spec vm) vts_domain) vdm_devices) vdv_interfaces)"

text \<open>
  The type of a machine: every disk has the volume of its name and every volume a disk, no name
  twice; every interface has the network of its name, bound as the network wants it.
\<close>

definition disks_wf :: "vm_object \<Rightarrow> bool" where
  "disks_wf vm \<longleftrightarrow>
     map vdk_name (vm_disks vm) = map vvo_name (vm_volumes vm) \<and> distinct (map vvo_name (vm_volumes vm)) \<and>
     None \<notin> set (map vvo_name (vm_volumes vm))"

definition nic_matches :: "vm_interface \<Rightarrow> vm_network \<Rightarrow> bool" where
  "nic_matches i n \<longleftrightarrow>
     vif_name i = vnt_name n \<and> vif_masquerade i = vnt_pod n \<and> vif_bridge i = (vnt_multus n \<noteq> None) \<and>
     vnt_pod n = (vnt_multus n = None)"

definition networks_wf :: "vm_object \<Rightarrow> bool" where
  "networks_wf vm \<longleftrightarrow>
     list_all2 nic_matches (vm_interfaces vm) (vm_networks vm) \<and> vm_networks vm \<noteq> [] \<and>
     distinct (map vnt_name (vm_networks vm)) \<and> None \<notin> set (map vnt_name (vm_networks vm))"

definition vm_wf :: "vm_object \<Rightarrow> bool" where
  "vm_wf vm \<longleftrightarrow> disks_wf vm \<and> networks_wf vm"

lemma buildVirtualMachineManifest_Inr:
  assumes "buildVirtualMachineManifest bytes inp allocations opts = Inr vm"
  obtains podMac rootDisk cloudInit where "vm = assemble_vm inp allocations opts podMac rootDisk cloudInit"
    "root_disk_name inp = Inr rootDisk"
  using assms by (auto simp: buildVirtualMachineManifest_def Let_def res_bind_Inr)

lemma assembled_parts:
  assumes "vm = assemble_vm inp allocations opts podMac rootDisk cloudInit"
  shows "vm_disks vm = manifest_disks opts" "vm_volumes vm = manifest_volumes opts rootDisk cloudInit"
    "vm_interfaces vm = fst (buildNetworkSpec (multusNetworksFromRequest inp) allocations (mfo_includePodNetwork opts) podMac)"
    "vm_networks vm = snd (buildNetworkSpec (multusNetworksFromRequest inp) allocations (mfo_includePodNetwork opts) podMac)"
  by (simp_all add: assms assemble_vm_def Let_def vm_disks_def vm_volumes_def vm_interfaces_def vm_networks_def
      template_spec_def manifest_domain_def opt_default_def split: prod.splits)

lemma interfaceName_inj:
  assumes "i < n" "j < n" "interfaceNameForAttachment i n = interfaceNameForAttachment j n"
  shows "i = j"
  using assms by (auto simp: interfaceNameForAttachment_def split: if_splits)

lemma interfaceName_not_pod: "interfaceNameForAttachment i n \<noteq> POD_NETWORK_NAME"
  by (simp add: interfaceNameForAttachment_def POD_NETWORK_NAME_def)

lemma enumerate_upt: "List.enumerate 0 xs = map (\<lambda>i. (i, xs ! i)) [0..<length xs]"
  by (rule nth_equalityI) (simp_all add: nth_enumerate_eq)

lemma network_spec_names:
  "map vnt_name (snd (buildNetworkSpec ms allocations pod mac)) =
     (if ms = [] then [Some ''default'']
      else (if pod then [Some POD_NETWORK_NAME] else []) @
        map (\<lambda>i. Some (interfaceNameForAttachment i (length ms))) [0..<length ms])"
  by (auto simp: buildNetworkSpec_def Let_def pod_network_def enumerate_upt)

lemma network_spec_matches:
  "list_all2 nic_matches (fst (buildNetworkSpec ms allocations pod mac)) (snd (buildNetworkSpec ms allocations pod mac))"
  by (auto simp: buildNetworkSpec_def Let_def nic_matches_def pod_interface_def pod_network_def multus_interface_def
      enumerate_upt list_all2_map1 list_all2_map2 list_all2_same)

lemma network_spec_distinct: "distinct (map vnt_name (snd (buildNetworkSpec ms allocations pod mac)))"
proof -
  have "distinct (map (\<lambda>i. Some (interfaceNameForAttachment i (length ms))) [0..<length ms])"
    by (auto simp: distinct_map inj_on_def dest: interfaceName_inj)
  then show ?thesis
    by (auto simp: network_spec_names interfaceName_not_pod interfaceName_not_pod [symmetric])
qed

lemma network_spec_named:
  "None \<notin> set (map vnt_name (snd (buildNetworkSpec ms allocations pod mac)))"
  "snd (buildNetworkSpec ms allocations pod mac) \<noteq> []"
proof -
  show "None \<notin> set (map vnt_name (snd (buildNetworkSpec ms allocations pod mac)))"
    by (auto simp: network_spec_names)
  show "snd (buildNetworkSpec ms allocations pod mac) \<noteq> []"
    by (auto simp: buildNetworkSpec_def Let_def enumerate_upt)
qed

lemma manifest_disk_names:
  "map vdk_name (manifest_disks opts) = Some ''root'' # Some ''cloudinit'' # map (\<lambda>x. Some (fst x)) (usable_disks (mfo_extraDisks opts))"
  "map vvo_name (manifest_volumes opts r c) = Some ''root'' # Some ''cloudinit'' # map (\<lambda>x. Some (fst x)) (usable_disks (mfo_extraDisks opts))"
  by (auto simp: manifest_disks_def manifest_volumes_def data_disk_def data_volume_def)

lemma assembled_wf:
  assumes "distinct (map fst (usable_disks (mfo_extraDisks opts)))"
    and "{''root'', ''cloudinit''} \<inter> set (map fst (usable_disks (mfo_extraDisks opts))) = {}"
    and vm: "vm = assemble_vm inp allocations opts podMac rootDisk cloudInit"
  shows "vm_wf vm"
proof -
  have "distinct (map (\<lambda>x. Some (fst x)) (usable_disks (mfo_extraDisks opts)))"
    using assms(1) by (simp add: distinct_map inj_on_def)
  then have "disks_wf vm"
    using assms(2) by (auto simp: disks_wf_def assembled_parts [OF vm] manifest_disk_names)
  moreover have "networks_wf vm"
    by (simp only: networks_wf_def assembled_parts [OF vm] network_spec_distinct network_spec_matches
        network_spec_named not_False_eq_True simp_thms)
  ultimately show ?thesis by (simp add: vm_wf_def)
qed

end
