(* ===== verification/Vm_Disks.thy ===== *)
theory Vm_Disks
  imports Vm_Template Vm_Namespaces
begin

text \<open>
  \<open>vms/vms.server.ts\<close>, the disks: DataVolumes that outlive their machines, which of them may be
  used again, and how they are attached to and detached from a machine. Console logging is left
  out; the clock is a parameter.
\<close>

section \<open>Objects and clients\<close>

record owner_ref =
  ow_kind :: "string option"
  ow_name :: "string option"
  ow_uid :: "string option"

text \<open>The \<open>spec.source\<close> of a DataVolume: a claim in some namespace, or nothing.\<close>

datatype dv_source = PvcSource string string | BlankDisk

record dv_spec =
  dvs_source :: "dv_source option"
  dvs_accessModes :: "string list option"
  dvs_volumeMode :: "string option"
  dvs_storageSize :: "string option"
  dvs_storageClass :: "string option"
  dvs_pvcSize :: "string option"

record dv_status =
  dvt_phase :: "string option"
  dvt_claimName :: "string option"
  dvt_conditions :: "cr_condition list option"

record data_volume_cr =
  dvc_apiVersion :: "string option"
  dvc_kind :: "string option"
  dvc_metadata :: "object_meta option"
  dvc_resourceVersion :: "string option"
  dvc_owners :: "owner_ref list option"
  dvc_spec :: "dv_spec option"
  dvc_status :: "dv_status option"

record 's vm_env =
  vme_vms :: "('s, vm_object) clients"
  vme_dvs :: "('s, data_volume_cr) clients"
  vme_ns :: "'s ns_env"
  vme_nowIso :: "'s \<Rightarrow> string"

definition dv_gvp :: gvp where
  "dv_gvp = \<lparr>gvp_group = ''cdi.kubevirt.io'', gvp_version = ''v1beta1'', gvp_plural = ''datavolumes''\<rparr>"

definition KMC_MAX_EXTRA_DISKS :: nat where "KMC_MAX_EXTRA_DISKS = 8"
definition KMC_RESERVED_VOLUME_NAMES :: "string list" where "KMC_RESERVED_VOLUME_NAMES = [''root'', ''cloudinit'']"
definition KMC_LABEL_RETAINED_FROM_VM :: string where "KMC_LABEL_RETAINED_FROM_VM = KMC_LABEL_NAMESPACE @ ''/retained-from-vm''"
definition KMC_ANN_RETAINED_AT :: string where "KMC_ANN_RETAINED_AT = KMC_LABEL_NAMESPACE @ ''/retained-at''"
definition REUSABLE_DV_PHASES :: "string list" where "REUSABLE_DV_PHASES = [''Succeeded'']"
definition VM_LABEL :: string where "VM_LABEL = ''kubevirt.io/vm''"

section \<open>Errors\<close>

definition response_status :: "err_props \<Rightarrow> int option" where
  "response_status p =
     (case ep_statusCode p of
        Some n \<Rightarrow> Some n
      | None \<Rightarrow> (case fld (ep_response p) resp_statusCode of
          Some n \<Rightarrow> Some n
        | None \<Rightarrow> fld (ep_response p) resp_status))"

definition vm_isConflictError :: "thrown \<Rightarrow> bool" where
  "vm_isConflictError err \<longleftrightarrow>
     (let p = thrown_props err;
          n = (case response_status p of
                 Some n \<Rightarrow> Some n
               | None \<Rightarrow> (case ep_code p of Some (NumCode c) \<Rightarrow> Some c | _ \<Rightarrow> None));
          m = error_text err
      in n = Some 409 \<or> js_includes m ''409'' \<or> js_includes m ''conflict'')"

definition vm_isNotFoundError :: "thrown \<Rightarrow> bool" where
  "vm_isNotFoundError err \<longleftrightarrow>
     (let m = error_text err in
      response_status (thrown_props err) = Some 404 \<or> js_includes m ''404'' \<or> js_includes m ''not found'')"

text \<open>One retry on a conflict.\<close>

definition retry_conflict :: "('s, 'a) act \<Rightarrow> ('s, 'a) act" where
  "retry_conflict attempt =
     act_catch attempt (\<lambda>err.
       if \<not> vm_isConflictError err then save_error err else act_catch attempt save_error)"

definition retry_plain :: "('s, 'a) act \<Rightarrow> ('s, 'a) act" where
  "retry_plain attempt =
     act_catch attempt (\<lambda>err. if \<not> vm_isConflictError err then act_fail err else attempt)"

section \<open>DataVolumes\<close>

definition deleteDataVolumeRaw :: "'s vm_env \<Rightarrow> string \<Rightarrow> string \<Rightarrow> string \<Rightarrow> ('s, unit) act" where
  "deleteDataVolumeRaw env cluster ns nm =
     with_custom (vme_dvs env) cluster (\<lambda>api.
       act_catch (api_delete_ns api dv_gvp ns nm)
         (\<lambda>err. if vm_isNotFoundError err then act_return () else save_error err))"

definition new_dv ::
  "string \<Rightarrow> string \<Rightarrow> string jsobj \<Rightarrow> dv_source \<Rightarrow> string \<Rightarrow> string option \<Rightarrow> data_volume_cr" where
  "new_dv nm ns labels source sz storageClass =
     \<lparr>dvc_apiVersion = Some ''cdi.kubevirt.io/v1beta1'', dvc_kind = Some ''DataVolume'',
      dvc_metadata = Some (new_meta (Some nm) ns (Some labels) None),
      dvc_resourceVersion = None, dvc_owners = None,
      dvc_spec = Some \<lparr>dvs_source = Some source, dvs_accessModes = Some [''ReadWriteOnce''],
        dvs_volumeMode = Some ''Block'', dvs_storageSize = Some (js_trim sz),
        dvs_storageClass = opt_or_undef storageClass, dvs_pvcSize = None\<rparr>,
      dvc_status = None\<rparr>"

definition dv_exists :: "('s, data_volume_cr) custom_api \<Rightarrow> string \<Rightarrow> string \<Rightarrow> ('s, bool) act" where
  "dv_exists api ns nm =
     act_catch (act_bind (api_get_ns api dv_gvp ns nm) (\<lambda>_. act_return True))
       (\<lambda>err. if vm_isNotFoundError err then act_return False else save_error err)"

definition create_dv :: "('s, data_volume_cr) custom_api \<Rightarrow> string \<Rightarrow> data_volume_cr \<Rightarrow> ('s, unit) act" where
  "create_dv api ns body =
     act_catch (act_bind (api_create_ns api dv_gvp ns body) (\<lambda>_. act_return ())) save_error"

record root_dv_request =
  rdr_cluster :: string
  rdr_namespace :: string
  rdr_name :: string
  rdr_diskSize :: string
  rdr_storageClass :: "string option"
  rdr_imageNamespace :: "string option"
  rdr_imageName :: string
  rdr_labels :: "string jsobj option"
  rdr_replace :: bool

text \<open>The result says whether the DataVolume was created in this call.\<close>

definition ensureRootDataVolumeFromImage :: "'s vm_env \<Rightarrow> root_dv_request \<Rightarrow> ('s, string \<times> bool) act" where
  "ensureRootDataVolumeFromImage env opts =
     (let nm = js_trim (rdr_name opts); ns = rdr_namespace opts in
      if nm = [] then act_throw ''DataVolume name is required''
      else if js_trim (rdr_diskSize opts) = [] then act_throw ''diskSize is required''
      else if js_trim (rdr_imageName opts) = [] then act_throw ''image is required''
      else with_custom (vme_dvs env) (rdr_cluster opts) (\<lambda>api.
        act_bind (dv_exists api ns nm) (\<lambda>exists.
          if exists \<and> \<not> rdr_replace opts then act_return (nm, False)
          else act_seq (act_when exists (deleteDataVolumeRaw env (rdr_cluster opts) ns nm))
            (act_seq
              (create_dv api ns
                (new_dv nm ns
                  (obj_spread (obj_lit [(MANAGED_BY_LABEL, KMC_MANAGED_BY), (VM_LABEL, nm)]) (opt_obj (rdr_labels opts)))
                  (PvcSource (rdr_imageName opts)
                    (opt_default ''vm-images'' (opt_or_undef (rdr_imageNamespace opts))))
                  (rdr_diskSize opts) (rdr_storageClass opts)))
              (act_return (nm, True))))))"

definition ensureBlankDataVolume ::
  "'s vm_env \<Rightarrow> string \<Rightarrow> string \<Rightarrow> string \<Rightarrow> string \<Rightarrow> string option \<Rightarrow> string \<Rightarrow> ('s, string \<times> bool) act" where
  "ensureBlankDataVolume env cluster ns nm0 sz storageClass vmName =
     (let nm = js_trim nm0 in
      if nm = [] then act_throw ''DataVolume name is required''
      else if js_trim sz = [] then act_throw ''size is required''
      else if js_trim vmName = [] then act_throw ''vmName is required''
      else with_custom (vme_dvs env) cluster (\<lambda>api.
        act_bind (dv_exists api ns nm) (\<lambda>exists.
          if exists then act_return (nm, False)
          else act_seq
            (create_dv api ns
              (new_dv nm ns (obj_lit [(MANAGED_BY_LABEL, KMC_MANAGED_BY), (VM_LABEL, js_trim vmName)])
                BlankDisk sz storageClass))
            (act_return (nm, True)))))"

section \<open>Names\<close>

definition secondaryDataVolumeName :: "string \<Rightarrow> string \<Rightarrow> string result" where
  "secondaryDataVolumeName vmName volumeName =
     (let vm = js_trim vmName; vol = js_trim volumeName; combined = vm @ ''-'' @ vol;
          maxVm = 63 - 1 - int (length vol)
      in if length combined \<le> 63 then Inr combined
         else if maxVm < 1
           then throw (''Volume name \"'' @ vol @ ''\" is too long to form a DataVolume name with VM \"'' @ vm @ ''\"'')
         else Inr (js_slice vm 0 maxVm @ ''-'' @ vol))"

definition existingVolumeNames :: "vm_object \<Rightarrow> string set" where
  "existingVolumeNames vm = set (trim_list (map (\<lambda>v. opt_str (vvo_name v)) (vm_volumes vm)))"

definition countSecondaryDataDisks :: "vm_object \<Rightarrow> nat" where
  "countSecondaryDataDisks vm =
     length (filter (\<lambda>v. let n = js_trim (opt_str (vvo_name v)) in
               n \<noteq> [] \<and> n \<notin> set KMC_RESERVED_VOLUME_NAMES \<and>
               (truthy (fld (vvo_dataVolume v) dvr_name) \<or> truthy (vvo_claimName v)))
             (vm_volumes vm))"

definition validateVolumeName :: "string \<Rightarrow> unit result" where
  "validateVolumeName nm =
     (if nm = [] then throw ''Volume name is required''
      else if 63 < length nm then throw ''Volume name max 63 characters''
      else if \<not> DNS1123_LABEL nm
        then throw ''Volume name must be a DNS-1123 label (lowercase alphanumeric and hyphens)''
      else if nm \<in> set KMC_RESERVED_VOLUME_NAMES then throw (''Volume name \"'' @ nm @ ''\" is reserved'')
      else Inr ())"

definition free_volume_name :: "string set \<Rightarrow> string result" where
  "free_volume_name used =
     (case find (\<lambda>n. n \<notin> used) (map (\<lambda>i. ''disk-'' @ nat_str i) [1..<KMC_MAX_EXTRA_DISKS + 33]) of
        Some n \<Rightarrow> Inr n
      | None \<Rightarrow> throw ''Could not allocate a free volume name'')"

definition allocateVolumeName :: "vm_object \<Rightarrow> string option \<Rightarrow> string result" where
  "allocateVolumeName vm preferred =
     (let used = existingVolumeNames vm in
      case trim_or_undef preferred of
        None \<Rightarrow> free_volume_name used
      | Some nm \<Rightarrow> res_bind (validateVolumeName nm) (\<lambda>_.
          if nm \<in> used then throw (''Volume name \"'' @ nm @ ''\" is already attached to this VM'') else Inr nm))"

section \<open>Which DataVolumes may be used again\<close>

text \<open>The first use of a DataVolume by a machine, as the message it is refused with.\<close>

definition volume_use :: "string \<Rightarrow> string \<Rightarrow> string \<Rightarrow> vm_volume \<Rightarrow> string option" where
  "volume_use dvName claimName vmName vol =
     (if fld (vvo_dataVolume vol) dvr_name = Some dvName
      then Some (''DataVolume is still attached to VirtualMachine '' @ vmName @ '' (volume '' @
             opt_default dvName (vvo_name vol) @
             ''). Detach it there first, or wait for the VM spec to refresh.'')
      else case opt_or_undef (vvo_claimName vol) of
        None \<Rightarrow> None
      | Some pvc \<Rightarrow> if pvc = claimName \<or> pvc = dvName
          then Some (''DataVolume backing PVC is still attached to VirtualMachine '' @ vmName) else None)"

definition template_use :: "string \<Rightarrow> string \<Rightarrow> dv_template \<Rightarrow> string option" where
  "template_use dvName vmName tpl =
     (if dtp_name tpl = Some dvName
      then Some (''DataVolume is still referenced by VirtualMachine '' @ vmName @ '' dataVolumeTemplate'') else None)"

definition vm_dv_templates :: "vm_object \<Rightarrow> dv_template list" where
  "vm_dv_templates vm = opt_default [] (fld (vmo_spec vm) vsp_dvTemplates)"

definition machine_uses :: "string \<Rightarrow> string \<Rightarrow> vm_object \<Rightarrow> string list" where
  "machine_uses dvName claimName vm =
     (let vmName = opt_default ''unknown'' (fld (vmo_metadata vm) om_name) in
      List.map_filter (volume_use dvName claimName vmName) (vm_volumes vm) @
      List.map_filter (template_use dvName vmName) (vm_dv_templates vm))"

text \<open>An owner that still exists refuses the use; an owner that is gone does not.\<close>

definition check_owner :: "'s vm_env \<Rightarrow> string \<Rightarrow> string \<Rightarrow> owner_ref \<Rightarrow> ('s, unit) act" where
  "check_owner env cluster ns ow =
     (case opt_or_undef (ow_name ow) of
        None \<Rightarrow> act_return ()
      | Some nm \<Rightarrow>
          if ow_kind ow \<noteq> Some ''VirtualMachine'' then act_return ()
          else with_custom (vme_vms env) cluster (\<lambda>api.
            act_catch
              (act_bind (api_get_ns api vm_gvp ns nm)
                (\<lambda>_. act_throw (''DataVolume is still owned by VirtualMachine '' @ nm)))
              (\<lambda>err.
                if error_message_is (\<lambda>m. js_includes m ''still owned'') err then act_fail err
                else if \<not> vm_isNotFoundError err then save_error err
                else act_return ())))"

record reusable_dv =
  rud_phase :: string
  rud_size :: "string option"
  rud_claimName :: string

definition dv_size :: "data_volume_cr \<Rightarrow> string option" where
  "dv_size dv =
     (case fld (dvc_spec dv) dvs_storageSize of Some s \<Rightarrow> Some s | None \<Rightarrow> fld (dvc_spec dv) dvs_pvcSize)"

definition check_phase :: "string \<Rightarrow> data_volume_cr \<Rightarrow> string result" where
  "check_phase dvName dv =
     (let phase = opt_str (fld (dvc_status dv) dvt_phase) in
      if phase \<notin> set REUSABLE_DV_PHASES
      then throw (''DataVolume '' @ dvName @ '' is not reusable (phase='' @
             (if phase = [] then ''unknown'' else phase) @ ''; need '' @ js_join '' or '' REUSABLE_DV_PHASES @ '')'')
      else if list_ex (\<lambda>c. cond_type c = Some ''Ready'' \<and> cond_status c = Some ''False'')
                (opt_default [] (fld (dvc_status dv) dvt_conditions))
        then throw (''DataVolume '' @ dvName @ '' is not Ready (Ready condition is False)'')
      else Inr phase)"

definition assertDataVolumeReusable :: "'s vm_env \<Rightarrow> string \<Rightarrow> string \<Rightarrow> string \<Rightarrow> ('s, reusable_dv) act" where
  "assertDataVolumeReusable env cluster ns dvName =
     with_custom (vme_dvs env) cluster (\<lambda>api.
     act_bind
       (act_catch (api_get_ns api dv_gvp ns dvName) (\<lambda>err.
          if vm_isNotFoundError err then act_throw (''DataVolume not found: '' @ ns @ ''/'' @ dvName)
          else save_error err))
       (\<lambda>dv.
     act_bind (act_lift (check_phase dvName dv)) (\<lambda>phase.
       let claimName = opt_default dvName (trim_or_undef (fld (dvc_status dv) dvt_claimName)) in
       act_seq (act_each (check_owner env cluster ns) (opt_default [] (dvc_owners dv)))
         (with_custom (vme_vms env) cluster (\<lambda>vms.
           act_bind (api_list_ns vms vm_gvp ns None) (\<lambda>items.
             case concat (map (machine_uses dvName claimName) (opt_default [] items)) of
               m # ms \<Rightarrow> act_throw m
             | [] \<Rightarrow> act_return \<lparr>rud_phase = phase, rud_size = dv_size dv, rud_claimName = claimName\<rparr>))))))"

section \<open>Disks of a new machine\<close>

definition choose_volume :: "string set \<Rightarrow> extra_disk \<Rightarrow> string result" where
  "choose_volume used disk =
     (case trim_or_undef (xd_name disk) of
        None \<Rightarrow> free_volume_name used
      | Some nm \<Rightarrow> res_bind (validateVolumeName nm) (\<lambda>_.
          if nm \<in> used then throw (''Duplicate volume name \"'' @ nm @ ''\"'') else Inr nm))"

text \<open>One disk: its volume, its DataVolume, and the name of what was created here.\<close>

definition materialize_disk ::
  "'s vm_env \<Rightarrow> string \<Rightarrow> string \<Rightarrow> string \<Rightarrow> string set \<Rightarrow> string set \<Rightarrow> nat \<Rightarrow> extra_disk \<Rightarrow>
   ('s, resolved_disk \<times> string option) act" where
  "materialize_disk env cluster ns vmName used usedDvs i disk =
     act_bind (act_lift (choose_volume used disk)) (\<lambda>volumeName.
       if xd_source disk = ExistingDataVolume then
         let dv = js_trim (opt_str (xd_existingDataVolumeName disk)) in
         if dv = [] then act_throw (''extraDisks['' @ nat_str i @
              '']: existingDataVolumeName is required when source is existingDataVolume'')
         else act_seq (act_lift (validateVolumeName dv))
           (if dv \<in> usedDvs then act_throw (''DataVolume '' @ dv @ '' is listed more than once'')
            else act_bind (assertDataVolumeReusable env cluster ns dv) (\<lambda>_.
              act_return (\<lparr>rxd_volumeName = volumeName, rxd_dataVolumeName = dv\<rparr>, None)))
       else
         let sz = js_trim (opt_str (xd_size disk)) in
         if sz = [] then act_throw (''extraDisks['' @ nat_str i @ '']: size is required for blank disks'')
         else act_bind (act_lift (secondaryDataVolumeName vmName volumeName)) (\<lambda>dv.
           if dv \<in> usedDvs then act_throw (''DataVolume name collision: '' @ dv)
           else act_bind (ensureBlankDataVolume env cluster ns dv sz (xd_storageClass disk) vmName) (\<lambda>(nm, created).
             act_return (\<lparr>rxd_volumeName = volumeName, rxd_dataVolumeName = dv\<rparr>, if created then Some nm else None))))"

definition delete_quietly :: "'s vm_env \<Rightarrow> string \<Rightarrow> string \<Rightarrow> string \<Rightarrow> ('s, unit) act" where
  "delete_quietly env cluster ns dv = act_or (deleteDataVolumeRaw env cluster ns dv) ()"

text \<open>An error deletes what the loop has created so far.\<close>

fun materialize_loop ::
  "'s vm_env \<Rightarrow> string \<Rightarrow> string \<Rightarrow> string \<Rightarrow> string set \<Rightarrow> string set \<Rightarrow> resolved_disk list \<Rightarrow> string list \<Rightarrow>
   (nat \<times> extra_disk) list \<Rightarrow> ('s, resolved_disk list \<times> string list) act" where
  "materialize_loop env cluster ns vmName used usedDvs resolved created [] = act_return (resolved, created)"
| "materialize_loop env cluster ns vmName used usedDvs resolved created ((i, disk) # disks) =
     act_bind
       (act_catch (materialize_disk env cluster ns vmName used usedDvs i disk) (\<lambda>err.
          act_seq (act_each (delete_quietly env cluster ns) created) (act_fail err)))
       (\<lambda>(r, made).
          materialize_loop env cluster ns vmName (insert (rxd_volumeName r) used)
            (insert (rxd_dataVolumeName r) usedDvs) (resolved @ [r])
            (case made of None \<Rightarrow> created | Some nm \<Rightarrow> created @ [nm]) disks)"

definition materializeExtraDisks ::
  "'s vm_env \<Rightarrow> string \<Rightarrow> string \<Rightarrow> string \<Rightarrow> extra_disk list \<Rightarrow> string set \<Rightarrow>
   ('s, resolved_disk list \<times> string list) act" where
  "materializeExtraDisks env cluster ns vmName extraDisks reservedNames =
     (if extraDisks = [] then act_return ([], [])
      else if KMC_MAX_EXTRA_DISKS < length extraDisks
        then act_throw (''At most '' @ nat_str KMC_MAX_EXTRA_DISKS @ '' secondary disks are supported'')
      else materialize_loop env cluster ns vmName (reservedNames \<union> {''root'', ''cloudinit''}) {} [] []
             (List.enumerate 0 extraDisks))"

section \<open>Attaching and detaching\<close>

definition fetchVmRaw :: "'s vm_env \<Rightarrow> string \<Rightarrow> string \<Rightarrow> string \<Rightarrow> ('s, vm_object) act" where
  "fetchVmRaw env cluster ns nm =
     with_custom (vme_vms env) cluster (\<lambda>api.
       act_catch (api_get_ns api vm_gvp ns nm) (\<lambda>err.
         if vm_isNotFoundError err then act_throw (''VirtualMachine not found: '' @ ns @ ''/'' @ nm)
         else save_error err))"

definition empty_domain :: vm_domain where
  "empty_domain = \<lparr>vdm_cpu = None, vdm_machine = None, vdm_resources = None, vdm_devices = None\<rparr>"

definition empty_devices :: vm_devices where
  "empty_devices = \<lparr>vdv_disks = None, vdv_interfaces = None\<rparr>"

text \<open>The object as it is written back: without its status, with new disks and volumes.\<close>

definition put_disks :: "vm_object \<Rightarrow> vm_spec \<Rightarrow> vm_template_spec \<Rightarrow> vm_disk list \<Rightarrow> vm_volume list \<Rightarrow> vm_object" where
  "put_disks vm sp ts disks volumes =
     (let domain = opt_default empty_domain (vts_domain ts);
          devices = opt_default empty_devices (vdm_devices domain) in
      vm\<lparr>vmo_status := None,
         vmo_spec := Some (sp\<lparr>vsp_templateSpec := Some (ts\<lparr>
           vts_domain := Some (domain\<lparr>vdm_devices := Some (devices\<lparr>vdv_disks := Some disks\<rparr>)\<rparr>),
           vts_volumes := Some volumes\<rparr>)\<rparr>)\<rparr>)"

definition with_template :: "vm_object \<Rightarrow> (vm_spec \<Rightarrow> vm_template_spec \<Rightarrow> 'a result) \<Rightarrow> 'a result" where
  "with_template vm k =
     (case vmo_spec vm of
        None \<Rightarrow> throw ''VirtualMachine has no template.spec''
      | Some sp \<Rightarrow> (case vsp_templateSpec sp of
          None \<Rightarrow> throw ''VirtualMachine has no template.spec''
        | Some ts \<Rightarrow> k sp ts))"

definition attached_body :: "string \<Rightarrow> string \<Rightarrow> vm_object \<Rightarrow> vm_object result" where
  "attached_body volumeName dataVolumeName vm =
     with_template vm (\<lambda>sp ts.
       if list_ex (\<lambda>v. vvo_name v = Some volumeName) (vm_volumes vm)
       then throw (''Volume \"'' @ volumeName @ ''\" already exists on the VM'')
       else if list_ex (\<lambda>d. vdk_name d = Some volumeName) (vm_disks vm)
       then throw (''Disk \"'' @ volumeName @ ''\" already exists on the VM'')
       else Inr (put_disks vm sp ts (vm_disks vm @ [data_disk volumeName])
                   (vm_volumes vm @ [data_volume volumeName dataVolumeName])))"

definition detached_body :: "string \<Rightarrow> vm_object \<Rightarrow> vm_object result" where
  "detached_body volumeName vm =
     with_template vm (\<lambda>sp ts.
       let disks = filter (\<lambda>d. vdk_name d \<noteq> Some volumeName) (vm_disks vm);
           volumes = filter (\<lambda>v. vvo_name v \<noteq> Some volumeName) (vm_volumes vm) in
       if length volumes = length (vm_volumes vm) \<and> length disks = length (vm_disks vm)
       then throw (''Volume \"'' @ volumeName @ ''\" not found on the VM'')
       else Inr (put_disks vm sp ts disks volumes))"

definition rewrite_vm ::
  "'s vm_env \<Rightarrow> string \<Rightarrow> string \<Rightarrow> string \<Rightarrow> (vm_object \<Rightarrow> vm_object result) \<Rightarrow> ('s, unit) act" where
  "rewrite_vm env cluster ns vmName body =
     with_custom (vme_vms env) cluster (\<lambda>api.
       retry_conflict
         (act_bind (fetchVmRaw env cluster ns vmName) (\<lambda>vm.
          act_bind (act_lift (body vm)) (\<lambda>b.
          act_bind (api_replace_ns api vm_gvp ns vmName b) (\<lambda>_. act_return ())))))"

definition attachVolumeDeclarative ::
  "'s vm_env \<Rightarrow> string \<Rightarrow> string \<Rightarrow> string \<Rightarrow> string \<Rightarrow> string \<Rightarrow> ('s, unit) act" where
  "attachVolumeDeclarative env cluster ns vmName volumeName dataVolumeName =
     rewrite_vm env cluster ns vmName (attached_body volumeName dataVolumeName)"

definition detachVolumeDeclarative ::
  "'s vm_env \<Rightarrow> string \<Rightarrow> string \<Rightarrow> string \<Rightarrow> string \<Rightarrow> ('s, unit) act" where
  "detachVolumeDeclarative env cluster ns vmName volumeName =
     rewrite_vm env cluster ns vmName (detached_body volumeName)"

text \<open>What a DataVolume is rewritten to: used by a machine again, or kept after it.\<close>

definition rewritten_dv ::
  "data_volume_cr \<Rightarrow> string \<Rightarrow> string \<Rightarrow> owner_ref list option \<Rightarrow> string jsobj \<Rightarrow> string jsobj \<Rightarrow> data_volume_cr" where
  "rewritten_dv dv ns nm owners labels annotations =
     dv\<lparr>dvc_apiVersion := Some (opt_default ''cdi.kubevirt.io/v1beta1'' (dvc_apiVersion dv)),
        dvc_kind := Some (opt_default ''DataVolume'' (dvc_kind dv)),
        dvc_metadata := Some \<lparr>om_name = Some nm, om_generateName = fld (dvc_metadata dv) om_generateName,
          om_namespace = Some ns, om_uid = fld (dvc_metadata dv) om_uid,
          om_creationTimestamp = fld (dvc_metadata dv) om_creationTimestamp,
          om_labels = Some labels, om_annotations = Some annotations\<rparr>,
        dvc_owners := owners, dvc_status := None\<rparr>"

definition attached_dv :: "string \<Rightarrow> string \<Rightarrow> string \<Rightarrow> data_volume_cr \<Rightarrow> data_volume_cr" where
  "attached_dv ns nm vmName dv =
     (let b = rewritten_dv dv ns nm (dvc_owners dv)
        (obj_delete (obj_spread (obj_spread [] (opt_obj (fld (dvc_metadata dv) om_labels)))
           (obj_lit [(MANAGED_BY_LABEL, KMC_MANAGED_BY), (VM_LABEL, vmName)])) KMC_LABEL_RETAINED_FROM_VM)
        (obj_delete (obj_spread [] (opt_obj (fld (dvc_metadata dv) om_annotations))) KMC_ANN_RETAINED_AT)
      in b\<lparr>dvc_metadata := map_option (\<lambda>m. m\<lparr>om_generateName := None, om_creationTimestamp := None\<rparr>) (dvc_metadata b)\<rparr>)"

definition retained_dv ::
  "string \<Rightarrow> string \<Rightarrow> string \<Rightarrow> owner_ref list \<Rightarrow> string \<Rightarrow> data_volume_cr \<Rightarrow> data_volume_cr" where
  "retained_dv ns nm vmName owners now dv =
     rewritten_dv dv ns nm (Some owners)
       (obj_delete (obj_spread (obj_spread [] (opt_obj (fld (dvc_metadata dv) om_labels)))
          (obj_lit [(KMC_LABEL_RETAINED_FROM_VM, vmName), (MANAGED_BY_LABEL, KMC_MANAGED_BY)])) VM_LABEL)
       (obj_assign (obj_spread [] (opt_obj (fld (dvc_metadata dv) om_annotations))) KMC_ANN_RETAINED_AT now)"

definition stampDataVolumeAttachedToVm :: "'s vm_env \<Rightarrow> string \<Rightarrow> string \<Rightarrow> string \<Rightarrow> string \<Rightarrow> ('s, unit) act" where
  "stampDataVolumeAttachedToVm env cluster ns dvName vmName =
     with_custom (vme_dvs env) cluster (\<lambda>api.
       act_or
         (act_bind (api_get_ns api dv_gvp ns dvName) (\<lambda>dv.
          act_bind (api_replace_ns api dv_gvp ns dvName (attached_dv ns dvName vmName dv)) (\<lambda>_. act_return ())))
         ())"

text \<open>Reading a DataVolume that may be gone.\<close>

definition get_dv :: "('s, data_volume_cr) custom_api \<Rightarrow> string \<Rightarrow> string \<Rightarrow> ('s, data_volume_cr option) act" where
  "get_dv api ns nm =
     act_catch (act_bind (api_get_ns api dv_gvp ns nm) (\<lambda>dv. act_return (Some dv)))
       (\<lambda>err. if vm_isNotFoundError err then act_return None else act_fail err)"

definition stampRetainedDataVolume :: "'s vm_env \<Rightarrow> string \<Rightarrow> string \<Rightarrow> string \<Rightarrow> string \<Rightarrow> ('s, bool) act" where
  "stampRetainedDataVolume env cluster ns dvName vmName =
     with_custom (vme_dvs env) cluster (\<lambda>api.
       retry_plain
         (act_bind (get_dv api ns dvName) (\<lambda>found.
            case found of
              None \<Rightarrow> act_return False
            | Some dv \<Rightarrow>
                if truthy (opt_get (fld (dvc_metadata dv) om_labels) KMC_LABEL_RETAINED_FROM_VM) then act_return True
                else act_bind (act_read (vme_nowIso env)) (\<lambda>now.
                  act_bind (api_replace_ns api dv_gvp ns dvName
                      (retained_dv ns dvName vmName (opt_default [] (dvc_owners dv)) now dv))
                    (\<lambda>_. act_return True)))))"

record attach_disk_request =
  adr_cluster :: string
  adr_namespace :: string
  adr_vmName :: string
  adr_name :: "string option"
  adr_source :: disk_source_mode
  adr_size :: "string option"
  adr_storageClass :: "string option"
  adr_existingDataVolumeName :: "string option"

record attach_disk_result =
  are_volumeName :: string
  are_dataVolumeName :: string
  are_createdDataVolume :: bool

definition disk_to_attach ::
  "'s vm_env \<Rightarrow> attach_disk_request \<Rightarrow> string \<Rightarrow> string \<Rightarrow> string \<Rightarrow> vm_object \<Rightarrow> string \<Rightarrow> ('s, string \<times> bool) act" where
  "disk_to_attach env inp cluster ns vmName vm volumeName =
     (if adr_source inp = ExistingDataVolume then
        let dv = js_trim (opt_str (adr_existingDataVolumeName inp)) in
        if dv = [] then act_throw ''existingDataVolumeName is required''
        else if \<not> DNS1123_LABEL dv then act_throw ''existingDataVolumeName must be a DNS-1123 label''
        else if list_ex (\<lambda>v. fld (vvo_dataVolume v) dvr_name = Some dv) (vm_volumes vm)
        then act_throw (''DataVolume '' @ dv @ '' is already attached to this VM'')
        else act_bind (assertDataVolumeReusable env cluster ns dv) (\<lambda>_. act_return (dv, False))
      else
        let sz = js_trim (opt_str (adr_size inp)) in
        if sz = [] then act_throw ''size is required for blank disks''
        else act_bind (act_lift (secondaryDataVolumeName vmName volumeName)) (\<lambda>dv.
          act_bind (ensureBlankDataVolume env cluster ns dv sz (adr_storageClass inp) vmName) (\<lambda>(nm, created).
            act_seq
              (act_when (\<not> created)
                (act_catch (act_bind (assertDataVolumeReusable env cluster ns dv) (\<lambda>_. act_return ())) (\<lambda>err.
                   act_fail (mk_error_cause (''DataVolume '' @ dv @ '' already exists and cannot be attached: '' @
                     format_error err) err))))
              (act_return (dv, created)))))"

text \<open>\<open>err instanceof Error ? err : new Error(formatError(err), { cause: err })\<close>.\<close>

fun as_error :: "thrown \<Rightarrow> thrown" where
  "as_error (ErrorObj msg c props) = ErrorObj msg c props"
| "as_error err = mk_error_cause (format_error err) err"

definition attachVmDisk :: "'s vm_env \<Rightarrow> attach_disk_request \<Rightarrow> ('s, attach_disk_result) act" where
  "attachVmDisk env inp =
     (let cluster = js_trim (adr_cluster inp); ns = js_trim (adr_namespace inp); vmName = js_trim (adr_vmName inp) in
      if cluster = [] then act_throw ''cluster is required''
      else if ns = [] then act_throw ''namespace is required''
      else if vmName = [] then act_throw ''vmName is required''
      else act_seq (assertVmNamespaceAllowed (vme_ns env) cluster ns)
        (act_bind (fetchVmRaw env cluster ns vmName) (\<lambda>vm.
          if KMC_MAX_EXTRA_DISKS \<le> countSecondaryDataDisks vm
          then act_throw (''At most '' @ nat_str KMC_MAX_EXTRA_DISKS @ '' secondary disks are supported'')
          else act_bind (act_lift (allocateVolumeName vm (adr_name inp))) (\<lambda>volumeName.
            act_bind (disk_to_attach env inp cluster ns vmName vm volumeName) (\<lambda>(dv, created).
              act_seq
                (act_catch (attachVolumeDeclarative env cluster ns vmName volumeName dv) (\<lambda>err.
                   act_seq (act_when created (delete_quietly env cluster ns dv)) (act_fail (as_error err))))
                (act_seq (stampDataVolumeAttachedToVm env cluster ns dv vmName)
                  (act_return \<lparr>are_volumeName = volumeName, are_dataVolumeName = dv,
                     are_createdDataVolume = created\<rparr>)))))))"

record detach_disk_request =
  ddr_cluster :: string
  ddr_namespace :: string
  ddr_vmName :: string
  ddr_volumeName :: string
  ddr_deleteDisk :: "bool option"

record detach_disk_result =
  dre_volumeName :: string
  dre_dataVolumeName :: string
  dre_deletedDataVolume :: bool
  dre_retainedDataVolume :: bool

definition after_detach ::
  "'s vm_env \<Rightarrow> detach_disk_request \<Rightarrow> string \<Rightarrow> string \<Rightarrow> string \<Rightarrow> string \<Rightarrow> ('s, bool \<times> bool) act" where
  "after_detach env inp cluster ns vmName dv =
     (if ddr_deleteDisk inp = Some True then
        act_catch (act_seq (deleteDataVolumeRaw env cluster ns dv) (act_return (True, False))) (\<lambda>err.
          act_fail (mk_error_cause (''Disk detached but failed to delete DataVolume '' @ dv @ '': '' @ format_error err) err))
      else act_or (act_bind (stampRetainedDataVolume env cluster ns dv vmName) (\<lambda>stamped. act_return (False, stamped)))
             (False, False))"

definition detachVmDisk :: "'s vm_env \<Rightarrow> detach_disk_request \<Rightarrow> ('s, detach_disk_result) act" where
  "detachVmDisk env inp =
     (let cluster = js_trim (ddr_cluster inp); ns = js_trim (ddr_namespace inp); vmName = js_trim (ddr_vmName inp);
          volumeName = js_trim (ddr_volumeName inp) in
      if cluster = [] then act_throw ''cluster is required''
      else if ns = [] then act_throw ''namespace is required''
      else if vmName = [] then act_throw ''vmName is required''
      else if volumeName = [] then act_throw ''volumeName is required''
      else if volumeName \<in> set KMC_RESERVED_VOLUME_NAMES
        then act_throw (''Cannot detach reserved volume \"'' @ volumeName @ ''\"'')
      else act_bind (fetchVmRaw env cluster ns vmName) (\<lambda>vm.
        case find (\<lambda>v. vvo_name v = Some volumeName) (vm_volumes vm) of
          None \<Rightarrow> act_throw (''Volume \"'' @ volumeName @ ''\" not found on the VM'')
        | Some vol \<Rightarrow>
            (case trim_or_undef (fld (vvo_dataVolume vol) dvr_name) of
               None \<Rightarrow> act_throw (''Volume \"'' @ volumeName @
                 ''\" is not a DataVolume and cannot be detached from the console'')
             | Some dv \<Rightarrow>
                 act_seq (detachVolumeDeclarative env cluster ns vmName volumeName)
                   (act_bind (after_detach env inp cluster ns vmName dv) (\<lambda>(deleted, retained).
                     act_return \<lparr>dre_volumeName = volumeName, dre_dataVolumeName = dv,
                       dre_deletedDataVolume = deleted, dre_retainedDataVolume = retained\<rparr>)))))"

section \<open>What attaching and detaching do to a machine\<close>

lemma put_disks_parts:
  assumes "vmo_spec vm = Some sp" "vsp_templateSpec sp = Some ts"
  shows "vm_disks (put_disks vm sp ts disks volumes) = disks"
    "vm_volumes (put_disks vm sp ts disks volumes) = volumes"
    "vm_interfaces (put_disks vm sp ts disks volumes) = vm_interfaces vm"
    "vm_networks (put_disks vm sp ts disks volumes) = vm_networks vm"
  using assms
  by (simp_all add: put_disks_def Let_def vm_disks_def vm_volumes_def vm_interfaces_def vm_networks_def
      template_spec_def empty_domain_def empty_devices_def opt_default_def split: option.splits)

lemma with_template_Inr:
  "with_template vm k = Inr b \<longleftrightarrow>
     (\<exists>sp ts. vmo_spec vm = Some sp \<and> vsp_templateSpec sp = Some ts \<and> k sp ts = Inr b)"
  by (auto simp: with_template_def split: option.splits)

lemma attached_body_parts:
  assumes "attached_body v dv vm = Inr b"
  shows "vm_disks b = vm_disks vm @ [data_disk v]" "vm_volumes b = vm_volumes vm @ [data_volume v dv]"
    "vm_interfaces b = vm_interfaces vm" "vm_networks b = vm_networks vm"
    "Some v \<notin> set (map vvo_name (vm_volumes vm))" "Some v \<notin> set (map vdk_name (vm_disks vm))"
  using assms
  by (auto simp: attached_body_def with_template_Inr put_disks_parts list_ex_iff split: if_splits)

lemma detached_body_parts:
  assumes "detached_body v vm = Inr b"
  shows "vm_disks b = filter (\<lambda>d. vdk_name d \<noteq> Some v) (vm_disks vm)"
    "vm_volumes b = filter (\<lambda>x. vvo_name x \<noteq> Some v) (vm_volumes vm)"
    "vm_interfaces b = vm_interfaces vm" "vm_networks b = vm_networks vm"
  using assms
  by (auto simp: detached_body_def with_template_Inr Let_def put_disks_parts split: if_splits)

lemma attached_wf:
  assumes "vm_wf vm" "attached_body v dv vm = Inr b"
  shows "vm_wf b"
proof -
  have names: "map vdk_name (vm_disks b) = map vdk_name (vm_disks vm) @ [Some v]"
    "map vvo_name (vm_volumes b) = map vvo_name (vm_volumes vm) @ [Some v]"
    by (simp_all add: attached_body_parts [OF assms(2)] data_disk_def data_volume_def)
  then have "disks_wf b"
    using assms(1) attached_body_parts(5) [OF assms(2)] unfolding vm_wf_def disks_wf_def names by simp
  then show ?thesis
    using assms(1) by (simp add: vm_wf_def networks_wf_def attached_body_parts [OF assms(2)])
qed

lemma filter_absent: "n \<notin> set (map f xs) \<Longrightarrow> filter (\<lambda>x. f x \<noteq> n) xs = xs"
  by (induction xs) auto

lemma map_filter_names: "map f (filter (\<lambda>x. f x \<noteq> n) xs) = filter (\<lambda>y. y \<noteq> n) (map f xs)"
  by (simp add: filter_map o_def)

lemma detached_wf:
  assumes "vm_wf vm" "detached_body v vm = Inr b"
  shows "vm_wf b"
  using assms(1)
  by (auto simp: vm_wf_def disks_wf_def networks_wf_def detached_body_parts [OF assms(2)] map_filter_names)

lemma detach_undoes_attach:
  assumes wf: "vm_wf vm" and a: "attached_body v dv vm = Inr b" and d: "detached_body v b = Inr c"
  shows "vm_disks c = vm_disks vm" "vm_volumes c = vm_volumes vm"
proof -
  have "filter (\<lambda>x. vvo_name x \<noteq> Some v) (vm_volumes vm) = vm_volumes vm"
    by (rule filter_absent [OF attached_body_parts(5) [OF a]])
  then show "vm_volumes c = vm_volumes vm"
    by (simp add: detached_body_parts [OF d] attached_body_parts [OF a] data_volume_def)
  have "filter (\<lambda>x. vdk_name x \<noteq> Some v) (vm_disks vm) = vm_disks vm"
    by (rule filter_absent [OF attached_body_parts(6) [OF a]])
  then show "vm_disks c = vm_disks vm"
    by (simp add: detached_body_parts [OF d] attached_body_parts [OF a] data_disk_def)
qed

lemma detach_after_attach_succeeds:
  assumes "attached_body v dv vm = Inr b"
  shows "\<exists>c. detached_body v b = Inr c"
proof -
  obtain sp ts where "vmo_spec b = Some sp" "vsp_templateSpec sp = Some ts"
    using assms by (auto simp: attached_body_def with_template_Inr put_disks_def Let_def split: if_splits)
  moreover have "length (filter (\<lambda>x. vvo_name x \<noteq> Some v) (vm_volumes b)) \<noteq> length (vm_volumes b)"
    using attached_body_parts(2,5) [OF assms] by (simp add: data_volume_def)
      (metis le_imp_less_Suc length_filter_le less_irrefl)
  ultimately show ?thesis by (simp add: detached_body_def with_template_def Let_def)
qed

section \<open>Which disks are attached\<close>

text \<open>
  \<open>M\<close> observes the machines of a namespace: reading, and creating a DataVolume, leave them alone,
  and a listing returns them.
\<close>

definition disk_reads :: "('s \<Rightarrow> 'o) \<Rightarrow> 's vm_env \<Rightarrow> string \<Rightarrow> bool" where
  "disk_reads M env cluster \<longleftrightarrow>
     clients_read M (vme_vms env) cluster \<and> clients_read M (vme_dvs env) cluster \<and>
     (\<forall>core. ne_core (vme_ns env) cluster = Inr core \<longrightarrow> (\<forall>nm. leaves M (nsa_read core nm))) \<and>
     (\<forall>api. vme_dvs env cluster = Inr api \<longrightarrow> (\<forall>g ns b. leaves M (api_create_ns api g ns b)))"

definition lists_machines :: "('s \<Rightarrow> vm_object list) \<Rightarrow> 's vm_env \<Rightarrow> string \<Rightarrow> string \<Rightarrow> bool" where
  "lists_machines M env cluster ns \<longleftrightarrow>
     (\<forall>api s. vme_vms env cluster = Inr api \<longrightarrow> fst (api_list_ns api vm_gvp ns None s) = Inr (Some (M s)))"

text \<open>A machine that has the DataVolume as a disk, by its claim or by a template.\<close>

definition has_disk :: "string \<Rightarrow> vm_object \<Rightarrow> bool" where
  "has_disk dv vm \<longleftrightarrow>
     (\<exists>v \<in> set (vm_volumes vm). fld (vvo_dataVolume v) dvr_name = Some dv \<or> vvo_claimName v = Some dv) \<or>
     (\<exists>t \<in> set (vm_dv_templates vm). dtp_name t = Some dv)"

lemma volume_use_None:
  assumes "volume_use dv c n v = None" "dv \<noteq> []"
  shows "fld (vvo_dataVolume v) dvr_name \<noteq> Some dv" "vvo_claimName v \<noteq> Some dv"
  using assms by (auto simp: volume_use_def opt_or_undef_def or_undef_def split: if_splits)

lemma machine_uses_Nil:
  assumes "machine_uses dv c vm = []" "dv \<noteq> []"
  shows "\<not> has_disk dv vm"
proof -
  let ?n = "opt_default ''unknown'' (fld (vmo_metadata vm) om_name)"
  have "volume_use dv c ?n v = None" if "v \<in> set (vm_volumes vm)" for v
    using assms(1) that by (simp add: machine_uses_def Let_def map_filter_Nil)
  moreover have "dtp_name t \<noteq> Some dv" if "t \<in> set (vm_dv_templates vm)" for t
    using assms(1) that by (auto simp: machine_uses_def Let_def map_filter_Nil template_use_def)
  ultimately show ?thesis
    using volume_use_None [OF _ assms(2)] unfolding has_disk_def by blast
qed

lemma leaves_save_error [leaves_intros]: "leaves f (save_error err)"
  unfolding save_error_def by (rule leaves_basic)

lemma disk_reads_calls:
  assumes "disk_reads M env cluster"
  shows "clients_read M (vme_vms env) cluster" "clients_read M (vme_dvs env) cluster"
    "ne_core (vme_ns env) cluster = Inr core \<Longrightarrow> leaves M (nsa_read core nm)"
    "vme_dvs env cluster = Inr api \<Longrightarrow> leaves M (api_create_ns api g ns b)"
  using assms by (simp_all add: disk_reads_def)

lemma fetchVmRaw_leaves:
  assumes "disk_reads M env cluster"
  shows "leaves M (fetchVmRaw env cluster ns nm)"
  unfolding fetchVmRaw_def
  by (intro leaves_with_reads [OF disk_reads_calls(1) [OF assms]] leaves_intros reads_leave_api | assumption)+

lemma check_owner_leaves:
  assumes "disk_reads M env cluster"
  shows "leaves M (check_owner env cluster ns ow)"
  unfolding check_owner_def
  by (intro leaves_with_reads [OF disk_reads_calls(1) [OF assms]] leaves_intros reads_leave_api | assumption)+

lemma assert_namespace_leaves:
  assumes "disk_reads M env cluster"
  shows "leaves M (assertVmNamespaceAllowed (vme_ns env) cluster nm)"
  by (rule namespace_allowed_leaves) (rule disk_reads_calls(3) [OF assms])

lemma ensureBlank_leaves:
  assumes "disk_reads M env cluster"
  shows "leaves M (ensureBlankDataVolume env cluster ns nm sz sc vmName)"
  unfolding ensureBlankDataVolume_def Let_def dv_exists_def create_dv_def
proof (intro leaves_if leaves_basic leaves_with_custom)
  fix api assume a: "vme_dvs env cluster = Inr api"
  show "leaves M (act_bind (act_catch (act_bind (api_get_ns api dv_gvp ns (js_trim nm)) (\<lambda>_. act_return True))
      (\<lambda>err. if vm_isNotFoundError err then act_return False else save_error err)) (\<lambda>exists.
        if exists then act_return (js_trim nm, False)
        else act_seq (act_catch (act_bind (api_create_ns api dv_gvp ns
              (new_dv (js_trim nm) ns (obj_lit [(MANAGED_BY_LABEL, KMC_MANAGED_BY), (VM_LABEL, js_trim vmName)]) BlankDisk sz sc))
             (\<lambda>_. act_return ())) save_error)
          (act_return (js_trim nm, True))))"
    by (intro leaves_intros disk_reads_calls(4) [OF assms a] reads_leave_calls [OF disk_reads_calls(2) [OF assms] a])
qed

text \<open>A DataVolume that may be used again is no disk of any machine.\<close>

lemma reusable_is_unused:
  assumes r: "disk_reads M env cluster" and l: "lists_machines M env cluster ns"
    and a: "assertDataVolumeReusable env cluster ns dv s = (Inr x, t)" and dv: "dv \<noteq> []"
  shows "\<forall>vm \<in> set (M s). \<not> has_disk dv vm"
proof -
  from a obtain api d u phase w where api: "vme_dvs env cluster = Inr api"
    and get: "act_catch (api_get_ns api dv_gvp ns dv) (\<lambda>err.
          if vm_isNotFoundError err then act_throw (''DataVolume not found: '' @ ns @ ''/'' @ dv)
          else save_error err) s = (Inr d, u)"
    and own: "act_each (check_owner env cluster ns) (opt_default [] (dvc_owners d)) u = (Inr (), w)"
    and use: "with_custom (vme_vms env) cluster (\<lambda>vms. act_bind (api_list_ns vms vm_gvp ns None) (\<lambda>items.
             case concat (map (machine_uses dv (opt_default dv (trim_or_undef (fld (dvc_status d) dvt_claimName))))
               (opt_default [] items)) of
               m # ms \<Rightarrow> act_throw m
             | [] \<Rightarrow> act_return \<lparr>rud_phase = phase, rud_size = dv_size d,
                 rud_claimName = opt_default dv (trim_or_undef (fld (dvc_status d) dvt_claimName))\<rparr>)) w = (Inr x, t)"
    unfolding assertDataVolumeReusable_def with_custom_apply Let_def
    by (auto simp: act_lift_apply split: sum.splits elim!: act_bind_InrE act_seq_InrE)
  have "leaves M (act_catch (api_get_ns api dv_gvp ns dv) (\<lambda>err.
          if vm_isNotFoundError err then act_throw (''DataVolume not found: '' @ ns @ ''/'' @ dv)
          else save_error err))"
    by (intro leaves_intros reads_leave_calls [OF disk_reads_calls(2) [OF r] api])
  then have "M u = M s" using get by (rule leavesD)
  moreover have "M w = M u"
    by (rule leavesD [OF leaves_each own]) (rule check_owner_leaves [OF r])
  moreover obtain vms where vms: "vme_vms env cluster = Inr vms"
    using use by (auto simp: with_custom_apply split: sum.splits)
  moreover have "fst (api_list_ns vms vm_gvp ns None w) = Inr (Some (M w))"
    using l vms by (simp add: lists_machines_def)
  ultimately have "\<forall>vm \<in> set (M s). machine_uses dv (opt_default dv (trim_or_undef (fld (dvc_status d) dvt_claimName))) vm = []"
    using use by (auto simp: with_custom_apply act_simps opt_default_def split: prod.splits list.splits)
  then show ?thesis using machine_uses_Nil [OF _ dv] by blast
qed

lemma disk_to_attach_unused:
  assumes r: "disk_reads M env cluster" and l: "lists_machines M env cluster ns"
    and a: "disk_to_attach env inp cluster ns vmName vm v s = (Inr (dv, False), t)"
  shows "\<forall>vm \<in> set (M s). \<not> has_disk dv vm"
proof (cases "adr_source inp = ExistingDataVolume")
  case True
  then obtain x u where "assertDataVolumeReusable env cluster ns dv s = (Inr x, u)" and "dv \<noteq> []"
    using a by (auto simp: disk_to_attach_def Let_def act_throw_apply act_return_apply split: if_splits elim!: act_bind_InrE)
  then show ?thesis by (rule reusable_is_unused [OF r l])
next
  case False
  then obtain nm u x w where name: "secondaryDataVolumeName vmName v = Inr dv"
    and e: "ensureBlankDataVolume env cluster ns dv (js_trim (opt_str (adr_size inp))) (adr_storageClass inp) vmName s = (Inr (nm, False), u)"
    and x: "assertDataVolumeReusable env cluster ns dv u = (Inr x, w)"
    using a by (auto simp: disk_to_attach_def Let_def act_throw_apply act_return_apply act_lift_apply act_fail_apply
        act_bind_def act_catch_def act_seq_apply split: if_splits prod.splits sum.splits)
  have "dv \<noteq> []" using name by (auto simp: secondaryDataVolumeName_def Let_def split: if_splits)
  then have "\<forall>vm \<in> set (M u). \<not> has_disk dv vm" by (rule reusable_is_unused [OF r l x])
  moreover have "M u = M s" by (rule leavesD [OF ensureBlank_leaves [OF r] e])
  ultimately show ?thesis by simp
qed

lemma attachVmDisk_unused:
  assumes r: "disk_reads M env (js_trim (adr_cluster inp))"
    and l: "lists_machines M env (js_trim (adr_cluster inp)) (js_trim (adr_namespace inp))"
    and a: "attachVmDisk env inp s = (Inr res, t)" and c: "\<not> are_createdDataVolume res"
  shows "\<forall>vm \<in> set (M s). \<not> has_disk (are_dataVolumeName res) vm"
proof -
  let ?c = "js_trim (adr_cluster inp)" and ?ns = "js_trim (adr_namespace inp)" and ?n = "js_trim (adr_vmName inp)"
  obtain x u vm w v z where u: "assertVmNamespaceAllowed (vme_ns env) ?c ?ns s = (Inr x, u)"
    and w: "fetchVmRaw env ?c ?ns ?n u = (Inr vm, w)"
    and z: "disk_to_attach env inp ?c ?ns ?n vm v w = (Inr (are_dataVolumeName res, False), z)"
    using a c unfolding attachVmDisk_def Let_def
    by (auto simp: act_throw_apply act_return_apply act_lift_apply split: if_splits elim!: act_bind_InrE act_seq_InrE)
  have "M u = M s" by (rule leavesD [OF assert_namespace_leaves [OF r] u])
  moreover have "M w = M u" by (rule leavesD [OF fetchVmRaw_leaves [OF r] w])
  ultimately show ?thesis using disk_to_attach_unused [OF r l z] by simp
qed

section \<open>A laboratory\<close>

text \<open>The machines and the DataVolumes of one namespace.\<close>

type_synonym disk_lab = "vm_object list \<times> data_volume_cr list"

definition named_in :: "('r \<Rightarrow> object_meta option) \<Rightarrow> string \<Rightarrow> 'r list \<Rightarrow> 'r option" where
  "named_in f nm xs = find (\<lambda>x. fld (f x) om_name = Some nm) xs"

definition put_in :: "('r \<Rightarrow> object_meta option) \<Rightarrow> string \<Rightarrow> 'r \<Rightarrow> 'r list \<Rightarrow> 'r list" where
  "put_in f nm y xs = map (\<lambda>x. if fld (f x) om_name = Some nm then y else x) xs"

definition lab_machine_api :: "(disk_lab, vm_object) custom_api" where
  "lab_machine_api = idle_api\<lparr>
     api_list_ns := (\<lambda>g ns l s. (Inr (Some (fst s)), s)),
     api_get_ns := (\<lambda>g ns nm s. case named_in vmo_metadata nm (fst s) of
       None \<Rightarrow> (throw ''not found'', s) | Some vm \<Rightarrow> (Inr vm, s)),
     api_replace_ns := (\<lambda>g ns nm b s. (Inr b, (put_in vmo_metadata nm b (fst s), snd s)))\<rparr>"

definition lab_disk_api :: "(disk_lab, data_volume_cr) custom_api" where
  "lab_disk_api = idle_api\<lparr>
     api_get_ns := (\<lambda>g ns nm s. case named_in dvc_metadata nm (snd s) of
       None \<Rightarrow> (throw ''not found'', s) | Some dv \<Rightarrow> (Inr dv, s)),
     api_create_ns := (\<lambda>g ns b s. (Inr b, (fst s, b # snd s))),
     api_replace_ns := (\<lambda>g ns nm b s. (Inr b, (fst s, put_in dvc_metadata nm b (snd s))))\<rparr>"

definition open_ns_api :: "'s ns_api" where
  "open_ns_api =
     \<lparr>nsa_read = (\<lambda>nm. act_return (new_namespace nm)), nsa_create = act_return, nsa_delete = (\<lambda>nm. act_return ()),
      nsa_read_quota = (\<lambda>ns nm. act_throw ''not found''), nsa_replace_quota = (\<lambda>ns nm b. act_return b),
      nsa_create_quota = (\<lambda>ns b. act_return b), nsa_delete_quota = (\<lambda>ns nm. act_return ()),
      nsa_list_quotas = (\<lambda>ns. act_return None)\<rparr>"

definition disk_lab_env :: "disk_lab vm_env" where
  "disk_lab_env =
     \<lparr>vme_vms = (\<lambda>c. Inr lab_machine_api), vme_dvs = (\<lambda>c. Inr lab_disk_api),
      vme_ns = \<lparr>ne_core = (\<lambda>c. Inr open_ns_api), ne_vms = (\<lambda>c. Inr idle_api)\<rparr>, vme_nowIso = (\<lambda>s. ''now'')\<rparr>"

definition lab_vm :: "string \<Rightarrow> resolved_disk list \<Rightarrow> vm_object" where
  "lab_vm nm disks = assemble_vm
     \<lparr>cmr_cluster = ''c'', cmr_namespace = ''lab'', cmr_name = nm, cmr_instanceType = Some ''small'', cmr_cpuCores = None,
      cmr_memory = None, cmr_preference = None, cmr_diskSize = Some ''10Gi'', cmr_storageClass = None,
      cmr_image = Some \<lparr>vmi_namespace = ''images'', vmi_name = ''noble''\<rparr>, cmr_diskSource = None,
      cmr_existingDataVolumeName = None, cmr_networks = [], cmr_includePodNetwork = None, cmr_sshPublicKey = ''key'',
      cmr_start = None, cmr_installGuestAgent = True, cmr_extraDisks = [], cmr_labels = None, cmr_annotations = None,
      cmr_userDataSecretName = None\<rparr> []
     \<lparr>mfo_labels = None, mfo_annotations = None, mfo_userData = None, mfo_extraAuthorizedKeys = [],
      mfo_userDataSecretName = None, mfo_includePodNetwork = False, mfo_clusterCidrs = None, mfo_extraDisks = disks,
      mfo_routerAgentOwnsPrivateL3 = False, mfo_routerExternalAllocation = None\<rparr>
     None nm \<lparr>cin_secretRef = None, cin_userData = Some ''doc'', cin_networkData = None\<rparr>"

definition lab_dv :: "string \<Rightarrow> data_volume_cr" where
  "lab_dv nm = (new_dv nm ''lab'' [] BlankDisk ''1Gi'' None)\<lparr>dvc_status :=
     Some \<lparr>dvt_phase = Some ''Succeeded'', dvt_claimName = None, dvt_conditions = None\<rparr>\<rparr>"

definition lab_attach :: "string \<Rightarrow> attach_disk_request" where
  "lab_attach dv = \<lparr>adr_cluster = ''c'', adr_namespace = ''lab'', adr_vmName = ''web'', adr_name = None,
     adr_source = ExistingDataVolume, adr_size = None, adr_storageClass = None,
     adr_existingDataVolumeName = Some dv\<rparr>"

lemma disk_lab_reads: "disk_reads fst disk_lab_env cluster"
  by (auto simp: disk_reads_def disk_lab_env_def clients_read_def reads_leave_def lab_machine_api_def lab_disk_api_def
      idle_api_def open_ns_api_def leaves_def act_simps split: option.splits)

lemma disk_lab_lists: "lists_machines fst disk_lab_env cluster ns"
  by (auto simp: lists_machines_def disk_lab_env_def lab_machine_api_def)

section \<open>Properties\<close>


lemma lab_vm_wf: "vm_wf (lab_vm ''web'' [])"
  unfolding lab_vm_def by (rule assembled_wf) (simp_all add: usable_disks_def)

lemma lab_attached: "res_ok (attached_body ''data'' ''old'' (lab_vm ''web'' []))"
  by code_simp



definition lab_disks :: disk_lab where
  "lab_disks = ([lab_vm ''web'' [], lab_vm ''db'' [\<lparr>rxd_volumeName = ''data'', rxd_dataVolumeName = ''used''\<rparr>]],
    [lab_dv ''free'', lab_dv ''used''])"

definition lab_free_result :: attach_disk_result where
  "lab_free_result = \<lparr>are_volumeName = ''disk-1'', are_dataVolumeName = ''free'', are_createdDataVolume = False\<rparr>"

lemma lab_attach_free: "fst (attachVmDisk disk_lab_env (lab_attach ''free'') lab_disks) = Inr lab_free_result"
  by code_simp

lemma lab_attach_used: "\<not> res_ok (fst (attachVmDisk disk_lab_env (lab_attach ''used'') lab_disks))"
  by code_simp


end
