(* ===== verification/Vm_Summary.thy ===== *)
theory Vm_Summary
  imports Vm_Disks Js_Format
begin

text \<open>
  \<open>vms/vms.server.ts\<close>, the row that the console shows for a machine, and the sizes of the instance
  types that complete it. \<open>fmt\<close> writes the numbers that are not whole.
\<close>

definition KMC_ANN_OWNER :: string where "KMC_ANN_OWNER = KMC_LABEL_NAMESPACE @ ''/owner''"
definition KMC_LABEL_TEMPLATE :: string where "KMC_LABEL_TEMPLATE = KMC_LABEL_NAMESPACE @ ''/template''"

record kube_instance_type =
  kit_name :: "string option"
  kit_cpu :: "js_num option"
  kit_memory :: "string option"

record instance_size =
  isz_cpu :: "string option"
  isz_memory :: "string option"

type_synonym instance_sizes = "string \<Rightarrow> instance_size option"

definition instance_type_gvp :: gvp where
  "instance_type_gvp = \<lparr>gvp_group = ''instancetype.kubevirt.io'', gvp_version = ''v1beta1'',
     gvp_plural = ''virtualmachineclusterinstancetypes''\<rparr>"

definition sizes_of :: "(rat \<Rightarrow> string) \<Rightarrow> kube_instance_type list \<Rightarrow> instance_sizes" where
  "sizes_of fmt items =
     foldl (\<lambda>m item. if truthy (kit_name item)
       then m(opt_str (kit_name item) \<mapsto> \<lparr>isz_cpu = map_option (num_text fmt) (kit_cpu item), isz_memory = kit_memory item\<rparr>)
       else m) Map.empty items"

definition loadInstanceTypeSizes ::
  "(rat \<Rightarrow> string) \<Rightarrow> ('s, kube_instance_type) clients \<Rightarrow> string \<Rightarrow> ('s, instance_sizes) act" where
  "loadInstanceTypeSizes fmt cl cluster =
     act_or
       (with_custom cl cluster (\<lambda>api.
          act_bind (api_list_cluster api instance_type_gvp None) (\<lambda>items.
            act_return (sizes_of fmt (opt_default [] items)))))
       Map.empty"

record vm_summary =
  vsu_cluster :: string
  vsu_namespace :: string
  vsu_name :: string
  vsu_status :: string
  vsu_ready :: bool
  vsu_running :: bool
  vsu_cpu :: "string option"
  vsu_memory :: "string option"
  vsu_instanceType :: "string option"
  vsu_disk :: "string option"
  vsu_diskDataVolume :: "string option"
  vsu_allocatedIpv4 :: "string option"
  vsu_age :: string
  vsu_nodeName :: "string option"
  vsu_message :: "string option"
  vsu_restartRequired :: bool
  vsu_restartRequiredMessage :: "string option"
  vsu_owner :: "string option"
  vsu_resource :: "string option"
  vsu_template :: "string option"

definition running_statuses :: "string list" where
  "running_statuses = [''Running'', ''Starting'', ''Migrating'', ''Paused'', ''Provisioning'', ''WaitingForVolumeBinding'']"

text \<open>\<open>a || b || undefined\<close>.\<close>

definition first_filled :: "string option list \<Rightarrow> string option" where
  "first_filled xs = (case List.map_filter opt_or_undef xs of [] \<Rightarrow> None | x # _ \<Rightarrow> Some x)"

definition vm_label :: "vm_object \<Rightarrow> string \<Rightarrow> string option" where
  "vm_label vm k = opt_get (fld (vmo_metadata vm) om_labels) k"

definition vm_annotation :: "vm_object \<Rightarrow> string \<Rightarrow> string option" where
  "vm_annotation vm k = opt_get (fld (vmo_metadata vm) om_annotations) k"

definition vm_conditions :: "vm_object \<Rightarrow> cr_condition list" where
  "vm_conditions vm = opt_default [] (fld (vmo_status vm) vot_conditions)"

definition vm_instance_type :: "vm_object \<Rightarrow> string option" where
  "vm_instance_type vm = first_filled
     [fld (fld (vmo_spec vm) vsp_instancetype) vma_name, fld (vmo_status vm) vot_instancetypeRef,
      vm_label vm ''instancetype.kubevirt.io/cluster-instancetype-name'',
      vm_label vm ''instancetype.kubevirt.io/instancetype-name'']"

text \<open>Cores and memory: those of the machine, then those of its instance type.\<close>

definition vm_cores :: "vm_object \<Rightarrow> instance_size option \<Rightarrow> js_num option" where
  "vm_cores vm it =
     or_else (fld (fld (fld (template_spec vm) vts_domain) vdm_cpu) vcp_cores)
       (case opt_or_undef (fld it isz_cpu) of
          None \<Rightarrow> None
        | Some c \<Rightarrow> if js_is_finite (js_number c) then Some (js_number c) else None)"

definition vm_memory :: "vm_object \<Rightarrow> instance_size option \<Rightarrow> string option" where
  "vm_memory vm it =
     (let res = fld (fld (template_spec vm) vts_domain) vdm_resources;
          own = or_else (opt_get (fld res vrs_requests) ''memory'') (opt_get (fld res vrs_limits) ''memory'') in
      if \<not> truthy own \<and> truthy (fld it isz_memory) then fld it isz_memory else own)"

definition first_template :: "vm_object \<Rightarrow> dv_template option" where
  "first_template vm = (case vm_dv_templates vm of [] \<Rightarrow> None | t # _ \<Rightarrow> Some t)"

definition volume_dv :: "vm_volume \<Rightarrow> string option" where
  "volume_dv v = fld (vvo_dataVolume v) dvr_name"

definition vm_disk_dv :: "vm_object \<Rightarrow> string option" where
  "vm_disk_dv vm =
     (case opt_or_undef (fld (first_template vm) dtp_name) of
        Some n \<Rightarrow> Some n
      | None \<Rightarrow>
          or_else (fld (find (\<lambda>v. vvo_name v = Some ''root'' \<and> truthy (volume_dv v)) (vm_volumes vm)) volume_dv)
            (fld (find (\<lambda>v. truthy (volume_dv v)) (vm_volumes vm)) volume_dv))"

definition vm_disk_size :: "vm_object \<Rightarrow> string option" where
  "vm_disk_size vm =
     or_else (or_else (fld (first_template vm) dtp_storageSize) (fld (first_template vm) dtp_pvcSize))
       (trim_or_undef (vm_annotation vm KMC_ANN_DISK_SIZE))"

definition mapVm :: "(rat \<Rightarrow> string) \<Rightarrow> string \<Rightarrow> vm_object \<Rightarrow> instance_sizes \<Rightarrow> vm_summary" where
  "mapVm fmt cluster vm sizes =
     (let status = opt_default ''Unknown'' (fld (vmo_status vm) vot_printableStatus);
          ready = find (\<lambda>c. cond_type c = Some ''Ready'') (vm_conditions vm);
          notReady = find (\<lambda>c. cond_type c = Some ''Ready'' \<and> cond_status c \<noteq> Some ''True'') (vm_conditions vm);
          restart = find (\<lambda>c. cond_type c = Some ''RestartRequired'' \<and> cond_status c = Some ''True'') (vm_conditions vm);
          instanceType = vm_instance_type vm; it = fld instanceType sizes in
      \<lparr>vsu_cluster = cluster, vsu_namespace = opt_default ''default'' (fld (vmo_metadata vm) om_namespace),
       vsu_name = opt_default ''unknown'' (fld (vmo_metadata vm) om_name), vsu_status = status,
       vsu_ready = (fld (vmo_status vm) vot_ready = Some True \<or> fld ready cond_status = Some ''True'' \<or> status = ''Running''),
       vsu_running = (status \<in> set running_statuses),
       vsu_cpu = map_option (\<lambda>n. num_text fmt n @ ''c'') (vm_cores vm it), vsu_memory = vm_memory vm it,
       vsu_instanceType = instanceType, vsu_disk = vm_disk_size vm, vsu_diskDataVolume = vm_disk_dv vm,
       vsu_allocatedIpv4 = opt_or_undef (vm_annotation vm IPAM_ANNOTATION_IPV4),
       vsu_age = opt_str (fld (vmo_metadata vm) om_creationTimestamp), vsu_nodeName = fld (vmo_status vm) vot_nodeName,
       vsu_message = or_else (fld notReady cond_message) (fld notReady cond_reason),
       vsu_restartRequired = (restart \<noteq> None),
       vsu_restartRequiredMessage = or_else (fld restart cond_message) (fld restart cond_reason),
       vsu_owner = trim_or_undef (vm_annotation vm KMC_ANN_OWNER),
       vsu_resource = trim_or_undef (vm_label vm KMC_LABEL_RESOURCE),
       vsu_template = trim_or_undef (vm_label vm KMC_LABEL_TEMPLATE)\<rparr>)"

end
