(* ===== verification/Static_Nads.thy ===== *)
theory Static_Nads
  imports Ip_Pools Json
begin

text \<open>
  \<open>lib/k8s/static-nads.server.ts\<close>: a network of a static pool is created in the namespace of the
  machine that attaches to it, from the template that the pool carries.
\<close>

definition KMC_LABEL_VLAN :: string where "KMC_LABEL_VLAN = KMC_LABEL_NAMESPACE @ ''/vlan''"
definition KMC_LABEL_IP_POOL :: string where "KMC_LABEL_IP_POOL = KMC_LABEL_NAMESPACE @ ''/ip-pool''"
definition KMC_RESOURCE_NETWORK :: string where "KMC_RESOURCE_NETWORK = ''network''"

record nad_cr =
  nadc_apiVersion :: string
  nadc_kind :: string
  nadc_metadata :: object_meta
  nadc_config :: string

definition nad_gvp :: gvp where
  "nad_gvp = \<lparr>gvp_group = ''k8s.cni.cncf.io'', gvp_version = ''v1'',
     gvp_plural = ''network-attachment-definitions''\<rparr>"

definition nad_isNotFound :: "thrown \<Rightarrow> bool" where
  "nad_isNotFound err \<longleftrightarrow>
     (let m = error_text err in js_includes m ''404'' \<or> js_includes m ''not found'')"

definition nad_isAlreadyExists :: "thrown \<Rightarrow> bool" where
  "nad_isAlreadyExists err \<longleftrightarrow>
     (let m = error_text err in js_includes m ''409'' \<or> js_includes m ''already exists'')"

definition nadNameFromMultusRef :: "string \<Rightarrow> string" where
  "nadNameFromMultusRef multusNetwork =
     (let raw = js_trim multusNetwork in
      if raw = [] then []
      else if js_has_char (CHR ''/'') raw then js_slice_from raw (js_last_index_of (CHR ''/'') raw + 1)
      else raw)"

text \<open>\<open>JSON.stringify(config)\<close>; a field that is not there is left out.\<close>

definition nad_config :: "ip_pool_cni \<Rightarrow> string \<Rightarrow> string" where
  "nad_config cni nadName =
     ''{'' @ js_join '',''
       ([json_member (''cniVersion'', ''0.3.1''), json_member (''name'', nadName)] @
        (case cni_type cni of None \<Rightarrow> [] | Some t \<Rightarrow> [json_member (''type'', t)]) @
        (case cni_bridge cni of None \<Rightarrow> [] | Some b \<Rightarrow> [json_member (''bridge'', b)]) @
        [json_string ''ipam'' @ '':{}''] @
        (case cni_vlan cni of None \<Rightarrow> [] | Some v \<Rightarrow> [json_string ''vlan'' @ '':'' @ int_str v])) @ ''}''"

definition buildStaticNadBody :: "ip_pool_config \<Rightarrow> string \<Rightarrow> string \<Rightarrow> nad_cr result" where
  "buildStaticNadBody pool ns nadName =
     (case pool_cni pool of
        None \<Rightarrow> throw (''IP pool \"'' @ pool_id pool @ ''\" has no cni template'')
      | Some cni \<Rightarrow> Inr
          \<lparr>nadc_apiVersion = ''k8s.cni.cncf.io/v1'', nadc_kind = ''NetworkAttachmentDefinition'',
           nadc_metadata = new_meta (Some nadName) ns (Some (obj_lit
             ([(MANAGED_BY_LABEL, KMC_MANAGED_BY), (KMC_LABEL_RESOURCE, KMC_RESOURCE_NETWORK),
               (KMC_LABEL_IP_POOL, pool_id pool)] @
              (case cni_vlan cni of None \<Rightarrow> [] | Some v \<Rightarrow> [(KMC_LABEL_VLAN, int_str v)])))) None,
           nadc_config = nad_config cni nadName\<rparr>)"

text \<open>The pool whose template makes the network, if the reference is a local one.\<close>

definition static_pool_for ::
  "'s pool_clients \<Rightarrow> string \<Rightarrow> string \<Rightarrow> string \<Rightarrow> ('s, (ip_pool_config \<times> string) option) act" where
  "static_pool_for cl cluster ns selected =
     (case parseMultusNetworkRef selected ns of
        (refNs, refName) \<Rightarrow>
          if refNs \<noteq> ns then act_return None
          else act_bind (findIpPoolForMultus cl cluster selected) (\<lambda>found. act_return
            (case found of
               None \<Rightarrow> None
             | Some pool \<Rightarrow>
                 let nadName = nadNameFromMultusRef (pool_multusNetwork pool) in
                 if pool_cni pool = None \<or> nadName = [] \<or>
                    \<not> multusNetworkMatches (pool_multusNetwork pool) selected \<or> refName \<noteq> nadName
                 then None else Some (pool, nadName))))"

definition ensureStaticMultusNad ::
  "'s pool_clients \<Rightarrow> ('s, nad_cr) clients \<Rightarrow> string \<Rightarrow> string \<Rightarrow> string \<Rightarrow> ('s, unit) act" where
  "ensureStaticMultusNad cl nads cluster ns0 multusNetworkName =
     (let ns = js_trim ns0; selected = js_trim multusNetworkName in
      if js_trim cluster = [] \<or> ns = [] \<or> selected = [] then act_return ()
      else act_bind (static_pool_for cl cluster ns selected) (\<lambda>found.
        case found of
          None \<Rightarrow> act_return ()
        | Some (pool, nadName) \<Rightarrow>
            with_custom nads cluster (\<lambda>api.
              act_bind
                (act_catch (act_bind (api_get_ns api nad_gvp ns nadName) (\<lambda>_. act_return True)) (\<lambda>err.
                   if nad_isNotFound err then act_return False
                   else act_fail (mk_error_cause (''Failed to check Multus NAD '' @ ns @ ''/'' @ nadName @ '': '' @
                          format_error err) err)))
                (\<lambda>exists.
                  if exists then act_return ()
                  else act_bind (act_lift (buildStaticNadBody pool ns nadName)) (\<lambda>body.
                    act_catch (act_bind (api_create_ns api nad_gvp ns body) (\<lambda>_. act_return ())) (\<lambda>err.
                      if nad_isAlreadyExists err then act_return ()
                      else act_fail (mk_error_cause (''Failed to create Multus NAD '' @ ns @ ''/'' @ nadName @
                             '' for ip pool \"'' @ pool_id pool @ ''\": '' @ format_error err) err)))))))"

definition ensureStaticMultusNads ::
  "'s pool_clients \<Rightarrow> ('s, nad_cr) clients \<Rightarrow> string \<Rightarrow> string \<Rightarrow> string list \<Rightarrow> ('s, unit) act" where
  "ensureStaticMultusNads cl nads cluster ns names =
     act_each (ensureStaticMultusNad cl nads cluster ns) (js_uniq (trim_list names))"

end
