(* ===== verification/Vm_Create.thy ===== *)
theory Vm_Create
  imports Vm_Summary Static_Nads Vpc_Views
begin

text \<open>
  \<open>vms/vms.server.ts\<close>: creating a machine, with its addresses, its disks and its networks, and what
  is taken back when a step fails; and claiming a machine for an owner. The key of the platform, the
  login of the request, the configured networks of a cluster and random bytes are parameters.
\<close>

section \<open>The environment\<close>

text \<open>\<open>string | string[]\<close>.\<close>

datatype cidr_config = OneCidr string | CidrList "string list"

record cluster_network =
  cnw_podCIDR :: cidr_config
  cnw_serviceCIDR :: cidr_config

fun cidr_items :: "cidr_config \<Rightarrow> string list" where
  "cidr_items (OneCidr c) = [c]"
| "cidr_items (CidrList cs) = cs"

definition clusterNetworkCidrList :: "cluster_network \<Rightarrow> string list \<times> string list" where
  "clusterNetworkCidrList n = (cidr_items (cnw_podCIDR n), cidr_items (cnw_serviceCIDR n))"

record 's create_env =
  cre_vm :: "'s vm_env"
  cre_pools :: "'s pool_clients"
  cre_nads :: "('s, nad_cr) clients"
  cre_vpcs :: "('s, vpc_cr) clients"
  cre_types :: "('s, kube_instance_type) clients"
  cre_consoleKey :: "('s, string option) act"
  cre_network :: "string \<Rightarrow> cluster_network option"
  cre_login :: "string option"
  cre_macs :: "nat \<Rightarrow> 8 word list"
  cre_podMac :: "8 word list"
  cre_fmt :: "rat \<Rightarrow> string"

section \<open>Checks\<close>

fun num_truthy :: "js_num option \<Rightarrow> bool" where
  "num_truthy None = False"
| "num_truthy (Some n) = (n \<noteq> Fin 0 \<and> n \<noteq> NaN)"

definition check_create :: "create_vm_request \<Rightarrow> unit result" where
  "check_create inp =
     (if js_trim (cmr_cluster inp) = [] then throw ''cluster is required''
      else if js_trim (cmr_namespace inp) = [] then throw ''namespace is required''
      else if js_trim (cmr_name inp) = [] then throw ''name is required''
      else if js_trim (cmr_sshPublicKey inp) = [] then throw ''sshPublicKey is required''
      else Inr ())"

text \<open>The size of the root disk that the machine is annotated with.\<close>

definition root_disk_size :: "'s create_env \<Rightarrow> create_vm_request \<Rightarrow> ('s, string option) act" where
  "root_disk_size env inp =
     (if createVmDiskSource inp = ImageSource then
        (if js_trim (opt_str (cmr_diskSize inp)) = [] then act_throw ''diskSize is required''
         else if js_trim (opt_str (map_option vmi_name (cmr_image inp))) = [] then act_throw ''image is required''
         else act_return (Some (js_trim (opt_str (cmr_diskSize inp)))))
      else
        let dvName = js_trim (opt_str (cmr_existingDataVolumeName inp)) in
        if dvName = [] then act_throw ''existingDataVolumeName is required''
        else if \<not> DNS1123_LABEL dvName then act_throw ''existingDataVolumeName must be a DNS-1123 label''
        else act_bind (assertDataVolumeReusable (cre_vm env) (cmr_cluster inp) (cmr_namespace inp) dvName) (\<lambda>reusable.
          act_return (trim_or_undef (rud_size reusable))))"

definition check_size_and_networks :: "create_vm_request \<Rightarrow> unit result" where
  "check_size_and_networks inp =
     (if \<not> truthy (cmr_instanceType inp) \<and> \<not> (num_truthy (cmr_cpuCores inp) \<and> truthy (cmr_memory inp))
      then throw ''Provide instanceType or both cpuCores and memory'' else Inr ())"

definition check_networks :: "string list \<Rightarrow> unit result" where
  "check_networks names =
     (if length (js_uniq names) \<noteq> length names then throw ''Duplicate Multus networks are not allowed''
      else if 8 < length names then throw ''At most 8 Multus network attachments are supported''
      else Inr ())"

section \<open>Addresses\<close>

definition readVpcRouterName :: "'s create_env \<Rightarrow> string \<Rightarrow> string \<Rightarrow> string \<Rightarrow> ('s, string option) act" where
  "readVpcRouterName env cluster ns vpcName =
     act_or
       (act_bind (getNamespacedCustomObject (cre_vpcs env) cluster ns PLURAL_VPCS vpcName) (\<lambda>vpc.
          act_return (trim_or_undef (map_option lr_name (fld (vcr_status vpc) vct_routerRef)))))
       None"

definition vm_alloc_opts :: "create_vm_request \<Rightarrow> string \<Rightarrow> string list \<Rightarrow> alloc_opts" where
  "vm_alloc_opts inp mac used =
     \<lparr>ao_extraUsed = Some used, ao_preferredAddress = None, ao_claimGateway = False, ao_gatewayOverride = None,
      ao_claim = Some \<lparr>cr_apiVersion = None, cr_kind = None, cr_name = Some (js_trim (cmr_name inp)),
        cr_namespace = Some (cmr_namespace inp)\<rparr>,
      ao_interface = Some \<lparr>nic_mac = Some mac, nic_hostname = Some (js_trim (cmr_name inp))\<rparr>\<rparr>"

text \<open>
  One attachment: behind a router the guest asks for its address itself, otherwise it is leased
  here. The result is the allocation, if any, and the address that was leased.
\<close>

definition allocate_network ::
  "'s create_env \<Rightarrow> create_vm_request \<Rightarrow> string list \<Rightarrow> nat \<Rightarrow> string \<Rightarrow>
   ('s, allocated_ip option \<times> string option) act" where
  "allocate_network env inp used index nm =
     (let mac = generateLocalMacAddress (cre_macs env index); ns = cmr_namespace inp in
      case parseMultusNetworkRef nm ns of (refNs, refName) \<Rightarrow>
        act_bind (if refNs = ns then readVpcRouterName env (cmr_cluster inp) refNs refName else act_return None)
          (\<lambda>router.
            if router \<noteq> None then act_return (Some (dhcpDeferredMultusAllocation mac), None)
            else act_bind (allocateIpv4ForMultus (cre_pools env) (cmr_cluster inp) nm (Some ns) (vm_alloc_opts inp mac used))
              (\<lambda>alloc. act_return
                 (case alloc of
                    None \<Rightarrow> (None, None)
                  | Some a \<Rightarrow> (Some (a\<lparr>ai_macAddress := Some mac\<rparr>), Some (ai_address a))))))"

definition release_claims :: "'s create_env \<Rightarrow> create_vm_request \<Rightarrow> string list \<Rightarrow> ('s, unit) act" where
  "release_claims env inp claimed =
     (if claimed = [] then act_return ()
      else releaseIpAddressClaims (pcl_claims (cre_pools env)) (cmr_cluster inp) (cmr_namespace inp) claimed)"

text \<open>\<open>try { m } catch (err) { await releaseClaims(); throw err }\<close>.\<close>

definition or_release :: "'s create_env \<Rightarrow> create_vm_request \<Rightarrow> string list \<Rightarrow> ('s, 'a) act \<Rightarrow> ('s, 'a) act" where
  "or_release env inp claimed m = act_catch m (\<lambda>err. act_seq (release_claims env inp claimed) (act_fail err))"

fun allocate_networks ::
  "'s create_env \<Rightarrow> create_vm_request \<Rightarrow> string list \<Rightarrow> allocated_ip option list \<Rightarrow> (nat \<times> string) list \<Rightarrow>
   ('s, allocated_ip option list \<times> string list) act" where
  "allocate_networks env inp claimed raw [] = act_return (raw, claimed)"
| "allocate_networks env inp claimed raw ((index, nm) # rest) =
     act_bind (or_release env inp claimed (allocate_network env inp claimed index nm)) (\<lambda>(alloc, leased).
       allocate_networks env inp (case leased of None \<Rightarrow> claimed | Some a \<Rightarrow> claimed @ [a]) (raw @ [alloc]) rest)"

section \<open>Disks\<close>

text \<open>The name of the root DataVolume, when it was created here.\<close>

definition create_root_disk :: "'s create_env \<Rightarrow> create_vm_request \<Rightarrow> ('s, string option) act" where
  "create_root_disk env inp =
     (if createVmDiskSource inp \<noteq> ImageSource then act_return None
      else act_catch
        (act_bind (ensureRootDataVolumeFromImage (cre_vm env)
           \<lparr>rdr_cluster = cmr_cluster inp, rdr_namespace = cmr_namespace inp, rdr_name = js_trim (cmr_name inp),
            rdr_diskSize = opt_str (cmr_diskSize inp), rdr_storageClass = cmr_storageClass inp,
            rdr_imageNamespace = map_option vmi_namespace (cmr_image inp),
            rdr_imageName = opt_str (map_option vmi_name (cmr_image inp)), rdr_labels = None, rdr_replace = False\<rparr>)
          (\<lambda>(nm, created). act_return (if created then Some nm else None)))
        (\<lambda>err. act_fail (mk_error_cause (''Failed to create root DataVolume: '' @ format_error err) err)))"

definition rollback_disks :: "'s create_env \<Rightarrow> create_vm_request \<Rightarrow> string option \<Rightarrow> string list \<Rightarrow> ('s, unit) act" where
  "rollback_disks env inp rootDv extra =
     act_seq (case rootDv of
         None \<Rightarrow> act_return ()
       | Some dv \<Rightarrow> delete_quietly (cre_vm env) (cmr_cluster inp) (cmr_namespace inp) dv)
       (act_each (delete_quietly (cre_vm env) (cmr_cluster inp) (cmr_namespace inp)) extra)"

section \<open>The machine\<close>

definition dual_home :: "create_vm_request \<Rightarrow> bool" where
  "dual_home inp \<longleftrightarrow> multusNetworksFromRequest inp \<noteq> [] \<and> cmr_includePodNetwork inp \<noteq> Some False"

definition cluster_cidrs :: "'s create_env \<Rightarrow> create_vm_request \<Rightarrow> string list option" where
  "cluster_cidrs env inp =
     (if dual_home inp
      then map_option (\<lambda>n. case clusterNetworkCidrList n of (pods, services) \<Rightarrow> trim_list (pods @ services))
        (cre_network env (cmr_cluster inp))
      else None)"

definition create_opts ::
  "'s create_env \<Rightarrow> create_vm_request \<Rightarrow> resolved_disk list \<Rightarrow> string option \<Rightarrow> manifest_opts" where
  "create_opts env inp disks platformPub =
     \<lparr>mfo_labels = cmr_labels inp,
      mfo_annotations = Some (obj_spread (obj_spread [] (ownerAnnotation (cre_login env))) (opt_obj (cmr_annotations inp))),
      mfo_userData = None, mfo_extraAuthorizedKeys = (case opt_or_undef platformPub of None \<Rightarrow> [] | Some k \<Rightarrow> [k]),
      mfo_userDataSecretName = cmr_userDataSecretName inp, mfo_includePodNetwork = dual_home inp,
      mfo_clusterCidrs = cluster_cidrs env inp, mfo_extraDisks = disks,
      mfo_routerAgentOwnsPrivateL3 = False, mfo_routerExternalAllocation = None\<rparr>"

definition with_size_annotation :: "string option \<Rightarrow> vm_object \<Rightarrow> vm_object" where
  "with_size_annotation sizeAnn body =
     (case opt_or_undef sizeAnn of
        None \<Rightarrow> body
      | Some s \<Rightarrow> body\<lparr>vmo_metadata := map_option (\<lambda>m. m\<lparr>om_annotations :=
          Some (obj_assign (obj_spread [] (opt_obj (om_annotations m))) KMC_ANN_DISK_SIZE s)\<rparr>) (vmo_metadata body)\<rparr>)"

text \<open>Creating the object; an error deletes the disks that were created for it.\<close>

definition post_machine ::
  "'s create_env \<Rightarrow> create_vm_request \<Rightarrow> string option \<Rightarrow> string option \<Rightarrow> string list \<Rightarrow> vm_object \<Rightarrow> ('s, vm_summary) act" where
  "post_machine env inp sizeAnn rootDv extra body =
     with_custom (vme_vms (cre_vm env)) (cmr_cluster inp) (\<lambda>api.
       act_catch
         (act_bind (api_create_ns api vm_gvp (cmr_namespace inp) body) (\<lambda>created.
          act_bind (if truthy (cmr_instanceType inp)
              then loadInstanceTypeSizes (cre_fmt env) (cre_types env) (cmr_cluster inp) else act_return Map.empty)
            (\<lambda>sizes. let summary = mapVm (cre_fmt env) (cmr_cluster inp) created sizes in
              act_return (if \<not> truthy (vsu_disk summary) \<and> truthy sizeAnn then summary\<lparr>vsu_disk := sizeAnn\<rparr> else summary))))
         (\<lambda>err. act_seq (rollback_disks env inp rootDv extra) (save_error err)))"

definition place_machine ::
  "'s create_env \<Rightarrow> create_vm_request \<Rightarrow> string option \<Rightarrow> allocated_ip list \<Rightarrow> ('s, vm_summary) act" where
  "place_machine env inp sizeAnn allocations =
     act_bind (create_root_disk env inp) (\<lambda>rootDv.
     act_bind (materializeExtraDisks (cre_vm env) (cmr_cluster inp) (cmr_namespace inp) (js_trim (cmr_name inp))
         (cmr_extraDisks inp) {''root'', ''cloudinit''}) (\<lambda>(disks, extra).
     act_bind (cre_consoleKey env) (\<lambda>platformPub.
     act_bind (act_lift (buildVirtualMachineManifest (cre_podMac env) inp allocations (create_opts env inp disks platformPub)))
       (\<lambda>body. post_machine env inp sizeAnn rootDv extra (with_size_annotation sizeAnn body)))))"

definition bound_allocations ::
  "'s create_env \<Rightarrow> create_vm_request \<Rightarrow> allocated_ip option list \<Rightarrow> allocated_ip list" where
  "bound_allocations env inp raw =
     bindAllocationsToNetworks (cre_macs env) (multusNetworksFromRequest inp) raw
       (dual_home inp \<or> list_ex (\<lambda>a. case a of None \<Rightarrow> False | Some x \<Rightarrow> ai_dhcp4 x) raw)"

definition createVm :: "'s create_env \<Rightarrow> create_vm_request \<Rightarrow> ('s, vm_summary) act" where
  "createVm env inp =
     act_bind (act_lift (check_create inp)) (\<lambda>_.
     act_bind (root_disk_size env inp) (\<lambda>sizeAnn.
     act_bind (act_lift (check_size_and_networks inp)) (\<lambda>_.
     act_seq (assertVmNamespaceAllowed (vme_ns (cre_vm env)) (cmr_cluster inp) (cmr_namespace inp))
       (let names = multusNetworksFromRequest inp in
        act_seq (act_lift (check_networks names))
          (act_seq (ensureStaticMultusNads (cre_pools env) (cre_nads env) (cmr_cluster inp) (cmr_namespace inp) names)
            (act_bind (allocate_networks env inp [] [] (List.enumerate 0 names)) (\<lambda>(raw, claimed).
              or_release env inp claimed (place_machine env inp sizeAnn (bound_allocations env inp raw)))))))))"

section \<open>Owners\<close>

definition claimVmOwner :: "('s, vm_object) clients \<Rightarrow> string \<Rightarrow> string \<Rightarrow> string \<Rightarrow> string \<Rightarrow> ('s, unit) act" where
  "claimVmOwner vms cluster ns nm ownerLogin =
     (let login = js_trim ownerLogin in
      if login = [] then act_throw ''owner is required''
      else with_custom vms cluster (\<lambda>api.
        act_bind
          (act_catch (api_get_ns api vm_gvp ns nm) (\<lambda>err.
             let message = message_or_text err in
             if js_includes message ''404'' \<or> js_includes (js_lower message) ''not found''
             then act_throw (''Virtual machine not found: '' @ ns @ ''/'' @ nm) else act_fail err))
          (\<lambda>existing.
            case trim_or_undef (vm_annotation existing KMC_ANN_OWNER) of
              Some current \<Rightarrow> act_throw (''VM already owned by '' @ current)
            | None \<Rightarrow>
                let meta = opt_default \<lparr>om_name = None, om_generateName = None, om_namespace = None, om_uid = None,
                      om_creationTimestamp = None, om_labels = None, om_annotations = None\<rparr> (vmo_metadata existing);
                    body = existing\<lparr>vmo_metadata := Some (meta\<lparr>om_annotations :=
                      Some (obj_spread (obj_spread [] (opt_obj (om_annotations meta))) (ownerAnnotation (Some login)))\<rparr>)\<rparr> in
                act_catch (act_bind (api_replace_ns api vm_gvp ns nm body) (\<lambda>_. act_return ())) save_error)))"

section \<open>The disks of a new machine\<close>

definition good_disk :: "string set \<Rightarrow> resolved_disk \<Rightarrow> bool" where
  "good_disk used r \<longleftrightarrow>
     rxd_volumeName r \<notin> used \<and> js_trim (rxd_volumeName r) = rxd_volumeName r \<and> rxd_volumeName r \<noteq> [] \<and>
     js_trim (rxd_dataVolumeName r) \<noteq> []"

lemma free_volume_name_props:
  assumes "free_volume_name used = Inr v"
  shows "v \<notin> used \<and> js_trim v = v \<and> v \<noteq> []"
proof -
  obtain i where i: "v = ''disk-'' @ nat_str i" and u: "v \<notin> used"
    using assms by (auto simp: free_volume_name_def find_Some_iff split: option.splits)
  have "is_digit (last (nat_str i))" using nat_str_digit [of "last (nat_str i)" i] by simp
  then have "\<not> js_space (last v)" by (simp add: i digit_label_char label_char_not_space)
  moreover have "\<not> js_space (hd v)" by (simp add: i js_space_def char_code_def)
  ultimately show ?thesis using u i by (simp add: js_trim_id)
qed

lemma choose_volume_props:
  assumes "choose_volume used disk = Inr v"
  shows "v \<notin> used \<and> js_trim v = v \<and> v \<noteq> []"
proof (cases "trim_or_undef (xd_name disk)")
  case None
  then show ?thesis using assms free_volume_name_props by (simp add: choose_volume_def)
next
  case (Some nm)
  then have "nm = v" "v \<notin> used"
    using assms by (auto simp: choose_volume_def res_bind_Inr split: if_splits)
  then show ?thesis using Some by (auto simp: trim_or_undef_Some)
qed

lemma js_trim_not_Nil:
  assumes "c \<in> set s" "\<not> js_space c"
  shows "js_trim s \<noteq> []"
proof
  assume n: "js_trim s = []"
  obtain w where w: "js_trim_start s = js_trim s @ w" "\<forall>c \<in> set w. js_space c"
    using js_trim_end_prefix [of "js_trim_start s"] by (auto simp: js_trim_def)
  then have "\<forall>c \<in> set (js_trim_start s). js_space c" using n by simp
  moreover have "c \<in> set (js_trim_start s)"
    using assms unfolding js_trim_start_def
    by (metis UnE set_append set_takeWhileD takeWhile_dropWhile_id)
  ultimately show False using assms(2) by blast
qed

lemma secondary_name_trim:
  assumes "secondaryDataVolumeName vmName v = Inr dv"
  shows "js_trim dv \<noteq> []"
proof (rule js_trim_not_Nil)
  show "CHR ''-'' \<in> set dv" using assms by (auto simp: secondaryDataVolumeName_def Let_def split: if_splits)
  show "\<not> js_space (CHR ''-'')" by (simp add: js_space_def char_code_def)
qed

lemma materialize_disk_good:
  assumes "materialize_disk env cluster ns vmName used usedDvs i disk s = (Inr (r, made), t)"
  shows "good_disk used r"
proof -
  obtain v u where v: "choose_volume used disk = Inr v" and r: "rxd_volumeName r = v"
    and dv: "js_trim (rxd_dataVolumeName r) \<noteq> []"
  proof (cases "xd_source disk = ExistingDataVolume")
    case True
    then show thesis
      using assms that
      by (auto simp: materialize_disk_def act_lift_apply act_throw_apply act_return_apply Let_def
          split: if_splits elim!: act_bind_InrE act_seq_InrE)
  next
    case False
    then show thesis
      using assms that secondary_name_trim
      by (auto simp: materialize_disk_def act_lift_apply act_throw_apply act_return_apply Let_def
          split: if_splits elim!: act_bind_InrE)
  qed
  then show ?thesis using choose_volume_props [OF v] by (simp add: good_disk_def)
qed

lemma materialize_loop_good:
  assumes "materialize_loop env cluster ns vmName used usedDvs resolved created disks s = (Inr (out, made), t)"
    and "distinct (map rxd_volumeName resolved)" "set (map rxd_volumeName resolved) \<subseteq> used"
    and "list_all (good_disk base) resolved" "base \<subseteq> used"
  shows "distinct (map rxd_volumeName out) \<and> list_all (good_disk base) out \<and>
    length out = length resolved + length disks"
  using assms
proof (induction env cluster ns vmName used usedDvs resolved created disks arbitrary: s rule: materialize_loop.induct)
  case (1 env cluster ns vmName used usedDvs resolved created)
  then show ?case by (simp add: act_return_apply)
next
  case (2 env cluster ns vmName used usedDvs resolved created i disk disks)
  obtain r made' u where r: "materialize_disk env cluster ns vmName used usedDvs i disk s = (Inr (r, made'), u)"
    and rest: "materialize_loop env cluster ns vmName (insert (rxd_volumeName r) used) (insert (rxd_dataVolumeName r) usedDvs)
        (resolved @ [r]) (case made' of None \<Rightarrow> created | Some nm \<Rightarrow> created @ [nm]) disks u = (Inr (out, made), t)"
    using "2.prems"(1)
    by (auto simp: act_bind_def act_catch_def act_seq_apply act_fail_apply split: prod.splits sum.splits)
  have g: "good_disk used r" by (rule materialize_disk_good [OF r])
  have new: "distinct (map rxd_volumeName (resolved @ [r]))" "list_all (good_disk base) (resolved @ [r])"
    "set (map rxd_volumeName (resolved @ [r])) \<subseteq> insert (rxd_volumeName r) used" "base \<subseteq> insert (rxd_volumeName r) used"
  proof -
    have "good_disk base r" using g "2.prems"(5) by (auto simp: good_disk_def)
    then show "list_all (good_disk base) (resolved @ [r])" using "2.prems"(4) by simp
  qed (use g "2.prems"(2,3,5) in \<open>auto simp: good_disk_def\<close>)
  have "distinct (map rxd_volumeName out) \<and> list_all (good_disk base) out \<and>
      length out = length (resolved @ [r]) + length disks"
    by (rule "2.IH" [OF rest new(1,3,2,4)])
  then show ?case by simp
qed

lemma materializeExtraDisks_good:
  assumes "materializeExtraDisks env cluster ns vmName disks {''root'', ''cloudinit''} s = (Inr (out, made), t)"
  shows "distinct (map rxd_volumeName out)" "list_all (good_disk {''root'', ''cloudinit''}) out" "length out = length disks"
proof -
  have "distinct (map rxd_volumeName out) \<and> list_all (good_disk {''root'', ''cloudinit''}) out \<and> length out = length disks"
  proof (cases "disks = []")
    case True
    then show ?thesis using assms by (simp add: materializeExtraDisks_def act_return_apply)
  next
    case False
    then have l: "materialize_loop env cluster ns vmName ({''root'', ''cloudinit''} \<union> {''root'', ''cloudinit''}) {} [] []
        (List.enumerate 0 disks) s = (Inr (out, made), t)"
      using assms by (auto simp: materializeExtraDisks_def act_throw_apply split: if_splits)
    show ?thesis using materialize_loop_good [OF l, of "{''root'', ''cloudinit''}"] by simp
  qed
  then show "distinct (map rxd_volumeName out)" "list_all (good_disk {''root'', ''cloudinit''}) out" "length out = length disks"
    by blast+
qed

lemma usable_good:
  assumes "list_all (good_disk base) ds"
  shows "map fst (usable_disks ds) = map rxd_volumeName ds"
  using assms by (induction ds) (simp_all add: usable_disks_def good_disk_def)

section \<open>The networks of a new machine\<close>

lemma network_spec_multus:
  "List.map_filter vnt_multus (snd (buildNetworkSpec ms allocations pod mac)) = ms"
proof -
  have m: "List.map_filter vnt_multus (map (\<lambda>(index, m). \<lparr>vnt_name = Some (interfaceNameForAttachment index n),
      vnt_pod = False, vnt_multus = Some m\<rparr>) (List.enumerate k xs)) = xs" for n k and xs :: "string list"
    by (induction xs arbitrary: k) (simp_all add: List.map_filter_simps)
  show ?thesis
    using m [of "length ms" 0 ms]
    by (auto simp: buildNetworkSpec_def Let_def pod_network_def List.map_filter_simps)
qed

lemma network_spec_pod:
  "list_ex vnt_pod (snd (buildNetworkSpec ms allocations pod mac)) \<longleftrightarrow> ms = [] \<or> pod"
  by (auto simp: buildNetworkSpec_def Let_def pod_network_def list_ex_iff enumerate_upt)

text \<open>What the console asks for when it creates a machine.\<close>

definition machine_of_request :: "create_vm_request \<Rightarrow> vm_object \<Rightarrow> bool" where
  "machine_of_request inp body \<longleftrightarrow>
     vm_wf body \<and> fld (vmo_metadata body) om_name = Some (cmr_name inp) \<and>
     List.map_filter vnt_multus (vm_networks body) = multusNetworksFromRequest inp \<and>
     (list_ex vnt_pod (vm_networks body) \<longleftrightarrow> multusNetworksFromRequest inp = [] \<or> cmr_includePodNetwork inp \<noteq> Some False) \<and>
     length (vm_volumes body) = 2 + length (cmr_extraDisks inp)"

lemma with_size_parts [simp]:
  "vm_disks (with_size_annotation a vm) = vm_disks vm" "vm_volumes (with_size_annotation a vm) = vm_volumes vm"
  "vm_interfaces (with_size_annotation a vm) = vm_interfaces vm" "vm_networks (with_size_annotation a vm) = vm_networks vm"
  "fld (vmo_metadata (with_size_annotation a vm)) om_name = fld (vmo_metadata vm) om_name"
  by (cases "vmo_metadata vm"; auto simp: with_size_annotation_def vm_disks_def vm_volumes_def vm_interfaces_def
      vm_networks_def template_spec_def split: option.splits)+

lemma placed_machine:
  assumes "place_machine env inp sizeAnn allocations s = (Inr summary, t)"
  obtains api body created u v where "vme_vms (cre_vm env) (cmr_cluster inp) = Inr api"
    "api_create_ns api vm_gvp (cmr_namespace inp) body u = (Inr created, v)" "machine_of_request inp body"
proof -
  from assms obtain disks extra rootDv pub m w w' u
    where disks: "materializeExtraDisks (cre_vm env) (cmr_cluster inp) (cmr_namespace inp) (js_trim (cmr_name inp))
         (cmr_extraDisks inp) {''root'', ''cloudinit''} w = (Inr (disks, extra), w')"
      and m: "buildVirtualMachineManifest (cre_podMac env) inp allocations (create_opts env inp disks pub) = Inr m"
      and post: "post_machine env inp sizeAnn rootDv extra (with_size_annotation sizeAnn m) u = (Inr summary, t)"
    unfolding place_machine_def by (auto simp: act_lift_apply elim!: act_bind_InrE)
  let ?body = "with_size_annotation sizeAnn m"
  obtain podMac rootDisk cloudInit where vm: "m = assemble_vm inp allocations (create_opts env inp disks pub) podMac rootDisk cloudInit"
    by (rule buildVirtualMachineManifest_Inr [OF m])
  have x: "mfo_extraDisks (create_opts env inp disks pub) = disks" "mfo_includePodNetwork (create_opts env inp disks pub) = dual_home inp"
    by (simp_all add: create_opts_def)
  note good = materializeExtraDisks_good [OF disks]
  have names: "map fst (usable_disks disks) = map rxd_volumeName disks" by (rule usable_good [OF good(2)])
  have "vm_wf m"
  proof (rule assembled_wf [OF _ _ vm], unfold x names)
    show "distinct (map rxd_volumeName disks)" by (rule good(1))
    show "{''root'', ''cloudinit''} \<inter> set (map rxd_volumeName disks) = {}"
      using good(2) by (auto simp: list_all_iff good_disk_def)
  qed
  then have "vm_wf ?body" by (simp add: vm_wf_def disks_wf_def networks_wf_def)
  moreover have "length (usable_disks disks) = length (cmr_extraDisks inp)"
    using names good(3) by (metis length_map)
  then have "length (vm_volumes ?body) = 2 + length (cmr_extraDisks inp)"
    by (simp add: assembled_parts [OF vm] manifest_volumes_def x)
  moreover have "fld (vmo_metadata ?body) om_name = Some (cmr_name inp)"
    by (simp add: vm assemble_vm_def Let_def split: prod.splits)
  moreover have "List.map_filter vnt_multus (vm_networks ?body) = multusNetworksFromRequest inp"
    by (simp add: assembled_parts [OF vm] network_spec_multus)
  moreover have "list_ex vnt_pod (vm_networks ?body) \<longleftrightarrow> multusNetworksFromRequest inp = [] \<or> cmr_includePodNetwork inp \<noteq> Some False"
    by (auto simp: assembled_parts [OF vm] network_spec_pod x dual_home_def)
  ultimately have "machine_of_request inp ?body" by (simp add: machine_of_request_def)
  moreover obtain api created v where "vme_vms (cre_vm env) (cmr_cluster inp) = Inr api"
    "api_create_ns api vm_gvp (cmr_namespace inp) ?body u = (Inr created, v)"
    using post
    by (auto simp: post_machine_def with_custom_apply act_catch_def act_seq_apply save_error_def act_fail_apply
        act_bind_def split: sum.splits prod.splits)
  ultimately show thesis using that by blast
qed

lemma createVm_places:
  assumes "createVm env inp s = (Inr summary, t)"
  obtains sizeAnn allocations u v where "place_machine env inp sizeAnn allocations u = (Inr summary, v)"
  using assms unfolding createVm_def Let_def
  by (elim act_bind_InrE act_seq_InrE)
    (auto simp: or_release_def act_catch_def act_seq_apply act_fail_apply split: prod.splits sum.splits)

section \<open>A laboratory\<close>

definition lab_create_api :: "(disk_lab, vm_object) custom_api" where
  "lab_create_api = lab_machine_api\<lparr>api_create_ns := (\<lambda>g ns b s. (Inr b, (fst s @ [b], snd s)))\<rparr>"

definition lab_create_env :: "disk_lab create_env" where
  "lab_create_env =
     \<lparr>cre_vm = disk_lab_env\<lparr>vme_vms := (\<lambda>c. Inr lab_create_api),
        vme_ns := \<lparr>ne_core = (\<lambda>c. Inr (open_ns_api\<lparr>nsa_read := (\<lambda>nm. act_return
          ((new_namespace nm)\<lparr>kn_labels := Some [(VM_ALLOWED_LABEL, ''true'')]\<rparr>))\<rparr>)), ne_vms = (\<lambda>c. Inr idle_api)\<rparr>\<rparr>,
      cre_pools = \<lparr>pcl_pools = (\<lambda>c. Inr idle_api), pcl_nads = (\<lambda>c. Inr idle_api), pcl_claims = (\<lambda>c. Inr idle_api)\<rparr>,
      cre_nads = (\<lambda>c. Inr idle_api), cre_vpcs = (\<lambda>c. Inr idle_api), cre_types = (\<lambda>c. Inr idle_api),
      cre_consoleKey = act_return None, cre_network = (\<lambda>c. None), cre_login = Some ''ann'',
      cre_macs = (\<lambda>i. [1, 2, 3, 4, 5]), cre_podMac = [1, 2, 3, 4, 5], cre_fmt = (\<lambda>q. [])\<rparr>"

definition lab_create :: create_vm_request where
  "lab_create =
     \<lparr>cmr_cluster = ''c'', cmr_namespace = ''lab'', cmr_name = ''web'', cmr_instanceType = Some ''small'', cmr_cpuCores = None,
      cmr_memory = None, cmr_preference = None, cmr_diskSize = Some ''10Gi'', cmr_storageClass = None,
      cmr_image = Some \<lparr>vmi_namespace = ''images'', vmi_name = ''noble''\<rparr>, cmr_diskSource = None,
      cmr_existingDataVolumeName = None, cmr_networks = [], cmr_includePodNetwork = None, cmr_sshPublicKey = ''key'',
      cmr_start = None, cmr_installGuestAgent = True,
      cmr_extraDisks = [\<lparr>xd_name = Some ''data'', xd_source = BlankSource, xd_size = Some ''1Gi'', xd_storageClass = None,
        xd_existingDataVolumeName = None\<rparr>],
      cmr_labels = None, cmr_annotations = None, cmr_userDataSecretName = None\<rparr>"

lemma lab_create_runs: "res_ok (fst (createVm lab_create_env lab_create ([], [])))"
  by code_simp

section \<open>Properties\<close>

text \<open>
  C39. A machine that the console has created was posted as an object of the right shape: every disk
  has the volume of its name and every volume a disk, every interface the network of its name in
  the kind of binding that network needs, no name is used twice; it has the name and exactly the
  Multus networks of the request in their order, a pod network when there is no other or it is
  not declined, and one volume for each extra disk beside the two of its own.
\<close>

theorem created_machine_is_well_formed:
  assumes "createVm env inp s = (Inr summary, t)"
  shows "\<exists>api body created u v. vme_vms (cre_vm env) (cmr_cluster inp) = Inr api \<and>
    api_create_ns api vm_gvp (cmr_namespace inp) body u = (Inr created, v) \<and> machine_of_request inp body"
proof -
  obtain sizeAnn allocations u v where "place_machine env inp sizeAnn allocations u = (Inr summary, v)"
    by (rule createVm_places [OF assms])
  then show ?thesis by (rule placed_machine) blast
qed

lemma created_machine_is_well_formed_witness:
  "\<exists>api body created u v. vme_vms (cre_vm lab_create_env) (cmr_cluster lab_create) = Inr api \<and>
    api_create_ns api vm_gvp (cmr_namespace lab_create) body u = (Inr created, v) \<and> machine_of_request lab_create body"
proof -
  obtain x t where "createVm lab_create_env lab_create ([], []) = (Inr x, t)"
    using lab_create_runs unfolding res_ok_iff by (metis prod.collapse)
  then show ?thesis by (rule created_machine_is_well_formed)
qed

end
