(* ===== verification/Http_Routes.thy ===== *)
theory Http_Routes
  imports Backends "HOL-Library.AList"
begin

text \<open>
  \<open>httproutes/httproutes.server.ts\<close> and \<open>httproutes/template.server.ts\<close>: routes of the Gateway API,
  each with the Service it sends to, which the console creates, updates and deletes with it. Reads
  that the program starts together are made one after the other; the order of \<open>localeCompare\<close> is
  a parameter.
\<close>

section \<open>Objects\<close>

definition KMC_LABEL_HTTP_ROUTE :: string where "KMC_LABEL_HTTP_ROUTE = KMC_LABEL_NAMESPACE @ ''/httproute''"
definition KMC_RESOURCE_HTTP_ROUTE :: string where "KMC_RESOURCE_HTTP_ROUTE = ''httproute''"

definition KMC_HTTP_ROUTE_LABEL_SELECTOR :: string where
  "KMC_HTTP_ROUTE_LABEL_SELECTOR =
     MANAGED_BY_LABEL @ ''='' @ KMC_MANAGED_BY @ '','' @ KMC_LABEL_RESOURCE @ ''='' @ KMC_RESOURCE_HTTP_ROUTE"

definition GATEWAY_API_GROUP :: string where "GATEWAY_API_GROUP = ''gateway.networking.k8s.io''"

definition route_gvp :: gvp where
  "route_gvp = \<lparr>gvp_group = GATEWAY_API_GROUP, gvp_version = ''v1'', gvp_plural = ''httproutes''\<rparr>"

definition gateway_gvp :: gvp where
  "gateway_gvp = \<lparr>gvp_group = GATEWAY_API_GROUP, gvp_version = ''v1'', gvp_plural = ''gateways''\<rparr>"

record kube_parent_ref =
  kpr_group :: "string option"
  kpr_kind :: "string option"
  kpr_name :: "string option"
  kpr_namespace :: "string option"
  kpr_sectionName :: "string option"

record path_match =
  pma_type :: "string option"
  pma_value :: "string option"

record backend_ref =
  bre_name :: "string option"
  bre_namespace :: "string option"
  bre_port :: "js_num option"

text \<open>A match is its \<open>path\<close>.\<close>

record route_rule =
  rru_matches :: "path_match option list option"
  rru_backendRefs :: "backend_ref list option"

record http_route_spec =
  hrs_parentRefs :: "kube_parent_ref list option"
  hrs_hostnames :: "string list option"
  hrs_rules :: "route_rule list option"

text \<open>The status is the conditions of each parent.\<close>

record http_route =
  hro_apiVersion :: "string option"
  hro_kind :: "string option"
  hro_metadata :: "object_meta option"
  hro_spec :: "http_route_spec option"
  hro_parents :: "cr_condition list option list option"

record gateway_listener =
  gwl_name :: "string option"
  gwl_protocol :: "string option"
  gwl_port :: "js_num option"
  gwl_hostname :: "string option"

record kube_gateway =
  kgw_name :: "string option"
  kgw_namespace :: "string option"
  kgw_className :: "string option"
  kgw_listeners :: "gateway_listener list option"
  kgw_addresses :: "string option list option"

record 's route_env =
  rte_routes :: "('s, http_route) clients"
  rte_gateways :: "('s, kube_gateway) clients"
  rte_be :: "'s backend_env"
  rte_le :: "string \<Rightarrow> string \<Rightarrow> bool"
  rte_fmt :: "rat \<Rightarrow> string"

section \<open>Views\<close>

record http_parent_ref =
  hpr_name :: string
  hpr_namespace :: "string option"
  hpr_sectionName :: "string option"
  hpr_kind :: "string option"

text \<open>A missing port is the empty text.\<close>

record route_match =
  rma_path :: string
  rma_pathType :: string
  rma_serviceName :: string
  rma_servicePort :: "js_num option"

record http_route_summary =
  hsu_cluster :: string
  hsu_namespace :: string
  hsu_name :: string
  hsu_hosts :: "string list"
  hsu_httpsHosts :: "string list"
  hsu_parentRefs :: "http_parent_ref list"
  hsu_accepted :: "bool option"
  hsu_membershipMode :: string
  hsu_vmName :: "string option"
  hsu_serviceName :: "string option"
  hsu_age :: string
  hsu_address :: "string option"
  hsu_endpoints :: "(nat \<times> nat) option"

definition mapParentRefs :: "http_route \<Rightarrow> http_parent_ref list" where
  "mapParentRefs route =
     map (\<lambda>p. \<lparr>hpr_name = opt_str (kpr_name p), hpr_namespace = kpr_namespace p,
               hpr_sectionName = kpr_sectionName p, hpr_kind = kpr_kind p\<rparr>)
       (filter (\<lambda>p. truthy (kpr_name p)) (opt_default [] (fld (hro_spec route) hrs_parentRefs)))"

definition mapHosts :: "http_route \<Rightarrow> string list" where
  "mapHosts route = filter (\<lambda>h. h \<noteq> []) (opt_default [] (fld (hro_spec route) hrs_hostnames))"

definition parentAccepted :: "http_route \<Rightarrow> bool option" where
  "parentAccepted route =
     (let parents = opt_default [] (hro_parents route) in
      if parents = [] then None
      else Some (list_ex (\<lambda>p. list_ex (\<lambda>c. cond_type c = Some ''Accepted'' \<and> cond_status c = Some ''True'')
        (opt_default [] p)) parents))"

definition route_rules :: "http_route \<Rightarrow> route_rule list" where
  "route_rules route = opt_default [] (fld (hro_spec route) hrs_rules)"

definition first_backend :: "route_rule \<Rightarrow> backend_ref option" where
  "first_backend rule = (case opt_default [] (rru_backendRefs rule) of [] \<Rightarrow> None | b # bs \<Rightarrow> Some b)"

definition map_rule :: "route_rule \<Rightarrow> route_match list" where
  "map_rule rule =
     (let backend = first_backend rule; matches = opt_default [] (rru_matches rule);
          rows = (if matches \<noteq> [] then matches else [Some \<lparr>pma_type = Some ''PathPrefix'', pma_value = Some ''/''\<rparr>]) in
      map (\<lambda>m. \<lparr>rma_path = opt_default ''/'' (fld m pma_value), rma_pathType = opt_default ''PathPrefix'' (fld m pma_type),
                rma_serviceName = opt_str (fld backend bre_name), rma_servicePort = fld backend bre_port\<rparr>) rows)"

definition route_mapRules :: "http_route \<Rightarrow> route_match list list" where
  "route_mapRules route = map map_rule (route_rules route)"

definition primaryServiceName :: "http_route \<Rightarrow> string option" where
  "primaryServiceName route =
     (case find (\<lambda>m. rma_serviceName m \<noteq> []) (concat (route_mapRules route)) of
        Some m \<Rightarrow> Some (rma_serviceName m)
      | None \<Rightarrow> fld (hro_metadata route) om_name)"

definition membershipModeFromKind :: "string option \<Rightarrow> string" where
  "membershipModeFromKind kind =
     (if kind = Some KMC_TARGET_KIND_VM then ''single-vm''
      else if kind = Some KMC_TARGET_KIND_LABELS then ''labels''
      else if kind = Some KMC_TARGET_KIND_GROUP then ''group''
      else if \<not> truthy kind then ''single-vm''
      else ''unknown'')"

definition gatewayKey :: "string \<Rightarrow> string \<Rightarrow> string" where
  "gatewayKey ns nm = ns @ ''/'' @ nm"

definition parentGatewayKey :: "string \<Rightarrow> http_parent_ref \<Rightarrow> string" where
  "parentGatewayKey routeNs parent =
     gatewayKey (opt_default routeNs (opt_or_undef (hpr_namespace parent))) (hpr_name parent)"

definition listenerIsHttps :: "string option \<Rightarrow> bool" where
  "listenerIsHttps protocol \<longleftrightarrow> (let p = js_upper (opt_str protocol) in p = ''HTTPS'' \<or> p = ''TLS'')"

definition gatewayMap :: "kube_gateway list \<Rightarrow> string \<Rightarrow> kube_gateway option" where
  "gatewayMap gateways =
     foldl (\<lambda>m gw. if truthy (kgw_name gw) \<and> truthy (kgw_namespace gw)
       then m(gatewayKey (opt_str (kgw_namespace gw)) (opt_str (kgw_name gw)) \<mapsto> gw) else m) Map.empty gateways"

definition parent_is_https :: "(string \<Rightarrow> kube_gateway option) \<Rightarrow> string \<Rightarrow> http_parent_ref \<Rightarrow> bool" where
  "parent_is_https gateways routeNs parent \<longleftrightarrow>
     (let listeners = opt_default [] (fld (gateways (parentGatewayKey routeNs parent)) kgw_listeners);
          relevant = (if truthy (hpr_sectionName parent)
            then filter (\<lambda>l. gwl_name l = hpr_sectionName parent) listeners else listeners) in
      list_ex (\<lambda>l. listenerIsHttps (gwl_protocol l)) relevant)"

definition httpsHostsForRoute :: "http_route \<Rightarrow> (string \<Rightarrow> kube_gateway option) \<Rightarrow> string list" where
  "httpsHostsForRoute route gateways =
     (let hosts = mapHosts route; routeNs = opt_str (fld (hro_metadata route) om_namespace) in
      if hosts = [] then []
      else js_uniq (concat (map (\<lambda>parent. if parent_is_https gateways routeNs parent then hosts else [])
             (mapParentRefs route))))"

definition gateway_address :: "kube_gateway \<Rightarrow> string option" where
  "gateway_address gw = (case opt_default [] (kgw_addresses gw) of [] \<Rightarrow> None | a # as \<Rightarrow> opt_or_undef a)"

definition addressForRoute :: "http_route \<Rightarrow> (string \<Rightarrow> kube_gateway option) \<Rightarrow> string option" where
  "addressForRoute route gateways =
     (let routeNs = opt_str (fld (hro_metadata route) om_namespace) in
      case List.map_filter (\<lambda>parent. fld (gateways (parentGatewayKey routeNs parent)) gateway_address)
             (mapParentRefs route) of
        [] \<Rightarrow> None
      | a # as \<Rightarrow> Some a)"

definition vmNameFromHttpRouteLabels :: "string jsobj option \<Rightarrow> string option" where
  "vmNameFromHttpRouteLabels labels = fld labels (\<lambda>ls. obj_get ls KMC_LABEL_VM)"

definition route_mapSummary :: "string \<Rightarrow> http_route \<Rightarrow> (string \<Rightarrow> kube_gateway option) \<Rightarrow> http_route_summary" where
  "route_mapSummary cluster route gateways =
     (let labels = fld (hro_metadata route) om_labels;
          mode = membershipModeFromKind (opt_get labels KMC_LABEL_TARGET_KIND) in
      \<lparr>hsu_cluster = cluster, hsu_namespace = opt_default ''default'' (fld (hro_metadata route) om_namespace),
       hsu_name = opt_default ''unknown'' (fld (hro_metadata route) om_name), hsu_hosts = mapHosts route,
       hsu_httpsHosts = httpsHostsForRoute route gateways, hsu_parentRefs = mapParentRefs route,
       hsu_accepted = parentAccepted route, hsu_membershipMode = mode,
       hsu_vmName = (if mode = ''single-vm'' then vmNameFromHttpRouteLabels labels else None),
       hsu_serviceName = primaryServiceName route,
       hsu_age = opt_str (fld (hro_metadata route) om_creationTimestamp),
       hsu_address = addressForRoute route gateways, hsu_endpoints = None\<rparr>)"

record gateway_option =
  gop_cluster :: string
  gop_namespace :: string
  gop_name :: string
  gop_className :: "string option"
  gop_listeners :: "(string \<times> string \<times> js_num \<times> string option) list"
  gop_addresses :: "string list"

definition mapGatewayOption :: "string \<Rightarrow> kube_gateway \<Rightarrow> gateway_option option" where
  "mapGatewayOption cluster gw =
     (if \<not> truthy (kgw_name gw) \<or> \<not> truthy (kgw_namespace gw) then None
      else Some \<lparr>gop_cluster = cluster, gop_namespace = opt_str (kgw_namespace gw), gop_name = opt_str (kgw_name gw),
        gop_className = kgw_className gw,
        gop_listeners = List.map_filter (\<lambda>l. case gwl_port l of
             Some p \<Rightarrow> if truthy (gwl_name l) \<and> truthy (gwl_protocol l)
               then Some (opt_str (gwl_name l), opt_str (gwl_protocol l), p, gwl_hostname l) else None
           | None \<Rightarrow> None) (opt_default [] (kgw_listeners gw)),
        gop_addresses = List.map_filter opt_or_undef (opt_default [] (kgw_addresses gw))\<rparr>)"

section \<open>Reading\<close>

definition listNamespacedHttpRoutes ::
  "'s route_env \<Rightarrow> string \<Rightarrow> string \<Rightarrow> string option \<Rightarrow> ('s, http_route list) act" where
  "listNamespacedHttpRoutes env cluster ns labelSelector =
     with_custom (rte_routes env) cluster (\<lambda>api.
       act_bind (api_list_ns api route_gvp ns (opt_or_undef labelSelector)) (\<lambda>items. act_return (opt_default [] items)))"

definition readHttpRoute :: "'s route_env \<Rightarrow> string \<Rightarrow> string \<Rightarrow> string \<Rightarrow> ('s, http_route) act" where
  "readHttpRoute env cluster ns nm = with_custom (rte_routes env) cluster (\<lambda>api. api_get_ns api route_gvp ns nm)"

definition listClusterGateways :: "'s route_env \<Rightarrow> string \<Rightarrow> ('s, kube_gateway list) act" where
  "listClusterGateways env cluster =
     with_custom (rte_gateways env) cluster (\<lambda>api.
       act_bind (api_list_cluster api gateway_gvp None) (\<lambda>items. act_return (opt_default [] items)))"

definition gateway_before :: "(string \<Rightarrow> string \<Rightarrow> bool) \<Rightarrow> gateway_option \<Rightarrow> gateway_option \<Rightarrow> bool" where
  "gateway_before le a b = before_by le [(gop_namespace a, gop_namespace b), (gop_name a, gop_name b)]"

definition listGateways :: "'s route_env \<Rightarrow> string \<Rightarrow> ('s, gateway_option list) act" where
  "listGateways env cluster =
     act_catch
       (act_bind (listClusterGateways env cluster) (\<lambda>items.
          act_return (sort_by (gateway_before (rte_le env)) (List.map_filter (mapGatewayOption cluster) items))))
       (\<lambda>err. if backend_isNotFound err then act_return [] else act_fail err)"

record vm_binding =
  vbi_name :: string
  vbi_exists :: bool
  vbi_podNetwork :: bool

definition has_pod_network :: "kube_vm \<Rightarrow> bool" where
  "has_pod_network vm =
     (let networks = opt_default [] (kv_networks vm) in
      networks = [] \<or> list_ex (\<lambda>(pod, multus). pod \<and> \<not> multus) networks)"

definition vmBindingInfo :: "'s route_env \<Rightarrow> string \<Rightarrow> string \<Rightarrow> string \<Rightarrow> ('s, vm_binding) act" where
  "vmBindingInfo env cluster ns vmName =
     act_catch
       (with_custom (be_vms (rte_be env)) cluster (\<lambda>api.
          act_bind (api_get_ns api vm_gvp ns vmName) (\<lambda>vm.
            act_return \<lparr>vbi_name = vmName, vbi_exists = True, vbi_podNetwork = has_pod_network vm\<rparr>)))
       (\<lambda>err. act_return
          (if backend_isNotFound err then \<lparr>vbi_name = vmName, vbi_exists = False, vbi_podNetwork = False\<rparr>
           else \<lparr>vbi_name = vmName, vbi_exists = True, vbi_podNetwork = True\<rparr>))"

definition known_gateways :: "'s route_env \<Rightarrow> string \<Rightarrow> ('s, string \<Rightarrow> kube_gateway option) act" where
  "known_gateways env cluster =
     act_bind (act_or (listClusterGateways env cluster) []) (\<lambda>gws. act_return (gatewayMap gws))"

text \<open>The name of the Service of a summary.\<close>

definition service_of :: "http_route_summary \<Rightarrow> string" where
  "service_of s = opt_default (hsu_name s) (hsu_serviceName s)"

definition with_endpoints :: "'s route_env \<Rightarrow> string \<Rightarrow> string \<Rightarrow> http_route_summary \<Rightarrow> ('s, http_route_summary) act" where
  "with_endpoints env cluster ns s =
     act_bind (readEndpointsCounts (rte_be env) cluster ns (service_of s)) (\<lambda>endpoints.
       act_return (s\<lparr>hsu_endpoints := endpoints\<rparr>))"

text \<open>\<open>byName.set(s.name, s)\<close> for each: a name that is there keeps its place.\<close>

definition set_names ::
  "(string \<times> http_route_summary) list \<Rightarrow> http_route_summary list \<Rightarrow> (string \<times> http_route_summary) list" where
  "set_names byName ss = foldl (\<lambda>m s. AList.update (hsu_name s) s m) byName ss"

definition routes_by_label ::
  "'s route_env \<Rightarrow> string \<Rightarrow> string \<Rightarrow> string \<Rightarrow> (string \<Rightarrow> kube_gateway option) \<Rightarrow> ('s, http_route_summary list) act" where
  "routes_by_label env cluster ns vmName gws =
     act_or
       (act_bind (listNamespacedHttpRoutes env cluster ns
           (Some (KMC_HTTP_ROUTE_LABEL_SELECTOR @ '','' @ KMC_LABEL_VM @ ''='' @ vmName)))
         (\<lambda>routes. act_return (map (\<lambda>r. route_mapSummary cluster r gws) routes)))
       []"

definition routes_by_backend ::
  "'s route_env \<Rightarrow> string \<Rightarrow> string \<Rightarrow> string \<Rightarrow> (string \<Rightarrow> kube_gateway option) \<Rightarrow> ('s, http_route_summary list) act" where
  "routes_by_backend env cluster ns vmName gws =
     act_or
       (act_bind (listBackendsForVm (rte_le env) (rte_be env) cluster ns vmName) (\<lambda>backends.
          if backends = [] then act_return []
          else act_bind (listNamespacedHttpRoutes env cluster ns (Some KMC_HTTP_ROUTE_LABEL_SELECTOR)) (\<lambda>routes.
            act_bind (getVmPodTemplateLabels (rte_be env) cluster ns vmName) (\<lambda>vmLabels.
              act_return (filter
                (\<lambda>s. case find (\<lambda>b. bs_name b = service_of s) backends of
                       None \<Rightarrow> False
                     | Some b \<Rightarrow> labelsMatchSelector (Some vmLabels) (bs_selector b))
                (map (\<lambda>r. route_mapSummary cluster r gws) routes))))))
       []"

definition listHttpRoutesForVm :: "'s route_env \<Rightarrow> string \<Rightarrow> string \<Rightarrow> string \<Rightarrow> ('s, http_route_summary list) act" where
  "listHttpRoutesForVm env cluster ns vmName =
     act_bind (known_gateways env cluster) (\<lambda>gws.
     act_bind (routes_by_label env cluster ns vmName gws) (\<lambda>labelled.
     act_bind (routes_by_backend env cluster ns vmName gws) (\<lambda>selected.
     act_bind (act_map (with_endpoints env cluster ns) (map snd (set_names (set_names [] labelled) selected))) (\<lambda>items.
       act_return (sort_by (\<lambda>a b. rte_le env (hsu_name a) (hsu_name b)) items)))))"

record route_service_port =
  rsp_name :: "string option"
  rsp_port :: js_num
  rsp_targetPort :: target_port
  rsp_protocol :: "string option"

record http_route_backend =
  hrb_exists :: bool
  hrb_serviceType :: "string option"
  hrb_membership :: "backend_membership option"
  hrb_selector :: "string jsobj"
  hrb_matchedVms :: "backend_matched_vm list"

record http_route_detail =
  hrd_summary :: http_route_summary
  hrd_uid :: "string option"
  hrd_labels :: "string jsobj"
  hrd_annotations :: "string jsobj"
  hrd_rules :: "route_match list list"
  hrd_servicePorts :: "route_service_port list"
  hrd_backend :: http_route_backend
  hrd_vm :: "vm_binding option"

definition route_service_ports :: "kube_service option \<Rightarrow> route_service_port list" where
  "route_service_ports service =
     map (\<lambda>p. \<lparr>rsp_name = sp_name p, rsp_port = opt_default (Fin 0) (sp_port p),
               rsp_targetPort = opt_default (PortNumber (opt_default (Fin 0) (sp_port p))) (sp_targetPort p),
               rsp_protocol = sp_protocol p\<rparr>) (opt_default [] (fld service sv_ports))"

definition route_backend_info ::
  "kube_service option \<Rightarrow> backend_membership option \<Rightarrow> string jsobj \<Rightarrow> backend_matched_vm list \<Rightarrow> http_route_backend" where
  "route_backend_info service membership selector matched =
     (case service of
        None \<Rightarrow> \<lparr>hrb_exists = False, hrb_serviceType = None, hrb_membership = None, hrb_selector = [], hrb_matchedVms = []\<rparr>
      | Some svc \<Rightarrow> \<lparr>hrb_exists = True, hrb_serviceType = Some (opt_default ''ClusterIP'' (sv_type svc)),
          hrb_membership = membership, hrb_selector = selector, hrb_matchedVms = matched\<rparr>)"

text \<open>A missing route is a response with status 404, another failure an error.\<close>

definition read_or_404 :: "'s route_env \<Rightarrow> string \<Rightarrow> string \<Rightarrow> string \<Rightarrow> ('s, http_route) act" where
  "read_or_404 env cluster ns nm =
     act_catch (readHttpRoute env cluster ns nm) (\<lambda>err.
       if backend_isNotFound err then act_fail (ResponseObj ''HTTPRoute not found'' 404) else save_error err)"

definition getHttpRoute :: "'s route_env \<Rightarrow> string \<Rightarrow> string \<Rightarrow> string \<Rightarrow> ('s, http_route_detail) act" where
  "getHttpRoute env cluster ns nm =
     act_bind (read_or_404 env cluster ns nm) (\<lambda>route.
     act_bind (known_gateways env cluster) (\<lambda>gws.
       let summary = route_mapSummary cluster route gws;
           serviceName = opt_default nm (hsu_serviceName summary) in
       act_bind (readServiceOptional (rte_be env) cluster ns serviceName) (\<lambda>service.
       act_bind (readEndpointsCounts (rte_be env) cluster ns serviceName) (\<lambda>endpoints.
         let membership = membershipFromServiceMeta (fld service sv_labels) (fld service sv_annotations);
             selector = opt_obj (fld service sv_selector);
             backendVm = (case membership of Some (SingleVm vm) \<Rightarrow> Some vm | _ \<Rightarrow> None);
             target = (case hsu_vmName summary of Some v \<Rightarrow> Some v | None \<Rightarrow> backendVm) in
         act_bind (if truthy target
             then act_bind (vmBindingInfo env cluster ns (opt_str target)) (\<lambda>b. act_return (Some b))
             else act_return None) (\<lambda>vm.
         act_bind (if service \<noteq> None \<and> 0 < length (obj_keys selector)
             then act_or (listVmsMatchingSelector (rte_le env) (rte_be env) cluster ns selector) []
             else act_return []) (\<lambda>matched.
           act_return
             \<lparr>hrd_summary = summary\<lparr>hsu_vmName := target, hsu_endpoints := endpoints\<rparr>,
              hrd_uid = fld (hro_metadata route) om_uid, hrd_labels = opt_obj (fld (hro_metadata route) om_labels),
              hrd_annotations = shown_annotations (fld (hro_metadata route) om_annotations),
              hrd_rules = route_mapRules route, hrd_servicePorts = route_service_ports service,
              hrd_backend = route_backend_info service membership selector matched, hrd_vm = vm\<rparr>))))))"

record vm_option =
  vmp_name :: string
  vmp_status :: string
  vmp_podNetwork :: bool
  vmp_ready :: bool

definition vm_option_of :: "kube_vm \<Rightarrow> vm_option" where
  "vm_option_of vm =
     (let status = opt_default ''Unknown'' (fld (kv_status vm) vs_printableStatus) in
      \<lparr>vmp_name = opt_default ''unknown'' (kv_name vm), vmp_status = status, vmp_podNetwork = has_pod_network vm,
       vmp_ready = (fld (kv_status vm) vs_ready = Some True \<or> status = ''Running'')\<rparr>)"

definition listVmOptionsForNamespace :: "'s route_env \<Rightarrow> string \<Rightarrow> string \<Rightarrow> ('s, vm_option list) act" where
  "listVmOptionsForNamespace env cluster ns =
     with_custom (be_vms (rte_be env)) cluster (\<lambda>api.
       act_bind (api_list_ns api vm_gvp ns None) (\<lambda>items.
         act_return (sort_by (\<lambda>a b. rte_le env (vmp_name a) (vmp_name b)) (map vm_option_of (opt_default [] items)))))"

section \<open>Creating\<close>

record create_route_request =
  crr_cluster :: string
  crr_namespace :: string
  crr_name :: string
  crr_membership :: "backend_membership option"
  crr_host :: string
  crr_path :: "string option"
  crr_pathType :: "string option"
  crr_servicePort :: "js_num option"
  crr_targetPort :: "js_num option"
  crr_gatewayName :: string
  crr_gatewayNamespace :: "string option"
  crr_sectionName :: "string option"
  crr_existingServiceName :: "string option"
  crr_extraLabels :: "string jsobj option"

definition ownershipLabels :: "string \<Rightarrow> backend_membership option \<Rightarrow> string jsobj" where
  "ownershipLabels nm membership =
     obj_spread
       (obj_lit [(MANAGED_BY_LABEL, KMC_MANAGED_BY), (KMC_LABEL_RESOURCE, KMC_RESOURCE_HTTP_ROUTE), (KMC_LABEL_HTTP_ROUTE, nm)])
       (case membership of None \<Rightarrow> [] | Some m \<Rightarrow> membershipLabels m)"

definition gateway_parent :: "string \<Rightarrow> string option \<Rightarrow> string option \<Rightarrow> kube_parent_ref" where
  "gateway_parent nm ns section_name =
     \<lparr>kpr_group = Some GATEWAY_API_GROUP, kpr_kind = Some ''Gateway'', kpr_name = Some nm, kpr_namespace = ns,
      kpr_sectionName = section_name\<rparr>"

definition route_spec_of ::
  "kube_parent_ref \<Rightarrow> string \<Rightarrow> string \<Rightarrow> string \<Rightarrow> string \<Rightarrow> js_num \<Rightarrow> http_route_spec" where
  "route_spec_of parent host pathType path service port =
     \<lparr>hrs_parentRefs = Some [parent], hrs_hostnames = Some [host],
      hrs_rules = Some [\<lparr>rru_matches = Some [Some \<lparr>pma_type = Some pathType, pma_value = Some path\<rparr>],
        rru_backendRefs = Some [\<lparr>bre_name = Some service, bre_namespace = None, bre_port = Some port\<rparr>]\<rparr>]\<rparr>"

definition buildHttpRouteManifest :: "create_route_request \<Rightarrow> string option \<Rightarrow> http_route" where
  "buildHttpRouteManifest inp serviceName =
     (let labels = obj_spread (ownershipLabels (crr_name inp) (crr_membership inp)) (opt_obj (crr_extraLabels inp));
          backendService = (case trim_or_undef serviceName of Some s \<Rightarrow> s
            | None \<Rightarrow> opt_default (crr_name inp) (trim_or_undef (crr_existingServiceName inp))) in
      \<lparr>hro_apiVersion = Some ''gateway.networking.k8s.io/v1'', hro_kind = Some ''HTTPRoute'',
       hro_metadata = Some (new_meta (Some (crr_name inp)) (crr_namespace inp) (Some labels) None),
       hro_spec = Some (route_spec_of
         (gateway_parent (js_trim (crr_gatewayName inp)) (trim_or_undef (crr_gatewayNamespace inp))
            (trim_or_undef (crr_sectionName inp)))
         (js_trim (crr_host inp)) (opt_default ''PathPrefix'' (crr_pathType inp))
         (opt_default ''/'' (trim_or_undef (crr_path inp))) backendService (opt_default (Fin 80) (crr_servicePort inp))),
       hro_parents = None\<rparr>)"

definition check_route_request :: "create_route_request \<Rightarrow> unit result" where
  "check_route_request inp =
     (if js_trim (crr_cluster inp) = [] then throw ''cluster is required''
      else if js_trim (crr_namespace inp) = [] then throw ''namespace is required''
      else if js_trim (crr_name inp) = [] then throw ''name is required''
      else if js_trim (crr_host inp) = [] then throw ''host is required''
      else if js_trim (crr_gatewayName inp) = [] then throw ''parent Gateway is required''
      else if trim_or_undef (crr_existingServiceName inp) = None \<and> crr_membership inp = None
        then throw ''backend membership is required (or pick an existing Service)''
      else Inr ())"

fun route_membership :: "string \<Rightarrow> backend_membership \<Rightarrow> backend_membership" where
  "route_membership nm (VmGroup g vms) = VmGroup (if js_trim g = [] then nm else js_trim g) vms"
| "route_membership nm (SingleVm vm) = SingleVm vm"
| "route_membership nm (MatchLabels ls) = MatchLabels ls"

definition refuse_route :: "'s route_env \<Rightarrow> create_route_request \<Rightarrow> ('s, unit) act" where
  "refuse_route env inp =
     act_catch
       (act_bind (readHttpRoute env (crr_cluster inp) (crr_namespace inp) (crr_name inp)) (\<lambda>_.
          act_throw (''HTTPRoute \"'' @ crr_namespace inp @ ''/'' @ crr_name inp @ ''\" already exists'')))
       (\<lambda>err. if error_mentions ''already exists'' err then act_fail err
              else if \<not> backend_isNotFound err then save_error err
              else act_return ())"

definition companion_request :: "create_route_request \<Rightarrow> backend_membership \<Rightarrow> create_backend_request" where
  "companion_request inp membership =
     (let servicePort = opt_default (Fin 80) (crr_servicePort inp) in
      \<lparr>cbr_cluster = crr_cluster inp, cbr_namespace = crr_namespace inp, cbr_name = crr_name inp,
       cbr_membership = membership,
       cbr_ports = [\<lparr>bp_name = Some ''http'', bp_port = servicePort,
         bp_targetPort = opt_default servicePort (crr_targetPort inp), bp_protocol = Some ''TCP''\<rparr>],
       cbr_serviceType = Some ''ClusterIP'',
       cbr_extraLabels = Some (obj_spread (obj_lit [(KMC_LABEL_HTTP_ROUTE, crr_name inp)]) (opt_obj (crr_extraLabels inp))),
       cbr_extraAnnotations = None\<rparr>)"

text \<open>The Service of a route: one that is there, or a companion. The result says whether it was created.\<close>

definition route_service :: "'s route_env \<Rightarrow> create_route_request \<Rightarrow> backend_membership option \<Rightarrow> ('s, bool) act" where
  "route_service env inp membership =
     (case trim_or_undef (crr_existingServiceName inp) of
        Some existing \<Rightarrow>
          act_catch
            (with_core (rte_be env) (crr_cluster inp) (\<lambda>core.
               act_bind (core_read_service core (crr_namespace inp) existing) (\<lambda>_. act_return False)))
            (\<lambda>err. if backend_isNotFound err
               then act_throw (''Service \"'' @ crr_namespace inp @ ''/'' @ existing @ ''\" not found'') else save_error err)
      | None \<Rightarrow> (case membership of
          None \<Rightarrow> act_return False
        | Some m \<Rightarrow> act_bind (createBackend (rte_be env) (companion_request inp m)) (\<lambda>_. act_return True)))"

definition createHttpRoute :: "'s route_env \<Rightarrow> create_route_request \<Rightarrow> ('s, http_route_summary) act" where
  "createHttpRoute env inp =
     act_bind (act_lift (check_route_request inp)) (\<lambda>_.
       let membership = map_option (route_membership (crr_name inp)) (crr_membership inp) in
       with_custom (rte_routes env) (crr_cluster inp) (\<lambda>api.
         act_seq (refuse_route env inp)
           (act_bind (route_service env inp membership) (\<lambda>createdCompanion.
             let body = buildHttpRouteManifest (inp\<lparr>crr_membership := membership\<rparr>)
                   (Some (opt_default (crr_name inp) (trim_or_undef (crr_existingServiceName inp)))) in
             act_catch
               (act_bind (api_create_ns api route_gvp (crr_namespace inp) body) (\<lambda>created.
                act_bind (known_gateways env (crr_cluster inp)) (\<lambda>gws.
                  act_return (route_mapSummary (crr_cluster inp) created gws))))
               (\<lambda>err. act_seq
                  (act_when createdCompanion
                    (act_or (deleteBackend (rte_be env) (crr_cluster inp) (crr_namespace inp) (crr_name inp)) ()))
                  (act_fail (mk_error_cause (''Failed to create HTTPRoute: '' @ format_error err) err)))))))"

section \<open>Updating\<close>

text \<open>\<open>null\<close> clears the namespace and the listener of the parent: \<open>Some None\<close>.\<close>

record update_route_request =
  urr_cluster :: string
  urr_namespace :: string
  urr_name :: string
  urr_host :: "string option"
  urr_path :: "string option"
  urr_pathType :: "string option"
  urr_servicePort :: "js_num option"
  urr_targetPort :: "js_num option"
  urr_gatewayName :: "string option"
  urr_gatewayNamespace :: "string option option"
  urr_sectionName :: "string option option"
  urr_membership :: "backend_membership option"

definition first_of :: "'a list option \<Rightarrow> 'a option" where
  "first_of xs = (case opt_default [] xs of [] \<Rightarrow> None | x # _ \<Rightarrow> Some x)"

text \<open>The Service and the port of the first rule.\<close>

definition route_target :: "string \<Rightarrow> http_route \<Rightarrow> string \<times> js_num" where
  "route_target nm existing =
     (let ref = fld (first_of (fld (hro_spec existing) hrs_rules)) first_backend in
      (opt_default nm (opt_or_undef (fld ref bre_name)), opt_default (Fin 80) (fld ref bre_port)))"

definition updated_route :: "update_route_request \<Rightarrow> http_route \<Rightarrow> http_route result" where
  "updated_route inp existing =
     (let nm = urr_name inp;
          host = (case urr_host inp of Some h \<Rightarrow> js_trim h | None \<Rightarrow> opt_str (first_of (Some (mapHosts existing))));
          rule = first_of (fld (hro_spec existing) hrs_rules);
          match = fld rule (\<lambda>r. first_of (rru_matches r));
          curPath = fld match (\<lambda>m. m);
          path = (case urr_path inp of Some p \<Rightarrow> opt_default ''/'' (trim_or_undef (Some p))
            | None \<Rightarrow> opt_default ''/'' (fld curPath pma_value));
          pathType = (case urr_pathType inp of Some t \<Rightarrow> t
            | None \<Rightarrow> opt_default ''PathPrefix'' (opt_or_undef (fld curPath pma_type)));
          serviceName = fst (route_target nm existing);
          servicePort = opt_default (snd (route_target nm existing)) (urr_servicePort inp);
          parent = first_of (fld (hro_spec existing) hrs_parentRefs);
          gatewayName = (case urr_gatewayName inp of Some g \<Rightarrow> js_trim g | None \<Rightarrow> opt_str (fld parent kpr_name));
          gatewayNs = (case urr_gatewayNamespace inp of Some g \<Rightarrow> trim_or_undef g | None \<Rightarrow> fld parent kpr_namespace);
          sectionName = (case urr_sectionName inp of Some g \<Rightarrow> trim_or_undef g | None \<Rightarrow> fld parent kpr_sectionName);
          labels = (case urr_membership inp of
             None \<Rightarrow> obj_spread [] (opt_obj (fld (hro_metadata existing) om_labels))
           | Some m \<Rightarrow> obj_assign_all (obj_spread [] (opt_obj (fld (hro_metadata existing) om_labels)))
               (ownershipLabels nm (Some m)));
          meta = opt_default \<lparr>om_name = None, om_generateName = None, om_namespace = None, om_uid = None,
             om_creationTimestamp = None, om_labels = None, om_annotations = None\<rparr> (hro_metadata existing)
      in if host = [] then throw ''host is required''
         else if gatewayName = [] then throw ''parent Gateway is required''
         else Inr (existing\<lparr>hro_parents := None, hro_metadata := Some (meta\<lparr>om_labels := Some labels\<rparr>),
           hro_spec := Some (route_spec_of (gateway_parent gatewayName (opt_or_undef gatewayNs) (opt_or_undef sectionName))
             host pathType path serviceName servicePort)\<rparr>))"

definition carries_route :: "string \<Rightarrow> kube_service option \<Rightarrow> bool" where
  "carries_route nm svc \<longleftrightarrow> opt_get (fld svc sv_labels) KMC_LABEL_HTTP_ROUTE = Some nm"

definition route_ports :: "update_route_request \<Rightarrow> js_num \<Rightarrow> kube_service \<Rightarrow> backend_port list option" where
  "route_ports inp servicePort svc =
     (if urr_targetPort inp \<noteq> None \<or> urr_servicePort inp \<noteq> None
      then Some [\<lparr>bp_name = Some ''http'', bp_port = servicePort,
        bp_targetPort = (case urr_targetPort inp of Some t \<Rightarrow> t
          | None \<Rightarrow> (case fld (first_of (sv_ports svc)) sp_targetPort of Some (PortNumber n) \<Rightarrow> n | _ \<Rightarrow> servicePort)),
        bp_protocol = Some ''TCP''\<rparr>]
      else None)"

definition update_companion ::
  "'s route_env \<Rightarrow> update_route_request \<Rightarrow> string \<Rightarrow> js_num \<Rightarrow> ('s, unit) act" where
  "update_companion env inp serviceName servicePort =
     (let cluster = urr_cluster inp; ns = urr_namespace inp; nm = urr_name inp in
      act_bind (if serviceName = nm then act_return True
          else act_bind (readServiceOptional (rte_be env) cluster ns serviceName) (\<lambda>svc. act_return (carries_route nm svc)))
        (\<lambda>owns.
          if \<not> owns \<or> (urr_membership inp = None \<and> urr_targetPort inp = None \<and> urr_servicePort inp = None)
          then act_return ()
          else act_bind (readServiceOptional (rte_be env) cluster ns serviceName) (\<lambda>found.
            case found of
              None \<Rightarrow> act_return ()
            | Some svc \<Rightarrow>
                if \<not> managed_backend svc then act_return ()
                else act_bind (updateBackend (rte_fmt env) (rte_be env)
                    \<lparr>ubr_cluster = cluster, ubr_namespace = ns, ubr_name = serviceName,
                     ubr_membership = urr_membership inp, ubr_ports = route_ports inp servicePort svc\<rparr>)
                  (\<lambda>_. act_return ()))))"

definition updateHttpRoute :: "'s route_env \<Rightarrow> update_route_request \<Rightarrow> ('s, http_route_detail) act" where
  "updateHttpRoute env inp =
     (let cluster = urr_cluster inp; ns = urr_namespace inp; nm = urr_name inp in
      if js_trim cluster = [] \<or> js_trim ns = [] \<or> js_trim nm = []
      then act_throw ''cluster, namespace, and name are required''
      else with_custom (rte_routes env) cluster (\<lambda>api.
        act_bind (read_or_404 env cluster ns nm) (\<lambda>existing.
        act_bind (act_lift (updated_route inp existing)) (\<lambda>body.
          let (serviceName, curPort) = route_target nm existing in
          act_seq
            (act_catch (act_bind (api_replace_ns api route_gvp ns nm body) (\<lambda>_. act_return ())) (\<lambda>err.
               act_fail (mk_error_cause (''Failed to update HTTPRoute: '' @ format_error err) err)))
            (act_seq (update_companion env inp serviceName (opt_default curPort (urr_servicePort inp)))
              (getHttpRoute env cluster ns nm))))))"

section \<open>Deleting\<close>

definition deletes_companion :: "string \<Rightarrow> string \<Rightarrow> kube_service \<Rightarrow> bool" where
  "deletes_companion nm serviceName svc \<longleftrightarrow>
     managed_backend svc \<and> (carries_route nm (Some svc) \<or> serviceName = nm) \<and>
     \<not> (\<not> carries_route nm (Some svc) \<and> opt_default ''ClusterIP'' (sv_type svc) = ''LoadBalancer'')"

definition deleteHttpRoute :: "'s route_env \<Rightarrow> string \<Rightarrow> string \<Rightarrow> string \<Rightarrow> ('s, unit) act" where
  "deleteHttpRoute env cluster ns nm =
     with_custom (rte_routes env) cluster (\<lambda>api.
       act_bind (act_or (act_bind (readHttpRoute env cluster ns nm) (\<lambda>route.
           act_return (opt_default nm (primaryServiceName route)))) nm) (\<lambda>serviceName.
       act_seq
         (act_catch (api_delete_ns api route_gvp ns nm) (\<lambda>err.
            if \<not> backend_isNotFound err then save_error err else act_return ()))
         (act_bind (readServiceOptional (rte_be env) cluster ns serviceName) (\<lambda>found.
            case found of
              None \<Rightarrow> act_return ()
            | Some svc \<Rightarrow>
                if \<not> deletes_companion nm serviceName svc then act_return ()
                else act_catch (deleteBackend (rte_be env) cluster ns serviceName) (\<lambda>err.
                  if \<not> backend_isNotFound err
                  then act_fail (mk_error_cause (''HTTPRoute deleted but Service cleanup failed: '' @ format_error err) err)
                  else act_return ())))))"

section \<open>What deleting a route leaves alone\<close>

text \<open>
  \<open>S\<close> observes the Services: only deleting one changes it, and only at its name; reading returns it.
\<close>

definition service_view ::
  "('s \<Rightarrow> string \<times> string \<Rightarrow> kube_service option) \<Rightarrow> 's route_env \<Rightarrow> string \<Rightarrow> bool" where
  "service_view S env cluster \<longleftrightarrow>
     (\<forall>core. be_core (rte_be env) cluster = Inr core \<longrightarrow>
        (\<forall>ns nm. leaves S (core_read_service core ns nm)) \<and>
        (\<forall>ns nm s svc. fst (core_read_service core ns nm s) = Inr svc \<longrightarrow> S s (ns, nm) = Some svc) \<and>
        (\<forall>ns nm k. k \<noteq> (ns, nm) \<longrightarrow> leaves (\<lambda>s. S s k) (core_delete_service core ns nm))) \<and>
     (\<forall>api. be_vms (rte_be env) cluster = Inr api \<longrightarrow> reads_leave S api \<and>
        (\<forall>ns nm b. leaves S (api_replace_ns api vm_gvp ns nm b))) \<and>
     (\<forall>api. rte_routes env cluster = Inr api \<longrightarrow> reads_leave S api \<and> (\<forall>g ns nm. leaves S (api_delete_ns api g ns nm)))"

lemma leaves_at: "leaves S m \<Longrightarrow> leaves (\<lambda>s. S s k) m"
  by (simp add: leaves_def)

lemma reads_leave_at: "reads_leave S api \<Longrightarrow> reads_leave (\<lambda>s. S s k) api"
  by (simp add: reads_leave_def leaves_at)

lemma leaves_with_core [leaves_intros]:
  "(\<And>core. be_core be cluster = Inr core \<Longrightarrow> leaves f (k core)) \<Longrightarrow> leaves f (with_core be cluster k)"
  by (cases "be_core be cluster") (simp_all add: with_core_def leaves_def act_simps)

lemma read_service_leaves:
  assumes "service_view S env cluster"
  shows "leaves S (readServiceOptional (rte_be env) cluster ns nm)"
  unfolding readServiceOptional_def
  by (intro leaves_intros) (use assms in \<open>simp_all add: service_view_def\<close>)

lemma read_service_value:
  assumes "service_view S env cluster" "readServiceOptional (rte_be env) cluster ns nm s = (Inr (Some svc), t)"
  shows "S s (ns, nm) = Some svc"
proof -
  obtain core where core: "be_core (rte_be env) cluster = Inr core"
    using assms(2) by (auto simp: readServiceOptional_def with_core_def act_simps split: sum.splits if_splits)
  then have "fst (core_read_service core ns nm s) = Inr svc"
    using assms(2) by (auto simp: readServiceOptional_def with_core_def act_simps split: sum.splits if_splits prod.splits)
  then show ?thesis using assms(1) core by (simp add: service_view_def)
qed

text \<open>Deleting a backend touches no Service of another name.\<close>

lemma deleteBackend_leaves_others:
  assumes v: "service_view S env cluster" and k: "k \<noteq> (ns, nm)"
  shows "leaves (\<lambda>s. S s k) (deleteBackend (rte_be env) cluster ns nm)"
proof -
  have un: "leaves (\<lambda>s. S s k) (unstampBackendGroup (be_vms (rte_be env)) cluster ns names)" for names
    by (rule leaves_at) (intro leaves_intros, use v in \<open>simp_all add: service_view_def reads_leave_def\<close>)
  have li: "leaves (\<lambda>s. S s k) (listVmsWithBackendGroup (be_vms (rte_be env)) cluster ns g)" for g
    unfolding listVmsWithBackendGroup_def
    by (rule leaves_at) (intro leaves_intros, use v in \<open>simp_all add: service_view_def reads_leave_def\<close>)
  have del: "leaves (\<lambda>s. S s k) (core_delete_service core ns nm)" if "be_core (rte_be env) cluster = Inr core" for core
    using v k that unfolding service_view_def by blast
  have tidy: "leaves (\<lambda>s. S s k) (case membership of
                 Some (VmGroup g fromAnn) \<Rightarrow>
                   act_bind
                     (act_catch
                       (act_bind (listVmsWithBackendGroup (be_vms (rte_be env)) cluster ns g) (\<lambda>live.
                          act_return (js_sort (js_uniq (fromAnn @ live)))))
                       (\<lambda>_. act_return fromAnn))
                     (\<lambda>names. act_when (0 < length names) (unstampBackendGroup (be_vms (rte_be env)) cluster ns names))
               | _ \<Rightarrow> act_return ())" for membership
    by (auto split: option.splits backend_membership.splits intro!: leaves_bind leaves_catch leaves_when leaves_basic li un)
  show ?thesis
    unfolding deleteBackend_def Let_def
    by (intro leaves_bind leaves_at [OF read_service_leaves [OF v]] leaves_with_core leaves_seq leaves_catch leaves_if
        leaves_basic del tidy)
qed

text \<open>The Services that go with a route: backends of the console with its label, or with its name.\<close>

definition companion_of :: "string \<Rightarrow> string \<Rightarrow> string \<times> string \<Rightarrow> kube_service \<Rightarrow> bool" where
  "companion_of ns nm k svc \<longleftrightarrow>
     fst k = ns \<and> managed_backend svc \<and>
     (carries_route nm (Some svc) \<or> (snd k = nm \<and> opt_default ''ClusterIP'' (sv_type svc) \<noteq> ''LoadBalancer''))"

lemma deleteHttpRoute_keeps:
  assumes v: "service_view S env cluster" and s: "S s k = Some svc" and c: "\<not> companion_of ns nm k svc"
  shows "S (snd (deleteHttpRoute env cluster ns nm s)) k = Some svc"
proof (cases "rte_routes env cluster")
  case (Inl e)
  then show ?thesis using s by (simp add: deleteHttpRoute_def with_custom_apply)
next
  case (Inr api)
  then have api: "reads_leave S api" "\<And>g ns nm. leaves S (api_delete_ns api g ns nm)"
    using v by (simp_all add: service_view_def)
  have rd: "leaves (\<lambda>s. S s k) (act_or (act_bind (readHttpRoute env cluster ns nm) (\<lambda>route.
           act_return (opt_default nm (primaryServiceName route)))) nm)"
    unfolding readHttpRoute_def
    by (rule leaves_at, intro leaves_intros) (use v in \<open>simp_all add: service_view_def reads_leave_def\<close>)
  have del: "leaves (\<lambda>s. S s k) (act_catch (api_delete_ns api route_gvp ns nm) (\<lambda>err.
            if \<not> backend_isNotFound err then save_error err else act_return ()))"
    unfolding save_error_def by (rule leaves_at) (intro leaves_intros api)
  have last: "S (snd (act_bind (readServiceOptional (rte_be env) cluster ns serviceName) (\<lambda>found.
            case found of
              None \<Rightarrow> act_return ()
            | Some svc \<Rightarrow>
                if \<not> deletes_companion nm serviceName svc then act_return ()
                else act_catch (deleteBackend (rte_be env) cluster ns serviceName) (\<lambda>err.
                  if \<not> backend_isNotFound err
                  then act_fail (mk_error_cause (''HTTPRoute deleted but Service cleanup failed: '' @ format_error err) err)
                  else act_return ())) u)) k = Some svc"
    if u: "S u k = Some svc" for u serviceName
  proof -
    obtain r w where w: "readServiceOptional (rte_be env) cluster ns serviceName u = (r, w)" by fastforce
    have Sw: "S w k = Some svc" using leavesD [OF read_service_leaves [OF v] w] u by simp
    show ?thesis
    proof (cases "\<exists>found. r = Inr (Some found) \<and> deletes_companion nm serviceName found")
      case False
      then show ?thesis using w Sw
        by (cases r) (auto simp: act_bind_def act_return_apply split: option.splits)
    next
      case True
      then obtain found where f: "r = Inr (Some found)" "deletes_companion nm serviceName found" by blast
      have "S u (ns, serviceName) = Some found" using read_service_value [OF v] w f(1) by simp
      then have k: "k \<noteq> (ns, serviceName)"
        using u c f(2) by (auto simp: companion_of_def deletes_companion_def)
      have "leaves (\<lambda>s. S s k) (act_catch (deleteBackend (rte_be env) cluster ns serviceName) (\<lambda>err.
                  if \<not> backend_isNotFound err
                  then act_fail (mk_error_cause (''HTTPRoute deleted but Service cleanup failed: '' @ format_error err) err)
                  else act_return ()))"
        by (intro leaves_intros deleteBackend_leaves_others [OF v k])
      from leaves_snd [OF this, of w] show ?thesis using w f Sw by (simp add: act_bind_def)
    qed
  qed
  show ?thesis
  proof -
    obtain r u where u: "act_or (act_bind (readHttpRoute env cluster ns nm) (\<lambda>route.
           act_return (opt_default nm (primaryServiceName route)))) nm s = (r, u)" by fastforce
    have Su: "S u k = Some svc" using leavesD [OF rd u] s by simp
    obtain r' w where w: "act_catch (api_delete_ns api route_gvp ns nm) (\<lambda>err.
            if \<not> backend_isNotFound err then save_error err else act_return ()) u = (r', w)" by fastforce
    have Sw: "S w k = Some svc" using leavesD [OF del w] Su by simp
    show ?thesis
      unfolding deleteHttpRoute_def with_custom_apply Inr
      using u w Su Sw last [OF Sw]
      by (cases r; cases r') (simp_all add: act_bind_def [of "act_or _ _"] act_seq_apply)
  qed
qed

section \<open>A route in a laboratory\<close>

text \<open>The laboratory of the backends, in which reading any route returns the same one.\<close>

definition lab_route :: "string \<Rightarrow> string \<Rightarrow> http_route" where
  "lab_route nm service =
     \<lparr>hro_apiVersion = None, hro_kind = None, hro_metadata = Some (new_meta (Some nm) ''n'' None None),
      hro_spec = Some (route_spec_of (gateway_parent ''gw'' None None) ''app.lab'' ''PathPrefix'' ''/'' service (Fin 80)),
      hro_parents = None\<rparr>"

definition lab_route_env :: "http_route \<Rightarrow> lab_state route_env" where
  "lab_route_env route =
     \<lparr>rte_routes = (\<lambda>c. Inr (idle_api\<lparr>api_get_ns := (\<lambda>g ns nm. act_return route),
        api_delete_ns := (\<lambda>g ns nm. act_return ())\<rparr>)),
      rte_gateways = (\<lambda>c. Inr idle_api), rte_be = lab_env, rte_le = (\<lambda>a b. True), rte_fmt = (\<lambda>q. [])\<rparr>"

lemma lab_route_view: "service_view fst (lab_route_env route) cluster"
  by (auto simp: service_view_def lab_route_env_def lab_env_def lab_core_def lab_vms_def leaves_def reads_leave_def
      idle_api_def act_simps throw_def split: option.splits)

definition lab_service :: "string \<Rightarrow> string jsobj \<Rightarrow> kube_service" where
  "lab_service nm labels = foreign_service\<lparr>sv_name := Some nm, sv_labels := Some labels\<rparr>"

definition lab_shared :: kube_service where
  "lab_shared = lab_service ''web'' [(KMC_LABEL_RESOURCE, KMC_RESOURCE_BACKEND)]"

lemma companion_is_deleted:
  "fst (snd (deleteHttpRoute (lab_route_env (lab_route ''app'' ''app'')) ''c'' ''n'' ''app''
     ([(''n'', ''app'') \<mapsto> lab_service ''app'' [(KMC_LABEL_RESOURCE, KMC_RESOURCE_BACKEND)]], Map.empty))) (''n'', ''app'') = None"
  by code_simp

section \<open>Properties\<close>

text \<open>
  C37. Deleting a route deletes no Service but its companion. Whatever the route points at and
  whether the call succeeds or throws, a Service stays as it is unless it is a backend of the
  console in the namespace of the route that carries the label of the route, or has its name and
  is no load balancer.
\<close>

theorem route_deletes_only_its_companion:
  assumes "service_view S env cluster" "S s k = Some svc" "\<not> companion_of ns nm k svc"
  shows "S (snd (deleteHttpRoute env cluster ns nm s)) k = Some svc"
  by (rule deleteHttpRoute_keeps [OF assms])

lemma route_deletes_only_its_companion_witness:
  "fst (snd (deleteHttpRoute (lab_route_env (lab_route ''app'' ''web'')) ''c'' ''n'' ''app''
     ([(''n'', ''web'') \<mapsto> lab_shared], Map.empty))) (''n'', ''web'') = Some lab_shared"
proof (rule route_deletes_only_its_companion [OF lab_route_view])
  show "fst ([(''n'', ''web'') \<mapsto> lab_shared], Map.empty) (''n'', ''web'') = Some lab_shared" by simp
  show "\<not> companion_of ''n'' ''app'' (''n'', ''web'') lab_shared" by code_simp
qed

end
