(* ===== verification/Dev_Box_Oidc.thy ===== *)
theory Dev_Box_Oidc
  imports Resource_Paths Vm_Namespaces Membership "HOL-Library.Word"
begin

unbundle bit_operations_syntax

text \<open>
  \<open>devboxes/dex-oidc.server.ts\<close>: the OAuth2 client of a Dev Box in the storage of Dex, and the
  Secret with which the gateway signs in. Dex looks a client up under the base-32 text of its id, so
  the console computes the same text. A fresh client secret is a parameter.
\<close>

section \<open>Names\<close>

definition FNV64_EMPTY :: "nat list" where "FNV64_EMPTY = [0xcb, 0xf2, 0x9c, 0xe4, 0x84, 0x22, 0x23, 0x25]"
definition BASE32_ALPHABET :: string where "BASE32_ALPHABET = ''abcdefghijklmnopqrstuvwxyz234567''"

definition id_payload :: "string \<Rightarrow> nat list" where
  "id_payload cid = concat (map utf8_bytes cid) @ FNV64_EMPTY"

definition b32_letter :: "32 word \<Rightarrow> char" where
  "b32_letter v = BASE32_ALPHABET ! unat (v AND 31)"

text \<open>\<open>while (bits >= 5)\<close>, and the body of the loop over the bytes; \<open>value\<close> is a 32-bit integer.\<close>

fun emit_groups :: "nat \<Rightarrow> 32 word \<Rightarrow> string \<times> nat" where
  "emit_groups bits v =
     (if 5 \<le> bits then (case emit_groups (bits - 5) v of (out, rest) \<Rightarrow> (b32_letter (drop_bit (bits - 5) v) # out, rest))
      else ([], bits))"

declare emit_groups.simps [simp del]

definition b32_step :: "nat \<times> 32 word \<times> string \<Rightarrow> nat \<Rightarrow> nat \<times> 32 word \<times> string" where
  "b32_step st byte =
     (case st of (bits, v, out) \<Rightarrow>
        let v' = push_bit 8 v OR of_nat byte in
        case emit_groups (bits + 8) v' of (letters, rest) \<Rightarrow> (rest, v', out @ letters))"

definition dexIdToName :: "string \<Rightarrow> string" where
  "dexIdToName cid =
     (case foldl b32_step (0, 0, []) (id_payload cid) of (bits, v, out) \<Rightarrow>
        if 0 < bits then out @ [b32_letter (push_bit (5 - bits) v)] else out)"

definition dexDevBoxClientId :: "string \<Rightarrow> string \<Rightarrow> string" where
  "dexDevBoxClientId ns vmName = ''kmc-devbox.'' @ ns @ ''.'' @ vmName"

definition ideOidcSecretName :: "string \<Rightarrow> string" where
  "ideOidcSecretName vmName = js_slice (vmName @ ''-ide-oidc'') 0 63"

definition ideRedirectUrl :: "string \<Rightarrow> string" where
  "ideRedirectUrl host = ''https://'' @ host @ ''/oauth2/callback''"

section \<open>Objects and clients\<close>

definition KMC_RESOURCE_DEVBOX_IDE :: string where "KMC_RESOURCE_DEVBOX_IDE = ''devbox-ide''"
definition KMC_LABEL_TENANT_NS :: string where "KMC_LABEL_TENANT_NS = KMC_LABEL_NAMESPACE @ ''/namespace''"
definition DEX_DEFAULT_NAMESPACE :: string where "DEX_DEFAULT_NAMESPACE = ''dex''"
definition ENVOY_OIDC_CLIENT_SECRET_KEY :: string where "ENVOY_OIDC_CLIENT_SECRET_KEY = ''client-secret''"

definition dex_gvp :: gvp where
  "dex_gvp = \<lparr>gvp_group = ''dex.coreos.com'', gvp_version = ''v1'', gvp_plural = ''oauth2clients''\<rparr>"

record dex_client =
  dxc_apiVersion :: string
  dxc_kind :: string
  dxc_name :: string
  dxc_namespace :: "string option"
  dxc_labels :: "string jsobj option"
  dxc_resourceVersion :: "string option"
  dxc_id :: "string option"
  dxc_secret :: "string option"
  dxc_redirectURIs :: "string list option"
  dxc_public :: "bool option"
  dxc_displayName :: "string option"

text \<open>The \<open>data\<close> of a Secret is in base 64; \<open>stringData\<close> is written in clear.\<close>

record kube_secret =
  kse_name :: "string option"
  kse_namespace :: "string option"
  kse_labels :: "string jsobj option"
  kse_resourceVersion :: "string option"
  kse_type :: "string option"
  kse_data :: "string jsobj option"
  kse_stringData :: "string jsobj option"

record 's secret_api =
  sca_read :: "string \<Rightarrow> string \<Rightarrow> ('s, kube_secret) act"
  sca_create :: "string \<Rightarrow> kube_secret \<Rightarrow> ('s, kube_secret) act"
  sca_replace :: "string \<Rightarrow> string \<Rightarrow> kube_secret \<Rightarrow> ('s, kube_secret) act"
  sca_delete :: "string \<Rightarrow> string \<Rightarrow> ('s, unit) act"

record 's dex_env =
  dxe_clients :: "('s, dex_client) clients"
  dxe_secrets :: "string \<Rightarrow> 's secret_api result"
  dxe_fresh :: "'s \<Rightarrow> string"

definition with_secrets :: "'s dex_env \<Rightarrow> string \<Rightarrow> ('s secret_api \<Rightarrow> ('s, 'a) act) \<Rightarrow> ('s, 'a) act" where
  "with_secrets env cluster k = act_bind (act_lift (dxe_secrets env cluster)) k"

text \<open>A \<open>code\<close> decides alone; without one the message does.\<close>

definition code_is :: "int \<Rightarrow> thrown \<Rightarrow> bool option" where
  "code_is n err =
     (case ep_code (thrown_props err) of
        None \<Rightarrow> None
      | Some (NumCode k) \<Rightarrow> Some (k = n)
      | Some (StrCode s) \<Rightarrow> Some (js_number s = Fin (of_int n)))"

definition dex_isNotFound :: "thrown \<Rightarrow> bool" where
  "dex_isNotFound err =
     (case code_is 404 err of
        Some b \<Rightarrow> b
      | None \<Rightarrow> let m = message_or_text err in js_includes m ''404'' \<or> js_includes (js_lower m) ''not found'')"

definition dex_isAlreadyExists :: "thrown \<Rightarrow> bool" where
  "dex_isAlreadyExists err =
     (case code_is 409 err of
        Some b \<Rightarrow> b
      | None \<Rightarrow> let m = message_or_text err in js_includes m ''already exists'' \<or> js_includes m ''409'')"

definition ideLabels :: "string \<Rightarrow> string \<Rightarrow> string jsobj" where
  "ideLabels ns vmName =
     obj_lit [(MANAGED_BY_LABEL, KMC_MANAGED_BY), (KMC_LABEL_RESOURCE, KMC_RESOURCE_DEVBOX_IDE),
       (KMC_LABEL_VM, vmName), (KMC_LABEL_TENANT_NS, ns)]"

section \<open>Base 64\<close>

definition b64_char :: "nat \<Rightarrow> char" where
  "b64_char n = (''ABCDEFGHIJKLMNOPQRSTUVWXYZabcdefghijklmnopqrstuvwxyz0123456789+/'') ! (n mod 64)"

fun base64 :: "nat list \<Rightarrow> string" where
  "base64 [] = []"
| "base64 [a] = [b64_char (a div 4), b64_char (a mod 4 * 16), CHR ''='', CHR ''='']"
| "base64 [a, b] = [b64_char (a div 4), b64_char (a mod 4 * 16 + b div 16), b64_char (b mod 16 * 4), CHR ''='']"
| "base64 (a # b # c # bs) =
     [b64_char (a div 4), b64_char (a mod 4 * 16 + b div 16), b64_char (b mod 16 * 4 + c div 64), b64_char (c mod 64)]
     @ base64 bs"

section \<open>Ensuring and deleting the client\<close>

record oidc_request =
  oir_cluster :: string
  oir_namespace :: string
  oir_vmName :: string
  oir_host :: string
  oir_dexNamespace :: "string option"

definition dex_client_body :: "oidc_request \<Rightarrow> string \<Rightarrow> dex_client option \<Rightarrow> string \<Rightarrow> dex_client" where
  "dex_client_body inp dexNs existing secret =
     \<lparr>dxc_apiVersion = ''dex.coreos.com/v1'', dxc_kind = ''OAuth2Client'',
      dxc_name = dexIdToName (dexDevBoxClientId (oir_namespace inp) (oir_vmName inp)), dxc_namespace = Some dexNs,
      dxc_labels = Some (ideLabels (oir_namespace inp) (oir_vmName inp)),
      dxc_resourceVersion = opt_or_undef (fld existing dxc_resourceVersion),
      dxc_id = Some (dexDevBoxClientId (oir_namespace inp) (oir_vmName inp)), dxc_secret = Some secret,
      dxc_redirectURIs = Some [ideRedirectUrl (oir_host inp)], dxc_public = Some False,
      dxc_displayName = Some (oir_namespace inp @ ''/'' @ oir_vmName inp @ '' IDE'')\<rparr>"

definition write_dex_client ::
  "('s, dex_client) custom_api \<Rightarrow> oidc_request \<Rightarrow> string \<Rightarrow> dex_client option \<Rightarrow> string \<Rightarrow> ('s, unit) act" where
  "write_dex_client api inp dexNs existing secret =
     (let body = dex_client_body inp dexNs existing secret in
      case existing of
        None \<Rightarrow>
          act_catch (act_bind (api_create_ns api dex_gvp dexNs body) (\<lambda>_. act_return ())) (\<lambda>err.
            if dex_isAlreadyExists err then act_return ()
            else act_fail (mk_error_cause (''Failed to create Dex OAuth2Client in '' @ dexNs @ '': '' @ format_error err @
              ''. Grant create on oauth2clients.dex.coreos.com in namespace '' @ dexNs @ ''.'') err))
      | Some ex \<Rightarrow>
          if dxc_redirectURIs ex = dxc_redirectURIs body \<and> dxc_id ex = dxc_id body \<and> dxc_secret ex = Some secret
          then act_return ()
          else act_catch (act_bind (api_replace_ns api dex_gvp dexNs (dxc_name body) body) (\<lambda>_. act_return ())) (\<lambda>err.
            act_fail (mk_error_cause (''Failed to update Dex OAuth2Client '' @ dexNs @ ''/'' @ dxc_name body @ '': '' @
              format_error err) err)))"

definition oidc_secret :: "oidc_request \<Rightarrow> string \<Rightarrow> kube_secret" where
  "oidc_secret inp secret =
     \<lparr>kse_name = Some (ideOidcSecretName (oir_vmName inp)), kse_namespace = Some (oir_namespace inp),
      kse_labels = Some (ideLabels (oir_namespace inp) (oir_vmName inp)), kse_resourceVersion = None,
      kse_type = Some ''Opaque'', kse_data = None,
      kse_stringData = Some (obj_lit [(ENVOY_OIDC_CLIENT_SECRET_KEY, secret)])\<rparr>"

definition write_oidc_secret :: "'s secret_api \<Rightarrow> oidc_request \<Rightarrow> string \<Rightarrow> ('s, unit) act" where
  "write_oidc_secret core inp secret =
     (let ns = oir_namespace inp; nm = ideOidcSecretName (oir_vmName inp); body = oidc_secret inp secret in
      act_catch
        (act_bind (sca_read core ns nm) (\<lambda>current.
           if opt_get (kse_data current) ENVOY_OIDC_CLIENT_SECRET_KEY = Some (base64 (concat (map utf8_bytes secret)))
           then act_return ()
           else act_bind (sca_replace core ns nm (body\<lparr>kse_resourceVersion := kse_resourceVersion current\<rparr>))
             (\<lambda>_. act_return ())))
        (\<lambda>err.
          if \<not> dex_isNotFound err
          then act_fail (mk_error_cause (''Could not write OIDC client secret '' @ ns @ ''/'' @ nm @ '': '' @ format_error err) err)
          else act_catch (act_bind (sca_create core ns body) (\<lambda>_. act_return ())) (\<lambda>createErr.
            if dex_isAlreadyExists createErr then act_return ()
            else act_fail (mk_error_cause (''Failed to create OIDC client secret '' @ ns @ ''/'' @ nm @ '': '' @
              format_error createErr) createErr))))"

definition dex_namespace :: "string option \<Rightarrow> string" where
  "dex_namespace ns = opt_default DEX_DEFAULT_NAMESPACE (trim_or_undef ns)"

text \<open>The result is the id of the client and the name of the Secret.\<close>

definition ensureDevBoxOidcClient :: "'s dex_env \<Rightarrow> oidc_request \<Rightarrow> ('s, string \<times> string) act" where
  "ensureDevBoxOidcClient env inp =
     (let dexNs = dex_namespace (oir_dexNamespace inp);
          clientID = dexDevBoxClientId (oir_namespace inp) (oir_vmName inp); crName = dexIdToName clientID in
      with_custom (dxe_clients env) (oir_cluster inp) (\<lambda>api.
      with_secrets env (oir_cluster inp) (\<lambda>core.
      act_bind
        (act_catch (act_bind (api_get_ns api dex_gvp dexNs crName) (\<lambda>ex. act_return (Some ex))) (\<lambda>err.
           if dex_isNotFound err then act_return None
           else act_fail (mk_error_cause (''Could not read Dex OAuth2Client '' @ dexNs @ ''/'' @ crName @ '': '' @
             format_error err @ ''. Grant get/create/delete on oauth2clients.dex.coreos.com in namespace '' @ dexNs @ ''.'') err)))
        (\<lambda>existing.
      act_bind (act_read (dxe_fresh env)) (\<lambda>fresh.
        let secret = opt_default fresh (trim_or_undef (fld existing dxc_secret)) in
        act_seq (write_dex_client api inp dexNs existing secret)
          (act_seq (write_oidc_secret core inp secret)
            (act_return (clientID, ideOidcSecretName (oir_vmName inp)))))))))"

definition delete_oidc_secret :: "'s secret_api \<Rightarrow> string \<Rightarrow> string \<Rightarrow> string \<Rightarrow> ('s, unit) act" where
  "delete_oidc_secret core ns secretName nm =
     act_or
       (act_bind (sca_read core ns nm) (\<lambda>secret.
          let ours = (opt_get (kse_labels secret) MANAGED_BY_LABEL = Some KMC_MANAGED_BY \<and>
                opt_get (kse_labels secret) KMC_LABEL_RESOURCE = Some KMC_RESOURCE_DEVBOX_IDE) in
          act_when (nm = secretName \<or> ours) (sca_delete core ns nm))) ()"

definition deleteDevBoxOidcClient ::
  "'s dex_env \<Rightarrow> string \<Rightarrow> string \<Rightarrow> string \<Rightarrow> string option \<Rightarrow> ('s, unit) act" where
  "deleteDevBoxOidcClient env cluster ns vmName dexNamespace =
     (let dexNs = dex_namespace dexNamespace; crName = dexIdToName (dexDevBoxClientId ns vmName);
          secretName = ideOidcSecretName vmName in
      with_custom (dxe_clients env) cluster (\<lambda>api.
      with_secrets env cluster (\<lambda>core.
        act_seq (act_or (api_delete_ns api dex_gvp dexNs crName) ())
          (act_each (delete_oidc_secret core ns secretName) [secretName, ''gateway-sso-oidc'']))))"

section \<open>The base-32 text\<close>

text \<open>The specification: the bits of the bytes, most significant first, in groups of five.\<close>

definition byte_bits :: "nat \<Rightarrow> bool list" where
  "byte_bits b = map (\<lambda>i. bit b i) (rev [0..<8])"

definition group_value :: "bool list \<Rightarrow> nat" where
  "group_value bs = foldl (\<lambda>n b. 2 * n + of_bool b) 0 bs"

fun b32_text :: "bool list \<Rightarrow> string" where
  "b32_text (a # b # c # d # e # bs) = BASE32_ALPHABET ! group_value [a, b, c, d, e] # b32_text bs"
| "b32_text [] = []"
| "b32_text bs = [BASE32_ALPHABET ! group_value (bs @ replicate (5 - length bs) False)]"

lemma b32_text_group: "length g = 5 \<Longrightarrow> b32_text (g @ bs) = BASE32_ALPHABET ! group_value g # b32_text bs"
  by (auto simp: length_Suc_conv numeral_eq_Suc)

lemma b32_text_short:
  "bs \<noteq> [] \<Longrightarrow> length bs < 5 \<Longrightarrow> b32_text bs = [BASE32_ALPHABET ! group_value (bs @ replicate (5 - length bs) False)]"
  by (cases bs rule: b32_text.cases) auto

text \<open>The lowest \<open>n\<close> bits of a word, most significant first.\<close>

definition pending :: "nat \<Rightarrow> 32 word \<Rightarrow> bool list" where
  "pending n v = map (\<lambda>i. bit v i) (rev [0..<n])"

lemma length_pending [simp]: "length (pending n v) = n"
  by (simp add: pending_def)

lemma pending_split:
  assumes "m \<le> n"
  shows "pending n v = pending (n - m) (drop_bit m v) @ pending m v"
proof -
  have "[0..<n] = [0..<m] @ map (\<lambda>i. i + m) [0..<n - m]"
    using assms upt_add_eq_append [of 0 m "n - m"] by (simp add: map_add_upt)
  then show ?thesis by (simp add: pending_def rev_map bit_drop_bit_eq comp_def add.commute)
qed

lemma take_5: "take_bit 5 (n :: nat) = group_value [bit n 4, bit n 3, bit n 2, bit n 1, bit n 0]"
proof -
  have "of_bool (bit n k) = n div 2 ^ k mod 2" for k
    by (simp add: bit_iff_odd of_bool_odd_eq_mod_2)
  then have "group_value [bit n 4, bit n 3, bit n 2, bit n 1, bit n 0] =
      2 * (2 * (2 * (2 * (n div 16 mod 2) + n div 8 mod 2) + n div 4 mod 2) + n div 2 mod 2) + n mod 2"
    by (simp add: group_value_def)
  moreover have "take_bit 5 n = n mod 32" by (simp add: take_bit_eq_mod)
  moreover have "n mod 32 = 2 * (n div 2 mod 16) + n mod 2"
    using mod_mult2_eq [of n 2 16] by simp
  moreover have "n div 2 mod 16 = 2 * (n div 4 mod 8) + n div 2 mod 2"
    using mod_mult2_eq [of "n div 2" 2 8] by (simp add: div_mult2_eq [of n 2 2, simplified])
  moreover have "n div 4 mod 8 = 2 * (n div 8 mod 4) + n div 4 mod 2"
    using mod_mult2_eq [of "n div 4" 2 4] by (simp add: div_mult2_eq [of n 4 2, simplified])
  moreover have "n div 8 mod 4 = 2 * (n div 16 mod 2) + n div 8 mod 2"
    using mod_mult2_eq [of "n div 8" 2 2] by (simp add: div_mult2_eq [of n 8 2, simplified])
  ultimately show ?thesis by simp
qed

lemma unat_and_31: "unat (v AND 31 :: 32 word) = take_bit 5 (unat v)"
proof -
  have "(31 :: 32 word) = mask 5" by (simp add: mask_eq_exp_minus_1)
  then have "v AND 31 = take_bit 5 v" by (simp only: take_bit_eq_mask)
  then show ?thesis by (simp only: unsigned_take_bit_eq)
qed

lemma letter_of_pending: "b32_letter v = BASE32_ALPHABET ! group_value (pending 5 v)"
proof -
  have "pending 5 v = [bit v 4, bit v 3, bit v 2, bit v 1, bit v 0]"
    by (simp add: pending_def numeral_eq_Suc)
  then show ?thesis by (simp add: b32_letter_def unat_and_31 take_5 bit_unsigned_iff)
qed

lemma emit_groups_text:
  assumes "emit_groups n v = (out, rest)"
  shows "rest < 5 \<and> b32_text (pending n v @ bs) = out @ b32_text (pending rest v @ bs)"
  using assms
proof (induction n v arbitrary: out rule: emit_groups.induct)
  case (1 n v)
  show ?case
  proof (cases "5 \<le> n")
    case False
    then show ?thesis using 1(2) by (simp add: emit_groups.simps [of n])
  next
    case True
    then obtain more where more: "emit_groups (n - 5) v = (more, rest)" "out = b32_letter (drop_bit (n - 5) v) # more"
      using 1(2) by (auto simp: emit_groups.simps [of n] split: prod.splits)
    have "pending n v = pending 5 (drop_bit (n - 5) v) @ pending (n - 5) v"
      using pending_split [of "n - 5" n v] True by simp
    then show ?thesis
      using 1(1) [OF True more(1)] by (simp add: b32_text_group letter_of_pending more(2))
  qed
qed

lemma pending_push:
  assumes "n < 5" "byte < 256"
  shows "pending (n + 8) (push_bit 8 v OR of_nat byte) = pending n v @ byte_bits byte"
proof -
  let ?w = "push_bit 8 v OR of_nat byte :: 32 word"
  have lo: "bit ?w i = bit byte i" if "i < 8" for i
    using that by (simp add: bit_or_iff bit_push_bit_iff bit_of_nat_iff)
  have hi: "bit ?w (i + 8) = bit v i" if "i < n" for i
  proof -
    have "\<not> bit byte (i + 8)"
    proof -
      have "take_bit 8 byte = byte" using assms(2) by (simp add: take_bit_nat_eq_self_iff)
      then have "bit byte (i + 8) = bit (take_bit 8 byte) (i + 8)" by simp
      then show ?thesis by (simp add: bit_take_bit_iff)
    qed
    then show ?thesis using that assms(1) by (simp add: bit_or_iff bit_push_bit_iff bit_of_nat_iff)
  qed
  have "pending (n + 8) ?w = pending n (drop_bit 8 ?w) @ pending 8 ?w"
    using pending_split [of 8 "n + 8"] by simp
  moreover have "bit (drop_bit 8 ?w) i = bit v i" if "i < n" for i
    using hi [OF that] by (simp only: bit_drop_bit_eq o_apply add.commute)
  then have "pending n (drop_bit 8 ?w) = pending n v"
    unfolding pending_def by (intro map_cong refl) (simp only: set_rev set_upt atLeastLessThan_iff)
  moreover have "pending 8 ?w = byte_bits byte"
    using lo by (simp add: pending_def byte_bits_def)
  ultimately show ?thesis by simp
qed

lemma b32_steps:
  assumes "\<forall>b \<in> set bytes. b < 256" "n < 5" "foldl b32_step (n, v, out) bytes = (n', v', out')"
  shows "n' < 5 \<and> out @ b32_text (pending n v @ concat (map byte_bits bytes)) = out' @ b32_text (pending n' v')"
  using assms
proof (induction bytes arbitrary: n v out)
  case Nil
  then show ?case by simp
next
  case (Cons b bytes)
  let ?v = "push_bit 8 v OR of_nat b"
  obtain letters rest where e: "emit_groups (n + 8) ?v = (letters, rest)" by fastforce
  have step: "b32_step (n, v, out) b = (rest, ?v, out @ letters)"
    by (simp add: b32_step_def Let_def e)
  have t: "rest < 5" "b32_text (pending (n + 8) ?v @ concat (map byte_bits bytes)) =
      letters @ b32_text (pending rest ?v @ concat (map byte_bits bytes))"
    using emit_groups_text [OF e] by auto
  have "pending (n + 8) ?v = pending n v @ byte_bits b"
    using Cons.prems by (intro pending_push) auto
  then show ?case
    using Cons.IH [of rest ?v "out @ letters"] Cons.prems t by (simp add: step)
qed

lemma payload_bytes: "\<forall>b \<in> set (id_payload cid). b < 256"
  using utf8_bytes_small by (auto simp: id_payload_def FNV64_EMPTY_def)

lemma dexIdToName_text: "dexIdToName cid = b32_text (concat (map byte_bits (id_payload cid)))"
proof -
  obtain n v out where f: "foldl b32_step (0, 0, []) (id_payload cid) = (n, v, out)"
    using prod_cases3 by blast
  have t: "n < 5" "b32_text (concat (map byte_bits (id_payload cid))) = out @ b32_text (pending n v)"
    using b32_steps [OF payload_bytes _ f] by (simp_all add: pending_def)
  show ?thesis
  proof (cases "n = 0")
    case True
    then show ?thesis by (simp add: dexIdToName_def f t pending_def)
  next
    case False
    have "pending 5 (push_bit (5 - n) v) = pending n (drop_bit (5 - n) (push_bit (5 - n) v)) @ pending (5 - n) (push_bit (5 - n) v)"
      using pending_split [of "5 - n" 5] t(1) by simp
    also have "pending (5 - n) (push_bit (5 - n) v) = replicate (5 - n) False"
    proof -
      have "pending (5 - n) (push_bit (5 - n) v) = map (\<lambda>_. False) (rev [0..<5 - n])"
        unfolding pending_def by (intro map_cong refl) (simp add: bit_push_bit_iff)
      then show ?thesis by (simp add: map_replicate_const)
    qed
    also have "pending n (drop_bit (5 - n) (push_bit (5 - n) v)) = pending n v"
      using t(1) by (auto simp: pending_def bit_drop_bit_eq bit_push_bit_iff)
    finally have "b32_letter (push_bit (5 - n) v) = BASE32_ALPHABET ! group_value (pending n v @ replicate (5 - n) False)"
      by (simp add: letter_of_pending)
    moreover have "pending n v \<noteq> []" using False by (simp flip: length_greater_0_conv)
    ultimately show ?thesis
      using False t by (simp add: dexIdToName_def f b32_text_short)
  qed
qed

section \<open>Different clients have different names\<close>

lemma group_value_inj:
  assumes "length a = 5" "length b = 5" "group_value a = group_value b"
  shows "a = b"
proof -
  have "horner_sum of_bool 2 (rev xs) = group_value xs" for xs :: "bool list"
  proof (induction xs rule: rev_induct)
    case (snoc x xs)
    then show ?case by (simp add: group_value_def)
  qed (simp add: group_value_def)
  then have "horner_sum of_bool 2 (rev a) = (horner_sum of_bool 2 (rev b) :: nat)"
    using assms(3) by simp
  then have "map (bit (horner_sum of_bool 2 (rev a) :: nat)) [0..<5] = map (bit (horner_sum of_bool 2 (rev b) :: nat)) [0..<5]"
    by simp
  moreover have "map (bit (horner_sum of_bool 2 (rev xs) :: nat)) [0..<5] = rev xs" if "length xs = 5" for xs
    by (rule nth_equalityI) (simp_all add: that bit_horner_sum_bit_iff)
  ultimately show ?thesis using assms(1,2) by simp
qed

lemma group_value_less: "group_value bs < 2 ^ length bs"
proof (induction bs rule: rev_induct)
  case (snoc x xs)
  then show ?case by (cases x) (simp_all add: group_value_def)
qed (simp add: group_value_def)

lemma letters_inj:
  assumes "length a = 5" "length b = 5" "BASE32_ALPHABET ! group_value a = BASE32_ALPHABET ! group_value b"
  shows "a = b"
proof -
  have d: "distinct BASE32_ALPHABET" "length BASE32_ALPHABET = 32" by (simp_all add: BASE32_ALPHABET_def)
  have "group_value a < length BASE32_ALPHABET" "group_value b < length BASE32_ALPHABET"
    using group_value_less [of a] group_value_less [of b] assms(1,2) d(2) by simp_all
  then have "group_value a = group_value b" using assms(3) nth_eq_iff_index_eq [OF d(1)] by blast
  then show ?thesis by (rule group_value_inj [OF assms(1,2)])
qed

lemma length_b32_text: "length (b32_text bs) = (length bs + 4) div 5"
  by (induction bs rule: b32_text.induct) simp_all

lemma b32_text_inj: "length bs = length cs \<Longrightarrow> b32_text bs = b32_text cs \<Longrightarrow> bs = cs"
proof (induction "length bs" arbitrary: bs cs rule: less_induct)
  case less
  show ?case
  proof (cases "5 \<le> length bs")
    case True
    let ?f = "take 5 bs" and ?g = "take 5 cs"
    have len: "length ?f = 5" "length ?g = 5" using True less.prems(1) by simp_all
    have "b32_text bs = BASE32_ALPHABET ! group_value ?f # b32_text (drop 5 bs)"
      "b32_text cs = BASE32_ALPHABET ! group_value ?g # b32_text (drop 5 cs)"
      using b32_text_group [OF len(1), of "drop 5 bs"] b32_text_group [OF len(2), of "drop 5 cs"] by simp_all
    then have "BASE32_ALPHABET ! group_value ?f = BASE32_ALPHABET ! group_value ?g" "b32_text (drop 5 bs) = b32_text (drop 5 cs)"
      using less.prems(2) by simp_all
    then have "?f = ?g" "drop 5 bs = drop 5 cs"
      using letters_inj [OF len] less.hyps [of "drop 5 bs" "drop 5 cs"] True less.prems(1) by auto
    then show ?thesis by (metis append_take_drop_id)
  next
    case False
    show ?thesis
    proof (cases "bs = []")
      case True
      then show ?thesis using less.prems(1) by simp
    next
      case ne: False
      then have "cs \<noteq> []" "length cs < 5" using less.prems(1) False by auto
      then have "BASE32_ALPHABET ! group_value (bs @ replicate (5 - length bs) False)
          = BASE32_ALPHABET ! group_value (cs @ replicate (5 - length cs) False)"
        using less.prems(2) ne False by (simp add: b32_text_short)
      then have "bs @ replicate (5 - length bs) False = cs @ replicate (5 - length cs) False"
        using False \<open>length cs < 5\<close> by (intro letters_inj) simp_all
      then show ?thesis using less.prems(1) by simp
    qed
  qed
qed

lemma length_byte_bits: "length (concat (map byte_bits bytes)) = 8 * length bytes"
  by (induction bytes) (simp_all add: byte_bits_def)

lemma byte_bits_inj: "x < 256 \<Longrightarrow> y < 256 \<Longrightarrow> byte_bits x = byte_bits y \<Longrightarrow> x = y"
proof -
  assume b: "x < 256" "y < 256" "byte_bits x = byte_bits y"
  then have "\<forall>i < 8. bit x i = bit y i" by (simp add: byte_bits_def)
  moreover have "take_bit 8 x = x" "take_bit 8 y = y" using b by (simp_all add: take_bit_nat_eq_self_iff)
  ultimately show "x = y" by (metis bit_eq_iff bit_take_bit_iff)
qed

lemma bytes_bits_inj:
  assumes "\<forall>b \<in> set xs. b < 256" "\<forall>b \<in> set ys. b < 256" "length xs = length ys"
    and "concat (map byte_bits xs) = concat (map byte_bits ys)"
  shows "xs = ys"
  using assms(3,1,2,4)
proof (induction xs ys rule: list_induct2)
  case (Cons x xs y ys)
  have "length (byte_bits x) = length (byte_bits y)" by (simp add: byte_bits_def)
  then show ?case using Cons byte_bits_inj [of x y] by simp
qed simp

lemma utf8_concat_inj: "concat (map utf8_bytes a) = concat (map utf8_bytes b) \<Longrightarrow> a = b"
proof -
  have "utf8_decode (concat (map utf8_bytes s)) = Some s" for s
    by (induction s) (simp_all add: utf8_decode_char)
  then show "concat (map utf8_bytes a) = concat (map utf8_bytes b) \<Longrightarrow> a = b"
    by (metis option.inject)
qed

lemma dexIdToName_inj: "dexIdToName a = dexIdToName b \<longleftrightarrow> a = b"
proof
  assume e: "dexIdToName a = dexIdToName b"
  let ?x = "id_payload a" and ?y = "id_payload b"
  have t: "b32_text (concat (map byte_bits ?x)) = b32_text (concat (map byte_bits ?y))"
    using e by (simp add: dexIdToName_text)
  then have "(8 * length ?x + 4) div 5 = (8 * length ?y + 4) div 5"
    using length_b32_text length_byte_bits by metis
  then have len: "length ?x = length ?y" by linarith
  then have "concat (map byte_bits ?x) = concat (map byte_bits ?y)"
    using t by (intro b32_text_inj) (simp_all only: length_byte_bits)
  then have "?x = ?y" by (rule bytes_bits_inj [OF payload_bytes payload_bytes len])
  then show "a = b" by (simp add: id_payload_def utf8_concat_inj)
qed simp

lemma client_id_inj:
  assumes "CHR ''.'' \<notin> set ns" "CHR ''.'' \<notin> set ns'"
  shows "dexDevBoxClientId ns vm = dexDevBoxClientId ns' vm' \<longleftrightarrow> ns = ns' \<and> vm = vm'"
proof
  assume "dexDevBoxClientId ns vm = dexDevBoxClientId ns' vm'"
  then have e: "ns @ CHR ''.'' # vm = ns' @ CHR ''.'' # vm'" by (simp add: dexDevBoxClientId_def)
  have "takeWhile (\<lambda>c. c \<noteq> CHR ''.'') (n @ CHR ''.'' # v) = n" if "CHR ''.'' \<notin> set n" for n v
    using that by (subst takeWhile_append2) auto
  then have "ns = ns'" using e assms by metis
  then show "ns = ns' \<and> vm = vm'" using e by simp
qed simp

section \<open>Properties\<close>

text \<open>
  C38. The name under which the client of a Dev Box is stored. The loop over 32-bit values computes
  the base-32 text of the bits of the id followed by the eight constant bytes, for an id of any
  length, and no two machines of the cluster share a client: the names are equal only for the same
  namespace and machine, when namespaces contain no dot.
\<close>

theorem dex_client_names:
  assumes "CHR ''.'' \<notin> set ns" "CHR ''.'' \<notin> set ns'"
  shows "dexIdToName cid = b32_text (concat (map byte_bits (id_payload cid))) \<and>
    (dexIdToName (dexDevBoxClientId ns vm) = dexIdToName (dexDevBoxClientId ns' vm') \<longleftrightarrow> ns = ns' \<and> vm = vm')"
  by (simp only: dexIdToName_inj client_id_inj [OF assms] dexIdToName_text [of cid] simp_thms)

lemma dex_client_names_witness:
  "dexIdToName (dexDevBoxClientId ''team'' ''a.b'') \<noteq> dexIdToName (dexDevBoxClientId ''team-a'' ''b'')"
proof -
  have "CHR ''.'' \<notin> set ''team''" "CHR ''.'' \<notin> set ''team-a''" by simp_all
  from conjunct2 [OF dex_client_names [OF this]] show ?thesis by simp
qed

lemma dex_name_example: "dexIdToName ''a'' = ''mhf7fhheqqrcgji''"
  by code_simp

end
