(* ===== verification/Dev_Box_Access.thy ===== *)
theory Dev_Box_Access
  imports Http_Routes Dev_Box_Oidc
begin

text \<open>
  \<open>devboxes/access.server.ts\<close>: what makes a Dev Box reachable. A load balancer for SSH and, when
  the cluster has an Envoy gateway, a route to the editor of the box behind a sign-in; and the
  configuration of both in \<open>lib/k8s/cluster-config.server.ts\<close>. Logging is left out.
\<close>

section \<open>Configuration\<close>

record devbox_oidc =
  dbo_issuer :: string
  dbo_clientNamespace :: "string option"
  dbo_cookieDomain :: "string option"
  dbo_scopes :: "string list option"

record devbox_envoy =
  dbe_gatewayName :: string
  dbe_gatewayNamespace :: "string option"
  dbe_sectionName :: "string option"
  dbe_hostTemplate :: string
  dbe_oidc :: devbox_oidc

record devbox_metallb =
  dbm_addressPool :: "string option"
  dbm_annotationKey :: "string option"

record devbox_config =
  dbc_metallb :: "devbox_metallb option"
  dbc_envoy :: "devbox_envoy option"

text \<open>The configuration as the file has it: any field may be missing.\<close>

record raw_oidc =
  rwo_issuer :: "string option"
  rwo_clientNamespace :: "string option"
  rwo_cookieDomain :: "string option"
  rwo_scopes :: "string list option"

record raw_envoy =
  rwe_gatewayName :: "string option"
  rwe_gatewayNamespace :: "string option"
  rwe_sectionName :: "string option"
  rwe_hostTemplate :: "string option"
  rwe_oidc :: "raw_oidc option"

record raw_devbox =
  rwd_metallb :: "devbox_metallb option"
  rwd_envoy :: "raw_envoy option"

definition parse_envoy :: "string \<Rightarrow> raw_envoy \<Rightarrow> devbox_envoy result" where
  "parse_envoy clusterId raw =
     (case (trim_or_undef (rwe_gatewayName raw), trim_or_undef (rwe_hostTemplate raw),
            trim_or_undef (fld (rwe_oidc raw) rwo_issuer)) of
        (Some gatewayName, Some hostTemplate, Some issuer) \<Rightarrow> Inr
          \<lparr>dbe_gatewayName = gatewayName, dbe_gatewayNamespace = trim_or_undef (rwe_gatewayNamespace raw),
           dbe_sectionName = trim_or_undef (rwe_sectionName raw), dbe_hostTemplate = hostTemplate,
           dbe_oidc = \<lparr>dbo_issuer = issuer, dbo_clientNamespace = trim_or_undef (fld (rwe_oidc raw) rwo_clientNamespace),
             dbo_cookieDomain = trim_or_undef (fld (rwe_oidc raw) rwo_cookieDomain),
             dbo_scopes = map_option trim_list (fld (rwe_oidc raw) rwo_scopes)\<rparr>\<rparr>
      | _ \<Rightarrow> throw (''Cluster \"'' @ clusterId @ ''\": devbox.envoy requires gatewayName, hostTemplate, and oidc.issuer''))"

definition parseDevboxConfig :: "raw_devbox option \<Rightarrow> string \<Rightarrow> devbox_config option result" where
  "parseDevboxConfig raw0 clusterId =
     (case raw0 of
        None \<Rightarrow> Inr None
      | Some raw \<Rightarrow>
          let addressPool = trim_or_undef (fld (rwd_metallb raw) dbm_addressPool);
              annotationKey = trim_or_undef (fld (rwd_metallb raw) dbm_annotationKey) in
          res_bind (case rwd_envoy raw of None \<Rightarrow> Inr None
              | Some e \<Rightarrow> res_bind (parse_envoy clusterId e) (\<lambda>v. Inr (Some v))) (\<lambda>envoy.
            if addressPool = None \<and> envoy = None then Inr None
            else Inr (Some \<lparr>dbc_metallb = map_option (\<lambda>p. \<lparr>dbm_addressPool = Some p, dbm_annotationKey = annotationKey\<rparr>) addressPool,
              dbc_envoy = envoy\<rparr>)))"

section \<open>Names\<close>

definition sshServiceName :: "string \<Rightarrow> string" where
  "sshServiceName vmName = js_slice (vmName @ ''-ssh'') 0 63"

definition ideRouteName :: "string \<Rightarrow> string" where
  "ideRouteName vmName = js_slice (vmName @ ''-ide'') 0 63"

text \<open>
  \<open>s.replaceAll(pat, text)\<close> for a string \<open>pat\<close>: \<open>text\<close> may name the match and what is around it.
  \<open>before\<close> is what comes before \<open>s\<close> in the whole text.
\<close>

fun expand_dollar :: "string \<Rightarrow> string \<Rightarrow> string \<Rightarrow> string \<Rightarrow> string" where
  "expand_dollar before m after [] = []"
| "expand_dollar before m after [c] = [c]"
| "expand_dollar before m after (c # d # cs) =
     (if c = CHR ''$'' \<and> d = CHR ''$'' then CHR ''$'' # expand_dollar before m after cs
      else if c = CHR ''$'' \<and> d = CHR ''&'' then m @ expand_dollar before m after cs
      else if c = CHR ''$'' \<and> d = CHR 0x60 then before @ expand_dollar before m after cs
      else if c = CHR ''$'' \<and> d = CHR 0x27 then after @ expand_dollar before m after cs
      else c # expand_dollar before m after (d # cs))"

function replace_text :: "string \<Rightarrow> string \<Rightarrow> string \<Rightarrow> string \<Rightarrow> string" where
  "replace_text pat txt before s =
     (if pat = [] \<or> s = [] then s
      else if take (length pat) s = pat
        then expand_dollar before pat (drop (length pat) s) txt @
          replace_text pat txt (before @ pat) (drop (length pat) s)
      else hd s # replace_text pat txt (before @ [hd s]) (tl s))"
  by pat_completeness auto
termination by (relation "measure (\<lambda>(pat, txt, before, s). length s)") (auto simp: neq_Nil_conv)

declare replace_text.simps [simp del]

definition ideHostFor :: "devbox_envoy \<Rightarrow> string \<Rightarrow> string \<Rightarrow> string" where
  "ideHostFor cfg vmName ns =
     replace_text ''%namespace%'' ns [] (replace_text ''%name%'' vmName [] (dbe_hostTemplate cfg))"

section \<open>Objects and clients\<close>

definition KMC_RESOURCE_DEVBOX_SSH :: string where "KMC_RESOURCE_DEVBOX_SSH = ''devbox-ssh''"
definition METALLB_ADDRESS_POOL_ANNOTATION :: string where "METALLB_ADDRESS_POOL_ANNOTATION = ''metallb.io/address-pool''"

definition policy_gvp :: gvp where
  "policy_gvp = \<lparr>gvp_group = ''gateway.envoyproxy.io'', gvp_version = ''v1alpha1'', gvp_plural = ''securitypolicies''\<rparr>"

record policy_oidc =
  spo_issuer :: string
  spo_clientID :: string
  spo_clientSecret :: string
  spo_redirectURL :: string
  spo_logoutPath :: string
  spo_passThroughAuthHeader :: bool
  spo_refreshToken :: bool
  spo_accessTokenCookie :: string
  spo_idTokenCookie :: string
  spo_cookieDomain :: "string option"
  spo_scopes :: "string list option"

record policy_jwt =
  spj_optional :: bool
  spj_provider :: string
  spj_issuer :: string
  spj_cookies :: "string list"
  spj_headers :: "(string \<times> string) list"
  spj_jwksUri :: string

text \<open>A rule allows what carries the values of a claim of a provider.\<close>

record policy_rule =
  spr_name :: string
  spr_action :: string
  spr_provider :: string
  spr_claims :: "(string \<times> string \<times> string list) list"

record security_policy =
  sep_apiVersion :: string
  sep_kind :: string
  sep_name :: string
  sep_namespace :: string
  sep_labels :: "string jsobj"
  sep_resourceVersion :: "string option"
  sep_targets :: "(string \<times> string \<times> string) list"
  sep_oidc :: policy_oidc
  sep_jwt :: policy_jwt
  sep_defaultAction :: string
  sep_rules :: "policy_rule list"

record 's access_env =
  ace_routes :: "'s route_env"
  ace_dex :: "'s dex_env"
  ace_policies :: "('s, security_policy) clients"
  ace_config :: "string \<Rightarrow> devbox_config option"

section \<open>Reading\<close>

record dev_box_access =
  dba_accessIpv4 :: "string option"
  dba_sshService :: "string option"
  dba_ideHost :: "string option"
  dba_ideRoute :: "string option"
  dba_envoyConfigured :: bool
  dba_metallbConfigured :: bool
  dba_warning :: "string option"

definition ingress_address :: "kube_service \<Rightarrow> string option" where
  "ingress_address svc =
     (case List.map_filter (\<lambda>i. case trim_or_undef (lbi_ip i) of Some a \<Rightarrow> Some a | None \<Rightarrow> trim_or_undef (lbi_hostname i))
             (opt_default [] (sv_ingress svc)) of
        [] \<Rightarrow> None
      | a # as \<Rightarrow> Some a)"

definition loadDevBoxAccess :: "'s access_env \<Rightarrow> string \<Rightarrow> string \<Rightarrow> string \<Rightarrow> ('s, dev_box_access) act" where
  "loadDevBoxAccess env cluster ns vmName =
     (let cfg = ace_config env cluster; envoy = fld cfg dbc_envoy;
          metallb = truthy (fld (fld cfg dbc_metallb) dbm_addressPool) in
      with_core (rte_be (ace_routes env)) cluster (\<lambda>core.
        act_bind
          (act_or (act_bind (core_read_service core ns (sshServiceName vmName)) (\<lambda>svc.
             act_return (ingress_address svc, Some (sshServiceName vmName)))) (None, None))
          (\<lambda>(ipv4, service). act_return
             \<lparr>dba_accessIpv4 = ipv4, dba_sshService = service,
              dba_ideHost = map_option (\<lambda>e. ideHostFor e vmName ns) envoy,
              dba_ideRoute = map_option (\<lambda>_. ideRouteName vmName) envoy,
              dba_envoyConfigured = (envoy \<noteq> None), dba_metallbConfigured = metallb,
              dba_warning = (if metallb then None
                else Some ''No devbox.metallb.addressPool in clusters.yaml -- SSH VIP was not annotated for an internal pool.'')\<rparr>)))"

section \<open>Creating\<close>

definition ensureDevBoxSshLoadBalancer :: "'s access_env \<Rightarrow> string \<Rightarrow> string \<Rightarrow> string \<Rightarrow> ('s, unit) act" where
  "ensureDevBoxSshLoadBalancer env cluster ns vmName =
     (let metallb = fld (ace_config env cluster) dbc_metallb;
          extra = (case trim_or_undef (fld metallb dbm_addressPool) of
             None \<Rightarrow> []
           | Some pool \<Rightarrow> obj_assign []
               (opt_default METALLB_ADDRESS_POOL_ANNOTATION (trim_or_undef (fld metallb dbm_annotationKey))) pool) in
      act_catch
        (act_bind (createLoadBalancer (rte_be (ace_routes env))
          \<lparr>cbr_cluster = cluster, cbr_namespace = ns, cbr_name = sshServiceName vmName,
           cbr_membership = singleVmMembership vmName,
           cbr_ports = [\<lparr>bp_name = Some ''ssh'', bp_port = Fin 22, bp_targetPort = Fin 22, bp_protocol = Some ''TCP''\<rparr>],
           cbr_serviceType = None,
           cbr_extraLabels = Some (obj_lit [(KMC_LABEL_RESOURCE, KMC_RESOURCE_DEVBOX_SSH), (KMC_LABEL_VM, vmName)]),
           cbr_extraAnnotations = Some extra\<rparr>) (\<lambda>_. act_return ()))
        (\<lambda>err. if js_includes (message_or_text err) ''already exists'' then act_return () else act_fail err))"

definition drop_trailing_slashes :: "string \<Rightarrow> string" where
  "drop_trailing_slashes s = rev (dropWhile (\<lambda>c. c = CHR ''/'') (rev s))"

definition ide_policy :: "devbox_envoy \<Rightarrow> string \<Rightarrow> string \<Rightarrow> string \<Rightarrow> string \<Rightarrow> string \<Rightarrow> security_policy" where
  "ide_policy cfg ns vmName host clientID secretName =
     (let routeName = ideRouteName vmName; issuer = dbo_issuer (dbe_oidc cfg) in
      \<lparr>sep_apiVersion = ''gateway.envoyproxy.io/v1alpha1'', sep_kind = ''SecurityPolicy'', sep_name = routeName,
       sep_namespace = ns,
       sep_labels = obj_lit [(MANAGED_BY_LABEL, KMC_MANAGED_BY), (KMC_LABEL_RESOURCE, KMC_RESOURCE_DEVBOX_IDE),
         (KMC_LABEL_VM, vmName)],
       sep_resourceVersion = None,
       sep_targets = [(''gateway.networking.k8s.io'', ''HTTPRoute'', routeName)],
       sep_oidc = \<lparr>spo_issuer = issuer, spo_clientID = clientID, spo_clientSecret = secretName,
         spo_redirectURL = ''https://'' @ host @ ''/oauth2/callback'', spo_logoutPath = ''/logout'',
         spo_passThroughAuthHeader = True, spo_refreshToken = True, spo_accessTokenCookie = ''AccessToken'',
         spo_idTokenCookie = ''IdToken'', spo_cookieDomain = opt_or_undef (dbo_cookieDomain (dbe_oidc cfg)),
         spo_scopes = (if opt_default [] (dbo_scopes (dbe_oidc cfg)) = [] then None else dbo_scopes (dbe_oidc cfg))\<rparr>,
       sep_jwt = \<lparr>spj_optional = True, spj_provider = ''dex'', spj_issuer = issuer, spj_cookies = [''IdToken''],
         spj_headers = [(''Authorization'', ''Bearer '')], spj_jwksUri = drop_trailing_slashes issuer @ ''/keys''\<rparr>,
       sep_defaultAction = ''Deny'',
       sep_rules = [\<lparr>spr_name = ''allow-humans'', spr_action = ''Allow'', spr_provider = ''dex'',
         spr_claims = [(''iss'', ''String'', [issuer])]\<rparr>]\<rparr>)"

definition ide_route_request :: "devbox_envoy \<Rightarrow> string \<Rightarrow> string \<Rightarrow> string \<Rightarrow> string \<Rightarrow> create_route_request" where
  "ide_route_request cfg cluster ns vmName host =
     \<lparr>crr_cluster = cluster, crr_namespace = ns, crr_name = ideRouteName vmName,
      crr_membership = Some (singleVmMembership vmName), crr_host = host, crr_path = Some ''/'',
      crr_pathType = Some ''PathPrefix'', crr_servicePort = Some (Fin 8080), crr_targetPort = Some (Fin 8080),
      crr_gatewayName = dbe_gatewayName cfg, crr_gatewayNamespace = dbe_gatewayNamespace cfg,
      crr_sectionName = dbe_sectionName cfg, crr_existingServiceName = None,
      crr_extraLabels = Some (obj_lit [(KMC_LABEL_RESOURCE, KMC_RESOURCE_DEVBOX_IDE), (KMC_LABEL_VM, vmName)])\<rparr>"

text \<open>A policy that is there is replaced; where the API has no policies the route stays without one.\<close>

definition write_policy :: "('s, security_policy) custom_api \<Rightarrow> string \<Rightarrow> security_policy \<Rightarrow> ('s, unit) act" where
  "write_policy api ns policy =
     act_catch (act_bind (api_create_ns api policy_gvp ns policy) (\<lambda>_. act_return ())) (\<lambda>err.
       if \<not> js_includes (message_or_text err) ''already exists'' then
         (if dex_isNotFound err then act_return ()
          else act_fail (mk_error_cause (''Failed to create SecurityPolicy: '' @ format_error err) err))
       else act_catch
         (act_bind (api_get_ns api policy_gvp ns (sep_name policy)) (\<lambda>current.
          act_bind (api_replace_ns api policy_gvp ns (sep_name policy)
              (policy\<lparr>sep_resourceVersion := sep_resourceVersion current\<rparr>)) (\<lambda>_. act_return ())))
         (\<lambda>replaceErr. act_fail (mk_error_cause (''Failed to update SecurityPolicy: '' @ format_error replaceErr) replaceErr)))"

text \<open>The host of the editor, or why there is none.\<close>

datatype ide_result = IdeHost string | IdeSkipped string

definition ensureDevBoxIdeRoute :: "'s access_env \<Rightarrow> string \<Rightarrow> string \<Rightarrow> string \<Rightarrow> ('s, ide_result) act" where
  "ensureDevBoxIdeRoute env cluster ns vmName =
     (case fld (ace_config env cluster) dbc_envoy of
        None \<Rightarrow> act_return (IdeSkipped
          ''devbox.envoy is not configured for this cluster -- created the box without an IDE URL.'')
      | Some cfg \<Rightarrow>
          let host = ideHostFor cfg vmName ns in
          act_bind (ensureDevBoxOidcClient (ace_dex env)
            \<lparr>oir_cluster = cluster, oir_namespace = ns, oir_vmName = vmName, oir_host = host,
             oir_dexNamespace = dbo_clientNamespace (dbe_oidc cfg)\<rparr>) (\<lambda>(clientID, secretName).
          act_seq
            (act_catch
              (act_bind (createHttpRoute (ace_routes env) (ide_route_request cfg cluster ns vmName host)) (\<lambda>_. act_return ()))
              (\<lambda>err. if \<not> js_includes (message_or_text err) ''already exists'' then act_fail err else act_return ()))
            (with_custom (ace_policies env) cluster (\<lambda>api.
              act_seq (write_policy api ns (ide_policy cfg ns vmName host clientID secretName))
                (act_return (IdeHost host))))))"

section \<open>Deleting\<close>

definition deleteDevBoxCompanions :: "'s access_env \<Rightarrow> string \<Rightarrow> string \<Rightarrow> string \<Rightarrow> ('s, unit) act" where
  "deleteDevBoxCompanions env cluster ns vmName =
     (let sshName = sshServiceName vmName; ideName = ideRouteName vmName; be = rte_be (ace_routes env) in
      with_custom (ace_policies env) cluster (\<lambda>api.
        act_seq (act_or (deleteLoadBalancer be cluster ns sshName) ())
          (act_seq (act_or (deleteHttpRoute (ace_routes env) cluster ns ideName) ())
            (act_seq (act_or (with_core be cluster (\<lambda>core. core_delete_service core ns ideName)) ())
              (act_seq (act_or (api_delete_ns api policy_gvp ns ideName) ())
                (case fld (ace_config env cluster) dbc_envoy of
                   None \<Rightarrow> act_return ()
                 | Some envoy \<Rightarrow> deleteDevBoxOidcClient (ace_dex env) cluster ns vmName
                     (dbo_clientNamespace (dbe_oidc envoy))))))))"

end
