(* ===== verification/Vm_Lifecycle.thy ===== *)
theory Vm_Lifecycle
  imports Vm_Create Dev_Box_Access Http_Client
begin

text \<open>
  \<open>vms/vms.server.ts\<close>, what happens to a machine after it has been created: new labels, sizes and
  run strategies (up to the reload of the page that \<open>updateVm\<close> ends with), starting and stopping,
  and deletion with or without its disks. \<open>k8sFetch\<close> of \<open>lib/k8s/clients.server.ts\<close> is a parameter
  that answers with a status and a text. Logging is left out.
\<close>

record 's life_env =
  lfe_vm :: "'s vm_env"
  lfe_claims :: "('s, ip_address_cr) clients"
  lfe_access :: "'s access_env"
  lfe_put :: "string \<Rightarrow> string \<Rightarrow> ('s, nat \<times> string) act"
  lfe_fmt :: "rat \<Rightarrow> string"

section \<open>Editing\<close>

definition VM_RUN_STRATEGIES :: "string list" where
  "VM_RUN_STRATEGIES = [''Always'', ''RerunOnFailure'', ''Manual'', ''Halted'', ''Once'']"

record vm_spec_patch =
  usp_runStrategy :: string
  usp_sizeByType :: bool
  usp_instanceType :: "string option"
  usp_preference :: "string option"
  usp_cpuCores :: "js_num option"
  usp_memory :: "string option"

record update_vm_request =
  uvr_cluster :: string
  uvr_namespace :: string
  uvr_name :: string
  uvr_labels :: "string jsobj option"
  uvr_spec :: "vm_spec_patch option"

definition empty_vm_spec :: vm_spec where
  "empty_vm_spec = \<lparr>vsp_running = None, vsp_runStrategy = None, vsp_instancetype = None, vsp_preference = None,
     vsp_dvTemplates = None, vsp_templateLabels = None, vsp_templateSpec = None\<rparr>"

definition empty_template_spec :: vm_template_spec where
  "empty_template_spec = \<lparr>vts_architecture = None, vts_domain = None, vts_networks = None, vts_volumes = None\<rparr>"

text \<open>A change of the domain, which is created when there is none.\<close>

definition change_domain :: "(vm_domain \<Rightarrow> vm_domain) \<Rightarrow> vm_spec \<Rightarrow> vm_spec" where
  "change_domain f sp =
     (let ts = opt_default empty_template_spec (vsp_templateSpec sp) in
      sp\<lparr>vsp_templateSpec := Some (ts\<lparr>vts_domain := Some (f (opt_default empty_domain (vts_domain ts)))\<rparr>)\<rparr>)"

definition without_size :: "string jsobj \<Rightarrow> string jsobj option" where
  "without_size r =
     (let o' = obj_delete (obj_delete r ''memory'') ''cpu'' in if length (obj_keys o') = 0 then None else Some o')"

definition cleared_resources :: "vm_resources option \<Rightarrow> vm_resources option" where
  "cleared_resources res =
     (case res of
        None \<Rightarrow> None
      | Some r \<Rightarrow>
          let r' = \<lparr>vrs_requests = fld (vrs_requests r) without_size, vrs_limits = fld (vrs_limits r) without_size\<rparr> in
          if vrs_requests r' = None \<and> vrs_limits r' = None then None else Some r')"

definition clearInlineDomainResources :: "vm_spec \<Rightarrow> vm_spec" where
  "clearInlineDomainResources =
     change_domain (\<lambda>d. d\<lparr>vdm_cpu := None, vdm_resources := cleared_resources (vdm_resources d)\<rparr>)"

definition applyManualDomainResources :: "js_num \<Rightarrow> string \<Rightarrow> vm_spec \<Rightarrow> vm_spec" where
  "applyManualDomainResources cpuCores memory =
     change_domain (\<lambda>d.
       let res = opt_default \<lparr>vrs_requests = None, vrs_limits = None\<rparr> (vdm_resources d) in
       d\<lparr>vdm_cpu := Some \<lparr>vcp_cores = Some cpuCores, vcp_threads = None, vcp_sockets = None\<rparr>,
         vdm_resources := Some (res\<lparr>vrs_requests :=
           Some (obj_put (obj_spread [] (opt_obj (vrs_requests res))) ''memory'' memory)\<rparr>)\<rparr>)"

definition sized_spec :: "vm_spec_patch \<Rightarrow> vm_spec \<Rightarrow> vm_spec result" where
  "sized_spec p sp =
     (if usp_sizeByType p then
        (case trim_or_undef (usp_instanceType p) of
           None \<Rightarrow> throw ''instanceType is required in instancetype mode''
         | Some it \<Rightarrow> Inr (clearInlineDomainResources (sp\<lparr>vsp_instancetype :=
             Some \<lparr>vma_kind = Some ''VirtualMachineClusterInstancetype'', vma_name = Some it\<rparr>\<rparr>)))
      else
        let cores = opt_default (Fin 0) (usp_cpuCores p); memory = js_trim (opt_str (usp_memory p)) in
        if \<not> js_is_finite cores \<or> num_less cores (Fin 1) then throw ''cpuCores must be a positive number''
        else if memory = [] then throw ''memory is required in manual size mode''
        else Inr (applyManualDomainResources cores memory (sp\<lparr>vsp_instancetype := None\<rparr>)))"

definition patched_spec :: "string \<Rightarrow> vm_spec_patch \<Rightarrow> vm_spec \<Rightarrow> vm_spec result" where
  "patched_spec status p sp =
     (let runStrategy = js_trim (usp_runStrategy p) in
      if \<not> canEditVmSpec status
        then throw (''Cannot change size, preference, or run strategy while status is '' @ status)
      else if runStrategy = [] then throw ''runStrategy is required''
      else if runStrategy \<notin> set VM_RUN_STRATEGIES
        then throw (''Invalid runStrategy \"'' @ runStrategy @ ''\". Allowed: '' @ js_join '', '' VM_RUN_STRATEGIES)
      else res_bind (sized_spec p (sp\<lparr>vsp_runStrategy := Some runStrategy, vsp_running := None\<rparr>)) (\<lambda>sized.
        Inr (sized\<lparr>vsp_preference := matcher ''VirtualMachineClusterPreference'' (trim_or_undef (usp_preference p))\<rparr>)))"

definition empty_meta :: object_meta where
  "empty_meta = \<lparr>om_name = None, om_generateName = None, om_namespace = None, om_uid = None,
     om_creationTimestamp = None, om_labels = None, om_annotations = None\<rparr>"

definition updated_vm :: "(rat \<Rightarrow> string) \<Rightarrow> update_vm_request \<Rightarrow> string jsobj \<Rightarrow> vm_object \<Rightarrow> vm_object result" where
  "updated_vm fmt inp labels existing =
     (let meta = opt_default empty_meta (vmo_metadata existing); sp = opt_default empty_vm_spec (vmo_spec existing);
          body = existing\<lparr>vmo_metadata := Some (meta\<lparr>om_labels := Some (obj_spread [] labels)\<rparr>), vmo_spec := Some sp\<rparr> in
      case uvr_spec inp of
        None \<Rightarrow> Inr body
      | Some p \<Rightarrow>
          res_bind (patched_spec (vsu_status (mapVm fmt (uvr_cluster inp) existing Map.empty)) p sp) (\<lambda>sp'.
            Inr (body\<lparr>vmo_spec := Some sp'\<rparr>)))"

text \<open>What \<open>updateVm\<close> writes.\<close>

definition updateVm :: "'s life_env \<Rightarrow> update_vm_request \<Rightarrow> ('s, unit) act" where
  "updateVm env inp =
     (if js_trim (uvr_cluster inp) = [] then act_throw ''cluster is required''
      else if js_trim (uvr_namespace inp) = [] then act_throw ''namespace is required''
      else if js_trim (uvr_name inp) = [] then act_throw ''name is required''
      else case uvr_labels inp of
        None \<Rightarrow> act_throw ''labels are required''
      | Some labels \<Rightarrow>
          with_custom (vme_vms (lfe_vm env)) (uvr_cluster inp) (\<lambda>api.
            act_bind
              (act_catch (api_get_ns api vm_gvp (uvr_namespace inp) (uvr_name inp)) (\<lambda>err.
                 let message = message_or_text err in
                 if js_includes message ''404'' \<or> js_includes (js_lower message) ''not found''
                 then act_fail (ResponseObj ''Virtual machine not found'' 404) else act_fail err))
              (\<lambda>existing.
            act_bind (act_lift (updated_vm (lfe_fmt env) inp labels existing)) (\<lambda>body.
              act_catch (act_bind (api_replace_ns api vm_gvp (uvr_namespace inp) (uvr_name inp) body) (\<lambda>_. act_return ()))
                save_error))))"

section \<open>Power\<close>

definition subresource_path :: "string \<Rightarrow> string \<Rightarrow> string \<Rightarrow> string \<Rightarrow> string" where
  "subresource_path plural ns nm action =
     ''/apis/subresources.kubevirt.io/v1/namespaces/'' @ encodeURIComponent ns @ ''/'' @ plural @ ''/'' @
     encodeURIComponent nm @ ''/'' @ action"

definition patchPowerState :: "'s life_env \<Rightarrow> string \<Rightarrow> string \<Rightarrow> string \<Rightarrow> bool \<Rightarrow> ('s, unit) act" where
  "patchPowerState env cluster ns nm start =
     with_custom (vme_vms (lfe_vm env)) cluster (\<lambda>api.
       act_bind (api_get_ns api vm_gvp ns nm) (\<lambda>existing.
         let sp = opt_default empty_vm_spec (vmo_spec existing);
             next = sp\<lparr>vsp_runStrategy := Some (if start then ''Always'' else ''Halted''), vsp_running := None\<rparr> in
         act_bind (api_replace_ns api vm_gvp ns nm (existing\<lparr>vmo_spec := Some next\<rparr>)) (\<lambda>_. act_return ())))"

datatype power_action = Start | Stop | Restart

fun power_name :: "power_action \<Rightarrow> string" where
  "power_name Start = ''start''"
| "power_name Stop = ''stop''"
| "power_name Restart = ''restart''"

text \<open>Every call takes the clients of the cluster first.\<close>

definition putVmSubresource :: "'s life_env \<Rightarrow> string \<Rightarrow> string \<Rightarrow> string \<Rightarrow> power_action \<Rightarrow> ('s, unit) act" where
  "putVmSubresource env cluster ns nm action =
     with_custom (vme_vms (lfe_vm env)) cluster (\<lambda>_.
       act_bind (lfe_put env cluster (subresource_path ''virtualmachines'' ns nm (power_name action))) (\<lambda>(status, body).
         if http_ok status then act_return ()
         else if action \<noteq> Restart \<and> (status = 404 \<or> status = 405)
           then patchPowerState env cluster ns nm (action = Start)
         else act_throw (httpErrorMessage (lfe_fmt env) status body)))"

definition putVmiSubresource :: "'s life_env \<Rightarrow> string \<Rightarrow> string \<Rightarrow> string \<Rightarrow> string \<Rightarrow> ('s, unit) act" where
  "putVmiSubresource env cluster ns nm action =
     with_custom (vme_vms (lfe_vm env)) cluster (\<lambda>_.
       act_bind (lfe_put env cluster (subresource_path ''virtualmachineinstances'' ns nm action)) (\<lambda>(status, body).
         if http_ok status then act_return () else act_throw (httpErrorMessage (lfe_fmt env) status body)))"

definition stopVm where "stopVm env cluster ns nm = putVmSubresource env cluster ns nm Stop"
definition startVm where "startVm env cluster ns nm = putVmSubresource env cluster ns nm Start"
definition restartVm where "restartVm env cluster ns nm = putVmSubresource env cluster ns nm Restart"
definition softRebootVm where "softRebootVm env cluster ns nm = putVmiSubresource env cluster ns nm ''softreboot''"
definition pauseVm where "pauseVm env cluster ns nm = putVmiSubresource env cluster ns nm ''pause''"
definition unpauseVm where "unpauseVm env cluster ns nm = putVmiSubresource env cluster ns nm ''unpause''"

section \<open>Deleting\<close>

definition collectVmDataVolumeNames :: "vm_object \<Rightarrow> string list" where
  "collectVmDataVolumeNames vm =
     js_uniq (List.map_filter (\<lambda>v. trim_or_undef (volume_dv v)) (vm_volumes vm) @
       List.map_filter (\<lambda>t. trim_or_undef (dtp_name t)) (vm_dv_templates vm))"

definition dataVolumeOwnedByVm :: "owner_ref list option \<Rightarrow> string \<Rightarrow> string \<Rightarrow> bool" where
  "dataVolumeOwnedByVm owners vmName vmUid \<longleftrightarrow>
     list_ex (\<lambda>ow. ow_kind ow = Some ''VirtualMachine'' \<and> ow_name ow = Some vmName \<and>
       (ow_uid ow = None \<or> ow_uid ow = Some vmUid)) (opt_default [] owners)"

definition detachDataVolumeFromVm ::
  "'s vm_env \<Rightarrow> string \<Rightarrow> string \<Rightarrow> string \<Rightarrow> string \<Rightarrow> string \<Rightarrow> ('s, bool) act" where
  "detachDataVolumeFromVm env cluster ns dvName vmName vmUid =
     with_custom (vme_dvs env) cluster (\<lambda>api.
       retry_plain
         (act_bind (get_dv api ns dvName) (\<lambda>found.
            case found of
              None \<Rightarrow> act_return False
            | Some dv \<Rightarrow>
                if \<not> dataVolumeOwnedByVm (dvc_owners dv) vmName vmUid then act_return False
                else act_bind (act_read (vme_nowIso env)) (\<lambda>now.
                  act_bind (api_replace_ns api dv_gvp ns dvName (retained_dv ns dvName vmName [] now dv)) (\<lambda>_. act_return True)))))"

text \<open>Whether the disk is there and has been kept.\<close>

definition retain_disk :: "'s vm_env \<Rightarrow> string \<Rightarrow> string \<Rightarrow> string \<Rightarrow> string \<Rightarrow> string \<Rightarrow> ('s, bool) act" where
  "retain_disk env cluster ns vmName vmUid dvName =
     act_catch
       (act_bind (detachDataVolumeFromVm env cluster ns dvName vmName vmUid) (\<lambda>detached.
          if detached then act_return True else stampRetainedDataVolume env cluster ns dvName vmName))
       (\<lambda>err. act_fail (mk_error_cause (''Failed to prepare DataVolume '' @ dvName @ '' for retain: '' @ format_error err @
          ''. VM was not deleted.'') err))"

fun retain_disks ::
  "'s vm_env \<Rightarrow> string \<Rightarrow> string \<Rightarrow> string \<Rightarrow> string \<Rightarrow> string list \<Rightarrow> string list \<Rightarrow> ('s, string list) act" where
  "retain_disks env cluster ns vmName vmUid kept [] = act_return kept"
| "retain_disks env cluster ns vmName vmUid kept (dv # dvs) =
     act_bind (retain_disk env cluster ns vmName vmUid dv) (\<lambda>stamped.
       retain_disks env cluster ns vmName vmUid (if stamped then kept @ [dv] else kept) dvs)"

definition free_addresses :: "'s life_env \<Rightarrow> string \<Rightarrow> string \<Rightarrow> string \<Rightarrow> vm_object \<Rightarrow> ('s, unit) act" where
  "free_addresses env cluster ns nm vm =
     act_or (deleteIpAddressClaimsForVm (lfe_claims env) cluster ns nm
       (Some (case opt_or_undef (vm_annotation vm IPAM_ANNOTATION_IPV4) of None \<Rightarrow> [] | Some ann \<Rightarrow> parseIpv4AnnotationList ann))) ()"

definition delete_machine :: "('s, vm_object) custom_api \<Rightarrow> string \<Rightarrow> string \<Rightarrow> string list \<Rightarrow> ('s, unit) act" where
  "delete_machine api ns nm retained =
     act_catch (api_delete_ns api vm_gvp ns nm) (\<lambda>err.
       if retained \<noteq> [] then
         act_fail (mk_error_cause (''Failed to delete VirtualMachine '' @ nm @ '' after retaining disks ['' @
           js_join '', '' retained @ '']: '' @ format_error err @
           ''. DataVolumes may still be present; check Data Volumes before retrying.'') err)
       else save_error err)"

definition delete_companions :: "'s life_env \<Rightarrow> string \<Rightarrow> string \<Rightarrow> string \<Rightarrow> ('s, unit) act" where
  "delete_companions env cluster ns nm =
     act_seq (act_or (deleteDevBoxCompanions (lfe_access env) cluster ns nm) ())
       (act_or (with_secrets (ace_dex (lfe_access env)) cluster (\<lambda>core.
          sca_delete core ns (cloudInitUserDataSecretName nm))) ())"

definition deleteVm :: "'s life_env \<Rightarrow> string \<Rightarrow> string \<Rightarrow> string \<Rightarrow> bool option \<Rightarrow> ('s, string list) act" where
  "deleteVm env cluster ns nm retainOpt =
     (let retainDisks = (retainOpt = Some True) in
      with_custom (vme_vms (lfe_vm env)) cluster (\<lambda>api.
        act_bind
          (act_catch (api_get_ns api vm_gvp ns nm) (\<lambda>err.
             if vm_isNotFoundError err then act_throw (''Virtual machine not found: '' @ ns @ ''/'' @ nm)
             else save_error err))
          (\<lambda>vm.
        let candidates = collectVmDataVolumeNames vm; vmUid = opt_str (fld (vmo_metadata vm) om_uid) in
        act_bind (if retainDisks then retain_disks (lfe_vm env) cluster ns nm vmUid [] candidates else act_return []) (\<lambda>retained.
          act_seq (free_addresses env cluster ns nm vm)
            (act_seq (delete_machine api ns nm retained)
              (act_seq (delete_companions env cluster ns nm)
                (act_seq (act_when (\<not> retainDisks) (act_each (delete_quietly (lfe_vm env) cluster ns) candidates))
                  (act_return retained))))))))"

section \<open>Kept disks\<close>

text \<open>The same clients, with another operation that deletes DataVolumes.\<close>

definition with_dv_delete ::
  "(gvp \<Rightarrow> string \<Rightarrow> string \<Rightarrow> ('s, unit) act) \<Rightarrow> 's life_env \<Rightarrow> 's life_env" where
  "with_dv_delete del env =
     env\<lparr>lfe_vm := (lfe_vm env)\<lparr>vme_dvs :=
       (\<lambda>c. map_sum id (\<lambda>api. api\<lparr>api_delete_ns := del\<rparr>) (vme_dvs (lfe_vm env) c))\<rparr>\<rparr>"

lemma with_custom_map:
  "with_custom (\<lambda>c. map_sum id f (cl c)) cluster k = with_custom cl cluster (\<lambda>api. k (f api))"
  by (auto simp: with_custom_apply split: sum.splits)

lemma with_dv_delete_clients:
  "vme_vms (lfe_vm (with_dv_delete del env)) = vme_vms (lfe_vm env)"
  "lfe_claims (with_dv_delete del env) = lfe_claims env" "lfe_access (with_dv_delete del env) = lfe_access env"
  "vme_nowIso (lfe_vm (with_dv_delete del env)) = vme_nowIso (lfe_vm env)"
  by (simp_all add: with_dv_delete_def)

lemma with_dv_delete_custom:
  "with_custom (vme_dvs (lfe_vm (with_dv_delete del env))) cluster k =
     with_custom (vme_dvs (lfe_vm env)) cluster (\<lambda>api. k (api\<lparr>api_delete_ns := del\<rparr>))"
  by (simp add: with_dv_delete_def with_custom_map)

lemma other_calls:
  "api_get_ns (api\<lparr>api_delete_ns := del\<rparr>) = api_get_ns api"
  "api_replace_ns (api\<lparr>api_delete_ns := del\<rparr>) = api_replace_ns api"
  by simp_all

lemma marks_no_delete:
  "detachDataVolumeFromVm (lfe_vm (with_dv_delete del env)) cluster ns dv nm uid =
     detachDataVolumeFromVm (lfe_vm env) cluster ns dv nm uid"
  "stampRetainedDataVolume (lfe_vm (with_dv_delete del env)) cluster ns dv nm =
     stampRetainedDataVolume (lfe_vm env) cluster ns dv nm"
  unfolding detachDataVolumeFromVm_def stampRetainedDataVolume_def with_dv_delete_custom get_dv_def with_dv_delete_clients
    other_calls by (rule refl)+

lemma retain_disk_no_delete:
  "retain_disk (lfe_vm (with_dv_delete del env)) cluster ns nm uid dv = retain_disk (lfe_vm env) cluster ns nm uid dv"
  unfolding retain_disk_def marks_no_delete ..

lemma retain_disks_no_delete:
  "retain_disks (lfe_vm (with_dv_delete del env)) cluster ns nm uid kept dvs = retain_disks (lfe_vm env) cluster ns nm uid kept dvs"
  by (induction dvs arbitrary: kept) (simp_all add: retain_disk_no_delete)

lemma retain_disks_kept:
  assumes "retain_disks env cluster ns nm uid kept dvs s = (Inr out, t)"
  shows "set out \<subseteq> set kept \<union> set dvs"
  using assms
proof (induction dvs arbitrary: kept s)
  case Nil
  then show ?case by (simp add: act_return_apply)
next
  case (Cons dv dvs)
  then obtain b u where "retain_disks env cluster ns nm uid (if b then kept @ [dv] else kept) dvs u = (Inr out, t)"
    by (auto elim!: act_bind_InrE)
  from Cons.IH [OF this] show ?case by (auto split: if_splits)
qed

lemma deleteVm_kept:
  assumes "deleteVm env cluster ns nm (Some True) s = (Inr kept, t)"
  shows "\<exists>api vm u. vme_vms (lfe_vm env) cluster = Inr api \<and> api_get_ns api vm_gvp ns nm s = (Inr vm, u) \<and>
    set kept \<subseteq> set (collectVmDataVolumeNames vm)"
proof -
  obtain api vm u v where api: "vme_vms (lfe_vm env) cluster = Inr api"
    and vm: "act_catch (api_get_ns api vm_gvp ns nm) (\<lambda>err.
             if vm_isNotFoundError err then act_throw (''Virtual machine not found: '' @ ns @ ''/'' @ nm)
             else save_error err) s = (Inr vm, u)"
    and k: "retain_disks (lfe_vm env) cluster ns nm (opt_str (fld (vmo_metadata vm) om_uid)) []
              (collectVmDataVolumeNames vm) u = (Inr kept, v)"
    using assms unfolding deleteVm_def Let_def with_custom_apply
    by (auto simp: act_return_apply split: sum.splits elim!: act_bind_InrE act_seq_InrE)
  have "api_get_ns api vm_gvp ns nm s = (Inr vm, u)"
    using vm by (auto simp: act_catch_def act_throw_apply save_error_def act_fail_apply split: prod.splits sum.splits if_splits)
  then show ?thesis using api retain_disks_kept [OF k] by auto
qed

section \<open>Properties\<close>

text \<open>
  C40. Deleting a machine and keeping its disks. Nothing depends on the operation that deletes
  DataVolumes: whatever it would do, the outcome and the world after it are the same, so it is never
  called, on the error paths either. The disks that are reported as kept are disks of the machine.
\<close>

theorem kept_disks_are_not_deleted:
  "deleteVm (with_dv_delete del env) cluster ns nm (Some True) = deleteVm env cluster ns nm (Some True) \<and>
   (case deleteVm env cluster ns nm (Some True) s of
      (Inl err, t) \<Rightarrow> True
    | (Inr kept, t) \<Rightarrow> \<exists>api vm u. vme_vms (lfe_vm env) cluster = Inr api \<and>
        api_get_ns api vm_gvp ns nm s = (Inr vm, u) \<and> set kept \<subseteq> set (collectVmDataVolumeNames vm))"
proof
  show "deleteVm (with_dv_delete del env) cluster ns nm (Some True) = deleteVm env cluster ns nm (Some True)"
    by (simp add: deleteVm_def with_dv_delete_clients retain_disks_no_delete free_addresses_def delete_companions_def)
  show "case deleteVm env cluster ns nm (Some True) s of
      (Inl err, t) \<Rightarrow> True
    | (Inr kept, t) \<Rightarrow> \<exists>api vm u. vme_vms (lfe_vm env) cluster = Inr api \<and>
        api_get_ns api vm_gvp ns nm s = (Inr vm, u) \<and> set kept \<subseteq> set (collectVmDataVolumeNames vm)"
    by (auto dest: deleteVm_kept split: prod.splits sum.splits)
qed

end
