(* ===== verification/Invariants.thy ===== *)
theory Invariants
  imports Frames
begin

text \<open>
  Operations that keep an invariant of the outside world, whether they return or throw, and what is
  known of the value they return: \<open>safe I m Q\<close>.
\<close>

definition safe :: "('s \<Rightarrow> bool) \<Rightarrow> ('s, 'a) act \<Rightarrow> ('a \<Rightarrow> bool) \<Rightarrow> bool" where
  "safe I m Q \<longleftrightarrow> (\<forall>s. I s \<longrightarrow> I (snd (m s)) \<and> (\<forall>x. fst (m s) = Inr x \<longrightarrow> Q x))"

lemma safeI:
  "(\<And>s r t. I s \<Longrightarrow> m s = (r, t) \<Longrightarrow> I t \<and> (\<forall>x. r = Inr x \<longrightarrow> Q x)) \<Longrightarrow> safe I m Q"
  unfolding safe_def by (metis fst_conv prod.collapse snd_conv)

lemma safe_state: "safe I m Q \<Longrightarrow> I s \<Longrightarrow> I (snd (m s))"
  by (simp add: safe_def)

lemma safe_weaken: "safe I m Q \<Longrightarrow> (\<And>x. Q x \<Longrightarrow> R x) \<Longrightarrow> safe I m R"
  by (simp add: safe_def)

lemma safe_basic: "safe I (act_fail e) Q" "safe I (act_throw msg) Q"
  by (simp_all add: safe_def act_simps)

lemma safe_return: "Q x \<Longrightarrow> safe I (act_return x) Q"
  by (simp add: safe_def act_simps)

lemma safe_lift: "(\<And>x. r = Inr x \<Longrightarrow> Q x) \<Longrightarrow> safe I (act_lift r) Q"
  by (simp add: safe_def act_simps)

lemma safe_bind:
  assumes m: "safe I m Q" and k: "\<And>x. Q x \<Longrightarrow> safe I (k x) R"
  shows "safe I (act_bind m k) R"
proof (rule safeI)
  fix s r t
  assume s: "I s" and run: "act_bind m k s = (r, t)"
  obtain x u where u: "m s = (x, u)" by (rule prod.exhaust)
  have I: "I u" and Q: "\<And>y. x = Inr y \<Longrightarrow> Q y" using m s u by (auto simp: safe_def)
  show "I t \<and> (\<forall>y. r = Inr y \<longrightarrow> R y)"
  proof (cases x)
    case (Inl e)
    then show ?thesis using run u I by (auto simp: act_bind_def)
  next
    case (Inr y)
    then have "k y u = (r, t)" using run u by (simp add: act_bind_def)
    then show ?thesis using k [OF Q [OF Inr]] I unfolding safe_def by (metis fst_conv snd_conv)
  qed
qed

lemma safe_seq: "safe I m Q \<Longrightarrow> safe I k R \<Longrightarrow> safe I (act_seq m k) R"
  unfolding act_seq_def by (rule safe_bind)

lemma safe_catch:
  assumes m: "safe I m Q" and h: "\<And>e. safe I (h e) Q"
  shows "safe I (act_catch m h) Q"
proof (rule safeI)
  fix s r t
  assume s: "I s" and run: "act_catch m h s = (r, t)"
  obtain x u where u: "m s = (x, u)" by (rule prod.exhaust)
  have I: "I u" and Q: "\<And>y. x = Inr y \<Longrightarrow> Q y" using m s u by (auto simp: safe_def)
  show "I t \<and> (\<forall>y. r = Inr y \<longrightarrow> Q y)"
  proof (cases x)
    case (Inl e)
    then have "h e u = (r, t)" using run u by (simp add: act_catch_def)
    then show ?thesis using h [of e] I unfolding safe_def by (metis fst_conv snd_conv)
  next
    case (Inr y)
    then show ?thesis using run u I Q by (auto simp: act_catch_def)
  qed
qed

lemma safe_if: "(b \<Longrightarrow> safe I m Q) \<Longrightarrow> (\<not> b \<Longrightarrow> safe I k Q) \<Longrightarrow> safe I (if b then m else k) Q"
  by simp

lemma safe_option:
  "(v = None \<Longrightarrow> safe I m Q) \<Longrightarrow> (\<And>x. v = Some x \<Longrightarrow> safe I (k x) Q) \<Longrightarrow>
   safe I (case v of None \<Rightarrow> m | Some x \<Rightarrow> k x) Q"
  by (cases v) simp_all

lemma safe_with_custom:
  "(\<And>api. cl cluster = Inr api \<Longrightarrow> safe I (k api) Q) \<Longrightarrow> safe I (with_custom cl cluster k) Q"
  by (cases "cl cluster") (simp_all add: safe_def act_simps)

text \<open>What leaves the observed part of the world alone keeps every invariant of it.\<close>

lemma safe_leaves: "leaves f m \<Longrightarrow> safe (\<lambda>s. J (f s)) m (\<lambda>_. True)"
  by (simp add: safe_def leaves_def)

end
