(* ===== verification/Routers.thy ===== *)
theory Routers
  imports Vpcs Vm_Create Invariants
begin

text \<open>
  \<open>vpcs/routers.server.ts\<close>: the routers of virtual networks. The console writes what is wanted on
  the Router object (its networks, its external side, its appliance); the controller does the rest.
  The key of the platform and the clock are parameters. Reads that the code starts together, and the
  clusters of a listing, are taken one after the other. The YAML view is left out.
\<close>

section \<open>Views\<close>

definition KMC_MAX_MULTUS_ATTACHMENTS :: nat where "KMC_MAX_MULTUS_ATTACHMENTS = 8"

definition routerPolicyConfigMapName :: "string \<Rightarrow> string" where
  "routerPolicyConfigMapName routerName = ''kmc-router-'' @ routerName"

definition defaultRouterDomain :: "string \<Rightarrow> string" where
  "defaultRouterDomain vpcName = vpcName @ ''.vpc.local''"

definition router_agentStatus :: "router_cr \<Rightarrow> router_agent_status option" where
  "router_agentStatus r =
     (case trim_or_undef (fld (fld (rcr_status r) rct_agent) rag_status) of
        None \<Rightarrow> None
      | Some raw \<Rightarrow> Some
          (if raw = ''Ready'' then Ready else if raw = ''Error'' then AgentError
           else if raw = ''Pending'' then Pending else if raw = ''Stale'' then Stale else AgentUnknown))"

definition mapRouterSummary :: "(string \<Rightarrow> int option) \<Rightarrow> int \<Rightarrow> string \<Rightarrow> router_cr \<Rightarrow> router_summary" where
  "mapRouterSummary date now cluster cr =
     (let md = rcr_metadata cr; stamp = fld md om_creationTimestamp in
      \<lparr>rsm_cluster = cluster,
       rsm_namespace = opt_default ''default'' (fld md om_namespace),
       rsm_name = opt_default ''unknown'' (fld md om_name),
       rsm_vpcNames = List.map_filter (\<lambda>v. if trim_or_undef v = None then None else v) (router_interfaces cr),
       rsm_hasExternal = (external_multus cr \<noteq> None),
       rsm_agentStatus = router_agentStatus cr,
       rsm_agentHeartbeatAt = fld (fld (rcr_status cr) rct_agent) rag_heartbeatAt,
       rsm_age = (if truthy stamp then formatAge date now (opt_str stamp) else em_dash)\<rparr>)"

record router_interface =
  rti_vpc :: string
  rti_cidr :: string
  rti_gateway :: string
  rti_domain :: string
  rti_mac :: "string option"

definition mapInterfaces :: "router_cr \<Rightarrow> router_interface list" where
  "mapInterfaces cr =
     (let ifaces = opt_default [] (fld (rcr_status cr) rct_interfaces) in
      if ifaces \<noteq> [] then
        map (\<lambda>i. \<lparr>rti_vpc = opt_str (rsi_vpc i), rti_cidr = opt_str (rsi_cidr i), rti_gateway = opt_str (rsi_gateway i),
               rti_domain = opt_default (if truthy (rsi_vpc i) then defaultRouterDomain (opt_str (rsi_vpc i)) else [])
                 (rsi_domain i),
               rti_mac = rsi_mac i\<rparr>) ifaces
      else
        map (\<lambda>v. \<lparr>rti_vpc = rva_name v, rti_cidr = [], rti_gateway = opt_str (rva_gateway v),
               rti_domain = defaultRouterDomain (rva_name v), rti_mac = None\<rparr>)
          (opt_default [] (fld (rcr_spec cr) rcs_vpcs)))"

definition mapFloatingFromCr :: "fip_cr \<Rightarrow> fip_association" where
  "mapFloatingFromCr cr =
     (let private = trim_or_undef (fld (fcr_spec cr) fcs_privateAddress) in
      \<lparr>fas_id = opt_default (fip_public cr) (fld (fcr_metadata cr) om_name), fas_public = fip_public cr,
       fas_prefix = opt_default 32 (fld (fcr_status cr) fct_prefixLength), fas_private = private,
       fas_targetVm = ref_name (fld (fcr_spec cr) fcs_targetVM),
       fas_state = (if private \<noteq> None then Associated else Held)\<rparr>)"

definition mapPortForwardFromCr :: "pf_cr \<Rightarrow> pf_association" where
  "mapPortForwardFromCr cr = mapPortForwardAssociation cr None"

section \<open>Reading\<close>

record 's router_env =
  roe_vpc :: "'s vpc_env"
  roe_consoleKey :: "('s, string option) act"
  roe_nowIso :: "'s \<Rightarrow> string"
  roe_contexts :: "string list"

definition applianceSshPublicKeys :: "'s router_env \<Rightarrow> string \<Rightarrow> ('s, string list) act" where
  "applianceSshPublicKeys env userKey =
     act_bind (roe_consoleKey env) (\<lambda>platform.
       let user = (case trim_or_undef (Some userKey) of None \<Rightarrow> [] | Some k \<Rightarrow> [k]);
           keys = (case trim_or_undef platform of
             None \<Rightarrow> user | Some k \<Rightarrow> if k \<in> set user then user else user @ [k]) in
       if keys = [] then act_throw ''At least one SSH public key is required'' else act_return keys)"

definition loadVpcCr :: "'s router_env \<Rightarrow> string \<Rightarrow> string \<Rightarrow> string \<Rightarrow> ('s, vpc_cr) act" where
  "loadVpcCr env cluster ns nm =
     act_catch (getNamespacedCustomObject (ve_vpcs (roe_vpc env)) cluster ns PLURAL_VPCS nm) (\<lambda>err.
       if isNotFoundError err then act_throw (''VPC '' @ ns @ ''/'' @ nm @ '' not found'')
       else act_fail (mk_error_cause (format_error err) err))"

text \<open>The routers of one cluster, or what its listing failed with.\<close>

definition router_rows ::
  "'s router_env \<Rightarrow> string \<Rightarrow> ('s, router_summary list \<times> string option) act" where
  "router_rows env clusterId =
     act_catch
       (act_bind (listClusterCustomObjects (ve_routers (roe_vpc env)) clusterId PLURAL_ROUTERS None) (\<lambda>crs.
        act_bind (act_read (ve_now (roe_vpc env))) (\<lambda>now.
          act_return (map (mapRouterSummary (ve_date (roe_vpc env)) now clusterId) crs, None))))
       (\<lambda>err. act_return ([], Some (format_error err)))"

definition router_before :: "(string \<Rightarrow> string \<Rightarrow> bool) \<Rightarrow> router_summary \<Rightarrow> router_summary \<Rightarrow> bool" where
  "router_before le a b =
     before_by le [(rsm_cluster a, rsm_cluster b), (rsm_namespace a, rsm_namespace b), (rsm_name a, rsm_name b)]"

text \<open>Each cluster with the error that made it unreachable.\<close>

fun listed_clusters ::
  "(string \<Rightarrow> ('s, 'a list \<times> string option) act) \<Rightarrow> string list \<Rightarrow> ('s, 'a list \<times> (string \<times> string option) list) act" where
  "listed_clusters rows [] = act_return ([], [])"
| "listed_clusters rows (c # cs) =
     act_bind (rows c) (\<lambda>(items, err).
     act_bind (listed_clusters rows cs) (\<lambda>(more, states).
       act_return (items @ more, (c, err) # states)))"

definition listRouters ::
  "'s router_env \<Rightarrow> string option \<Rightarrow> ('s, router_summary list \<times> (string \<times> string option) list) act" where
  "listRouters env clusterFilter =
     (let wanted = (case trim_or_undef clusterFilter of
        None \<Rightarrow> roe_contexts env | Some c \<Rightarrow> filter (\<lambda>x. x = c) (roe_contexts env)) in
      act_bind (listed_clusters (router_rows env) wanted) (\<lambda>(items, clusters).
        act_return (sort_by (router_before (ve_le (roe_vpc env))) items, clusters)))"

record router_lease =
  rtl_vpc :: string
  rtl_mac :: string
  rtl_ip :: string
  rtl_hostname :: string
  rtl_vm :: "string option"

definition claim_vm :: "ip_address_spec \<Rightarrow> string option" where
  "claim_vm sp =
     (if fld (ias_claimRef sp) cr_kind = Some ''VirtualMachine'' then fld (ias_claimRef sp) cr_name else None)"

definition lease_of :: "string list \<Rightarrow> ip_address_cr \<Rightarrow> router_lease option" where
  "lease_of attached ip =
     (case iac_spec ip of
        None \<Rightarrow> None
      | Some sp \<Rightarrow> (case ias_poolRef sp of
          None \<Rightarrow> None
        | Some pool \<Rightarrow>
            let vpc = js_trim (pr_name pool) in
            if pr_kind pool \<noteq> ''VPC'' \<or> vpc \<notin> set attached then None
            else case trim_or_undef (fld (ias_interface sp) nic_mac) of
              None \<Rightarrow> None
            | Some mac \<Rightarrow>
                if fld (ias_claimRef sp) cr_kind = Some ''Router'' then None
                else Some \<lparr>rtl_vpc = vpc, rtl_mac = js_lower mac, rtl_ip = js_trim (opt_str (ias_address sp)),
                  rtl_hostname = (case trim_or_undef (fld (ias_interface sp) nic_hostname) of
                    Some h \<Rightarrow> h | None \<Rightarrow> opt_default ''host'' (opt_or_undef (claim_vm sp))),
                  rtl_vm = claim_vm sp\<rparr>))"

text \<open>What is mapped on one of the networks, through this router or none in particular.\<close>

definition mapped_here :: "string \<Rightarrow> string list \<Rightarrow> local_ref option \<Rightarrow> local_ref option \<Rightarrow> bool" where
  "mapped_here nm attached vpc router \<longleftrightarrow>
     (case opt_or_undef (ref_name vpc) of None \<Rightarrow> False | Some v \<Rightarrow> v \<in> set attached) \<and>
     (case opt_or_undef (ref_name router) of None \<Rightarrow> True | Some r \<Rightarrow> r = nm)"

record router_external_info =
  rei_multusNetwork :: string
  rei_primaryCidr :: "string option"
  rei_gateway :: "string option"
  rei_snat :: "bool option"

definition external_info :: "router_cr \<Rightarrow> router_external_info option" where
  "external_info cr =
     (case opt_or_undef (fld (fld (rcr_status cr) rct_external) rse_multusNetwork) of
        Some m \<Rightarrow> Some \<lparr>rei_multusNetwork = m, rei_primaryCidr = fld (fld (rcr_status cr) rct_external) rse_primaryCidr,
          rei_gateway = fld (fld (rcr_status cr) rct_external) rse_gateway,
          rei_snat = fld (fld (rcr_status cr) rct_external) rse_snat\<rparr>
      | None \<Rightarrow> (case fld (rcr_spec cr) rcs_external of
          None \<Rightarrow> None
        | Some e \<Rightarrow> if res_multusNetwork e = [] then None
            else Some \<lparr>rei_multusNetwork = res_multusNetwork e, rei_primaryCidr = None, rei_gateway = None,
              rei_snat = Some (res_snat e \<noteq> Some False)\<rparr>))"

record appliance_info =
  rap_imageNamespace :: string
  rap_imageName :: string
  rap_diskSize :: string
  rap_storageClass :: "string option"
  rap_instanceType :: "string option"
  rap_cpuCores :: "js_num option"
  rap_memory :: "string option"

definition appliance_info_of :: "router_cr \<Rightarrow> appliance_info option" where
  "appliance_info_of cr =
     (case fld (rcr_spec cr) rcs_appliance of
        None \<Rightarrow> None
      | Some a \<Rightarrow> if rim_name (ras_image a) = [] then None
          else Some \<lparr>rap_imageNamespace = opt_default ''vm-images'' (or_undef (rim_namespace (ras_image a))),
            rap_imageName = rim_name (ras_image a), rap_diskSize = opt_default ''10Gi'' (or_undef (ras_diskSize a)),
            rap_storageClass = ras_storageClass a, rap_instanceType = ras_instanceType a,
            rap_cpuCores = ras_cpuCores a, rap_memory = ras_memory a\<rparr>)"

record router_detail =
  rtd_summary :: router_summary
  rtd_uid :: "string option"
  rtd_labels :: "string jsobj"
  rtd_annotations :: "string jsobj"
  rtd_policyConfigMap :: string
  rtd_interfaces :: "router_interface list"
  rtd_external :: "router_external_info option"
  rtd_leases :: "router_lease list"
  rtd_floatingIps :: "fip_association list"
  rtd_portForwards :: "pf_association list"
  rtd_agent :: "router_agent option"
  rtd_vmName :: string
  rtd_vmStatus :: "string option"
  rtd_vmReady :: "bool option"
  rtd_vmMissing :: "bool option"
  rtd_conditions :: "console_condition list"
  rtd_appliance :: "appliance_info option"

text \<open>The agent of the result has the fields of \<open>status.agent\<close> but its status, which the summary has.\<close>

definition router_detail_of ::
  "string \<Rightarrow> router_summary \<Rightarrow> router_cr \<Rightarrow> ip_address_cr list \<Rightarrow> fip_cr list \<Rightarrow> pf_cr list \<Rightarrow> router_detail" where
  "router_detail_of nm summary cr ipAddrs fips pfs =
     (let interfaces = mapInterfaces cr;
          attached = js_uniq (filter (\<lambda>v. v \<noteq> []) (map rti_vpc interfaces)) in
      \<lparr>rtd_summary = summary, rtd_uid = fld (rcr_metadata cr) om_uid, rtd_labels = opt_obj (fld (rcr_metadata cr) om_labels),
       rtd_annotations = shown_annotations (fld (rcr_metadata cr) om_annotations),
       rtd_policyConfigMap = opt_default (routerPolicyConfigMapName nm) (opt_or_undef (fld (rcr_status cr) rct_policyConfigMap)),
       rtd_interfaces = interfaces, rtd_external = external_info cr,
       rtd_leases = List.map_filter (lease_of attached) ipAddrs,
       rtd_floatingIps = map mapFloatingFromCr (filter (\<lambda>f. mapped_here nm attached (fld (fcr_spec f) fcs_vpcRef)
         (fld (fcr_spec f) fcs_routerRef)) fips),
       rtd_portForwards = map mapPortForwardFromCr (filter (\<lambda>p. mapped_here nm attached (fld (pcr_spec p) pcs_vpcRef)
         (fld (pcr_spec p) pcs_routerRef)) pfs),
       rtd_agent = map_option (\<lambda>a. a\<lparr>rag_status := None\<rparr>) (fld (rcr_status cr) rct_agent),
       rtd_vmName = opt_default nm (opt_or_undef (fld (rcr_status cr) rct_vmName)),
       rtd_vmStatus = fld (rcr_status cr) rct_vmStatus, rtd_vmReady = fld (rcr_status cr) rct_vmReady,
       rtd_vmMissing = fld (rcr_status cr) rct_vmMissing,
       rtd_conditions = mapCrConditions (fld (rcr_status cr) rct_conditions),
       rtd_appliance = appliance_info_of cr\<rparr>)"

definition getRouter :: "'s router_env \<Rightarrow> string \<Rightarrow> string \<Rightarrow> string \<Rightarrow> ('s, router_detail) act" where
  "getRouter env cluster ns nm =
     (let ve = roe_vpc env in
      act_bind
        (act_catch (getNamespacedCustomObject (ve_routers ve) cluster ns PLURAL_ROUTERS nm) (\<lambda>err.
           if isNotFoundError err then act_fail (ResponseObj ''Router not found'' 404)
           else act_fail (mk_error_cause (format_error err) err)))
        (\<lambda>cr.
      act_bind (act_read (ve_now ve)) (\<lambda>now.
      act_bind (act_or (listNamespacedCustomObjects (pcl_claims (ve_pools ve)) cluster ns PLURAL_IP_ADDRESSES None) []) (\<lambda>ipAddrs.
      act_bind (act_or (listNamespacedCustomObjects (ve_fips ve) cluster ns PLURAL_FLOATING_IPS None) []) (\<lambda>fips.
      act_bind (act_or (listNamespacedCustomObjects (ve_pfs ve) cluster ns PLURAL_PORT_FORWARDS None) []) (\<lambda>pfs.
        act_return (router_detail_of nm (mapRouterSummary (ve_date ve) now cluster cr) cr ipAddrs fips pfs)))))))"

section \<open>Creating\<close>

record create_router_request =
  cro_cluster :: string
  cro_namespace :: string
  cro_name :: string
  cro_vpcNames :: "string list option"
  cro_externalMultusNetwork :: "string option"
  cro_sshPublicKey :: string
  cro_instanceType :: "string option"
  cro_cpuCores :: "js_num option"
  cro_memory :: "string option"
  cro_diskSize :: string
  cro_storageClass :: "string option"
  cro_imageNamespace :: string
  cro_imageName :: string
  cro_start :: "bool option"

definition wanted_vpcs :: "create_router_request \<Rightarrow> string list" where
  "wanted_vpcs inp = js_uniq (trim_list (opt_default [] (cro_vpcNames inp)))"

definition check_appliance ::
  "string \<Rightarrow> string \<Rightarrow> string \<Rightarrow> string option \<Rightarrow> js_num option \<Rightarrow> string option \<Rightarrow> unit result" where
  "check_appliance sshPublicKey diskSize imageName instanceType cpuCores memory =
     (if js_trim sshPublicKey = [] then throw ''sshPublicKey is required''
      else if js_trim diskSize = [] then throw ''diskSize is required''
      else if js_trim imageName = [] then throw ''image is required''
      else if \<not> truthy instanceType \<and> \<not> (num_truthy cpuCores \<and> truthy memory)
        then throw ''Provide instanceType or both cpuCores and memory''
      else Inr ())"

definition check_create_router :: "create_router_request \<Rightarrow> unit result" where
  "check_create_router inp =
     (if js_trim (cro_cluster inp) = [] then throw ''cluster is required''
      else if js_trim (cro_namespace inp) = [] then throw ''namespace is required''
      else if js_trim (cro_name inp) = [] then throw ''name is required''
      else if \<not> DNS1123_LABEL (js_trim (cro_name inp)) \<or> 63 < length (js_trim (cro_name inp))
        then throw ''name must be a DNS-1123 label (lowercase alphanumeric and hyphens, <=63 chars)''
      else res_bind
        (check_appliance (cro_sshPublicKey inp) (cro_diskSize inp) (cro_imageName inp) (cro_instanceType inp)
          (cro_cpuCores inp) (cro_memory inp)) (\<lambda>_.
        if wanted_vpcs inp = [] then throw ''Select at least one VPC to attach''
        else if KMC_MAX_MULTUS_ATTACHMENTS <
            length (wanted_vpcs inp) + (if trim_or_undef (cro_externalMultusNetwork inp) \<noteq> None then 1 else 0)
          then throw (''At most '' @ nat_str KMC_MAX_MULTUS_ATTACHMENTS @
            '' Multus attachments (VPCs + optional external)'')
        else Inr ()))"

text \<open>A network can be attached when it has a block and no router.\<close>

definition check_vpc :: "'s router_env \<Rightarrow> string \<Rightarrow> string \<Rightarrow> string \<Rightarrow> ('s, unit) act" where
  "check_vpc env cluster ns vpcName =
     act_bind (loadVpcCr env cluster ns vpcName) (\<lambda>vpc.
       if trim_or_undef (fld (vcr_spec vpc) vcs_cidr) = None
       then act_throw (''VPC '' @ vpcName @ '' requires private IPAM (CIDR) before attaching a router'')
       else case trim_or_undef (ref_name (fld (vcr_status vpc) vct_routerRef)) of
         Some r \<Rightarrow> act_throw (''VPC '' @ vpcName @ '' is already attached to router '' @ r)
       | None \<Rightarrow> act_return ())"

definition appliance_spec ::
  "string \<Rightarrow> string \<Rightarrow> string option \<Rightarrow> js_num option \<Rightarrow> string option \<Rightarrow> string \<Rightarrow> string option \<Rightarrow> string list \<Rightarrow>
   string \<Rightarrow> router_appliance_spec" where
  "appliance_spec imageNs imageName instanceType cpuCores memory diskSize storageClass keys runStrategy =
     (let byType = trim_or_undef instanceType in
      \<lparr>ras_image = \<lparr>rim_kind = Some ''pvc'', rim_namespace = opt_default ''vm-images'' (trim_or_undef (Some imageNs)),
         rim_name = js_trim imageName\<rparr>,
       ras_instanceType = byType, ras_cpuCores = (if byType = None then cpuCores else None),
       ras_memory = (if byType = None then opt_trim memory else None), ras_diskSize = js_trim diskSize,
       ras_storageClass = trim_or_undef storageClass, ras_sshPublicKeys = keys, ras_runStrategy = Some runStrategy\<rparr>)"

definition external_side :: "string \<Rightarrow> router_external_spec" where
  "external_side multus = \<lparr>res_multusNetwork = multus, res_address = None, res_snat = Some True\<rparr>"

definition new_router :: "create_router_request \<Rightarrow> string list \<Rightarrow> router_cr" where
  "new_router inp keys =
     \<lparr>rcr_apiVersion = Some KMC_API, rcr_kind = Some ''Router'',
      rcr_metadata = Some (new_meta (Some (js_trim (cro_name inp))) (js_trim (cro_namespace inp))
        (Some (kmcManagedLabels None)) None),
      rcr_spec = Some
        \<lparr>rcs_vpcs = Some (map (\<lambda>v. \<lparr>rva_name = v, rva_gateway = None\<rparr>) (wanted_vpcs inp)),
         rcs_external = map_option external_side (trim_or_undef (cro_externalMultusNetwork inp)),
         rcs_appliance = Some (appliance_spec (cro_imageNamespace inp) (cro_imageName inp) (cro_instanceType inp)
           (cro_cpuCores inp) (cro_memory inp) (cro_diskSize inp) (cro_storageClass inp) keys
           (if cro_start inp = Some False then ''Halted'' else ''Always''))\<rparr>,
      rcr_status = None\<rparr>"

definition createRouter :: "'s router_env \<Rightarrow> create_router_request \<Rightarrow> ('s, router_summary) act" where
  "createRouter env inp =
     act_seq (act_lift (check_create_router inp))
     (act_seq (assertVmNamespaceAllowed (ve_ns (roe_vpc env)) (cro_cluster inp) (cro_namespace inp))
     (act_seq (act_each (check_vpc env (cro_cluster inp) (cro_namespace inp)) (wanted_vpcs inp))
     (act_bind (applianceSshPublicKeys env (cro_sshPublicKey inp)) (\<lambda>keys.
       act_catch
         (act_bind (createNamespacedCustomObject (ve_routers (roe_vpc env)) (cro_cluster inp) (cro_namespace inp)
              PLURAL_ROUTERS (new_router inp keys)) (\<lambda>created.
          act_bind (act_read (ve_now (roe_vpc env))) (\<lambda>now.
            act_return (mapRouterSummary (ve_date (roe_vpc env)) now (cro_cluster inp) created))))
         (\<lambda>err. act_fail (mk_error_cause (format_error err) err))))))"

definition deleteRouter :: "'s router_env \<Rightarrow> string \<Rightarrow> string \<Rightarrow> string \<Rightarrow> ('s, unit) act" where
  "deleteRouter env cluster ns nm = deleteNamespacedCustomObject (ve_routers (roe_vpc env)) cluster ns PLURAL_ROUTERS nm"

section \<open>Changing a router\<close>

definition read_router :: "'s router_env \<Rightarrow> string \<Rightarrow> string \<Rightarrow> string \<Rightarrow> ('s, router_cr) act" where
  "read_router env cluster ns nm =
     act_catch (getNamespacedCustomObject (ve_routers (roe_vpc env)) cluster ns PLURAL_ROUTERS nm) (\<lambda>err.
       if isNotFoundError err then act_throw (''Router '' @ ns @ ''/'' @ nm @ '' not found'') else act_fail err)"

definition write_router :: "'s router_env \<Rightarrow> string \<Rightarrow> string \<Rightarrow> string \<Rightarrow> router_cr \<Rightarrow> ('s, unit) act" where
  "write_router env cluster ns nm body =
     act_bind (replaceNamespacedCustomObject (ve_routers (roe_vpc env)) cluster ns PLURAL_ROUTERS nm body)
       (\<lambda>_. act_return ())"

definition empty_router_spec :: router_cr_spec where
  "empty_router_spec = \<lparr>rcs_vpcs = None, rcs_external = None, rcs_appliance = None\<rparr>"

definition router_spec :: "router_cr \<Rightarrow> router_cr_spec" where
  "router_spec r = opt_default empty_router_spec (rcr_spec r)"

definition router_vpcs :: "router_cr \<Rightarrow> router_vpc_attachment list" where
  "router_vpcs r = opt_default [] (rcs_vpcs (router_spec r))"

text \<open>The Router as it is written back.\<close>

definition with_external :: "string \<Rightarrow> router_cr \<Rightarrow> router_cr" where
  "with_external multus r =
     r\<lparr>rcr_spec := Some ((router_spec r)\<lparr>rcs_vpcs := Some (router_vpcs r), rcs_external := Some (external_side multus)\<rparr>)\<rparr>"

definition with_vpcs :: "router_vpc_attachment list \<Rightarrow> router_cr \<Rightarrow> router_cr" where
  "with_vpcs vpcs r = r\<lparr>rcr_spec := Some ((router_spec r)\<lparr>rcs_vpcs := Some vpcs\<rparr>)\<rparr>"

definition setRouterExternalGateway ::
  "'s router_env \<Rightarrow> string \<Rightarrow> string \<Rightarrow> string \<Rightarrow> string \<Rightarrow> ('s, unit) act" where
  "setRouterExternalGateway env cluster ns nm publicMultusNetwork =
     (let publicNet = js_trim publicMultusNetwork in
      if publicNet = [] then act_throw ''public Multus network is required''
      else act_bind (read_router env cluster ns nm) (\<lambda>existing.
        if KMC_MAX_MULTUS_ATTACHMENTS < length (router_vpcs existing) + 1
        then act_throw (''Cannot add external gateway: would exceed '' @ nat_str KMC_MAX_MULTUS_ATTACHMENTS @
               '' Multus attachments'')
        else write_router env cluster ns nm (with_external publicNet existing)))"

definition ROUTER_ANNOTATION_RECREATE_APPLIANCE :: string where
  "ROUTER_ANNOTATION_RECREATE_APPLIANCE = ''kmc.ianunruh.com/recreate-appliance''"

record recreate_request =
  rcq_cluster :: string
  rcq_namespace :: string
  rcq_routerName :: string
  rcq_sshPublicKey :: string
  rcq_diskSize :: string
  rcq_storageClass :: "string option"
  rcq_imageNamespace :: string
  rcq_imageName :: string
  rcq_instanceType :: "string option"
  rcq_cpuCores :: "js_num option"
  rcq_memory :: "string option"

definition with_appliance :: "router_appliance_spec \<Rightarrow> string \<Rightarrow> router_cr \<Rightarrow> router_cr" where
  "with_appliance appliance nonce r =
     (let meta = opt_default \<lparr>om_name = None, om_generateName = None, om_namespace = None, om_uid = None,
            om_creationTimestamp = None, om_labels = None, om_annotations = None\<rparr> (rcr_metadata r) in
      r\<lparr>rcr_metadata := Some (meta\<lparr>om_annotations := Some
          (obj_assign (obj_spread [] (opt_obj (om_annotations meta))) ROUTER_ANNOTATION_RECREATE_APPLIANCE nonce)\<rparr>),
        rcr_spec := Some ((router_spec r)\<lparr>rcs_vpcs := Some (router_vpcs r), rcs_appliance := Some appliance\<rparr>)\<rparr>)"

definition recreateRouterVm :: "'s router_env \<Rightarrow> recreate_request \<Rightarrow> ('s, unit) act" where
  "recreateRouterVm env inp =
     (let ns = js_trim (rcq_namespace inp); nm = js_trim (rcq_routerName inp); cluster = rcq_cluster inp in
      act_seq (act_lift (check_appliance (rcq_sshPublicKey inp) (rcq_diskSize inp) (rcq_imageName inp)
          (rcq_instanceType inp) (rcq_cpuCores inp) (rcq_memory inp)))
      (act_bind (read_router env cluster ns nm) (\<lambda>existing.
       act_bind (applianceSshPublicKeys env (rcq_sshPublicKey inp)) (\<lambda>keys.
       act_bind (act_read (roe_nowIso env)) (\<lambda>nonce.
         write_router env cluster ns nm (with_appliance
           (appliance_spec (rcq_imageNamespace inp) (rcq_imageName inp) (rcq_instanceType inp) (rcq_cpuCores inp)
             (rcq_memory inp) (rcq_diskSize inp) (rcq_storageClass inp) keys
             (opt_default ''Always'' (fld (rcs_appliance (router_spec existing)) ras_runStrategy)))
           nonce existing))))))"

text \<open>
  No other network of the router may have the same block. A network that cannot be read does not
  count.
\<close>

definition check_block :: "'s router_env \<Rightarrow> string \<Rightarrow> string \<Rightarrow> string \<Rightarrow> router_vpc_attachment \<Rightarrow> ('s, unit) act" where
  "check_block env cluster ns newCidr v =
     act_catch
       (act_bind (loadVpcCr env cluster ns (rva_name v)) (\<lambda>other.
          if opt_trim (fld (vcr_spec other) vcs_cidr) = Some newCidr
          then act_throw (''CIDR '' @ newCidr @ '' already used by VPC '' @ rva_name v @ '' on this router'')
          else act_return ()))
       (\<lambda>err. if error_message_is (\<lambda>m. js_includes m ''already used'') err then act_fail err else act_return ())"

definition has_external :: "router_cr \<Rightarrow> bool" where
  "has_external r \<longleftrightarrow> trim_or_undef (map_option res_multusNetwork (rcs_external (router_spec r))) \<noteq> None"

definition multus_count :: "router_cr \<Rightarrow> nat" where
  "multus_count r = length (router_vpcs r) + (if has_external r then 1 else 0)"

text \<open>The result says whether the appliance was restarted: never, by the console.\<close>

definition attachRouterVpc :: "'s router_env \<Rightarrow> string \<Rightarrow> string \<Rightarrow> string \<Rightarrow> string \<Rightarrow> ('s, bool) act" where
  "attachRouterVpc env cluster ns routerName vpcName0 =
     (let vpcName = js_trim vpcName0 in
      if vpcName = [] then act_throw ''vpcName is required''
      else act_bind (loadVpcCr env cluster ns vpcName) (\<lambda>vpc.
        case trim_or_undef (fld (vcr_spec vpc) vcs_cidr) of
          None \<Rightarrow> act_throw (''VPC '' @ vpcName @ '' requires private IPAM (CIDR) before attaching a router'')
        | Some newCidr \<Rightarrow>
            let existing = opt_str (trim_or_undef (ref_name (fld (vcr_status vpc) vct_routerRef))) in
            if existing \<noteq> [] \<and> existing \<noteq> routerName
            then act_throw (''VPC '' @ vpcName @ '' is already attached to router '' @ existing)
            else act_bind (read_router env cluster ns routerName) (\<lambda>router.
              if list_ex (\<lambda>v. rva_name v = vpcName) (router_vpcs router) then act_return False
              else if KMC_MAX_MULTUS_ATTACHMENTS < multus_count router + 1
              then act_throw (''Cannot attach VPC: would exceed '' @ nat_str KMC_MAX_MULTUS_ATTACHMENTS @
                     '' Multus attachments'')
              else act_seq (act_each (check_block env cluster ns newCidr) (router_vpcs router))
                (act_seq (write_router env cluster ns routerName
                    (with_vpcs (router_vpcs router @ [\<lparr>rva_name = vpcName, rva_gateway = None\<rparr>]) router))
                  (act_return False)))))"

text \<open>What still uses a network: leased machines and mapped addresses.\<close>

definition guest_lease :: "string \<Rightarrow> ip_address_cr \<Rightarrow> bool" where
  "guest_lease vpcName ip \<longleftrightarrow>
     (case fld (iac_spec ip) ias_poolRef of
        None \<Rightarrow> False | Some pool \<Rightarrow> pr_kind pool = ''VPC'' \<and> pr_name pool = vpcName) \<and>
     fld (fld (iac_spec ip) ias_claimRef) cr_kind = Some ''VirtualMachine'' \<and>
     truthy (fld (fld (iac_spec ip) ias_interface) nic_mac)"

definition active_fip :: "string \<Rightarrow> fip_cr \<Rightarrow> bool" where
  "active_fip vpcName f \<longleftrightarrow>
     ref_name (fld (fcr_spec f) fcs_vpcRef) = Some vpcName \<and>
     trim_or_undef (fld (fcr_spec f) fcs_privateAddress) \<noteq> None"

definition check_detached :: "'s router_env \<Rightarrow> string \<Rightarrow> string \<Rightarrow> string \<Rightarrow> ('s, unit) act" where
  "check_detached env cluster ns vpcName =
     act_bind (listNamespacedCustomObjects (pcl_claims (ve_pools (roe_vpc env))) cluster ns PLURAL_IP_ADDRESSES None) (\<lambda>ipAddrs.
     act_bind (listNamespacedCustomObjects (ve_fips (roe_vpc env)) cluster ns PLURAL_FLOATING_IPS None) (\<lambda>fips.
       let leases = length (filter (guest_lease vpcName) ipAddrs); mapped = length (filter (active_fip vpcName) fips) in
       if 0 < leases \<or> 0 < mapped
       then act_throw (''VPC '' @ vpcName @ '' still has '' @ nat_str leases @ '' guest lease(s) and '' @ nat_str mapped @
              '' associated floating IP(s). Force detach to continue.'')
       else act_return ()))"

definition detachRouterVpc ::
  "'s router_env \<Rightarrow> string \<Rightarrow> string \<Rightarrow> string \<Rightarrow> string \<Rightarrow> bool \<Rightarrow> ('s, bool) act" where
  "detachRouterVpc env cluster ns routerName vpcName0 force =
     (let vpcName = js_trim vpcName0 in
      if vpcName = [] then act_throw ''vpcName is required''
      else act_bind (read_router env cluster ns routerName) (\<lambda>router.
        let vpcs = router_vpcs router in
        if \<not> list_ex (\<lambda>v. rva_name v = vpcName) vpcs
        then act_throw (''VPC '' @ vpcName @ '' is not attached to this router'')
        else if length vpcs \<le> 1 then act_throw ''Cannot detach the last VPC -- delete the router instead''
        else act_seq (act_when (\<not> force) (check_detached env cluster ns vpcName))
          (act_seq (write_router env cluster ns routerName
              (with_vpcs (filter (\<lambda>v. rva_name v \<noteq> vpcName) vpcs) router))
            (act_return False))))"

section \<open>Pickers\<close>

record router_choice =
  roc_name :: string
  roc_vpcNames :: "string list"
  roc_hasExternal :: bool
  roc_agentStatus :: "router_agent_status option"
  roc_multusCount :: nat

text \<open>Whether a network of the router has the block; the loop stops at the first.\<close>

fun block_taken :: "'s router_env \<Rightarrow> string \<Rightarrow> string \<Rightarrow> string \<Rightarrow> router_vpc_attachment list \<Rightarrow> ('s, bool) act" where
  "block_taken env cluster ns vpcCidr [] = act_return False"
| "block_taken env cluster ns vpcCidr (v # vs) =
     act_bind
       (act_or (act_bind (loadVpcCr env cluster ns (rva_name v)) (\<lambda>other.
          act_return (opt_trim (fld (vcr_spec other) vcs_cidr) = Some vpcCidr))) False)
       (\<lambda>same. if same then act_return True else block_taken env cluster ns vpcCidr vs)"

fun router_choices ::
  "'s router_env \<Rightarrow> string \<Rightarrow> string \<Rightarrow> string \<Rightarrow> string \<Rightarrow> router_cr list \<Rightarrow> ('s, router_choice list) act" where
  "router_choices env cluster ns vpcName vpcCidr [] = act_return []"
| "router_choices env cluster ns vpcName vpcCidr (r # rs) =
     (let nm = opt_str (fld (rcr_metadata r) om_name); vpcs = router_vpcs r;
          rest = router_choices env cluster ns vpcName vpcCidr rs in
      if nm = [] \<or> list_ex (\<lambda>v. rva_name v = vpcName) vpcs \<or> KMC_MAX_MULTUS_ATTACHMENTS < multus_count r + 1 then rest
      else act_bind (block_taken env cluster ns vpcCidr vpcs) (\<lambda>overlap.
        if overlap then rest
        else act_bind rest (\<lambda>more. act_return
          (\<lparr>roc_name = nm, roc_vpcNames = map rva_name vpcs, roc_hasExternal = has_external r,
            roc_agentStatus = router_agentStatus r, roc_multusCount = multus_count r\<rparr> # more))))"

definition listRoutersForVpcAttach ::
  "'s router_env \<Rightarrow> string \<Rightarrow> string \<Rightarrow> string \<Rightarrow> ('s, router_choice list) act" where
  "listRoutersForVpcAttach env cluster ns vpcName =
     act_bind (loadVpcCr env cluster ns vpcName) (\<lambda>vpc.
       if trim_or_undef (ref_name (fld (vcr_status vpc) vct_routerRef)) \<noteq> None then act_return []
       else case trim_or_undef (fld (vcr_spec vpc) vcs_cidr) of
         None \<Rightarrow> act_return []
       | Some vpcCidr \<Rightarrow>
           act_bind (listNamespacedCustomObjects (ve_routers (roe_vpc env)) cluster ns PLURAL_ROUTERS None) (\<lambda>routers.
           act_bind (router_choices env cluster ns vpcName vpcCidr routers) (\<lambda>out.
             act_return (sort_by (\<lambda>a b. ve_le (roe_vpc env) (roc_name a) (roc_name b)) out))))"

record attachable_vpc =
  atv_name :: string
  atv_cidr :: "string option"
  atv_gateway :: "string option"
  atv_attachedRouter :: "string option"

definition attachable_row :: "vpc_cr \<Rightarrow> attachable_vpc" where
  "attachable_row vpc =
     \<lparr>atv_name = opt_str (fld (vcr_metadata vpc) om_name), atv_cidr = fld (vcr_spec vpc) vcs_cidr,
      atv_gateway = fld (vcr_spec vpc) vcs_gateway,
      atv_attachedRouter = trim_or_undef (ref_name (fld (vcr_status vpc) vct_routerRef))\<rparr>"

definition listRouterAttachableVpcs :: "'s router_env \<Rightarrow> string \<Rightarrow> string \<Rightarrow> ('s, attachable_vpc list) act" where
  "listRouterAttachableVpcs env cluster ns =
     act_bind (listNamespacedCustomObjects (ve_vpcs (roe_vpc env)) cluster ns PLURAL_VPCS None) (\<lambda>items.
       act_return (sort_by (\<lambda>a b. ve_le (roe_vpc env) (atv_name a) (atv_name b))
         (filter (\<lambda>v. atv_name v \<noteq> []) (map attachable_row items))))"

section \<open>What every operation keeps\<close>

text \<open>
  A router that the console may have written: it has at least one network, no network twice, and no
  more attachments than a machine can have.
\<close>

definition spec_vpcs :: "router_cr_spec \<Rightarrow> router_vpc_attachment list" where
  "spec_vpcs sp = opt_default [] (rcs_vpcs sp)"

definition spec_external :: "router_cr_spec \<Rightarrow> bool" where
  "spec_external sp \<longleftrightarrow> trim_or_undef (map_option res_multusNetwork (rcs_external sp)) \<noteq> None"

definition router_ok :: "router_cr_spec \<Rightarrow> bool" where
  "router_ok sp \<longleftrightarrow>
     spec_vpcs sp \<noteq> [] \<and> distinct (map rva_name (spec_vpcs sp)) \<and>
     length (spec_vpcs sp) + (if spec_external sp then 1 else 0) \<le> KMC_MAX_MULTUS_ATTACHMENTS"

text \<open>
  \<open>R\<close> are the specs of the stored routers: reading finds one of them, writing adds at most what was
  written, and nothing else touches them.
\<close>

definition router_store :: "('s \<Rightarrow> router_cr_spec set) \<Rightarrow> 's router_env \<Rightarrow> string \<Rightarrow> bool" where
  "router_store R env cluster \<longleftrightarrow>
     network_reads R (roe_vpc env) cluster \<and> leaves R (roe_consoleKey env) \<and>
     (\<forall>core nm. ne_core (ve_ns (roe_vpc env)) cluster = Inr core \<longrightarrow> leaves R (nsa_read core nm)) \<and>
     (\<forall>api. ve_routers (roe_vpc env) cluster = Inr api \<longrightarrow>
        (\<forall>g ns nm s r. fst (api_get_ns api g ns nm s) = Inr r \<longrightarrow> router_spec r \<in> R s) \<and>
        (\<forall>g ns b s. R (snd (api_create_ns api g ns b s)) \<subseteq> insert (router_spec b) (R s)) \<and>
        (\<forall>g ns nm b s. R (snd (api_replace_ns api g ns nm b s)) \<subseteq> insert (router_spec b) (R s)) \<and>
        (\<forall>g ns nm s. R (snd (api_delete_ns api g ns nm s)) \<subseteq> R s))"

definition all_ok :: "('s \<Rightarrow> router_cr_spec set) \<Rightarrow> 's \<Rightarrow> bool" where
  "all_ok R s \<longleftrightarrow> (\<forall>sp \<in> R s. router_ok sp)"

text \<open>The operations of the console on the routers of a cluster, in any order.\<close>

inductive router_step :: "'s router_env \<Rightarrow> string \<Rightarrow> 's \<Rightarrow> 's \<Rightarrow> bool" for env cluster where
  created: "cro_cluster inp = cluster \<Longrightarrow> router_step env cluster s (snd (createRouter env inp s))"
| deleted: "router_step env cluster s (snd (deleteRouter env cluster ns nm s))"
| opened: "router_step env cluster s (snd (setRouterExternalGateway env cluster ns nm net s))"
| recreated: "rcq_cluster req = cluster \<Longrightarrow> router_step env cluster s (snd (recreateRouterVm env req s))"
| attached: "router_step env cluster s (snd (attachRouterVpc env cluster ns nm vpc s))"
| detached: "router_step env cluster s (snd (detachRouterVpc env cluster ns nm vpc force s))"

lemma all_ok_subset: "all_ok R s \<Longrightarrow> R t \<subseteq> insert sp (R s) \<Longrightarrow> router_ok sp \<Longrightarrow> all_ok R t"
  unfolding all_ok_def by blast

lemma writes_safe:
  assumes "\<And>s. R (snd (m s)) \<subseteq> insert sp (R s)" "router_ok sp"
  shows "safe (all_ok R) m (\<lambda>_. True)"
  unfolding safe_def
proof (intro allI impI conjI)
  fix s assume "all_ok R s"
  then show "all_ok R (snd (m s))" using assms(1) [of s] assms(2) by (rule all_ok_subset)
qed simp

lemma all_ok_leaves: "leaves R m \<Longrightarrow> safe (all_ok R) m (\<lambda>_. True)"
  unfolding all_ok_def by (rule safe_leaves)

lemma router_spec_simps [simp]:
  "router_spec (with_external net r) = (router_spec r)\<lparr>rcs_vpcs := Some (router_vpcs r), rcs_external := Some (external_side net)\<rparr>"
  "router_spec (with_vpcs vs r) = (router_spec r)\<lparr>rcs_vpcs := Some vs\<rparr>"
  "router_spec (with_appliance a n r) = (router_spec r)\<lparr>rcs_vpcs := Some (router_vpcs r), rcs_appliance := Some a\<rparr>"
  by (simp_all add: router_spec_def with_external_def with_vpcs_def with_appliance_def Let_def opt_default_def)

lemma router_ok_parts:
  "router_ok (router_spec r) \<longleftrightarrow>
     router_vpcs r \<noteq> [] \<and> distinct (map rva_name (router_vpcs r)) \<and> multus_count r \<le> KMC_MAX_MULTUS_ATTACHMENTS"
  by (simp add: router_ok_def spec_vpcs_def spec_external_def router_vpcs_def multus_count_def has_external_def)

lemma with_vpcs_ok:
  "router_ok (router_spec (with_vpcs vs r)) \<longleftrightarrow>
     vs \<noteq> [] \<and> distinct (map rva_name vs) \<and> length vs + (if has_external r then 1 else 0) \<le> KMC_MAX_MULTUS_ATTACHMENTS"
  by (simp add: router_ok_def spec_vpcs_def spec_external_def has_external_def opt_default_def)

lemma router_store_calls:
  assumes "router_store R env cluster"
  shows "network_reads R (roe_vpc env) cluster" "leaves R (roe_consoleKey env)"
    "ne_core (ve_ns (roe_vpc env)) cluster = Inr core \<Longrightarrow> leaves R (nsa_read core nm)"
  using assms by (simp_all add: router_store_def)

lemma read_router_safe:
  assumes "router_store R env cluster"
  shows "safe (all_ok R) (read_router env cluster ns nm) (\<lambda>r. router_ok (router_spec r))"
proof (rule safeI)
  fix s r t
  assume ok: "all_ok R s" and run: "read_router env cluster ns nm s = (r, t)"
  have "leaves R (read_router env cluster ns nm)"
    unfolding read_router_def
    by (intro leaves_intros clients_read_wrappers network_reads_clients router_store_calls [OF assms])
  then have "R t = R s" using run by (rule leavesD)
  moreover have "router_spec x \<in> R s" if "r = Inr x" for x
    using run that assms
    by (auto simp: read_router_def act_catch_def getNamespacedCustomObject_def with_custom_apply act_throw_apply
        act_fail_apply router_store_def split: prod.splits sum.splits if_splits) (metis fst_conv)
  ultimately show "all_ok R t \<and> (\<forall>x. r = Inr x \<longrightarrow> router_ok (router_spec x))"
    using ok by (simp add: all_ok_def)
qed

lemma write_router_safe:
  assumes "router_store R env cluster" "router_ok (router_spec b)"
  shows "safe (all_ok R) (write_router env cluster ns nm b) (\<lambda>_. True)"
  unfolding write_router_def replaceNamespacedCustomObject_def
proof (intro safe_bind safe_return safe_with_custom)
  fix api assume "ve_routers (roe_vpc env) cluster = Inr api"
  then show "safe (all_ok R) (api_replace_ns api (kmc_gvp PLURAL_ROUTERS) ns nm b) (\<lambda>_. True)"
    using assms(1) by (intro writes_safe [OF _ assms(2)]) (simp add: router_store_def)
qed simp

lemma reads_safe:
  assumes "router_store R env cluster"
  shows "safe (all_ok R) (loadVpcCr env cluster ns nm) (\<lambda>_. True)"
    "safe (all_ok R) (applianceSshPublicKeys env key) (\<lambda>_. True)"
    "safe (all_ok R) (assertVmNamespaceAllowed (ve_ns (roe_vpc env)) cluster nm) (\<lambda>_. True)"
    "safe (all_ok R) (act_each (check_vpc env cluster ns) names) (\<lambda>_. True)"
    "safe (all_ok R) (act_each (check_block env cluster ns cidr) vs) (\<lambda>_. True)"
    "safe (all_ok R) (check_detached env cluster ns nm) (\<lambda>_. True)"
proof -
  have pools: "clients_read R (pcl_claims (ve_pools (roe_vpc env))) cluster"
    by (rule pool_reads_clients(3) [OF network_reads_clients(6) [OF router_store_calls(1) [OF assms]]])
  have vpc: "leaves R (loadVpcCr env cluster ns nm)" for ns nm
    unfolding loadVpcCr_def
    by (intro leaves_intros clients_read_wrappers network_reads_clients router_store_calls [OF assms])
  show "safe (all_ok R) (loadVpcCr env cluster ns nm) (\<lambda>_. True)" by (rule all_ok_leaves [OF vpc])
  show "safe (all_ok R) (applianceSshPublicKeys env key) (\<lambda>_. True)"
    unfolding applianceSshPublicKeys_def Let_def
    by (intro all_ok_leaves leaves_intros router_store_calls [OF assms])
  show "safe (all_ok R) (assertVmNamespaceAllowed (ve_ns (roe_vpc env)) cluster nm) (\<lambda>_. True)"
    by (intro all_ok_leaves namespace_allowed_leaves router_store_calls [OF assms])
  show "safe (all_ok R) (act_each (check_vpc env cluster ns) names) (\<lambda>_. True)"
    unfolding check_vpc_def by (intro all_ok_leaves leaves_intros vpc)
  show "safe (all_ok R) (act_each (check_block env cluster ns cidr) vs) (\<lambda>_. True)"
    unfolding check_block_def by (intro all_ok_leaves leaves_intros vpc)
  show "safe (all_ok R) (check_detached env cluster ns nm) (\<lambda>_. True)"
    unfolding check_detached_def Let_def
    by (intro all_ok_leaves leaves_intros clients_read_wrappers pools network_reads_clients router_store_calls [OF assms])
qed

lemma new_router_ok:
  assumes "check_create_router inp = Inr ()"
  shows "router_ok (router_spec (new_router inp keys))"
proof -
  have "map rva_name (map (\<lambda>v. \<lparr>rva_name = v, rva_gateway = None\<rparr>) (wanted_vpcs inp)) = wanted_vpcs inp"
    by (simp add: comp_def)
  moreover have "distinct (wanted_vpcs inp)" by (simp add: wanted_vpcs_def)
  moreover have "trim_or_undef None = None" by (simp add: trim_or_undef_def opt_trim_def opt_or_undef_def)
  ultimately show ?thesis
    using assms
    by (auto simp: check_create_router_def res_bind_Inr router_ok_def spec_vpcs_def spec_external_def router_spec_def
        new_router_def opt_default_def comp_def split: if_splits option.splits)
qed

lemma createRouter_safe:
  assumes "router_store R env (cro_cluster inp)"
  shows "safe (all_ok R) (createRouter env inp) (\<lambda>_. True)"
  unfolding createRouter_def act_seq_def createNamespacedCustomObject_def
proof (rule safe_bind [where Q = "\<lambda>_. check_create_router inp = Inr ()"])
  show "safe (all_ok R) (act_lift (check_create_router inp)) (\<lambda>_. check_create_router inp = Inr ())"
    by (rule safe_lift) simp
  assume ok: "check_create_router inp = Inr ()"
  have create: "safe (all_ok R) (api_create_ns api g ns (new_router inp keys)) (\<lambda>_. True)"
    if "ve_routers (roe_vpc env) (cro_cluster inp) = Inr api" for api g ns keys
    by (rule writes_safe [OF _ new_router_ok [OF ok, of keys]]) (use assms that in \<open>simp add: router_store_def\<close>)
  have clock: "safe (all_ok R) (act_read g) (\<lambda>_. True)" for g :: "_ \<Rightarrow> int"
    by (rule all_ok_leaves [OF leaves_read])
  show "safe (all_ok R) (act_bind (assertVmNamespaceAllowed (ve_ns (roe_vpc env)) (cro_cluster inp) (cro_namespace inp))
      (\<lambda>_. act_bind (act_each (check_vpc env (cro_cluster inp) (cro_namespace inp)) (wanted_vpcs inp))
      (\<lambda>_. act_bind (applianceSshPublicKeys env (cro_sshPublicKey inp)) (\<lambda>keys. act_catch
         (act_bind (with_custom (ve_routers (roe_vpc env)) (cro_cluster inp)
            (\<lambda>api. api_create_ns api (kmc_gvp PLURAL_ROUTERS) (cro_namespace inp) (new_router inp keys))) (\<lambda>created.
          act_bind (act_read (ve_now (roe_vpc env))) (\<lambda>now.
            act_return (mapRouterSummary (ve_date (roe_vpc env)) now (cro_cluster inp) created))))
         (\<lambda>err. act_fail (mk_error_cause (format_error err) err)))))) (\<lambda>_. True)"
    by (rule safe_bind [OF reads_safe(3) [OF assms]] safe_bind [OF reads_safe(4) [OF assms]]
        safe_bind [OF reads_safe(2) [OF assms]] safe_catch safe_bind [OF safe_with_custom [OF create]]
        safe_bind [OF clock] safe_return safe_basic TrueI | assumption)+
qed

lemma deleteRouter_safe:
  assumes "router_store R env cluster"
  shows "safe (all_ok R) (deleteRouter env cluster ns nm) (\<lambda>_. True)"
  unfolding deleteRouter_def deleteNamespacedCustomObject_def
proof (intro safe_catch safe_with_custom safe_if safe_basic safe_return TrueI)
  fix api assume "ve_routers (roe_vpc env) cluster = Inr api"
  then have "R (snd (api_delete_ns api g ns nm s)) \<subseteq> R s" for g s using assms by (simp add: router_store_def)
  then show "safe (all_ok R) (api_delete_ns api (kmc_gvp PLURAL_ROUTERS) ns nm) (\<lambda>_. True)"
    unfolding safe_def all_ok_def by blast
qed

lemma external_ok:
  assumes "router_ok (router_spec r)" "length (router_vpcs r) + 1 \<le> KMC_MAX_MULTUS_ATTACHMENTS"
  shows "router_ok (router_spec (with_external net r))"
  using assms by (simp add: router_ok_def spec_vpcs_def router_vpcs_def opt_default_def)

lemma appliance_ok: "router_ok (router_spec r) \<Longrightarrow> router_ok (router_spec (with_appliance a n r))"
  by (simp add: router_ok_def spec_vpcs_def spec_external_def router_vpcs_def opt_default_def)

lemma attach_ok:
  assumes "router_ok (router_spec r)" "multus_count r + 1 \<le> KMC_MAX_MULTUS_ATTACHMENTS"
    and "\<not> list_ex (\<lambda>v. rva_name v = nm) (router_vpcs r)"
  shows "router_ok (router_spec (with_vpcs (router_vpcs r @ [\<lparr>rva_name = nm, rva_gateway = None\<rparr>]) r))"
  using assms
  by (auto simp: router_ok_def spec_vpcs_def spec_external_def multus_count_def has_external_def router_vpcs_def
      opt_default_def list_ex_iff)

lemma detach_ok:
  assumes "router_ok (router_spec r)" "1 < length (router_vpcs r)"
  shows "router_ok (router_spec (with_vpcs (filter (\<lambda>v. rva_name v \<noteq> nm) (router_vpcs r)) r))"
proof -
  let ?vs = "filter (\<lambda>v. rva_name v \<noteq> nm) (router_vpcs r)"
  have d: "distinct (map rva_name (router_vpcs r))" using assms(1) by (simp add: router_ok_parts)
  have "?vs \<noteq> []"
  proof
    assume "?vs = []"
    then have "set (map rva_name (router_vpcs r)) \<subseteq> {nm}" by (auto simp: filter_empty_conv)
    then have "card (set (map rva_name (router_vpcs r))) \<le> 1" using card_mono [of "{nm}"] by simp
    then show False using assms(2) distinct_card [OF d] by simp
  qed
  moreover have "distinct (map rva_name ?vs)" using d by (rule distinct_map_filter)
  moreover have "length ?vs \<le> length (router_vpcs r)" by (rule length_filter_le)
  moreover have "length (router_vpcs r) + (if has_external r then 1 else 0) \<le> KMC_MAX_MULTUS_ATTACHMENTS"
    using assms(1) by (simp add: router_ok_parts multus_count_def)
  ultimately show ?thesis unfolding with_vpcs_ok by linarith
qed

lemma change_safe:
  assumes "router_store R env cluster"
  shows "safe (all_ok R) (setRouterExternalGateway env cluster ns nm net) (\<lambda>_. True)"
    "rcq_cluster req = cluster \<Longrightarrow> safe (all_ok R) (recreateRouterVm env req) (\<lambda>_. True)"
    "safe (all_ok R) (attachRouterVpc env cluster ns nm vpc) (\<lambda>_. True)"
    "safe (all_ok R) (detachRouterVpc env cluster ns nm vpc force) (\<lambda>_. True)"
proof -
  note read = safe_bind [OF read_router_safe [OF assms]] and store = write_router_safe [OF assms]
  note reads = reads_safe [OF assms]
  have clock: "safe (all_ok R) (act_read g) (\<lambda>_. True)" for g :: "_ \<Rightarrow> string"
    by (rule all_ok_leaves [OF leaves_read])
  show "safe (all_ok R) (setRouterExternalGateway env cluster ns nm net) (\<lambda>_. True)"
    unfolding setRouterExternalGateway_def Let_def
    by (intro safe_if safe_basic read store external_ok) (auto simp: not_less)
  show "safe (all_ok R) (recreateRouterVm env req) (\<lambda>_. True)" if "rcq_cluster req = cluster"
    unfolding recreateRouterVm_def Let_def that
    by (intro safe_seq [OF safe_lift [where Q = "\<lambda>_. True"]] safe_bind [OF clock] safe_bind [OF reads(2)] read store
        appliance_ok) auto
  show "safe (all_ok R) (attachRouterVpc env cluster ns nm vpc) (\<lambda>_. True)"
    unfolding attachRouterVpc_def Let_def
    by (intro safe_if safe_basic safe_option safe_return safe_bind [OF reads(1)] read safe_seq [OF reads(5)]
        safe_seq [OF store] attach_ok) (auto simp: not_less)
  have guard: "safe (all_ok R) (act_when b (check_detached env cluster ns v)) (\<lambda>_. True)" for b v
    by (cases b) (simp_all add: reads(6) safe_return)
  show "safe (all_ok R) (detachRouterVpc env cluster ns nm vpc force) (\<lambda>_. True)"
    unfolding detachRouterVpc_def Let_def
    by (intro safe_if safe_basic safe_return read safe_seq [OF guard] safe_seq [OF store] detach_ok)
      (auto simp: not_le)
qed

lemma router_step_ok:
  assumes "router_step env cluster s t" "router_store R env cluster" "all_ok R s"
  shows "all_ok R t"
  using assms
  by (cases rule: router_step.cases)
    (auto intro: safe_state createRouter_safe deleteRouter_safe change_safe)

section \<open>Routers in a laboratory\<close>

text \<open>The state is the list of the routers; every network has the block of its own name.\<close>

definition router_named :: "string \<Rightarrow> router_cr \<Rightarrow> bool" where
  "router_named nm r \<longleftrightarrow> fld (rcr_metadata r) om_name = Some nm"

definition lab_router_api :: "(router_cr list, router_cr) custom_api" where
  "lab_router_api = idle_api\<lparr>
     api_get_ns := (\<lambda>g ns nm s. (case filter (router_named nm) s of
       [] \<Rightarrow> Inl (mk_error ''not found'') | r # rs \<Rightarrow> Inr r, s)),
     api_create_ns := (\<lambda>g ns b s. (Inr b, s @ [b])),
     api_replace_ns := (\<lambda>g ns nm b s. (Inr b, map (\<lambda>r. if router_named nm r then b else r) s)),
     api_delete_ns := (\<lambda>g ns nm s. (Inr (), filter (\<lambda>r. \<not> router_named nm r) s))\<rparr>"

definition lab_router_env :: "router_cr list router_env" where
  "lab_router_env =
     \<lparr>roe_vpc = idle_env\<lparr>ve_routers := (\<lambda>c. Inr lab_router_api),
        ve_vpcs := (\<lambda>c. Inr (idle_api\<lparr>api_get_ns := (\<lambda>g ns nm. act_return
          (lab_vpc\<lparr>vcr_spec := Some (empty_vpc_spec\<lparr>vcs_cidr := Some nm\<rparr>)\<rparr>))\<rparr>))\<rparr>,
      roe_consoleKey = act_return None, roe_nowIso = (\<lambda>s. ''now''), roe_contexts = [''c1'']\<rparr>"

definition lab_router :: router_cr where
  "lab_router = \<lparr>rcr_apiVersion = None, rcr_kind = None,
     rcr_metadata = Some (new_meta (Some ''edge'') ''lab'' None None),
     rcr_spec = Some \<lparr>rcs_vpcs = Some [\<lparr>rva_name = ''net'', rva_gateway = None\<rparr>], rcs_external = None,
       rcs_appliance = None\<rparr>,
     rcr_status = None\<rparr>"

lemma filtered_member: "filter P xs = y # ys \<Longrightarrow> y \<in> set xs"
  by (metis filter_is_subset list.set_intros(1) subsetD)

lemma lab_router_store: "router_store (\<lambda>s. router_spec ` set s) lab_router_env cluster"
  by (simp add: router_store_def network_reads_def pool_reads_def clients_read_def lab_router_env_def idle_env_def
      throw_def)
    (auto simp: reads_leave_def lab_router_api_def idle_api_def leaves_def act_simps
      split: list.splits if_splits dest!: filtered_member)

definition attached_names :: "router_cr list \<Rightarrow> string list list" where
  "attached_names rs = map (\<lambda>r. map rva_name (router_vpcs r)) rs"

text \<open>A second network comes, the first one goes, the second one has to stay.\<close>

definition lab_attached :: "router_cr list" where
  "lab_attached = snd (attachRouterVpc lab_router_env ''c1'' ''lab'' ''edge'' '' net2 '' [lab_router])"

definition lab_detached :: "router_cr list" where
  "lab_detached = snd (detachRouterVpc lab_router_env ''c1'' ''lab'' ''edge'' ''net'' False lab_attached)"

definition lab_refused :: "router_cr list" where
  "lab_refused = snd (detachRouterVpc lab_router_env ''c1'' ''lab'' ''edge'' ''net2'' True lab_detached)"

lemma lab_router_names:
  "attached_names lab_attached = [[''net'', ''net2'']]" "attached_names lab_detached = [[''net2'']]"
  "attached_names lab_refused = [[''net2'']]"
  by code_simp+

lemma lab_router_steps: "(router_step lab_router_env ''c1'')\<^sup>*\<^sup>* [lab_router] lab_refused"
proof -
  have "router_step lab_router_env ''c1'' [lab_router] lab_attached"
    unfolding lab_attached_def by (rule router_step.attached)
  moreover have "router_step lab_router_env ''c1'' lab_attached lab_detached"
    unfolding lab_detached_def by (rule router_step.detached)
  moreover have "router_step lab_router_env ''c1'' lab_detached lab_refused"
    unfolding lab_refused_def by (rule router_step.detached)
  ultimately show ?thesis
    by (rule rtranclp.rtrancl_into_rtrancl [OF rtranclp.rtrancl_into_rtrancl [OF r_into_rtranclp]])
qed

lemma lab_router_ok: "router_ok (router_spec lab_router)"
  by code_simp

text \<open>
  C17. Routers stay sound. Whatever sequence of operations the console performs on the routers of a
  cluster, every stored router keeps at least one network, no network twice, and no more networks
  and external sides than a machine has attachments.
\<close>

theorem routers_stay_sound:
  assumes "router_store R env cluster" "(router_step env cluster)\<^sup>*\<^sup>* s t"
    and "\<forall>sp \<in> R s. router_ok sp"
  shows "\<forall>sp \<in> R t. router_ok sp"
  using assms(2,3)
proof (induction rule: rtranclp_induct)
  case (step u v)
  then show ?case using router_step_ok [OF _ assms(1)] by (simp add: all_ok_def)
qed simp

theorem routers_stay_sound_witness:
  "list_all router_ok (map router_spec lab_refused) \<and> attached_names lab_refused = [[''net2'']]"
  using routers_stay_sound [OF lab_router_store lab_router_steps] lab_router_ok lab_router_names(3)
  by (simp add: list_all_iff)

end
