(* ===== verification/Snapshots.thy ===== *)
theory Snapshots
  imports Vm_Rules Membership Json Frames
begin

text \<open>
  \<open>snapshots/snapshots.server.ts\<close>: snapshots of machines and their restoration in place. The
  functions that take a client of their own (for the runner of schedules) are modelled beside
  those that look one up. The parts of the UTC date and the order of \<open>localeCompare\<close> are parameters.
\<close>

section \<open>Names\<close>

text \<open>\<open>replace(/[^a-z0-9-]/g, "-")\<close>, \<open>replace(/-+/g, "-")\<close> and \<open>replace(/^-+|-+$/g, "")\<close>.\<close>

definition dashed_char :: "char \<Rightarrow> char" where
  "dashed_char c = (if is_lower_alpha c \<or> is_digit c \<or> c = CHR ''-'' then c else CHR ''-'')"

fun squeeze_dashes :: "string \<Rightarrow> string" where
  "squeeze_dashes (a # b # s) =
     (if a = CHR ''-'' \<and> b = CHR ''-'' then squeeze_dashes (b # s) else a # squeeze_dashes (b # s))"
| "squeeze_dashes s = s"

definition drop_end_dashes :: "string \<Rightarrow> string" where
  "drop_end_dashes s = rev (dropWhile (\<lambda>c. c = CHR ''-'') (rev s))"

definition drop_dashes :: "string \<Rightarrow> string" where
  "drop_dashes s = drop_end_dashes (dropWhile (\<lambda>c. c = CHR ''-'') s)"

text \<open>\<open>dnsLabel(raw)\<close>; the name that stands for nothing differs between the modules.\<close>

definition label_or :: "string \<Rightarrow> string \<Rightarrow> string" where
  "label_or fallback raw =
     opt_default fallback (or_undef (drop_end_dashes
       (js_slice (drop_dashes (squeeze_dashes (map dashed_char (js_lower raw)))) 0 63)))"

definition dnsLabel :: "string \<Rightarrow> string" where
  "dnsLabel raw = label_or ''snap'' raw"

record utc_date =
  ud_year :: nat
  ud_month :: nat
  ud_date :: nat
  ud_hours :: nat
  ud_minutes :: nat
  ud_seconds :: nat

definition pad2 :: "nat \<Rightarrow> string" where
  "pad2 n = (if length (nat_str n) < 2 then ''0'' @ nat_str n else nat_str n)"

definition timeSuffix :: "utc_date \<Rightarrow> string" where
  "timeSuffix d =
     nat_str (ud_year d) @ pad2 (ud_month d + 1) @ pad2 (ud_date d) @ ''-'' @
     pad2 (ud_hours d) @ pad2 (ud_minutes d) @ pad2 (ud_seconds d)"

definition name_base :: "int \<Rightarrow> string \<Rightarrow> string" where
  "name_base n vmName = opt_default ''vm'' (or_undef (drop_end_dashes (js_slice (dnsLabel vmName) 0 n)))"

definition defaultSnapshotName :: "utc_date \<Rightarrow> string \<Rightarrow> string" where
  "defaultSnapshotName d vmName = dnsLabel (name_base 40 vmName @ ''-'' @ timeSuffix d)"

definition defaultRestoreName :: "utc_date \<Rightarrow> string \<Rightarrow> string" where
  "defaultRestoreName d vmName = dnsLabel (''restore-'' @ name_base 32 vmName @ ''-'' @ timeSuffix d)"

section \<open>Objects\<close>

definition SNAPSHOT_GROUP :: string where "SNAPSHOT_GROUP = ''snapshot.kubevirt.io''"
definition SNAPSHOT_VERSION :: string where "SNAPSHOT_VERSION = ''v1beta1''"
definition SNAPSHOTS_PLURAL :: string where "SNAPSHOTS_PLURAL = ''virtualmachinesnapshots''"
definition RESTORES_PLURAL :: string where "RESTORES_PLURAL = ''virtualmachinerestores''"

definition KMC_RESOURCE_VM_SNAPSHOT :: string where "KMC_RESOURCE_VM_SNAPSHOT = ''vm-snapshot''"
definition KMC_LABEL_SCHEDULE :: string where "KMC_LABEL_SCHEDULE = KMC_LABEL_NAMESPACE @ ''/schedule''"
definition KMC_LABEL_SNAPSHOT_KIND :: string where
  "KMC_LABEL_SNAPSHOT_KIND = KMC_LABEL_NAMESPACE @ ''/snapshot-kind''"
definition KMC_SNAPSHOT_KIND_MANUAL :: string where "KMC_SNAPSHOT_KIND_MANUAL = ''manual''"
definition KMC_SNAPSHOT_KIND_SCHEDULED :: string where "KMC_SNAPSHOT_KIND_SCHEDULED = ''scheduled''"

record vm_ref =
  vr_apiGroup :: string
  vr_kind :: string
  vr_name :: string

record snapshot_spec =
  sns_source :: "vm_ref option"
  sns_failureDeadline :: "string option"

record snapshot_status =
  snt_phase :: "string option"
  snt_readyToUse :: "bool option"
  snt_indications :: "string list option"
  snt_errorMessage :: "string option"
  snt_contentName :: "string option"
  snt_conditions :: "cr_condition list option"

record kube_snapshot =
  ksn_metadata :: "object_meta option"
  ksn_spec :: "snapshot_spec option"
  ksn_status :: "snapshot_status option"

record kube_restore =
  krs_metadata :: object_meta
  krs_target :: vm_ref
  krs_snapshotName :: string
  krs_targetReadinessPolicy :: string
  krs_volumeRestorePolicy :: string

definition snapshot_gvp :: "string \<Rightarrow> gvp" where
  "snapshot_gvp plural = \<lparr>gvp_group = SNAPSHOT_GROUP, gvp_version = SNAPSHOT_VERSION, gvp_plural = plural\<rparr>"

record 's snap_env =
  se_snapshots :: "('s, kube_snapshot) clients"
  se_restores :: "('s, kube_restore) clients"
  se_utc :: "'s \<Rightarrow> utc_date"
  se_le :: "string \<Rightarrow> string \<Rightarrow> bool"

record snapshot_summary =
  sn_cluster :: string
  sn_namespace :: string
  sn_name :: string
  sn_vmName :: string
  sn_phase :: string
  sn_readyToUse :: bool
  sn_indications :: "string list"
  sn_age :: string
  sn_error :: "string option"
  sn_contentName :: "string option"
  sn_scheduleName :: "string option"
  sn_snapshotKind :: "string option"

text \<open>\<open>a || b\<close> of two optional texts, and the message of the first condition that is looked for.\<close>

definition or_text :: "string option \<Rightarrow> string option \<Rightarrow> string option" where
  "or_text a b = (if truthy a then a else b)"

definition condition_message :: "(cr_condition \<Rightarrow> bool) \<Rightarrow> cr_condition list option \<Rightarrow> string option" where
  "condition_message P cs = Option.bind (List.find P (opt_default [] cs)) cond_message"

definition snapshot_error :: "snapshot_status option \<Rightarrow> string option" where
  "snapshot_error st =
     (let cs = fld st snt_conditions in
      trim_or_undef (or_text (opt_trim (fld st snt_errorMessage))
        (or_text (condition_message (\<lambda>c. cond_type c = Some ''Progressing'' \<and> cond_status c = Some ''False'') cs)
           (condition_message (\<lambda>c. cond_type c = Some ''Failure'') cs))))"

definition mapSnapshotSummary :: "string \<Rightarrow> kube_snapshot \<Rightarrow> snapshot_summary" where
  "mapSnapshotSummary cluster snap =
     (let md = ksn_metadata snap; st = ksn_status snap; labels = opt_obj (fld md om_labels);
          scheduleName = trim_or_undef (obj_get labels KMC_LABEL_SCHEDULE) in
      \<lparr>sn_cluster = cluster, sn_namespace = opt_default ''default'' (fld md om_namespace),
       sn_name = opt_default ''unknown'' (fld md om_name),
       sn_vmName = opt_str (or_text (trim_or_undef (map_option vr_name (fld (ksn_spec snap) sns_source)))
         (trim_or_undef (obj_get labels KMC_LABEL_VM))),
       sn_phase = opt_default ''Unknown'' (fld st snt_phase), sn_readyToUse = (fld st snt_readyToUse = Some True),
       sn_indications = opt_default [] (fld st snt_indications), sn_age = opt_str (fld md om_creationTimestamp),
       sn_error = snapshot_error st, sn_contentName = fld st snt_contentName, sn_scheduleName = scheduleName,
       sn_snapshotKind = or_text (trim_or_undef (obj_get labels KMC_LABEL_SNAPSHOT_KIND))
         (if scheduleName = None then None else Some KMC_SNAPSHOT_KIND_SCHEDULED)\<rparr>)"

section \<open>Listing\<close>

text \<open>The newest first, then by name.\<close>

definition newer_first :: "(string \<Rightarrow> string \<Rightarrow> bool) \<Rightarrow> snapshot_summary \<Rightarrow> snapshot_summary \<Rightarrow> bool" where
  "newer_first le a b =
     (if sn_age a \<noteq> sn_age b then le (sn_age b) (sn_age a) else le (sn_name a) (sn_name b))"

definition listed_snapshots ::
  "(string \<Rightarrow> string \<Rightarrow> bool) \<Rightarrow> string \<Rightarrow> string option \<Rightarrow> kube_snapshot list \<Rightarrow> snapshot_summary list" where
  "listed_snapshots le cluster vmName snaps =
     (let items = map (mapSnapshotSummary cluster) snaps in
      sort_by (newer_first le)
        (case trim_or_undef vmName of None \<Rightarrow> items | Some want \<Rightarrow> filter (\<lambda>s. sn_vmName s = want) items))"

definition listVmSnapshotsWithClient ::
  "('s, kube_snapshot) custom_api \<Rightarrow> (string \<Rightarrow> string \<Rightarrow> bool) \<Rightarrow> string \<Rightarrow> string \<Rightarrow> string option \<Rightarrow>
   ('s, snapshot_summary list) act" where
  "listVmSnapshotsWithClient api le cluster ns vmName =
     (if js_trim ns = [] then act_throw ''namespace is required''
      else act_catch
        (act_bind (api_list_ns api (snapshot_gvp SNAPSHOTS_PLURAL) ns None) (\<lambda>items.
           act_return (listed_snapshots le cluster vmName (opt_default [] items))))
        save_error)"

definition listVmSnapshots ::
  "'s snap_env \<Rightarrow> string \<Rightarrow> string \<Rightarrow> string option \<Rightarrow> ('s, snapshot_summary list) act" where
  "listVmSnapshots env cluster ns vmName =
     (if js_trim cluster = [] then act_throw ''cluster is required''
      else if js_trim ns = [] then act_throw ''namespace is required''
      else with_custom (se_snapshots env) cluster (\<lambda>api.
        act_catch
          (act_bind (api_list_ns api (snapshot_gvp SNAPSHOTS_PLURAL) ns None) (\<lambda>items.
             act_return (listed_snapshots (se_le env) cluster vmName (opt_default [] items))))
          save_error))"

definition getVmSnapshot :: "'s snap_env \<Rightarrow> string \<Rightarrow> string \<Rightarrow> string \<Rightarrow> ('s, snapshot_summary) act" where
  "getVmSnapshot env cluster ns nm =
     with_custom (se_snapshots env) cluster (\<lambda>api.
       act_catch
         (act_bind (api_get_ns api (snapshot_gvp SNAPSHOTS_PLURAL) ns nm) (\<lambda>snap.
            act_return (mapSnapshotSummary cluster snap)))
         (\<lambda>err.
            if js_includes (format_error err) ''404'' \<or> js_includes (error_text err) ''not found''
            then act_fail (ResponseObj ''VirtualMachineSnapshot not found'' 404)
            else save_error err))"

section \<open>Creating and deleting\<close>

record create_snapshot_request =
  csq_cluster :: string
  csq_namespace :: string
  csq_vmName :: string
  csq_name :: "string option"
  csq_failureDeadline :: "string option"
  csq_scheduleName :: "string option"

definition requested_name :: "(string \<Rightarrow> string) \<Rightarrow> string \<Rightarrow> string option \<Rightarrow> string" where
  "requested_name default_name vmName wanted =
     (case trim_or_undef wanted of Some n \<Rightarrow> dnsLabel n | None \<Rightarrow> default_name vmName)"

definition snapshot_body ::
  "string \<Rightarrow> string \<Rightarrow> string \<Rightarrow> string option \<Rightarrow> string option \<Rightarrow> kube_snapshot" where
  "snapshot_body nm ns vmName scheduleName failureDeadline =
     \<lparr>ksn_metadata = Some (new_meta (Some nm) ns (Some (obj_lit
        ([(MANAGED_BY_LABEL, KMC_MANAGED_BY), (KMC_LABEL_VM, vmName), (KMC_LABEL_RESOURCE, KMC_RESOURCE_VM_SNAPSHOT),
          (KMC_LABEL_SNAPSHOT_KIND, if scheduleName = None then KMC_SNAPSHOT_KIND_MANUAL else KMC_SNAPSHOT_KIND_SCHEDULED)] @
         (case scheduleName of None \<Rightarrow> [] | Some n \<Rightarrow> [(KMC_LABEL_SCHEDULE, n)])))) None),
      ksn_spec = Some \<lparr>sns_source = Some \<lparr>vr_apiGroup = ''kubevirt.io'', vr_kind = ''VirtualMachine'', vr_name = vmName\<rparr>,
        sns_failureDeadline = trim_or_undef failureDeadline\<rparr>,
      ksn_status = None\<rparr>"

definition createVmSnapshot :: "'s snap_env \<Rightarrow> create_snapshot_request \<Rightarrow> ('s, snapshot_summary) act" where
  "createVmSnapshot env inp =
     (if js_trim (csq_cluster inp) = [] then act_throw ''cluster is required''
      else if js_trim (csq_namespace inp) = [] then act_throw ''namespace is required''
      else if js_trim (csq_vmName inp) = [] then act_throw ''vmName is required''
      else act_bind (act_read (se_utc env)) (\<lambda>d.
        let nm = requested_name (defaultSnapshotName d) (csq_vmName inp) (csq_name inp) in
        if nm = [] \<or> 63 < length nm then act_throw ''snapshot name must be a DNS label (<=63 characters)''
        else with_custom (se_snapshots env) (csq_cluster inp) (\<lambda>api.
          act_catch
            (act_bind (api_create_ns api (snapshot_gvp SNAPSHOTS_PLURAL) (csq_namespace inp)
                (snapshot_body nm (csq_namespace inp) (csq_vmName inp) (trim_or_undef (csq_scheduleName inp))
                   (csq_failureDeadline inp))) (\<lambda>created.
               act_return (mapSnapshotSummary (csq_cluster inp) created)))
            save_error)))"

text \<open>As the runner calls it; the schedule is named in any case.\<close>

definition createVmSnapshotWithClient ::
  "('s, kube_snapshot) custom_api \<Rightarrow> ('s \<Rightarrow> utc_date) \<Rightarrow> create_snapshot_request \<Rightarrow> ('s, snapshot_summary) act" where
  "createVmSnapshotWithClient api utc inp =
     (if js_trim (csq_namespace inp) = [] then act_throw ''namespace is required''
      else if js_trim (csq_vmName inp) = [] then act_throw ''vmName is required''
      else if js_trim (opt_str (csq_scheduleName inp)) = [] then act_throw ''scheduleName is required''
      else act_bind (act_read utc) (\<lambda>d.
        let nm = requested_name (defaultSnapshotName d) (csq_vmName inp) (csq_name inp) in
        if nm = [] \<or> 63 < length nm then act_throw ''snapshot name must be a DNS label (<=63 characters)''
        else act_catch
          (act_bind (api_create_ns api (snapshot_gvp SNAPSHOTS_PLURAL) (csq_namespace inp)
              (snapshot_body nm (csq_namespace inp) (csq_vmName inp) (csq_scheduleName inp) (csq_failureDeadline inp)))
             (\<lambda>created. act_return (mapSnapshotSummary (csq_cluster inp) created)))
          save_error))"

definition deleteVmSnapshotWithClient ::
  "('s, kube_snapshot) custom_api \<Rightarrow> string \<Rightarrow> string \<Rightarrow> ('s, unit) act" where
  "deleteVmSnapshotWithClient api ns nm =
     act_catch (api_delete_ns api (snapshot_gvp SNAPSHOTS_PLURAL) ns nm) save_error"

definition deleteVmSnapshot :: "'s snap_env \<Rightarrow> string \<Rightarrow> string \<Rightarrow> string \<Rightarrow> ('s, unit) act" where
  "deleteVmSnapshot env cluster ns nm =
     with_custom (se_snapshots env) cluster (\<lambda>api. deleteVmSnapshotWithClient api ns nm)"

section \<open>Restoring\<close>

record create_restore_request =
  crq_cluster :: string
  crq_namespace :: string
  crq_vmName :: string
  crq_snapshotName :: string
  crq_name :: "string option"

definition restore_body :: "string \<Rightarrow> create_restore_request \<Rightarrow> kube_restore" where
  "restore_body nm inp =
     \<lparr>krs_metadata = new_meta (Some nm) (crq_namespace inp)
        (Some (obj_lit [(MANAGED_BY_LABEL, KMC_MANAGED_BY), (KMC_LABEL_VM, crq_vmName inp)])) None,
      krs_target = \<lparr>vr_apiGroup = ''kubevirt.io'', vr_kind = ''VirtualMachine'', vr_name = crq_vmName inp\<rparr>,
      krs_snapshotName = crq_snapshotName inp, krs_targetReadinessPolicy = ''StopTarget'',
      krs_volumeRestorePolicy = ''InPlace''\<rparr>"

text \<open>A snapshot that is not ready, or of another machine, is not restored.\<close>

definition check_restorable :: "create_restore_request \<Rightarrow> snapshot_summary \<Rightarrow> unit result" where
  "check_restorable inp snap =
     (if \<not> sn_readyToUse snap
      then throw (''Snapshot '' @ crq_snapshotName inp @ '' is not ready to use (phase='' @ sn_phase snap @ '')'')
      else if sn_vmName snap \<noteq> [] \<and> sn_vmName snap \<noteq> crq_vmName inp
      then throw (''Snapshot '' @ crq_snapshotName inp @ '' belongs to VM '' @ sn_vmName snap @ '', not '' @ crq_vmName inp)
      else Inr ())"

definition createVmRestore :: "'s snap_env \<Rightarrow> create_restore_request \<Rightarrow> ('s, string) act" where
  "createVmRestore env inp =
     (if js_trim (crq_cluster inp) = [] then act_throw ''cluster is required''
      else if js_trim (crq_namespace inp) = [] then act_throw ''namespace is required''
      else if js_trim (crq_vmName inp) = [] then act_throw ''vmName is required''
      else if js_trim (crq_snapshotName inp) = [] then act_throw ''snapshotName is required''
      else act_bind
        (act_catch (getVmSnapshot env (crq_cluster inp) (crq_namespace inp) (crq_snapshotName inp)) (\<lambda>err.
           case err of
             ResponseObj body code \<Rightarrow>
               act_fail (mk_error_cause (''Snapshot '' @ crq_snapshotName inp @ '' not found'') err)
           | _ \<Rightarrow> act_fail err))
        (\<lambda>snap.
      act_seq (act_lift (check_restorable inp snap))
      (act_bind (act_read (se_utc env)) (\<lambda>d.
        let nm = requested_name (defaultRestoreName d) (crq_vmName inp) (crq_name inp) in
        with_custom (se_restores env) (crq_cluster inp) (\<lambda>api.
          act_catch
            (act_bind (api_create_ns api (snapshot_gvp RESTORES_PLURAL) (crq_namespace inp) (restore_body nm inp))
               (\<lambda>_. act_return nm))
            save_error)))))"

section \<open>Lemmas\<close>

definition label_chars :: "string \<Rightarrow> bool" where
  "label_chars s \<longleftrightarrow> list_all (\<lambda>c. label_char c \<or> c = CHR ''-'') s"

lemma label_chars_subset: "set t \<subseteq> set s \<Longrightarrow> label_chars s \<Longrightarrow> label_chars t"
  unfolding label_chars_def list_all_iff by blast

lemma label_chars_dashed: "label_chars (map dashed_char s)"
  by (auto simp: label_chars_def list_all_iff dashed_char_def label_char_def)

lemma set_squeeze_dashes: "set (squeeze_dashes s) \<subseteq> set s"
  by (induction s rule: squeeze_dashes.induct) auto

lemma set_drop_end_dashes: "set (drop_end_dashes s) \<subseteq> set s"
  unfolding drop_end_dashes_def using set_dropWhileD by fastforce

lemma drop_end_dashes_last: "drop_end_dashes s \<noteq> [] \<Longrightarrow> last (drop_end_dashes s) \<noteq> CHR ''-''"
  using hd_dropWhile [of "\<lambda>c. c = CHR ''-''" "rev s"] by (simp add: drop_end_dashes_def last_rev)

lemma drop_end_dashes_prefix: "\<exists>w. s = drop_end_dashes s @ w"
  unfolding drop_end_dashes_def by (metis rev_append rev_rev_ident takeWhile_dropWhile_id)

lemma drop_end_dashes_hd: "drop_end_dashes s \<noteq> [] \<Longrightarrow> hd (drop_end_dashes s) = hd s"
  using drop_end_dashes_prefix [of s] by (metis hd_append2)

lemma drop_dashes_hd: "hd (drop_dashes s) \<noteq> CHR ''-''" if ne: "drop_dashes s \<noteq> []"
proof -
  let ?d = "dropWhile (\<lambda>c. c = CHR ''-'') s"
  have "?d \<noteq> []"
  proof
    assume "?d = []"
    then have "drop_dashes s = []" unfolding drop_dashes_def by (simp only: drop_end_dashes_def rev.simps dropWhile.simps)
    then show False using ne by contradiction
  qed
  then have "hd ?d \<noteq> CHR ''-''" by (rule hd_dropWhile)
  then show ?thesis using ne drop_end_dashes_hd [of ?d] by (simp add: drop_dashes_def)
qed

lemma set_drop_dashes: "set (drop_dashes s) \<subseteq> set s"
  unfolding drop_dashes_def using set_drop_end_dashes set_dropWhileD by fastforce

lemma set_js_slice_0: "set (js_slice s 0 n) \<subseteq> set s"
  by (simp add: js_slice_def) (meson in_set_dropD in_set_takeD subsetI)

lemma label_cut:
  assumes chars: "label_chars s" and first: "s \<noteq> [] \<Longrightarrow> hd s \<noteq> CHR ''-''" and n: "0 \<le> n"
    and cut: "drop_end_dashes (js_slice s 0 n) \<noteq> []"
  shows "DNS1123_LABEL (drop_end_dashes (js_slice s 0 n))" "length (drop_end_dashes (js_slice s 0 n)) \<le> nat n"
proof -
  let ?t = "js_slice s 0 n"
  have t: "?t = take (nat n) s" using n by (rule js_slice_prefix)
  have ne: "?t \<noteq> []" using cut by (auto simp: drop_end_dashes_def)
  have sub: "set (drop_end_dashes ?t) \<subseteq> set s"
    using set_drop_end_dashes set_js_slice_0 by blast
  have chars': "label_chars (drop_end_dashes ?t)" by (rule label_chars_subset [OF sub chars])
  have "hd (drop_end_dashes ?t) = hd s"
    using drop_end_dashes_hd [OF cut] ne unfolding t by (simp add: hd_take)
  moreover have "s \<noteq> []" using ne unfolding t by auto
  ultimately have "label_char (hd (drop_end_dashes ?t))"
    using first chars' hd_in_set [OF cut] unfolding label_chars_def list_all_iff by metis
  moreover have "label_char (last (drop_end_dashes ?t))"
    using drop_end_dashes_last [OF cut] chars' cut by (auto simp: label_chars_def list_all_iff)
  ultimately show "DNS1123_LABEL (drop_end_dashes ?t)"
    using cut chars' by (simp add: DNS1123_LABEL_def label_chars_def)
  have "length (drop_end_dashes ?t) \<le> length ?t"
    using drop_end_dashes_prefix [of ?t] by (metis le_add1 length_append)
  then show "length (drop_end_dashes ?t) \<le> nat n" unfolding t by simp
qed

lemma label_or_valid:
  assumes "DNS1123_LABEL fallback" "length fallback \<le> 63"
  shows "DNS1123_LABEL (label_or fallback raw)" "length (label_or fallback raw) \<le> 63"
proof -
  let ?s = "drop_dashes (squeeze_dashes (map dashed_char (js_lower raw)))"
  have chars: "label_chars ?s"
    by (meson label_chars_dashed label_chars_subset set_drop_dashes set_squeeze_dashes)
  have cut: "DNS1123_LABEL (drop_end_dashes (js_slice ?s 0 63)) \<and> length (drop_end_dashes (js_slice ?s 0 63)) \<le> 63"
    if "drop_end_dashes (js_slice ?s 0 63) \<noteq> []"
    using label_cut [OF chars drop_dashes_hd _ that] by simp
  then show "DNS1123_LABEL (label_or fallback raw)" "length (label_or fallback raw) \<le> 63"
    using assms by (auto simp: label_or_def or_undef_def opt_default_def)
qed

lemma dnsLabel_valid: "DNS1123_LABEL (dnsLabel raw)" "length (dnsLabel raw) \<le> 63"
  unfolding dnsLabel_def by (rule label_or_valid; code_simp)+

text \<open>White space around a name does not show in its label.\<close>

lemma drop_end_Cons:
  "drop_end_dashes (a # s) =
     (if drop_end_dashes s = [] then if a = CHR ''-'' then [] else [a] else a # drop_end_dashes s)"
  by (auto simp: drop_end_dashes_def dropWhile_append)

lemma drop_end_dropWhile:
  "drop_end_dashes (dropWhile (\<lambda>c. c = CHR ''-'') s) = dropWhile (\<lambda>c. c = CHR ''-'') (drop_end_dashes s)"
proof (induction s)
  case Nil
  show ?case by (simp add: drop_end_dashes_def)
next
  case (Cons a s)
  then show ?case by (auto simp: drop_end_Cons)
qed

lemma squeeze_leading:
  "dropWhile (\<lambda>c. c = CHR ''-'') (squeeze_dashes (CHR ''-'' # s)) = dropWhile (\<lambda>c. c = CHR ''-'') (squeeze_dashes s)"
  by (cases s) auto

lemma squeeze_trailing: "drop_end_dashes (squeeze_dashes (s @ [CHR ''-''])) = drop_end_dashes (squeeze_dashes s)"
proof (induction s rule: squeeze_dashes.induct)
  case (1 a b s)
  then show ?case by (simp add: drop_end_Cons)
qed (simp_all add: drop_end_dashes_def)

lemma squeeze_around:
  "drop_dashes (squeeze_dashes (replicate m (CHR ''-'') @ s @ replicate n (CHR ''-''))) = drop_dashes (squeeze_dashes s)"
proof -
  have tail: "drop_end_dashes (squeeze_dashes (s @ replicate n (CHR ''-''))) = drop_end_dashes (squeeze_dashes s)" for s
    by (induction n) (simp_all add: squeeze_trailing replicate_append_same [symmetric] flip: append_assoc)
  have "dropWhile (\<lambda>c. c = CHR ''-'') (squeeze_dashes (replicate m (CHR ''-'') @ x)) =
      dropWhile (\<lambda>c. c = CHR ''-'') (squeeze_dashes x)" for x
    by (induction m) (simp_all add: squeeze_leading del: squeeze_dashes.simps)
  then show ?thesis by (simp add: drop_dashes_def drop_end_dropWhile tail)
qed

lemma dashed_space: "js_space c \<Longrightarrow> dashed_char (js_lower_char c) = CHR ''-''"
  by (auto simp: js_space_def) (simp_all add: dashed_char_def js_lower_char_def is_lower_alpha_def is_digit_def char_code_def)

lemma dashed_spaces:
  "\<forall>c \<in> set w. js_space c \<Longrightarrow> map dashed_char (js_lower w) = replicate (length w) (CHR ''-'')"
  by (induction w) (auto simp: js_lower_def dashed_space)

lemma label_or_trim [simp]: "label_or fallback (js_trim s) = label_or fallback s"
proof -
  obtain w1 w2 where s: "s = w1 @ js_trim s @ w2" "\<forall>c \<in> set w1. js_space c" "\<forall>c \<in> set w2. js_space c"
    using js_trim_split_spaces [of s] by blast
  have "map dashed_char (js_lower s) = replicate (length w1) (CHR ''-'') @ map dashed_char (js_lower (js_trim s)) @
      replicate (length w2) (CHR ''-'')"
    by (subst s(1)) (simp add: dashed_spaces s(2,3))
  then show ?thesis by (simp add: label_or_def squeeze_around)
qed

lemma createVmRestore_leaves:
  assumes "clients_read f (se_snapshots env) (crq_cluster inp)"
    and "\<And>snap t. getVmSnapshot env (crq_cluster inp) (crq_namespace inp) (crq_snapshotName inp) s = (Inr snap, t) \<Longrightarrow>
      \<not> res_ok (check_restorable inp snap)"
  shows "f (snd (createVmRestore env inp s)) = f s"
proof -
  have get: "leaves f (getVmSnapshot env (crq_cluster inp) (crq_namespace inp) (crq_snapshotName inp))"
    unfolding getVmSnapshot_def save_error_def
    by (intro leaves_with_reads [OF assms(1)] leaves_intros reads_leave_api)
  obtain r t where run: "getVmSnapshot env (crq_cluster inp) (crq_namespace inp) (crq_snapshotName inp) s = (r, t)"
    by (rule prod.exhaust)
  have "f t = f s" using get run by (rule leavesD)
  then show ?thesis
    using run assms(2)
    by (cases r) (auto simp: createVmRestore_def act_simps split: thrown.splits sum.splits)
qed

section \<open>A restoration in a laboratory\<close>

text \<open>The state is the list of the restorations; there is a snapshot that is ready and one that is not.\<close>

definition lab_taken :: "string \<Rightarrow> bool \<Rightarrow> kube_snapshot" where
  "lab_taken nm ready = (snapshot_body nm ''lab'' ''web'' None None)
     \<lparr>ksn_status := Some \<lparr>snt_phase = Some (if ready then ''Succeeded'' else ''InProgress''), snt_readyToUse = Some ready,
        snt_indications = None, snt_errorMessage = None, snt_contentName = None, snt_conditions = None\<rparr>\<rparr>"

definition lab_snap_env :: "kube_restore list snap_env" where
  "lab_snap_env =
     \<lparr>se_snapshots = (\<lambda>c. Inr (idle_api\<lparr>api_get_ns := (\<lambda>g ns nm. act_return (lab_taken nm (nm = ''good'')))\<rparr>)),
      se_restores = (\<lambda>c. Inr (idle_api\<lparr>api_create_ns := (\<lambda>g ns b s. (Inr b, s @ [b]))\<rparr>)),
      se_utc = (\<lambda>s. \<lparr>ud_year = 2026, ud_month = 0, ud_date = 5, ud_hours = 3, ud_minutes = 0, ud_seconds = 0\<rparr>),
      se_le = (\<lambda>a b. True)\<rparr>"

definition lab_restore :: "string \<Rightarrow> create_restore_request" where
  "lab_restore snapshotName = \<lparr>crq_cluster = ''c1'', crq_namespace = ''lab'', crq_vmName = ''web'',
     crq_snapshotName = snapshotName, crq_name = Some ''back''\<rparr>"

lemma lab_snap_reads: "clients_read f (se_snapshots lab_snap_env) c"
  by (auto simp: clients_read_def lab_snap_env_def reads_leave_def idle_api_def leaves_def act_simps)

lemma lab_restore_get:
  "getVmSnapshot lab_snap_env ''c1'' ''lab'' nm s = (Inr (mapSnapshotSummary ''c1'' (lab_taken nm (nm = ''good''))), s)"
  by (simp add: getVmSnapshot_def lab_snap_env_def act_simps)

lemma lab_restore_checked: "check_restorable (lab_restore ''good'') (mapSnapshotSummary ''c1'' (lab_taken ''good'' True)) = Inr ()"
  by code_simp

lemma lab_restored: "length (snd (createVmRestore lab_snap_env (lab_restore ''good'') [])) = 1"
proof -
  have "js_trim ''c1'' \<noteq> []" "js_trim ''lab'' \<noteq> []" "js_trim ''web'' \<noteq> []" "js_trim ''good'' \<noteq> []" by code_simp+
  then show ?thesis
    using lab_restore_checked
    by (simp add: createVmRestore_def lab_restore_def lab_restore_get act_simps Let_def) (simp add: lab_snap_env_def act_simps)
qed

text \<open>
  C18. A machine is restored only from a snapshot that is ready and that is its own. Whatever a
  restoration answers, nothing outside is changed unless the snapshot that was read is ready to use and
  names this machine, or no machine, as its source.
\<close>

theorem restore_needs_own_ready_snapshot:
  assumes "clients_read f (se_snapshots env) (crq_cluster inp)"
    and "f (snd (createVmRestore env inp s)) \<noteq> f s"
  shows "\<exists>snap t. getVmSnapshot env (crq_cluster inp) (crq_namespace inp) (crq_snapshotName inp) s = (Inr snap, t) \<and>
    sn_readyToUse snap \<and> (sn_vmName snap = [] \<or> sn_vmName snap = crq_vmName inp)"
proof (rule ccontr)
  assume "\<not> ?thesis"
  then have "\<not> res_ok (check_restorable inp snap)"
    if "getVmSnapshot env (crq_cluster inp) (crq_namespace inp) (crq_snapshotName inp) s = (Inr snap, t)" for snap t
    using that by (auto simp: check_restorable_def)
  then show False using createVmRestore_leaves [OF assms(1)] assms(2) by blast
qed

theorem restore_needs_own_ready_snapshot_witness:
  "sn_readyToUse (mapSnapshotSummary ''c1'' (lab_taken ''good'' True)) \<and>
   length (snd (createVmRestore lab_snap_env (lab_restore ''good'') [])) = 1"
proof -
  have "length (snd (createVmRestore lab_snap_env (lab_restore ''good'') [])) \<noteq> length []" by (simp add: lab_restored)
  from restore_needs_own_ready_snapshot [OF lab_snap_reads this]
  show ?thesis using lab_restored by (auto simp: lab_restore_def lab_restore_get)
qed

end
