(* ===== verification/Snapshot_Schedules.thy ===== *)
theory Snapshot_Schedules
  imports Snapshots
begin

text \<open>
  \<open>snapshots/schedules.server.ts\<close>: one schedule per machine, kept as a ConfigMap with a JSON document,
  a CronJob and the account that it runs under. The image of the job may come from the environment.
  What the code logs is left out.
\<close>

section \<open>Names and checks\<close>

definition sched_label :: "string \<Rightarrow> string" where
  "sched_label raw = label_or ''sched'' raw"

record schedule_names =
  scn_configMap :: string
  scn_cronJob :: string
  scn_serviceAccount :: string
  scn_role :: string

definition schedule_stem :: "string \<Rightarrow> string" where
  "schedule_stem vmName = opt_default ''vm'' (or_undef (drop_end_dashes (js_slice (sched_label vmName) 0 40)))"

definition snapshotScheduleObjectNames :: "string \<Rightarrow> schedule_names" where
  "snapshotScheduleObjectNames vmName =
     (let stem = schedule_stem vmName; sa = js_slice (sched_label (''kmc-snap-'' @ stem)) 0 63 in
      \<lparr>scn_configMap = sched_label (''kmc-snap-sched-'' @ stem),
       scn_cronJob = drop_end_dashes (js_slice (sched_label (''kmc-snap-'' @ stem)) 0 52),
       scn_serviceAccount = sa, scn_role = sa\<rparr>)"

text \<open>The runs of characters that are not white space.\<close>

fun js_words :: "string \<Rightarrow> string list" where
  "js_words [] = []"
| "js_words (c # s) =
     (if js_space c then js_words s
      else if s = [] \<or> js_space (hd s) then [c] # js_words s
      else (case js_words s of [] \<Rightarrow> [[c]] | w # ws \<Rightarrow> (c # w) # ws))"

definition CRON_5_FIELD :: "string \<Rightarrow> bool" where
  "CRON_5_FIELD s \<longleftrightarrow> s \<noteq> [] \<and> \<not> js_space (hd s) \<and> \<not> js_space (last s) \<and> length (js_words s) = 5"

definition validateCronExpression :: "string \<Rightarrow> string option" where
  "validateCronExpression cron =
     (let c = js_trim cron in
      if c = [] then Some ''cron expression is required''
      else if \<not> CRON_5_FIELD c
        then Some ''cron must be a standard 5-field expression (minute hour dom month dow)''
      else if 128 < length c then Some ''cron expression is too long''
      else None)"

definition SNAPSHOT_SCHEDULE_RETAIN_MIN :: int where "SNAPSHOT_SCHEDULE_RETAIN_MIN = 1"
definition SNAPSHOT_SCHEDULE_RETAIN_MAX :: int where "SNAPSHOT_SCHEDULE_RETAIN_MAX = 30"

definition validateRetain :: "js_num \<Rightarrow> string option" where
  "validateRetain retain =
     (case retain of
        Fin q \<Rightarrow>
          if \<not> js_is_integer (Fin q) then Some ''retain must be an integer''
          else if q < of_int SNAPSHOT_SCHEDULE_RETAIN_MIN \<or> of_int SNAPSHOT_SCHEDULE_RETAIN_MAX < q
            then Some (''retain must be between '' @ int_str SNAPSHOT_SCHEDULE_RETAIN_MIN @ '' and '' @
              int_str SNAPSHOT_SCHEDULE_RETAIN_MAX)
          else None
      | _ \<Rightarrow> Some ''retain must be an integer'')"

section \<open>The document\<close>

record schedule_doc =
  sdc_vmName :: string
  sdc_enabled :: bool
  sdc_cron :: string
  sdc_retain :: int
  sdc_failureDeadline :: "string option"
  sdc_cronJobName :: string

text \<open>\<open>JSON.stringify(doc, null, 2)\<close>; a deadline that is not there is left out.\<close>

definition doc_member :: "string \<times> string \<Rightarrow> string" where
  "doc_member = (\<lambda>(k, text). ''  '' @ json_string k @ '': '' @ text)"

definition schedule_text :: "schedule_doc \<Rightarrow> string" where
  "schedule_text doc =
     ''{'' @ [CHR 0x0A] @ js_join ('','' @ [CHR 0x0A]) (map doc_member
       ([(''apiVersion'', json_string ''kmc.ianunruh.com/v1''), (''kind'', json_string ''VmSnapshotSchedule''),
         (''vmName'', json_string (sdc_vmName doc)), (''enabled'', if sdc_enabled doc then ''true'' else ''false''),
         (''cron'', json_string (sdc_cron doc)), (''retain'', int_str (sdc_retain doc))] @
        (case sdc_failureDeadline doc of None \<Rightarrow> [] | Some d \<Rightarrow> [(''failureDeadline'', json_string d)]) @
        [(''cronJobName'', json_string (sdc_cronJobName doc))])) @ [CHR 0x0A] @ ''}''"

text \<open>\<open>Number(value)\<close> of a parsed value: a list is read as its text.\<close>

fun json_number :: "json \<Rightarrow> js_num" where
  "json_number JNull = Fin 0"
| "json_number (JBool b) = Fin (if b then 1 else 0)"
| "json_number (JNum n) = n"
| "json_number (JStr s) = js_number s"
| "json_number (JArr []) = Fin 0"
| "json_number (JArr [x]) = (case x of JBool b \<Rightarrow> NaN | _ \<Rightarrow> json_number x)"
| "json_number (JArr (x # y # ys)) = NaN"
| "json_number (JObj ob) = NaN"

text \<open>\<open>value?.trim()\<close> of a parsed value: what is not a text has no \<open>trim\<close>, and the call throws.\<close>

definition json_trim :: "json option \<Rightarrow> string option result" where
  "json_trim v =
     (case v of
        None \<Rightarrow> Inr None
      | Some JNull \<Rightarrow> Inr None
      | Some (JStr s) \<Rightarrow> Inr (Some (js_trim s))
      | Some _ \<Rightarrow> throw ''trim is not a function'')"

fun finite_trunc :: "js_num \<Rightarrow> int option" where
  "finite_trunc (Fin q) = Some (if q < 0 then \<lceil>q\<rceil> else \<lfloor>q\<rfloor>)"
| "finite_trunc _ = None"

definition read_doc :: "json jsobj \<Rightarrow> schedule_doc option result" where
  "read_doc ob =
     res_bind (json_trim (obj_get ob ''vmName'')) (\<lambda>vm.
       if \<not> truthy vm then Inr None
       else res_bind (json_trim (obj_get ob ''cron'')) (\<lambda>cron.
         if \<not> truthy cron then Inr None
         else case Option.bind (map_option json_number (obj_get ob ''retain'')) finite_trunc of
           None \<Rightarrow> Inr None
         | Some retain \<Rightarrow>
             res_bind (json_trim (obj_get ob ''failureDeadline'')) (\<lambda>deadline.
             res_bind (json_trim (obj_get ob ''cronJobName'')) (\<lambda>job.
               Inr (Some \<lparr>sdc_vmName = opt_str vm, sdc_enabled = (obj_get ob ''enabled'' \<noteq> Some (JBool False)),
                 sdc_cron = opt_str cron, sdc_retain = retain, sdc_failureDeadline = opt_or_undef deadline,
                 sdc_cronJobName = opt_str job\<rparr>)))))"

definition parseSnapshotScheduleDoc :: "string option \<Rightarrow> schedule_doc option" where
  "parseSnapshotScheduleDoc raw =
     (if trim_or_undef raw = None then None
      else case json_parse (opt_str raw) of
        Some (JObj ob) \<Rightarrow> (case read_doc ob of Inr doc \<Rightarrow> doc | Inl e \<Rightarrow> None)
      | _ \<Rightarrow> None)"

section \<open>The clients\<close>

record config_map =
  cmo_metadata :: "object_meta option"
  cmo_resourceVersion :: "string option"
  cmo_data :: "string jsobj option"

record role_rule =
  plr_apiGroups :: "string list"
  plr_resources :: "string list"
  plr_resourceNames :: "string list option"
  plr_verbs :: "string list"

record kube_role =
  krl_metadata :: object_meta
  krl_rules :: "role_rule list"

record role_binding =
  rbd_metadata :: object_meta
  rbd_roleName :: string
  rbd_serviceAccount :: string
  rbd_subjectNamespace :: string

text \<open>The fields of a CronJob that the code writes; its labels are those of the job and of its pod too.\<close>

record cron_job =
  crj_metadata :: object_meta
  crj_resourceVersion :: "string option"
  crj_schedule :: string
  crj_concurrencyPolicy :: string
  crj_successfulJobsHistoryLimit :: nat
  crj_failedJobsHistoryLimit :: nat
  crj_suspend :: bool
  crj_backoffLimit :: nat
  crj_activeDeadlineSeconds :: nat
  crj_serviceAccountName :: string
  crj_restartPolicy :: string
  crj_image :: string
  crj_imagePullPolicy :: string
  crj_command :: "string list"
  crj_env :: "(string \<times> string) list"
  crj_requests :: "string \<times> string"
  crj_limits :: "string \<times> string"

record 's sched_core =
  sco_read :: "string \<Rightarrow> string \<Rightarrow> ('s, config_map) act"
  sco_list :: "string \<Rightarrow> string \<Rightarrow> ('s, config_map list option) act"
  sco_create :: "string \<Rightarrow> config_map \<Rightarrow> ('s, unit) act"
  sco_replace :: "string \<Rightarrow> string \<Rightarrow> config_map \<Rightarrow> ('s, unit) act"
  sco_delete :: "string \<Rightarrow> string \<Rightarrow> ('s, unit) act"
  sco_create_account :: "string \<Rightarrow> object_meta \<Rightarrow> ('s, unit) act"
  sco_delete_account :: "string \<Rightarrow> string \<Rightarrow> ('s, unit) act"

record 's sched_rbac =
  srb_create_role :: "string \<Rightarrow> kube_role \<Rightarrow> ('s, unit) act"
  srb_replace_role :: "string \<Rightarrow> string \<Rightarrow> kube_role \<Rightarrow> ('s, unit) act"
  srb_delete_role :: "string \<Rightarrow> string \<Rightarrow> ('s, unit) act"
  srb_create_binding :: "string \<Rightarrow> role_binding \<Rightarrow> ('s, unit) act"
  srb_replace_binding :: "string \<Rightarrow> string \<Rightarrow> role_binding \<Rightarrow> ('s, unit) act"
  srb_delete_binding :: "string \<Rightarrow> string \<Rightarrow> ('s, unit) act"

record 's sched_clients =
  scl_core :: "'s sched_core"
  scl_rbac :: "'s sched_rbac"
  scl_cronjobs :: "('s, cron_job) custom_api"

record 's sched_env =
  sce_clients :: "string \<Rightarrow> 's sched_clients result"
  sce_image :: "string option"
  sce_le :: "string \<Rightarrow> string \<Rightarrow> bool"

definition with_sched ::
  "'s sched_env \<Rightarrow> string \<Rightarrow> ('s sched_clients \<Rightarrow> ('s, 'a) act) \<Rightarrow> ('s, 'a) act" where
  "with_sched env cluster k = act_bind (act_lift (sce_clients env cluster)) k"

section \<open>Reading\<close>

definition KMC_RESOURCE_VM_SNAPSHOT_SCHEDULE :: string where
  "KMC_RESOURCE_VM_SNAPSHOT_SCHEDULE = ''vm-snapshot-schedule''"
definition KMC_SNAPSHOT_SCHEDULE_DATA_KEY :: string where "KMC_SNAPSHOT_SCHEDULE_DATA_KEY = ''schedule.json''"
definition KMC_SNAPSHOT_SCHEDULE_LABEL_SELECTOR :: string where
  "KMC_SNAPSHOT_SCHEDULE_LABEL_SELECTOR =
     MANAGED_BY_LABEL @ ''='' @ KMC_MANAGED_BY @ '','' @ KMC_LABEL_RESOURCE @ ''='' @ KMC_RESOURCE_VM_SNAPSHOT_SCHEDULE"

definition KMC_ANN_SCHEDULE_LAST_RUN_AT :: string where
  "KMC_ANN_SCHEDULE_LAST_RUN_AT = KMC_LABEL_NAMESPACE @ ''/last-run-at''"
definition KMC_ANN_SCHEDULE_LAST_SUCCESS_AT :: string where
  "KMC_ANN_SCHEDULE_LAST_SUCCESS_AT = KMC_LABEL_NAMESPACE @ ''/last-success-at''"
definition KMC_ANN_SCHEDULE_LAST_SNAPSHOT :: string where
  "KMC_ANN_SCHEDULE_LAST_SNAPSHOT = KMC_LABEL_NAMESPACE @ ''/last-snapshot''"
definition KMC_ANN_SCHEDULE_LAST_ERROR :: string where
  "KMC_ANN_SCHEDULE_LAST_ERROR = KMC_LABEL_NAMESPACE @ ''/last-error''"
definition KMC_ANN_SCHEDULE_LAST_PRUNED :: string where
  "KMC_ANN_SCHEDULE_LAST_PRUNED = KMC_LABEL_NAMESPACE @ ''/last-pruned''"

record schedule_summary =
  ssm_cluster :: string
  ssm_namespace :: string
  ssm_name :: string
  ssm_vmName :: string
  ssm_enabled :: bool
  ssm_cron :: string
  ssm_retain :: int
  ssm_failureDeadline :: "string option"
  ssm_cronJobName :: string
  ssm_lastRunAt :: "string option"
  ssm_lastSuccessAt :: "string option"
  ssm_lastSnapshot :: "string option"
  ssm_lastError :: "string option"
  ssm_lastPruned :: "string option"

definition mapScheduleSummary :: "string \<Rightarrow> string \<Rightarrow> config_map \<Rightarrow> schedule_summary option" where
  "mapScheduleSummary cluster ns cm =
     (case trim_or_undef (fld (cmo_metadata cm) om_name) of
        None \<Rightarrow> None
      | Some nm \<Rightarrow> (case parseSnapshotScheduleDoc (opt_get (cmo_data cm) KMC_SNAPSHOT_SCHEDULE_DATA_KEY) of
          None \<Rightarrow> None
        | Some doc \<Rightarrow>
            let ann = (\<lambda>k. trim_or_undef (opt_get (fld (cmo_metadata cm) om_annotations) k)) in Some
              \<lparr>ssm_cluster = cluster, ssm_namespace = ns, ssm_name = nm, ssm_vmName = sdc_vmName doc,
               ssm_enabled = sdc_enabled doc, ssm_cron = sdc_cron doc, ssm_retain = sdc_retain doc,
               ssm_failureDeadline = sdc_failureDeadline doc,
               ssm_cronJobName = (if sdc_cronJobName doc = [] then scn_cronJob (snapshotScheduleObjectNames (sdc_vmName doc))
                 else sdc_cronJobName doc),
               ssm_lastRunAt = ann KMC_ANN_SCHEDULE_LAST_RUN_AT,
               ssm_lastSuccessAt = ann KMC_ANN_SCHEDULE_LAST_SUCCESS_AT,
               ssm_lastSnapshot = ann KMC_ANN_SCHEDULE_LAST_SNAPSHOT,
               ssm_lastError = ann KMC_ANN_SCHEDULE_LAST_ERROR,
               ssm_lastPruned = ann KMC_ANN_SCHEDULE_LAST_PRUNED\<rparr>))"

text \<open>The three names that every call has to give.\<close>

definition check_given :: "string \<Rightarrow> string \<Rightarrow> string option \<Rightarrow> unit result" where
  "check_given cluster ns vmName =
     (if js_trim cluster = [] then throw ''cluster is required''
      else if js_trim ns = [] then throw ''namespace is required''
      else if vmName \<noteq> None \<and> js_trim (opt_str vmName) = [] then throw ''vmName is required''
      else Inr ())"

definition getVmSnapshotSchedule ::
  "'s sched_env \<Rightarrow> string \<Rightarrow> string \<Rightarrow> string \<Rightarrow> ('s, schedule_summary option) act" where
  "getVmSnapshotSchedule env cluster ns vmName =
     act_seq (act_lift (check_given cluster ns (Some vmName)))
     (with_sched env cluster (\<lambda>cl.
        act_catch
          (act_bind (sco_read (scl_core cl) ns (scn_configMap (snapshotScheduleObjectNames vmName))) (\<lambda>cm.
             act_return (mapScheduleSummary cluster ns cm)))
          (\<lambda>err. if schedule_isNotFound err then act_return None else save_error err)))"

definition listVmSnapshotSchedules ::
  "'s sched_env \<Rightarrow> string \<Rightarrow> string \<Rightarrow> string option \<Rightarrow> ('s, schedule_summary list) act" where
  "listVmSnapshotSchedules env cluster ns vmName =
     act_seq (act_lift (check_given cluster ns None))
     (with_sched env cluster (\<lambda>cl.
        act_catch
          (act_bind (sco_list (scl_core cl) ns KMC_SNAPSHOT_SCHEDULE_LABEL_SELECTOR) (\<lambda>items.
             let all = List.map_filter (mapScheduleSummary cluster ns) (opt_default [] items);
                 wanted = (case trim_or_undef vmName of None \<Rightarrow> all | Some want \<Rightarrow> filter (\<lambda>s. ssm_vmName s = want) all) in
             act_return (sort_by (\<lambda>a b. before_by (sce_le env)
               [(ssm_vmName a, ssm_vmName b), (ssm_name a, ssm_name b)]) wanted)))
          save_error))"

section \<open>Writing\<close>

definition scheduleLabels :: "string \<Rightarrow> string \<Rightarrow> string jsobj" where
  "scheduleLabels vmName configMapName =
     obj_lit [(MANAGED_BY_LABEL, KMC_MANAGED_BY), (KMC_LABEL_RESOURCE, KMC_RESOURCE_VM_SNAPSHOT_SCHEDULE),
       (KMC_LABEL_VM, vmName), (KMC_LABEL_SCHEDULE, configMapName)]"

text \<open>What fails is told with what was to be done; \<open>replace\<close> is tried when the object exists already.\<close>

definition create_or :: "string \<Rightarrow> ('s, unit) act \<Rightarrow> ('s, unit) act \<Rightarrow> ('s, unit) act" where
  "create_or what create otherwise =
     act_catch create (\<lambda>err.
       if schedule_isAlreadyExists err then otherwise
       else act_fail (mk_error_cause (''Failed to create '' @ what @ '': '' @ format_error err) err))"

definition schedule_role :: "string \<Rightarrow> string \<Rightarrow> schedule_names \<Rightarrow> kube_role" where
  "schedule_role ns vmName names =
     \<lparr>krl_metadata = new_meta (Some (scn_role names)) ns (Some (scheduleLabels vmName (scn_configMap names))) None,
      krl_rules =
        [\<lparr>plr_apiGroups = [[]], plr_resources = [''configmaps''], plr_resourceNames = Some [scn_configMap names],
           plr_verbs = [''get'', ''update'', ''patch'']\<rparr>,
         \<lparr>plr_apiGroups = [''snapshot.kubevirt.io''], plr_resources = [''virtualmachinesnapshots''],
           plr_resourceNames = None, plr_verbs = [''get'', ''list'', ''create'', ''delete'']\<rparr>,
         \<lparr>plr_apiGroups = [''kubevirt.io''], plr_resources = [''virtualmachines''], plr_resourceNames = Some [vmName],
           plr_verbs = [''get'']\<rparr>]\<rparr>"

definition schedule_binding :: "string \<Rightarrow> string \<Rightarrow> schedule_names \<Rightarrow> role_binding" where
  "schedule_binding ns vmName names =
     \<lparr>rbd_metadata = new_meta (Some (scn_role names)) ns (Some (scheduleLabels vmName (scn_configMap names))) None,
      rbd_roleName = scn_role names, rbd_serviceAccount = scn_serviceAccount names, rbd_subjectNamespace = ns\<rparr>"

definition ensureScheduleRb ::
  "'s sched_env \<Rightarrow> string \<Rightarrow> string \<Rightarrow> string \<Rightarrow> schedule_names \<Rightarrow> ('s, unit) act" where
  "ensureScheduleRb env cluster ns vmName names =
     with_sched env cluster (\<lambda>cl.
       let rbac = scl_rbac cl; label = ns @ ''/'';
           account = new_meta (Some (scn_serviceAccount names)) ns (Some (scheduleLabels vmName (scn_configMap names))) None;
           role = schedule_role ns vmName names; binding = schedule_binding ns vmName names in
       act_seq (create_or (''ServiceAccount '' @ label @ scn_serviceAccount names)
         (sco_create_account (scl_core cl) ns account) (act_return ()))
       (act_seq (create_or (''Role '' @ label @ scn_role names)
         (srb_create_role rbac ns role) (srb_replace_role rbac ns (scn_role names) role))
       (create_or (''RoleBinding '' @ label @ scn_role names)
         (srb_create_binding rbac ns binding) (srb_replace_binding rbac ns (scn_role names) binding))))"

definition DEFAULT_SNAPSHOT_JOB_IMAGE :: string where
  "DEFAULT_SNAPSHOT_JOB_IMAGE = ''ghcr.io/ianunruh/kmc:latest''"

definition scheduleImage :: "'s sched_env \<Rightarrow> string" where
  "scheduleImage env = opt_default DEFAULT_SNAPSHOT_JOB_IMAGE (trim_or_undef (sce_image env))"

definition buildCronJobManifest :: "string \<Rightarrow> string \<Rightarrow> schedule_names \<Rightarrow> string \<Rightarrow> bool \<Rightarrow> string \<Rightarrow> cron_job" where
  "buildCronJobManifest ns vmName names cron enabled img =
     \<lparr>crj_metadata = new_meta (Some (scn_cronJob names)) ns (Some (scheduleLabels vmName (scn_configMap names))) None,
      crj_resourceVersion = None, crj_schedule = cron, crj_concurrencyPolicy = ''Forbid'',
      crj_successfulJobsHistoryLimit = 1, crj_failedJobsHistoryLimit = 3, crj_suspend = (\<not> enabled),
      crj_backoffLimit = 1, crj_activeDeadlineSeconds = 900, crj_serviceAccountName = scn_serviceAccount names,
      crj_restartPolicy = ''Never'', crj_image = img, crj_imagePullPolicy = ''IfNotPresent'',
      crj_command = [''./node_modules/.bin/tsx'', ''./scripts/snapshot-run.ts''],
      crj_env = [(''KMC_SNAPSHOT_NAMESPACE'', ns), (''KMC_SNAPSHOT_SCHEDULE'', scn_configMap names)],
      crj_requests = (''50m'', ''128Mi''), crj_limits = (''500m'', ''512Mi'')\<rparr>"

definition cronjob_gvp :: gvp where
  "cronjob_gvp = \<lparr>gvp_group = ''batch'', gvp_version = ''v1'', gvp_plural = ''cronjobs''\<rparr>"

definition withResourceVersion :: "cron_job \<Rightarrow> cron_job \<Rightarrow> cron_job" where
  "withResourceVersion existing body =
     (case crj_resourceVersion existing of
        None \<Rightarrow> body
      | Some rv \<Rightarrow> if js_trim rv = [] then body else body\<lparr>crj_resourceVersion := Some rv\<rparr>)"

definition replace_cron_job :: "('s, cron_job) custom_api \<Rightarrow> string \<Rightarrow> string \<Rightarrow> cron_job \<Rightarrow> ('s, unit) act" where
  "replace_cron_job api ns nm body =
     act_bind (api_get_ns api cronjob_gvp ns nm) (\<lambda>existing.
     act_bind (api_replace_ns api cronjob_gvp ns nm (withResourceVersion existing body)) (\<lambda>_. act_return ()))"

definition upsertCronJob ::
  "'s sched_env \<Rightarrow> string \<Rightarrow> string \<Rightarrow> cron_job \<Rightarrow> string \<Rightarrow> ('s, unit) act" where
  "upsertCronJob env cluster ns body cronJobName =
     with_sched env cluster (\<lambda>cl.
       let api = scl_cronjobs cl; label = ns @ ''/'' @ cronJobName in
       act_catch (replace_cron_job api ns cronJobName body) (\<lambda>err.
         if \<not> schedule_isNotFound err
         then act_fail (mk_error_cause (''Failed to read CronJob '' @ label @ '': '' @ format_error err) err)
         else create_or (''CronJob '' @ label)
           (act_bind (api_create_ns api cronjob_gvp ns body) (\<lambda>_. act_return ()))
           (replace_cron_job api ns cronJobName body)))"

record upsert_schedule_request =
  usr_cluster :: string
  usr_namespace :: string
  usr_vmName :: string
  usr_enabled :: "bool option"
  usr_cron :: string
  usr_retain :: js_num
  usr_failureDeadline :: "string option"

definition check_upsert :: "upsert_schedule_request \<Rightarrow> unit result" where
  "check_upsert inp =
     res_bind (check_given (usr_cluster inp) (usr_namespace inp) (Some (usr_vmName inp))) (\<lambda>_.
       case validateCronExpression (usr_cron inp) of
         Some e \<Rightarrow> throw e
       | None \<Rightarrow> (case validateRetain (usr_retain inp) of Some e \<Rightarrow> throw e | None \<Rightarrow> Inr ()))"

definition requested_doc :: "upsert_schedule_request \<Rightarrow> schedule_doc" where
  "requested_doc inp =
     \<lparr>sdc_vmName = js_trim (usr_vmName inp), sdc_enabled = (usr_enabled inp \<noteq> Some False),
      sdc_cron = js_trim (usr_cron inp),
      sdc_retain = (case finite_trunc (usr_retain inp) of Some n \<Rightarrow> n | None \<Rightarrow> 0),
      sdc_failureDeadline = trim_or_undef (usr_failureDeadline inp),
      sdc_cronJobName = scn_cronJob (snapshotScheduleObjectNames (usr_vmName inp))\<rparr>"

definition schedule_map :: "string \<Rightarrow> schedule_names \<Rightarrow> schedule_doc \<Rightarrow> config_map option \<Rightarrow> config_map" where
  "schedule_map ns names doc existing =
     \<lparr>cmo_metadata = Some (new_meta (Some (scn_configMap names)) ns
        (Some (scheduleLabels (sdc_vmName doc) (scn_configMap names)))
        (fld (fld existing cmo_metadata) om_annotations)),
      cmo_resourceVersion = fld existing cmo_resourceVersion,
      cmo_data = Some (obj_lit [(KMC_SNAPSHOT_SCHEDULE_DATA_KEY, schedule_text doc)])\<rparr>"

text \<open>The ConfigMap is replaced with the annotations it has, or created; another creation may come first.\<close>

definition write_schedule_map ::
  "'s sched_core \<Rightarrow> string \<Rightarrow> schedule_names \<Rightarrow> schedule_doc \<Rightarrow> ('s, unit) act" where
  "write_schedule_map core ns names doc =
     (let nm = scn_configMap names; label = ns @ ''/'' @ nm in
      act_bind
        (act_catch (act_bind (sco_read core ns nm) (\<lambda>cm. act_return (Some cm))) (\<lambda>err.
           if schedule_isNotFound err then act_return None
           else act_fail (mk_error_cause (''Failed to read schedule ConfigMap '' @ label @ '': '' @ format_error err) err)))
        (\<lambda>existing. case existing of
           Some cm \<Rightarrow> sco_replace core ns nm (schedule_map ns names doc (Some cm))
         | None \<Rightarrow> create_or (''schedule ConfigMap '' @ label) (sco_create core ns (schedule_map ns names doc None))
             (act_bind (sco_read core ns nm) (\<lambda>raced.
                sco_replace core ns nm (schedule_map ns names doc (Some raced))))))"

definition upsertVmSnapshotSchedule ::
  "'s sched_env \<Rightarrow> upsert_schedule_request \<Rightarrow> ('s, schedule_summary) act" where
  "upsertVmSnapshotSchedule env inp =
     (let names = snapshotScheduleObjectNames (usr_vmName inp); doc = requested_doc inp;
          cluster = usr_cluster inp; ns = usr_namespace inp in
      act_seq (act_lift (check_upsert inp))
      (act_seq (ensureScheduleRb env cluster ns (sdc_vmName doc) names)
      (act_seq (with_sched env cluster (\<lambda>cl. write_schedule_map (scl_core cl) ns names doc))
      (act_seq (upsertCronJob env cluster ns
         (buildCronJobManifest ns (sdc_vmName doc) names (sdc_cron doc) (sdc_enabled doc) (scheduleImage env))
         (scn_cronJob names))
      (act_bind (getVmSnapshotSchedule env cluster ns (sdc_vmName doc)) (\<lambda>summary.
         case summary of
           None \<Rightarrow> act_throw ''Schedule was written but could not be re-read''
         | Some sm \<Rightarrow> act_return sm))))))"

text \<open>Everything of the schedule but its snapshots; what fails is logged and passed over.\<close>

definition ignored :: "('s, unit) act \<Rightarrow> ('s, unit) act" where
  "ignored m = act_or m ()"

definition deleteVmSnapshotSchedule :: "'s sched_env \<Rightarrow> string \<Rightarrow> string \<Rightarrow> string \<Rightarrow> ('s, unit) act" where
  "deleteVmSnapshotSchedule env cluster ns vmName =
     (let names = snapshotScheduleObjectNames vmName in
      act_seq (act_lift (check_given cluster ns (Some vmName)))
      (with_sched env cluster (\<lambda>cl.
         act_seq (ignored (api_delete_ns (scl_cronjobs cl) cronjob_gvp ns (scn_cronJob names)))
         (act_seq (ignored (sco_delete (scl_core cl) ns (scn_configMap names)))
         (act_seq (ignored (srb_delete_binding (scl_rbac cl) ns (scn_role names)))
         (act_seq (ignored (srb_delete_role (scl_rbac cl) ns (scn_role names)))
         (ignored (sco_delete_account (scl_core cl) ns (scn_serviceAccount names)))))))))"

section \<open>Lemmas\<close>

lemma read_doc_vm:
  assumes "read_doc ob = Inr (Some doc)"
  shows "\<exists>v. js_trim v = sdc_vmName doc \<and> sdc_vmName doc \<noteq> []"
proof -
  obtain vm where vm: "json_trim (obj_get ob ''vmName'') = Inr vm" "truthy vm" and doc: "sdc_vmName doc = opt_str vm"
    using assms unfolding read_doc_def res_bind_Inr
    by (auto simp: res_bind_Inr split: if_splits option.splits)
  have "\<exists>v. vm = Some (js_trim v)"
    using vm by (auto simp: json_trim_def truthy_def throw_def split: option.splits json.splits)
  then show ?thesis using vm(2) doc by (auto simp: truthy_def opt_str_def)
qed

lemma parse_doc_vm:
  assumes "parseSnapshotScheduleDoc raw = Some doc"
  shows "trim_or_undef (Some (sdc_vmName doc)) = Some (sdc_vmName doc)"
proof -
  obtain ob where "read_doc ob = Inr (Some doc)"
    using assms by (auto simp: parseSnapshotScheduleDoc_def split: if_splits option.splits json.splits sum.splits)
  then obtain v where "js_trim v = sdc_vmName doc" "sdc_vmName doc \<noteq> []" using read_doc_vm by blast
  then show ?thesis by (metis js_trim_idem trim_or_undef_Some)
qed

lemma sched_label_valid: "DNS1123_LABEL (sched_label raw)" "length (sched_label raw) \<le> 63"
  unfolding sched_label_def by (rule label_or_valid; code_simp)+

lemma cut_not_Nil: "s \<noteq> [] \<Longrightarrow> hd s \<noteq> CHR ''-'' \<Longrightarrow> 0 < n \<Longrightarrow> drop_end_dashes (js_slice s 0 n) \<noteq> []"
  by (cases s) (auto simp: js_slice_prefix take_Cons' drop_end_Cons)

lemma dns_label_parts: "DNS1123_LABEL s \<Longrightarrow> s \<noteq> [] \<and> hd s \<noteq> CHR ''-'' \<and> label_chars s"
  by (auto simp: DNS1123_LABEL_def label_chars_def label_char_def is_lower_alpha_def is_digit_def char_code_def)

lemma cut_label:
  assumes "DNS1123_LABEL s" "0 < n"
  shows "DNS1123_LABEL (drop_end_dashes (js_slice s 0 n))" "length (drop_end_dashes (js_slice s 0 n)) \<le> nat n"
proof -
  have s: "s \<noteq> []" "hd s \<noteq> CHR ''-''" "label_chars s" using dns_label_parts [OF assms(1)] by simp_all
  have n: "0 \<le> n" using assms(2) by simp
  show "DNS1123_LABEL (drop_end_dashes (js_slice s 0 n))" "length (drop_end_dashes (js_slice s 0 n)) \<le> nat n"
    using label_cut [OF s(3) s(2) n cut_not_Nil [OF s(1,2) assms(2)]] .
qed

theorem schedule_names_are_labels:
  "DNS1123_LABEL (scn_configMap (snapshotScheduleObjectNames vm)) \<and> length (scn_configMap (snapshotScheduleObjectNames vm)) \<le> 63 \<and>
   DNS1123_LABEL (scn_cronJob (snapshotScheduleObjectNames vm)) \<and> length (scn_cronJob (snapshotScheduleObjectNames vm)) \<le> 52 \<and>
   DNS1123_LABEL (scn_role (snapshotScheduleObjectNames vm)) \<and> length (scn_role (snapshotScheduleObjectNames vm)) \<le> 63 \<and>
   scn_serviceAccount (snapshotScheduleObjectNames vm) = scn_role (snapshotScheduleObjectNames vm)"
proof -
  have "js_slice (sched_label x) 0 63 = sched_label x" for x
    using sched_label_valid(2) [of x] by (simp add: js_slice_prefix)
  then show ?thesis
    using cut_label [OF sched_label_valid(1), of 52]
    by (simp add: snapshotScheduleObjectNames_def Let_def sched_label_valid)
qed

text \<open>Two machines whose names agree in the first forty characters share all objects of their schedules.\<close>

lemma schedules_collide:
  "snapshotScheduleObjectNames ''analytics-warehouse-production-replica-01-a'' =
   snapshotScheduleObjectNames ''analytics-warehouse-production-replica-01-b''"
  by code_simp

end
