(* ===== verification/Snapshot_Runs.thy ===== *)
theory Snapshot_Runs
  imports Snapshot_Schedules Invariants
begin

text \<open>
  \<open>snapshots/scheduled-run.server.ts\<close>: one run of a schedule inside the cluster. It takes a snapshot
  unless one is in progress, deletes the oldest ones of the schedule, and notes on the ConfigMap how
  it went. What the code logs is left out, and the clients and the clock are parameters.
\<close>

record 's run_clients =
  rnc_core :: "'s sched_core"
  rnc_snapshots :: "('s, kube_snapshot) custom_api"

record 's run_env =
  rne_clients :: "'s run_clients result"
  rne_now :: "'s \<Rightarrow> string"
  rne_utc :: "'s \<Rightarrow> utc_date"
  rne_le :: "string \<Rightarrow> string \<Rightarrow> bool"

section \<open>The status of a schedule\<close>

text \<open>A field is left alone (\<open>None\<close>), removed (\<open>Some None\<close>) or set.\<close>

record status_patch =
  spt_lastRunAt :: "string option"
  spt_lastSuccessAt :: "string option"
  spt_lastSnapshot :: "string option option"
  spt_lastError :: "string option option"
  spt_lastPruned :: "string option option"

definition put_truthy :: "string \<Rightarrow> string option \<Rightarrow> string jsobj \<Rightarrow> string jsobj" where
  "put_truthy k v ann = (if truthy v then obj_assign ann k (opt_str v) else ann)"

definition put_cut :: "int \<Rightarrow> string \<Rightarrow> string option option \<Rightarrow> string jsobj \<Rightarrow> string jsobj" where
  "put_cut n k v ann =
     (case v of
        None \<Rightarrow> ann
      | Some None \<Rightarrow> obj_delete ann k
      | Some (Some x) \<Rightarrow> obj_assign ann k (js_slice x 0 n))"

definition patched_annotations :: "status_patch \<Rightarrow> string jsobj \<Rightarrow> string jsobj" where
  "patched_annotations p ann0 =
     (let ann1 = put_truthy KMC_ANN_SCHEDULE_LAST_RUN_AT (spt_lastRunAt p) (obj_spread [] ann0);
          ann2 = put_truthy KMC_ANN_SCHEDULE_LAST_SUCCESS_AT (spt_lastSuccessAt p) ann1;
          ann3 = (case spt_lastSnapshot p of
            Some None \<Rightarrow> obj_delete ann2 KMC_ANN_SCHEDULE_LAST_SNAPSHOT
          | Some (Some x) \<Rightarrow> put_truthy KMC_ANN_SCHEDULE_LAST_SNAPSHOT (Some x) ann2
          | None \<Rightarrow> ann2) in
      put_cut 512 KMC_ANN_SCHEDULE_LAST_PRUNED (spt_lastPruned p)
        (put_cut 1024 KMC_ANN_SCHEDULE_LAST_ERROR (spt_lastError p) ann3))"

definition patchScheduleStatus :: "'s sched_core \<Rightarrow> string \<Rightarrow> string \<Rightarrow> status_patch \<Rightarrow> ('s, unit) act" where
  "patchScheduleStatus core ns configMapName p =
     act_bind (sco_read core ns configMapName) (\<lambda>cm.
       sco_replace core ns configMapName
         \<lparr>cmo_metadata = Some (new_meta (Some configMapName) ns (fld (cmo_metadata cm) om_labels)
            (Some (patched_annotations p (opt_obj (fld (cmo_metadata cm) om_annotations))))),
          cmo_resourceVersion = cmo_resourceVersion cm, cmo_data = cmo_data cm\<rparr>)"

definition run_note :: "string \<Rightarrow> string option \<Rightarrow> status_patch" where
  "run_note now lastError =
     \<lparr>spt_lastRunAt = Some now, spt_lastSuccessAt = None, spt_lastSnapshot = None, spt_lastError = Some lastError,
      spt_lastPruned = None\<rparr>"

definition success_note :: "string \<Rightarrow> string \<Rightarrow> string option \<Rightarrow> string list \<Rightarrow> status_patch" where
  "success_note now snapshotName lastError pruned =
     \<lparr>spt_lastRunAt = Some now, spt_lastSuccessAt = Some now, spt_lastSnapshot = Some (Some snapshotName),
      spt_lastError = Some lastError,
      spt_lastPruned = Some (if pruned = [] then None else Some (js_join '','' pruned))\<rparr>"

section \<open>Which snapshots go\<close>

definition IN_PROGRESS_PHASES :: "string list" where
  "IN_PROGRESS_PHASES = [''InProgress'', ''Creating'', ''Pending'']"

definition isInProgressPhase :: "string \<Rightarrow> bool" where
  "isInProgressPhase phase \<longleftrightarrow>
     (let p = js_trim phase; lower = js_lower p in
      p \<noteq> [] \<and> \<not> (p = ''Succeeded'' \<or> p = ''Failed'' \<or> p = ''Ready'' \<or> lower = ''succeeded'') \<and>
      (p \<in> set IN_PROGRESS_PHASES \<or> js_includes lower ''progress'' \<or> js_includes lower ''creat'' \<or>
       js_includes lower ''pend'' \<or> js_includes lower ''start''))"

definition in_flight :: "snapshot_summary \<Rightarrow> bool" where
  "in_flight s \<longleftrightarrow> \<not> sn_readyToUse s \<and> isInProgressPhase (sn_phase s)"

text \<open>The snapshots of a schedule beyond those it retains, the newest first.\<close>

definition scheduled_snapshots ::
  "(string \<Rightarrow> string \<Rightarrow> bool) \<Rightarrow> string \<Rightarrow> snapshot_summary list \<Rightarrow> snapshot_summary list" where
  "scheduled_snapshots le configMapName after =
     sort_by (newer_first le) (filter (\<lambda>s. sn_scheduleName s = Some configMapName) after)"

definition excess_snapshots ::
  "(string \<Rightarrow> string \<Rightarrow> bool) \<Rightarrow> string \<Rightarrow> int \<Rightarrow> snapshot_summary list \<Rightarrow> snapshot_summary list" where
  "excess_snapshots le configMapName retain after =
     drop (nat (max 1 retain)) (scheduled_snapshots le configMapName after)"

text \<open>The names of those that could be deleted; one in progress is passed over, and so is a failure.\<close>

fun prune :: "('s, kube_snapshot) custom_api \<Rightarrow> string \<Rightarrow> snapshot_summary list \<Rightarrow> ('s, string list) act" where
  "prune api ns [] = act_return []"
| "prune api ns (snap # rest) =
     (if in_flight snap then prune api ns rest
      else act_bind
        (act_or (act_seq (deleteVmSnapshotWithClient api ns (sn_name snap)) (act_return [sn_name snap])) [])
        (\<lambda>deleted. act_bind (prune api ns rest) (\<lambda>more. act_return (deleted @ more))))"

section \<open>A run\<close>

record run_result =
  rnr_skipped :: bool
  rnr_reason :: "string option"
  rnr_snapshotName :: "string option"
  rnr_pruned :: "string list"

definition load_schedule :: "'s sched_core \<Rightarrow> string \<Rightarrow> string \<Rightarrow> ('s, schedule_doc) act" where
  "load_schedule core ns configMapName =
     act_catch
       (act_bind (sco_read core ns configMapName) (\<lambda>cm.
          case parseSnapshotScheduleDoc (opt_get (cmo_data cm) KMC_SNAPSHOT_SCHEDULE_DATA_KEY) of
            None \<Rightarrow> act_throw ''schedule.json missing or invalid''
          | Some doc \<Rightarrow> act_return doc))
       (\<lambda>err. act_fail (mk_error_cause
          (''Failed to load schedule '' @ ns @ ''/'' @ configMapName @ '': '' @ format_error err) err))"

text \<open>What fails is noted on the schedule before it is thrown on.\<close>

definition noting ::
  "'s sched_core \<Rightarrow> string \<Rightarrow> string \<Rightarrow> string \<Rightarrow> ('s, 'a) act \<Rightarrow> ('s, 'a) act" where
  "noting core ns configMapName now m =
     act_catch m (\<lambda>err. act_seq (patchScheduleStatus core ns configMapName (run_note now (Some (format_error err))))
       (save_error err))"

text \<open>
  Only the listing can leave the pruning with an error, so nothing has been deleted then.
\<close>

definition take_and_prune ::
  "'s run_env \<Rightarrow> 's run_clients \<Rightarrow> string \<Rightarrow> string \<Rightarrow> string \<Rightarrow> string \<Rightarrow> schedule_doc \<Rightarrow> ('s, run_result) act" where
  "take_and_prune env cl ns configMapName clusterId now doc =
     act_bind (noting (rnc_core cl) ns configMapName now
       (act_bind (createVmSnapshotWithClient (rnc_snapshots cl) (rne_utc env)
          \<lparr>csq_cluster = clusterId, csq_namespace = ns, csq_vmName = sdc_vmName doc, csq_name = None,
           csq_failureDeadline = sdc_failureDeadline doc, csq_scheduleName = Some configMapName\<rparr>)
          (\<lambda>created. act_return (sn_name created)))) (\<lambda>snapshotName.
     act_bind
       (act_catch
         (act_bind (listVmSnapshotsWithClient (rnc_snapshots cl) (rne_le env) clusterId ns (Some (sdc_vmName doc))) (\<lambda>after.
          act_bind (prune (rnc_snapshots cl) ns
              (excess_snapshots (rne_le env) configMapName (sdc_retain doc) after)) (\<lambda>pruned.
            act_return (None, pruned))))
         (\<lambda>err. act_return (Some (''prune failed: '' @ format_error err), [])))
       (\<lambda>(lastError, pruned).
     act_seq (patchScheduleStatus (rnc_core cl) ns configMapName (success_note now snapshotName lastError pruned))
       (act_return \<lparr>rnr_skipped = False, rnr_reason = None, rnr_snapshotName = Some snapshotName, rnr_pruned = pruned\<rparr>)))"

definition skip_run ::
  "'s run_clients \<Rightarrow> string \<Rightarrow> string \<Rightarrow> string \<Rightarrow> string option \<Rightarrow> string \<Rightarrow> ('s, run_result) act" where
  "skip_run cl ns configMapName now lastError reason =
     act_seq (patchScheduleStatus (rnc_core cl) ns configMapName (run_note now lastError))
       (act_return \<lparr>rnr_skipped = True, rnr_reason = Some reason, rnr_snapshotName = None, rnr_pruned = []\<rparr>)"

definition runScheduledSnapshotOnce ::
  "'s run_env \<Rightarrow> string \<Rightarrow> string \<Rightarrow> string option \<Rightarrow> ('s, run_result) act" where
  "runScheduledSnapshotOnce env namespace0 configMapName0 clusterId0 =
     (let ns = js_trim namespace0; configMapName = js_trim configMapName0;
          clusterId = opt_default ''cluster'' (trim_or_undef clusterId0) in
      if ns = [] then act_throw ''namespace is required''
      else if configMapName = [] then act_throw ''configMapName is required''
      else act_bind (act_lift (rne_clients env)) (\<lambda>cl.
        act_bind (act_read (rne_now env)) (\<lambda>now.
        act_bind (load_schedule (rnc_core cl) ns configMapName) (\<lambda>doc.
        if \<not> sdc_enabled doc then skip_run cl ns configMapName now None ''schedule disabled''
        else act_bind (noting (rnc_core cl) ns configMapName now
            (listVmSnapshotsWithClient (rnc_snapshots cl) (rne_le env) clusterId ns (Some (sdc_vmName doc)))) (\<lambda>existing.
          case List.find in_flight existing of
            Some s \<Rightarrow> skip_run cl ns configMapName now
              (Some (''skipped: snapshot '' @ sn_name s @ '' still in progress (phase='' @ sn_phase s @ '')''))
              (''in-progress snapshot '' @ sn_name s)
          | None \<Rightarrow> take_and_prune env cl ns configMapName clusterId now doc)))))"

section \<open>What a run leaves\<close>

text \<open>
  \<open>V\<close> are the snapshots of the namespace. Listing shows them, creating adds to them, deleting removes
  at most the named one, the calls on ConfigMaps do not touch them, and names stay unique.
\<close>

definition snap_name :: "kube_snapshot \<Rightarrow> string option" where
  "snap_name k = fld (ksn_metadata k) om_name"

definition well_named :: "kube_snapshot list \<Rightarrow> bool" where
  "well_named ks \<longleftrightarrow> distinct (map snap_name ks) \<and> None \<notin> set (map snap_name ks)"

definition snapshot_store :: "('s \<Rightarrow> kube_snapshot list) \<Rightarrow> 's run_clients \<Rightarrow> string \<Rightarrow> bool" where
  "snapshot_store V cl ns \<longleftrightarrow>
     (\<forall>s r t. api_list_ns (rnc_snapshots cl) (snapshot_gvp SNAPSHOTS_PLURAL) ns None s = (r, t) \<longrightarrow>
        V t = V s \<and> (\<forall>items. r = Inr items \<longrightarrow> opt_default [] items = V s)) \<and>
     (\<forall>b s t. snd (api_create_ns (rnc_snapshots cl) (snapshot_gvp SNAPSHOTS_PLURAL) ns b s) = t \<longrightarrow>
        set (V s) \<subseteq> set (V t) \<and> (well_named (V s) \<longrightarrow> well_named (V t))) \<and>
     (\<forall>nm s t. snd (api_delete_ns (rnc_snapshots cl) (snapshot_gvp SNAPSHOTS_PLURAL) ns nm s) = t \<longrightarrow>
        V t = V s \<or> V t = filter (\<lambda>k. snap_name k \<noteq> Some nm) (V s)) \<and>
     (\<forall>nm. leaves V (sco_read (rnc_core cl) ns nm)) \<and> (\<forall>nm b. leaves V (sco_replace (rnc_core cl) ns nm b))"

definition deletable ::
  "(string \<Rightarrow> string \<Rightarrow> bool) \<Rightarrow> string \<Rightarrow> string \<Rightarrow> schedule_doc \<Rightarrow> kube_snapshot list \<Rightarrow> snapshot_summary list" where
  "deletable le c configMapName doc ks =
     filter (\<lambda>x. \<not> in_flight x)
       (excess_snapshots le configMapName (sdc_retain doc) (listed_snapshots le c (Some (sdc_vmName doc)) ks))"

text \<open>From \<open>before\<close> to \<open>after\<close>, snapshots may have come, and then some of the deletable ones gone.\<close>

definition pruned_state ::
  "(string \<Rightarrow> string \<Rightarrow> bool) \<Rightarrow> string \<Rightarrow> string \<Rightarrow> schedule_doc \<Rightarrow> kube_snapshot list \<Rightarrow> kube_snapshot list \<Rightarrow> bool" where
  "pruned_state le c configMapName doc before after \<longleftrightarrow>
     (\<exists>ks D. set before \<subseteq> set ks \<and> well_named ks \<and> D \<subseteq> sn_name ` set (deletable le c configMapName doc ks) \<and>
        after = filter (\<lambda>k. snap_name k \<notin> Some ` D) ks)"

lemma pruned_stateI:
  "set before \<subseteq> set after \<Longrightarrow> well_named after \<Longrightarrow> pruned_state le c configMapName doc before after"
  unfolding pruned_state_def by (intro exI [of _ after] exI [of _ "{}"]) simp

lemma snapshot_store_calls:
  assumes "snapshot_store V cl ns"
  shows "leaves V (sco_read (rnc_core cl) ns nm)" "leaves V (sco_replace (rnc_core cl) ns nm b)"
    "leaves V (api_list_ns (rnc_snapshots cl) (snapshot_gvp SNAPSHOTS_PLURAL) ns None)"
  using assms by (simp_all add: snapshot_store_def leaves_def) (metis prod.collapse)

lemma leaves_patch: "snapshot_store V cl ns \<Longrightarrow> leaves V (patchScheduleStatus (rnc_core cl) ns nm p)"
  unfolding patchScheduleStatus_def by (intro leaves_intros snapshot_store_calls)

lemma leaves_skip: "snapshot_store V cl ns \<Longrightarrow> leaves V (skip_run cl ns nm now e reason)"
  unfolding skip_run_def by (intro leaves_intros leaves_patch)

lemma leaves_save: "leaves f (save_error e)"
  unfolding save_error_def by (rule leaves_basic)

lemma leaves_load: "snapshot_store V cl ns \<Longrightarrow> leaves V (load_schedule (rnc_core cl) ns nm)"
  unfolding load_schedule_def by (intro leaves_intros snapshot_store_calls)

lemma leaves_list_snapshots:
  "snapshot_store V cl ns \<Longrightarrow> leaves V (listVmSnapshotsWithClient (rnc_snapshots cl) le c ns vm)"
  unfolding listVmSnapshotsWithClient_def by (intro leaves_intros snapshot_store_calls leaves_save)

lemma leaves_noting: "snapshot_store V cl ns \<Longrightarrow> leaves V m \<Longrightarrow> leaves V (noting (rnc_core cl) ns nm now m)"
  unfolding noting_def by (intro leaves_intros leaves_patch leaves_save)

lemma listed_of_store:
  assumes "snapshot_store V cl ns" "listVmSnapshotsWithClient (rnc_snapshots cl) le c ns vm s = (Inr xs, t)"
  shows "xs = listed_snapshots le c vm (V s)"
  using assms
  by (auto simp: listVmSnapshotsWithClient_def snapshot_store_def act_simps save_error_def
      split: if_splits prod.splits sum.splits)

lemma act_or_total: obtains x t where "act_or m d s = (Inr x, t)"
  by (cases "m s"; cases "fst (m s)") (auto simp: act_or_apply)

lemma prune_removes:
  assumes store: "snapshot_store V cl ns"
  shows "\<exists>D names t. prune (rnc_snapshots cl) ns xs s = (Inr names, t) \<and>
    D \<subseteq> sn_name ` set (filter (\<lambda>x. \<not> in_flight x) xs) \<and> V t = filter (\<lambda>k. snap_name k \<notin> Some ` D) (V s)"
proof (induction xs arbitrary: s)
  case Nil
  show ?case by (simp add: act_simps)
next
  case (Cons x xs)
  show ?case
  proof (cases "in_flight x")
    case True
    then show ?thesis using Cons.IH [of s] by simp
  next
    case False
    obtain r u where del: "act_or (act_seq (deleteVmSnapshotWithClient (rnc_snapshots cl) ns (sn_name x))
        (act_return [sn_name x])) [] s = (Inr r, u)"
      by (rule act_or_total)
    have "snd (api_delete_ns (rnc_snapshots cl) (snapshot_gvp SNAPSHOTS_PLURAL) ns (sn_name x) s) = u"
      using del
      by (auto simp: act_simps deleteVmSnapshotWithClient_def save_error_def split: prod.splits sum.splits)
    then have "V u = V s \<or> V u = filter (\<lambda>k. snap_name k \<noteq> Some (sn_name x)) (V s)"
      using store unfolding snapshot_store_def by blast
    then obtain E where E: "E \<subseteq> {sn_name x}" "V u = filter (\<lambda>k. snap_name k \<notin> Some ` E) (V s)"
      using that [of "{}"] that [of "{sn_name x}"] by auto
    obtain D names t where rest: "prune (rnc_snapshots cl) ns xs u = (Inr names, t)"
      "D \<subseteq> sn_name ` set (filter (\<lambda>x. \<not> in_flight x) xs)" "V t = filter (\<lambda>k. snap_name k \<notin> Some ` D) (V u)"
      using Cons.IH [of u] by blast
    have "prune (rnc_snapshots cl) ns (x # xs) s = (Inr (r @ names), t)"
      using False del rest(1) by (simp add: act_bind_def act_return_apply)
    moreover have "E \<union> D \<subseteq> sn_name ` set (filter (\<lambda>x. \<not> in_flight x) (x # xs))"
      using E(1) rest(2) False by auto
    moreover have "V t = filter (\<lambda>k. snap_name k \<notin> Some ` (E \<union> D)) (V s)"
      using E(2) rest(3) by (simp add: image_Un conj_commute)
    ultimately show ?thesis by blast
  qed
qed

lemma created_grows:
  assumes store: "snapshot_store V cl ns" and named: "well_named (V s)" and ns: "csq_namespace inp = ns"
  shows "set (V s) \<subseteq> set (V (snd (createVmSnapshotWithClient (rnc_snapshots cl) utc inp s))) \<and>
    well_named (V (snd (createVmSnapshotWithClient (rnc_snapshots cl) utc inp s)))"
proof -
  have "snd (createVmSnapshotWithClient (rnc_snapshots cl) utc inp s) = s \<or>
    (\<exists>b. snd (createVmSnapshotWithClient (rnc_snapshots cl) utc inp s) =
      snd (api_create_ns (rnc_snapshots cl) (snapshot_gvp SNAPSHOTS_PLURAL) ns b s))"
    by (auto simp: createVmSnapshotWithClient_def act_simps save_error_def Let_def ns split: prod.splits sum.splits)
      (metis snd_conv)+
  moreover have "set (V s) \<subseteq> set (V (snd (api_create_ns (rnc_snapshots cl) (snapshot_gvp SNAPSHOTS_PLURAL) ns b s))) \<and>
      well_named (V (snd (api_create_ns (rnc_snapshots cl) (snapshot_gvp SNAPSHOTS_PLURAL) ns b s)))" for b
    using store named unfolding snapshot_store_def by blast
  ultimately show ?thesis using named by (elim disjE exE) simp_all
qed

lemma take_and_prune_outcome:
  assumes store: "snapshot_store V cl ns" and named: "well_named (V s)"
  shows "pruned_state (rne_le env) c configMapName doc (V s)
    (V (snd (take_and_prune env cl ns configMapName c now doc s)))"
proof -
  let ?create = "act_bind (createVmSnapshotWithClient (rnc_snapshots cl) (rne_utc env)
     \<lparr>csq_cluster = c, csq_namespace = ns, csq_vmName = sdc_vmName doc, csq_name = None,
      csq_failureDeadline = sdc_failureDeadline doc, csq_scheduleName = Some configMapName\<rparr>)
     (\<lambda>created. act_return (sn_name created))"
  let ?list = "listVmSnapshotsWithClient (rnc_snapshots cl) (rne_le env) c ns (Some (sdc_vmName doc))"
  let ?note = "\<lambda>x e p. patchScheduleStatus (rnc_core cl) ns configMapName (success_note now x e p)"
  obtain r1 t1 where create: "noting (rnc_core cl) ns configMapName now ?create s = (r1, t1)" by (rule prod.exhaust)
  obtain r0 t0 where t0: "?create s = (r0, t0)" by (rule prod.exhaust)
  have "V t1 = V t0"
    using create t0 leaves_patch [OF store] by (auto simp: noting_def act_simps save_error_def leaves_def
      split: sum.splits prod.splits) (metis snd_conv)+
  moreover have "set (V s) \<subseteq> set (V t0) \<and> well_named (V t0)"
    using created_grows [OF store named, where utc = "rne_utc env" and inp = "\<lparr>csq_cluster = c, csq_namespace = ns, csq_vmName = sdc_vmName doc,
      csq_name = None, csq_failureDeadline = sdc_failureDeadline doc, csq_scheduleName = Some configMapName\<rparr>"] t0
    by (auto simp: act_simps split: sum.splits prod.splits)
  ultimately have grown: "set (V s) \<subseteq> set (V t1)" "well_named (V t1)" by simp_all
  obtain r2 t2 where lst: "?list t1 = (r2, t2)" by (rule prod.exhaust)
  have t2: "V t2 = V t1" using leaves_list_snapshots [OF store] lst by (rule leavesD)
  show ?thesis
  proof (cases r1)
    case (Inl e)
    then show ?thesis using create grown by (simp add: take_and_prune_def act_bind_def pruned_stateI)
  next
    case (Inr x)
    note x = this
    show ?thesis
    proof (cases r2)
      case (Inl e)
      have "snd (take_and_prune env cl ns configMapName c now doc s) =
          snd (?note x (Some (''prune failed: '' @ format_error e)) [] t2)"
        using create x lst Inl
        by (simp add: take_and_prune_def act_bind_def act_catch_def act_return_def act_seq_apply split: sum.splits prod.splits)
      then have "V (snd (take_and_prune env cl ns configMapName c now doc s)) = V t1"
        using leaves_snd [OF leaves_patch [OF store]] t2 by simp
      then show ?thesis using grown by (simp add: pruned_stateI)
    next
      case (Inr after)
      obtain D names t where pr: "prune (rnc_snapshots cl) ns (excess_snapshots (rne_le env) configMapName
          (sdc_retain doc) after) t2 = (Inr names, t)"
        "D \<subseteq> sn_name ` set (filter (\<lambda>x. \<not> in_flight x) (excess_snapshots (rne_le env) configMapName (sdc_retain doc) after))"
        "V t = filter (\<lambda>k. snap_name k \<notin> Some ` D) (V t2)"
        using prune_removes [OF store] by blast
      have "snd (take_and_prune env cl ns configMapName c now doc s) = snd (?note x None names t)"
        using create x lst Inr pr(1)
        by (simp add: take_and_prune_def act_bind_def act_catch_def act_return_def act_seq_apply split: sum.splits prod.splits)
      then have "V (snd (take_and_prune env cl ns configMapName c now doc s)) = filter (\<lambda>k. snap_name k \<notin> Some ` D) (V t1)"
        using leaves_snd [OF leaves_patch [OF store]] t2 pr(3) by simp
      moreover have "D \<subseteq> sn_name ` set (deletable (rne_le env) c configMapName doc (V t1))"
        using pr(2) listed_of_store [OF store] lst Inr by (simp add: deletable_def)
      ultimately show ?thesis using grown unfolding pruned_state_def by blast
    qed
  qed
qed

lemma run_outcome:
  assumes cl: "rne_clients env = Inr cl" and store: "snapshot_store V cl (js_trim ns)" and named: "well_named (V s)"
    and c: "c = opt_default ''cluster'' (trim_or_undef clusterId)"
  shows "V (snd (runScheduledSnapshotOnce env ns cfg clusterId s)) = V s \<or>
    (\<exists>doc t. load_schedule (rnc_core cl) (js_trim ns) (js_trim cfg) s = (Inr doc, t) \<and>
      pruned_state (rne_le env) c (js_trim cfg) doc (V s) (V (snd (runScheduledSnapshotOnce env ns cfg clusterId s))))"
proof -
  let ?N = "js_trim ns" and ?C = "js_trim cfg" and ?now = "rne_now env s"
  let ?list = "\<lambda>doc. noting (rnc_core cl) ?N ?C ?now
    (listVmSnapshotsWithClient (rnc_snapshots cl) (rne_le env) c ?N (Some (sdc_vmName doc)))"
  obtain r1 t1 where load: "load_schedule (rnc_core cl) ?N ?C s = (r1, t1)" by (rule prod.exhaust)
  have t1: "V t1 = V s" using leaves_load [OF store] load by (rule leavesD)
  show ?thesis
  proof (cases "?N = [] \<or> ?C = []")
    case True
    then show ?thesis by (auto simp: runScheduledSnapshotOnce_def Let_def act_simps)
  next
    case False
    then have run: "runScheduledSnapshotOnce env ns cfg clusterId s =
        (case r1 of Inl e \<Rightarrow> (Inl e, t1) | Inr doc \<Rightarrow>
           if \<not> sdc_enabled doc then skip_run cl ?N ?C ?now None ''schedule disabled'' t1
           else act_bind (?list doc) (\<lambda>existing. case List.find in_flight existing of
             Some x \<Rightarrow> skip_run cl ?N ?C ?now
               (Some (''skipped: snapshot '' @ sn_name x @ '' still in progress (phase='' @ sn_phase x @ '')''))
               (''in-progress snapshot '' @ sn_name x)
           | None \<Rightarrow> take_and_prune env cl ?N ?C c ?now doc) t1)"
      using load cl by (simp add: runScheduledSnapshotOnce_def Let_def c [symmetric] act_bind_def act_lift_def act_read_def
          split: sum.split)
    show ?thesis
    proof (cases r1)
      case (Inl e)
      then show ?thesis using run t1 by simp
    next
      case (Inr doc)
      obtain r2 t2 where lst: "?list doc t1 = (r2, t2)" by (rule prod.exhaust)
      have t2: "V t2 = V s"
        using leavesD [OF leaves_noting [OF store leaves_list_snapshots [OF store]] lst] t1 by simp
      have skip: "V (snd (skip_run cl ?N ?C ?now e why u)) = V u" for e why u
        using leaves_snd [OF leaves_skip [OF store]] by simp
      have "pruned_state (rne_le env) c ?C doc (V s) (V (snd (take_and_prune env cl ?N ?C c ?now doc t2)))"
        using take_and_prune_outcome [OF store, of t2] named t2 by simp
      then show ?thesis
        using run Inr lst load t1 t2 skip
        by (auto simp: act_bind_def split: sum.splits option.splits)
    qed
  qed
qed

section \<open>Properties\<close>

lemma snap_name_summary:
  "snap_name k \<noteq> None \<Longrightarrow> snap_name k = Some (sn_name (mapSnapshotSummary c k))"
  by (auto simp: snap_name_def mapSnapshotSummary_def Let_def opt_default_def)

lemma set_listed:
  "set (listed_snapshots le c vm ks) \<subseteq> mapSnapshotSummary c ` set ks"
  by (auto simp: listed_snapshots_def Let_def split: option.splits)

lemma set_deletable:
  "x \<in> set (deletable le c cfg doc ks) \<Longrightarrow>
   \<not> in_flight x \<and> sn_scheduleName x = Some cfg \<and> x \<in> mapSnapshotSummary c ` set ks"
  using set_listed [of le c "Some (sdc_vmName doc)" ks]
  by (auto simp: deletable_def excess_snapshots_def scheduled_snapshots_def dest!: in_set_dropD)

lemma well_named_inj:
  assumes "well_named ks" "k \<in> set ks" "k' \<in> set ks" "sn_name (mapSnapshotSummary c k) = sn_name (mapSnapshotSummary c k')"
  shows "k = k'"
proof -
  have "snap_name k \<noteq> None" "snap_name k' \<noteq> None"
    using assms(1-3) unfolding well_named_def by (metis image_eqI list.set_map)+
  then have "snap_name k = snap_name k'" using assms(4) snap_name_summary [of _ c] by metis
  then show ?thesis using assms(1-3) by (auto simp: well_named_def distinct_map dest: inj_onD)
qed

lemma pruned_keeps:
  assumes "pruned_state le c cfg doc before after" "k \<in> set before"
    and "sn_scheduleName (mapSnapshotSummary c k) \<noteq> Some cfg \<or> in_flight (mapSnapshotSummary c k)"
  shows "k \<in> set after"
proof -
  obtain ks D where ks: "set before \<subseteq> set ks" "well_named ks" "D \<subseteq> sn_name ` set (deletable le c cfg doc ks)"
    "after = filter (\<lambda>k. snap_name k \<notin> Some ` D) ks"
    using assms(1) unfolding pruned_state_def by blast
  have k: "k \<in> set ks" using assms(2) ks(1) by blast
  have "snap_name k \<notin> Some ` D"
  proof
    assume "snap_name k \<in> Some ` D"
    then obtain x where x: "x \<in> set (deletable le c cfg doc ks)" "snap_name k = Some (sn_name x)" using ks(3) by auto
    obtain k' where k': "k' \<in> set ks" "x = mapSnapshotSummary c k'" using set_deletable [OF x(1)] by blast
    have "sn_name (mapSnapshotSummary c k) = sn_name x"
      using snap_name_summary [of k c] x(2) by simp
    then have "k = k'" using well_named_inj [OF ks(2) k k'(1)] k'(2) by simp
    then show False using set_deletable [OF x(1)] k'(2) assms(3) by auto
  qed
  then show ?thesis using k ks(4) by simp
qed

text \<open>The snapshots of a machine that its schedule has taken.\<close>

definition taken :: "string \<Rightarrow> string \<Rightarrow> schedule_doc \<Rightarrow> kube_snapshot list \<Rightarrow> kube_snapshot list" where
  "taken c configMapName doc ks =
     filter (\<lambda>k. sn_scheduleName (mapSnapshotSummary c k) = Some configMapName \<and>
       sn_vmName (mapSnapshotSummary c k) = sdc_vmName doc) ks"

lemma load_schedule_vm:
  "load_schedule core ns cfg s = (Inr doc, t) \<Longrightarrow> trim_or_undef (Some (sdc_vmName doc)) = Some (sdc_vmName doc)"
proof -
  assume "load_schedule core ns cfg s = (Inr doc, t)"
  then obtain cm :: config_map where "parseSnapshotScheduleDoc (opt_get (cmo_data cm) KMC_SNAPSHOT_SCHEDULE_DATA_KEY) = Some doc"
    by (auto simp: load_schedule_def act_simps split: prod.splits sum.splits option.splits)
  then show ?thesis by (rule parse_doc_vm)
qed

lemma mset_taken:
  assumes "trim_or_undef (Some (sdc_vmName doc)) = Some (sdc_vmName doc)"
  shows "mset (scheduled_snapshots le cfg (listed_snapshots le c (Some (sdc_vmName doc)) ks)) =
    mset (map (mapSnapshotSummary c) (taken c cfg doc ks))"
  using assms
  by (simp add: scheduled_snapshots_def listed_snapshots_def Let_def mset_sort_by filter_mset_image_mset
      taken_def filter_filter_mset multiset.map_comp comp_def conj_commute)

lemma well_named_names: "well_named ks \<Longrightarrow> distinct (map sn_name (map (mapSnapshotSummary c) ks))"
  by (auto simp: distinct_map inj_on_def well_named_def intro: well_named_inj [of ks])

lemma distinct_length_le:
  "distinct xs \<Longrightarrow> set xs \<subseteq> set ys \<Longrightarrow> length xs \<le> length ys"
  by (metis card_length card_mono distinct_card finite_set le_trans)

lemma pruned_retains:
  assumes "pruned_state le c cfg doc before after" "well_named before"
    and vm: "trim_or_undef (Some (sdc_vmName doc)) = Some (sdc_vmName doc)"
  shows "min (nat (max 1 (sdc_retain doc))) (length (taken c cfg doc before)) \<le> length (taken c cfg doc after)"
proof -
  obtain ks D where ks: "set before \<subseteq> set ks" "well_named ks" "D \<subseteq> sn_name ` set (deletable le c cfg doc ks)"
    "after = filter (\<lambda>k. snap_name k \<notin> Some ` D) ks"
    using assms(1) unfolding pruned_state_def by blast
  let ?m = "mapSnapshotSummary c" and ?r = "nat (max 1 (sdc_retain doc))"
  let ?all = "scheduled_snapshots le cfg (listed_snapshots le c (Some (sdc_vmName doc)) ks)"
  have all: "mset ?all = mset (map ?m (taken c cfg doc ks))" by (rule mset_taken [OF vm])
  have "well_named (taken c cfg doc ks)" using ks(2) by (auto simp: well_named_def taken_def distinct_map_filter)
  then have "distinct (map sn_name (map ?m (taken c cfg doc ks)))" by (rule well_named_names)
  then have names: "distinct (map sn_name ?all)" using all by (metis mset_eq_imp_distinct_iff mset_map)
  then have "set (map sn_name (take ?r ?all)) \<inter> set (map sn_name (drop ?r ?all)) = {}"
    by (metis append_take_drop_id distinct_append map_append)
  moreover have "D \<subseteq> set (map sn_name (drop ?r ?all))"
    using ks(3) by (auto simp: deletable_def excess_snapshots_def)
  ultimately have apart: "set (map sn_name (take ?r ?all)) \<inter> D = {}" by blast
  have "set (map sn_name (take ?r ?all)) \<subseteq> set (map (sn_name \<circ> ?m) (taken c cfg doc after))"
  proof
    fix n assume n: "n \<in> set (map sn_name (take ?r ?all))"
    then obtain x where "x \<in> set ?all" "n = sn_name x" by (auto dest: in_set_takeD)
    moreover have "set ?all = set (map ?m (taken c cfg doc ks))" using all by (rule mset_eq_setD)
    ultimately obtain k where k: "k \<in> set (taken c cfg doc ks)" "n = sn_name (?m k)" by auto
    have "k \<in> set ks" using k(1) by (simp add: taken_def)
    then have "snap_name k \<in> set (map snap_name ks)" by simp
    then have "snap_name k \<noteq> None" using ks(2) by (metis well_named_def)
    then have "snap_name k = Some n" using k(2) snap_name_summary by simp
    then have "k \<in> set (taken c cfg doc after)" using k(1) n apart by (auto simp: taken_def ks(4))
    then show "n \<in> set (map (sn_name \<circ> ?m) (taken c cfg doc after))" using k(2) by auto
  qed
  moreover have "distinct (map sn_name (take ?r ?all))" using names by (metis distinct_take take_map)
  ultimately have "length (take ?r ?all) \<le> length (taken c cfg doc after)"
    using distinct_length_le by (metis length_map)
  moreover have "length ?all = length (taken c cfg doc ks)" using all by (metis length_map size_mset)
  moreover have "length (taken c cfg doc before) \<le> length (taken c cfg doc ks)"
  proof (rule distinct_length_le)
    show "distinct (taken c cfg doc before)" using assms(2) by (auto simp: taken_def well_named_def distinct_map)
    show "set (taken c cfg doc before) \<subseteq> set (taken c cfg doc ks)" using ks(1) by (auto simp: taken_def)
  qed
  ultimately show ?thesis by simp
qed

section \<open>Runs in a laboratory\<close>

text \<open>The state has the snapshots of the namespace; the schedule is a ConfigMap that stays as it is.\<close>

definition lab_snapshot :: "string \<Rightarrow> string \<Rightarrow> string option \<Rightarrow> string \<Rightarrow> bool \<Rightarrow> kube_snapshot" where
  "lab_snapshot nm stamp schedule phase ready =
     (snapshot_body nm ''lab'' ''web'' schedule None)
       \<lparr>ksn_metadata := Some (the (ksn_metadata (snapshot_body nm ''lab'' ''web'' schedule None))
          \<lparr>om_creationTimestamp := Some stamp\<rparr>),
        ksn_status := Some \<lparr>snt_phase = Some phase, snt_readyToUse = Some ready, snt_indications = None,
          snt_errorMessage = None, snt_contentName = None, snt_conditions = None\<rparr>\<rparr>"

definition lab_schedule :: schedule_doc where
  "lab_schedule = \<lparr>sdc_vmName = ''web'', sdc_enabled = True, sdc_cron = ''0 3 * * *'', sdc_retain = 1,
     sdc_failureDeadline = None, sdc_cronJobName = ''kmc-snap-web''\<rparr>"

definition fixed_map_core :: "config_map \<Rightarrow> 's sched_core" where
  "fixed_map_core cm =
     \<lparr>sco_read = (\<lambda>ns nm. act_return cm), sco_list = (\<lambda>ns sel. act_return (Some [cm])),
      sco_create = (\<lambda>ns b. act_return ()), sco_replace = (\<lambda>ns nm b. act_return ()),
      sco_delete = (\<lambda>ns nm. act_return ()), sco_create_account = (\<lambda>ns b. act_return ()),
      sco_delete_account = (\<lambda>ns nm. act_return ())\<rparr>"

text \<open>The server stamps what it creates; the snapshot is not ready at once.\<close>

definition stamped :: "kube_snapshot \<Rightarrow> kube_snapshot" where
  "stamped b = b
     \<lparr>ksn_metadata := map_option (\<lambda>md. md\<lparr>om_creationTimestamp := Some ''2026-01-05T03:00:00Z''\<rparr>) (ksn_metadata b),
      ksn_status := Some \<lparr>snt_phase = Some ''InProgress'', snt_readyToUse = Some False, snt_indications = None,
        snt_errorMessage = None, snt_contentName = None, snt_conditions = None\<rparr>\<rparr>"

definition lab_snapshot_api :: "(kube_snapshot list, kube_snapshot) custom_api" where
  "lab_snapshot_api = idle_api\<lparr>
     api_list_ns := (\<lambda>g ns l s. (Inr (Some s), s)),
     api_create_ns := (\<lambda>g ns b s. if snap_name b = None \<or> snap_name b \<in> set (map snap_name s)
       then (Inl (mk_error ''already exists''), s) else (Inr (stamped b), s @ [stamped b])),
     api_delete_ns := (\<lambda>g ns nm s. (Inr (), filter (\<lambda>k. snap_name k \<noteq> Some nm) s))\<rparr>"

definition lab_run_clients :: "kube_snapshot list run_clients" where
  "lab_run_clients =
     \<lparr>rnc_core = fixed_map_core (schedule_map ''lab'' (snapshotScheduleObjectNames ''web'') lab_schedule None),
      rnc_snapshots = lab_snapshot_api\<rparr>"

text \<open>Texts in the order of their code units.\<close>

fun text_le :: "string \<Rightarrow> string \<Rightarrow> bool" where
  "text_le [] y = True"
| "text_le (a # x) [] = False"
| "text_le (a # x) (b # y) = (if a = b then text_le x y else char_code a < char_code b)"

definition lab_run_env :: "kube_snapshot list run_env" where
  "lab_run_env = \<lparr>rne_clients = Inr lab_run_clients, rne_now = (\<lambda>s. ''2026-01-05T03:00:00Z''),
     rne_utc = (\<lambda>s. \<lparr>ud_year = 2026, ud_month = 0, ud_date = 5, ud_hours = 3, ud_minutes = 0, ud_seconds = 0\<rparr>),
     rne_le = text_le\<rparr>"

definition lab_snapshots :: "kube_snapshot list" where
  "lab_snapshots =
     [lab_snapshot ''by-hand'' ''2025-12-24T18:00:00Z'' None ''Succeeded'' True,
      lab_snapshot ''good'' ''2026-01-03T03:00:00Z'' (Some ''kmc-snap-sched-web'') ''Succeeded'' True,
      lab_snapshot ''bad'' ''2026-01-04T03:00:00Z'' (Some ''kmc-snap-sched-web'') ''Failed'' False]"

lemma snap_name_stamped [simp]: "snap_name (stamped b) = snap_name b"
  by (cases "ksn_metadata b") (simp_all add: snap_name_def stamped_def)

lemma lab_snapshot_store: "snapshot_store (\<lambda>s. s) lab_run_clients ns"
  by (auto simp: snapshot_store_def lab_run_clients_def fixed_map_core_def lab_snapshot_api_def leaves_def act_simps
      well_named_def idle_api_def opt_default_def)

lemma lab_snapshots_named: "well_named lab_snapshots"
  by code_simp

definition after_run :: "kube_snapshot list" where
  "after_run = snd (runScheduledSnapshotOnce lab_run_env ''lab'' ''kmc-snap-sched-web'' None lab_snapshots)"

lemma lab_new_name:
  "defaultSnapshotName \<lparr>ud_year = 2026, ud_month = 0, ud_date = 5, ud_hours = 3, ud_minutes = 0, ud_seconds = 0\<rparr> ''web'' =
     ''web-20260105-030000''"
  by code_simp

definition lab_new_snapshot :: kube_snapshot where
  "lab_new_snapshot = snapshot_body ''web-20260105-030000'' ''lab'' ''web'' (Some ''kmc-snap-sched-web'') None"

lemma lab_creation:
  "createVmSnapshotWithClient lab_snapshot_api (rne_utc lab_run_env)
     \<lparr>csq_cluster = ''cluster'', csq_namespace = ''lab'', csq_vmName = ''web'', csq_name = None,
      csq_failureDeadline = None, csq_scheduleName = Some ''kmc-snap-sched-web''\<rparr> lab_snapshots =
   (Inr (mapSnapshotSummary ''cluster'' (stamped lab_new_snapshot)), lab_snapshots @ [stamped lab_new_snapshot])"
proof -
  have "js_trim ''lab'' \<noteq> []" "js_trim ''web'' \<noteq> []" "js_trim ''kmc-snap-sched-web'' \<noteq> []" by code_simp+
  moreover have "snap_name lab_new_snapshot \<noteq> None \<and> snap_name lab_new_snapshot \<notin> set (map snap_name lab_snapshots)"
    by code_simp
  then have "api_create_ns lab_snapshot_api g ''lab'' lab_new_snapshot lab_snapshots =
      (Inr (stamped lab_new_snapshot), lab_snapshots @ [stamped lab_new_snapshot])" for g
    by (simp add: lab_snapshot_api_def)
  ultimately show ?thesis
    by (simp add: createVmSnapshotWithClient_def act_simps opt_str_def requested_name_def lab_run_env_def lab_new_name
        trim_or_undef_def opt_trim_def opt_or_undef_def lab_new_snapshot_def)
qed

lemma lab_load: "load_schedule (rnc_core lab_run_clients) ''lab'' ''kmc-snap-sched-web'' lab_snapshots = (Inr lab_schedule, lab_snapshots)"
  by code_simp

lemma lab_list:
  "listVmSnapshotsWithClient lab_snapshot_api text_le ''cluster'' ''lab'' (Some ''web'') ks =
     (Inr (listed_snapshots text_le ''cluster'' (Some ''web'') ks), ks)"
proof -
  have "js_trim ''lab'' \<noteq> []" by code_simp
  then show ?thesis by (simp add: listVmSnapshotsWithClient_def lab_snapshot_api_def act_simps opt_default_def)
qed

lemma lab_idle: "List.find in_flight (listed_snapshots text_le ''cluster'' (Some ''web'') lab_snapshots) = None"
  by code_simp

definition lab_excess :: "snapshot_summary list" where
  "lab_excess = excess_snapshots text_le ''kmc-snap-sched-web'' 1
     (listed_snapshots text_le ''cluster'' (Some ''web'') (lab_snapshots @ [stamped lab_new_snapshot]))"

lemma lab_pruned:
  "snd (prune lab_snapshot_api ''lab'' lab_excess (lab_snapshots @ [stamped lab_new_snapshot])) =
     [hd lab_snapshots, stamped lab_new_snapshot]"
  by code_simp

lemma after_run_snapshots: "after_run = [hd lab_snapshots, stamped lab_new_snapshot]"
proof -
  obtain r where pr: "prune lab_snapshot_api ''lab'' lab_excess (lab_snapshots @ [stamped lab_new_snapshot]) =
      (r, [hd lab_snapshots, stamped lab_new_snapshot])"
    using lab_pruned by (metis prod.collapse)
  have names: "js_trim ''lab'' = ''lab''" "js_trim ''kmc-snap-sched-web'' = ''kmc-snap-sched-web''"
    "opt_default ''cluster'' (trim_or_undef None) = ''cluster''"
    by code_simp+
  have enabled: "sdc_enabled lab_schedule" "sdc_vmName lab_schedule = ''web''" "sdc_failureDeadline lab_schedule = None"
    "sdc_retain lab_schedule = 1" "rnc_snapshots lab_run_clients = lab_snapshot_api"
    "rne_clients lab_run_env = Inr lab_run_clients" "rne_le lab_run_env = text_le"
    by (simp_all add: lab_schedule_def lab_run_clients_def lab_run_env_def)
  have patch: "patchScheduleStatus (rnc_core lab_run_clients) ns nm p s = (Inr (), s)" for ns nm p s
    by (simp add: patchScheduleStatus_def lab_run_clients_def fixed_map_core_def act_simps)
  show ?thesis
    unfolding after_run_def runScheduledSnapshotOnce_def names Let_def
    by (simp add: act_bind_def act_lift_def act_read_def enabled lab_load noting_def act_catch_def lab_list lab_idle
        take_and_prune_def lab_creation act_return_def act_seq_apply pr [unfolded lab_excess_def] patch
        split: sum.split prod.split)
qed

text \<open>
  What is retained need not be ready. The schedule keeps one snapshot, and the run keeps the one it has
  just started: the last snapshot that could be restored is gone before the new one is ready.
\<close>

lemma retention_ignores_readiness:
  "sn_readyToUse (mapSnapshotSummary ''cluster'' (lab_snapshots ! 1)) \<and> lab_snapshots ! 1 \<notin> set after_run \<and>
   list_all (\<lambda>k. \<not> sn_readyToUse (mapSnapshotSummary ''cluster'' k))
     (taken ''cluster'' ''kmc-snap-sched-web'' lab_schedule after_run)"
  unfolding after_run_snapshots by code_simp



end
