(* ===== verification/Schedule_Docs.thy ===== *)
theory Schedule_Docs
  imports Snapshot_Schedules
begin

text \<open>
  The document of a schedule reads back as it was written: the indented body of \<open>JSON.stringify(doc, null, 2)\<close>
  member by member, and then the checks of \<open>parseSnapshotScheduleDoc\<close>.
\<close>

section \<open>Indented objects\<close>

text \<open>The body of a member's value reads as that value when a comma or a new line follows.\<close>

definition reads_as :: "string \<Rightarrow> json \<Rightarrow> bool" where
  "reads_as body v \<longleftrightarrow>
     (\<forall>n c r. c = CHR '','' \<or> c = CHR 0x0A \<longrightarrow> read_value (Suc n) (CHR '' '' # body @ c # r) = Some (v, c # r))"

lemma json_space_blank: "json_space (CHR '' '')" "json_space (CHR 0x0A)"
  by (simp_all add: json_space_def char_code_def)

lemma skip_blank: "skip_space (CHR '' '' # s) = skip_space s" "skip_space (CHR 0x0A # s) = skip_space s"
  by (simp_all add: skip_space_def json_space_blank)

lemma skip_char: "\<not> json_space c \<Longrightarrow> skip_space (c # s) = c # s"
  by (simp add: skip_space_def)

lemma reads_as_string: "reads_as (json_string s) (JStr s)"
proof -
  have "read_value (Suc n) (CHR '' '' # json_string s @ c # r) = read_value (Suc n) (json_string s @ c # r)" for n c r
    by (simp only: read_value.simps skip_blank)
  then show ?thesis by (simp add: reads_as_def read_value_string del: read_value.simps)
qed

lemma reads_as_bool: "reads_as (if b then ''true'' else ''false'') (JBool b)"
  by (auto simp: reads_as_def skip_blank skip_char json_space_def char_code_def js_starts_with_def Let_def)

lemma reads_as_nat:
  assumes "json_number_text (nat_str k)" "js_number (nat_str k) = Fin (of_nat k)"
  shows "reads_as (nat_str k) (JNum (Fin (of_nat k)))"
  unfolding reads_as_def
proof (intro allI impI)
  fix n c r
  assume c: "c = CHR '','' \<or> c = CHR 0x0A"
  obtain a t where a: "nat_str k = a # t" by (cases "nat_str k") simp_all
  then have d: "is_digit a" using nat_str_digit [of a k] by simp
  have sp: "\<not> json_space a" using d by (auto simp: json_space_def is_digit_def)
  have digits: "list_all number_char (nat_str k)"
    using nat_str_digits [of k] by (auto simp: list_all_iff number_char_def)
  have nc: "\<not> number_char c" using c by (auto simp: number_char_def is_digit_def char_code_def)
  have take: "takeWhile number_char (nat_str k @ c # r) = nat_str k"
    "dropWhile number_char (nat_str k @ c # r) = c # r"
    using digits nc by (simp_all add: takeWhile_append2 dropWhile_append2 list_all_iff)
  have skip: "skip_space (CHR '' '' # nat_str k @ c # r) = nat_str k @ c # r"
    by (simp add: skip_blank a skip_char sp)
  have no: "a \<noteq> CHR 0x22" "a \<noteq> CHR ''{''" "a \<noteq> CHR ''[''" "a \<noteq> CHR ''n''" "a \<noteq> CHR ''t''" "a \<noteq> CHR ''f''"
    using d by (auto simp: is_digit_def char_code_def)
  have starts: "\<not> js_starts_with (nat_str k @ c # r) ''null''" "\<not> js_starts_with (nat_str k @ c # r) ''true''"
    "\<not> js_starts_with (nat_str k @ c # r) ''false''"
    using no by (simp_all add: js_starts_with_prefix a)
  show "read_value (Suc n) (CHR '' '' # nat_str k @ c # r) = Some (JNum (Fin (of_nat k)), c # r)"
    unfolding read_value.simps skip Let_def using assms take starts no
    by (simp add: a del: takeWhile.simps dropWhile.simps)
qed

lemma read_doc_member:
  assumes "reads_as body v" "c = CHR '','' \<or> c = CHR 0x0A"
  shows "read_members (Suc (Suc n)) ob (CHR 0x0A # doc_member (k, body) @ c # r) =
     (let q = skip_space (c # r) in
      if q = [] then None
      else if hd q = CHR ''}'' then Some (obj_put ob k v, tl q)
      else if hd q = CHR '','' then read_members (Suc n) (obj_put ob k v) (tl q)
      else None)"
proof -
  have m: "CHR 0x0A # doc_member (k, body) @ c # r =
      CHR 0x0A # CHR '' '' # CHR '' '' # CHR 0x22 # concat (map json_escape k) @ CHR 0x22 # CHR '':'' # CHR '' '' # body @ c # r"
    by (simp add: doc_member_def json_string_read)
  have q: "skip_space (CHR 0x22 # x) = CHR 0x22 # x" for x by (rule skip_char) (simp add: not_json_space)
  have v: "read_value (Suc n) (CHR '' '' # body @ c # r) = Some (v, c # r)" using assms unfolding reads_as_def by blast
  show ?thesis
    unfolding m read_members.simps skip_blank q Let_def list.sel read_string_json option.case prod.case skip_colon v
    by simp
qed

lemma read_doc_members:
  assumes "\<forall>(k, body, v) \<in> set es. reads_as body v"
  shows "length es < n \<Longrightarrow> es \<noteq> [] \<Longrightarrow>
    read_members (Suc n) ob (CHR 0x0A # js_join ('','' @ [CHR 0x0A]) (map (\<lambda>(k, body, v). doc_member (k, body)) es) @
        CHR 0x0A # CHR ''}'' # r) =
      Some (foldl (\<lambda>ob (k, body, v). obj_put ob k v) ob es, r)"
  using assms
proof (induction es arbitrary: n ob)
  case (Cons e es)
  obtain k body v where e: "e = (k, body, v)" by (cases e)
  obtain m where m: "n = Suc m" using Cons.prems by (cases n) auto
  have v: "reads_as body v" using Cons.prems by (simp add: e)
  show ?case
  proof (cases "es = []")
    case True
    have "skip_space (CHR 0x0A # CHR ''}'' # r) = CHR ''}'' # r" by (simp add: skip_blank skip_char not_json_space)
    then show ?thesis
      using read_doc_member [OF v, of "CHR 0x0A" m ob k "CHR ''}'' # r"]
      by (simp add: True e m Let_def del: read_members.simps)
  next
    case False
    define rest where "rest = CHR 0x0A # js_join ('','' @ [CHR 0x0A]) (map (\<lambda>(k, body, v). doc_member (k, body)) es) @
      CHR 0x0A # CHR ''}'' # r"
    have j: "CHR 0x0A # js_join ('','' @ [CHR 0x0A]) (map (\<lambda>(k, body, v). doc_member (k, body)) (e # es)) @
        CHR 0x0A # CHR ''}'' # r = CHR 0x0A # doc_member (k, body) @ CHR '','' # rest"
      using False by (simp add: js_join_Cons e rest_def)
    have q: "skip_space (CHR '','' # x) = CHR '','' # x" for x by (simp add: skip_char not_json_space)
    have "read_members (Suc (Suc m)) ob (CHR 0x0A # doc_member (k, body) @ CHR '','' # rest) =
        read_members (Suc m) (obj_put ob k v) rest"
      by (subst read_doc_member [OF v]) (simp_all add: q Let_def del: read_members.simps)
    also have "\<dots> = Some (foldl (\<lambda>ob (k, body, v). obj_put ob k v) (obj_put ob k v) es, r)"
      using Cons.IH [of m "obj_put ob k v"] Cons.prems False m by (simp add: rest_def del: read_members.simps)
    finally show ?thesis unfolding j m by (simp add: e)
  qed
qed simp

section \<open>The document\<close>

definition doc_members :: "schedule_doc \<Rightarrow> (string \<times> string \<times> json) list" where
  "doc_members doc =
     [(''apiVersion'', json_string ''kmc.ianunruh.com/v1'', JStr ''kmc.ianunruh.com/v1''),
      (''kind'', json_string ''VmSnapshotSchedule'', JStr ''VmSnapshotSchedule''),
      (''vmName'', json_string (sdc_vmName doc), JStr (sdc_vmName doc)),
      (''enabled'', if sdc_enabled doc then ''true'' else ''false'', JBool (sdc_enabled doc)),
      (''cron'', json_string (sdc_cron doc), JStr (sdc_cron doc)),
      (''retain'', int_str (sdc_retain doc), JNum (Fin (of_int (sdc_retain doc))))] @
     (case sdc_failureDeadline doc of None \<Rightarrow> [] | Some d \<Rightarrow> [(''failureDeadline'', json_string d, JStr d)]) @
     [(''cronJobName'', json_string (sdc_cronJobName doc), JStr (sdc_cronJobName doc))]"

definition retain_ok :: "int \<Rightarrow> bool" where
  "retain_ok n \<longleftrightarrow> SNAPSHOT_SCHEDULE_RETAIN_MIN \<le> n \<and> n \<le> SNAPSHOT_SCHEDULE_RETAIN_MAX"

text \<open>A document as the code writes it: texts are trimmed, and those that have to be there are.\<close>

definition doc_wf :: "schedule_doc \<Rightarrow> bool" where
  "doc_wf doc \<longleftrightarrow>
     sdc_vmName doc \<noteq> [] \<and> js_trim (sdc_vmName doc) = sdc_vmName doc \<and>
     sdc_cron doc \<noteq> [] \<and> js_trim (sdc_cron doc) = sdc_cron doc \<and> retain_ok (sdc_retain doc) \<and>
     trim_or_undef (sdc_failureDeadline doc) = sdc_failureDeadline doc \<and>
     js_trim (sdc_cronJobName doc) = sdc_cronJobName doc"

lemma nat_str_head: "0 < k \<Longrightarrow> hd (nat_str k) \<noteq> CHR ''0''"
proof (induction k rule: nat_str.induct)
  case (1 n)
  show ?case
  proof (cases "n < 10")
    case True
    moreover have "digit_val (CHR ''0'') = 0" by (simp add: digit_val_def char_code_def)
    ultimately have "digit_char n \<noteq> CHR ''0''" using 1(2) digit_val_digit_char [of n] by (metis of_nat_0_less_iff less_irrefl)
    then show ?thesis using True by (simp add: nat_str.simps [of n])
  next
    case False
    then show ?thesis using 1(1) by (simp add: nat_str.simps [of n])
  qed
qed

lemma nat_text: "json_number_text (nat_str k)"
proof -
  have all: "takeWhile is_digit (nat_str k) = nat_str k" "dropWhile is_digit (nat_str k) = []"
    using nat_str_digits [of k] by (simp_all add: takeWhile_eq_all_conv list_all_iff)
  have "is_digit (hd (nat_str k))" using nat_str_digit [of "hd (nat_str k)" k] by simp
  then have minus: "hd (nat_str k) \<noteq> CHR ''-''" by (auto simp: is_digit_def char_code_def)
  have "hd (nat_str k) \<noteq> CHR ''0'' \<or> tl (nat_str k) = []"
    using nat_str_head [of k] by (cases k) (simp_all add: nat_str.simps [of 0])
  then show ?thesis
    using nat_str_digits [of k] by (simp add: json_number_text_def Let_def minus all list_all_iff)
qed

lemma reads_as_retain:
  assumes "retain_ok n"
  shows "reads_as (int_str n) (JNum (Fin (of_int n)))"
proof -
  define k where "k = nat n"
  have k: "n = int k" "k \<in> set [1..<31]"
    using assms by (auto simp: k_def retain_ok_def SNAPSHOT_SCHEDULE_RETAIN_MIN_def SNAPSHOT_SCHEDULE_RETAIN_MAX_def)
  have "js_number (nat_str k) = Fin (of_nat k)"
    using k(2) by (subst js_number_digits) (simp_all add: all_digits_def nat_str_digits)
  then show ?thesis using reads_as_nat [OF nat_text] k(1) by (simp add: int_str_def)
qed

lemma parse_schedule_text:
  assumes "retain_ok (sdc_retain doc)"
  shows "json_parse (schedule_text doc) = Some (JObj (foldl (\<lambda>ob (k, body, v). obj_put ob k v) [] (doc_members doc)))"
proof -
  let ?es = "doc_members doc"
  let ?body = "CHR 0x0A # js_join ('','' @ [CHR 0x0A]) (map (\<lambda>(k, body, v). doc_member (k, body)) ?es) @
    CHR 0x0A # CHR ''}'' # []"
  let ?ob = "foldl (\<lambda>ob (k, body, v). obj_put ob k v) [] ?es"
  have s: "schedule_text doc = CHR ''{'' # ?body"
    by (simp add: schedule_text_def doc_members_def split: option.split)
  have es: "\<forall>(k, body, v) \<in> set ?es. reads_as body v" "?es \<noteq> []" "length ?es \<le> 8"
    using reads_as_retain [OF assms] reads_as_bool [of "sdc_enabled doc"]
    by (auto simp: doc_members_def reads_as_string split: option.splits)
  have len: "8 < length (CHR ''{'' # ?body)" by (simp add: doc_members_def doc_member_def)
  have "read_members (Suc (2 * length (CHR ''{'' # ?body))) [] ?body = Some (?ob, [])"
    using read_doc_members [OF es(1) _ es(2), of "2 * length (CHR ''{'' # ?body)"] es(3) len by simp
  moreover obtain t where t: "skip_space ?body = CHR 0x22 # t"
    by (simp add: doc_members_def doc_member_def skip_blank json_string_read skip_char not_json_space)
  ultimately have "read_members (Suc (2 * length (CHR ''{'' # ?body))) [] (CHR 0x22 # t) = Some (?ob, [])"
    by (simp only: read_members.simps t) (simp add: skip_char not_json_space)
  moreover have "skip_space (CHR ''{'' # ?body) = CHR ''{'' # ?body" by (simp add: skip_char not_json_space)
  ultimately have "read_value (2 * length (CHR ''{'' # ?body) + 2) (CHR ''{'' # ?body) = Some (JObj ?ob, [])"
    using t by (simp add: Let_def del: read_members.simps)
  then show ?thesis unfolding json_parse_def s by (simp add: skip_space_def del: read_value.simps)
qed

lemma doc_member_values:
  fixes doc
  defines "ob \<equiv> foldl (\<lambda>ob (k, body, v). obj_put ob k v) [] (doc_members doc)"
  shows "obj_get ob ''vmName'' = Some (JStr (sdc_vmName doc))" "obj_get ob ''enabled'' = Some (JBool (sdc_enabled doc))"
    "obj_get ob ''cron'' = Some (JStr (sdc_cron doc))" "obj_get ob ''retain'' = Some (JNum (Fin (of_int (sdc_retain doc))))"
    "obj_get ob ''failureDeadline'' = map_option JStr (sdc_failureDeadline doc)"
    "obj_get ob ''cronJobName'' = Some (JStr (sdc_cronJobName doc))"
  by (cases "sdc_failureDeadline doc"; simp add: ob_def doc_members_def)+

lemma trim_parts:
  "trim_or_undef x = x \<Longrightarrow> json_trim (map_option JStr x) = Inr x"
  by (cases x) (auto simp: json_trim_def trim_or_undef_def opt_trim_def opt_or_undef_def or_undef_def split: if_splits)

theorem schedule_doc_reads_back:
  assumes "doc_wf doc"
  shows "parseSnapshotScheduleDoc (Some (schedule_text doc)) = Some doc"
proof -
  note wf = assms [unfolded doc_wf_def]
  let ?ob = "foldl (\<lambda>ob (k, body, v). obj_put ob k v) [] (doc_members doc)"
  have "read_doc ?ob = Inr (Some doc)"
    using wf trim_parts [of "sdc_failureDeadline doc"]
    by (auto simp: read_doc_def doc_member_values json_trim_def truthy_def opt_str_def opt_or_undef_def or_undef_def
        trim_or_undef_def opt_trim_def split: option.splits if_splits)
  moreover have "trim_or_undef (Some (schedule_text doc)) \<noteq> None"
    by (auto simp: trim_or_undef_None opt_str_def schedule_text_def js_trim_def js_trim_start_def js_trim_end_def js_space_def)
  ultimately show ?thesis
    using parse_schedule_text [of doc] wf by (simp add: parseSnapshotScheduleDoc_def opt_str_def)
qed

section \<open>What an update leaves\<close>

text \<open>
  \<open>V\<close> is the ConfigMap of a schedule. A read answers with it, a write stores the body it is given (the
  server adds to the metadata), and the calls on other objects do not touch it.
\<close>

definition stored_as :: "config_map \<Rightarrow> config_map option \<Rightarrow> bool" where
  "stored_as b v \<longleftrightarrow>
     (\<exists>cm. v = Some cm \<and> cmo_data cm = cmo_data b \<and> fld (cmo_metadata cm) om_name = fld (cmo_metadata b) om_name)"

definition map_store :: "('s \<Rightarrow> config_map option) \<Rightarrow> 's sched_clients \<Rightarrow> string \<Rightarrow> string \<Rightarrow> bool" where
  "map_store V cl ns nm \<longleftrightarrow>
     (\<forall>s r t. sco_read (scl_core cl) ns nm s = (r, t) \<longrightarrow> V t = V s \<and> (\<forall>cm. r = Inr cm \<longrightarrow> V s = Some cm)) \<and>
     (\<forall>b s t. sco_create (scl_core cl) ns b s = (Inr (), t) \<longrightarrow> stored_as b (V t)) \<and>
     (\<forall>b s t. sco_replace (scl_core cl) ns nm b s = (Inr (), t) \<longrightarrow> stored_as b (V t)) \<and>
     (\<forall>g x. leaves V (api_get_ns (scl_cronjobs cl) g ns x)) \<and>
     (\<forall>g x b. leaves V (api_replace_ns (scl_cronjobs cl) g ns x b)) \<and>
     (\<forall>g b. leaves V (api_create_ns (scl_cronjobs cl) g ns b))"

lemma upsertCronJob_leaves:
  assumes "sce_clients env cluster = Inr cl" "map_store V cl ns nm"
  shows "leaves V (upsertCronJob env cluster ns body x)"
proof -
  have calls: "leaves V (api_get_ns (scl_cronjobs cl) g ns y)" "leaves V (api_replace_ns (scl_cronjobs cl) g ns y b)"
    "leaves V (api_create_ns (scl_cronjobs cl) g ns b)" for g y b
    using assms(2) by (simp_all add: map_store_def)
  have "with_sched env cluster k = k cl" for k :: "_ \<Rightarrow> ('a, unit) act"
    using assms(1) by (simp add: with_sched_def fun_eq_iff act_simps)
  then show ?thesis
    unfolding upsertCronJob_def replace_cron_job_def create_or_def Let_def
    by (simp only:) (intro leaves_intros calls)
qed

lemma write_map_stores:
  assumes "write_schedule_map (scl_core cl) ns names doc s = (Inr (), t)" "map_store V cl ns (scn_configMap names)"
  shows "\<exists>existing. stored_as (schedule_map ns names doc existing) (V t)"
proof -
  have create: "\<exists>e. stored_as (schedule_map ns names doc e) (V t)"
    if "create_or what (sco_create (scl_core cl) ns (schedule_map ns names doc None))
      (act_bind (sco_read (scl_core cl) ns (scn_configMap names)) (\<lambda>raced.
         sco_replace (scl_core cl) ns (scn_configMap names) (schedule_map ns names doc (Some raced)))) u = (Inr (), t)" for what u
    using that assms(2)
    by (auto simp: create_or_def act_catch_def act_fail_apply map_store_def split: sum.splits prod.splits if_splits
        elim!: act_bind_InrE) (metis old.unit.exhaust)+
  have replace: "\<exists>e. stored_as (schedule_map ns names doc e) (V t)"
    if "sco_replace (scl_core cl) ns (scn_configMap names) (schedule_map ns names doc e) u = (Inr (), t)" for e u
    using that assms(2) unfolding map_store_def by blast
  show ?thesis
    using assms(1) unfolding write_schedule_map_def Let_def
    by (elim act_bind_InrE) (auto split: option.splits intro: create replace)
qed

lemma names_trim [simp]: "snapshotScheduleObjectNames (js_trim vm) = snapshotScheduleObjectNames vm"
  by (simp add: snapshotScheduleObjectNames_def schedule_stem_def sched_label_def)

lemma trimmed_again: "trim_or_undef (trim_or_undef x) = trim_or_undef x"
  by (cases x) (auto simp: trim_or_undef_def opt_trim_def opt_or_undef_def or_undef_def)

lemma check_upsert_doc:
  assumes "check_upsert inp = Inr ()"
  shows "doc_wf (requested_doc inp)" "usr_retain inp = Fin (of_int (sdc_retain (requested_doc inp)))"
proof -
  have given: "check_given (usr_cluster inp) (usr_namespace inp) (Some (usr_vmName inp)) = Inr ()"
    and cron: "validateCronExpression (usr_cron inp) = None" and retain: "validateRetain (usr_retain inp) = None"
    using assms by (auto simp: check_upsert_def res_bind_Inr throw_def split: option.splits)
  obtain q where q: "usr_retain inp = Fin q" "q = of_int \<lfloor>q\<rfloor>" "of_int SNAPSHOT_SCHEDULE_RETAIN_MIN \<le> q"
    "q \<le> of_int SNAPSHOT_SCHEDULE_RETAIN_MAX"
    using retain by (auto simp: validateRetain_def split: js_num.splits if_splits)
  then have n: "sdc_retain (requested_doc inp) = \<lfloor>q\<rfloor>"
    by (simp add: requested_doc_def SNAPSHOT_SCHEDULE_RETAIN_MIN_def)
  then show "usr_retain inp = Fin (of_int (sdc_retain (requested_doc inp)))" using q(1,2) by simp
  have "retain_ok \<lfloor>q\<rfloor>"
    using q(2,3,4) unfolding retain_ok_def by (metis of_int_le_iff)
  moreover have "js_trim (usr_vmName inp) \<noteq> []"
    using given by (auto simp: check_given_def opt_str_def throw_def split: if_splits)
  moreover have "js_trim (usr_cron inp) \<noteq> []"
    using cron by (auto simp: validateCronExpression_def Let_def split: if_splits)
  moreover have "js_trim (scn_cronJob (snapshotScheduleObjectNames (usr_vmName inp))) =
      scn_cronJob (snapshotScheduleObjectNames (usr_vmName inp))"
    using schedule_names_are_labels by (intro dns_label_trim) simp
  ultimately show "doc_wf (requested_doc inp)"
    using n by (simp add: doc_wf_def requested_doc_def trimmed_again)
qed

lemma mapped_fields:
  assumes "mapScheduleSummary cluster ns cm = Some sm" "fld (cmo_metadata cm) om_name = Some nm"
    and "trim_or_undef (Some nm) = Some nm"
    and "parseSnapshotScheduleDoc (opt_get (cmo_data cm) KMC_SNAPSHOT_SCHEDULE_DATA_KEY) = Some doc"
  shows "ssm_name sm = nm \<and> ssm_vmName sm = sdc_vmName doc \<and> ssm_enabled sm = sdc_enabled doc \<and>
    ssm_cron sm = sdc_cron doc \<and> ssm_retain sm = sdc_retain doc \<and>
    ssm_failureDeadline sm = sdc_failureDeadline doc \<and>
    (sdc_cronJobName doc \<noteq> [] \<longrightarrow> ssm_cronJobName sm = sdc_cronJobName doc)"
  using assms(1) unfolding mapScheduleSummary_def assms(2-4) by (auto simp: Let_def)

lemma requested_doc_fields:
  "sdc_vmName (requested_doc inp) = js_trim (usr_vmName inp)"
  "sdc_enabled (requested_doc inp) = (usr_enabled inp \<noteq> Some False)"
  "sdc_cron (requested_doc inp) = js_trim (usr_cron inp)"
  "sdc_failureDeadline (requested_doc inp) = trim_or_undef (usr_failureDeadline inp)"
  "sdc_cronJobName (requested_doc inp) = scn_cronJob (snapshotScheduleObjectNames (usr_vmName inp))"
  by (simp_all add: requested_doc_def)

text \<open>
  C14. A schedule that has been saved reads back as it was asked for: the summary that saving returns,
  parsed from the ConfigMap that the cluster holds after the account, the role and the job have been
  written too, has the requested machine, times, number of snapshots and deadline.
\<close>

theorem upsert_records_schedule:
  assumes "sce_clients env (usr_cluster inp) = Inr cl"
    and "map_store V cl (usr_namespace inp) (scn_configMap (snapshotScheduleObjectNames (usr_vmName inp)))"
    and "upsertVmSnapshotSchedule env inp s = (Inr sm, t)"
  shows "ssm_name sm = scn_configMap (snapshotScheduleObjectNames (usr_vmName inp)) \<and>
    ssm_vmName sm = js_trim (usr_vmName inp) \<and> ssm_enabled sm = (usr_enabled inp \<noteq> Some False) \<and>
    ssm_cron sm = js_trim (usr_cron inp) \<and> Fin (of_int (ssm_retain sm)) = usr_retain inp \<and>
    ssm_failureDeadline sm = trim_or_undef (usr_failureDeadline inp) \<and>
    ssm_cronJobName sm = scn_cronJob (snapshotScheduleObjectNames (usr_vmName inp))"
proof -
  let ?ns = "usr_namespace inp" and ?names = "snapshotScheduleObjectNames (usr_vmName inp)" and ?doc = "requested_doc inp"
  let ?job = "buildCronJobManifest ?ns (sdc_vmName ?doc) ?names (sdc_cron ?doc) (sdc_enabled ?doc) (scheduleImage env)"
  have sched: "with_sched env (usr_cluster inp) k = k cl" for k :: "_ \<Rightarrow> ('a, 'c) act"
    using assms(1) by (simp add: with_sched_def fun_eq_iff act_simps)
  obtain u v w cm where check: "check_upsert inp = Inr ()"
    and put: "write_schedule_map (scl_core cl) ?ns ?names ?doc u = (Inr (), v)"
    and job: "upsertCronJob env (usr_cluster inp) ?ns ?job (scn_cronJob ?names) v = (Inr (), w)"
    and get: "getVmSnapshotSchedule env (usr_cluster inp) ?ns (sdc_vmName ?doc) w = (Inr (Some sm), t)"
    using assms(3) unfolding upsertVmSnapshotSchedule_def Let_def sched
    by (elim act_seq_InrE act_bind_InrE) (auto simp: act_simps split: option.splits)
  have vm: "sdc_vmName ?doc = js_trim (usr_vmName inp)" by (simp add: requested_doc_def)
  obtain existing where stored: "stored_as (schedule_map ?ns ?names ?doc existing) (V v)"
    using write_map_stores [OF put assms(2)] by blast
  have "V w = V v" using upsertCronJob_leaves [OF assms(1,2)] job by (rule leavesD)
  moreover obtain cm x where read: "sco_read (scl_core cl) ?ns (scn_configMap ?names) w = (Inr cm, x)"
    and sm: "mapScheduleSummary (usr_cluster inp) ?ns cm = Some sm"
    using get unfolding getVmSnapshotSchedule_def sched vm
    by (auto simp: act_simps save_error_def split: sum.splits prod.splits if_splits)
  moreover have "V w = Some cm" using read assms(2) unfolding map_store_def by blast
  ultimately have cm: "cmo_data cm = Some (obj_lit [(KMC_SNAPSHOT_SCHEDULE_DATA_KEY, schedule_text ?doc)])"
    "fld (cmo_metadata cm) om_name = Some (scn_configMap ?names)"
    using stored by (auto simp: stored_as_def schedule_map_def)
  have trim: "trim_or_undef (Some (scn_configMap ?names)) = Some (scn_configMap ?names)"
    using schedule_names_are_labels [of "usr_vmName inp"]
    by (auto simp: trim_or_undef_Some dns_label_trim DNS1123_LABEL_def)
  have dat: "opt_get (cmo_data cm) KMC_SNAPSHOT_SCHEDULE_DATA_KEY = Some (schedule_text ?doc)"
    by (simp add: cm(1) obj_get_lit)
  have job': "scn_cronJob ?names \<noteq> []"
    using schedule_names_are_labels [of "usr_vmName inp"] by (auto simp: DNS1123_LABEL_def)
  have parsed: "parseSnapshotScheduleDoc (Some (schedule_text ?doc)) = Some ?doc"
    by (rule schedule_doc_reads_back [OF check_upsert_doc(1) [OF check]])
  have "ssm_name sm = scn_configMap ?names \<and> ssm_vmName sm = sdc_vmName ?doc \<and>
      ssm_enabled sm = sdc_enabled ?doc \<and> ssm_cron sm = sdc_cron ?doc \<and> ssm_retain sm = sdc_retain ?doc \<and>
      ssm_failureDeadline sm = sdc_failureDeadline ?doc \<and>
      (sdc_cronJobName ?doc \<noteq> [] \<longrightarrow> ssm_cronJobName sm = sdc_cronJobName ?doc)"
    by (rule mapped_fields [OF sm cm(2) trim parsed [folded dat]])
  then show ?thesis
    using check_upsert_doc(2) [OF check, symmetric] job' by (simp add: requested_doc_fields)
qed

section \<open>A schedule in a laboratory\<close>

definition lab_map_core :: "config_map option sched_core" where
  "lab_map_core =
     \<lparr>sco_read = (\<lambda>ns nm s. (case s of None \<Rightarrow> Inl (mk_error ''not found'') | Some cm \<Rightarrow> Inr cm, s)),
      sco_list = (\<lambda>ns sel s. (Inr None, s)), sco_create = (\<lambda>ns b s. (Inr (), Some b)),
      sco_replace = (\<lambda>ns nm b s. (Inr (), Some b)), sco_delete = (\<lambda>ns nm s. (Inr (), None)),
      sco_create_account = (\<lambda>ns b. act_throw ''already exists''), sco_delete_account = (\<lambda>ns nm. act_return ())\<rparr>"

definition lab_rbac :: "'s sched_rbac" where
  "lab_rbac =
     \<lparr>srb_create_role = (\<lambda>ns b. act_throw ''already exists''), srb_replace_role = (\<lambda>ns nm b. act_return ()),
      srb_delete_role = (\<lambda>ns nm. act_return ()), srb_create_binding = (\<lambda>ns b. act_return ()),
      srb_replace_binding = (\<lambda>ns nm b. act_return ()), srb_delete_binding = (\<lambda>ns nm. act_return ())\<rparr>"

definition lab_sched_clients :: "config_map option sched_clients" where
  "lab_sched_clients = \<lparr>scl_core = lab_map_core, scl_rbac = lab_rbac,
     scl_cronjobs = idle_api\<lparr>api_create_ns := (\<lambda>g ns b. act_return b)\<rparr>\<rparr>"

definition lab_sched_env :: "config_map option sched_env" where
  "lab_sched_env = \<lparr>sce_clients = (\<lambda>c. Inr lab_sched_clients), sce_image = None, sce_le = (\<lambda>a b. True)\<rparr>"

definition nightly :: upsert_schedule_request where
  "nightly = \<lparr>usr_cluster = ''c1'', usr_namespace = ''lab'', usr_vmName = '' web'', usr_enabled = None,
     usr_cron = ''0 3 * * * '', usr_retain = Fin 7, usr_failureDeadline = Some ''10m''\<rparr>"

lemma lab_map_store: "map_store (\<lambda>s. s) lab_sched_clients ns nm"
  by (auto simp: map_store_def lab_sched_clients_def lab_map_core_def stored_as_def leaves_def act_simps idle_api_def
      split: option.splits)

lemma nightly_names: "snapshotScheduleObjectNames '' web'' =
  \<lparr>scn_configMap = ''kmc-snap-sched-web'', scn_cronJob = ''kmc-snap-web'', scn_serviceAccount = ''kmc-snap-web'',
   scn_role = ''kmc-snap-web''\<rparr>"
  by code_simp

lemma nightly_check: "check_upsert nightly = Inr ()"
  by code_simp

theorem upsert_records_schedule_witness:
  "(case upsertVmSnapshotSchedule lab_sched_env nightly None of
      (Inr sm, t) \<Rightarrow> ssm_vmName sm = ''web'' \<and> ssm_cron sm = ''0 3 * * *'' \<and> ssm_retain sm = 7 \<and>
        ssm_failureDeadline sm = Some ''10m''
    | (Inl e, t) \<Rightarrow> False)"
proof -
  have env: "sce_clients lab_sched_env (usr_cluster nightly) = Inr lab_sched_clients" by (simp add: lab_sched_env_def)
  have "res_ok (fst (upsertVmSnapshotSchedule lab_sched_env nightly None))" by code_simp
  then obtain sm t where run: "upsertVmSnapshotSchedule lab_sched_env nightly None = (Inr sm, t)"
    by (metis prod.collapse res_ok_iff)
  have "js_trim '' web'' = ''web''" "js_trim ''0 3 * * * '' = ''0 3 * * *''" "trim_or_undef (Some ''10m'') = Some ''10m''"
    by code_simp+
  then show ?thesis
    using upsert_records_schedule [OF env lab_map_store run] run by (simp add: nightly_def)
qed

end
