(* ===== verification/Cluster_Lists.thy ===== *)
theory Cluster_Lists
  imports Vm_Namespaces Http_Client "HOL-Library.Multiset"
begin

text \<open>
  The health of the clusters (\<open>vms/vms.server.ts\<close>, \<open>listClusters\<close>; \<open>lib/k8s/clients.server.ts\<close>,
  \<open>probeReadyz\<close>) with the process-local cache of the probes, and the loop over the clusters that the
  lists of machines, databases and buckets share.
\<close>

section \<open>Probing one cluster\<close>

record cluster_info =
  cin_id :: string
  cin_reachable :: bool
  cin_error :: "string option"
  cin_latencyMs :: "int option"

record readyz_probe =
  rzp_ok :: bool
  rzp_latencyMs :: int
  rzp_status :: "nat option"
  rzp_error :: "string option"

record readyz_response =
  rzr_ok :: bool
  rzr_status :: nat
  rzr_text :: string

text \<open>The request itself, the two clocks and the text of fractions are parameters.\<close>

record 's probe_env =
  pbe_kubeconfig :: "string \<Rightarrow> unit result"
  pbe_readyz :: "string \<Rightarrow> ('s, readyz_response) act"
  pbe_perf :: "'s \<Rightarrow> rat"
  pbe_now :: "'s \<Rightarrow> int"
  pbe_fmt :: "rat \<Rightarrow> string"

definition latency_between :: "rat \<Rightarrow> rat \<Rightarrow> int" where
  "latency_between started ended = max 0 \<lfloor>ended - started + 1 / 2\<rfloor>"

definition probeReadyz :: "'s probe_env \<Rightarrow> string \<Rightarrow> ('s, readyz_probe) act" where
  "probeReadyz env cluster =
     act_bind (act_read (pbe_perf env)) (\<lambda>started.
       act_catch
         (act_bind (pbe_readyz env cluster) (\<lambda>res.
          act_bind (act_read (pbe_perf env)) (\<lambda>ended.
            let ms = latency_between started ended in
            act_return
              (if rzr_ok res
               then \<lparr>rzp_ok = True, rzp_latencyMs = ms, rzp_status = Some (rzr_status res), rzp_error = None\<rparr>
               else \<lparr>rzp_ok = False, rzp_latencyMs = ms, rzp_status = Some (rzr_status res),
                 rzp_error = Some (httpErrorMessage (pbe_fmt env) (rzr_status res) (js_trim (rzr_text res)))\<rparr>))))
         (\<lambda>err. act_bind (act_read (pbe_perf env)) (\<lambda>ended.
            act_return \<lparr>rzp_ok = False, rzp_latencyMs = latency_between started ended, rzp_status = None,
              rzp_error = Some (message_or_text err)\<rparr>)))"

definition probeClusterUncached :: "'s probe_env \<Rightarrow> string \<Rightarrow> ('s, cluster_info) act" where
  "probeClusterUncached env cluster =
     act_catch
       (act_seq (act_lift (pbe_kubeconfig env cluster)) (act_bind (probeReadyz env cluster) (\<lambda>probe.
          act_return
            (if \<not> rzp_ok probe
             then \<lparr>cin_id = cluster, cin_reachable = False,
               cin_error = Some (opt_default ''readyz failed'' (opt_or_undef (rzp_error probe))),
               cin_latencyMs = Some (rzp_latencyMs probe)\<rparr>
             else \<lparr>cin_id = cluster, cin_reachable = True, cin_error = None,
               cin_latencyMs = Some (rzp_latencyMs probe)\<rparr>))))
       (\<lambda>err. act_return \<lparr>cin_id = cluster, cin_reachable = False, cin_error = Some (message_or_text err),
          cin_latencyMs = None\<rparr>)"

section \<open>The cache of probes\<close>

definition PROBE_CACHE_TTL_MS :: int where "PROBE_CACHE_TTL_MS = 15000"
definition PROBE_CACHE_FAILURE_TTL_MS :: int where "PROBE_CACHE_FAILURE_TTL_MS = 5000"

text \<open>A probe that has been started is shared by all that ask meanwhile; when it ends, its answer is kept.\<close>

record probe_entry =
  pen_expiresAt :: int
  pen_info :: "cluster_info option"
  pen_inflight :: bool

type_synonym probe_cache = "string \<Rightarrow> probe_entry option"

datatype probe_answer = Cached cluster_info | Joined | Started

definition probe_request :: "int \<Rightarrow> string \<Rightarrow> probe_cache \<Rightarrow> probe_answer \<times> probe_cache" where
  "probe_request now cluster cache =
     (let start = (Started, cache(cluster \<mapsto> \<lparr>pen_expiresAt = 0, pen_info = None, pen_inflight = True\<rparr>)) in
      case cache cluster of
        None \<Rightarrow> start
      | Some hit \<Rightarrow> (case pen_info hit of
            Some info \<Rightarrow> if now < pen_expiresAt hit then (Cached info, cache)
                         else if pen_inflight hit then (Joined, cache) else start
          | None \<Rightarrow> if pen_inflight hit then (Joined, cache) else start))"

definition probe_ttl :: "cluster_info \<Rightarrow> int" where
  "probe_ttl info = (if cin_reachable info then PROBE_CACHE_TTL_MS else PROBE_CACHE_FAILURE_TTL_MS)"

definition probe_done :: "int \<Rightarrow> string \<Rightarrow> cluster_info \<Rightarrow> probe_cache \<Rightarrow> probe_cache" where
  "probe_done now cluster info cache =
     cache(cluster \<mapsto> \<lparr>pen_expiresAt = now + probe_ttl info, pen_info = Some info, pen_inflight = False\<rparr>)"

text \<open>
  One call after another, with the cache beside the world: the probe that is started is awaited. (A
  probe of someone else cannot be in flight then; \<open>Joined\<close> is awaited as a probe of its own.)
\<close>

definition on_world :: "('s, 'a) act \<Rightarrow> ('s \<times> probe_cache, 'a) act" where
  "on_world m = (\<lambda>(s, cache). case m s of (r, t) \<Rightarrow> (r, (t, cache)))"

definition probeCluster :: "'s probe_env \<Rightarrow> string \<Rightarrow> ('s \<times> probe_cache, cluster_info) act" where
  "probeCluster env cluster =
     (\<lambda>(s, cache). case probe_request (pbe_now env s) cluster cache of
        (Cached info, c) \<Rightarrow> (Inr info, (s, c))
      | (_, c) \<Rightarrow> act_bind (on_world (probeClusterUncached env cluster)) (\<lambda>info.
           \<lambda>(t, c'). (Inr info, (t, probe_done (pbe_now env t) cluster info c'))) (s, c))"

definition listClusters :: "'s probe_env \<Rightarrow> string list \<Rightarrow> ('s \<times> probe_cache, cluster_info list) act" where
  "listClusters env contexts = act_map (probeCluster env) contexts"

section \<open>Lists over the clusters\<close>

text \<open>\<open>new Map(clusters.map((c) => [c.id, c]))\<close>: of two clusters of one name the last.\<close>

definition cluster_by_id :: "cluster_info list \<Rightarrow> string \<Rightarrow> cluster_info option" where
  "cluster_by_id clusters cid = List.find (\<lambda>c. cin_id c = cid) (rev clusters)"

fun mark_first :: "string \<Rightarrow> string \<Rightarrow> cluster_info list \<Rightarrow> cluster_info list" where
  "mark_first cid msg [] = []"
| "mark_first cid msg (c # cs) =
     (if cin_id c = cid then c\<lparr>cin_reachable := False, cin_error := Some msg\<rparr> # cs else c # mark_first cid msg cs)"

definition mark_unreachable :: "string \<Rightarrow> string \<Rightarrow> cluster_info list \<Rightarrow> cluster_info list" where
  "mark_unreachable cid msg clusters = rev (mark_first cid msg (rev clusters))"

text \<open>
  The rows of every cluster that is asked for and not known to be down; a cluster that fails is
  marked. Whether a cluster that has not been probed is asked differs between the lists.
\<close>

fun fan_out ::
  "(thrown \<Rightarrow> string) \<Rightarrow> bool \<Rightarrow> (string \<Rightarrow> ('s, 'a list) act) \<Rightarrow> string list \<Rightarrow> cluster_info list \<Rightarrow>
   ('s, 'a list \<times> cluster_info list) act" where
  "fan_out msg unknown rows [] clusters = act_return ([], clusters)"
| "fan_out msg unknown rows (cid # ids) clusters =
     (let ask = (case cluster_by_id clusters cid of None \<Rightarrow> unknown | Some c \<Rightarrow> cin_reachable c) in
      if \<not> ask then fan_out msg unknown rows ids clusters
      else act_bind
        (act_catch (act_bind (rows cid) (\<lambda>xs. act_return (xs, clusters)))
           (\<lambda>err. act_return ([], mark_unreachable cid (msg err) clusters)))
        (\<lambda>(xs, marked). act_bind (fan_out msg unknown rows ids marked) (\<lambda>(more, final).
           act_return (xs @ more, final))))"

text \<open>\<open>clusterFilter ? [clusterFilter] : getConfiguredContexts()\<close>.\<close>

definition wanted_clusters :: "string list \<Rightarrow> string option \<Rightarrow> string list" where
  "wanted_clusters contexts clusterFilter =
     (case opt_or_undef clusterFilter of Some c \<Rightarrow> [c] | None \<Rightarrow> contexts)"

section \<open>Lists are complete or say so\<close>

lemma cluster_by_id_mark:
  "cluster_by_id (mark_unreachable cid msg clusters) i =
     (if i = cid then map_option (\<lambda>c. c\<lparr>cin_reachable := False, cin_error := Some msg\<rparr>) (cluster_by_id clusters i)
      else cluster_by_id clusters i)"
proof -
  have "List.find (\<lambda>c. cin_id c = i) (mark_first cid msg cs) =
     (if i = cid then map_option (\<lambda>c. c\<lparr>cin_reachable := False, cin_error := Some msg\<rparr>) (List.find (\<lambda>c. cin_id c = i) cs)
      else List.find (\<lambda>c. cin_id c = i) cs)" for cs
    by (induction cs) auto
  then show ?thesis by (simp add: cluster_by_id_def mark_unreachable_def)
qed

lemma fan_out_total: "\<exists>items final t. fan_out msg unknown rows ids clusters s = (Inr (items, final), t)"
proof (induction ids arbitrary: clusters s)
  case Nil
  then show ?case by (simp add: act_simps)
next
  case (Cons cid ids)
  have step: "\<exists>y u. act_catch (act_bind (rows cid) (\<lambda>xs. act_return (xs, clusters)))
           (\<lambda>err. act_return ([], mark_unreachable cid (msg err) clusters)) s = (Inr y, u)"
    by (simp add: act_simps split: sum.split prod.split)
  then obtain xs marked u where "act_catch (act_bind (rows cid) (\<lambda>xs. act_return (xs, clusters)))
           (\<lambda>err. act_return ([], mark_unreachable cid (msg err) clusters)) s = (Inr (xs, marked), u)"
    by (metis surj_pair)
  moreover obtain more final t where "fan_out msg unknown rows ids marked u = (Inr (more, final), t)"
    using Cons.IH by blast
  ultimately show ?case
    using Cons.IH [of clusters s] by (simp add: act_bind_def act_return_def Let_def)
qed

text \<open>A cluster that is reachable in the end has been reachable all along.\<close>

lemma fan_out_reachable:
  "fan_out msg unknown rows ids clusters s = (Inr (items, final), t) \<Longrightarrow>
   cluster_by_id final i = Some c \<Longrightarrow> cin_reachable c \<Longrightarrow> cluster_by_id clusters i = Some c"
proof (induction ids arbitrary: clusters s items t)
  case Nil
  then show ?case by (simp add: act_simps)
next
  case (Cons cid ids)
  show ?case
  proof (cases "case cluster_by_id clusters cid of None \<Rightarrow> unknown | Some c \<Rightarrow> cin_reachable c")
    case False
    then show ?thesis using Cons.prems Cons.IH by (simp add: Let_def)
  next
    case True
    obtain r u where r: "rows cid s = (r, u)" by fastforce
    define marked where "marked = (case r of Inl e \<Rightarrow> mark_unreachable cid (msg e) clusters | Inr x \<Rightarrow> clusters)"
    obtain more where "fan_out msg unknown rows ids marked u = (Inr (more, final), t)"
      using Cons.prems(1) True r
      by (auto simp: act_simps Let_def marked_def split: sum.splits prod.splits)
    then have "cluster_by_id marked i = Some c" using Cons.IH Cons.prems by blast
    then show ?thesis
      using Cons.prems(3) by (auto simp: marked_def cluster_by_id_mark split: sum.splits if_splits)
  qed
qed

lemma fan_out_complete:
  "fan_out msg unknown rows ids clusters s = (Inr (items, final), t) \<Longrightarrow> i \<in> set ids \<Longrightarrow>
   cluster_by_id final i = Some c \<Longrightarrow> cin_reachable c \<Longrightarrow>
   \<exists>u xs v. rows i u = (Inr xs, v) \<and> set xs \<subseteq> set items"
proof (induction ids arbitrary: clusters s items t)
  case Nil
  then show ?case by simp
next
  case (Cons cid ids)
  have known: "cluster_by_id clusters i = Some c" by (rule fan_out_reachable [OF Cons.prems(1,3,4)])
  show ?case
  proof (cases "case cluster_by_id clusters cid of None \<Rightarrow> unknown | Some c \<Rightarrow> cin_reachable c")
    case False
    then have "cid \<noteq> i" using known Cons.prems(4) by auto
    then show ?thesis using False Cons.prems Cons.IH by (simp add: Let_def)
  next
    case True
    obtain r u where r: "rows cid s = (r, u)" by fastforce
    define marked where "marked = (case r of Inl e \<Rightarrow> mark_unreachable cid (msg e) clusters | Inr x \<Rightarrow> clusters)"
    obtain more where more: "fan_out msg unknown rows ids marked u = (Inr (more, final), t)"
        "items = (case r of Inl e \<Rightarrow> [] | Inr xs \<Rightarrow> xs) @ more"
      using Cons.prems(1) True r
      by (auto simp: act_simps Let_def marked_def split: sum.splits prod.splits)
    show ?thesis
    proof (cases "i \<in> set ids")
      case True
      then obtain w xs v where "rows i w = (Inr xs, v)" "set xs \<subseteq> set more"
        using Cons.IH [OF more(1)] Cons.prems(3,4) by blast
      then show ?thesis using more(2) by auto
    next
      case False
      then have i: "i = cid" using Cons.prems(2) by simp
      have "cluster_by_id marked i = Some c" by (rule fan_out_reachable [OF more(1) Cons.prems(3,4)])
      then obtain xs where "r = Inr xs"
        using Cons.prems(4) i by (auto simp: marked_def cluster_by_id_mark split: sum.splits)
      then show ?thesis using r i more(2) by auto
    qed
  qed
qed

section \<open>Cached probes are fresh\<close>

text \<open>
  Requests and the ends of probes in any order. \<open>pst_running\<close> are the probes in flight; \<open>pst_ended\<close>
  records when the last probe of a cluster has ended, and its answer.
\<close>

record probe_state =
  pst_now :: int
  pst_cache :: probe_cache
  pst_running :: "string multiset"
  pst_ended :: "string \<Rightarrow> (int \<times> cluster_info) option"

definition no_probes :: "int \<Rightarrow> probe_state" where
  "no_probes now = \<lparr>pst_now = now, pst_cache = Map.empty, pst_running = {#}, pst_ended = Map.empty\<rparr>"

inductive probe_step :: "probe_state \<Rightarrow> probe_state \<Rightarrow> bool" where
  tick: "probe_step st (st\<lparr>pst_now := now\<rparr>)"
| request: "probe_request (pst_now st) cid (pst_cache st) = (answer, cache) \<Longrightarrow>
    probe_step st (st\<lparr>pst_cache := cache,
      pst_running := (if answer = Started then add_mset cid (pst_running st) else pst_running st)\<rparr>)"
| ended: "cid \<in># pst_running st \<Longrightarrow>
    probe_step st (st\<lparr>pst_cache := probe_done (pst_now st) cid info (pst_cache st),
      pst_running := pst_running st - {#cid#},
      pst_ended := (pst_ended st)(cid \<mapsto> (pst_now st, info))\<rparr>)"

definition probe_entry_ok :: "probe_state \<Rightarrow> string \<Rightarrow> bool" where
  "probe_entry_ok st cid \<longleftrightarrow>
     (case pst_cache st cid of
        None \<Rightarrow> cid \<notin># pst_running st
      | Some e \<Rightarrow> (pen_inflight e \<longleftrightarrow> cid \<in># pst_running st) \<and>
          (\<forall>info. pen_info e = Some info \<longrightarrow>
             (\<exists>at'. pst_ended st cid = Some (at', info) \<and> pen_expiresAt e = at' + probe_ttl info)))"

lemma probe_step_ok:
  assumes "probe_step st st'" "\<forall>cid. probe_entry_ok st cid" "\<forall>cid. count (pst_running st) cid \<le> 1"
  shows "(\<forall>cid. probe_entry_ok st' cid) \<and> (\<forall>cid. count (pst_running st') cid \<le> 1)"
  using assms
proof (induction rule: probe_step.induct)
  case (tick st now)
  then show ?case by (simp add: probe_entry_ok_def cong: option.case_cong)
next
  case (request st cid answer cache)
  let ?st = "st\<lparr>pst_cache := cache,
      pst_running := (if answer = Started then add_mset cid (pst_running st) else pst_running st)\<rparr>"
  have own: "probe_entry_ok st cid" using request.prems by blast
  show ?case
  proof (cases "answer = Started")
    case True
    then have c: "cache = (pst_cache st)(cid \<mapsto> \<lparr>pen_expiresAt = 0, pen_info = None, pen_inflight = True\<rparr>)"
      using request.hyps by (auto simp: probe_request_def Let_def split: option.splits if_splits)
    have "cid \<notin># pst_running st"
      using request.hyps own True
      by (auto simp: probe_request_def probe_entry_ok_def Let_def split: option.splits if_splits)
    then have none: "count (pst_running st) cid = 0" by (simp add: not_in_iff)
    have "probe_entry_ok ?st i" for i
      using request.prems(1) [rule_format, of i] True by (simp add: probe_entry_ok_def c cong: option.case_cong)
    moreover have "count (pst_running ?st) i \<le> 1" for i
      using request.prems(2) [rule_format, of i] True none by (cases "i = cid") simp_all
    ultimately show ?thesis by blast
  next
    case False
    then have "cache = pst_cache st"
      using request.hyps by (auto simp: probe_request_def Let_def split: option.splits if_splits)
    then show ?thesis using False request.prems by (simp add: probe_entry_ok_def cong: option.case_cong)
  qed
next
  case (ended cid st info)
  let ?st = "st\<lparr>pst_cache := probe_done (pst_now st) cid info (pst_cache st),
      pst_running := pst_running st - {#cid#},
      pst_ended := (pst_ended st)(cid \<mapsto> (pst_now st, info))\<rparr>"
  have one: "count (pst_running st) cid \<le> 1" using ended.prems by blast
  then have "cid \<notin># pst_running st - {#cid#}" by (simp add: not_in_iff)
  then have "probe_entry_ok ?st i" for i
    using ended.prems(1) [rule_format, of i] 
    by (cases "i = cid") (simp_all add: probe_entry_ok_def probe_done_def in_diff_count cong: option.case_cong)
  moreover have "count (pst_running ?st) i \<le> 1" for i
    using ended.prems(2) [rule_format, of i] by simp
  ultimately show ?case by blast
qed

lemma probe_steps_ok:
  assumes "probe_step\<^sup>*\<^sup>* (no_probes now) st"
  shows "(\<forall>cid. probe_entry_ok st cid) \<and> (\<forall>cid. count (pst_running st) cid \<le> 1)"
  using assms
proof (induction rule: rtranclp_induct)
  case base
  then show ?case by (simp add: no_probes_def probe_entry_ok_def)
next
  case (step y z)
  then show ?case using probe_step_ok by blast
qed

text \<open>
  C16. Whatever requests are made and whenever probes end, at most one probe of a cluster is in
  flight; a request is answered from the cache only with the answer of the last probe that has ended,
  within its time to live (15 seconds for a reachable cluster and 5 for a failed one); otherwise it joins
  the probe in flight, or starts one when there is none.
\<close>

theorem probes_are_shared_and_fresh:
  assumes "probe_step\<^sup>*\<^sup>* (no_probes start) st" "probe_request (pst_now st) cid (pst_cache st) = (answer, cache)"
  shows "count (pst_running st) cid \<le> 1 \<and>
    (case answer of
       Cached info \<Rightarrow> (\<exists>at'. pst_ended st cid = Some (at', info) \<and> pst_now st < at' + probe_ttl info)
     | Joined \<Rightarrow> cid \<in># pst_running st
     | Started \<Rightarrow> cid \<notin># pst_running st)"
proof -
  have ok: "probe_entry_ok st cid" and "count (pst_running st) cid \<le> 1"
    using probe_steps_ok [OF assms(1)] by blast+
  then show ?thesis
    using assms(2)
    by (auto simp: probe_entry_ok_def probe_request_def Let_def split: option.splits if_splits)
qed

lemma probes_are_shared_and_fresh_witness:
  "\<exists>st info. probe_step\<^sup>*\<^sup>* (no_probes 0) st \<and> pst_now st = 14999 \<and>
     probe_request (pst_now st) ''c1'' (pst_cache st) = (Cached info, pst_cache st) \<and>
     (\<exists>at'. pst_ended st ''c1'' = Some (at', info) \<and> pst_now st < at' + probe_ttl info)"
proof -
  let ?info = "\<lparr>cin_id = ''c1'', cin_reachable = True, cin_error = None, cin_latencyMs = Some 7\<rparr>"
  define s0 where "s0 = no_probes 0"
  define s1 where "s1 = s0\<lparr>pst_cache := [''c1'' \<mapsto> \<lparr>pen_expiresAt = 0, pen_info = None, pen_inflight = True\<rparr>],
    pst_running := {#''c1''#}\<rparr>"
  define s2 where "s2 = s1\<lparr>pst_cache := probe_done (pst_now s1) ''c1'' ?info (pst_cache s1),
    pst_running := pst_running s1 - {#''c1''#}, pst_ended := (pst_ended s1)(''c1'' \<mapsto> (pst_now s1, ?info))\<rparr>"
  define s3 where "s3 = s2\<lparr>pst_now := 14999\<rparr>"
  note defs = s3_def s2_def s1_def s0_def no_probes_def
  have "probe_step s0 s1"
    using probe_step.request [of s0 "''c1''" Started "pst_cache s1"]
    by (simp add: s1_def s0_def no_probes_def probe_request_def)
  moreover have "probe_step s1 s2"
    unfolding s2_def by (rule probe_step.ended) (simp add: s1_def)
  moreover have "probe_step s2 s3" unfolding s3_def by (rule probe_step.tick)
  ultimately have run: "probe_step\<^sup>*\<^sup>* (no_probes 0) s3"
    unfolding s0_def [symmetric] by (meson rtranclp.rtrancl_into_rtrancl rtranclp.rtrancl_refl)
  have answer: "probe_request (pst_now s3) ''c1'' (pst_cache s3) = (Cached ?info, pst_cache s3)"
    by (simp add: defs probe_request_def probe_done_def probe_ttl_def PROBE_CACHE_TTL_MS_def)
  have "pst_now s3 = 14999" by (simp add: s3_def)
  then show ?thesis
    using run answer probes_are_shared_and_fresh [OF run answer] by (intro exI [of _ s3] exI [of _ ?info]) simp
qed

end
