(* ===== verification/Secrets.thy ===== *)
theory Secrets
  imports Dev_Box_Oidc
begin

text \<open>
  The data of a Secret as the consoles of databases and buckets read it: base 64, then UTF-8
  (\<open>decodeSecretData\<close> of \<open>databases/databases.server.ts\<close> and \<open>object-storage/object-storage.server.ts\<close>).
\<close>

text \<open>
  \<open>Buffer.from(s, "base64")\<close> passes over what is not of the alphabet, and takes the alphabet of URLs
  as well.
\<close>

definition b64_value :: "char \<Rightarrow> nat option" where
  "b64_value c =
     (let n = char_code c in
      if is_upper_alpha c then Some (n - 65)
      else if is_lower_alpha c then Some (n - 71)
      else if is_digit c then Some (n + 4)
      else if c = CHR ''+'' \<or> c = CHR ''-'' then Some 62
      else if c = CHR ''/'' \<or> c = CHR ''_'' then Some 63
      else None)"

fun sextet_bytes :: "nat list \<Rightarrow> nat list" where
  "sextet_bytes [] = []"
| "sextet_bytes [a] = []"
| "sextet_bytes [a, b] = [a * 4 + b div 16]"
| "sextet_bytes [a, b, c] = [a * 4 + b div 16, b mod 16 * 16 + c div 4]"
| "sextet_bytes (a # b # c # d # s) =
     (a * 4 + b div 16) # (b mod 16 * 16 + c div 4) # (c mod 4 * 64 + d) # sextet_bytes s"

definition base64_bytes :: "string \<Rightarrow> nat list" where
  "base64_bytes s = sextet_bytes (List.map_filter b64_value s)"

text \<open>
  \<open>toString("utf8")\<close>; a byte that no character below 256 comes from stands as a question mark.
\<close>

fun utf8_text :: "nat list \<Rightarrow> string" where
  "utf8_text [] = []"
| "utf8_text (n # ns) =
     (if n < 128 then char_of n # utf8_text ns
      else case ns of
             m # rest \<Rightarrow>
               if 194 \<le> n \<and> n \<le> 195 \<and> 128 \<le> m \<and> m < 192
               then char_of (64 * (n - 192) + (m - 128)) # utf8_text rest
               else CHR ''?'' # utf8_text ns
           | [] \<Rightarrow> [CHR ''?''])"

definition base64_text :: "string \<Rightarrow> string" where
  "base64_text s = utf8_text (base64_bytes s)"

definition decodeSecretData :: "string jsobj option \<Rightarrow> string jsobj" where
  "decodeSecretData data =
     foldl (\<lambda>out (k, v). if v = [] then out else obj_assign out k (base64_text v)) [] (opt_obj data)"

section \<open>What has been encoded is read back\<close>

lemma b64_value_char:
  assumes "n < 64"
  shows "b64_value (b64_char n) = Some n"
proof -
  have "map b64_value (map b64_char [0..<64]) = map Some [0..<64]" by code_simp
  then have "map b64_value (map b64_char [0..<64]) ! n = map Some [0..<64] ! n" by (rule arg_cong)
  then show ?thesis using assms by simp
qed

lemma b64_value_pad: "b64_value (CHR ''='') = None"
  by code_simp

lemma sextets_base64:
  "\<forall>b \<in> set bs. b < 256 \<Longrightarrow> base64_bytes (base64 bs) = bs"
proof (induction bs rule: base64.induct)
  case (2 a)
  then have "a div 4 < 64" "a mod 4 * 16 < 64" by auto
  then show ?case
    by (simp add: base64_bytes_def List.map_filter_def b64_value_char b64_value_pad)
next
  case (3 a b)
  then have "a div 4 < 64" "a mod 4 * 16 + b div 16 < 64" "b mod 16 * 4 < 64" by auto
  moreover have "(a mod 4 * 16 + b div 16) div 16 = a mod 4" "(a mod 4 * 16 + b div 16) mod 16 = b div 16"
    using 3 by auto
  ultimately show ?case
    by (simp add: base64_bytes_def List.map_filter_def b64_value_char b64_value_pad)
next
  case (4 a b c bs)
  then have "a div 4 < 64" "a mod 4 * 16 + b div 16 < 64" "b mod 16 * 4 + c div 64 < 64" "c mod 64 < 64" by auto
  moreover have "(a mod 4 * 16 + b div 16) div 16 = a mod 4" "(a mod 4 * 16 + b div 16) mod 16 = b div 16"
      "(b mod 16 * 4 + c div 64) div 4 = b mod 16" "(b mod 16 * 4 + c div 64) mod 4 = c div 64"
    using 4 by auto
  ultimately show ?case
    using 4 by (simp add: base64_bytes_def List.map_filter_def b64_value_char)
qed (simp add: base64_bytes_def List.map_filter_def)

lemma utf8_text_char: "utf8_text (utf8_bytes c @ ns) = c # utf8_text ns"
proof (cases "char_code c < 128")
  case True
  then show ?thesis by (simp add: utf8_bytes_def)
next
  case False
  have "char_code c div 64 < 4" by (rule char_code_div)
  moreover have "2 \<le> char_code c div 64" using False by simp
  moreover have "64 * (char_code c div 64) + char_code c mod 64 = char_code c" by simp
  ultimately show ?thesis using False by (simp add: utf8_bytes_def Let_def)
qed

lemma base64_text_encoded: "base64_text (base64 (concat (map utf8_bytes s))) = s"
proof -
  have "utf8_text (concat (map utf8_bytes s)) = s"
    by (induction s) (simp_all add: utf8_text_char)
  moreover have "\<forall>b \<in> set (concat (map utf8_bytes s)). b < 256" using utf8_bytes_small by auto
  ultimately show ?thesis by (simp add: base64_text_def sextets_base64)
qed

lemma base64_Nil_iff: "base64 (concat (map utf8_bytes s)) = [] \<longleftrightarrow> s = []"
proof
  assume "base64 (concat (map utf8_bytes s)) = []"
  then have "base64_text (base64 (concat (map utf8_bytes s))) = []" by (simp add: base64_text_def base64_bytes_def List.map_filter_def)
  then show "s = []" by (simp add: base64_text_encoded)
qed simp

text \<open>A Secret of texts, as the operators write it.\<close>

definition secret_data :: "(string \<times> string) list \<Rightarrow> string jsobj" where
  "secret_data kvs = map (\<lambda>(k, v). (k, base64 (concat (map utf8_bytes v)))) kvs"

lemma decodeSecretData_get:
  assumes "distinct (map fst kvs)" "''__proto__'' \<notin> fst ` set kvs"
  shows "obj_get (decodeSecretData (Some (secret_data kvs))) k =
    (case map_of kvs k of Some v \<Rightarrow> or_undef v | None \<Rightarrow> None)"
proof -
  have "distinct (map fst kvs) \<Longrightarrow> ''__proto__'' \<notin> fst ` set kvs \<Longrightarrow>
    obj_get (foldl (\<lambda>out (k, v). if v = [] then out else obj_assign out k (base64_text v)) acc (secret_data kvs)) k =
    (case map_of kvs k of Some v \<Rightarrow> if v = [] then obj_get acc k else Some v | None \<Rightarrow> obj_get acc k)" for acc
  proof (induction kvs arbitrary: acc)
    case Nil
    then show ?case by (simp add: secret_data_def)
  next
    case (Cons kv kvs)
    obtain a v where kv: "kv = (a, v)" by fastforce
    have "map_of kvs a = None" using Cons.prems kv by (simp add: map_of_eq_None_iff)
    then show ?case
      using Cons by (auto simp: kv secret_data_def base64_Nil_iff base64_text_encoded obj_get_assign split: option.splits)
  qed
  from this [OF assms, of "[]"] show ?thesis
    by (simp add: decodeSecretData_def opt_obj_def or_undef_def split: option.splits)
qed

end
