(* ===== verification/Databases.thy ===== *)
theory Databases
  imports Cluster_Lists Secrets Frames
begin

text \<open>
  \<open>databases/*.ts\<close>: PostgreSQL clusters of the CloudNativePG operator, with the credentials that the
  operator writes into Secrets. The order of \<open>localeCompare\<close> is a parameter.
\<close>

definition KMC_RESOURCE_DATABASE :: string where "KMC_RESOURCE_DATABASE = ''database''"
definition KMC_LABEL_SIZE :: string where "KMC_LABEL_SIZE = KMC_LABEL_NAMESPACE @ ''/size''"
definition CNPG_GROUP :: string where "CNPG_GROUP = ''postgresql.cnpg.io''"
definition CNPG_VERSION :: string where "CNPG_VERSION = ''v1''"
definition CNPG_CLUSTER_PLURAL :: string where "CNPG_CLUSTER_PLURAL = ''clusters''"

definition cnpg_gvp :: gvp where
  "cnpg_gvp = \<lparr>gvp_group = CNPG_GROUP, gvp_version = CNPG_VERSION, gvp_plural = CNPG_CLUSTER_PLURAL\<rparr>"

section \<open>Sizes and images\<close>

record cpu_memory =
  cpm_cpu :: "string option"
  cpm_memory :: "string option"

record database_size =
  dsz_id :: string
  dsz_label :: string
  dsz_description :: string
  dsz_storageSize :: string
  dsz_requests :: cpu_memory
  dsz_limits :: cpu_memory

text \<open>The texts have a middle dot, and a dash between numbers, which stands in ASCII here.\<close>

definition middle_dot :: string where "middle_dot = '' '' @ [CHR 0xB7] @ '' ''"

definition DATABASE_SIZE_PRESETS :: "database_size jsobj" where
  "DATABASE_SIZE_PRESETS =
     [(''small'', \<lparr>dsz_id = ''small'', dsz_label = ''Small'', 
        dsz_description = ''0.5-1 CPU'' @ middle_dot @ ''1-2 GiB RAM'' @ middle_dot @ ''20 Gi storage'',
        dsz_storageSize = ''20Gi'', dsz_requests = \<lparr>cpm_cpu = Some ''250m'', cpm_memory = Some ''1Gi''\<rparr>,
        dsz_limits = \<lparr>cpm_cpu = Some ''1'', cpm_memory = Some ''2Gi''\<rparr>\<rparr>),
      (''medium'', \<lparr>dsz_id = ''medium'', dsz_label = ''Medium'', 
        dsz_description = ''1-2 CPU'' @ middle_dot @ ''2-4 GiB RAM'' @ middle_dot @ ''50 Gi storage'',
        dsz_storageSize = ''50Gi'', dsz_requests = \<lparr>cpm_cpu = Some ''500m'', cpm_memory = Some ''2Gi''\<rparr>,
        dsz_limits = \<lparr>cpm_cpu = Some ''2'', cpm_memory = Some ''4Gi''\<rparr>\<rparr>),
      (''large'', \<lparr>dsz_id = ''large'', dsz_label = ''Large'', 
        dsz_description = ''2-4 CPU'' @ middle_dot @ ''4-8 GiB RAM'' @ middle_dot @ ''100 Gi storage'',
        dsz_storageSize = ''100Gi'', dsz_requests = \<lparr>cpm_cpu = Some ''1'', cpm_memory = Some ''4Gi''\<rparr>,
        dsz_limits = \<lparr>cpm_cpu = Some ''4'', cpm_memory = Some ''8Gi''\<rparr>\<rparr>)]"

definition DATABASE_SIZE_OPTIONS :: "(string \<times> string) list" where
  "DATABASE_SIZE_OPTIONS =
     map (\<lambda>(k, p). (dsz_id p, dsz_label p @ '' '' @ em_dash @ '' '' @ dsz_description p)) DATABASE_SIZE_PRESETS"

definition DATABASE_INSTANCE_OPTIONS :: "(string \<times> string) list" where
  "DATABASE_INSTANCE_OPTIONS = [(''1'', ''1 instance (dev / single-node)''), (''3'', ''3 instances (HA)'')]"

record postgres_image =
  pgi_version :: string
  pgi_label :: string
  pgi_imageName :: string

definition DATABASE_POSTGRES_IMAGES :: "postgres_image list" where
  "DATABASE_POSTGRES_IMAGES =
     [\<lparr>pgi_version = ''17'', pgi_label = ''PostgreSQL 17'', pgi_imageName = ''ghcr.io/cloudnative-pg/postgresql:17''\<rparr>,
      \<lparr>pgi_version = ''16'', pgi_label = ''PostgreSQL 16'', pgi_imageName = ''ghcr.io/cloudnative-pg/postgresql:16''\<rparr>,
      \<lparr>pgi_version = ''15'', pgi_label = ''PostgreSQL 15'', pgi_imageName = ''ghcr.io/cloudnative-pg/postgresql:15''\<rparr>]"

definition resolvePostgresImage :: "string \<Rightarrow> postgres_image option" where
  "resolvePostgresImage version = List.find (\<lambda>img. pgi_version img = version) DATABASE_POSTGRES_IMAGES"

definition isDatabaseSizePreset :: "string \<Rightarrow> bool" where
  "isDatabaseSizePreset s \<longleftrightarrow> s = ''small'' \<or> s = ''medium'' \<or> s = ''large''"

section \<open>Objects\<close>

record cnpg_spec =
  cns_instances :: "js_num option"
  cns_imageName :: "string option"
  cns_enableSuperuserAccess :: "bool option"
  cns_storageSize :: "string option"
  cns_storageClass :: "string option"
  cns_requests :: "cpu_memory option"
  cns_limits :: "cpu_memory option"
  cns_database :: "string option"
  cns_owner :: "string option"

record cnpg_status =
  cnt_phase :: "string option"
  cnt_instances :: "js_num option"
  cnt_readyInstances :: "js_num option"
  cnt_currentPrimary :: "string option"
  cnt_targetPrimary :: "string option"
  cnt_writeService :: "string option"
  cnt_readService :: "string option"
  cnt_image :: "string option"
  cnt_instanceNames :: "string list option"
  cnt_healthy :: "string list option"
  cnt_majorVersion :: "int option"
  cnt_conditions :: "cr_condition list option"

record cnpg_cluster =
  cpg_metadata :: "object_meta option"
  cpg_spec :: "cnpg_spec option"
  cpg_status :: "cnpg_status option"

record 's db_env =
  dbe_clients :: "('s, cnpg_cluster) clients"
  dbe_secrets :: "string \<Rightarrow> 's secret_api result"
  dbe_namespaces :: "'s ns_env"
  dbe_contexts :: "string list"
  dbe_clusters :: "('s, cluster_info list) act"
  dbe_le :: "string \<Rightarrow> string \<Rightarrow> bool"

section \<open>Summaries and details\<close>

definition database_isManagedByKmc :: "string jsobj option \<Rightarrow> bool" where
  "database_isManagedByKmc labels \<longleftrightarrow>
     opt_get labels MANAGED_BY_LABEL = Some KMC_MANAGED_BY \<and> opt_get labels KMC_LABEL_RESOURCE = Some KMC_RESOURCE_DATABASE"

text \<open>The tag of an image, without its digest.\<close>

definition versionFromImage :: "string option \<Rightarrow> string option" where
  "versionFromImage img =
     (let ref = js_trim (opt_str img);
          at_sign = js_last_index_of (CHR ''@'') ref;
          withoutDigest = (if 0 \<le> at_sign then js_slice ref 0 at_sign else ref);
          slash = js_last_index_of (CHR ''/'') withoutDigest;
          nm = (if 0 \<le> slash then js_slice_from withoutDigest (slash + 1) else withoutDigest);
          colon = js_last_index_of (CHR '':'') nm in
      if ref = [] \<or> colon < 0 then None else or_undef (js_trim (js_slice_from nm (colon + 1))))"

text \<open>Regular expressions that look for one of several words, in any case.\<close>

definition mentions :: "string list \<Rightarrow> string \<Rightarrow> bool" where
  "mentions ws s \<longleftrightarrow> list_ex (\<lambda>w. js_includes (js_lower s) w) ws"

definition database_deriveStatus :: "cnpg_cluster \<Rightarrow> string" where
  "database_deriveStatus c =
     (let st = cpg_status c;
          ready = List.find (\<lambda>cond. cond_type cond = Some ''Ready'') (opt_default [] (fld st cnt_conditions));
          phase = opt_str (fld st cnt_phase) in
      if fld ready cond_status = Some ''True'' then ''Ready''
      else if fld ready cond_status = Some ''False''
      then if mentions [''fail'', ''error''] (opt_str (fld ready cond_reason)) then ''Failed'' else ''NotReady''
      else if mentions [''healthy''] phase then ''Ready''
      else if mentions [''fail'', ''error'', ''unrecoverable''] phase then ''Failed''
      else if mentions [''setting up'', ''creating'', ''waiting'', ''initializ'', ''bootstrapping'', ''upgrading'',
             ''switchover'', ''fencing''] phase then ''Provisioning''
      else if phase = [] then ''Unknown'' else phase)"

record database_summary =
  dbs_cluster :: string
  dbs_namespace :: string
  dbs_name :: string
  dbs_status :: string
  dbs_phase :: string
  dbs_instances :: js_num
  dbs_readyInstances :: js_num
  dbs_postgresVersion :: "string option"
  dbs_imageName :: "string option"
  dbs_storageSize :: "string option"
  dbs_storageClass :: "string option"
  dbs_currentPrimary :: "string option"
  dbs_age :: string
  dbs_managedByKmc :: bool

definition mapDatabaseSummary :: "string \<Rightarrow> cnpg_cluster \<Rightarrow> database_summary" where
  "mapDatabaseSummary cluster c =
     (let md = cpg_metadata c; sp = cpg_spec c; st = cpg_status c;
          imageName = or_else (fld st cnt_image) (fld sp cns_imageName) in
      \<lparr>dbs_cluster = cluster, dbs_namespace = opt_default ''default'' (fld md om_namespace),
       dbs_name = opt_default ''unknown'' (fld md om_name), dbs_status = database_deriveStatus c,
       dbs_phase = opt_default ''Unknown'' (fld st cnt_phase),
       dbs_instances = opt_default (Fin 0) (or_else (fld st cnt_instances) (fld sp cns_instances)),
       dbs_readyInstances = opt_default (Fin 0) (fld st cnt_readyInstances),
       dbs_postgresVersion = or_else (versionFromImage imageName) (map_option int_str (fld st cnt_majorVersion)),
       dbs_imageName = imageName, dbs_storageSize = fld sp cns_storageSize, dbs_storageClass = fld sp cns_storageClass,
       dbs_currentPrimary = fld st cnt_currentPrimary, dbs_age = opt_str (fld md om_creationTimestamp),
       dbs_managedByKmc = database_isManagedByKmc (fld md om_labels)\<rparr>)"

definition sizePresetFromLabels :: "string jsobj option \<Rightarrow> string option" where
  "sizePresetFromLabels labels =
     (case trim_or_undef (opt_get labels KMC_LABEL_SIZE) of
        Some raw \<Rightarrow> if isDatabaseSizePreset raw then Some raw else None | None \<Rightarrow> None)"

datatype database_role = App | Superuser

record role_credentials =
  rcd_role :: database_role
  rcd_secretName :: string
  rcd_host :: "string option"
  rcd_hostFqdn :: "string option"
  rcd_port :: "string option"
  rcd_database :: "string option"
  rcd_username :: "string option"
  rcd_password :: "string option"
  rcd_uri :: "string option"
  rcd_fqdnUri :: "string option"
  rcd_error :: "string option"

record database_detail =
  dbd_summary :: database_summary
  dbd_uid :: "string option"
  dbd_labels :: "string jsobj"
  dbd_annotations :: "string jsobj"
  dbd_conditions :: "console_condition list"
  dbd_writeService :: string
  dbd_readService :: string
  dbd_readOnlyService :: "string option"
  dbd_targetPrimary :: "string option"
  dbd_enableSuperuserAccess :: "bool option"
  dbd_databaseName :: "string option"
  dbd_owner :: "string option"
  dbd_requests :: cpu_memory
  dbd_limits :: cpu_memory
  dbd_instanceNames :: "string list option"
  dbd_healthyInstances :: "string list option"
  dbd_sizePreset :: "string option"
  dbd_appCredentials :: "role_credentials option"
  dbd_superuserCredentials :: "role_credentials option"

text \<open>The annotations without those of \<open>kubectl\<close> and of Argo CD.\<close>

definition own_annotations :: "string jsobj option \<Rightarrow> string jsobj" where
  "own_annotations annotations =
     obj_lit (filter (\<lambda>(k, v). \<not> js_starts_with k ''kubectl.kubernetes.io/'' \<and> \<not> js_starts_with k ''argocd.argoproj.io/'')
       (opt_obj annotations))"

definition several :: "js_num \<Rightarrow> bool" where
  "several n = (case n of Fin q \<Rightarrow> 1 < q | PosInf \<Rightarrow> True | _ \<Rightarrow> False)"

definition resources_of :: "cpu_memory option \<Rightarrow> cpu_memory" where
  "resources_of r = \<lparr>cpm_cpu = fld r cpm_cpu, cpm_memory = fld r cpm_memory\<rparr>"

definition mapDatabaseDetail :: "string \<Rightarrow> cnpg_cluster \<Rightarrow> database_detail" where
  "mapDatabaseDetail cluster c =
     (let summary = mapDatabaseSummary cluster c; nm = dbs_name summary;
          md = cpg_metadata c; sp = cpg_spec c; st = cpg_status c in
      \<lparr>dbd_summary = summary, dbd_uid = fld md om_uid, dbd_labels = opt_obj (fld md om_labels),
       dbd_annotations = own_annotations (fld md om_annotations), dbd_conditions = mapCrConditions (fld st cnt_conditions),
       dbd_writeService = opt_default (nm @ ''-rw'') (fld st cnt_writeService),
       dbd_readService = opt_default (nm @ ''-r'') (fld st cnt_readService),
       dbd_readOnlyService = (if several (dbs_instances summary) then Some (nm @ ''-ro'') else None),
       dbd_targetPrimary = fld st cnt_targetPrimary, dbd_enableSuperuserAccess = fld sp cns_enableSuperuserAccess,
       dbd_databaseName = fld sp cns_database, dbd_owner = fld sp cns_owner,
       dbd_requests = resources_of (fld sp cns_requests), dbd_limits = resources_of (fld sp cns_limits),
       dbd_instanceNames = fld st cnt_instanceNames, dbd_healthyInstances = fld st cnt_healthy,
       dbd_sizePreset = sizePresetFromLabels (fld md om_labels),
       dbd_appCredentials = None, dbd_superuserCredentials = None\<rparr>)"

section \<open>Credentials\<close>

definition hostFqdn :: "string option \<Rightarrow> string \<Rightarrow> string option" where
  "hostFqdn host ns =
     (case trim_or_undef host of
        None \<Rightarrow> None | Some h \<Rightarrow> if js_has_char (CHR ''.'') h then Some h else Some (h @ ''.'' @ ns @ ''.svc''))"

definition mapCredentialsFromSecret :: "database_role \<Rightarrow> string \<Rightarrow> string \<Rightarrow> string jsobj \<Rightarrow> role_credentials" where
  "mapCredentialsFromSecret role secretName ns data =
     (let host = trim_or_undef (obj_get data ''host'') in
      \<lparr>rcd_role = role, rcd_secretName = secretName, rcd_host = host, rcd_hostFqdn = hostFqdn host ns,
       rcd_port = Some (opt_default ''5432'' (trim_or_undef (obj_get data ''port''))),
       rcd_database = trim_or_undef (obj_get data ''dbname''),
       rcd_username = or_else (trim_or_undef (obj_get data ''username'')) (trim_or_undef (obj_get data ''user'')),
       rcd_password = opt_or_undef (obj_get data ''password''), rcd_uri = trim_or_undef (obj_get data ''uri''),
       rcd_fqdnUri = trim_or_undef (obj_get data ''fqdn-uri''), rcd_error = None\<rparr>)"

definition no_credentials :: "database_role \<Rightarrow> string \<Rightarrow> string \<Rightarrow> role_credentials" where
  "no_credentials role secretName msg =
     \<lparr>rcd_role = role, rcd_secretName = secretName, rcd_host = None, rcd_hostFqdn = None, rcd_port = None,
      rcd_database = None, rcd_username = None, rcd_password = None, rcd_uri = None, rcd_fqdnUri = None,
      rcd_error = Some msg\<rparr>"

text \<open>\<open>/not found|404/i\<close>.\<close>

definition says_not_found :: "string \<Rightarrow> bool" where
  "says_not_found msg \<longleftrightarrow> js_includes (js_lower msg) ''not found'' \<or> js_includes msg ''404''"

definition readRoleCredentials ::
  "'s db_env \<Rightarrow> string \<Rightarrow> string \<Rightarrow> string \<Rightarrow> database_role \<Rightarrow> ('s, role_credentials) act" where
  "readRoleCredentials env cluster ns secretName role =
     act_bind (act_lift (dbe_secrets env cluster)) (\<lambda>core.
       act_catch
         (act_bind (sca_read core ns secretName) (\<lambda>secret.
            act_return (mapCredentialsFromSecret role secretName ns (decodeSecretData (kse_data secret)))))
         (\<lambda>err. act_return (no_credentials role secretName
            (if says_not_found (format_error err)
             then ''Secret '' @ ns @ ''/'' @ secretName @ '' not found yet'' else format_error err))))"

definition loadDatabaseCredentials ::
  "'s db_env \<Rightarrow> string \<Rightarrow> string \<Rightarrow> string \<Rightarrow> bool option \<Rightarrow> ('s, role_credentials \<times> role_credentials option) act" where
  "loadDatabaseCredentials env cluster ns nm enableSuperuserAccess =
     act_bind (readRoleCredentials env cluster ns (nm @ ''-app'') App) (\<lambda>app.
       if enableSuperuserAccess = Some True
       then act_bind (readRoleCredentials env cluster ns (nm @ ''-superuser'') Superuser) (\<lambda>su. act_return (app, Some su))
       else act_return (app, None))"

section \<open>Listing and reading\<close>

definition database_before :: "(string \<Rightarrow> string \<Rightarrow> bool) \<Rightarrow> database_summary \<Rightarrow> database_summary \<Rightarrow> bool" where
  "database_before le a b =
     before_by le [(dbs_cluster a, dbs_cluster b), (dbs_namespace a, dbs_namespace b), (dbs_name a, dbs_name b)]"

definition database_rows :: "'s db_env \<Rightarrow> string \<Rightarrow> ('s, database_summary list) act" where
  "database_rows env cid =
     with_custom (dbe_clients env) cid (\<lambda>api.
       act_bind (api_list_cluster api cnpg_gvp None) (\<lambda>items.
         act_return (map (mapDatabaseSummary cid) (opt_default [] items))))"

definition listDatabases ::
  "'s db_env \<Rightarrow> string option \<Rightarrow> ('s, database_summary list \<times> cluster_info list) act" where
  "listDatabases env clusterFilter =
     act_bind (dbe_clusters env) (\<lambda>clusters.
     act_bind (fan_out format_error True (database_rows env) (wanted_clusters (dbe_contexts env) clusterFilter) clusters)
       (\<lambda>(items, final). act_return (sort_by (database_before (dbe_le env)) items, final)))"

definition getDatabase :: "'s db_env \<Rightarrow> string \<Rightarrow> string \<Rightarrow> string \<Rightarrow> ('s, database_detail) act" where
  "getDatabase env cluster ns nm =
     with_custom (dbe_clients env) cluster (\<lambda>api.
       act_catch
         (act_bind (api_get_ns api cnpg_gvp ns nm) (\<lambda>ob.
            let detail = mapDatabaseDetail cluster ob in
            act_bind (loadDatabaseCredentials env cluster ns nm (dbd_enableSuperuserAccess detail)) (\<lambda>(app, su).
              act_return (detail\<lparr>dbd_appCredentials := Some app, dbd_superuserCredentials := su\<rparr>))))
         (\<lambda>err. case err of
            ResponseObj body code \<Rightarrow> act_fail err
          | _ \<Rightarrow> if says_not_found (format_error err)
                 then act_fail (ResponseObj (''Database '' @ ns @ ''/'' @ nm @ '' not found on '' @ cluster) 404)
                 else act_fail err))"

section \<open>Creating and deleting\<close>

record create_database_request =
  cdq_cluster :: string
  cdq_namespace :: string
  cdq_name :: string
  cdq_size :: string
  cdq_instances :: js_num
  cdq_postgresVersion :: string
  cdq_storageClass :: "string option"
  cdq_storageSize :: "string option"

definition database_ownershipLabels :: "string \<Rightarrow> string \<Rightarrow> string jsobj" where
  "database_ownershipLabels nm size' =
     obj_lit [(MANAGED_BY_LABEL, KMC_MANAGED_BY), (KMC_LABEL_RESOURCE, KMC_RESOURCE_DATABASE), (KMC_LABEL_SIZE, size'),
       (''app.kubernetes.io/name'', nm), (''app.kubernetes.io/component'', ''database'')]"

definition one_or_three :: "js_num \<Rightarrow> bool" where
  "one_or_three n \<longleftrightarrow> n = Fin 1 \<or> n = Fin 3"

definition buildDatabaseClusterManifest :: "create_database_request \<Rightarrow> cnpg_cluster result" where
  "buildDatabaseClusterManifest inp =
     (case obj_get DATABASE_SIZE_PRESETS (cdq_size inp) of
        None \<Rightarrow> throw (''Unknown size preset: '' @ cdq_size inp)
      | Some preset \<Rightarrow> (case resolvePostgresImage (cdq_postgresVersion inp) of
            None \<Rightarrow> throw (''Unsupported Postgres version \"'' @ cdq_postgresVersion inp @ ''\". '' @
              ''Choose one of: '' @ js_join '', '' [''17'', ''16'', ''15''])
          | Some img \<Rightarrow>
              if \<not> one_or_three (cdq_instances inp) then throw ''instances must be 1 or 3''
              else Inr \<lparr>
                cpg_metadata = Some (new_meta (Some (cdq_name inp)) (cdq_namespace inp)
                  (Some (database_ownershipLabels (cdq_name inp) (cdq_size inp))) None),
                cpg_spec = Some \<lparr>cns_instances = Some (cdq_instances inp), cns_imageName = Some (pgi_imageName img),
                  cns_enableSuperuserAccess = Some True,
                  cns_storageSize = Some (opt_default (dsz_storageSize preset) (trim_or_undef (cdq_storageSize inp))),
                  cns_storageClass = trim_or_undef (cdq_storageClass inp),
                  cns_requests = Some (dsz_requests preset), cns_limits = Some (dsz_limits preset),
                  cns_database = Some ''app'', cns_owner = Some ''app''\<rparr>,
                cpg_status = None\<rparr>))"

definition check_create_database :: "create_database_request \<Rightarrow> unit result" where
  "check_create_database inp =
     (if js_trim (cdq_cluster inp) = [] then throw ''cluster is required''
      else if js_trim (cdq_namespace inp) = [] then throw ''namespace is required''
      else if js_trim (cdq_name inp) = [] then throw ''name is required''
      else if \<not> isDatabaseSizePreset (cdq_size inp)
      then throw (''size must be small, medium, or large (got \"'' @ cdq_size inp @ ''\")'')
      else if js_trim (cdq_postgresVersion inp) = [] then throw ''postgresVersion is required''
      else if \<not> one_or_three (cdq_instances inp) then throw ''instances must be 1 or 3''
      else Inr ())"

definition trimmed_database :: "create_database_request \<Rightarrow> create_database_request" where
  "trimmed_database inp =
     inp\<lparr>cdq_name := js_trim (cdq_name inp), cdq_namespace := js_trim (cdq_namespace inp),
       cdq_cluster := js_trim (cdq_cluster inp), cdq_postgresVersion := js_trim (cdq_postgresVersion inp),
       cdq_storageClass := trim_or_undef (cdq_storageClass inp), cdq_storageSize := trim_or_undef (cdq_storageSize inp)\<rparr>"

definition createDatabase :: "'s db_env \<Rightarrow> create_database_request \<Rightarrow> ('s, database_summary) act" where
  "createDatabase env inp =
     act_seq (act_lift (check_create_database inp))
     (act_seq (assertVmNamespaceAllowed (dbe_namespaces env) (cdq_cluster inp) (cdq_namespace inp))
     (act_bind (act_lift (buildDatabaseClusterManifest (trimmed_database inp))) (\<lambda>body.
      with_custom (dbe_clients env) (cdq_cluster inp) (\<lambda>api.
        act_catch
          (act_bind (api_create_ns api cnpg_gvp (cdq_namespace inp) body) (\<lambda>created.
             act_return (mapDatabaseSummary (cdq_cluster inp) created)))
          save_error))))"

definition deleteDatabase :: "'s db_env \<Rightarrow> string \<Rightarrow> string \<Rightarrow> string \<Rightarrow> ('s, unit) act" where
  "deleteDatabase env cluster ns nm =
     (if js_trim cluster = [] then act_throw ''cluster is required''
      else if js_trim ns = [] then act_throw ''namespace is required''
      else if js_trim nm = [] then act_throw ''name is required''
      else with_custom (dbe_clients env) cluster (\<lambda>api.
        act_catch (api_delete_ns api cnpg_gvp ns nm) save_error))"

section \<open>The target of a psql session\<close>

record psql_target =
  pqt_podName :: string
  pqt_username :: string
  pqt_password :: string
  pqt_database :: string

definition psql_pod :: "cnpg_cluster \<Rightarrow> string option" where
  "psql_pod ob =
     (let st = cpg_status ob;
          named = Option.bind (List.find (\<lambda>n. js_trim n \<noteq> []) (opt_default [] (fld st cnt_instanceNames)))
            (\<lambda>n. or_undef (js_trim n));
          healthy = (case fld st cnt_healthy of Some (h # hs) \<Rightarrow> or_undef (js_trim h) | _ \<Rightarrow> None) in
      or_else (trim_or_undef (fld st cnt_currentPrimary))
        (or_else (trim_or_undef (fld st cnt_targetPrimary)) (or_else named healthy)))"

definition psql_target_of :: "string \<Rightarrow> string \<Rightarrow> cnpg_cluster \<Rightarrow> string \<Rightarrow> role_credentials \<Rightarrow> psql_target result" where
  "psql_target_of ns nm ob podName creds =
     (let missing = (\<lambda>what. throw (''App secret '' @ ns @ ''/'' @ nm @ ''-app is missing '' @ what)) in
      case opt_or_undef (rcd_error creds) of
        Some msg \<Rightarrow> throw msg
      | None \<Rightarrow> (case trim_or_undef (rcd_username creds) of
            None \<Rightarrow> missing ''username''
          | Some username \<Rightarrow> (case opt_or_undef (rcd_password creds) of
                None \<Rightarrow> missing ''password''
              | Some password \<Rightarrow> Inr \<lparr>pqt_podName = podName, pqt_username = username, pqt_password = password,
                  pqt_database = opt_default ''app'' (or_else (trim_or_undef (rcd_database creds))
                    (trim_or_undef (fld (cpg_spec ob) cns_database)))\<rparr>)))"

definition resolvePsqlSessionTarget :: "'s db_env \<Rightarrow> string \<Rightarrow> string \<Rightarrow> string \<Rightarrow> ('s, psql_target) act" where
  "resolvePsqlSessionTarget env cluster ns nm =
     (if js_trim cluster = [] \<or> js_trim ns = [] \<or> js_trim nm = []
      then act_throw ''cluster, namespace, and name are required''
      else with_custom (dbe_clients env) cluster (\<lambda>api.
        act_bind
          (act_catch (api_get_ns api cnpg_gvp ns nm) (\<lambda>err.
             if says_not_found (format_error err)
             then act_throw (''Database '' @ ns @ ''/'' @ nm @ '' not found on '' @ cluster)
             else save_error err))
          (\<lambda>ob. case psql_pod ob of
              None \<Rightarrow> act_throw (''No primary instance for '' @ ns @ ''/'' @ nm @ '' '' @ em_dash @
                '' wait until the cluster is Ready'')
            | Some podName \<Rightarrow> act_bind (readRoleCredentials env cluster ns (nm @ ''-app'') App) (\<lambda>creds.
                act_lift (psql_target_of ns nm ob podName creds)))))"

section \<open>What is created reads back\<close>

lemma size_presets:
  "isDatabaseSizePreset sz \<longleftrightarrow> (\<exists>p. obj_get DATABASE_SIZE_PRESETS sz = Some p)"
  by (auto simp: isDatabaseSizePreset_def DATABASE_SIZE_PRESETS_def obj_get_def)

lemma offered_image_version:
  "resolvePostgresImage v = Some img \<Longrightarrow> versionFromImage (Some (pgi_imageName img)) = Some v"
proof -
  have "list_all (\<lambda>i. versionFromImage (Some (pgi_imageName i)) = Some (pgi_version i)) DATABASE_POSTGRES_IMAGES"
    by code_simp
  then show "resolvePostgresImage v = Some img \<Longrightarrow> ?thesis"
    unfolding resolvePostgresImage_def find_Some_iff list_all_length by auto
qed

lemma database_labels_get:
  "obj_get (database_ownershipLabels nm sz) MANAGED_BY_LABEL = Some KMC_MANAGED_BY"
  "obj_get (database_ownershipLabels nm sz) KMC_LABEL_RESOURCE = Some KMC_RESOURCE_DATABASE"
  "obj_get (database_ownershipLabels nm sz) KMC_LABEL_SIZE = Some sz"
  by (simp_all add: database_ownershipLabels_def obj_get_lit MANAGED_BY_LABEL_def KMC_LABEL_RESOURCE_def
      KMC_LABEL_SIZE_def KMC_LABEL_NAMESPACE_def)

lemma preset_trim: "isDatabaseSizePreset sz \<Longrightarrow> trim_or_undef (Some sz) = Some sz"
  unfolding isDatabaseSizePreset_def by (elim disjE) (simp_all, code_simp+)

text \<open>
  A manifest that has been built shows as what was asked for, whatever the operator reports, as long as
  it does not report another image or count.
\<close>

lemma built_database_reads_back:
  assumes "buildDatabaseClusterManifest inp = Inr body" "isDatabaseSizePreset (cdq_size inp)"
    "fld st cnt_image = None" "fld st cnt_instances = None"
  shows "let d = mapDatabaseDetail cluster (body\<lparr>cpg_status := st\<rparr>); m = dbd_summary d in
    dbs_managedByKmc m \<and> dbs_name m = cdq_name inp \<and> dbs_namespace m = cdq_namespace inp \<and>
    dbs_postgresVersion m = Some (cdq_postgresVersion inp) \<and> dbs_instances m = cdq_instances inp \<and>
    dbs_storageClass m = trim_or_undef (cdq_storageClass inp) \<and> dbd_sizePreset d = Some (cdq_size inp)"
  using assms
  by (auto simp: buildDatabaseClusterManifest_def mapDatabaseDetail_def mapDatabaseSummary_def Let_def throw_def
      opt_default_def or_else_def offered_image_version database_isManagedByKmc_def sizePresetFromLabels_def
      opt_get_def opt_obj_def database_labels_get preset_trim split: option.splits if_splits)

text \<open>A creation that succeeds posts the manifest, into a namespace that has just been read as allowed.\<close>

lemma createDatabase_posts:
  assumes "createDatabase env inp s = (Inr summary, t)" "dbe_clients env (cdq_cluster inp) = Inr api"
  shows "isDatabaseSizePreset (cdq_size inp) \<and> one_or_three (cdq_instances inp) \<and>
    (\<exists>core ns u body created. ne_core (dbe_namespaces env) (cdq_cluster inp) = Inr core \<and>
       nsa_read core (cdq_namespace inp) s = (Inr ns, u) \<and> vm_allowed ns \<and>
       buildDatabaseClusterManifest (trimmed_database inp) = Inr body \<and>
       api_create_ns api cnpg_gvp (cdq_namespace inp) body u = (Inr created, t) \<and>
       summary = mapDatabaseSummary (cdq_cluster inp) created)"
proof -
  obtain u where ok: "check_create_database inp = Inr ()" and
      allowed: "assertVmNamespaceAllowed (dbe_namespaces env) (cdq_cluster inp) (cdq_namespace inp) s = (Inr (), u)" and
      rest: "act_bind (act_lift (buildDatabaseClusterManifest (trimmed_database inp))) (\<lambda>body.
        with_custom (dbe_clients env) (cdq_cluster inp) (\<lambda>api. act_catch
          (act_bind (api_create_ns api cnpg_gvp (cdq_namespace inp) body) (\<lambda>created.
             act_return (mapDatabaseSummary (cdq_cluster inp) created))) save_error)) u = (Inr summary, t)"
    using assms(1) unfolding createDatabase_def
    by (auto simp: act_lift_def elim!: act_seq_InrE)
  obtain body where body: "buildDatabaseClusterManifest (trimmed_database inp) = Inr body"
    using rest by (auto simp: act_lift_def elim!: act_bind_InrE)
  then have "act_catch (act_bind (api_create_ns api cnpg_gvp (cdq_namespace inp) body) (\<lambda>created.
             act_return (mapDatabaseSummary (cdq_cluster inp) created))) save_error u = (Inr summary, t)"
    using rest assms(2) by (simp add: act_bind_def act_lift_def with_custom_def)
  then obtain created where "api_create_ns api cnpg_gvp (cdq_namespace inp) body u = (Inr created, t)"
      "summary = mapDatabaseSummary (cdq_cluster inp) created"
    by (auto simp: act_simps save_error_def split: sum.splits prod.splits)
  moreover have "isDatabaseSizePreset (cdq_size inp)" "one_or_three (cdq_instances inp)"
    using ok by (auto simp: check_create_database_def throw_def split: if_splits)
  ultimately show ?thesis
    using allowed [unfolded assertVmNamespaceAllowed_Inr] body by blast
qed

text \<open>A session of psql gets the user and the password that the operator has put into the Secret.\<close>

lemma psql_credentials:
  assumes "distinct (map fst kvs)" "''__proto__'' \<notin> fst ` set kvs"
    "map_of kvs ''username'' = Some user" "map_of kvs ''password'' = Some password" "js_trim user \<noteq> []" "password \<noteq> []"
  shows "\<exists>target. psql_target_of ns nm ob podName
      (mapCredentialsFromSecret App (nm @ ''-app'') ns (decodeSecretData (Some (secret_data kvs)))) = Inr target \<and>
    pqt_username target = js_trim user \<and> pqt_password target = password \<and> pqt_podName target = podName"
proof -
  have u: "user \<noteq> []" using assms(5) by (auto simp: js_trim_Nil)
  show ?thesis
    using assms u
    by (simp add: psql_target_of_def mapCredentialsFromSecret_def decodeSecretData_get or_undef_def opt_or_undef_def
        trim_or_undef_def opt_trim_def or_else_def Let_def js_trim_idem)
qed

end
