(* ===== verification/Object_Storage.thy ===== *)
theory Object_Storage
  imports Databases
begin

text \<open>
  \<open>object-storage/*.ts\<close>: claims of S3 buckets, with the ConfigMap and the Secret that the provisioner
  writes under the name of the claim.
\<close>

definition KMC_RESOURCE_OBJECT_BUCKET :: string where "KMC_RESOURCE_OBJECT_BUCKET = ''object-bucket''"
definition OBC_GROUP :: string where "OBC_GROUP = ''objectbucket.io''"
definition OBC_VERSION :: string where "OBC_VERSION = ''v1alpha1''"
definition OBC_CLAIM_PLURAL :: string where "OBC_CLAIM_PLURAL = ''objectbucketclaims''"
definition OBC_BUCKET_PLURAL :: string where "OBC_BUCKET_PLURAL = ''objectbuckets''"
definition OBJECT_BUCKET_PROVISIONER_HINT :: string where "OBJECT_BUCKET_PROVISIONER_HINT = ''/bucket''"

definition obc_gvp :: "string \<Rightarrow> gvp" where
  "obc_gvp plural = \<lparr>gvp_group = OBC_GROUP, gvp_version = OBC_VERSION, gvp_plural = plural\<rparr>"

section \<open>Storage classes\<close>

record storage_class_info =
  sci_name :: string
  sci_isDefault :: bool
  sci_provisioner :: "string option"

definition isObjectBucketStorageClass :: "storage_class_info \<Rightarrow> bool" where
  "isObjectBucketStorageClass sc \<longleftrightarrow>
     js_includes (js_lower (opt_str (sci_provisioner sc))) OBJECT_BUCKET_PROVISIONER_HINT \<or>
     js_includes (js_lower (sci_name sc)) ''object'' \<and> mentions [''ceph'', ''rook'', ''rgw'', ''s3''] (sci_name sc)"

definition pickDefaultObjectStorageClass :: "storage_class_info list \<Rightarrow> string option" where
  "pickDefaultObjectStorageClass storageClasses =
     (let buckets = filter isObjectBucketStorageClass storageClasses in
      if buckets = [] then None
      else map_option sci_name (or_else (List.find (\<lambda>sc. mentions [''ceph-object''] (sci_name sc)) buckets)
        (or_else (List.find sci_isDefault buckets) (Some (hd buckets)))))"

section \<open>Objects\<close>

record bucket_claim_spec =
  bcs_storageClassName :: "string option"
  bcs_bucketName :: "string option"
  bcs_generateBucketName :: "string option"
  bcs_objectBucketName :: "string option"

record bucket_claim =
  bcl_metadata :: "object_meta option"
  bcl_spec :: "bucket_claim_spec option"
  bcl_phase :: "string option"

text \<open>Of an \<open>ObjectBucket\<close> only the name of the bucket is read.\<close>

record object_bucket =
  obk_bucketName :: "string option"

record 's bucket_core =
  bco_readConfigMap :: "string \<Rightarrow> string \<Rightarrow> ('s, string jsobj option) act"
  bco_secrets :: "'s secret_api"

record 's bucket_env =
  bke_claims :: "('s, bucket_claim) clients"
  bke_buckets :: "('s, object_bucket) clients"
  bke_core :: "string \<Rightarrow> 's bucket_core result"
  bke_namespaces :: "'s ns_env"
  bke_contexts :: "string list"
  bke_clusters :: "('s, cluster_info list) act"
  bke_le :: "string \<Rightarrow> string \<Rightarrow> bool"

section \<open>Summaries and details\<close>

definition bucket_isManagedByKmc :: "string jsobj option \<Rightarrow> bool" where
  "bucket_isManagedByKmc labels \<longleftrightarrow>
     opt_get labels MANAGED_BY_LABEL = Some KMC_MANAGED_BY \<and> opt_get labels KMC_LABEL_RESOURCE = Some KMC_RESOURCE_OBJECT_BUCKET"

definition bucket_deriveStatus :: "string option \<Rightarrow> string" where
  "bucket_deriveStatus phase =
     (let p = js_trim (opt_str phase) in
      if p = [] then ''Unknown''
      else if js_lower p = ''bound'' then ''Bound''
      else if js_lower p = ''pending'' then ''Pending''
      else if js_lower p = ''released'' then ''Released''
      else if mentions [''fail'', ''error''] p then ''Failed''
      else p)"

record bucket_summary =
  bks_cluster :: string
  bks_namespace :: string
  bks_name :: string
  bks_status :: string
  bks_phase :: string
  bks_bucketName :: "string option"
  bks_storageClass :: "string option"
  bks_objectBucketName :: "string option"
  bks_age :: string
  bks_managedByKmc :: bool

definition mapBucketSummary :: "string \<Rightarrow> bucket_claim \<Rightarrow> bucket_summary" where
  "mapBucketSummary cluster c =
     (let md = bcl_metadata c; sp = bcl_spec c; phase = opt_str (bcl_phase c) in
      \<lparr>bks_cluster = cluster, bks_namespace = opt_default ''default'' (fld md om_namespace),
       bks_name = opt_default ''unknown'' (fld md om_name), bks_status = bucket_deriveStatus (Some phase),
       bks_phase = opt_default ''Unknown'' (or_undef phase),
       bks_bucketName = or_else (trim_or_undef (fld sp bcs_bucketName)) (trim_or_undef (fld sp bcs_generateBucketName)),
       bks_storageClass = fld sp bcs_storageClassName, bks_objectBucketName = fld sp bcs_objectBucketName,
       bks_age = opt_str (fld md om_creationTimestamp), bks_managedByKmc = bucket_isManagedByKmc (fld md om_labels)\<rparr>)"

record bucket_credentials =
  bkc_secretName :: string
  bkc_configMapName :: string
  bkc_accessKeyId :: "string option"
  bkc_secretAccessKey :: "string option"
  bkc_bucketHost :: "string option"
  bkc_bucketPort :: "string option"
  bkc_bucketName :: "string option"
  bkc_bucketRegion :: "string option"
  bkc_bucketSubRegion :: "string option"
  bkc_endpoint :: "string option"
  bkc_error :: "string option"

record bucket_detail =
  bkd_summary :: bucket_summary
  bkd_uid :: "string option"
  bkd_labels :: "string jsobj"
  bkd_annotations :: "string jsobj"
  bkd_requestedBucketName :: "string option"
  bkd_generateBucketName :: "string option"
  bkd_credentials :: "bucket_credentials option"

definition mapBucketDetail :: "string \<Rightarrow> bucket_claim \<Rightarrow> bucket_detail" where
  "mapBucketDetail cluster c =
     (let md = bcl_metadata c; sp = bcl_spec c in
      \<lparr>bkd_summary = mapBucketSummary cluster c, bkd_uid = fld md om_uid, bkd_labels = opt_obj (fld md om_labels),
       bkd_annotations = own_annotations (fld md om_annotations),
       bkd_requestedBucketName = trim_or_undef (fld sp bcs_bucketName),
       bkd_generateBucketName = trim_or_undef (fld sp bcs_generateBucketName), bkd_credentials = None\<rparr>)"

definition with_bucket_name :: "string option \<Rightarrow> bucket_detail \<Rightarrow> bucket_detail" where
  "with_bucket_name b d = d\<lparr>bkd_summary := (bkd_summary d)\<lparr>bks_bucketName := b\<rparr>\<rparr>"

section \<open>Credentials\<close>

definition buildEndpoint :: "string option \<Rightarrow> string option \<Rightarrow> string option" where
  "buildEndpoint host port =
     (case trim_or_undef host of
        None \<Rightarrow> None
      | Some h \<Rightarrow>
          (if js_starts_with (js_lower h) ''http://'' \<or> js_starts_with (js_lower h) ''https://'' then Some h
           else case trim_or_undef port of
               None \<Rightarrow> Some (''http://'' @ h)
             | Some p \<Rightarrow>
                 if p = ''80'' then Some (''http://'' @ h)
                 else if p = ''443'' then Some (''https://'' @ h)
                 else Some (''http://'' @ h @ '':'' @ p)))"

text \<open>Either spelling of a key.\<close>

definition either_key :: "string jsobj \<Rightarrow> string \<Rightarrow> string \<Rightarrow> string option" where
  "either_key data k k' = or_else (trim_or_undef (obj_get data k)) (trim_or_undef (obj_get data k'))"

definition mapBucketCredentials :: "string \<Rightarrow> string jsobj \<Rightarrow> string jsobj \<Rightarrow> bucket_credentials" where
  "mapBucketCredentials claimName cmData secretData =
     (let host = either_key cmData ''BUCKET_HOST'' ''bucketHost''; port = either_key cmData ''BUCKET_PORT'' ''bucketPort'' in
      \<lparr>bkc_secretName = claimName, bkc_configMapName = claimName,
       bkc_accessKeyId = either_key secretData ''AWS_ACCESS_KEY_ID'' ''accessKeyId'',
       bkc_secretAccessKey = or_else (opt_or_undef (obj_get secretData ''AWS_SECRET_ACCESS_KEY''))
         (opt_or_undef (obj_get secretData ''secretAccessKey'')),
       bkc_bucketHost = host, bkc_bucketPort = port, bkc_bucketName = either_key cmData ''BUCKET_NAME'' ''bucketName'',
       bkc_bucketRegion = either_key cmData ''BUCKET_REGION'' ''bucketRegion'',
       bkc_bucketSubRegion = either_key cmData ''BUCKET_SUBREGION'' ''bucketSubRegion'',
       bkc_endpoint = buildEndpoint host port, bkc_error = None\<rparr>)"

definition no_bucket_credentials :: "string \<Rightarrow> string \<Rightarrow> bucket_credentials" where
  "no_bucket_credentials claimName msg =
     \<lparr>bkc_secretName = claimName, bkc_configMapName = claimName, bkc_accessKeyId = None, bkc_secretAccessKey = None,
      bkc_bucketHost = None, bkc_bucketPort = None, bkc_bucketName = None, bkc_bucketRegion = None,
      bkc_bucketSubRegion = None, bkc_endpoint = None, bkc_error = Some msg\<rparr>"

definition loadBucketCredentials ::
  "'s bucket_env \<Rightarrow> string \<Rightarrow> string \<Rightarrow> string \<Rightarrow> ('s, bucket_credentials) act" where
  "loadBucketCredentials env cluster ns claimName =
     act_bind (act_lift (bke_core env cluster)) (\<lambda>core.
       act_catch
         (act_bind (bco_readConfigMap core ns claimName) (\<lambda>cm.
          act_bind (sca_read (bco_secrets core) ns claimName) (\<lambda>secret.
            act_return (mapBucketCredentials claimName (opt_obj cm) (decodeSecretData (kse_data secret))))))
         (\<lambda>err. act_return (no_bucket_credentials claimName
            (if says_not_found (format_error err)
             then ''ConfigMap/Secret '' @ ns @ ''/'' @ claimName @ '' not found yet (claim may still be provisioning)''
             else format_error err))))"

definition enrichBucketNameFromObjectBucket ::
  "'s bucket_env \<Rightarrow> string \<Rightarrow> string option \<Rightarrow> bucket_detail \<Rightarrow> ('s, bucket_detail) act" where
  "enrichBucketNameFromObjectBucket env cluster objectBucketName detail =
     (if js_trim (opt_str objectBucketName) = [] then act_return detail
      else act_or
        (with_custom (bke_buckets env) cluster (\<lambda>api.
           act_bind (api_get_cluster api (obc_gvp OBC_BUCKET_PLURAL) (opt_str objectBucketName)) (\<lambda>ob.
             act_return (with_bucket_name
               (or_else (trim_or_undef (obk_bucketName ob)) (bks_bucketName (bkd_summary detail))) detail))))
        detail)"

section \<open>Operations\<close>

definition bucket_before :: "(string \<Rightarrow> string \<Rightarrow> bool) \<Rightarrow> bucket_summary \<Rightarrow> bucket_summary \<Rightarrow> bool" where
  "bucket_before le a b =
     before_by le [(bks_cluster a, bks_cluster b), (bks_namespace a, bks_namespace b), (bks_name a, bks_name b)]"

definition bucket_rows :: "'s bucket_env \<Rightarrow> string \<Rightarrow> ('s, bucket_summary list) act" where
  "bucket_rows env cid =
     with_custom (bke_claims env) cid (\<lambda>api.
       act_bind (api_list_cluster api (obc_gvp OBC_CLAIM_PLURAL) None) (\<lambda>items.
         act_return (map (mapBucketSummary cid) (opt_default [] items))))"

definition listObjectBuckets ::
  "'s bucket_env \<Rightarrow> string option \<Rightarrow> ('s, bucket_summary list \<times> cluster_info list) act" where
  "listObjectBuckets env clusterFilter =
     act_bind (bke_clusters env) (\<lambda>clusters.
     act_bind (fan_out format_error True (bucket_rows env) (wanted_clusters (bke_contexts env) clusterFilter) clusters)
       (\<lambda>(items, final). act_return (sort_by (bucket_before (bke_le env)) items, final)))"

definition getObjectBucket :: "'s bucket_env \<Rightarrow> string \<Rightarrow> string \<Rightarrow> string \<Rightarrow> ('s, bucket_detail) act" where
  "getObjectBucket env cluster ns nm =
     with_custom (bke_claims env) cluster (\<lambda>api.
       act_catch
         (act_bind (api_get_ns api (obc_gvp OBC_CLAIM_PLURAL) ns nm) (\<lambda>ob.
            let d = mapBucketDetail cluster ob in
            act_bind (enrichBucketNameFromObjectBucket env cluster (bks_objectBucketName (bkd_summary d)) d) (\<lambda>detail.
            act_bind (loadBucketCredentials env cluster ns nm) (\<lambda>creds.
              act_return ((case opt_or_undef (bkc_bucketName creds) of
                 None \<Rightarrow> detail | Some b \<Rightarrow> with_bucket_name (Some b) detail)\<lparr>bkd_credentials := Some creds\<rparr>)))))
         (\<lambda>err. case err of
            ResponseObj body code \<Rightarrow> act_fail err
          | _ \<Rightarrow> if says_not_found (format_error err)
                 then act_fail (ResponseObj (''Object bucket '' @ ns @ ''/'' @ nm @ '' not found on '' @ cluster) 404)
                 else act_fail err))"

record create_bucket_request =
  cbq_cluster :: string
  cbq_namespace :: string
  cbq_name :: string
  cbq_storageClass :: string
  cbq_bucketName :: "string option"

definition bucket_ownershipLabels :: "string \<Rightarrow> string jsobj" where
  "bucket_ownershipLabels nm =
     obj_lit [(MANAGED_BY_LABEL, KMC_MANAGED_BY), (KMC_LABEL_RESOURCE, KMC_RESOURCE_OBJECT_BUCKET),
       (''app.kubernetes.io/name'', nm), (''app.kubernetes.io/component'', ''object-storage'')]"

definition buildObjectBucketClaimManifest :: "create_bucket_request \<Rightarrow> bucket_claim result" where
  "buildObjectBucketClaimManifest inp =
     (let nm = js_trim (cbq_name inp); storageClass = js_trim (cbq_storageClass inp) in
      if nm = [] then throw ''name is required''
      else if storageClass = [] then throw ''storageClass is required''
      else Inr \<lparr>
        bcl_metadata = Some (new_meta (Some nm) (js_trim (cbq_namespace inp)) (Some (bucket_ownershipLabels nm)) None),
        bcl_spec = Some (case trim_or_undef (cbq_bucketName inp) of
            Some b \<Rightarrow> \<lparr>bcs_storageClassName = Some storageClass, bcs_bucketName = Some b, bcs_generateBucketName = None,
              bcs_objectBucketName = None\<rparr>
          | None \<Rightarrow> \<lparr>bcs_storageClassName = Some storageClass, bcs_bucketName = None, bcs_generateBucketName = Some nm,
              bcs_objectBucketName = None\<rparr>),
        bcl_phase = None\<rparr>)"

definition createObjectBucket :: "'s bucket_env \<Rightarrow> create_bucket_request \<Rightarrow> ('s, bucket_summary) act" where
  "createObjectBucket env inp =
     (if js_trim (cbq_cluster inp) = [] then act_throw ''cluster is required''
      else if js_trim (cbq_namespace inp) = [] then act_throw ''namespace is required''
      else if js_trim (cbq_name inp) = [] then act_throw ''name is required''
      else if js_trim (cbq_storageClass inp) = [] then act_throw ''storageClass is required''
      else act_seq (assertVmNamespaceAllowed (bke_namespaces env) (cbq_cluster inp) (cbq_namespace inp))
        (act_bind (act_lift (buildObjectBucketClaimManifest
           (inp\<lparr>cbq_name := js_trim (cbq_name inp), cbq_namespace := js_trim (cbq_namespace inp),
              cbq_cluster := js_trim (cbq_cluster inp), cbq_storageClass := js_trim (cbq_storageClass inp),
              cbq_bucketName := trim_or_undef (cbq_bucketName inp)\<rparr>))) (\<lambda>body.
         with_custom (bke_claims env) (cbq_cluster inp) (\<lambda>api.
           act_catch
             (act_bind (api_create_ns api (obc_gvp OBC_CLAIM_PLURAL) (cbq_namespace inp) body) (\<lambda>created.
                act_return (mapBucketSummary (cbq_cluster inp) created)))
             save_error))))"

definition deleteObjectBucket :: "'s bucket_env \<Rightarrow> string \<Rightarrow> string \<Rightarrow> string \<Rightarrow> ('s, unit) act" where
  "deleteObjectBucket env cluster ns nm =
     (if js_trim cluster = [] then act_throw ''cluster is required''
      else if js_trim ns = [] then act_throw ''namespace is required''
      else if js_trim nm = [] then act_throw ''name is required''
      else with_custom (bke_claims env) cluster (\<lambda>api.
        act_catch (api_delete_ns api (obc_gvp OBC_CLAIM_PLURAL) ns nm) save_error))"

section \<open>Lemmas\<close>

text \<open>A claim asks for the exact name of a bucket or for a generated one, never for both.\<close>

lemma claim_names_one_bucket:
  assumes "buildObjectBucketClaimManifest inp = Inr c"
  shows "bks_bucketName (mapBucketSummary cluster c) =
      Some (opt_default (js_trim (cbq_name inp)) (trim_or_undef (cbq_bucketName inp))) \<and>
    bks_managedByKmc (mapBucketSummary cluster c) \<and> bks_storageClass (mapBucketSummary cluster c) = Some (js_trim (cbq_storageClass inp)) \<and>
    (fld (bcl_spec c) bcs_bucketName = None \<longleftrightarrow> fld (bcl_spec c) bcs_generateBucketName \<noteq> None)"
  using assms
  by (auto simp: buildObjectBucketClaimManifest_def mapBucketSummary_def Let_def throw_def bucket_isManagedByKmc_def
      opt_get_def opt_obj_def bucket_ownershipLabels_def obj_get_lit MANAGED_BY_LABEL_def KMC_LABEL_RESOURCE_def
      KMC_LABEL_NAMESPACE_def or_else_def opt_default_def trim_or_undef_def opt_trim_def opt_or_undef_def or_undef_def
      js_trim_idem split: option.splits if_splits)

text \<open>The class that is offered first serves buckets.\<close>

lemma find_in_set: "List.find P xs = Some x \<Longrightarrow> x \<in> set xs"
  by (auto simp: find_Some_iff)

lemma picked_class_serves_buckets:
  assumes "pickDefaultObjectStorageClass scs = Some nm"
  shows "\<exists>sc \<in> set scs. isObjectBucketStorageClass sc \<and> sci_name sc = nm"
proof -
  let ?b = "filter isObjectBucketStorageClass scs"
  have "?b \<noteq> []" using assms by (simp add: pickDefaultObjectStorageClass_def Let_def split: if_splits)
  then have "hd ?b \<in> set ?b" by (rule hd_in_set)
  then have "\<exists>sc \<in> set ?b. sci_name sc = nm"
    using assms by (auto simp: pickDefaultObjectStorageClass_def or_else_def Let_def dest!: find_in_set
        split: option.splits if_splits)
  then show ?thesis by auto
qed

end
