(* ===== verification/Data_Volumes.thy ===== *)
theory Data_Volumes
  imports Vm_Disks Cluster_Lists Object_Storage
begin

text \<open>
  \<open>datavolumes/datavolumes.server.ts\<close>: the pages of DataVolumes, and the disks that the pickers of
  machines offer for reuse.
\<close>

section \<open>Objects\<close>

record disk_source =
  dso_blank :: bool
  dso_upload :: bool
  dso_pvc :: "(string option \<times> string option) option"
  dso_http :: "string option option"
  dso_registry :: "string option option"
  dso_s3 :: "string option option"
  dso_gcs :: "string option option"
  dso_snapshot :: bool

definition no_source :: disk_source where
  "no_source = \<lparr>dso_blank = False, dso_upload = False, dso_pvc = None, dso_http = None, dso_registry = None,
     dso_s3 = None, dso_gcs = None, dso_snapshot = False\<rparr>"

record volume_request =
  vrq_accessModes :: "string list option"
  vrq_volumeMode :: "string option"
  vrq_storageClassName :: "string option"
  vrq_storage :: "string option"

record disk_spec =
  dsp_source :: "disk_source option"
  dsp_pvc :: "volume_request option"
  dsp_storage :: "volume_request option"

record disk_condition = cr_condition +
  dcn_lastHeartbeatTime :: "string option"

record disk_status =
  dst_phase :: "string option"
  dst_progress :: "string option"
  dst_claimName :: "string option"
  dst_conditions :: "disk_condition list option"

record kube_data_volume =
  kdv_metadata :: "object_meta option"
  kdv_owners :: "owner_ref list option"
  kdv_spec :: "disk_spec option"
  kdv_status :: "disk_status option"

record 's disk_env =
  dke_dvs :: "('s, kube_data_volume) clients"
  dke_vms :: "('s, vm_object) clients"
  dke_contexts :: "string list"
  dke_clusters :: "('s, cluster_info list) act"
  dke_imageNamespace :: "string option"
  dke_le :: "string \<Rightarrow> string \<Rightarrow> bool"

section \<open>Summaries and details\<close>

definition pvc_detail :: "string option \<times> string option \<Rightarrow> string" where
  "pvc_detail p = (case p of (nm, ns) \<Rightarrow> opt_default ''?'' ns @ ''/'' @ opt_default ''?'' nm)"

text \<open>\<open>if (src.http?.url) return { kind: "http", detail: src.http.url }\<close> and so on, in order.\<close>

fun first_url :: "(string \<times> string option option) list \<Rightarrow> (string \<times> string) option" where
  "first_url [] = None"
| "first_url ((kind, src) # rest) =
     (case opt_or_undef (Option.bind src id) of Some url \<Rightarrow> Some (kind, url) | None \<Rightarrow> first_url rest)"

definition url_sources :: "disk_source \<Rightarrow> (string \<times> string option option) list" where
  "url_sources src =
     [(''http'', dso_http src), (''registry'', dso_registry src), (''s3'', dso_s3 src), (''gcs'', dso_gcs src)]"

definition linked_source :: "disk_source \<Rightarrow> string \<times> string option" where
  "linked_source src =
     (case dso_pvc src of
        Some p \<Rightarrow> (''pvc'', Some (pvc_detail p))
      | None \<Rightarrow> (case first_url (url_sources src) of
            Some (kind, url) \<Rightarrow> (kind, Some url)
          | None \<Rightarrow> if dso_snapshot src then (''snapshot'', None) else (''other'', None)))"

definition sourceInfo :: "kube_data_volume \<Rightarrow> string \<times> string option" where
  "sourceInfo dv =
     (case fld (kdv_spec dv) dsp_source of
        None \<Rightarrow> (''unknown'', None)
      | Some src \<Rightarrow> if dso_blank src then (''blank'', None) else linked_source src)"

definition disk_field :: "kube_data_volume \<Rightarrow> (volume_request \<Rightarrow> 'a option) \<Rightarrow> 'a option" where
  "disk_field dv f = or_else (fld (fld (kdv_spec dv) dsp_storage) f) (fld (fld (kdv_spec dv) dsp_pvc) f)"

definition running_message :: "disk_status option \<Rightarrow> string option" where
  "running_message st =
     (let running = List.find (\<lambda>c. cond_type c = Some ''Running'') (opt_default [] (fld st dst_conditions)) in
      or_else (fld running cond_message) (fld running cond_reason))"

record disk_summary =
  dsm_cluster :: string
  dsm_namespace :: string
  dsm_name :: string
  dsm_phase :: string
  dsm_progress :: "string option"
  dsm_size :: "string option"
  dsm_storageClass :: "string option"
  dsm_sourceKind :: string
  dsm_sourceDetail :: "string option"
  dsm_age :: string
  dsm_message :: "string option"
  dsm_ownerKind :: "string option"
  dsm_ownerName :: "string option"
  dsm_retainedFromVm :: "string option"

definition first_owner :: "kube_data_volume \<Rightarrow> owner_ref option" where
  "first_owner dv = (case opt_default [] (kdv_owners dv) of [] \<Rightarrow> None | o1 # os \<Rightarrow> Some o1)"

definition mapDataVolumeSummary :: "string \<Rightarrow> kube_data_volume \<Rightarrow> disk_summary" where
  "mapDataVolumeSummary cluster dv =
     (let md = kdv_metadata dv; st = kdv_status dv; owner = first_owner dv in
      \<lparr>dsm_cluster = cluster, dsm_namespace = opt_default ''default'' (fld md om_namespace),
       dsm_name = opt_default ''unknown'' (fld md om_name), dsm_phase = opt_default ''Unknown'' (fld st dst_phase),
       dsm_progress = fld st dst_progress, dsm_size = disk_field dv vrq_storage,
       dsm_storageClass = disk_field dv vrq_storageClassName, dsm_sourceKind = fst (sourceInfo dv),
       dsm_sourceDetail = snd (sourceInfo dv), dsm_age = opt_str (fld md om_creationTimestamp),
       dsm_message = running_message st, dsm_ownerKind = fld owner ow_kind, dsm_ownerName = fld owner ow_name,
       dsm_retainedFromVm = trim_or_undef (opt_get (fld md om_labels) KMC_LABEL_RETAINED_FROM_VM)\<rparr>)"

record disk_detail =
  ddl_summary :: disk_summary
  ddl_uid :: "string option"
  ddl_volumeMode :: "string option"
  ddl_accessModes :: "string list option"
  ddl_claimName :: "string option"
  ddl_labels :: "string jsobj"
  ddl_annotations :: "string jsobj"
  ddl_conditions :: "console_condition list"
  ddl_attachedVms :: "string list option"

definition clone_annotations_hidden :: "string jsobj \<Rightarrow> string jsobj" where
  "clone_annotations_hidden annotations =
     obj_lit (filter (\<lambda>(k, v). \<not> js_starts_with k ''cdi.kubevirt.io/storage.clone.token'' \<and>
         \<not> js_starts_with k ''cdi.kubevirt.io/storage.extended.clone.token'' \<and>
         \<not> js_starts_with k ''kubectl.kubernetes.io/'') annotations)"

definition disk_conditions :: "disk_condition list option \<Rightarrow> console_condition list" where
  "disk_conditions cs =
     map (\<lambda>c. \<lparr>cc_type = opt_default ''Unknown'' (cond_type c), cc_status = opt_default ''Unknown'' (cond_status c),
               cc_reason = cond_reason c, cc_message = cond_message c,
               cc_lastTransitionTime = or_else (cond_lastTransitionTime c) (dcn_lastHeartbeatTime c)\<rparr>)
       (opt_default [] cs)"

definition mapDataVolumeDetail :: "string \<Rightarrow> kube_data_volume \<Rightarrow> disk_detail" where
  "mapDataVolumeDetail cluster dv =
     (let md = kdv_metadata dv; st = kdv_status dv in
      \<lparr>ddl_summary = mapDataVolumeSummary cluster dv, ddl_uid = fld md om_uid,
       ddl_volumeMode = disk_field dv vrq_volumeMode, ddl_accessModes = disk_field dv vrq_accessModes,
       ddl_claimName = fld st dst_claimName, ddl_labels = opt_obj (fld md om_labels),
       ddl_annotations = clone_annotations_hidden (opt_obj (fld md om_annotations)),
       ddl_conditions = disk_conditions (fld st dst_conditions), ddl_attachedVms = None\<rparr>)"

section \<open>Listing\<close>

text \<open>\<open>process.env.KMC_IMAGE_NAMESPACE?.trim() || "vm-images"\<close>.\<close>

definition getImageNamespace :: "string option \<Rightarrow> string" where
  "getImageNamespace configured = opt_default ''vm-images'' (trim_or_undef configured)"

definition disk_before :: "(string \<Rightarrow> string \<Rightarrow> bool) \<Rightarrow> disk_summary \<Rightarrow> disk_summary \<Rightarrow> bool" where
  "disk_before le a b =
     before_by le [(dsm_cluster a, dsm_cluster b), (dsm_namespace a, dsm_namespace b), (dsm_name a, dsm_name b)]"

definition disk_rows :: "'s disk_env \<Rightarrow> string \<Rightarrow> ('s, disk_summary list) act" where
  "disk_rows env cid =
     with_custom (dke_dvs env) cid (\<lambda>api.
       act_bind (api_list_cluster api dv_gvp None) (\<lambda>items.
         act_return (map (mapDataVolumeSummary cid)
           (filter (\<lambda>dv. opt_str (fld (kdv_metadata dv) om_namespace) \<noteq> getImageNamespace (dke_imageNamespace env))
             (opt_default [] items)))))"

definition listDataVolumes ::
  "'s disk_env \<Rightarrow> string option \<Rightarrow> ('s, disk_summary list \<times> cluster_info list) act" where
  "listDataVolumes env clusterFilter =
     act_bind (dke_clusters env) (\<lambda>clusters.
     act_bind (fan_out format_error True (disk_rows env) (wanted_clusters (dke_contexts env) clusterFilter) clusters)
       (\<lambda>(items, final). act_return (sort_by (disk_before (dke_le env)) items, final)))"

section \<open>Which machines use a disk\<close>

text \<open>The machines by the name of a DataVolume or claim, as a function of the name.\<close>

type_synonym disk_index = "string \<Rightarrow> string list"

definition add_user :: "string \<Rightarrow> string option \<Rightarrow> disk_index \<Rightarrow> disk_index" where
  "add_user vmName key attached =
     (case trim_or_undef key of
        None \<Rightarrow> attached
      | Some k \<Rightarrow> if vmName \<in> set (attached k) then attached else attached(k := attached k @ [vmName]))"

definition used_names :: "vm_object \<Rightarrow> string option list" where
  "used_names vm =
     concat (map (\<lambda>vol. [fld (vvo_dataVolume vol) dvr_name, vvo_claimName vol]) (vm_volumes vm)) @
     map dtp_name (vm_dv_templates vm)"

definition add_machine :: "vm_object \<Rightarrow> disk_index \<Rightarrow> disk_index" where
  "add_machine vm attached =
     (case opt_or_undef (fld (vmo_metadata vm) om_name) of
        None \<Rightarrow> attached | Some vmName \<Rightarrow> fold (add_user vmName) (used_names vm) attached)"

definition mapDataVolumeAttachmentsInNamespace :: "'s disk_env \<Rightarrow> string \<Rightarrow> string \<Rightarrow> ('s, disk_index) act" where
  "mapDataVolumeAttachmentsInNamespace env cluster ns =
     with_custom (dke_vms env) cluster (\<lambda>api.
       act_or
         (act_bind (api_list_ns api vm_gvp ns None) (\<lambda>items.
            act_return (fold add_machine (opt_default [] items) (\<lambda>k. []))))
         (\<lambda>k. []))"

definition findAttachedVmNames ::
  "'s disk_env \<Rightarrow> string \<Rightarrow> string \<Rightarrow> string \<Rightarrow> string option \<Rightarrow> ('s, string list) act" where
  "findAttachedVmNames env cluster ns dataVolumeName claimName =
     act_bind (mapDataVolumeAttachmentsInNamespace env cluster ns) (\<lambda>attached.
       let by_claim = (case trim_or_undef claimName of
             Some claim \<Rightarrow> if claim = dataVolumeName then [] else attached claim | None \<Rightarrow> []) in
       act_return (sort_by (dke_le env) (js_uniq (attached dataVolumeName @ by_claim))))"

definition getDataVolume :: "'s disk_env \<Rightarrow> string \<Rightarrow> string \<Rightarrow> string \<Rightarrow> ('s, disk_detail) act" where
  "getDataVolume env cluster ns nm =
     with_custom (dke_dvs env) cluster (\<lambda>api.
       act_catch
         (act_bind (api_get_ns api dv_gvp ns nm) (\<lambda>dv.
            let detail = mapDataVolumeDetail cluster dv in
            act_bind (findAttachedVmNames env cluster ns nm (ddl_claimName detail)) (\<lambda>vms.
              act_return (detail\<lparr>ddl_attachedVms := (if vms = [] then None else Some vms)\<rparr>))))
         (\<lambda>err. if js_includes (format_error err) ''404'' \<or> js_includes (error_text err) ''not found''
                then act_fail (ResponseObj ''DataVolume not found'' 404) else save_error err))"

section \<open>Creating and deleting\<close>

record create_disk_request =
  cvq_cluster :: string
  cvq_namespace :: string
  cvq_name :: string
  cvq_size :: string
  cvq_storageClass :: "string option"
  cvq_volumeMode :: "string option"
  cvq_labels :: "string jsobj option"
  cvq_kind :: string
  cvq_pvcNamespace :: "string option"
  cvq_pvcName :: "string option"
  cvq_url :: "string option"

definition requested_source :: "create_disk_request \<Rightarrow> disk_source result" where
  "requested_source inp =
     (if cvq_kind inp = ''blank'' then Inr (no_source\<lparr>dso_blank := True\<rparr>)
      else if cvq_kind inp = ''pvc'' then
        (if js_trim (opt_str (cvq_pvcName inp)) = [] then throw ''source PVC name is required''
         else Inr (no_source\<lparr>dso_pvc :=
           Some (cvq_pvcName inp, Some (opt_default ''vm-images'' (opt_or_undef (cvq_pvcNamespace inp))))\<rparr>))
      else if cvq_kind inp = ''http'' then
        (if js_trim (opt_str (cvq_url inp)) = [] then throw ''source URL is required''
         else Inr (no_source\<lparr>dso_http := Some (cvq_url inp)\<rparr>))
      else throw (''Unsupported source kind: '' @ cvq_kind inp))"

definition disk_body :: "create_disk_request \<Rightarrow> disk_source \<Rightarrow> kube_data_volume" where
  "disk_body inp source =
     \<lparr>kdv_metadata = Some (new_meta (Some (cvq_name inp)) (cvq_namespace inp)
        (Some (obj_spread (obj_lit [(''app.kubernetes.io/managed-by'', ''kmc'')]) (opt_obj (cvq_labels inp)))) None),
      kdv_owners = None,
      kdv_spec = Some \<lparr>dsp_source = Some source, dsp_pvc = None,
        dsp_storage = Some \<lparr>vrq_accessModes = Some [''ReadWriteOnce''],
          vrq_volumeMode = Some (opt_default ''Block'' (cvq_volumeMode inp)),
          vrq_storageClassName = opt_or_undef (cvq_storageClass inp), vrq_storage = Some (cvq_size inp)\<rparr>\<rparr>,
      kdv_status = None\<rparr>"

definition createDataVolume :: "'s disk_env \<Rightarrow> create_disk_request \<Rightarrow> ('s, disk_summary) act" where
  "createDataVolume env inp =
     (if js_trim (cvq_cluster inp) = [] then act_throw ''cluster is required''
      else if js_trim (cvq_namespace inp) = [] then act_throw ''namespace is required''
      else if js_trim (cvq_name inp) = [] then act_throw ''name is required''
      else if js_trim (cvq_size inp) = [] then act_throw ''size is required''
      else act_bind (act_lift (requested_source inp)) (\<lambda>source.
        with_custom (dke_dvs env) (cvq_cluster inp) (\<lambda>api.
          act_catch
            (act_bind (api_create_ns api dv_gvp (cvq_namespace inp) (disk_body inp source)) (\<lambda>created.
               act_return (mapDataVolumeSummary (cvq_cluster inp) created)))
            save_error)))"

definition deleteDataVolume :: "'s disk_env \<Rightarrow> string \<Rightarrow> string \<Rightarrow> string \<Rightarrow> ('s, unit) act" where
  "deleteDataVolume env cluster ns nm =
     with_custom (dke_dvs env) cluster (\<lambda>api. act_catch (api_delete_ns api dv_gvp ns nm) save_error)"

section \<open>Disks for reuse\<close>

definition listDataVolumesInNamespace :: "'s disk_env \<Rightarrow> string \<Rightarrow> string \<Rightarrow> ('s, disk_summary list) act" where
  "listDataVolumesInNamespace env cluster ns =
     (if js_trim cluster = [] then act_throw ''cluster is required''
      else if js_trim ns = [] then act_throw ''namespace is required''
      else with_custom (dke_dvs env) cluster (\<lambda>api.
        act_catch
          (act_bind (api_list_ns api dv_gvp ns None) (\<lambda>items.
             act_return (sort_by (\<lambda>a b. dke_le env (dsm_name a) (dsm_name b))
               (map (mapDataVolumeSummary cluster) (opt_default [] items)))))
          save_error))"

record reusable_disk =
  rdk_name :: string
  rdk_phase :: string
  rdk_size :: "string option"
  rdk_retainedFromVm :: "string option"

text \<open>Retained disks first, then by name.\<close>

definition retained_first :: "(string \<Rightarrow> string \<Rightarrow> bool) \<Rightarrow> reusable_disk \<Rightarrow> reusable_disk \<Rightarrow> bool" where
  "retained_first le a b =
     (let ar = truthy (rdk_retainedFromVm a); br = truthy (rdk_retainedFromVm b) in
      if ar \<noteq> br then ar else le (rdk_name a) (rdk_name b))"

definition reusable_options :: "(string \<Rightarrow> string \<Rightarrow> bool) \<Rightarrow> disk_index \<Rightarrow> disk_summary list \<Rightarrow> reusable_disk list" where
  "reusable_options le attached items =
     sort_by (retained_first le)
       (map (\<lambda>dv. \<lparr>rdk_name = dsm_name dv, rdk_phase = dsm_phase dv, rdk_size = dsm_size dv,
              rdk_retainedFromVm = dsm_retainedFromVm dv\<rparr>)
         (filter (\<lambda>dv. dsm_phase dv \<in> set REUSABLE_DV_PHASES \<and> attached (dsm_name dv) = []) items))"

definition listReusableDataVolumes :: "'s disk_env \<Rightarrow> string \<Rightarrow> string \<Rightarrow> ('s, reusable_disk list) act" where
  "listReusableDataVolumes env cluster ns =
     act_bind (listDataVolumesInNamespace env cluster ns) (\<lambda>items.
     act_bind (mapDataVolumeAttachmentsInNamespace env cluster ns) (\<lambda>attached.
       act_return (reusable_options (dke_le env) attached items)))"

section \<open>The index agrees with the check of an attachment\<close>

lemma add_user_users:
  "v \<in> set (add_user vmName key attached k) \<longleftrightarrow>
     v \<in> set (attached k) \<or> v = vmName \<and> trim_or_undef key = Some k"
  by (auto simp: add_user_def split: option.splits)

lemma fold_user_users:
  "v \<in> set (fold (add_user vmName) keys attached k) \<longleftrightarrow>
     v \<in> set (attached k) \<or> v = vmName \<and> (\<exists>key \<in> set keys. trim_or_undef key = Some k)"
  by (induction keys arbitrary: attached) (auto simp: add_user_users)

lemma fold_machine_users:
  "v \<in> set (fold add_machine vms attached k) \<longleftrightarrow>
     v \<in> set (attached k) \<or>
     (\<exists>vm \<in> set vms. opt_or_undef (fld (vmo_metadata vm) om_name) = Some v \<and>
        (\<exists>key \<in> set (used_names vm). trim_or_undef key = Some k))"
proof (induction vms arbitrary: attached)
  case (Cons vm vms)
  have "v \<in> set (add_machine vm attached k) \<longleftrightarrow> v \<in> set (attached k) \<or>
      opt_or_undef (fld (vmo_metadata vm) om_name) = Some v \<and> (\<exists>key \<in> set (used_names vm). trim_or_undef key = Some k)"
    by (auto simp: add_machine_def fold_user_users split: option.splits)
  then show ?case using Cons.IH by auto
qed simp

text \<open>Names as the API server admits them: not blank at their ends, and machines have one.\<close>

definition plain_names :: "vm_object \<Rightarrow> bool" where
  "plain_names vm \<longleftrightarrow> truthy (fld (vmo_metadata vm) om_name) \<and>
     (\<forall>key \<in> set (used_names vm). \<forall>k. key = Some k \<longrightarrow> js_trim k = k)"

lemma trim_plain: "plain_names vm \<Longrightarrow> key \<in> set (used_names vm) \<Longrightarrow> k \<noteq> [] \<Longrightarrow> trim_or_undef key = Some k \<longleftrightarrow> key = Some k"
  by (cases key) (auto simp: plain_names_def trim_or_undef_def opt_trim_def opt_or_undef_def or_undef_def)

lemma used_names_of_disk: "Some k \<in> set (used_names vm) \<longleftrightarrow> has_disk k vm"
proof -
  have "Some k \<in> dtp_name ` S \<longleftrightarrow> (\<exists>t \<in> S. dtp_name t = Some k)" for S :: "dv_template set"
    by (auto simp: image_iff eq_commute [of "Some k"])
  then show ?thesis by (simp add: used_names_def has_disk_def eq_commute [of "Some k"])
qed

lemma machine_uses_disk:
  assumes "k \<noteq> []"
  shows "machine_uses k k vm = [] \<longleftrightarrow> \<not> has_disk k vm"
proof
  assume free: "\<not> has_disk k vm"
  have "volume_use k k n v = None" if "v \<in> set (vm_volumes vm)" for n v
    using free that by (auto simp: has_disk_def volume_use_def opt_or_undef_def or_undef_def split: option.splits)
  moreover have "template_use k n t = None" if "t \<in> set (vm_dv_templates vm)" for n t
    using free that by (auto simp: has_disk_def template_use_def)
  ultimately show "machine_uses k k vm = []"
    by (simp add: machine_uses_def Let_def map_filter_Nil)
next
  show "machine_uses k k vm = [] \<Longrightarrow> \<not> has_disk k vm" using assms by (rule machine_uses_Nil [rotated])
qed

lemma plain_user:
  assumes "plain_names vm" "k \<noteq> []"
  shows "(\<exists>v. opt_or_undef (fld (vmo_metadata vm) om_name) = Some v \<and> (\<exists>key \<in> set (used_names vm). trim_or_undef key = Some k))
    \<longleftrightarrow> has_disk k vm"
proof -
  have "\<exists>v. opt_or_undef (fld (vmo_metadata vm) om_name) = Some v"
    using assms(1) by (auto simp: plain_names_def truthy_def opt_or_undef_def or_undef_def split: option.splits)
  moreover have "(\<exists>key \<in> set (used_names vm). trim_or_undef key = Some k) \<longleftrightarrow> Some k \<in> set (used_names vm)"
    using trim_plain [OF assms(1) _ assms(2)] by blast
  ultimately show ?thesis by (simp add: used_names_of_disk)
qed

text \<open>The index of all disks of a namespace against the check of one: they say the same of every name.\<close>

lemma index_agrees_with_check:
  assumes "\<forall>vm \<in> set vms. plain_names vm" "k \<noteq> []"
  shows "fold add_machine vms (\<lambda>k. []) k = [] \<longleftrightarrow> (\<forall>vm \<in> set vms. machine_uses k k vm = [])"
proof -
  have "fold add_machine vms (\<lambda>k. []) k = [] \<longleftrightarrow> (\<forall>v. v \<notin> set (fold add_machine vms (\<lambda>k. []) k))" by auto
  also have "\<dots> \<longleftrightarrow> (\<forall>vm \<in> set vms. \<not> has_disk k vm)"
    unfolding fold_machine_users using plain_user [OF _ assms(2)] assms(1) by fastforce
  finally show ?thesis using machine_uses_disk [OF assms(2)] by simp
qed

section \<open>Properties\<close>


definition lab_volume :: "string \<Rightarrow> string \<Rightarrow> kube_data_volume" where
  "lab_volume nm phase =
     \<lparr>kdv_metadata = Some (new_meta (Some nm) ''lab'' None None), kdv_owners = None, kdv_spec = None,
      kdv_status = Some \<lparr>dst_phase = Some phase, dst_progress = None, dst_claimName = None, dst_conditions = None\<rparr>\<rparr>"

definition lab_volumes :: "kube_data_volume list" where
  "lab_volumes = [lab_volume ''free'' ''Succeeded'', lab_volume ''used'' ''Succeeded'', lab_volume ''new'' ''Pending'']"

definition lab_machines :: "vm_object list" where
  "lab_machines = [lab_vm ''web'' [], lab_vm ''db'' [\<lparr>rxd_volumeName = ''data'', rxd_dataVolumeName = ''used''\<rparr>]]"

definition lab_volume_api :: "(unit, kube_data_volume) custom_api" where
  "lab_volume_api = idle_api\<lparr>api_list_ns := (\<lambda>g ns l. act_return (Some lab_volumes))\<rparr>"

definition lab_machine_api :: "(unit, vm_object) custom_api" where
  "lab_machine_api = idle_api\<lparr>api_list_ns := (\<lambda>g ns l. act_return (Some lab_machines))\<rparr>"

definition lab_disk_env :: "unit disk_env" where
  "lab_disk_env =
     \<lparr>dke_dvs = (\<lambda>c. Inr lab_volume_api), dke_vms = (\<lambda>c. Inr lab_machine_api), dke_contexts = [''c''],
      dke_clusters = act_return [], dke_imageNamespace = None, dke_le = (\<lambda>a b. True)\<rparr>"

definition lab_offer :: reusable_disk where
  "lab_offer = \<lparr>rdk_name = ''free'', rdk_phase = ''Succeeded'', rdk_size = None, rdk_retainedFromVm = None\<rparr>"

lemma lab_offered: "listReusableDataVolumes lab_disk_env ''c'' ''lab'' () = (Inr [lab_offer], ())"
  by code_simp

lemma lab_plain: "\<forall>vm \<in> set lab_machines. plain_names vm"
proof -
  have "list_all (\<lambda>vm. truthy (fld (vmo_metadata vm) om_name) \<and>
      list_all (\<lambda>key. case key of None \<Rightarrow> True | Some k \<Rightarrow> js_trim k = k) (used_names vm)) lab_machines"
    by code_simp
  then show ?thesis by (fastforce simp: list_all_iff plain_names_def split: option.splits)
qed


text \<open>When the machines cannot be listed, every disk is offered, the one of another machine too.\<close>

lemma unlisted_machines_free_all_disks:
  "map_prod (map_sum id (map rdk_name)) id (listReusableDataVolumes
     (lab_disk_env\<lparr>dke_vms := (\<lambda>c. Inr (idle_api\<lparr>api_list_ns := (\<lambda>g ns l. act_throw ''forbidden'')\<rparr>))\<rparr>) ''c'' ''lab'' ()) =
   (Inr [''free'', ''used''], ())"
  by code_simp

end
