(* ===== verification/Images.thy ===== *)
theory Images
  imports Data_Volumes
begin

text \<open>
  \<open>images/images.server.ts\<close>, \<open>lib/k8s/image-catalog.server.ts\<close> and \<open>getImagePreference\<close> of
  \<open>lib/k8s/catalog.server.ts\<close>: golden images, each a DataVolume, a claim (PVC) or both under one name.
\<close>

definition KMC_RESOURCE_IMAGE :: string where "KMC_RESOURCE_IMAGE = ''image''"
definition IMAGE_PREFERENCE_LABEL :: string where "IMAGE_PREFERENCE_LABEL = KMC_LABEL_NAMESPACE @ ''/cluster-preference''"

section \<open>Objects and clients\<close>

record kube_pvc =
  kpv_metadata :: "object_meta option"
  kpv_spec :: "volume_request option"
  kpv_phase :: "string option"
  kpv_capacity :: "string option"

record 's pvc_api =
  pva_list :: "string \<Rightarrow> ('s, kube_pvc list option) act"
  pva_read :: "string \<Rightarrow> string \<Rightarrow> ('s, kube_pvc) act"
  pva_replace :: "string \<Rightarrow> string \<Rightarrow> kube_pvc \<Rightarrow> ('s, kube_pvc) act"
  pva_delete :: "string \<Rightarrow> string \<Rightarrow> ('s, unit) act"

record 's image_env =
  ime_dvs :: "('s, kube_data_volume) clients"
  ime_pvcs :: "string \<Rightarrow> 's pvc_api result"
  ime_contexts :: "string list"
  ime_clusters :: "('s, cluster_info list) act"
  ime_namespace :: "string option"
  ime_le :: "string \<Rightarrow> string \<Rightarrow> bool"

definition with_pvcs :: "'s image_env \<Rightarrow> string \<Rightarrow> ('s pvc_api \<Rightarrow> ('s, 'a) act) \<Rightarrow> ('s, 'a) act" where
  "with_pvcs env cluster k = act_bind (act_lift (ime_pvcs env cluster)) k"

section \<open>Summaries and details\<close>

definition image_sourceInfo :: "kube_data_volume \<Rightarrow> string \<times> string option" where
  "image_sourceInfo dv =
     (case fld (kdv_spec dv) dsp_source of
        None \<Rightarrow>
          if js_includes (js_lower (opt_str (opt_get (fld (kdv_metadata dv) om_annotations)
               ''cdi.kubevirt.io/storage.condition.running.message''))) ''upload''
          then (''upload'', None) else (''unknown'', None)
      | Some src \<Rightarrow>
          if dso_blank src then (''blank'', None)
          else if dso_upload src then (''upload'', None)
          else linked_source src)"

definition preferenceFromLabels :: "string jsobj option \<Rightarrow> string option" where
  "preferenceFromLabels labels = trim_or_undef (opt_get labels IMAGE_PREFERENCE_LABEL)"

record image_summary =
  imy_cluster :: string
  imy_namespace :: string
  imy_name :: string
  imy_phase :: string
  imy_progress :: "string option"
  imy_size :: "string option"
  imy_capacity :: "string option"
  imy_storageClass :: "string option"
  imy_volumeMode :: "string option"
  imy_preference :: "string option"
  imy_sourceKind :: "string option"
  imy_sourceDetail :: "string option"
  imy_age :: string
  imy_message :: "string option"
  imy_ready :: bool
  imy_hasDataVolume :: bool
  imy_hasPvc :: bool

text \<open>A field of the DataVolume, else of the claim.\<close>

definition image_field ::
  "kube_data_volume option \<Rightarrow> kube_pvc option \<Rightarrow> (volume_request \<Rightarrow> 'a option) \<Rightarrow> 'a option" where
  "image_field dv pvc f = or_else (Option.bind dv (\<lambda>d. disk_field d f)) (fld (fld pvc kpv_spec) f)"

definition mapMerged ::
  "string \<Rightarrow> string \<Rightarrow> string \<Rightarrow> kube_data_volume option \<Rightarrow> kube_pvc option \<Rightarrow> image_summary" where
  "mapMerged cluster ns nm dv pvc =
     (let src = map_option image_sourceInfo dv; st = fld dv kdv_status in
      \<lparr>imy_cluster = cluster, imy_namespace = ns, imy_name = nm,
       imy_phase = opt_default ''Unknown'' (or_else (fld st dst_phase) (fld pvc kpv_phase)),
       imy_progress = fld st dst_progress, imy_size = image_field dv pvc vrq_storage,
       imy_capacity = fld pvc kpv_capacity, imy_storageClass = image_field dv pvc vrq_storageClassName,
       imy_volumeMode = image_field dv pvc vrq_volumeMode,
       imy_preference = or_else (preferenceFromLabels (fld (fld pvc kpv_metadata) om_labels))
         (preferenceFromLabels (fld (fld dv kdv_metadata) om_labels)),
       imy_sourceKind = map_option fst src, imy_sourceDetail = Option.bind src snd,
       imy_age = opt_str (or_else (fld (fld dv kdv_metadata) om_creationTimestamp)
         (fld (fld pvc kpv_metadata) om_creationTimestamp)),
       imy_message = running_message st, imy_ready = (fld pvc kpv_phase = Some ''Bound''),
       imy_hasDataVolume = (dv \<noteq> None), imy_hasPvc = (pvc \<noteq> None)\<rparr>)"

record image_detail =
  imd_summary :: image_summary
  imd_uid :: "string option"
  imd_accessModes :: "string list option"
  imd_claimName :: "string option"
  imd_labels :: "string jsobj"
  imd_annotations :: "string jsobj"
  imd_conditions :: "console_condition list"

definition merged_bag ::
  "(object_meta \<Rightarrow> string jsobj option) \<Rightarrow> kube_data_volume option \<Rightarrow> kube_pvc option \<Rightarrow> string jsobj" where
  "merged_bag f dv pvc =
     obj_spread (obj_spread [] (opt_obj (fld (fld dv kdv_metadata) f))) (opt_obj (fld (fld pvc kpv_metadata) f))"

definition mapImageDetail ::
  "string \<Rightarrow> string \<Rightarrow> string \<Rightarrow> kube_data_volume option \<Rightarrow> kube_pvc option \<Rightarrow> image_detail" where
  "mapImageDetail cluster ns nm dv pvc =
     \<lparr>imd_summary = mapMerged cluster ns nm dv pvc,
      imd_uid = or_else (fld (fld dv kdv_metadata) om_uid) (fld (fld pvc kpv_metadata) om_uid),
      imd_accessModes = image_field dv pvc vrq_accessModes,
      imd_claimName = or_else (fld (fld dv kdv_status) dst_claimName) (if pvc = None then None else Some nm),
      imd_labels = merged_bag om_labels dv pvc,
      imd_annotations = clone_annotations_hidden (merged_bag om_annotations dv pvc),
      imd_conditions = disk_conditions (fld (fld dv kdv_status) dst_conditions)\<rparr>"

section \<open>Listing\<close>

definition listDataVolumesInImageNs :: "'s image_env \<Rightarrow> string \<Rightarrow> string \<Rightarrow> ('s, kube_data_volume list) act" where
  "listDataVolumesInImageNs env cluster ns =
     with_custom (ime_dvs env) cluster (\<lambda>api.
       act_or (act_bind (api_list_ns api dv_gvp ns None) (\<lambda>items. act_return (opt_default [] items))) [])"

definition listPvcsInImageNs :: "'s image_env \<Rightarrow> string \<Rightarrow> string \<Rightarrow> ('s, kube_pvc list) act" where
  "listPvcsInImageNs env cluster ns =
     with_pvcs env cluster (\<lambda>api.
       act_or (act_bind (pva_list api ns) (\<lambda>items. act_return (opt_default [] items))) [])"

text \<open>\<open>new Map\<close> by name: objects without a name are left out, and of two the last stays.\<close>

definition meta_names :: "('o \<Rightarrow> object_meta option) \<Rightarrow> 'o list \<Rightarrow> string list" where
  "meta_names md xs = List.map_filter (\<lambda>x. opt_or_undef (fld (md x) om_name)) xs"

definition last_named :: "('o \<Rightarrow> object_meta option) \<Rightarrow> 'o list \<Rightarrow> string \<Rightarrow> 'o option" where
  "last_named md xs nm = List.find (\<lambda>x. opt_or_undef (fld (md x) om_name) = Some nm) (rev xs)"

definition image_rows :: "'s image_env \<Rightarrow> string \<Rightarrow> ('s, image_summary list) act" where
  "image_rows env cid =
     (let ns = getImageNamespace (ime_namespace env) in
      act_bind (listDataVolumesInImageNs env cid ns) (\<lambda>dvs.
      act_bind (listPvcsInImageNs env cid ns) (\<lambda>pvcs.
        act_return (map (\<lambda>nm. mapMerged cid ns nm (last_named kdv_metadata dvs nm) (last_named kpv_metadata pvcs nm))
          (js_uniq (meta_names kdv_metadata dvs @ meta_names kpv_metadata pvcs))))))"

definition image_before :: "(string \<Rightarrow> string \<Rightarrow> bool) \<Rightarrow> image_summary \<Rightarrow> image_summary \<Rightarrow> bool" where
  "image_before le a b = before_by le [(imy_cluster a, imy_cluster b), (imy_name a, imy_name b)]"

definition listImages :: "'s image_env \<Rightarrow> string option \<Rightarrow> ('s, image_summary list \<times> cluster_info list) act" where
  "listImages env clusterFilter =
     act_bind (ime_clusters env) (\<lambda>clusters.
     act_bind (fan_out format_error True (image_rows env) (wanted_clusters (ime_contexts env) clusterFilter) clusters)
       (\<lambda>(items, final). act_return (sort_by (image_before (ime_le env)) items, final)))"

record image_info =
  iin_name :: string
  iin_namespace :: string
  iin_capacity :: "string option"
  iin_storageClass :: "string option"
  iin_preference :: "string option"

definition ready_image :: "string \<Rightarrow> kube_pvc \<Rightarrow> image_info" where
  "ready_image ns pvc =
     \<lparr>iin_name = opt_str (fld (kpv_metadata pvc) om_name),
      iin_namespace = opt_default ns (fld (kpv_metadata pvc) om_namespace),
      iin_capacity = or_else (kpv_capacity pvc) (fld (kpv_spec pvc) vrq_storage),
      iin_storageClass = fld (kpv_spec pvc) vrq_storageClassName,
      iin_preference = preferenceFromLabels (fld (kpv_metadata pvc) om_labels)\<rparr>"

definition listReadyImages :: "'s image_env \<Rightarrow> string \<Rightarrow> ('s, image_info list) act" where
  "listReadyImages env cluster =
     (let ns = getImageNamespace (ime_namespace env) in
      act_or
        (with_pvcs env cluster (\<lambda>api. act_bind (pva_list api ns) (\<lambda>items.
           act_return (sort_by (\<lambda>a b. ime_le env (iin_name a) (iin_name b))
             (filter (\<lambda>i. iin_name i \<noteq> [])
               (map (ready_image ns) (filter (\<lambda>pvc. kpv_phase pvc = Some ''Bound'') (opt_default [] items))))))))
        [])"

section \<open>One image\<close>

definition image_absent :: "thrown \<Rightarrow> bool" where
  "image_absent err \<longleftrightarrow> js_includes (format_error err) ''404'' \<or> js_includes (error_text err) ''not found''"

text \<open>A read that takes an absent object for none.\<close>

definition read_if_there :: "('s, 'a) act \<Rightarrow> ('s, 'a option) act" where
  "read_if_there m =
     act_catch (act_bind m (\<lambda>x. act_return (Some x)))
       (\<lambda>err. if image_absent err then act_return None else save_error err)"

definition getImage :: "'s image_env \<Rightarrow> string \<Rightarrow> string \<Rightarrow> ('s, image_detail) act" where
  "getImage env cluster nm =
     (let ns = getImageNamespace (ime_namespace env) in
      if js_trim cluster = [] then act_throw ''cluster is required''
      else if js_trim nm = [] then act_throw ''name is required''
      else with_custom (ime_dvs env) cluster (\<lambda>custom. with_pvcs env cluster (\<lambda>core.
        act_bind (read_if_there (api_get_ns custom dv_gvp ns nm)) (\<lambda>dv.
        act_bind (read_if_there (pva_read core ns nm)) (\<lambda>pvc.
          if dv = None \<and> pvc = None then act_fail (ResponseObj ''Image not found'' 404)
          else act_return (mapImageDetail cluster ns nm dv pvc))))))"

section \<open>Creating\<close>

record create_image_request =
  ciq_cluster :: string
  ciq_name :: string
  ciq_url :: string
  ciq_size :: string
  ciq_storageClass :: "string option"
  ciq_volumeMode :: "string option"
  ciq_preference :: "string option"

definition image_body :: "string \<Rightarrow> create_image_request \<Rightarrow> kube_data_volume" where
  "image_body ns inp =
     \<lparr>kdv_metadata = Some (new_meta (Some (ciq_name inp)) ns
        (Some (obj_lit ([(MANAGED_BY_LABEL, KMC_MANAGED_BY), (KMC_LABEL_RESOURCE, KMC_RESOURCE_IMAGE)] @
          (case trim_or_undef (ciq_preference inp) of None \<Rightarrow> [] | Some p \<Rightarrow> [(IMAGE_PREFERENCE_LABEL, p)])))) None),
      kdv_owners = None,
      kdv_spec = Some \<lparr>dsp_source = Some (no_source\<lparr>dso_http := Some (Some (js_trim (ciq_url inp)))\<rparr>), dsp_pvc = None,
        dsp_storage = Some \<lparr>vrq_accessModes = Some [''ReadWriteOnce''],
          vrq_volumeMode = Some (opt_default ''Block'' (ciq_volumeMode inp)),
          vrq_storageClassName = trim_or_undef (ciq_storageClass inp), vrq_storage = Some (js_trim (ciq_size inp))\<rparr>\<rparr>,
      kdv_status = None\<rparr>"

text \<open>The labels with the preference set, or without it.\<close>

definition with_preference :: "string option \<Rightarrow> string jsobj option \<Rightarrow> string jsobj" where
  "with_preference pref labels =
     (case pref of
        Some p \<Rightarrow> obj_assign (opt_obj labels) IMAGE_PREFERENCE_LABEL p
      | None \<Rightarrow> obj_delete (opt_obj labels) IMAGE_PREFERENCE_LABEL)"

definition bare_meta :: object_meta where
  "bare_meta = \<lparr>om_name = None, om_generateName = None, om_namespace = None, om_uid = None, om_creationTimestamp = None,
     om_labels = None, om_annotations = None\<rparr>"

definition labelled_meta :: "string option \<Rightarrow> object_meta option \<Rightarrow> object_meta" where
  "labelled_meta pref md =
     (opt_default bare_meta md)\<lparr>om_labels := Some (with_preference pref (fld md om_labels))\<rparr>"

definition labelled_pvc :: "string option \<Rightarrow> kube_pvc \<Rightarrow> kube_pvc" where
  "labelled_pvc pref pvc = pvc\<lparr>kpv_metadata := Some (labelled_meta pref (kpv_metadata pvc))\<rparr>"

definition labelled_dv :: "string option \<Rightarrow> kube_data_volume \<Rightarrow> kube_data_volume" where
  "labelled_dv pref dv = dv\<lparr>kdv_metadata := Some (labelled_meta pref (kdv_metadata dv))\<rparr>"

definition relabel_pvc :: "'s pvc_api \<Rightarrow> string \<Rightarrow> string \<Rightarrow> string option \<Rightarrow> ('s, unit) act" where
  "relabel_pvc core ns nm pref =
     act_bind (pva_read core ns nm) (\<lambda>pvc.
     act_bind (pva_replace core ns nm (labelled_pvc pref pvc)) (\<lambda>_. act_return ()))"

definition relabel_dv :: "('s, kube_data_volume) custom_api \<Rightarrow> string \<Rightarrow> string \<Rightarrow> string option \<Rightarrow> ('s, unit) act" where
  "relabel_dv custom ns nm pref =
     act_bind (api_get_ns custom dv_gvp ns nm) (\<lambda>dv.
     act_bind (api_replace_ns custom dv_gvp ns nm (labelled_dv pref dv)) (\<lambda>_. act_return ()))"

definition createImage :: "'s image_env \<Rightarrow> create_image_request \<Rightarrow> ('s, image_summary) act" where
  "createImage env inp =
     (let ns = getImageNamespace (ime_namespace env); pref = trim_or_undef (ciq_preference inp) in
      if js_trim (ciq_cluster inp) = [] then act_throw ''cluster is required''
      else if js_trim (ciq_name inp) = [] then act_throw ''name is required''
      else if js_trim (ciq_url inp) = [] then act_throw ''image URL is required''
      else if js_trim (ciq_size inp) = [] then act_throw ''size is required''
      else with_custom (ime_dvs env) (ciq_cluster inp) (\<lambda>custom. with_pvcs env (ciq_cluster inp) (\<lambda>core.
        act_catch
          (act_bind (api_create_ns custom dv_gvp ns (image_body ns inp)) (\<lambda>created.
           act_seq (act_when (pref \<noteq> None) (act_or (relabel_pvc core ns (ciq_name inp) pref) ()))
             (act_return (mapMerged (ciq_cluster inp) ns (ciq_name inp) (Some created) None))))
          save_error)))"

section \<open>The preference of an image\<close>

definition updateImagePreference :: "'s image_env \<Rightarrow> string \<Rightarrow> string \<Rightarrow> string option \<Rightarrow> ('s, unit) act" where
  "updateImagePreference env cluster nm preference =
     (let ns = getImageNamespace (ime_namespace env); pref = trim_or_undef preference in
      if js_trim cluster = [] then act_throw ''cluster is required''
      else if js_trim nm = [] then act_throw ''name is required''
      else with_custom (ime_dvs env) cluster (\<lambda>custom. with_pvcs env cluster (\<lambda>core.
        act_bind (read_if_there (relabel_pvc core ns nm pref)) (\<lambda>pvc.
        act_bind (read_if_there (relabel_dv custom ns nm pref)) (\<lambda>dv.
          if pvc = None \<and> dv = None then act_throw (''Image \"'' @ nm @ ''\" was not found in '' @ ns)
          else act_return ())))))"

definition getImagePreference :: "'s image_env \<Rightarrow> string \<Rightarrow> string \<Rightarrow> string \<Rightarrow> ('s, string option) act" where
  "getImagePreference env cluster ns nm =
     with_pvcs env cluster (\<lambda>core. with_custom (ime_dvs env) cluster (\<lambda>custom.
       act_bind
         (act_or (act_bind (pva_read core ns nm) (\<lambda>pvc.
            act_return (preferenceFromLabels (fld (kpv_metadata pvc) om_labels)))) None)
         (\<lambda>fromPvc. case fromPvc of
            Some p \<Rightarrow> act_return (Some p)
          | None \<Rightarrow> act_or
              (act_bind (api_get_ns custom dv_gvp (opt_default (getImageNamespace (ime_namespace env)) (or_undef ns)) nm)
                (\<lambda>dv. act_return (preferenceFromLabels (fld (kdv_metadata dv) om_labels)))) None)))"

section \<open>Deleting\<close>

definition deleteImage :: "'s image_env \<Rightarrow> string \<Rightarrow> string \<Rightarrow> ('s, unit) act" where
  "deleteImage env cluster nm =
     (let ns = getImageNamespace (ime_namespace env) in
      if js_trim cluster = [] then act_throw ''cluster is required''
      else if js_trim nm = [] then act_throw ''name is required''
      else with_custom (ime_dvs env) cluster (\<lambda>custom. with_pvcs env cluster (\<lambda>core.
        act_bind (read_if_there (api_delete_ns custom dv_gvp ns nm)) (\<lambda>deletedDv.
          act_catch (pva_delete core ns nm) (\<lambda>err.
            if deletedDv \<noteq> None then act_return ()
            else if image_absent err then act_throw (''Image \"'' @ nm @ ''\" was not found in '' @ ns)
            else save_error err)))))"

section \<open>A preference that is set is the one a launch reads\<close>

text \<open>
  Claims and DataVolumes of the image namespace: a read answers with the object or that it is absent, a
  replacement puts the object in place of the one of its name, or changes nothing; only an absent
  object is reported absent.
\<close>

definition image_store ::
  "('s \<Rightarrow> string \<Rightarrow> kube_pvc option) \<Rightarrow> ('s \<Rightarrow> string \<Rightarrow> kube_data_volume option) \<Rightarrow>
   's pvc_api \<Rightarrow> ('s, kube_data_volume) custom_api \<Rightarrow> string \<Rightarrow> bool" where
  "image_store P D core custom ns \<longleftrightarrow>
     (\<forall>nm s r t. pva_read core ns nm s = (r, t) \<longrightarrow> P t = P s \<and> D t = D s \<and>
        (case r of Inr p \<Rightarrow> P s nm = Some p | Inl e \<Rightarrow> image_absent e \<longleftrightarrow> P s nm = None)) \<and>
     (\<forall>nm b s r t. pva_replace core ns nm b s = (r, t) \<longrightarrow> D t = D s \<and>
        (case r of Inr p \<Rightarrow> P t = (P s)(nm \<mapsto> b) | Inl e \<Rightarrow> P t = P s \<and> (image_absent e \<longrightarrow> P s nm = None))) \<and>
     (\<forall>nm s r t. api_get_ns custom dv_gvp ns nm s = (r, t) \<longrightarrow> P t = P s \<and> D t = D s \<and>
        (case r of Inr d \<Rightarrow> D s nm = Some d | Inl e \<Rightarrow> image_absent e \<longleftrightarrow> D s nm = None)) \<and>
     (\<forall>nm b s r t. api_replace_ns custom dv_gvp ns nm b s = (r, t) \<longrightarrow> P t = P s \<and>
        (case r of Inr d \<Rightarrow> D t = (D s)(nm \<mapsto> b) | Inl e \<Rightarrow> D t = D s \<and> (image_absent e \<longrightarrow> D s nm = None)))"

lemma with_preference_get:
  "obj_get (with_preference pref labels) IMAGE_PREFERENCE_LABEL = pref"
  by (simp add: with_preference_def obj_get_assign obj_get_delete IMAGE_PREFERENCE_LABEL_def
      KMC_LABEL_NAMESPACE_def split: option.split)

lemma labelled_preference:
  assumes "pref = trim_or_undef p"
  shows "preferenceFromLabels (fld (kpv_metadata (labelled_pvc pref pvc)) om_labels) = pref"
    "preferenceFromLabels (fld (kdv_metadata (labelled_dv pref dv)) om_labels) = pref"
  by (simp_all add: preferenceFromLabels_def opt_get_def opt_obj_def labelled_pvc_def labelled_dv_def labelled_meta_def with_preference_get
      assms trim_or_undef_def opt_trim_def opt_or_undef_def or_undef_def js_trim_idem split: option.split)

lemma relabel_pvc_outcome:
  assumes "image_store P D core custom ns" "read_if_there (relabel_pvc core ns nm pref) s = (Inr r, t)"
  shows "D t = D s \<and> (case P s nm of None \<Rightarrow> r = None \<and> P t = P s
    | Some pvc \<Rightarrow> r \<noteq> None \<and> P t = (P s)(nm \<mapsto> labelled_pvc pref pvc))"
proof -
  obtain a u where a0: "pva_read core ns nm s = (a, u)" by fastforce
  then have a: "pva_read core ns nm s = (a, u)" "P u = P s" "D u = D s"
      "case a of Inr p \<Rightarrow> P s nm = Some p | Inl e \<Rightarrow> image_absent e \<longleftrightarrow> P s nm = None"
    using assms(1) unfolding image_store_def by blast+
  show ?thesis
  proof (cases a)
    case (Inl e)
    then show ?thesis using a assms(2)
      by (auto simp: read_if_there_def relabel_pvc_def act_simps save_error_def split: if_splits option.splits)
  next
    case (Inr pvc)
    obtain b v where b0: "pva_replace core ns nm (labelled_pvc pref pvc) u = (b, v)" by fastforce
    then have b: "pva_replace core ns nm (labelled_pvc pref pvc) u = (b, v)" "D v = D u"
        "case b of Inr p \<Rightarrow> P v = (P u)(nm \<mapsto> labelled_pvc pref pvc)
         | Inl e \<Rightarrow> P v = P u \<and> (image_absent e \<longrightarrow> P u nm = None)"
      using assms(1) unfolding image_store_def by blast+
    show ?thesis using a b Inr assms(2)
      by (cases b) (auto simp: read_if_there_def relabel_pvc_def act_simps save_error_def split: if_splits)
  qed
qed

lemma relabel_dv_outcome:
  assumes "image_store P D core custom ns" "read_if_there (relabel_dv custom ns nm pref) s = (Inr r, t)"
  shows "P t = P s \<and> (case D s nm of None \<Rightarrow> r = None \<and> D t = D s
    | Some dv \<Rightarrow> r \<noteq> None \<and> D t = (D s)(nm \<mapsto> labelled_dv pref dv))"
proof -
  obtain a u where a0: "api_get_ns custom dv_gvp ns nm s = (a, u)" by fastforce
  then have a: "api_get_ns custom dv_gvp ns nm s = (a, u)" "P u = P s" "D u = D s"
      "case a of Inr p \<Rightarrow> D s nm = Some p | Inl e \<Rightarrow> image_absent e \<longleftrightarrow> D s nm = None"
    using assms(1) unfolding image_store_def by blast+
  show ?thesis
  proof (cases a)
    case (Inl e)
    then show ?thesis using a assms(2)
      by (auto simp: read_if_there_def relabel_dv_def act_simps save_error_def split: if_splits option.splits)
  next
    case (Inr dv)
    obtain b v where b0: "api_replace_ns custom dv_gvp ns nm (labelled_dv pref dv) u = (b, v)" by fastforce
    then have b: "api_replace_ns custom dv_gvp ns nm (labelled_dv pref dv) u = (b, v)" "P v = P u"
        "case b of Inr p \<Rightarrow> D v = (D u)(nm \<mapsto> labelled_dv pref dv)
         | Inl e \<Rightarrow> D v = D u \<and> (image_absent e \<longrightarrow> D u nm = None)"
      using assms(1) unfolding image_store_def by blast+
    show ?thesis using a b Inr assms(2)
      by (cases b) (auto simp: read_if_there_def relabel_dv_def act_simps save_error_def split: if_splits)
  qed
qed

text \<open>What \<open>getImagePreference\<close> answers, by the objects that are stored.\<close>

definition stored_preference :: "kube_pvc option \<Rightarrow> kube_data_volume option \<Rightarrow> string option" where
  "stored_preference pvc dv =
     or_else (Option.bind pvc (\<lambda>p. preferenceFromLabels (fld (kpv_metadata p) om_labels)))
       (Option.bind dv (\<lambda>d. preferenceFromLabels (fld (kdv_metadata d) om_labels)))"

definition image_reads ::
  "('s \<Rightarrow> string \<Rightarrow> kube_pvc option) \<Rightarrow> ('s \<Rightarrow> string \<Rightarrow> kube_data_volume option) \<Rightarrow>
   's pvc_api \<Rightarrow> ('s, kube_data_volume) custom_api \<Rightarrow> string \<Rightarrow> 's \<Rightarrow> bool" where
  "image_reads P D core custom ns s \<longleftrightarrow>
     (\<forall>nm p. P s nm = Some p \<longrightarrow> fst (pva_read core ns nm s) = Inr p) \<and>
     (\<forall>nm d u. D u = D s \<and> D s nm = Some d \<longrightarrow> fst (api_get_ns custom dv_gvp ns nm u) = Inr d)"

lemma getImagePreference_stored:
  assumes "image_store P D core custom ns" "image_reads P D core custom ns s" "ns \<noteq> []"
    "ime_pvcs env cluster = Inr core" "ime_dvs env cluster = Inr custom"
  shows "fst (getImagePreference env cluster ns nm s) = Inr (stored_preference (P s nm) (D s nm))"
proof -
  obtain a u where a0: "pva_read core ns nm s = (a, u)" by fastforce
  then have a: "pva_read core ns nm s = (a, u)" "P u = P s" "D u = D s"
      "case a of Inr p \<Rightarrow> P s nm = Some p | Inl e \<Rightarrow> image_absent e \<longleftrightarrow> P s nm = None"
    using assms(1) unfolding image_store_def by blast+
  obtain b v where b0: "api_get_ns custom dv_gvp ns nm u = (b, v)" by fastforce
  then have b: "api_get_ns custom dv_gvp ns nm u = (b, v)" "P v = P u" "D v = D u"
      "case b of Inr p \<Rightarrow> D u nm = Some p | Inl e \<Rightarrow> image_absent e \<longleftrightarrow> D u nm = None"
    using assms(1) unfolding image_store_def by blast+
  have p: "P s nm = (case a of Inr p \<Rightarrow> Some p | Inl e \<Rightarrow> None)"
    using a assms(2) unfolding image_reads_def by (cases a; cases "P s nm") (auto, metis fst_conv sum.distinct(1))
  have d: "D s nm = (case b of Inr p \<Rightarrow> Some p | Inl e \<Rightarrow> None)"
    using a b assms(2) unfolding image_reads_def by (cases b; cases "D s nm") (auto, metis fst_conv sum.distinct(1))
  show ?thesis
    unfolding p d using a(1) b(1) assms(3-5)
    by (cases a; cases b) (auto simp: getImagePreference_def with_pvcs_def with_custom_def act_simps stored_preference_def
        or_else_def or_undef_def opt_default_def split: option.split)
qed

lemma update_stores_preference:
  assumes "updateImagePreference env cluster nm preference s = (Inr (), t)"
    "image_store P D core custom (getImageNamespace (ime_namespace env))"
    "ime_pvcs env cluster = Inr core" "ime_dvs env cluster = Inr custom"
  shows "stored_preference (P t nm) (D t nm) = trim_or_undef preference"
proof -
  let ?ns = "getImageNamespace (ime_namespace env)" and ?p = "trim_or_undef preference"
  obtain r1 u r2 where r1: "read_if_there (relabel_pvc core ?ns nm ?p) s = (Inr r1, u)" and
      r2: "read_if_there (relabel_dv custom ?ns nm ?p) u = (Inr r2, t)" and some: "r1 \<noteq> None \<or> r2 \<noteq> None"
    using assms(1,3,4)
    by (auto simp: updateImagePreference_def with_pvcs_def with_custom_def act_lift_def act_bind_def act_simps Let_def
        split: if_splits sum.splits prod.splits)
  have one: "D u = D s \<and> (case P s nm of None \<Rightarrow> r1 = None \<and> P u = P s
      | Some pvc \<Rightarrow> r1 \<noteq> None \<and> P u = (P s)(nm \<mapsto> labelled_pvc ?p pvc))"
    by (rule relabel_pvc_outcome [OF assms(2) r1])
  have two: "P t = P u \<and> (case D u nm of None \<Rightarrow> r2 = None \<and> D t = D u
      | Some dv \<Rightarrow> r2 \<noteq> None \<and> D t = (D u)(nm \<mapsto> labelled_dv ?p dv))"
    by (rule relabel_dv_outcome [OF assms(2) r2])
  show ?thesis
    using one two some labelled_preference [OF refl, of preference]
    by (cases "P s nm"; cases "D u nm") (auto simp: stored_preference_def or_else_def split: option.split)
qed

lemma image_namespace_given: "getImageNamespace configured \<noteq> []"
  by (auto simp: getImageNamespace_def opt_default_def trim_or_undef_def opt_or_undef_def or_undef_def
      split: option.splits if_splits)

section \<open>Properties\<close>

text \<open>
  C7. When setting or clearing the preference of a golden image has succeeded, the preference that the
  launch of a machine from this image reads is the one that was set, without surrounding blanks, or
  none; whether the image is a claim, a DataVolume or both.
\<close>

theorem preference_reads_back:
  assumes "updateImagePreference env cluster nm preference s = (Inr (), t)"
    and "ime_pvcs env cluster = Inr core" "ime_dvs env cluster = Inr custom"
    and "image_store P D core custom (getImageNamespace (ime_namespace env))"
    and "image_reads P D core custom (getImageNamespace (ime_namespace env)) t"
  shows "fst (getImagePreference env cluster (getImageNamespace (ime_namespace env)) nm t) = Inr (trim_or_undef preference)"
  using getImagePreference_stored [OF assms(4,5) image_namespace_given assms(2,3)]
    update_stores_preference [OF assms(1,4,2,3)]
  by simp

type_synonym lab_images = "(string \<Rightarrow> kube_pvc option) \<times> (string \<Rightarrow> kube_data_volume option)"

definition lab_pvcs :: "lab_images pvc_api" where
  "lab_pvcs =
     \<lparr>pva_list = (\<lambda>ns. act_return None),
      pva_read = (\<lambda>ns nm s. case fst s nm of None \<Rightarrow> (throw ''not found'', s) | Some p \<Rightarrow> (Inr p, s)),
      pva_replace = (\<lambda>ns nm b s. if fst s nm = None then (throw ''not found'', s)
        else (Inr b, ((fst s)(nm \<mapsto> b), snd s))),
      pva_delete = (\<lambda>ns nm. act_throw ''read only'')\<rparr>"

definition lab_image_dvs :: "(lab_images, kube_data_volume) custom_api" where
  "lab_image_dvs = idle_api\<lparr>
     api_get_ns := (\<lambda>g ns nm s. case snd s nm of None \<Rightarrow> (throw ''not found'', s) | Some d \<Rightarrow> (Inr d, s)),
     api_replace_ns := (\<lambda>g ns nm b s. if snd s nm = None then (throw ''not found'', s)
        else (Inr b, (fst s, (snd s)(nm \<mapsto> b))))\<rparr>"

definition lab_image_env :: "lab_images image_env" where
  "lab_image_env =
     \<lparr>ime_dvs = (\<lambda>c. Inr lab_image_dvs), ime_pvcs = (\<lambda>c. Inr lab_pvcs), ime_contexts = [''c''],
      ime_clusters = act_return [], ime_namespace = None, ime_le = (\<lambda>a b. True)\<rparr>"

definition lab_claim :: kube_pvc where
  "lab_claim = \<lparr>kpv_metadata = Some (new_meta (Some ''noble'') ''vm-images'' None None), kpv_spec = None,
     kpv_phase = Some ''Bound'', kpv_capacity = None\<rparr>"

lemma lab_absent: "image_absent (mk_error ''not found'')"
  by code_simp

lemma lab_image_store: "image_store fst snd lab_pvcs lab_image_dvs ns"
  unfolding image_store_def
  by (intro conjI allI impI; auto simp: lab_pvcs_def lab_image_dvs_def idle_api_def throw_def lab_absent
      split: option.splits if_splits)

lemma lab_image_reads: "image_reads fst snd lab_pvcs lab_image_dvs ns s"
  by (simp add: image_reads_def lab_pvcs_def lab_image_dvs_def idle_api_def)

definition lab_image_state :: lab_images where
  "lab_image_state = (Map.empty(''noble'' \<mapsto> lab_claim), Map.empty)"

lemma lab_preference_set: "res_ok (fst (updateImagePreference lab_image_env ''c'' ''noble'' (Some '' ubuntu '') lab_image_state))"
  by code_simp

theorem preference_reads_back_witness:
  "\<exists>t. updateImagePreference lab_image_env ''c'' ''noble'' (Some '' ubuntu '') lab_image_state = (Inr (), t) \<and>
     fst (getImagePreference lab_image_env ''c'' ''vm-images'' ''noble'' t) = Inr (Some ''ubuntu'')"
proof -
  obtain r t where rt: "updateImagePreference lab_image_env ''c'' ''noble'' (Some '' ubuntu '') lab_image_state = (r, t)"
    by (rule prod.exhaust)
  moreover from rt have "r = Inr ()" using lab_preference_set by (cases r) simp_all
  ultimately have t: "updateImagePreference lab_image_env ''c'' ''noble'' (Some '' ubuntu '') lab_image_state = (Inr (), t)"
    by simp
  have ns: "getImageNamespace (ime_namespace lab_image_env) = ''vm-images''" by code_simp
  have pref: "trim_or_undef (Some '' ubuntu '') = Some ''ubuntu''" by code_simp
  have "fst (getImagePreference lab_image_env ''c'' (getImageNamespace (ime_namespace lab_image_env)) ''noble'' t) =
      Inr (trim_or_undef (Some '' ubuntu ''))"
    by (rule preference_reads_back [OF t _ _ lab_image_store lab_image_reads]) (simp_all add: lab_image_env_def)
  then show ?thesis using t unfolding ns pref by blast
qed

end
