(* ===== verification/Instance_Types.thy ===== *)
theory Instance_Types
  imports Databases Vm_Rules Vm_Summary
begin

text \<open>
  \<open>instancetypes/*.ts\<close>: the sizes that machines are made in, which of them belong to the operator, the
  order in which they are offered, and their creation, update and deletion. \<open>fmt\<close> writes numbers that
  are not whole. Names that every JavaScript object inherits are not looked up as sizes or classes.
\<close>

section \<open>Classes and sizes\<close>

definition IT_LABEL :: "string \<Rightarrow> string" where "IT_LABEL k = ''instancetype.kubevirt.io/'' @ k"

definition CLASS_ORDER :: "string list" where
  "CLASS_ORDER = [''general.purpose'', ''overcommitted'', ''memory.intensive'', ''compute.exclusive'', ''dedicated.vcpu'',
     ''network'', ''realtime'']"

definition CLASS_LABELS :: "string jsobj" where
  "CLASS_LABELS = [(''general.purpose'', ''General purpose''), (''overcommitted'', ''Overcommitted''),
     (''memory.intensive'', ''Memory intensive''), (''compute.exclusive'', ''Compute exclusive''),
     (''dedicated.vcpu'', ''Dedicated vCPU''), (''network'', ''Network''), (''realtime'', ''Realtime'')]"

definition SIZE_RANK :: "nat jsobj" where
  "SIZE_RANK = [(''nano'', 10), (''micro'', 20), (''small'', 30), (''medium'', 40), (''2xmedium'', 45), (''large'', 50),
     (''large1gi'', 51), (''xlarge'', 60), (''xlarge1gi'', 61), (''2xlarge'', 70), (''2xlarge1gi'', 71),
     (''4xlarge'', 80), (''4xlarge1gi'', 81), (''8xlarge'', 90), (''8xlarge1gi'', 91)]"

definition BUILTIN_MANAGED_BY :: "string list" where
  "BUILTIN_MANAGED_BY = [''ssp-operator'', ''virt-operator'', ''common-instancetypes'']"

definition instanceTypeClassLabel :: "string option \<Rightarrow> string" where
  "instanceTypeClassLabel className =
     (case opt_or_undef className of None \<Rightarrow> ''Other'' | Some c \<Rightarrow> opt_default c (obj_get CLASS_LABELS c))"

definition deriveInstanceTypeSize :: "string option \<Rightarrow> string option \<Rightarrow> string option" where
  "deriveInstanceTypeSize nm szLabel =
     (case trim_or_undef szLabel of
        Some s \<Rightarrow> Some s
      | None \<Rightarrow>
          (let n = opt_str nm; suffix = js_slice_from n (js_last_index_of (CHR ''.'') n + 1) in
           if \<not> js_has_char (CHR ''.'') n then None
           else if suffix \<noteq> [] \<and> obj_get SIZE_RANK suffix \<noteq> None then Some suffix else None))"

text \<open>A type that the console manages is never built in; the labels of the operators' bundles are.\<close>

definition isBuiltinClusterInstanceType :: "string jsobj option \<Rightarrow> bool" where
  "isBuiltinClusterInstanceType labels \<longleftrightarrow>
     opt_get labels MANAGED_BY_LABEL \<noteq> Some KMC_MANAGED_BY \<and>
     (opt_get labels ''app.kubernetes.io/name'' = Some ''common-instancetypes'' \<or>
      truthy (opt_get labels (IT_LABEL ''vendor'')) \<or>
      opt_get labels MANAGED_BY_LABEL \<in> Some ` set BUILTIN_MANAGED_BY \<or>
      truthy (opt_get labels (IT_LABEL ''class'')))"

definition classRank :: "string option \<Rightarrow> nat" where
  "classRank className =
     (case opt_or_undef className of
        None \<Rightarrow> 1000
      | Some c \<Rightarrow> if c \<in> set CLASS_ORDER then length (takeWhile (\<lambda>x. x \<noteq> c) CLASS_ORDER) else 500)"

definition sizeRank :: "string option \<Rightarrow> string \<Rightarrow> nat" where
  "sizeRank sz nm =
     (case Option.bind (opt_or_undef sz) (obj_get SIZE_RANK) of
        Some r \<Rightarrow> r
      | None \<Rightarrow> opt_default 500 (Option.bind (deriveInstanceTypeSize (Some nm) None) (obj_get SIZE_RANK)))"

text \<open>What the order looks at; the number of cores is \<open>Number(a.cpu) || 0\<close>.\<close>

record sort_key =
  stk_name :: string
  stk_class :: "string option"
  stk_size :: "string option"
  stk_cpu :: js_num

definition instance_before :: "(string \<Rightarrow> string \<Rightarrow> bool) \<Rightarrow> sort_key \<Rightarrow> sort_key \<Rightarrow> bool" where
  "instance_before le a b =
     (let ca = classRank (stk_class a); cb = classRank (stk_class b);
          sa = sizeRank (stk_size a) (stk_name a); sb = sizeRank (stk_size b) (stk_name b) in
      if ca \<noteq> cb then ca < cb
      else if sa \<noteq> sb then sa < sb
      else if stk_cpu a \<noteq> stk_cpu b then num_less (stk_cpu a) (stk_cpu b)
      else le (stk_name a) (stk_name b))"

definition sortInstanceTypes :: "(string \<Rightarrow> string \<Rightarrow> bool) \<Rightarrow> ('a \<Rightarrow> sort_key) \<Rightarrow> 'a list \<Rightarrow> 'a list" where
  "sortInstanceTypes le key items = sort_by (\<lambda>a b. instance_before le (key a) (key b)) items"

section \<open>What the pickers offer\<close>

record instance_type_info =
  itf_name :: string
  itf_cpu :: "string option"
  itf_memory :: "string option"
  itf_class :: "string option"
  itf_size :: "string option"
  itf_vendor :: "string option"

definition number_or_zero :: "js_num \<Rightarrow> js_num" where
  "number_or_zero n = (if n = NaN then Fin 0 else n)"

definition info_key :: "instance_type_info \<Rightarrow> sort_key" where
  "info_key it =
     \<lparr>stk_name = itf_name it, stk_class = itf_class it, stk_size = itf_size it,
      stk_cpu = (case itf_cpu it of None \<Rightarrow> Fin 0 | Some s \<Rightarrow> number_or_zero (js_number s))\<rparr>"

definition instanceTypeOptionLabel :: "instance_type_info \<Rightarrow> string" where
  "instanceTypeOptionLabel it =
     (if truthy (itf_cpu it) \<or> truthy (itf_memory it)
      then itf_name it @ middle_dot @ opt_default ''?'' (itf_cpu it) @ ''c / '' @ opt_default ''?'' (itf_memory it)
      else itf_name it)"

definition class_key :: "instance_type_info \<Rightarrow> string" where
  "class_key it = opt_default ''__other__'' (trim_or_undef (itf_class it))"

text \<open>The known classes in their order, then the others by name, and those without a class last.\<close>

definition rest_before :: "(string \<Rightarrow> string \<Rightarrow> bool) \<Rightarrow> string \<Rightarrow> string \<Rightarrow> bool" where
  "rest_before le a b =
     (if a = ''__other__'' then b = ''__other__'' else if b = ''__other__'' then True else le a b)"

definition class_group :: "instance_type_info list \<Rightarrow> string \<Rightarrow> string \<times> (string \<times> string) list" where
  "class_group its key =
     (if key = ''__other__'' then ''Custom'' else instanceTypeClassLabel (Some key),
      map (\<lambda>it. (itf_name it, instanceTypeOptionLabel it)) (filter (\<lambda>it. class_key it = key) its))"

definition group_keys :: "(string \<Rightarrow> string \<Rightarrow> bool) \<Rightarrow> instance_type_info list \<Rightarrow> string list" where
  "group_keys le its =
     (let keys = js_uniq (map class_key its) in
      filter (\<lambda>c. c \<in> set keys) CLASS_ORDER @
      sort_by (rest_before le) (filter (\<lambda>k. k \<notin> set CLASS_ORDER) keys))"

definition instanceTypeSelectData ::
  "(string \<Rightarrow> string \<Rightarrow> bool) \<Rightarrow> instance_type_info list \<Rightarrow> (string \<times> (string \<times> string) list) list" where
  "instanceTypeSelectData le items =
     (let its = sortInstanceTypes le info_key items in map (class_group its) (group_keys le its))"

definition preferredInstanceTypeName :: "(string \<Rightarrow> string \<Rightarrow> bool) \<Rightarrow> instance_type_info list \<Rightarrow> string option" where
  "preferredInstanceTypeName le items =
     (if items = [] then None
      else case List.find (\<lambda>n. n \<in> itf_name ` set items) [''u1.medium'', ''u1.large'', ''u1.small'', ''o1.medium'', ''u1.xlarge''] of
        Some n \<Rightarrow> Some n
      | None \<Rightarrow> (case sortInstanceTypes le info_key (filter (\<lambda>it. itf_class it = Some ''general.purpose'') items) of
            g # gs \<Rightarrow> Some (itf_name g)
          | [] \<Rightarrow> (case sortInstanceTypes le info_key items of g # gs \<Rightarrow> Some (itf_name g) | [] \<Rightarrow> None)))"

section \<open>Objects and clients\<close>

record cluster_instance_type =
  cit_metadata :: "object_meta option"
  cit_resourceVersion :: "string option"
  cit_cpu :: "js_num option"
  cit_memory :: "string option"

record 's type_api =
  tya_list :: "('s, cluster_instance_type list option) act"
  tya_get :: "string \<Rightarrow> ('s, cluster_instance_type) act"
  tya_create :: "cluster_instance_type \<Rightarrow> ('s, cluster_instance_type) act"
  tya_replace :: "string \<Rightarrow> cluster_instance_type \<Rightarrow> ('s, cluster_instance_type) act"
  tya_delete :: "string \<Rightarrow> ('s, unit) act"

record 's type_env =
  tye_api :: "string \<Rightarrow> 's type_api result"
  tye_contexts :: "string list"
  tye_clusters :: "('s, cluster_info list) act"
  tye_le :: "string \<Rightarrow> string \<Rightarrow> bool"
  tye_fmt :: "rat \<Rightarrow> string"

definition with_types :: "'s type_env \<Rightarrow> string \<Rightarrow> ('s type_api \<Rightarrow> ('s, 'a) act) \<Rightarrow> ('s, 'a) act" where
  "with_types env cluster k = act_bind (act_lift (tye_api env cluster)) k"

record type_summary =
  tys_cluster :: string
  tys_name :: string
  tys_cpu :: js_num
  tys_memory :: string
  tys_age :: string
  tys_class :: "string option"
  tys_size :: "string option"
  tys_vendor :: "string option"
  tys_commonVersion :: "string option"
  tys_builtin :: bool

definition type_cores :: "js_num option \<Rightarrow> string option \<Rightarrow> js_num" where
  "type_cores spec label =
     (let n = (case spec of
          Some n \<Rightarrow> n
        | None \<Rightarrow> (case opt_or_undef label of Some l \<Rightarrow> js_number l | None \<Rightarrow> Fin 0)) in
      if js_is_finite n then n else Fin 0)"

definition mapTypeSummary :: "string \<Rightarrow> cluster_instance_type \<Rightarrow> type_summary" where
  "mapTypeSummary cluster it =
     (let md = cit_metadata it; labels = fld md om_labels; nm = opt_default ''unknown'' (fld md om_name) in
      \<lparr>tys_cluster = cluster, tys_name = nm, tys_cpu = type_cores (cit_cpu it) (opt_get labels (IT_LABEL ''cpu'')),
       tys_memory = opt_str (or_else (cit_memory it) (opt_get labels (IT_LABEL ''memory''))),
       tys_age = opt_str (fld md om_creationTimestamp), tys_class = opt_or_undef (opt_get labels (IT_LABEL ''class'')),
       tys_size = deriveInstanceTypeSize (Some nm) (opt_get labels (IT_LABEL ''size'')),
       tys_vendor = opt_or_undef (opt_get labels (IT_LABEL ''vendor'')),
       tys_commonVersion = opt_or_undef (opt_get labels (IT_LABEL ''common-instancetypes-version'')),
       tys_builtin = isBuiltinClusterInstanceType (Some (opt_obj labels))\<rparr>)"

record type_detail =
  tyd_summary :: type_summary
  tyd_uid :: "string option"
  tyd_labels :: "string jsobj"
  tyd_annotations :: "string jsobj"

definition mapTypeDetail :: "string \<Rightarrow> cluster_instance_type \<Rightarrow> type_detail" where
  "mapTypeDetail cluster it =
     (let md = cit_metadata it in
      \<lparr>tyd_summary = mapTypeSummary cluster it, tyd_uid = fld md om_uid, tyd_labels = opt_obj (fld md om_labels),
       tyd_annotations = shown_annotations (fld md om_annotations)\<rparr>)"

section \<open>Listing and reading\<close>

text \<open>A cluster without the resource has no types; it is not down.\<close>

definition type_rows :: "'s type_env \<Rightarrow> string \<Rightarrow> ('s, type_summary list) act" where
  "type_rows env cid =
     act_catch
       (with_types env cid (\<lambda>api. act_bind (tya_list api) (\<lambda>items.
          act_return (map (mapTypeSummary cid) (opt_default [] items)))))
       (\<lambda>err. if js_includes (error_text err) ''not found'' \<or> js_includes (error_text err) ''404'' \<or>
                 js_includes (error_text err) ''could not find''
              then act_return [] else act_fail err)"

definition summary_key :: "type_summary \<Rightarrow> sort_key" where
  "summary_key it = \<lparr>stk_name = tys_name it, stk_class = tys_class it, stk_size = tys_size it,
     stk_cpu = number_or_zero (tys_cpu it)\<rparr>"

definition sorted_types :: "(string \<Rightarrow> string \<Rightarrow> bool) \<Rightarrow> type_summary list \<Rightarrow> type_summary list" where
  "sorted_types le items =
     concat (map (\<lambda>c. sortInstanceTypes le summary_key (filter (\<lambda>it. tys_cluster it = c) items))
       (js_sort (js_uniq (map tys_cluster items))))"

definition listClusterInstanceTypes ::
  "'s type_env \<Rightarrow> string option \<Rightarrow> ('s, type_summary list \<times> cluster_info list) act" where
  "listClusterInstanceTypes env clusterFilter =
     act_bind (tye_clusters env) (\<lambda>clusters.
     act_bind (fan_out format_error True (type_rows env) (wanted_clusters (tye_contexts env) clusterFilter) clusters)
       (\<lambda>(items, final). act_return (sorted_types (tye_le env) items, final)))"

definition getClusterInstanceType :: "'s type_env \<Rightarrow> string \<Rightarrow> string \<Rightarrow> ('s, type_detail) act" where
  "getClusterInstanceType env cluster nm =
     with_types env cluster (\<lambda>api.
       act_catch (act_bind (tya_get api nm) (\<lambda>it. act_return (mapTypeDetail cluster it)))
         (\<lambda>err. if js_includes (format_error err) ''404'' \<or> js_includes (error_text err) ''not found''
                then act_fail (ResponseObj ''Instance type not found'' 404) else save_error err))"

section \<open>Creating, updating and deleting\<close>

record upsert_type_request =
  utq_cluster :: string
  utq_name :: string
  utq_cpu :: js_num
  utq_memory :: string

definition validateTypeUpsert :: "upsert_type_request \<Rightarrow> unit result" where
  "validateTypeUpsert inp =
     (if js_trim (utq_cluster inp) = [] then throw ''cluster is required''
      else if js_trim (utq_name inp) = [] then throw ''name is required''
      else if \<not> js_is_finite (utq_cpu inp) \<or> num_less (utq_cpu inp) (Fin 1) then throw ''cpu must be a positive integer''
      else if js_trim (utq_memory inp) = [] then throw ''memory is required''
      else Inr ())"

definition type_labels :: "(rat \<Rightarrow> string) \<Rightarrow> upsert_type_request \<Rightarrow> string jsobj" where
  "type_labels fmt inp =
     [(MANAGED_BY_LABEL, KMC_MANAGED_BY), (IT_LABEL ''cpu'', num_text fmt (utq_cpu inp)), (IT_LABEL ''memory'', utq_memory inp)]"

definition type_body :: "(rat \<Rightarrow> string) \<Rightarrow> upsert_type_request \<Rightarrow> cluster_instance_type" where
  "type_body fmt inp =
     \<lparr>cit_metadata = Some \<lparr>om_name = Some (utq_name inp), om_generateName = None, om_namespace = None, om_uid = None,
        om_creationTimestamp = None, om_labels = Some (obj_lit (type_labels fmt inp)), om_annotations = None\<rparr>,
      cit_resourceVersion = None, cit_cpu = Some (utq_cpu inp), cit_memory = Some (utq_memory inp)\<rparr>"

definition assertMutable :: "cluster_instance_type \<Rightarrow> bool \<Rightarrow> unit result" where
  "assertMutable it updating =
     (if isBuiltinClusterInstanceType (fld (cit_metadata it) om_labels)
      then throw (''Instance type \"'' @ opt_default ''unknown'' (fld (cit_metadata it) om_name) @
        ''\" is built-in (provided by the KubeVirt operator / common-instancetypes) and cannot be '' @
        (if updating then ''edited'' else ''deleted''))
      else Inr ())"

definition createClusterInstanceType :: "'s type_env \<Rightarrow> upsert_type_request \<Rightarrow> ('s, type_summary) act" where
  "createClusterInstanceType env inp =
     act_seq (act_lift (validateTypeUpsert inp))
     (with_types env (utq_cluster inp) (\<lambda>api.
       act_catch
         (act_bind (tya_create api (type_body (tye_fmt env) inp)) (\<lambda>created.
            act_return (mapTypeSummary (utq_cluster inp) created)))
         save_error))"

definition updated_type :: "(rat \<Rightarrow> string) \<Rightarrow> upsert_type_request \<Rightarrow> cluster_instance_type \<Rightarrow> cluster_instance_type" where
  "updated_type fmt inp it =
     (let md = opt_default \<lparr>om_name = None, om_generateName = None, om_namespace = None, om_uid = None,
            om_creationTimestamp = None, om_labels = None, om_annotations = None\<rparr> (cit_metadata it) in
      it\<lparr>cit_metadata := Some (md\<lparr>om_labels := Some (obj_spread (opt_obj (om_labels md)) (type_labels fmt inp))\<rparr>),
         cit_cpu := Some (utq_cpu inp), cit_memory := Some (utq_memory inp)\<rparr>)"

definition updateClusterInstanceType :: "'s type_env \<Rightarrow> upsert_type_request \<Rightarrow> ('s, type_summary) act" where
  "updateClusterInstanceType env inp =
     act_seq (act_lift (validateTypeUpsert inp))
     (with_types env (utq_cluster inp) (\<lambda>api.
       act_catch
         (act_bind (tya_get api (utq_name inp)) (\<lambda>existing.
          act_seq (act_lift (assertMutable existing True))
          (act_bind (tya_replace api (utq_name inp) (updated_type (tye_fmt env) inp existing)) (\<lambda>updated.
            act_return (mapTypeSummary (utq_cluster inp) updated)))))
         save_error))"

definition deleteClusterInstanceType :: "'s type_env \<Rightarrow> string \<Rightarrow> string \<Rightarrow> ('s, unit) act" where
  "deleteClusterInstanceType env cluster nm =
     with_types env cluster (\<lambda>api.
       act_catch
         (act_bind (tya_get api nm) (\<lambda>existing.
          act_seq (act_lift (assertMutable existing False)) (tya_delete api nm)))
         save_error)"

section \<open>Lemmas\<close>

text \<open>What is written by the console is not built in, so the console can change it again.\<close>

lemma managed_is_not_builtin:
  "obj_get (opt_obj labels) MANAGED_BY_LABEL = Some KMC_MANAGED_BY \<Longrightarrow> \<not> isBuiltinClusterInstanceType labels"
  by (simp add: isBuiltinClusterInstanceType_def opt_get_def)

lemma type_labels_managed: "obj_get (obj_spread ob (type_labels fmt inp)) MANAGED_BY_LABEL = Some KMC_MANAGED_BY"
  by (simp add: type_labels_def obj_spread_def obj_get_put MANAGED_BY_LABEL_def IT_LABEL_def)

lemma written_types_are_mutable:
  "\<not> isBuiltinClusterInstanceType (fld (cit_metadata (type_body fmt inp)) om_labels)"
  "\<not> isBuiltinClusterInstanceType (fld (cit_metadata (updated_type fmt inp it)) om_labels)"
  by (simp_all add: type_body_def updated_type_def Let_def managed_is_not_builtin opt_obj_def obj_lit_def type_labels_managed)

text \<open>A type of the operator survives every update and deletion: only reads are made of it.\<close>

lemma builtin_types_survive:
  assumes "\<And>s r t. tya_get api nm s = (r, t) \<Longrightarrow> V t = V s \<and> (\<forall>it. r = Inr it \<longrightarrow> V s nm = Some it)"
    and "tye_api env cluster = Inr api" "V s nm = Some it"
    and "isBuiltinClusterInstanceType (fld (cit_metadata it) om_labels)"
  shows "V (snd (deleteClusterInstanceType env cluster nm s)) = V s"
    "utq_name inp = nm \<Longrightarrow> utq_cluster inp = cluster \<Longrightarrow> V (snd (updateClusterInstanceType env inp s)) = V s"
proof -
  obtain r t where g: "tya_get api nm s = (r, t)" by fastforce
  have v: "V t = V s" "r = Inr it' \<Longrightarrow> it' = it" for it' using assms(1) [OF g] assms(3) by auto
  show "V (snd (deleteClusterInstanceType env cluster nm s)) = V s"
    using g v assms(2,4)
    by (cases r) (auto simp: deleteClusterInstanceType_def with_types_def act_simps assertMutable_def throw_def save_error_def)
  show "utq_name inp = nm \<Longrightarrow> utq_cluster inp = cluster \<Longrightarrow> V (snd (updateClusterInstanceType env inp s)) = V s"
    using g v assms(2,4)
    by (cases r) (auto simp: updateClusterInstanceType_def with_types_def act_simps assertMutable_def throw_def save_error_def
        split: sum.split)
qed

text \<open>Every type is offered once, in the group of its class.\<close>

lemma distinct_group_keys: "distinct (group_keys le its)"
proof -
  have d: "distinct (sort_by le' xs)" if "distinct xs" for le' and xs :: "string list"
    using that by (metis mset_sort_by mset_eq_imp_distinct_iff)
  have "distinct CLASS_ORDER" by (simp add: CLASS_ORDER_def)
  then show ?thesis by (auto simp: group_keys_def Let_def distinct_js_uniq intro!: d)
qed

lemma set_group_keys: "set (group_keys le its) = class_key ` set its"
  by (auto simp: group_keys_def Let_def set_js_uniq)

lemma mset_partition:
  "distinct ks \<Longrightarrow> f ` set xs \<subseteq> set ks \<Longrightarrow> mset (concat (map (\<lambda>k. filter (\<lambda>x. f x = k) xs) ks)) = mset xs"
proof (induction ks arbitrary: xs)
  case Nil
  then show ?case by simp
next
  case (Cons k ks)
  let ?rest = "filter (\<lambda>x. f x \<noteq> k) xs"
  have "map (\<lambda>j. filter (\<lambda>x. f x = j) xs) ks = map (\<lambda>j. filter (\<lambda>x. f x = j) ?rest) ks"
    using Cons.prems(1) by (auto intro!: filter_cong)
  moreover have "mset (concat (map (\<lambda>j. filter (\<lambda>x. f x = j) ?rest) ks)) = mset ?rest"
    using Cons.prems by (intro Cons.IH) auto
  moreover have "mset xs = mset (filter (\<lambda>x. f x = k) xs) + mset ?rest"
    using multiset_partition [of "mset xs" "\<lambda>x. f x = k"] by (simp only: mset_filter)
  ultimately show ?case by (simp only: list.map concat.simps mset_append)
qed

lemma every_type_is_offered_once:
  "mset (map fst (concat (map snd (instanceTypeSelectData le items)))) = mset (map itf_name items)"
proof -
  define its where "its = sortInstanceTypes le info_key items"
  let ?part = "concat (map (\<lambda>k. filter (\<lambda>it. class_key it = k) its) (group_keys le its))"
  have "map fst (concat (map snd (instanceTypeSelectData le items))) = map itf_name ?part"
    by (simp add: instanceTypeSelectData_def Let_def its_def [symmetric] class_group_def map_concat comp_def)
  moreover have "mset ?part = mset its"
    by (rule mset_partition) (simp_all add: distinct_group_keys set_group_keys)
  moreover have "mset its = mset items"
    by (simp add: its_def sortInstanceTypes_def mset_sort_by)
  ultimately show ?thesis by (metis mset_map)
qed

end
