(* ===== verification/Spec2Isabelle.thy ===== *)
theory Spec2Isabelle
  imports Claim_Store Netplan Vlan_Pools Resource_Paths Vm_Rules Backends Auth_Policy Namespaces Bulk_Actions Vpc_Forwards Vm_Lifecycle Routers
    Snapshot_Runs Schedule_Docs Images Instance_Types
begin

text \<open>
  A model of the console of kmc, a web console for KubeVirt clusters, with its properties. The
  program is the TypeScript server under \<open>src/console/app\<close>; paths below are relative to it.

  \<^bold>\<open>The program.\<close> A page of the console loads and submits through functions of the server
  modules (\<open>*.server.ts\<close>). They keep no state of their own: the state is the objects of the
  clusters, which they read and write through the clients of \<open>lib/k8s/clients.server.ts\<close>. A
  controller in Go reconciles the networking objects on the cluster side.
  \<^item> Addresses: \<open>lib/ipam/pools.server.ts\<close> allocates from pools, and leases an address by creating
    an \<open>IPAddress\<close> object (\<open>lib/ipam/ipaddress-cr.server.ts\<close>); \<open>lib/ipam/cidr.ts\<close> has the arithmetic,
    \<open>lib/ipam/netplan.ts\<close> what the guest is told.
  \<^item> Networks: \<open>vpcs/vpcs.server.ts\<close> has networks, floating addresses and port forwards,
    \<open>vpcs/routers.server.ts\<close> the routers between them;
    \<open>lib/k8s/networking-cr.server.ts\<close> the objects and the calls they share.
  \<^item> Machines: \<open>vms/vms.server.ts\<close> creates them (from \<open>vms/template.server.ts\<close> and the cloud-init documents
    of \<open>vms/cloud-init.ts\<close>), gives them disks, starts, stops and deletes them.
  \<^item> Routes: \<open>httproutes/*.ts\<close> has routes to machines. Dev Boxes (\<open>devboxes/*.ts\<close>) are machines with an
    editor behind such a route and a sign-in.
  \<^item> Snapshots: \<open>snapshots/*.ts\<close> takes and restores snapshots of machines, and keeps schedules: a ConfigMap
    with a JSON document, an account and a CronJob, whose runs snapshot a machine and prune.
  \<^item> Load balancing: \<open>backends/*.ts\<close> turns a set of VMs into a Service, by labels it stamps on VMs.
  \<^item> Databases (\<open>databases/*.ts\<close>) and buckets (\<open>object-storage/*.ts\<close>): objects of two operators, and the
    credentials that these write into Secrets. Disks: \<open>datavolumes/*.ts\<close>. Images: \<open>images/*.ts\<close> and
    \<open>lib/k8s/image-catalog.server.ts\<close>. Sizes: \<open>instancetypes/*.ts\<close>. Their lists ask every cluster, with
    the health that \<open>listClusters\<close> of \<open>vms/vms.server.ts\<close> keeps in a process-local cache.
  \<^item> Namespaces and quotas: \<open>namespaces/*.ts\<close>. Bulk actions: \<open>lib/bulk-action.ts\<close>.
  \<^item> Access: \<open>lib/auth/*.ts\<close>. Shared helpers: \<open>lib/format.ts\<close>, \<open>lib/errors.ts\<close>.

  \<^bold>\<open>How it is modelled.\<close> A function that cannot fail is a HOL function; one that can throw returns a
  \<open>result\<close> (a thrown value or a value); an asynchronous one is an \<open>act\<close>: from the state of the outside
  world to a result and the state after it (\<open>Js_Effects\<close>). The world has any type. The clients are
  records of calls on it, given as parameters: \<open>custom_api\<close> for the custom objects API of a plural
  (\<open>Net_Resources\<close>), \<open>core_api\<close>, \<open>ns_api\<close> and others where they are used. Nothing is assumed of a call
  unless a property says so, with a predicate that states documented behaviour: \<open>api_contract\<close>
  (a claim is created once), \<open>vm_store\<close>, \<open>service_store\<close>, \<open>forward_store\<close>, \<open>network_reads\<close> and
  \<open>disk_reads\<close> (reads change nothing), \<open>router_store\<close>, \<open>snapshot_store\<close>, \<open>map_store\<close>, \<open>image_store\<close>, \<open>lists_machines\<close>, \<open>service_view\<close>,
  \<open>clock_advances\<close>. Each has an instance in the same theory, on which the witnesses run.
  Calls may include what other clients of the cluster do meanwhile, so the properties hold of
  interleaved clients where the contract allows it.

  JavaScript's values are modelled in \<open>Js_Prelude\<close> (strings as lists of chars below 256, with the
  dash and the comparison signs above it written in ASCII), \<open>Js_Number\<close> and \<open>Js_Format\<close> (binary64 and
  its text; the shortest text of a fraction is a parameter), \<open>Js_Object\<close> (objects with the order of
  their keys), \<open>Json\<close> (with fuel \<open>2 * length + 2\<close>, which no text exceeds). The order of \<open>localeCompare\<close>
  and the reading of dates are parameters, as are random bytes, fresh secrets, the parser of URLs, the
  clock and the answers of the subresource calls.

  \<^bold>\<open>The theories\<close>, in the order of the code's dependencies:
  \<^item> \<open>Errors\<close> (\<open>lib/errors.ts\<close>): flattening of thrown values, over trees and over cyclic heaps; the
    predicates by which each client recognises a status.
  \<^item> \<open>Cidr\<close>: texts, blocks, host windows, the search for a free address. C4, C6.
  \<^item> \<open>Net_Resources\<close>, \<open>Frames\<close>: objects and calls; which part of the world a call leaves alone.
  \<^item> \<open>Ip_Claims\<close>, \<open>Ip_Pools\<close>, \<open>Claim_Store\<close>: claims, the allocation loop (64 attempts, as in the code),
    and the steps of several allocating clients as an inductive relation. C1 to C3, C9.
  \<^item> \<open>Netplan\<close>: the documents of guests and routers and their annotations. C10 to C12.
  \<^item> \<open>Vlan_Pools\<close>, \<open>Vm_Rules\<close> (\<open>lib/format.ts\<close>; C13), \<open>Resource_Paths\<close> (URLs; C15).
  \<^item> \<open>Membership\<close>, \<open>Group_Stamp\<close> (C19), \<open>Backend_Template\<close>, \<open>Backends\<close> (C20 to C24): the Service of a
    group refines the set of its stamped VMs.
  \<^item> \<open>Auth_Policy\<close>: who gets where. C25 to C27.
  \<^item> \<open>Quotas\<close>, \<open>Namespaces\<close> (C28, C29), \<open>Vm_Namespaces\<close> (the guard of every creation), \<open>Bulk_Actions\<close>
    (C30, C31).
  \<^item> \<open>Vpc_Views\<close>, \<open>Vpcs\<close> (C32), \<open>Vpc_Forwards\<close> (C33, C34): networks and what maps through their routers.
    The wait for an address is a loop over the clock; its bound of 75 rounds is the timeout over
    the interval, and C33 shows that the clock ends it first.
  \<^item> \<open>Invariants\<close>, \<open>Routers\<close> (C17): triples for operations that keep an invariant whatever they
    answer, and the routers, whose shape every sequence of operations keeps.
  \<^item> \<open>Cloud_Init\<close>, \<open>Vm_Template\<close>, \<open>Static_Nads\<close>: what a new machine is given; \<open>vm_wf\<close> is the shape of a
    VirtualMachine (every disk has a volume, every interface a network, names are distinct).
  \<^item> \<open>Vm_Disks\<close>: the disks of machines and which of them are free. C35, C36.
  \<^item> \<open>Vm_Summary\<close>, \<open>Vm_Create\<close> (C39), \<open>Vm_Lifecycle\<close> (C40): rows, creation with its roll back, editing,
    power, deletion.
  \<^item> \<open>Http_Routes\<close> (C37), \<open>Dev_Box_Oidc\<close> (C38: 32-bit words against the plain base-32 text),
    \<open>Dev_Box_Access\<close>.
  \<^item> \<open>Snapshots\<close> (C18), \<open>Snapshot_Schedules\<close>, \<open>Schedule_Docs\<close> (C14: the document that is written reads back),
    \<open>Snapshot_Runs\<close> (C8: what a run deletes and keeps).
  \<^item> \<open>Http_Client\<close>, \<open>Cluster_Lists\<close> (C16: the cache of probes as an inductive relation): the health of
    clusters and the loop over them (\<open>fan_out\<close>), which lists every reachable cluster completely.
  \<^item> \<open>Secrets\<close>, \<open>Databases\<close>, \<open>Object_Storage\<close>: a Secret that is encoded reads back; a manifest is shown as
    it was asked for; a psql session gets the credentials of the Secret.
  \<^item> \<open>Data_Volumes\<close> (C5: the disks that are offered against the check of \<open>Vm_Disks\<close>), \<open>Images\<close> (C7),
    \<open>Instance_Types\<close>.
  \<^item> \<open>Interfaces\<close>: the locales. \<open>codec\<close> (an encoder and its reader) is interpreted by
    address texts, URI components and form encoding; \<open>free_search\<close> (a search that marks what it finds
    taken) by the search for a free address.

  \<^bold>\<open>Not modelled.\<close> The process-local lock around an allocation (the contract on creation is what makes
  leases unique, with or without it); logging; the React routes and components, which parse forms
  and call the functions here; consoles, metrics and topology, which stream or read external
  servers; YAML views; the construction of clients from kubeconfigs; the encryption of the session
  cookie and the HTTP of the GitHub login; the controller and the router agent, which are not
  TypeScript. Lists that the code reads with \<open>Promise.all\<close> are read one cluster after another. Of the
  server modules, those of SSH keys and of the creation of Dev Boxes, and the list of machines.
\<close>

end
